(* ===== verification/Hostlet_Prelude.thy ===== *)
theory Hostlet_Prelude
  imports Main "HOL-Library.Word" "HOL-Library.Multiset"
begin

text \<open>
  Shared vocabulary of the development.

  \<^item> Rust strings.  A Rust \<open>String\<close> is a sequence of bytes in UTF-8, which is what a HOL
    \<open>string\<close> (a list of 8-bit characters) holds: \<open>length\<close> is Rust's \<open>len()\<close>.  The operations
    that look at Unicode scalar values go through \<open>chars\<close>, the decoder behind Rust's
    \<open>str::chars\<close>; \<open>utf8\<close> is the encoder, and \<open>chars_utf8\<close> shows that decoding inverts it.
  \<^item> Decimal numbers as \<open>format!\<close> prints them (\<open>show_nat\<close>) and as \<open>str::parse::<i64>\<close> reads
    them (\<open>parse_i64\<close>).
  \<^item> Two interfaces used by several components: \<open>appender\<close>, the contract of every validator that
    pushes onto an error vector, and \<open>guarded_machine\<close>, a transition system with an inductive
    invariant.
\<close>

named_theorems accept_simps \<open>when a validator leaves its error vector empty\<close>
named_theorems append_simps \<open>validators only append to their error vector\<close>

type_synonym uuid = "128 word"
type_synonym timestamp = int

section \<open>Bytes and Unicode scalar values\<close>

abbreviation byte :: "char \<Rightarrow> nat" where
  "byte c \<equiv> of_char c"

text \<open>
  \<open>str::chars\<close>: the first byte of a sequence says how many continuation bytes follow.  A
  truncated sequence cannot occur in a Rust string; the decoder stops there.
\<close>

fun chars :: "string \<Rightarrow> nat list" where
  "chars [] = []"
| "chars (b # s) =
    (if byte b < 128 then byte b # chars s
     else if byte b < 224 then
       (case s of
          c1 # s' \<Rightarrow> (byte b mod 32 * 64 + byte c1 mod 64) # chars s'
        | _ \<Rightarrow> [])
     else if byte b < 240 then
       (case s of
          c1 # c2 # s' \<Rightarrow>
            (byte b mod 16 * 4096 + byte c1 mod 64 * 64 + byte c2 mod 64) # chars s'
        | _ \<Rightarrow> [])
     else
       (case s of
          c1 # c2 # c3 # s' \<Rightarrow>
            (byte b mod 8 * 262144 + byte c1 mod 64 * 4096 + byte c2 mod 64 * 64
             + byte c3 mod 64) # chars s'
        | _ \<Rightarrow> []))"

definition utf8_char :: "nat \<Rightarrow> string" where
  "utf8_char c =
    (if c < 128 then [char_of c]
     else if c < 2048 then [char_of (192 + c div 64), char_of (128 + c mod 64)]
     else if c < 65536 then
       [char_of (224 + c div 4096), char_of (128 + c div 64 mod 64), char_of (128 + c mod 64)]
     else
       [char_of (240 + c div 262144), char_of (128 + c div 4096 mod 64),
        char_of (128 + c div 64 mod 64), char_of (128 + c mod 64)])"

definition utf8 :: "nat list \<Rightarrow> string" where
  "utf8 cs = concat (map utf8_char cs)"

text \<open>Rust's \<open>char::is_control\<close> (general category Cc) and \<open>char::is_whitespace\<close>.\<close>

definition is_control :: "nat \<Rightarrow> bool" where
  "is_control c \<longleftrightarrow> c < 32 \<or> (127 \<le> c \<and> c < 160)"

definition is_whitespace :: "nat \<Rightarrow> bool" where
  "is_whitespace c \<longleftrightarrow>
     (9 \<le> c \<and> c \<le> 13) \<or> c = 32 \<or> c = 133 \<or> c = 160 \<or> c = 5760 \<or> (8192 \<le> c \<and> c \<le> 8202)
     \<or> c = 8232 \<or> c = 8233 \<or> c = 8239 \<or> c = 8287 \<or> c = 12288"

definition trim :: "string \<Rightarrow> string" where
  "trim s = utf8 (rev (dropWhile is_whitespace (rev (dropWhile is_whitespace (chars s)))))"

text \<open>
  \<open>String::from_utf8\<close> accepts exactly the well-formed UTF-8 sequences: shortest forms only, no
  surrogates, nothing above U+10FFFF.
\<close>

definition continuation :: "char \<Rightarrow> bool" where
  "continuation b \<longleftrightarrow> 128 \<le> byte b \<and> byte b \<le> 191"

fun valid_utf8 :: "string \<Rightarrow> bool" where
  "valid_utf8 [] = True"
| "valid_utf8 (a # s) =
     (if byte a < 128 then valid_utf8 s
      else if 194 \<le> byte a \<and> byte a \<le> 223
      then (case s of b # s1 \<Rightarrow> continuation b \<and> valid_utf8 s1 | _ \<Rightarrow> False)
      else if 224 \<le> byte a \<and> byte a \<le> 239
      then (case s of
              b # c # s2 \<Rightarrow> continuation b \<and> continuation c \<and> (byte a = 224 \<longrightarrow> 160 \<le> byte b)
                          \<and> (byte a = 237 \<longrightarrow> byte b \<le> 159) \<and> valid_utf8 s2
            | _ \<Rightarrow> False)
      else if 240 \<le> byte a \<and> byte a \<le> 244
      then (case s of
              b # c # d # s3 \<Rightarrow> continuation b \<and> continuation c \<and> continuation d
                              \<and> (byte a = 240 \<longrightarrow> 144 \<le> byte b)
                              \<and> (byte a = 244 \<longrightarrow> byte b \<le> 143) \<and> valid_utf8 s3
            | _ \<Rightarrow> False)
      else False)"

section \<open>ASCII classes\<close>

definition is_ascii_digit :: "char \<Rightarrow> bool" where
  "is_ascii_digit c \<longleftrightarrow> 48 \<le> byte c \<and> byte c \<le> 57"

definition is_ascii_alphabetic :: "char \<Rightarrow> bool" where
  "is_ascii_alphabetic c \<longleftrightarrow> (65 \<le> byte c \<and> byte c \<le> 90) \<or> (97 \<le> byte c \<and> byte c \<le> 122)"

definition is_ascii_alphanumeric :: "char \<Rightarrow> bool" where
  "is_ascii_alphanumeric c \<longleftrightarrow> is_ascii_alphabetic c \<or> is_ascii_digit c"

definition is_ascii_hexdigit :: "char \<Rightarrow> bool" where
  "is_ascii_hexdigit c \<longleftrightarrow>
     is_ascii_digit c \<or> (65 \<le> byte c \<and> byte c \<le> 70) \<or> (97 \<le> byte c \<and> byte c \<le> 102)"

definition is_ascii_graphic :: "char \<Rightarrow> bool" where
  "is_ascii_graphic c \<longleftrightarrow> 33 \<le> byte c \<and> byte c \<le> 126"

definition is_ascii_control :: "char \<Rightarrow> bool" where
  "is_ascii_control c \<longleftrightarrow> byte c < 32 \<or> byte c = 127"

definition is_ascii_uppercase :: "char \<Rightarrow> bool" where
  "is_ascii_uppercase c \<longleftrightarrow> 65 \<le> byte c \<and> byte c \<le> 90"

definition to_ascii_lowercase :: "char \<Rightarrow> char" where
  "to_ascii_lowercase c = (if is_ascii_uppercase c then char_of (byte c + 32) else c)"

lemmas ascii_class_defs =
  is_ascii_digit_def is_ascii_alphabetic_def is_ascii_alphanumeric_def is_ascii_hexdigit_def
  is_ascii_graphic_def is_ascii_control_def

section \<open>Splitting and prefixes\<close>

text \<open>\<open>str::split\<close> on one character: always at least one segment.\<close>

fun split_on :: "char \<Rightarrow> string \<Rightarrow> string list" where
  "split_on c [] = [[]]"
| "split_on c (x # xs) =
    (if x = c then [] # split_on c xs
     else (case split_on c xs of [] \<Rightarrow> [[x]] | seg # segs \<Rightarrow> (x # seg) # segs))"

fun join_with :: "char \<Rightarrow> string list \<Rightarrow> string" where
  "join_with c [] = []"
| "join_with c [s] = s"
| "join_with c (s # t # ss) = s @ c # join_with c (t # ss)"

fun strip_prefix :: "string \<Rightarrow> string \<Rightarrow> string option" where
  "strip_prefix [] s = Some s"
| "strip_prefix (p # ps) [] = None"
| "strip_prefix (p # ps) (x # xs) = (if p = x then strip_prefix ps xs else None)"

definition strip_suffix :: "string \<Rightarrow> string \<Rightarrow> string option" where
  "strip_suffix p s = map_option rev (strip_prefix (rev p) (rev s))"

definition starts_with :: "string \<Rightarrow> string \<Rightarrow> bool" where
  "starts_with p s \<longleftrightarrow> strip_prefix p s \<noteq> None"

definition ends_with :: "string \<Rightarrow> string \<Rightarrow> bool" where
  "ends_with p s \<longleftrightarrow> strip_suffix p s \<noteq> None"

section \<open>Decimal numbers\<close>

fun show_nat :: "nat \<Rightarrow> string" where
  "show_nat n =
    (if n < 10 then [char_of (48 + n)] else show_nat (n div 10) @ [char_of (48 + n mod 10)])"

declare show_nat.simps [simp del]

text \<open>\<open>format!("{base}[{index}]")\<close>, the path of an element of a collection.\<close>

definition indexed :: "string \<Rightarrow> nat \<Rightarrow> string" where
  "indexed base index = base @ ''['' @ show_nat index @ '']''"

fun digits_value :: "int \<Rightarrow> string \<Rightarrow> int option" where
  "digits_value acc [] = Some acc"
| "digits_value acc (c # s) =
    (if is_ascii_digit c then digits_value (acc * 10 + (int (byte c) - 48)) s else None)"

text \<open>
  \<open>str::parse::<i64>\<close>: an optional sign, at least one digit, and an error when the value leaves
  the range of \<open>i64\<close>.
\<close>

definition parse_i64 :: "string \<Rightarrow> int option" where
  "parse_i64 s =
    (let (neg, ds) =
       (case s of
          c # rest \<Rightarrow>
            if c = CHR ''+'' then (False, rest)
            else if c = CHR ''-'' then (True, rest)
            else (False, s)
        | [] \<Rightarrow> (False, s))
     in if ds = [] then None
        else (case digits_value 0 ds of
                None \<Rightarrow> None
              | Some v \<Rightarrow>
                  (let r = (if neg then - v else v)
                   in if - (2 ^ 63) \<le> r \<and> r < 2 ^ 63 then Some r else None)))"

section \<open>Facts about bytes and scalar values\<close>

lemma byte_less_256 [simp]: "byte c < 256"
  by simp

lemma lead_byte_mod:
  "(192 + x) mod 32 = x mod (32::nat)" "(224 + x) mod 16 = x mod (16::nat)"
  "(240 + x) mod 8 = x mod (8::nat)" "(128 + x) mod 64 = x mod (64::nat)"
  using mod_mult_self3 [of 6 32 x] mod_mult_self3 [of 14 16 x]
    mod_mult_self3 [of 30 8 x] mod_mult_self3 [of 2 64 x]
  by simp_all

lemma utf8_digits:
  "c div 64 * 64 + c mod 64 = (c::nat)"
  "c div 4096 * 4096 + c div 64 mod 64 * 64 + c mod 64 = (c::nat)"
  "c div 262144 * 262144 + c div 4096 mod 64 * 4096 + c div 64 mod 64 * 64 + c mod 64 = (c::nat)"
proof -
  have q: "c div 4096 = c div 64 div 64" "c div 262144 = c div 64 div 64 div 64"
    by (simp_all add: div_mult2_eq [symmetric])
  have d: "x div 64 * 64 + x mod 64 = x" for x :: nat
    by (rule div_mult_mod_eq)
  show "c div 64 * 64 + c mod 64 = c"
    by (rule d)
  show "c div 4096 * 4096 + c div 64 mod 64 * 64 + c mod 64 = c"
    using d [of c] d [of "c div 64"] unfolding q by linarith
  show "c div 262144 * 262144 + c div 4096 mod 64 * 4096 + c div 64 mod 64 * 64 + c mod 64 = c"
    using d [of c] d [of "c div 64"] d [of "c div 64 div 64"] unfolding q by linarith
qed

lemma chars_utf8_char:
  assumes "c < 1114112"
  shows "chars (utf8_char c @ s) = c # chars s"
proof -
  consider "c < 128" | "128 \<le> c" "c < 2048" | "2048 \<le> c" "c < 65536" | "65536 \<le> c"
    by linarith
  then show ?thesis
  proof cases
    case 1
    then show ?thesis by (simp add: utf8_char_def)
  next
    case 2
    then have "c div 64 < 32" by auto
    with 2 show ?thesis by (simp add: utf8_char_def lead_byte_mod utf8_digits)
  next
    case 3
    then have "c div 4096 < 16" by auto
    with 3 show ?thesis by (simp add: utf8_char_def lead_byte_mod utf8_digits)
  next
    case 4
    with assms have "c div 262144 < 8" by auto
    with 4 assms show ?thesis by (simp add: utf8_char_def lead_byte_mod utf8_digits)
  qed
qed

lemma chars_utf8:
  "\<forall>c \<in> set cs. c < 1114112 \<Longrightarrow> chars (utf8 cs) = cs"
  by (induction cs) (simp_all add: utf8_def chars_utf8_char)

lemma chars_ascii:
  "\<forall>c \<in> set s. byte c < 128 \<Longrightarrow> chars s = map byte s"
  by (induction s) simp_all

lemma utf8_char_nonempty [simp]: "utf8_char c \<noteq> []"
  by (simp add: utf8_char_def)

lemma utf8_eq_Nil [simp]: "utf8 cs = [] \<longleftrightarrow> cs = []"
  by (cases cs) (simp_all add: utf8_def)

lemma trim_eq_Nil: "trim s = [] \<longleftrightarrow> (\<forall>c \<in> set (chars s). is_whitespace c)"
  by (auto simp: trim_def dropWhile_eq_Nil_conv dest: set_dropWhileD)
     (metis dropWhile_eq_Nil_conv hd_dropWhile list.set_sel(1) set_dropWhileD)

lemma chars_eq_Nil_iff_empty: "chars s = [] \<Longrightarrow> \<forall>c \<in> set s. byte c < 128 \<Longrightarrow> s = []"
  by (simp add: chars_ascii)

section \<open>Facts about splitting\<close>

lemma split_on_nonempty [simp]: "split_on c s \<noteq> []"
  by (induction s) (auto split: list.splits)

lemma join_split: "join_with c (split_on c s) = s"
proof (induction s)
  case (Cons x xs)
  then show ?case
    by (cases "split_on c xs") (auto simp: neq_Nil_conv, metis join_with.simps(2,3) neq_Nil_conv append_Cons)
qed simp

lemma split_on_segment: "seg \<in> set (split_on c s) \<Longrightarrow> c \<notin> set seg"
  by (induction s arbitrary: seg) (auto split: if_splits list.splits)

lemma split_on_chars: "seg \<in> set (split_on c s) \<Longrightarrow> set seg \<subseteq> set s"
  by (induction s arbitrary: seg) (auto split: if_splits list.splits, (force+)?)

lemma strip_prefix_Some: "strip_prefix p s = Some r \<longleftrightarrow> s = p @ r"
  by (induction p s rule: strip_prefix.induct) auto

lemma starts_with_iff: "starts_with p s \<longleftrightarrow> (\<exists>r. s = p @ r)"
  by (simp add: starts_with_def strip_prefix_Some not_None_eq)

lemma strip_suffix_Some: "strip_suffix p s = Some r \<longleftrightarrow> s = r @ p"
  by (simp add: strip_suffix_def strip_prefix_Some) (metis rev_append rev_rev_ident)

section \<open>Facts about decimals\<close>

lemma digits_value_append:
  "digits_value acc (s @ t) =
    (case digits_value acc s of None \<Rightarrow> None | Some v \<Rightarrow> digits_value v t)"
  by (induction acc s rule: digits_value.induct) simp_all

lemma digits_value_show_nat: "digits_value 0 (show_nat n) = Some (int n)"
proof (induction n rule: show_nat.induct)
  case (1 n)
  show ?case
  proof (cases "n < 10")
    case True
    then show ?thesis by (simp add: show_nat.simps [of n] is_ascii_digit_def)
  next
    case False
    have "n mod 10 < 10" by simp
    then have small: "n mod 10 < 208" "n mod 10 \<le> 9" by linarith+
    have "int (n div 10) * 10 + int (n mod 10) = int n"
      by (metis div_mult_mod_eq of_nat_add of_nat_mult of_nat_numeral)
    with 1 False small show ?thesis
      by (simp add: show_nat.simps [of n] digits_value_append is_ascii_digit_def)
  qed
qed

lemma show_nat_nonempty [simp]: "show_nat n \<noteq> []"
  by (subst show_nat.simps) simp

lemma show_nat_inject [simp]: "show_nat m = show_nat n \<longleftrightarrow> m = n"
  by (metis digits_value_show_nat of_nat_eq_iff option.inject)

lemma show_nat_digits: "c \<in> set (show_nat n) \<Longrightarrow> is_ascii_digit c"
proof (induction n rule: show_nat.induct)
  case (1 n)
  have "48 + n mod 10 < 256" using mod_less_divisor [of 10 n] by linarith
  with 1 show ?case
    by (cases "n < 10") (auto simp: show_nat.simps [of n] is_ascii_digit_def)
qed

lemma parse_i64_show_nat:
  assumes "int n < 2 ^ 63"
  shows "parse_i64 (show_nat n) = Some (int n)"
proof -
  obtain c s where cs: "show_nat n = c # s"
    by (cases "show_nat n") auto
  then have "is_ascii_digit c" using show_nat_digits [of c n] by simp
  then have "c \<noteq> CHR ''+''" "c \<noteq> CHR ''-''" by (auto simp: is_ascii_digit_def)
  moreover have "- (2 ^ 63) \<le> int n" by (rule order_trans [of _ 0]) simp_all
  ultimately show ?thesis
    using assms digits_value_show_nat [of n] by (simp add: parse_i64_def cs)
qed

section \<open>Interfaces\<close>

text \<open>
  The contract of a validator: it reports by pushing onto the caller's error vector and never
  looks at, reorders or drops what is already there.
\<close>

locale appender =
  fixes v :: "'e list \<Rightarrow> 'e list"
  assumes append: "v (xs @ ys) = xs @ v ys"
begin

lemma appends: "v es = es @ v []"
  using append [of es "[]"] by simp

lemma nil_iff: "v es = [] \<longleftrightarrow> es = [] \<and> v [] = []"
  by (subst appends) simp

lemma reported: "set (v es) = set es \<union> set (v [])"
  by (subst appends) simp

end

text \<open>Pulling a common prefix out of the branches of a validator.\<close>

lemma append_branches [append_simps]:
  "(if b then xs @ ys else xs @ zs) = xs @ (if b then ys else zs)"
  "(case opt of None \<Rightarrow> xs @ ys | Some a \<Rightarrow> xs @ f a) = xs @ (case opt of None \<Rightarrow> ys | Some a \<Rightarrow> f a)"
  by (auto split: option.split)

text \<open>
  A transition system with an inductive invariant: the invariant holds initially and every step
  keeps it, so it holds in every reachable state.
\<close>

inductive reachable :: "('s \<Rightarrow> bool) \<Rightarrow> ('s \<Rightarrow> 's \<Rightarrow> bool) \<Rightarrow> 's \<Rightarrow> bool"
  for init :: "'s \<Rightarrow> bool" and step :: "'s \<Rightarrow> 's \<Rightarrow> bool" where
  reachable_init: "init s \<Longrightarrow> reachable init step s"
| reachable_step: "reachable init step s \<Longrightarrow> step s t \<Longrightarrow> reachable init step t"

locale guarded_machine =
  fixes init :: "'s \<Rightarrow> bool"
    and step :: "'s \<Rightarrow> 's \<Rightarrow> bool"
    and inv :: "'s \<Rightarrow> bool"
  assumes init_inv: "init s \<Longrightarrow> inv s"
    and step_inv: "inv s \<Longrightarrow> step s t \<Longrightarrow> inv t"
begin

lemma reachable_inv: "reachable init step s \<Longrightarrow> inv s"
  by (induction rule: reachable.induct) (blast intro: init_inv step_inv)+

lemma steps_inv: "step\<^sup>*\<^sup>* s t \<Longrightarrow> inv s \<Longrightarrow> inv t"
  by (induction rule: rtranclp_induct) (blast intro: step_inv)+

end

section \<open>Keyed tables\<close>

lemma find_SomeD: "find P xs = Some x \<Longrightarrow> x \<in> set xs \<and> P x"
  by (auto simp: find_Some_iff)

text \<open>
  A list whose keys are distinct, all of whose entries are entries of a reference table with
  distinct keys, and which covers every key of the table, is the table up to order.
\<close>

lemma keyed_table_unique:
  assumes "distinct (map k B)" and "set L \<subseteq> set B" and "x \<in> set L" and "y \<in> set B" and "k x = k y"
  shows "x = y"
  using assms by (auto simp: distinct_map inj_on_def)

lemma keyed_table_mset_iff:
  assumes B: "distinct (map k B)"
  shows "distinct (map k L) \<and> set L \<subseteq> set B \<and> (\<forall>b \<in> set B. k b \<in> k ` set L) \<longleftrightarrow> mset L = mset B"
proof
  assume h: "distinct (map k L) \<and> set L \<subseteq> set B \<and> (\<forall>b \<in> set B. k b \<in> k ` set L)"
  have "b \<in> set L" if b: "b \<in> set B" for b
  proof -
    from h b obtain x where x: "x \<in> set L" "k b = k x" by auto
    with h b keyed_table_unique [OF B, of L x b] have "x = b" by simp
    with x show ?thesis by simp
  qed
  with h have "set L = set B" by blast
  moreover have "distinct L" "distinct B" using h B by (auto simp: distinct_map)
  ultimately show "mset L = mset B" by (simp add: set_eq_iff_mset_eq_distinct)
next
  assume m: "mset L = mset B"
  then have s: "set L = set B" by (rule mset_eq_setD)
  from m have "mset (map k L) = mset (map k B)" by simp
  with B have "distinct (map k L)" by (metis mset_eq_imp_distinct_iff)
  with s show "distinct (map k L) \<and> set L \<subseteq> set B \<and> (\<forall>b \<in> set B. k b \<in> k ` set L)"
    by blast
qed

text \<open>
  A list in which every entry of a duplicate-free table is hit exactly once, and nothing else is
  hit, enumerates that table.
\<close>

lemma length_filter_count: "length (filter (\<lambda>x. f x = t) xs) = count (mset (map f xs)) t"
  by (induction xs) auto

lemma exactly_once_mset:
  assumes "distinct B" and "\<And>t. t \<in> set B \<Longrightarrow> length (filter (\<lambda>x. f x = t) xs) = 1"
    and "f ` set xs \<subseteq> set B"
  shows "mset (map f xs) = mset B"
proof (rule multiset_eqI)
  fix t
  show "count (mset (map f xs)) t = count (mset B) t"
  proof (cases "t \<in> set B")
    case True
    with assms(1) have "count (mset B) t = 1" by (simp add: distinct_count_atmost_1)
    with True assms(2) show ?thesis by (simp only: length_filter_count)
  next
    case False
    with assms(3) have "t \<notin> set (map f xs)" by auto
    with False show ?thesis by (metis count_mset_0_iff)
  qed
qed

text \<open>\<open>find\<close> returns the only element that satisfies the predicate.\<close>

lemma find_unique:
  assumes "x \<in> set xs" and "P x" and "\<And>y. y \<in> set xs \<Longrightarrow> P y \<Longrightarrow> y = x"
  shows "find P xs = Some x"
proof (cases "find P xs")
  case None
  with assms(1,2) show ?thesis by (simp add: find_None_iff)
next
  case (Some y)
  then have "y \<in> set xs" "P y" by (auto dest: find_SomeD)
  then have "y = x" by (rule assms(3))
  with Some show ?thesis by simp
qed

end
