(* ===== verification/Project_Contract.thy ===== *)
theory Project_Contract
  imports Hostlet_Prelude
begin

text \<open>
  The standard-project contract, \<^verbatim>\<open>crates/protocol/src/project.rs\<close>: the specification an owner
  submits (repositories, services, resource envelope) and its pure validator, which returns the
  list of issues found.  Each definition carries the name of the Rust item it translates; the
  validators take and return the \<open>issues\<close> vector that the Rust code mutates.

  The results: the validator accepts exactly the specifications that satisfy the declarative
  contract \<open>standard_project\<close>; the resource envelope it accepts is the adopted benchmark table up
  to order; and the paths it accepts never leave the repository they are resolved in.
\<close>

section \<open>Data\<close>

datatype package_manager = Npm | Pnpm | Yarn | OtherManager

datatype repository_layout = SingleProject | Monorepo

datatype service_kind =
  StaticFrontend | Application | Postgres | Worker | ScheduledJob | AdditionalBackend

datatype framework_pattern =
  ViteStatic | StaticExport | NodeHttp | Nextjs16Standalone | Postgresql18 | DockerCompose
| CustomNextServer | UnsupportedFramework

datatype health_check_protocol = Http | Tcp | Command

datatype resource_kind =
  ApplicationMemory | ApplicationCpu | DatabaseStorage | DatabaseConnections | ScratchStorage
| BuildCpu | BuildMemory | BuildTimeout | ConcurrentBuilds | MonthlyBuildExecution
| StaticReleaseArtifact | RuntimeReleaseArtifact | RetainedSuccessfulReleases
| PublicOutboundTransfer | PortfolioAssets | LogStorage | LogRetention

datatype resource_unit = Mebibytes | Gibibytes | Millicpu | Connections | Minutes | Count | Days

datatype resource_scope =
  HostedProjectScope | ProjectDatabase | Build | Account | PurchasedSlotBillingMonth | Release
| PortfolioAccount | ProjectLogs

datatype enforcement_behavior =
  ReportMemoryTerminationWithBoundedRestartBackoff | ThrottleCpu
| WarnAt80PreventGrowthPreserveReadsAndExport | CapApplicationConnections
| FailExcessEphemeralWrites | FailBuildPreserveLiveRelease | TimeOutBuildPreserveLiveRelease
| QueueBuildsUntilCapacity | QueueBuildsUntilBillingRenewal
| RejectOversizedReplacementPreserveCurrent | RetainCurrentPlusTwoPrevious
| WarnAt80And95ThenLimitPublicTraffic | RejectNewAssetsPreservePublishedRevision
| RotateOldestAndRedactSecrets

datatype limit_status = BenchmarkCandidate | ApprovedPromise | Unbounded

record repository_spec =
  repo_layout :: repository_layout
  repo_package_manager :: package_manager
  repo_lockfile_path :: "string option"

record health_check =
  hc_protocol :: health_check_protocol
  hc_path :: string

record node_runtime =
  node_major :: "16 word"

record service_spec =
  svc_name :: string
  svc_kind :: service_kind
  svc_root :: "string option"
  svc_framework :: framework_pattern
  svc_node :: "node_runtime option"
  svc_build_command :: "string option"
  svc_output_directory :: "string option"
  svc_start_command :: "string option"
  svc_health_check :: "health_check option"
  svc_uses_durable_data :: bool

record benchmark_limit =
  lim_resource :: resource_kind
  lim_amount :: "64 word option"
  lim_unit :: resource_unit
  lim_scope :: resource_scope
  lim_enforcement :: enforcement_behavior
  lim_status :: limit_status

record standard_project_spec =
  spec_contract_version :: string
  spec_repositories :: "repository_spec list"
  spec_services :: "service_spec list"
  spec_limits :: "benchmark_limit list"

datatype project_issue_code =
  UnsupportedContractVersion | RepositoryCount | MissingLockfile | UnsupportedLockfile
| UnsafeLockfilePath | MissingRunnableService | InvalidServiceName | DuplicateServiceName
| TextFieldTooLong | UnsafeServiceRoot | ExtraStaticFrontend | ExtraApplicationService
| ExtraDatabase | UnsupportedServiceKind | UnsupportedFrameworkPattern | MissingNodeRuntime
| UnsupportedNodeVersion | MissingBuildCommand | MissingOutputDirectory | MissingStartCommand
| MissingHealthCheck | UnsupportedHealthCheck | DatabaseRequired | DatabaseWithoutApplication
| UnexpectedServiceConfiguration | MissingResourceLimit | DuplicateResourceLimit
| UnboundedResourceLimit | ResourceAmountMismatch | ResourceUnitMismatch
| ResourceScopeMismatch | ResourceEnforcementMismatch | ResourceNotBenchmarkCandidate

record project_validation_issue =
  issue_code :: project_issue_code
  issue_path :: string
  issue_message :: string

type_synonym issues = "project_validation_issue list"

definition PROJECT_CONTRACT_VERSION :: string where
  "PROJECT_CONTRACT_VERSION = ''hostlet.project/v1''"

definition MAX_SERVICE_NAME_BYTES :: nat where
  "MAX_SERVICE_NAME_BYTES = 64"

definition MAX_COMMAND_BYTES :: nat where
  "MAX_COMMAND_BYTES = 4096"

definition MAX_RELATIVE_PATH_BYTES :: nat where
  "MAX_RELATIVE_PATH_BYTES = 1024"

lemmas project_limits =
  MAX_SERVICE_NAME_BYTES_def MAX_COMMAND_BYTES_def MAX_RELATIVE_PATH_BYTES_def

section \<open>Helpers\<close>

definition issue :: "issues \<Rightarrow> project_issue_code \<Rightarrow> string \<Rightarrow> string \<Rightarrow> issues" where
  "issue issues code path message =
     issues @ [\<lparr>issue_code = code, issue_path = path, issue_message = message\<rparr>]"

definition mismatch :: "bool \<Rightarrow> project_issue_code \<Rightarrow> string \<Rightarrow> issues \<Rightarrow> issues" where
  "mismatch condition code path issues =
     (if condition
      then issue issues code path ''the value does not match the adopted starting benchmark''
      else issues)"

definition safe_http_path :: "string \<Rightarrow> bool" where
  "safe_http_path path \<longleftrightarrow>
     starts_with ''/'' path \<and> \<not> starts_with ''//'' path
     \<and> CHR 0x0D \<notin> set path \<and> CHR 0x0A \<notin> set path"

definition safe_relative_path :: "string \<Rightarrow> bool" where
  "safe_relative_path path =
     (if path = ''.'' then True
      else if path = [] \<or> starts_with ''/'' path \<or> starts_with [CHR 0x5C] path
           \<or> CHR 0x5C \<in> set path \<or> CHR 0x00 \<in> set path \<or> CHR '':'' \<in> set path
      then False
      else (\<forall>segment \<in> set (split_on CHR ''/'' path).
              segment \<noteq> [] \<and> segment \<noteq> ''.'' \<and> segment \<noteq> ''..''))"

definition count_limit :: "nat \<Rightarrow> project_issue_code \<Rightarrow> issues \<Rightarrow> issues" where
  "count_limit n code issues =
     (if n > 1
      then issue issues code ''services''
             ''a standard project permits at most one service of this kind''
      else issues)"

definition bounded_text :: "string option \<Rightarrow> nat \<Rightarrow> string \<Rightarrow> issues \<Rightarrow> issues" where
  "bounded_text value maximum path issues =
     (if (case value of Some v \<Rightarrow> length v > maximum | None \<Rightarrow> False)
      then issue issues TextFieldTooLong path
             (''the field must be at most '' @ show_nat maximum @ '' bytes'')
      else issues)"

definition require_safe_path ::
  "string option \<Rightarrow> project_issue_code \<Rightarrow> string \<Rightarrow> string \<Rightarrow> issues \<Rightarrow> issues" where
  "require_safe_path value code path message issues =
     (if (case value of None \<Rightarrow> True | Some v \<Rightarrow> \<not> safe_relative_path v)
      then issue issues code path message
      else issues)"

definition require_text ::
  "string option \<Rightarrow> project_issue_code \<Rightarrow> string \<Rightarrow> string \<Rightarrow> issues \<Rightarrow> issues" where
  "require_text value code path message issues =
     (if (case value of None \<Rightarrow> True | Some v \<Rightarrow> trim v = [])
      then issue issues code path message
      else issues)"

definition unsupported_framework :: "nat \<Rightarrow> issues \<Rightarrow> issues" where
  "unsupported_framework index issues =
     issue issues UnsupportedFrameworkPattern
       (indexed ''services'' index @ ''.framework'')
       ''the service framework does not match an initial supported pattern''"

definition validate_node :: "service_spec \<Rightarrow> nat \<Rightarrow> issues \<Rightarrow> issues" where
  "validate_node service index issues =
     (case svc_node service of
        None \<Rightarrow>
          issue issues MissingNodeRuntime (indexed ''services'' index @ ''.node'')
            ''a source service requires Node 24 or the tested Node 22 alternative''
      | Some runtime \<Rightarrow>
          if \<not> (node_major runtime = 22 \<or> node_major runtime = 24)
          then issue issues UnsupportedNodeVersion
                 (indexed ''services'' index @ ''.node.major'')
                 ''the initial contract supports Node 24 and Node 22''
          else issues)"

definition validate_source_service :: "service_spec \<Rightarrow> nat \<Rightarrow> issues \<Rightarrow> issues" where
  "validate_source_service service index issues =
     (let base = indexed ''services'' index
      in if svc_root service = None
         then issue issues UnsafeServiceRoot (base @ ''.root'')
                ''a service root must be a safe repository-relative path''
         else issues)"

section \<open>Repositories\<close>

definition validate_repository :: "nat \<Rightarrow> repository_spec \<Rightarrow> issues \<Rightarrow> issues" where
  "validate_repository index repository issues =
     (let base = indexed ''repositories'' index;
          issues1 =
            (if repo_package_manager repository \<noteq> Npm
             then issue issues UnsupportedLockfile (base @ ''.package_manager'')
                    ''the initial contract supports locked npm installs only''
             else issues);
          issues2 =
            (case repo_lockfile_path repository of
               None \<Rightarrow>
                 issue issues1 MissingLockfile (base @ ''.lockfile_path'')
                   ''an npm package-lock.json is required''
             | Some path \<Rightarrow>
                 if path = [] then
                   issue issues1 MissingLockfile (base @ ''.lockfile_path'')
                     ''an npm package-lock.json is required''
                 else if \<not> safe_relative_path path then
                   issue issues1 UnsafeLockfilePath (base @ ''.lockfile_path'')
                     ''the lockfile path must be a safe repository-relative path''
                 else if last (split_on CHR ''/'' path) \<noteq> ''package-lock.json'' then
                   issue issues1 UnsupportedLockfile (base @ ''.lockfile_path'')
                     ''the initial contract requires package-lock.json''
                 else issues1)
      in bounded_text (repo_lockfile_path repository) MAX_RELATIVE_PATH_BYTES
           (base @ ''.lockfile_path'') issues2)"

fun validate_repositories_from :: "nat \<Rightarrow> repository_spec list \<Rightarrow> issues \<Rightarrow> issues" where
  "validate_repositories_from index [] issues = issues"
| "validate_repositories_from index (r # rs) issues =
     validate_repositories_from (Suc index) rs (validate_repository index r issues)"

definition validate_repositories :: "standard_project_spec \<Rightarrow> issues \<Rightarrow> issues" where
  "validate_repositories spec issues =
     validate_repositories_from 0 (spec_repositories spec)
       (if length (spec_repositories spec) \<noteq> 1
        then issue issues RepositoryCount ''repositories''
               ''a standard project must contain exactly one repository or monorepo''
        else issues)"

section \<open>Services\<close>

text \<open>The local variables of the loop in \<open>validate_services\<close>.\<close>

record service_scan =
  sc_names :: "string set"
  sc_static :: nat
  sc_application :: nat
  sc_database :: nat
  sc_needs_database :: bool

definition empty_scan :: service_scan where
  "empty_scan = \<lparr>sc_names = {}, sc_static = 0, sc_application = 0, sc_database = 0,
                 sc_needs_database = False\<rparr>"

definition validate_service_text :: "nat \<Rightarrow> service_spec \<Rightarrow> issues \<Rightarrow> issues" where
  "validate_service_text index service issues =
     (let base = indexed ''services'' index;
          i1 = (if trim (svc_name service) = []
                  \<or> length (svc_name service) > MAX_SERVICE_NAME_BYTES
                  \<or> (\<exists>c \<in> set (chars (svc_name service)). is_control c)
                then issue issues InvalidServiceName (base @ ''.name'')
                  ''a service name must be nonblank, control-free, and at most 64 bytes''
                else issues);
          i2 = bounded_text (svc_root service) MAX_RELATIVE_PATH_BYTES (base @ ''.root'') i1;
          i3 = (if (case svc_root service of Some path \<Rightarrow> \<not> safe_relative_path path | None \<Rightarrow> False)
                then issue i2 UnsafeServiceRoot (base @ ''.root'')
                  ''a service root must be a safe repository-relative path''
                else i2);
          i4 = bounded_text (svc_output_directory service) MAX_RELATIVE_PATH_BYTES
                 (base @ ''.output_directory'') i3;
          i5 = bounded_text (svc_build_command service) MAX_COMMAND_BYTES
                 (base @ ''.build_command'') i4;
          i6 = bounded_text (svc_start_command service) MAX_COMMAND_BYTES
                 (base @ ''.start_command'') i5
      in case svc_health_check service of
           Some health \<Rightarrow>
             bounded_text (Some (hc_path health)) MAX_RELATIVE_PATH_BYTES
               (base @ ''.health_check.path'') i6
         | None \<Rightarrow> i6)"

definition validate_static_service :: "nat \<Rightarrow> service_spec \<Rightarrow> issues \<Rightarrow> issues" where
  "validate_static_service index service issues =
     (let base = indexed ''services'' index;
          i1 = validate_source_service service index issues;
          i2 = validate_node service index i1;
          i3 = (if \<not> (svc_framework service = ViteStatic \<or> svc_framework service = StaticExport)
                then unsupported_framework index i2 else i2);
          i4 = require_text (svc_build_command service) MissingBuildCommand
                 (base @ ''.build_command'') ''a static service requires a build command'' i3
      in require_safe_path (svc_output_directory service) MissingOutputDirectory
           (base @ ''.output_directory'') ''a static service requires a safe output directory'' i4)"

definition validate_application_service :: "nat \<Rightarrow> service_spec \<Rightarrow> issues \<Rightarrow> issues" where
  "validate_application_service index service issues =
     (let base = indexed ''services'' index;
          i1 = validate_source_service service index issues;
          i2 = validate_node service index i1;
          i3 = (if \<not> (svc_framework service = NodeHttp
                     \<or> svc_framework service = Nextjs16Standalone)
                then unsupported_framework index i2 else i2);
          i4 = (if svc_framework service = Nextjs16Standalone
                then require_text (svc_build_command service) MissingBuildCommand
                       (base @ ''.build_command'')
                       ''a Next.js standalone service requires a build command'' i3
                else i3);
          i5 = require_text (svc_start_command service) MissingStartCommand
                 (base @ ''.start_command'') ''an application service requires a start command'' i4
      in case svc_health_check service of
           None \<Rightarrow>
             issue i5 MissingHealthCheck (base @ ''.health_check'')
               ''an application service requires an HTTP health endpoint''
         | Some health \<Rightarrow>
             if hc_protocol health \<noteq> Http \<or> \<not> safe_http_path (hc_path health)
             then issue i5 UnsupportedHealthCheck (base @ ''.health_check'')
                    ''the health check must be an absolute HTTP path''
             else i5)"

definition validate_postgres_service :: "nat \<Rightarrow> service_spec \<Rightarrow> issues \<Rightarrow> issues" where
  "validate_postgres_service index service issues =
     (let base = indexed ''services'' index;
          i1 = (if svc_framework service \<noteq> Postgresql18
                then unsupported_framework index issues else issues)
      in if svc_root service \<noteq> None \<or> svc_node service \<noteq> None
            \<or> svc_build_command service \<noteq> None \<or> svc_output_directory service \<noteq> None
            \<or> svc_start_command service \<noteq> None \<or> svc_health_check service \<noteq> None
            \<or> svc_uses_durable_data service
         then issue i1 UnexpectedServiceConfiguration base
                ''the managed PostgreSQL service does not accept source, command, runtime, or health configuration''
         else i1)"

text \<open>One iteration of the loop over \<open>services\<close>.\<close>

definition validate_service ::
  "nat \<Rightarrow> service_spec \<Rightarrow> service_scan \<times> issues \<Rightarrow> service_scan \<times> issues" where
  "validate_service index service st =
     (let (scan, issues) = st;
          base = indexed ''services'' index;
          i1 = validate_service_text index service issues;
          i2 = (if svc_name service \<in> sc_names scan
                then issue i1 DuplicateServiceName (base @ ''.name'')
                       ''service names must be unique within a project''
                else i1);
          scan1 = scan\<lparr>sc_names := insert (svc_name service) (sc_names scan),
                       sc_needs_database :=
                         sc_needs_database scan \<or> svc_uses_durable_data service\<rparr>
      in case svc_kind service of
           StaticFrontend \<Rightarrow>
             (scan1\<lparr>sc_static := Suc (sc_static scan1)\<rparr>, validate_static_service index service i2)
         | Application \<Rightarrow>
             (scan1\<lparr>sc_application := Suc (sc_application scan1)\<rparr>,
              validate_application_service index service i2)
         | Postgres \<Rightarrow>
             (scan1\<lparr>sc_database := Suc (sc_database scan1)\<rparr>,
              validate_postgres_service index service i2)
         | _ \<Rightarrow>
             (scan1, issue i2 UnsupportedServiceKind (base @ ''.kind'')
                ''extra workers, scheduled jobs, and additional backends are unsupported''))"

fun validate_services_from ::
  "nat \<Rightarrow> service_spec list \<Rightarrow> service_scan \<times> issues \<Rightarrow> service_scan \<times> issues" where
  "validate_services_from index [] st = st"
| "validate_services_from index (s # ss) st =
     validate_services_from (Suc index) ss (validate_service index s st)"

definition validate_service_counts :: "service_scan \<Rightarrow> issues \<Rightarrow> issues" where
  "validate_service_counts scan issues =
     (let i1 = (if sc_static scan + sc_application scan = 0
                then issue issues MissingRunnableService ''services''
                       ''a standard project needs a static frontend or application service''
                else issues);
          i2 = count_limit (sc_static scan) ExtraStaticFrontend i1;
          i3 = count_limit (sc_application scan) ExtraApplicationService i2;
          i4 = count_limit (sc_database scan) ExtraDatabase i3;
          i5 = (if sc_needs_database scan \<and> sc_database scan = 0
                then issue i4 DatabaseRequired ''services''
                       ''a service with durable data requires the project PostgreSQL service''
                else i4)
      in if sc_database scan > 0 \<and> sc_application scan = 0
         then issue i5 DatabaseWithoutApplication ''services''
                ''a database requires an application service in the initial contract''
         else i5)"

definition validate_services :: "standard_project_spec \<Rightarrow> issues \<Rightarrow> issues" where
  "validate_services spec issues =
     (let (scan, i1) = validate_services_from 0 (spec_services spec) (empty_scan, issues)
      in validate_service_counts scan i1)"

section \<open>Resources\<close>

record expected_limit_row =
  exp_resource :: resource_kind
  exp_amount :: "64 word"
  exp_unit :: resource_unit
  exp_scope :: resource_scope
  exp_enforcement :: enforcement_behavior

definition expected ::
  "resource_kind \<Rightarrow> 64 word \<Rightarrow> resource_unit \<Rightarrow> resource_scope \<Rightarrow> enforcement_behavior
     \<Rightarrow> expected_limit_row" where
  "expected resource amount unit scope enforcement =
     \<lparr>exp_resource = resource, exp_amount = amount, exp_unit = unit, exp_scope = scope,
      exp_enforcement = enforcement\<rparr>"

definition EXPECTED_LIMITS :: "expected_limit_row list" where
  "EXPECTED_LIMITS =
    [expected ApplicationMemory 512 Mebibytes HostedProjectScope
       ReportMemoryTerminationWithBoundedRestartBackoff,
     expected ApplicationCpu 250 Millicpu HostedProjectScope ThrottleCpu,
     expected DatabaseStorage 1 Gibibytes ProjectDatabase
       WarnAt80PreventGrowthPreserveReadsAndExport,
     expected DatabaseConnections 10 Connections ProjectDatabase CapApplicationConnections,
     expected ScratchStorage 256 Mebibytes HostedProjectScope FailExcessEphemeralWrites,
     expected BuildCpu 2000 Millicpu Build FailBuildPreserveLiveRelease,
     expected BuildMemory 2 Gibibytes Build FailBuildPreserveLiveRelease,
     expected BuildTimeout 10 Minutes Build TimeOutBuildPreserveLiveRelease,
     expected ConcurrentBuilds 1 Count Account QueueBuildsUntilCapacity,
     expected MonthlyBuildExecution 60 Minutes PurchasedSlotBillingMonth
       QueueBuildsUntilBillingRenewal,
     expected StaticReleaseArtifact 250 Mebibytes Release
       RejectOversizedReplacementPreserveCurrent,
     expected RuntimeReleaseArtifact 1 Gibibytes Release
       RejectOversizedReplacementPreserveCurrent,
     expected RetainedSuccessfulReleases 3 Count HostedProjectScope RetainCurrentPlusTwoPrevious,
     expected PublicOutboundTransfer 10 Gibibytes PurchasedSlotBillingMonth
       WarnAt80And95ThenLimitPublicTraffic,
     expected PortfolioAssets 100 Mebibytes PortfolioAccount
       RejectNewAssetsPreservePublishedRevision,
     expected LogStorage 100 Mebibytes ProjectLogs RotateOldestAndRedactSecrets,
     expected LogRetention 7 Days ProjectLogs RotateOldestAndRedactSecrets]"

definition expected_limit :: "resource_kind \<Rightarrow> expected_limit_row option" where
  "expected_limit resource = find (\<lambda>limit. exp_resource limit = resource) EXPECTED_LIMITS"

text \<open>The variant names that \<open>{:?}\<close> prints.\<close>

fun resource_kind_debug :: "resource_kind \<Rightarrow> string" where
  "resource_kind_debug ApplicationMemory = ''ApplicationMemory''"
| "resource_kind_debug ApplicationCpu = ''ApplicationCpu''"
| "resource_kind_debug DatabaseStorage = ''DatabaseStorage''"
| "resource_kind_debug DatabaseConnections = ''DatabaseConnections''"
| "resource_kind_debug ScratchStorage = ''ScratchStorage''"
| "resource_kind_debug BuildCpu = ''BuildCpu''"
| "resource_kind_debug BuildMemory = ''BuildMemory''"
| "resource_kind_debug BuildTimeout = ''BuildTimeout''"
| "resource_kind_debug ConcurrentBuilds = ''ConcurrentBuilds''"
| "resource_kind_debug MonthlyBuildExecution = ''MonthlyBuildExecution''"
| "resource_kind_debug StaticReleaseArtifact = ''StaticReleaseArtifact''"
| "resource_kind_debug RuntimeReleaseArtifact = ''RuntimeReleaseArtifact''"
| "resource_kind_debug RetainedSuccessfulReleases = ''RetainedSuccessfulReleases''"
| "resource_kind_debug PublicOutboundTransfer = ''PublicOutboundTransfer''"
| "resource_kind_debug PortfolioAssets = ''PortfolioAssets''"
| "resource_kind_debug LogStorage = ''LogStorage''"
| "resource_kind_debug LogRetention = ''LogRetention''"

definition validate_limit :: "nat \<Rightarrow> benchmark_limit \<Rightarrow> expected_limit_row \<Rightarrow> issues \<Rightarrow> issues" where
  "validate_limit index limit want issues =
     (let base = indexed ''resources.limits'' index;
          unbounded = issue issues UnboundedResourceLimit (base @ ''.amount'')
                        ''resource limits must be finite positive benchmark candidates'';
          i1 = (case lim_amount limit of
                  None \<Rightarrow> unbounded
                | Some amount \<Rightarrow>
                    if amount = 0 then unbounded
                    else if amount \<noteq> exp_amount want
                    then issue issues ResourceAmountMismatch (base @ ''.amount'')
                           ''the value does not match the adopted starting benchmark''
                    else issues);
          i2 = mismatch (lim_unit limit \<noteq> exp_unit want) ResourceUnitMismatch (base @ ''.unit'') i1;
          i3 = mismatch (lim_scope limit \<noteq> exp_scope want) ResourceScopeMismatch
                 (base @ ''.scope'') i2;
          i4 = mismatch (lim_enforcement limit \<noteq> exp_enforcement want)
                 ResourceEnforcementMismatch (base @ ''.enforcement'') i3
      in if lim_status limit \<noteq> BenchmarkCandidate
         then issue i4 ResourceNotBenchmarkCandidate (base @ ''.status'')
                ''the starting limit is a benchmark candidate, not an approved promise''
         else i4)"

text \<open>The loop over the submitted limits, with the set of resources seen so far.\<close>

fun validate_limits_from ::
  "nat \<Rightarrow> benchmark_limit list \<Rightarrow> resource_kind set \<Rightarrow> issues \<Rightarrow> resource_kind set \<times> issues" where
  "validate_limits_from index [] seen issues = (seen, issues)"
| "validate_limits_from index (limit # limits) seen issues =
     (if lim_resource limit \<in> seen
      then validate_limits_from (Suc index) limits seen
             (issue issues DuplicateResourceLimit
                (indexed ''resources.limits'' index @ ''.resource'')
                ''each benchmark resource must appear exactly once'')
      else validate_limits_from (Suc index) limits (insert (lim_resource limit) seen)
             (case expected_limit (lim_resource limit) of
                None \<Rightarrow> issues
              | Some want \<Rightarrow> validate_limit index limit want issues))"

fun validate_missing_limits ::
  "expected_limit_row list \<Rightarrow> resource_kind set \<Rightarrow> issues \<Rightarrow> issues" where
  "validate_missing_limits [] seen issues = issues"
| "validate_missing_limits (want # wants) seen issues =
     validate_missing_limits wants seen
       (if exp_resource want \<notin> seen
        then issue issues MissingResourceLimit ''resources.limits''
               (''missing starting benchmark for '' @ resource_kind_debug (exp_resource want))
        else issues)"

definition validate_resources :: "standard_project_spec \<Rightarrow> issues \<Rightarrow> issues" where
  "validate_resources spec issues =
     (let (seen, i1) = validate_limits_from 0 (spec_limits spec) {} issues
      in validate_missing_limits EXPECTED_LIMITS seen i1)"

definition validate_spec :: "standard_project_spec \<Rightarrow> issues" where
  "validate_spec spec =
     (let i1 = (if spec_contract_version spec \<noteq> PROJECT_CONTRACT_VERSION
                then issue [] UnsupportedContractVersion ''contract_version''
                       ''the project contract version is not supported''
                else [])
      in validate_resources spec (validate_services spec (validate_repositories spec i1)))"

section \<open>The declarative contract\<close>

definition within :: "string option \<Rightarrow> nat \<Rightarrow> bool" where
  "within value maximum \<longleftrightarrow> (\<forall>t. value = Some t \<longrightarrow> length t \<le> maximum)"

definition nonblank :: "string option \<Rightarrow> bool" where
  "nonblank value \<longleftrightarrow> (\<exists>t. value = Some t \<and> trim t \<noteq> [])"

definition node_ok :: "service_spec \<Rightarrow> bool" where
  "node_ok s \<longleftrightarrow> (\<exists>n. svc_node s = Some n \<and> node_major n \<in> {22, 24})"

definition repository_ok :: "repository_spec \<Rightarrow> bool" where
  "repository_ok r \<longleftrightarrow>
     repo_package_manager r = Npm
     \<and> (\<exists>p. repo_lockfile_path r = Some p \<and> safe_relative_path p
           \<and> last (split_on CHR ''/'' p) = ''package-lock.json''
           \<and> length p \<le> MAX_RELATIVE_PATH_BYTES)"

definition service_text_ok :: "service_spec \<Rightarrow> bool" where
  "service_text_ok s \<longleftrightarrow>
     trim (svc_name s) \<noteq> [] \<and> length (svc_name s) \<le> MAX_SERVICE_NAME_BYTES
     \<and> (\<forall>c \<in> set (chars (svc_name s)). \<not> is_control c)
     \<and> within (svc_root s) MAX_RELATIVE_PATH_BYTES
     \<and> (\<forall>p. svc_root s = Some p \<longrightarrow> safe_relative_path p)
     \<and> within (svc_output_directory s) MAX_RELATIVE_PATH_BYTES
     \<and> within (svc_build_command s) MAX_COMMAND_BYTES
     \<and> within (svc_start_command s) MAX_COMMAND_BYTES
     \<and> within (map_option hc_path (svc_health_check s)) MAX_RELATIVE_PATH_BYTES"

definition static_ok :: "service_spec \<Rightarrow> bool" where
  "static_ok s \<longleftrightarrow>
     svc_root s \<noteq> None \<and> node_ok s \<and> svc_framework s \<in> {ViteStatic, StaticExport}
     \<and> nonblank (svc_build_command s)
     \<and> (\<exists>d. svc_output_directory s = Some d \<and> safe_relative_path d)"

definition application_ok :: "service_spec \<Rightarrow> bool" where
  "application_ok s \<longleftrightarrow>
     svc_root s \<noteq> None \<and> node_ok s \<and> svc_framework s \<in> {NodeHttp, Nextjs16Standalone}
     \<and> (svc_framework s = Nextjs16Standalone \<longrightarrow> nonblank (svc_build_command s))
     \<and> nonblank (svc_start_command s)
     \<and> (\<exists>h. svc_health_check s = Some h \<and> hc_protocol h = Http \<and> safe_http_path (hc_path h))"

definition postgres_ok :: "service_spec \<Rightarrow> bool" where
  "postgres_ok s \<longleftrightarrow>
     svc_framework s = Postgresql18 \<and> svc_root s = None \<and> svc_node s = None
     \<and> svc_build_command s = None \<and> svc_output_directory s = None
     \<and> svc_start_command s = None \<and> svc_health_check s = None \<and> \<not> svc_uses_durable_data s"

definition service_ok :: "service_spec \<Rightarrow> bool" where
  "service_ok s \<longleftrightarrow>
     service_text_ok s
     \<and> (case svc_kind s of
          StaticFrontend \<Rightarrow> static_ok s
        | Application \<Rightarrow> application_ok s
        | Postgres \<Rightarrow> postgres_ok s
        | _ \<Rightarrow> False)"

definition of_kind :: "service_kind \<Rightarrow> service_spec list \<Rightarrow> nat" where
  "of_kind k ss = length (filter (\<lambda>s. svc_kind s = k) ss)"

definition benchmark :: "expected_limit_row \<Rightarrow> benchmark_limit" where
  "benchmark e = \<lparr>lim_resource = exp_resource e, lim_amount = Some (exp_amount e),
                 lim_unit = exp_unit e, lim_scope = exp_scope e,
                 lim_enforcement = exp_enforcement e, lim_status = BenchmarkCandidate\<rparr>"

definition services_ok :: "service_spec list \<Rightarrow> bool" where
  "services_ok ss \<longleftrightarrow>
     list_all service_ok ss \<and> distinct (map svc_name ss)
     \<and> of_kind StaticFrontend ss \<le> 1 \<and> of_kind Application ss \<le> 1 \<and> of_kind Postgres ss \<le> 1
     \<and> 0 < of_kind StaticFrontend ss + of_kind Application ss
     \<and> (list_ex svc_uses_durable_data ss \<longrightarrow> of_kind Postgres ss = 1)
     \<and> of_kind Postgres ss \<le> of_kind Application ss"

definition standard_project :: "standard_project_spec \<Rightarrow> bool" where
  "standard_project spec \<longleftrightarrow>
     spec_contract_version spec = PROJECT_CONTRACT_VERSION
     \<and> (\<exists>r. spec_repositories spec = [r] \<and> repository_ok r)
     \<and> services_ok (spec_services spec)
     \<and> mset (spec_limits spec) = mset (map benchmark EXPECTED_LIMITS)"

section \<open>Validators append\<close>

lemma issue_append [append_simps]: "issue (xs @ ys) code path m = xs @ issue ys code path m"
  by (simp add: issue_def)

lemma mismatch_append [append_simps]: "mismatch b code path (xs @ ys) = xs @ mismatch b code path ys"
  by (simp add: mismatch_def append_simps cong: if_cong option.case_cong)

lemma count_limit_append [append_simps]: "count_limit n code (xs @ ys) = xs @ count_limit n code ys"
  by (simp add: count_limit_def append_simps cong: if_cong option.case_cong)

lemma bounded_text_append [append_simps]:
  "bounded_text t n path (xs @ ys) = xs @ bounded_text t n path ys"
  by (simp add: bounded_text_def append_simps cong: if_cong option.case_cong)

lemma require_safe_path_append [append_simps]:
  "require_safe_path t code path m (xs @ ys) = xs @ require_safe_path t code path m ys"
  by (simp add: require_safe_path_def append_simps cong: if_cong option.case_cong)

lemma require_text_append [append_simps]:
  "require_text t code path m (xs @ ys) = xs @ require_text t code path m ys"
  by (simp add: require_text_def append_simps cong: if_cong option.case_cong)

lemma unsupported_framework_append [append_simps]:
  "unsupported_framework i (xs @ ys) = xs @ unsupported_framework i ys"
  by (simp add: unsupported_framework_def append_simps cong: if_cong option.case_cong)

lemma validate_node_append [append_simps]:
  "validate_node s i (xs @ ys) = xs @ validate_node s i ys"
  by (simp add: validate_node_def append_simps cong: if_cong option.case_cong)

lemma validate_source_service_append [append_simps]:
  "validate_source_service s i (xs @ ys) = xs @ validate_source_service s i ys"
  by (simp add: validate_source_service_def Let_def append_simps cong: if_cong option.case_cong)

lemma validate_repository_append [append_simps]:
  "validate_repository i r (xs @ ys) = xs @ validate_repository i r ys"
  by (simp add: validate_repository_def Let_def append_simps cong: if_cong option.case_cong)

lemma validate_repositories_from_append [append_simps]:
  "validate_repositories_from i rs (xs @ ys) = xs @ validate_repositories_from i rs ys"
  by (induction rs arbitrary: i ys) (simp_all add: append_simps cong: if_cong option.case_cong)

lemma validate_service_text_append [append_simps]:
  "validate_service_text i s (xs @ ys) = xs @ validate_service_text i s ys"
  by (simp add: validate_service_text_def Let_def append_simps cong: if_cong option.case_cong)

lemma validate_static_service_append [append_simps]:
  "validate_static_service i s (xs @ ys) = xs @ validate_static_service i s ys"
  by (simp add: validate_static_service_def Let_def append_simps cong: if_cong option.case_cong)

lemma validate_application_service_append [append_simps]:
  "validate_application_service i s (xs @ ys) = xs @ validate_application_service i s ys"
  by (simp add: validate_application_service_def Let_def append_simps cong: if_cong option.case_cong)

lemma validate_postgres_service_append [append_simps]:
  "validate_postgres_service i s (xs @ ys) = xs @ validate_postgres_service i s ys"
  by (simp add: validate_postgres_service_def Let_def append_simps cong: if_cong option.case_cong)

lemma validate_service_append [append_simps]:
  "validate_service i s (scan, xs @ ys) =
     (fst (validate_service i s (scan, ys)), xs @ snd (validate_service i s (scan, ys)))"
  by (simp add: validate_service_def Let_def append_simps cong: if_cong option.case_cong split: service_kind.split)

lemma validate_services_from_append [append_simps]:
  "validate_services_from i ss (scan, xs @ ys) =
     (fst (validate_services_from i ss (scan, ys)), xs @ snd (validate_services_from i ss (scan, ys)))"
proof (induction ss arbitrary: i scan ys)
  case (Cons s ss)
  obtain scan' zs where "validate_service i s (scan, ys) = (scan', zs)"
    by (cases "validate_service i s (scan, ys)")
  then show ?case using Cons by (simp add: append_simps cong: if_cong option.case_cong)
qed simp

lemma validate_service_counts_append [append_simps]:
  "validate_service_counts scan (xs @ ys) = xs @ validate_service_counts scan ys"
  by (simp add: validate_service_counts_def Let_def append_simps cong: if_cong option.case_cong)

lemma validate_limit_append [append_simps]:
  "validate_limit i l w (xs @ ys) = xs @ validate_limit i l w ys"
  by (simp add: validate_limit_def Let_def append_simps cong: if_cong option.case_cong)

lemma validate_limits_from_append [append_simps]:
  "validate_limits_from i ls seen (xs @ ys) =
     (fst (validate_limits_from i ls seen ys), xs @ snd (validate_limits_from i ls seen ys))"
  by (induction ls arbitrary: i seen ys) (simp_all add: append_simps cong: if_cong option.case_cong)

lemma validate_missing_limits_append [append_simps]:
  "validate_missing_limits ws seen (xs @ ys) = xs @ validate_missing_limits ws seen ys"
  by (induction ws arbitrary: ys) (simp_all add: append_simps cong: if_cong option.case_cong)

interpretation repositories: appender "validate_repositories spec" for spec
  by unfold_locales (simp add: validate_repositories_def append_simps cong: if_cong option.case_cong)

interpretation services: appender "validate_services spec" for spec
  by unfold_locales (simp add: validate_services_def append_simps cong: if_cong option.case_cong split: prod.split)

interpretation resources: appender "validate_resources spec" for spec
  by unfold_locales (simp add: validate_resources_def append_simps cong: if_cong option.case_cong split: prod.split)

section \<open>When a validator accepts\<close>

lemma issue_nonempty [simp]: "issue issues code path m \<noteq> []"
  by (simp add: issue_def)

lemma mismatch_accepts [accept_simps]: "mismatch b code path is = [] \<longleftrightarrow> is = [] \<and> \<not> b"
  by (simp add: mismatch_def)

lemma count_limit_accepts [accept_simps]: "count_limit n code is = [] \<longleftrightarrow> is = [] \<and> n \<le> 1"
  by (auto simp: count_limit_def)

lemma bounded_text_accepts [accept_simps]:
  "bounded_text t n path is = [] \<longleftrightarrow> is = [] \<and> within t n"
  by (auto simp: bounded_text_def within_def split: option.splits)

lemma require_safe_path_accepts [accept_simps]:
  "require_safe_path t code path m is = [] \<longleftrightarrow> is = [] \<and> (\<exists>p. t = Some p \<and> safe_relative_path p)"
  by (auto simp: require_safe_path_def split: option.splits)

lemma require_text_accepts [accept_simps]:
  "require_text t code path m is = [] \<longleftrightarrow> is = [] \<and> nonblank t"
  by (auto simp: require_text_def nonblank_def split: option.splits)

lemma unsupported_framework_rejects [simp]: "unsupported_framework i is \<noteq> []"
  by (simp add: unsupported_framework_def)

lemma validate_node_accepts [accept_simps]:
  "validate_node s i is = [] \<longleftrightarrow> is = [] \<and> node_ok s"
  by (auto simp: validate_node_def node_ok_def split: option.splits)

lemma validate_source_service_accepts [accept_simps]:
  "validate_source_service s i is = [] \<longleftrightarrow> is = [] \<and> svc_root s \<noteq> None"
  by (simp add: validate_source_service_def)

lemma safe_relative_path_nonempty: "safe_relative_path p \<Longrightarrow> p \<noteq> []"
  by (auto simp: safe_relative_path_def)

lemma validate_repository_accepts [accept_simps]:
  "validate_repository i r is = [] \<longleftrightarrow> is = [] \<and> repository_ok r"
  by (auto simp: validate_repository_def repository_ok_def Let_def accept_simps within_def
        dest: safe_relative_path_nonempty split: option.splits)

lemma validate_repositories_from_accepts [accept_simps]:
  "validate_repositories_from i rs is = [] \<longleftrightarrow> is = [] \<and> list_all repository_ok rs"
  by (induction rs arbitrary: i "is") (auto simp: accept_simps)

lemma validate_repositories_accepts [accept_simps]:
  "validate_repositories spec is = [] \<longleftrightarrow>
     is = [] \<and> (\<exists>r. spec_repositories spec = [r] \<and> repository_ok r)"
  by (auto simp: validate_repositories_def accept_simps length_Suc_conv)

lemma validate_service_text_accepts [accept_simps]:
  "validate_service_text i s is = [] \<longleftrightarrow> is = [] \<and> service_text_ok s"
  by (auto simp: validate_service_text_def service_text_ok_def Let_def accept_simps not_less
        within_def split: option.splits)

lemma validate_static_service_accepts [accept_simps]:
  "validate_static_service i s is = [] \<longleftrightarrow> is = [] \<and> static_ok s"
  by (auto simp: validate_static_service_def static_ok_def Let_def accept_simps)

lemma validate_application_service_accepts [accept_simps]:
  "validate_application_service i s is = [] \<longleftrightarrow> is = [] \<and> application_ok s"
  by (auto simp: validate_application_service_def application_ok_def Let_def accept_simps
        split: option.splits)

lemma validate_postgres_service_accepts [accept_simps]:
  "validate_postgres_service i s is = [] \<longleftrightarrow> is = [] \<and> postgres_ok s"
  by (auto simp: validate_postgres_service_def postgres_ok_def Let_def accept_simps)

text \<open>The two halves of one loop iteration: the scan it leaves and whether it reports.\<close>

lemma validate_service_accepts [accept_simps]:
  "snd (validate_service i s (scan, is)) = [] \<longleftrightarrow>
     is = [] \<and> svc_name s \<notin> sc_names scan \<and> service_ok s"
  by (auto simp: validate_service_def service_ok_def Let_def accept_simps split: service_kind.splits)

lemma validate_service_scan:
  "fst (validate_service i s (scan, is)) =
     \<lparr>sc_names = insert (svc_name s) (sc_names scan),
      sc_static = sc_static scan + of_kind StaticFrontend [s],
      sc_application = sc_application scan + of_kind Application [s],
      sc_database = sc_database scan + of_kind Postgres [s],
      sc_needs_database = sc_needs_database scan \<or> svc_uses_durable_data s\<rparr>"
  by (cases "svc_kind s") (simp_all add: validate_service_def of_kind_def Let_def)

lemma of_kind_Cons: "of_kind k (s # ss) = of_kind k [s] + of_kind k ss"
  by (simp add: of_kind_def)

lemma validate_services_from_scan:
  "fst (validate_services_from i ss (scan, is)) =
     \<lparr>sc_names = set (map svc_name ss) \<union> sc_names scan,
      sc_static = sc_static scan + of_kind StaticFrontend ss,
      sc_application = sc_application scan + of_kind Application ss,
      sc_database = sc_database scan + of_kind Postgres ss,
      sc_needs_database = sc_needs_database scan \<or> list_ex svc_uses_durable_data ss\<rparr>"
proof (induction ss arbitrary: i scan "is")
  case Nil
  show ?case by (simp add: of_kind_def)
next
  case (Cons s ss)
  obtain scan' is' where step: "validate_service i s (scan, is) = (scan', is')"
    by (cases "validate_service i s (scan, is)")
  then show ?case
    using validate_service_scan [of i s scan "is"]
    by (simp add: Cons.IH of_kind_Cons [of _ s ss] disj_assoc)
qed

lemma validate_services_from_accepts [accept_simps]:
  "snd (validate_services_from i ss (scan, is)) = [] \<longleftrightarrow>
     is = [] \<and> list_all service_ok ss \<and> distinct (map svc_name ss)
     \<and> set (map svc_name ss) \<inter> sc_names scan = {}"
proof (induction ss arbitrary: i scan "is")
  case (Cons s ss)
  obtain scan' is' where step: "validate_service i s (scan, is) = (scan', is')"
    by (cases "validate_service i s (scan, is)")
  then have "is' = [] \<longleftrightarrow> is = [] \<and> svc_name s \<notin> sc_names scan \<and> service_ok s"
    and "sc_names scan' = insert (svc_name s) (sc_names scan)"
    using validate_service_accepts [of i s scan "is"] validate_service_scan [of i s scan "is"]
    by simp_all
  then show ?case using step by (auto simp: Cons.IH)
qed simp

lemma validate_services_accepts [accept_simps]:
  "validate_services spec is = [] \<longleftrightarrow> is = [] \<and> services_ok (spec_services spec)"
proof -
  let ?ss = "spec_services spec"
  obtain scan is' where run: "validate_services_from 0 ?ss (empty_scan, is) = (scan, is')"
    by (cases "validate_services_from 0 ?ss (empty_scan, is)")
  then have scan: "sc_static scan = of_kind StaticFrontend ?ss"
      "sc_application scan = of_kind Application ?ss" "sc_database scan = of_kind Postgres ?ss"
      "sc_needs_database scan = list_ex svc_uses_durable_data ?ss"
    using validate_services_from_scan [of 0 ?ss empty_scan "is"] by (simp_all add: empty_scan_def)
  have "is' = [] \<longleftrightarrow> is = [] \<and> list_all service_ok ?ss \<and> distinct (map svc_name ?ss)"
    using validate_services_from_accepts [of 0 ?ss empty_scan "is"] run
    by (simp add: empty_scan_def)
  with run scan show ?thesis
    by (auto simp: validate_services_def validate_service_counts_def services_ok_def Let_def
          accept_simps)
qed

section \<open>Resources\<close>

lemma expected_limits_distinct: "distinct (map exp_resource EXPECTED_LIMITS)"
  by (simp add: EXPECTED_LIMITS_def expected_def)

lemma expected_limits_positive: "w \<in> set EXPECTED_LIMITS \<Longrightarrow> exp_amount w \<noteq> 0"
  by (auto simp: EXPECTED_LIMITS_def expected_def)

lemma expected_limit_total: "\<exists>w. expected_limit r = Some w"
  by (cases r) (simp_all add: expected_limit_def EXPECTED_LIMITS_def expected_def)

lemma expected_limit_Some:
  "expected_limit r = Some w \<longleftrightarrow> w \<in> set EXPECTED_LIMITS \<and> exp_resource w = r"
proof
  assume "expected_limit r = Some w"
  then show "w \<in> set EXPECTED_LIMITS \<and> exp_resource w = r"
    by (auto simp: expected_limit_def find_Some_iff)
next
  assume w: "w \<in> set EXPECTED_LIMITS \<and> exp_resource w = r"
  obtain w' where "expected_limit r = Some w'" using expected_limit_total by blast
  moreover then have "w' \<in> set EXPECTED_LIMITS \<and> exp_resource w' = r"
    by (auto simp: expected_limit_def find_Some_iff)
  ultimately show "expected_limit r = Some w"
    using w expected_limits_distinct by (auto simp: distinct_map inj_on_def)
qed

lemma validate_limit_accepts:
  assumes "expected_limit (lim_resource l) = Some w"
  shows "validate_limit i l w is = [] \<longleftrightarrow> is = [] \<and> l = benchmark w"
proof -
  have "exp_amount w \<noteq> 0" "exp_resource w = lim_resource l"
    using assms expected_limits_positive by (auto simp: expected_limit_Some)
  then show ?thesis
    by (cases l) (auto simp: validate_limit_def benchmark_def Let_def accept_simps split: option.splits)
qed

lemma benchmark_resource [simp]: "lim_resource (benchmark w) = exp_resource w"
  by (simp add: benchmark_def)

lemma limit_is_benchmark:
  assumes "expected_limit (lim_resource l) = Some w"
  shows "l = benchmark w \<longleftrightarrow> l \<in> benchmark ` set EXPECTED_LIMITS"
proof
  assume "l = benchmark w"
  with assms show "l \<in> benchmark ` set EXPECTED_LIMITS" by (simp add: expected_limit_Some)
next
  assume "l \<in> benchmark ` set EXPECTED_LIMITS"
  then obtain v where v: "v \<in> set EXPECTED_LIMITS" "l = benchmark v" by blast
  then have "expected_limit (lim_resource l) = Some v" by (simp add: expected_limit_Some)
  with assms v show "l = benchmark w" by simp
qed

lemma validate_limits_from_seen:
  "fst (validate_limits_from i ls seen is) = seen \<union> lim_resource ` set ls"
  by (induction ls arbitrary: i seen "is") auto

lemma validate_limits_from_accepts:
  "snd (validate_limits_from i ls seen is) = [] \<longleftrightarrow>
     is = [] \<and> distinct (map lim_resource ls) \<and> lim_resource ` set ls \<inter> seen = {}
     \<and> set ls \<subseteq> benchmark ` set EXPECTED_LIMITS"
proof (induction ls arbitrary: i seen "is")
  case (Cons l ls)
  obtain w where w: "expected_limit (lim_resource l) = Some w"
    using expected_limit_total by blast
  then show ?case
    by (auto simp: Cons.IH validate_limit_accepts limit_is_benchmark)
qed simp

lemma validate_missing_limits_accepts [accept_simps]:
  "validate_missing_limits ws seen is = [] \<longleftrightarrow> is = [] \<and> exp_resource ` set ws \<subseteq> seen"
  by (induction ws arbitrary: "is") auto

lemma validate_resources_accepts [accept_simps]:
  "validate_resources spec is = [] \<longleftrightarrow>
     is = [] \<and> mset (spec_limits spec) = mset (map benchmark EXPECTED_LIMITS)"
proof -
  let ?ls = "spec_limits spec" and ?B = "map benchmark EXPECTED_LIMITS"
  obtain seen is' where run: "validate_limits_from 0 ?ls {} is = (seen, is')"
    by (cases "validate_limits_from 0 ?ls {} is")
  have seen: "seen = lim_resource ` set ?ls"
    using validate_limits_from_seen [of 0 ?ls "{}" "is"] run by simp
  have is': "is' = [] \<longleftrightarrow> is = [] \<and> distinct (map lim_resource ?ls) \<and> set ?ls \<subseteq> set ?B"
    using validate_limits_from_accepts [of 0 ?ls "{}" "is"] run by simp
  have keys: "distinct (map lim_resource ?B)"
    using expected_limits_distinct by (simp add: comp_def)
  have "validate_resources spec is = [] \<longleftrightarrow>
          is = [] \<and> distinct (map lim_resource ?ls) \<and> set ?ls \<subseteq> set ?B
          \<and> (\<forall>b \<in> set ?B. lim_resource b \<in> lim_resource ` set ?ls)"
    using run is' seen by (auto simp: validate_resources_def accept_simps)
  also have "\<dots> \<longleftrightarrow> is = [] \<and> mset ?ls = mset ?B"
    using keyed_table_mset_iff [OF keys, of ?ls] by blast
  finally show ?thesis .
qed

lemma validate_spec_sound: "validate_spec spec = [] \<Longrightarrow> standard_project spec"
  by (auto simp: validate_spec_def standard_project_def Let_def accept_simps split: if_splits)

section \<open>Path confinement\<close>

text \<open>
  Resolution of a path below a directory, as the operating system does it: an empty segment and
  \<open>.\<close> stay, \<open>..\<close> goes up (\<open>None\<close> above the topmost directory), and an absolute path forgets the
  directory it was joined to.
\<close>

fun resolve_segments :: "string list \<Rightarrow> string list \<Rightarrow> string list option" where
  "resolve_segments dir [] = Some dir"
| "resolve_segments dir (seg # segs) =
    (if seg = [] \<or> seg = ''.'' then resolve_segments dir segs
     else if seg = ''..'' then
       (if dir = [] then None else resolve_segments (butlast dir) segs)
     else resolve_segments (dir @ [seg]) segs)"

definition join_path :: "string list \<Rightarrow> string \<Rightarrow> string list option" where
  "join_path dir path =
     resolve_segments (if starts_with ''/'' path then [] else dir) (split_on CHR ''/'' path)"

definition source_paths :: "standard_project_spec \<Rightarrow> string set" where
  "source_paths spec =
     {p. \<exists>r \<in> set (spec_repositories spec). repo_lockfile_path r = Some p}
     \<union> {p. \<exists>s \<in> set (spec_services spec). svc_root s = Some p}
     \<union> {p. \<exists>s \<in> set (spec_services spec).
            svc_kind s = StaticFrontend \<and> svc_output_directory s = Some p}"

lemma resolve_plain_segments:
  "\<forall>seg \<in> set segs. seg \<noteq> [] \<and> seg \<noteq> ''.'' \<and> seg \<noteq> ''..'' \<Longrightarrow>
     resolve_segments dir segs = Some (dir @ segs)"
  by (induction segs arbitrary: dir) auto

lemma safe_relative_path_confined:
  "safe_relative_path p \<Longrightarrow>
     join_path dir p = Some (dir @ (if p = ''.'' then [] else split_on CHR ''/'' p))"
proof (cases "p = ''.''")
  case True
  then show ?thesis by (simp add: join_path_def starts_with_def)
next
  case False
  assume "safe_relative_path p"
  with False show ?thesis
    by (auto simp: safe_relative_path_def join_path_def resolve_plain_segments split: if_splits)
qed

lemma accepted_source_path_safe:
  assumes "standard_project spec" and "p \<in> source_paths spec"
  shows "safe_relative_path p"
  using assms
  by (auto simp: standard_project_def source_paths_def repository_ok_def services_ok_def
        service_ok_def service_text_ok_def static_ok_def list_all_iff)

section \<open>Properties\<close>

text \<open>
  C1. Soundness and completeness of the project validator: \<open>StandardProjectSpec::validate\<close>
  returns no issue exactly for the specifications that meet the declarative contract, that is,
  the contract version, one npm repository with a safe bounded package-lock.json, services of
  the three supported kinds each well configured and with distinct names, at most one of each
  kind and at least one that runs, a database whenever data is durable and only beside an
  application, and the benchmark resource table.
\<close>

theorem validate_spec_sound_complete: "validate_spec spec = [] \<longleftrightarrow> standard_project spec"
  by (auto simp: validate_spec_def standard_project_def Let_def accept_simps)

text \<open>
  C2. The resource envelope is exactly the adopted one: if validation reports nothing, the
  submitted limits are the rows of \<open>EXPECTED_LIMITS\<close> as benchmark candidates, each exactly once,
  in some order.
\<close>

theorem accepted_limits_are_benchmark:
  assumes "validate_spec spec = []"
  shows "mset (spec_limits spec) = mset (map benchmark EXPECTED_LIMITS)
    \<and> (\<forall>r. \<exists>!l. l \<in> set (spec_limits spec) \<and> lim_resource l = r)"
proof -
  have m: "mset (spec_limits spec) = mset (map benchmark EXPECTED_LIMITS)"
    using validate_spec_sound [OF assms] by (simp add: standard_project_def)
  then have set: "set (spec_limits spec) = benchmark ` set EXPECTED_LIMITS"
    by (metis list.set_map mset_eq_setD)
  have "\<exists>!l. l \<in> set (spec_limits spec) \<and> lim_resource l = r" for r
  proof -
    obtain w where "expected_limit r = Some w" using expected_limit_total by blast
    then show ?thesis unfolding set by (auto simp: expected_limit_Some) (metis expected_limit_Some option.inject)
  qed
  with m show ?thesis by blast
qed

text \<open>
  C3. Path confinement: every lockfile path, service root and static output directory of an
  accepted specification, joined to any directory, resolves to a place inside that directory,
  without ever climbing above it.
\<close>

theorem accepted_paths_confined:
  assumes "validate_spec spec = []" and "p \<in> source_paths spec"
  shows "\<exists>below. join_path dir p = Some (dir @ below)"
  using safe_relative_path_confined
    [OF accepted_source_path_safe [OF validate_spec_sound [OF assms(1)] assms(2)]]
  by blast

text \<open>
  No stage of the validator hides another: the issues reported for a specification are the
  version issue and the issues each of the three stages reports when run alone.
\<close>

lemma validate_spec_reports_every_stage:
  "set (validate_spec spec) =
     {i. spec_contract_version spec \<noteq> PROJECT_CONTRACT_VERSION
         \<and> i = \<lparr>issue_code = UnsupportedContractVersion, issue_path = ''contract_version'',
                issue_message = ''the project contract version is not supported''\<rparr>}
     \<union> set (validate_repositories spec []) \<union> set (validate_services spec [])
     \<union> set (validate_resources spec [])"
  by (auto simp: validate_spec_def Let_def resources.reported [of spec "validate_services _ _"]
        services.reported [of spec "validate_repositories _ _"]
        repositories.reported [of spec "if _ then _ else _"] issue_def)

section \<open>An accepted specification\<close>

definition demo_spec :: standard_project_spec where
  "demo_spec =
    \<lparr>spec_contract_version = ''hostlet.project/v1'',
     spec_repositories =
       [\<lparr>repo_layout = Monorepo, repo_package_manager = Npm,
         repo_lockfile_path = Some ''apps/package-lock.json''\<rparr>],
     spec_services =
       [\<lparr>svc_name = ''web'', svc_kind = StaticFrontend, svc_root = Some ''apps/web'',
         svc_framework = ViteStatic, svc_node = Some \<lparr>node_major = 24\<rparr>,
         svc_build_command = Some ''npm run build'', svc_output_directory = Some ''dist'',
         svc_start_command = None, svc_health_check = None, svc_uses_durable_data = False\<rparr>,
        \<lparr>svc_name = ''api'', svc_kind = Application, svc_root = Some ''.'',
         svc_framework = NodeHttp, svc_node = Some \<lparr>node_major = 22\<rparr>,
         svc_build_command = None, svc_output_directory = None,
         svc_start_command = Some ''node api.mjs'',
         svc_health_check = Some \<lparr>hc_protocol = Http, hc_path = ''/healthz''\<rparr>,
         svc_uses_durable_data = True\<rparr>,
        \<lparr>svc_name = ''db'', svc_kind = Postgres, svc_root = None,
         svc_framework = Postgresql18, svc_node = None, svc_build_command = None,
         svc_output_directory = None, svc_start_command = None, svc_health_check = None,
         svc_uses_durable_data = False\<rparr>],
     spec_limits = rev (map benchmark EXPECTED_LIMITS)\<rparr>"

lemmas service_contract_defs =
  service_ok_def service_text_ok_def static_ok_def application_ok_def postgres_ok_def node_ok_def
  nonblank_def within_def

lemma demo_spec_accepted: "validate_spec demo_spec = []"
proof -
  have paths: "safe_relative_path ''apps/package-lock.json''" "safe_relative_path ''apps/web''"
    "safe_relative_path ''.''" "safe_relative_path ''dist''" "safe_http_path ''/healthz''"
    by (simp_all add: safe_relative_path_def safe_http_path_def starts_with_def)
  have repo: "repository_ok r" if "r \<in> set (spec_repositories demo_spec)" for r
    using that paths by (simp add: demo_spec_def repository_ok_def project_limits)
  have "service_ok s" if "s \<in> set (spec_services demo_spec)" for s
    using that paths
    by (auto simp: demo_spec_def service_contract_defs project_limits trim_eq_Nil is_whitespace_def
        is_control_def)
  then have "services_ok (spec_services demo_spec)"
    by (simp add: services_ok_def list_all_iff) (simp add: demo_spec_def of_kind_def)
  with repo show ?thesis
    by (simp add: validate_spec_def Let_def accept_simps) (simp add: demo_spec_def
      PROJECT_CONTRACT_VERSION_def)
qed

theorem accepted_limits_are_benchmark_witness:
  "mset (spec_limits demo_spec) = mset (map benchmark EXPECTED_LIMITS)"
  using accepted_limits_are_benchmark [OF demo_spec_accepted] by blast

theorem accepted_paths_confined_witness:
  "\<exists>below. join_path [''srv'', ''checkout''] ''apps/web'' = Some ([''srv'', ''checkout''] @ below)"
proof -
  have "''apps/web'' \<in> source_paths demo_spec"
    by (simp add: source_paths_def demo_spec_def)
  then show ?thesis by (rule accepted_paths_confined [OF demo_spec_accepted])
qed

end
