(* ===== verification/Portfolio_Contract.thy ===== *)
theory Portfolio_Contract
  imports Hostlet_Prelude
begin

text \<open>
  The portfolio contract, \<^verbatim>\<open>crates/protocol/src/portfolio.rs\<close>: owner-authored drafts, the
  approval targets derived from what a draft shows, owner edits, approved revisions with their
  approval manifest, and authorized deployment facts, each with its validator.  The validators
  push \<open>FieldViolation\<close>s onto a vector and \<open>finish\<close> turns the vector into the result.

  The \<open>url\<close> crate is not part of the repository.  Its parser is the parameter \<open>parse_url\<close> of
  every definition that checks a link, and \<open>parsed_url\<close> holds the answers of the accessors the
  code calls on a parsed URL.
\<close>

section \<open>Data\<close>

datatype portfolio_contract_version = V1
datatype visibility = Shown | Hidden
datatype contact_kind = Email | Website | Social | OtherContact
datatype project_reference_kind = HostedProject string | ExternalCaseStudy string
datatype project_link_kind = SourceLink | DemoLink | OtherLink
datatype evidence_kind = ScreenshotEvidence | DocumentEvidence | DemoRecording
datatype readiness_recheck_reason = NeverChecked | NewRelease | DemoAccessChanged | OwnerRequested
datatype narrative_field =
  DisplayName | Headline | Introduction | TargetRole | Skills | ProjectTitle | ProjectPurpose
datatype status_field =
  DeploymentTimestamp | Availability | ReleaseIdentifier | SourceCommit | DemoReadinessField
datatype availability_label = Available | Degraded | DemoOffline
datatype refreshable_deployment_fact =
  ManagedDemoDestination | DeploymentTimestampFact | AvailabilityLabelFact
datatype page_load_dependency = Dashboard | Github | TenantApplication
datatype audit_event_kind =
  OwnerEdit | OwnerApproval | DeploymentFactsAuthorized | DeploymentFactsRefreshed
| RevisionApproved
datatype link_scheme = Https | Mailto

datatype approval_target =
  Narrative narrative_field "string option"
| Contact string
| Link string "string option"
| Screenshot string string
| Contribution string
| TechnicalDecision string string
| Status string status_field

record public_link =
  link_id :: string
  link_label :: string
  link_url :: string

record contact_link =
  contact_id :: string
  contact_kind_of :: contact_kind
  contact_label :: string
  contact_url :: string

record technical_decision =
  decision_id :: string
  decision_summary :: string
  decision_rationale :: string

record project_link =
  plink_kind :: project_link_kind
  plink_link :: public_link

record project_evidence =
  evidence_id :: string
  evidence_kind_of :: evidence_kind
  evidence_title :: string
  evidence_url :: string
  evidence_caption :: "string option"
  evidence_alt_text :: "string option"

record displayed_status =
  shows_deployment_timestamp :: bool
  shows_availability :: bool
  shows_release_identifier :: bool
  shows_source_commit :: bool
  shows_demo_readiness :: bool

record readiness_attestation =
  att_release_id :: string
  att_checked_at :: string
  att_demo_page_verified :: bool
  att_synthetic_example_data_verified :: bool
  att_restricted_access_verified :: bool
  att_visitor_instructions_verified :: bool
  att_visitor_instructions :: string

datatype demo_readiness =
  ReadyToShare readiness_attestation
| NeedsRecheck "readiness_attestation option" readiness_recheck_reason

record project_reference =
  project_reference_id :: string
  project_kind :: project_reference_kind
  project_order :: "16 word"
  project_visibility :: visibility
  project_title :: string
  project_purpose :: string
  project_contribution :: string
  project_technical_decisions :: "technical_decision list"
  project_links :: "project_link list"
  project_evidence_items :: "project_evidence list"
  project_authorized_deployment_facts_id :: "string option"
  project_displayed_status :: displayed_status
  project_demo_readiness :: demo_readiness

record portfolio_profile =
  profile_display_name :: string
  profile_headline :: "string option"
  profile_introduction :: string
  profile_target_role :: string

record section_visibility =
  vis_headline :: visibility
  vis_introduction :: visibility
  vis_target_role :: visibility
  vis_skills :: visibility
  vis_resume :: visibility
  vis_contacts :: visibility
  vis_projects :: visibility

record portfolio_draft =
  draft_contract_version :: portfolio_contract_version
  draft_profile :: portfolio_profile
  draft_skills :: "string list"
  draft_resume :: "public_link option"
  draft_contacts :: "contact_link list"
  draft_projects :: "project_reference list"
  draft_section_visibility :: section_visibility

record audit_descriptor =
  audit_event_id :: string
  audit_kind :: audit_event_kind
  audit_actor_id :: string
  audit_occurred_at :: string
  audit_reason :: string
  audit_correlation_id :: string

record field_violation =
  violation_path :: string
  violation_code :: string
  violation_message :: string

type_synonym violations = "field_violation list"

record validation_errors =
  ve_violations :: violations

definition hosted_slots_consumed :: "project_reference_kind \<Rightarrow> 16 word" where
  "hosted_slots_consumed kind = 0"

text \<open>What the code asks of a parsed URL (\<open>Url\<close> of the \<open>url\<close> crate).\<close>

record parsed_url =
  url_scheme :: string
  url_has_host :: bool
  url_host_str :: "string option"
  url_username :: string
  url_password :: "string option"
  url_path :: string
  url_query :: "string option"
  url_fragment :: "string option"

type_synonym url_parser = "string \<Rightarrow> parsed_url option"

abbreviation (input) MAX_ID_LEN :: nat where "MAX_ID_LEN \<equiv> 128"
abbreviation (input) MAX_URL_LEN :: nat where "MAX_URL_LEN \<equiv> 2048"
abbreviation (input) MAX_DIGEST_LEN :: nat where "MAX_DIGEST_LEN \<equiv> 71"
abbreviation (input) MAX_TIMESTAMP_LEN :: nat where "MAX_TIMESTAMP_LEN \<equiv> 64"
abbreviation (input) MAX_AUDIT_REASON_LEN :: nat where "MAX_AUDIT_REASON_LEN \<equiv> 500"
abbreviation (input) MAX_SKILLS :: nat where "MAX_SKILLS \<equiv> 64"
abbreviation (input) MAX_CONTACTS :: nat where "MAX_CONTACTS \<equiv> 16"
abbreviation (input) MAX_PROJECTS :: nat where "MAX_PROJECTS \<equiv> 32"
abbreviation (input) MAX_DECISIONS :: nat where "MAX_DECISIONS \<equiv> 16"
abbreviation (input) MAX_LINKS :: nat where "MAX_LINKS \<equiv> 16"
abbreviation (input) MAX_EVIDENCE :: nat where "MAX_EVIDENCE \<equiv> 24"

section \<open>Field validators\<close>

definition push_error :: "violations \<Rightarrow> string \<Rightarrow> string \<Rightarrow> string \<Rightarrow> violations" where
  "push_error errors path code message =
     errors @ [\<lparr>violation_path = path, violation_code = code, violation_message = message\<rparr>]"

definition finish :: "violations \<Rightarrow> validation_errors + unit" where
  "finish errors = (if errors = [] then Inr () else Inl \<lparr>ve_violations = errors\<rparr>)"

definition errors_from :: "validation_errors + unit \<Rightarrow> violations" where
  "errors_from result = (case result of Inl e \<Rightarrow> ve_violations e | Inr _ \<Rightarrow> [])"

definition validate_unique ::
  "violations \<Rightarrow> string \<Rightarrow> string \<Rightarrow> string set \<Rightarrow> violations \<times> string set" where
  "validate_unique errors path value seen =
     (if value \<in> seen
      then push_error errors path ''duplicate_id''
             ''identifier must be unique within its collection''
      else errors, insert value seen)"

definition validate_count :: "violations \<Rightarrow> string \<Rightarrow> nat \<Rightarrow> nat \<Rightarrow> violations" where
  "validate_count errors path n maximum =
     (if n > maximum
      then push_error errors path ''too_many_items''
             (''collection cannot contain more than '' @ show_nat maximum @ '' items'')
      else errors)"

definition validate_text :: "violations \<Rightarrow> string \<Rightarrow> string \<Rightarrow> nat \<Rightarrow> nat \<Rightarrow> violations" where
  "validate_text errors path value minimum maximum =
     (let len = length (chars value);
          e1 = (if len < minimum \<or> len > maximum
                then push_error errors path ''invalid_length''
                       (''value must contain between '' @ show_nat minimum @ '' and ''
                        @ show_nat maximum @ '' characters'')
                else errors)
      in if \<exists>c \<in> set (chars value). is_control c \<and> c \<noteq> 10 \<and> c \<noteq> 9
         then push_error e1 path ''control_character''
                ''value contains an unsupported control character''
         else e1)"

definition validate_optional_text ::
  "violations \<Rightarrow> string \<Rightarrow> string option \<Rightarrow> nat \<Rightarrow> violations" where
  "validate_optional_text errors path value maximum =
     (case value of Some v \<Rightarrow> validate_text errors path v 1 maximum | None \<Rightarrow> errors)"

definition id_byte :: "char \<Rightarrow> bool" where
  "id_byte b \<longleftrightarrow> is_ascii_alphanumeric b \<or> b \<in> set ''-_.:''"

definition validate_id :: "violations \<Rightarrow> string \<Rightarrow> string \<Rightarrow> violations" where
  "validate_id errors path value =
     (let e1 = validate_text errors path value 1 MAX_ID_LEN
      in if \<not> (\<forall>b \<in> set value. id_byte b)
         then push_error e1 path ''invalid_id''
                ''identifier may contain only ASCII letters, digits, dash, underscore, dot, and colon''
         else e1)"

definition validate_optional_id :: "violations \<Rightarrow> string \<Rightarrow> string option \<Rightarrow> violations" where
  "validate_optional_id errors path value =
     (case value of Some v \<Rightarrow> validate_id errors path v | None \<Rightarrow> errors)"

definition validate_digest :: "violations \<Rightarrow> string \<Rightarrow> string \<Rightarrow> violations" where
  "validate_digest errors path value =
     (let e1 = validate_text errors path value MAX_DIGEST_LEN MAX_DIGEST_LEN;
          valid = (case strip_prefix ''sha256:'' value of
                     Some digest \<Rightarrow> length digest = 64 \<and> (\<forall>b \<in> set digest. is_ascii_hexdigit b)
                   | None \<Rightarrow> False)
      in if \<not> valid
         then push_error e1 path ''invalid_digest''
                ''digest must be sha256 followed by 64 hexadecimal characters''
         else e1)"

definition validate_timestamp :: "violations \<Rightarrow> string \<Rightarrow> string \<Rightarrow> violations" where
  "validate_timestamp errors path value =
     (let e1 = validate_text errors path value 1 MAX_TIMESTAMP_LEN
      in if CHR ''T'' \<notin> set value \<or> \<not> (ends_with ''Z'' value \<or> CHR ''+'' \<in> set value)
         then push_error e1 path ''invalid_timestamp''
                ''timestamp must be a bounded RFC 3339 UTC or offset value''
         else e1)"

definition validate_audit :: "violations \<Rightarrow> string \<Rightarrow> audit_descriptor \<Rightarrow> violations" where
  "validate_audit errors path audit =
     (let e1 = validate_id errors (path @ ''.event_id'') (audit_event_id audit);
          e2 = validate_id e1 (path @ ''.actor_id'') (audit_actor_id audit);
          e3 = validate_timestamp e2 (path @ ''.occurred_at'') (audit_occurred_at audit);
          e4 = validate_text e3 (path @ ''.reason'') (audit_reason audit) 1 MAX_AUDIT_REASON_LEN
      in validate_id e4 (path @ ''.correlation_id'') (audit_correlation_id audit))"

definition https_url :: "parsed_url \<Rightarrow> bool" where
  "https_url parsed \<longleftrightarrow>
     url_scheme parsed = ''https'' \<and> url_has_host parsed
     \<and> (case url_host_str parsed of Some host \<Rightarrow> host \<noteq> [] | None \<Rightarrow> False)
     \<and> url_username parsed = [] \<and> url_password parsed = None"

definition mailto_url :: "parsed_url \<Rightarrow> bool" where
  "mailto_url parsed \<longleftrightarrow>
     url_scheme parsed = ''mailto'' \<and> url_query parsed = None \<and> url_fragment parsed = None
     \<and> (case split_on CHR ''@'' (url_path parsed) of
          [part1, part2] \<Rightarrow> part1 \<noteq> [] \<and> CHR ''.'' \<in> set part2
        | _ \<Rightarrow> False)"

definition validate_url ::
  "url_parser \<Rightarrow> violations \<Rightarrow> string \<Rightarrow> string \<Rightarrow> link_scheme \<Rightarrow> violations" where
  "validate_url parse_url errors path value scheme =
     (let e1 = validate_text errors path value 1 MAX_URL_LEN
      in if (\<exists>c \<in> set (chars value). is_whitespace c) \<or> CHR 0x5C \<in> set value
         then push_error e1 path ''invalid_url'' ''URLs cannot contain whitespace or backslashes''
         else (case parse_url value of
                 None \<Rightarrow> push_error e1 path ''invalid_url'' ''URL must be absolute and well formed''
               | Some parsed \<Rightarrow>
                   if \<not> (case scheme of Https \<Rightarrow> https_url parsed | Mailto \<Rightarrow> mailto_url parsed)
                   then push_error e1 path ''unsupported_url_scheme''
                          (case scheme of
                             Https \<Rightarrow> ''public links must use an absolute https URL''
                           | Mailto \<Rightarrow> ''email contacts must use a valid mailto URL'')
                   else e1))"

definition validate_link ::
  "url_parser \<Rightarrow> violations \<Rightarrow> string \<Rightarrow> public_link \<Rightarrow> link_scheme \<Rightarrow> violations" where
  "validate_link parse_url errors path link scheme =
     (let e1 = validate_id errors (path @ ''.id'') (link_id link);
          e2 = validate_text e1 (path @ ''.label'') (link_label link) 1 80
      in validate_url parse_url e2 (path @ ''.url'') (link_url link) scheme)"

section \<open>Projects\<close>

definition validate_readiness :: "violations \<Rightarrow> string \<Rightarrow> demo_readiness \<Rightarrow> violations" where
  "validate_readiness errors path readiness =
     (let (e1, attestation) =
        (case readiness of
           ReadyToShare att \<Rightarrow>
             (if \<not> (att_demo_page_verified att \<and> att_synthetic_example_data_verified att
                   \<and> att_restricted_access_verified att \<and> att_visitor_instructions_verified att)
              then push_error errors path ''incomplete_readiness''
                     ''ready-to-share requires every owner readiness check''
              else errors, Some att)
         | NeedsRecheck previous reason \<Rightarrow>
             (if reason = NeverChecked \<and> previous \<noteq> None
              then push_error errors path ''inconsistent_readiness_history''
                     ''never-checked readiness cannot retain a previous attestation''
              else errors, previous))
      in case attestation of
           None \<Rightarrow> e1
         | Some att \<Rightarrow>
             (let e2 = validate_id e1 (path @ ''.release_id'') (att_release_id att);
                  e3 = validate_timestamp e2 (path @ ''.checked_at'') (att_checked_at att)
              in validate_text e3 (path @ ''.visitor_instructions'')
                   (att_visitor_instructions att) 1 2000))"

fun validate_decisions ::
  "string \<Rightarrow> nat \<Rightarrow> technical_decision list \<Rightarrow> violations \<times> string set \<Rightarrow> violations \<times> string set" where
  "validate_decisions path index [] st = st"
| "validate_decisions path index (d # ds) st =
     (let (errors, decision_ids) = st;
          item_path = indexed (path @ ''.technical_decisions'') index;
          e1 = validate_id errors (item_path @ ''.id'') (decision_id d);
          (e2, ids) = validate_unique e1 (item_path @ ''.id'') (decision_id d) decision_ids;
          e3 = validate_text e2 (item_path @ ''.summary'') (decision_summary d) 1 1000;
          e4 = validate_text e3 (item_path @ ''.rationale'') (decision_rationale d) 1 2000
      in validate_decisions path (Suc index) ds (e4, ids))"

fun validate_links ::
  "url_parser \<Rightarrow> string \<Rightarrow> nat \<Rightarrow> project_link list \<Rightarrow> violations \<times> string set
     \<Rightarrow> violations \<times> string set" where
  "validate_links parse_url path index [] st = st"
| "validate_links parse_url path index (l # ls) st =
     (let (errors, link_ids) = st;
          item_path = indexed (path @ ''.links'') index @ ''.link'';
          e1 = validate_link parse_url errors item_path (plink_link l) Https
      in validate_links parse_url path (Suc index) ls
           (validate_unique e1 (item_path @ ''.id'') (link_id (plink_link l)) link_ids))"

text \<open>
  Evidence that is not a screenshot is approved under a link target, so its identifier must also
  be fresh among the project's links.
\<close>

fun validate_evidence ::
  "url_parser \<Rightarrow> string \<Rightarrow> nat \<Rightarrow> project_evidence list \<Rightarrow> violations \<times> string set \<times> string set
     \<Rightarrow> violations \<times> string set \<times> string set" where
  "validate_evidence parse_url path index [] st = st"
| "validate_evidence parse_url path index (ev # evs) st =
     (let (errors, evidence_ids, link_ids) = st;
          item_path = indexed (path @ ''.evidence'') index;
          e1 = validate_id errors (item_path @ ''.id'') (evidence_id ev);
          (e2, ev_ids) = validate_unique e1 (item_path @ ''.id'') (evidence_id ev) evidence_ids;
          (e3, l_ids) =
            (if evidence_kind_of ev \<noteq> ScreenshotEvidence
             then validate_unique e2 (item_path @ ''.id'') (evidence_id ev) link_ids
             else (e2, link_ids));
          e4 = validate_text e3 (item_path @ ''.title'') (evidence_title ev) 1 160;
          e5 = validate_url parse_url e4 (item_path @ ''.url'') (evidence_url ev) Https;
          e6 = validate_optional_text e5 (item_path @ ''.caption'') (evidence_caption ev) 500;
          e7 = validate_optional_text e6 (item_path @ ''.alt_text'') (evidence_alt_text ev) 500;
          e8 = (if evidence_kind_of ev = ScreenshotEvidence
                  \<and> (case evidence_alt_text ev of None \<Rightarrow> True | Some t \<Rightarrow> t = [])
                then push_error e7 (item_path @ ''.alt_text'') ''missing_alt_text''
                       ''shown screenshot evidence requires alternative text''
                else e7)
      in validate_evidence parse_url path (Suc index) evs (e8, ev_ids, l_ids))"

record project_scan =
  ps_reference_ids :: "string set"
  ps_orders :: "16 word set"

definition validate_project ::
  "url_parser \<Rightarrow> bool \<Rightarrow> string \<Rightarrow> project_reference \<Rightarrow> violations \<times> project_scan
     \<Rightarrow> violations \<times> project_scan" where
  "validate_project parse_url require_authorized_facts path project st =
     (let (errors, scan) = st;
          e1 = validate_id errors (path @ ''.project_reference_id'') (project_reference_id project);
          (e2, ref_ids) = validate_unique e1 (path @ ''.project_reference_id'')
                            (project_reference_id project) (ps_reference_ids scan);
          e3 = (if project_order project \<in> ps_orders scan
                then push_error e2 (path @ ''.order'') ''duplicate_order''
                       ''project order values must be unique''
                else e2);
          e4 = (case project_kind project of
                  HostedProject project_id \<Rightarrow>
                    validate_id e3 (path @ ''.kind.project_id'') project_id
                | ExternalCaseStudy external_reference_id \<Rightarrow>
                    validate_id e3 (path @ ''.kind.external_reference_id'') external_reference_id);
          e5 = validate_text e4 (path @ ''.title'') (project_title project) 1 160;
          e6 = validate_text e5 (path @ ''.purpose'') (project_purpose project) 1 4000;
          e7 = validate_text e6 (path @ ''.contribution'') (project_contribution project) 1 4000;
          e8 = validate_count e7 (path @ ''.technical_decisions'')
                 (length (project_technical_decisions project)) MAX_DECISIONS;
          (e9, decision_ids) =
            validate_decisions path 0 (project_technical_decisions project) (e8, {});
          e10 = validate_count e9 (path @ ''.links'') (length (project_links project)) MAX_LINKS;
          (e11, link_ids) = validate_links parse_url path 0 (project_links project) (e10, {});
          e12 = validate_count e11 (path @ ''.evidence'')
                  (length (project_evidence_items project)) MAX_EVIDENCE;
          (e13, evidence_ids, link_ids') =
            validate_evidence parse_url path 0 (project_evidence_items project) (e12, {}, link_ids);
          e14 = validate_optional_id e13 (path @ ''.authorized_deployment_facts_id'')
                  (project_authorized_deployment_facts_id project);
          status = project_displayed_status project;
          e15 = (if require_authorized_facts
                   \<and> (shows_deployment_timestamp status \<or> shows_availability status
                      \<or> shows_release_identifier status \<or> shows_source_commit status)
                   \<and> project_authorized_deployment_facts_id project = None
                 then push_error e14 (path @ ''.authorized_deployment_facts_id'')
                        ''missing_authorized_facts''
                        ''displayed deployment fields require an authorized deployment-facts record''
                 else e14)
      in (validate_readiness e15 (path @ ''.demo_readiness'') (project_demo_readiness project),
          \<lparr>ps_reference_ids = ref_ids, ps_orders = insert (project_order project) (ps_orders scan)\<rparr>))"

section \<open>Drafts\<close>

fun validate_skills :: "nat \<Rightarrow> string list \<Rightarrow> violations \<Rightarrow> violations" where
  "validate_skills index [] errors = errors"
| "validate_skills index (skill # skills) errors =
     validate_skills (Suc index) skills (validate_text errors (indexed ''skills'' index) skill 1 80)"

fun contact_scheme :: "contact_kind \<Rightarrow> link_scheme" where
  "contact_scheme Email = Mailto"
| "contact_scheme Website = Https"
| "contact_scheme Social = Https"
| "contact_scheme OtherContact = Https"

fun validate_contacts ::
  "url_parser \<Rightarrow> nat \<Rightarrow> contact_link list \<Rightarrow> violations \<times> string set \<Rightarrow> violations \<times> string set" where
  "validate_contacts parse_url index [] st = st"
| "validate_contacts parse_url index (c # cs) st =
     (let (errors, contact_ids) = st;
          path = indexed ''contacts'' index;
          e1 = validate_id errors (path @ ''.id'') (contact_id c);
          (e2, ids) = validate_unique e1 (path @ ''.id'') (contact_id c) contact_ids;
          e3 = validate_text e2 (path @ ''.label'') (contact_label c) 1 80;
          e4 = validate_url parse_url e3 (path @ ''.url'') (contact_url c)
                 (contact_scheme (contact_kind_of c))
      in validate_contacts parse_url (Suc index) cs (e4, ids))"

fun validate_projects ::
  "url_parser \<Rightarrow> bool \<Rightarrow> nat \<Rightarrow> project_reference list \<Rightarrow> violations \<times> project_scan
     \<Rightarrow> violations \<times> project_scan" where
  "validate_projects parse_url require_facts index [] st = st"
| "validate_projects parse_url require_facts index (p # ps) st =
     validate_projects parse_url require_facts (Suc index) ps
       (validate_project parse_url require_facts (indexed ''projects'' index) p st)"

text \<open>
  The loop over \<open>0..self.projects.len()\<close> stops at the first order value (cast to \<open>u16\<close>) that no
  project has.
\<close>

fun validate_order_gap :: "nat list \<Rightarrow> 16 word set \<Rightarrow> violations \<Rightarrow> violations" where
  "validate_order_gap [] project_orders errors = errors"
| "validate_order_gap (expected_order # rest) project_orders errors =
     (if (of_nat expected_order :: 16 word) \<notin> project_orders
      then push_error errors ''projects'' ''project_order_gap''
             ''project order values must be unique and contiguous from zero''
      else validate_order_gap rest project_orders errors)"

definition validate_with_fact_binding ::
  "url_parser \<Rightarrow> bool \<Rightarrow> portfolio_draft \<Rightarrow> validation_errors + unit" where
  "validate_with_fact_binding parse_url require_authorized_facts draft =
     (let profile = draft_profile draft;
          e1 = validate_text [] ''profile.display_name'' (profile_display_name profile) 1 120;
          e2 = validate_optional_text e1 ''profile.headline'' (profile_headline profile) 160;
          e3 = validate_text e2 ''profile.introduction'' (profile_introduction profile) 1 4000;
          e4 = validate_text e3 ''profile.target_role'' (profile_target_role profile) 1 240;
          e5 = validate_count e4 ''skills'' (length (draft_skills draft)) MAX_SKILLS;
          e6 = validate_skills 0 (draft_skills draft) e5;
          e7 = (case draft_resume draft of
                  Some resume \<Rightarrow> validate_link parse_url e6 ''resume'' resume Https
                | None \<Rightarrow> e6);
          e8 = validate_count e7 ''contacts'' (length (draft_contacts draft)) MAX_CONTACTS;
          (e9, contact_ids) = validate_contacts parse_url 0 (draft_contacts draft) (e8, {});
          e10 = validate_count e9 ''projects'' (length (draft_projects draft)) MAX_PROJECTS;
          (e11, scan) =
            validate_projects parse_url require_authorized_facts 0 (draft_projects draft)
              (e10, \<lparr>ps_reference_ids = {}, ps_orders = {}\<rparr>)
      in finish (validate_order_gap [0..<length (draft_projects draft)] (ps_orders scan) e11))"

definition validate_draft :: "url_parser \<Rightarrow> portfolio_draft \<Rightarrow> validation_errors + unit" where
  "validate_draft parse_url draft = validate_with_fact_binding parse_url True draft"

definition validate_private_input ::
  "url_parser \<Rightarrow> portfolio_draft \<Rightarrow> validation_errors + unit" where
  "validate_private_input parse_url draft = validate_with_fact_binding parse_url False draft"

section \<open>Approval targets\<close>

definition evidence_target :: "string \<Rightarrow> project_evidence \<Rightarrow> approval_target" where
  "evidence_target pid ev =
     (case evidence_kind_of ev of
        ScreenshotEvidence \<Rightarrow> Screenshot pid (evidence_id ev)
      | DocumentEvidence \<Rightarrow> Link (evidence_id ev) (Some pid)
      | DemoRecording \<Rightarrow> Link (evidence_id ev) (Some pid))"

definition status_targets :: "string \<Rightarrow> displayed_status \<Rightarrow> approval_target list" where
  "status_targets pid status =
     (if shows_deployment_timestamp status then [Status pid DeploymentTimestamp] else [])
     @ (if shows_availability status then [Status pid Availability] else [])
     @ (if shows_release_identifier status then [Status pid ReleaseIdentifier] else [])
     @ (if shows_source_commit status then [Status pid SourceCommit] else [])
     @ (if shows_demo_readiness status then [Status pid DemoReadinessField] else [])"

definition project_targets :: "project_reference \<Rightarrow> approval_target list" where
  "project_targets project =
     (let pid = project_reference_id project
      in [Narrative ProjectTitle (Some pid), Narrative ProjectPurpose (Some pid), Contribution pid]
         @ map (\<lambda>d. TechnicalDecision pid (decision_id d)) (project_technical_decisions project)
         @ map (\<lambda>l. Link (link_id (plink_link l)) (Some pid)) (project_links project)
         @ map (evidence_target pid) (project_evidence_items project)
         @ status_targets pid (project_displayed_status project))"

definition profile_targets :: "portfolio_draft \<Rightarrow> approval_target list" where
  "profile_targets draft =
     (let vis = draft_section_visibility draft
      in [Narrative DisplayName None]
         @ (if vis_headline vis = Shown \<and> profile_headline (draft_profile draft) \<noteq> None
            then [Narrative Headline None] else [])
         @ (if vis_introduction vis = Shown then [Narrative Introduction None] else [])
         @ (if vis_target_role vis = Shown then [Narrative TargetRole None] else [])
         @ (if vis_skills vis = Shown \<and> draft_skills draft \<noteq> [] then [Narrative Skills None] else [])
         @ (case draft_resume draft of
              Some resume \<Rightarrow> if vis_resume vis = Shown then [Link (link_id resume) None] else []
            | None \<Rightarrow> [])
         @ (if vis_contacts vis = Shown
            then map (\<lambda>c. Contact (contact_id c)) (draft_contacts draft) else []))"

definition required_approval_targets :: "portfolio_draft \<Rightarrow> approval_target list" where
  "required_approval_targets draft =
     profile_targets draft
     @ (if vis_projects (draft_section_visibility draft) = Shown
        then concat (map project_targets
               (filter (\<lambda>p. project_visibility p = Shown) (draft_projects draft)))
        else [])"

section \<open>Records, edits and approved revisions\<close>

record portfolio_draft_record =
  rec_draft_id :: string
  rec_owner_id :: string
  rec_draft_version :: "64 word"
  rec_draft :: portfolio_draft
  rec_last_owner_edit_id :: "string option"
  rec_created_at :: string
  rec_updated_at :: string

definition validate_draft_record ::
  "url_parser \<Rightarrow> portfolio_draft_record \<Rightarrow> validation_errors + unit" where
  "validate_draft_record parse_url r =
     (let e1 = errors_from (validate_draft parse_url (rec_draft r));
          e2 = validate_id e1 ''draft_id'' (rec_draft_id r);
          e3 = validate_id e2 ''owner_id'' (rec_owner_id r);
          e4 = (if rec_draft_version r = 0
                then push_error e3 ''draft_version'' ''invalid_version''
                       ''draft version must be at least one''
                else e3);
          e5 = validate_optional_id e4 ''last_owner_edit_id'' (rec_last_owner_edit_id r);
          e6 = validate_timestamp e5 ''created_at'' (rec_created_at r)
      in finish (validate_timestamp e6 ''updated_at'' (rec_updated_at r)))"

definition saturating_add_u64 :: "64 word \<Rightarrow> 64 word \<Rightarrow> 64 word" where
  "saturating_add_u64 a b = (if unat a + unat b < 2 ^ 64 then a + b else - 1)"

record owner_edit_descriptor =
  edit_id :: string
  edit_draft_id :: string
  edit_base_draft_version :: "64 word"
  edit_resulting_draft_version :: "64 word"
  edit_changed_paths :: "string list"
  edit_resulting_content_digest :: string
  edit_audit :: audit_descriptor

fun validate_changed_paths :: "nat \<Rightarrow> string list \<Rightarrow> violations \<Rightarrow> violations" where
  "validate_changed_paths index [] errors = errors"
| "validate_changed_paths index (path # paths) errors =
     validate_changed_paths (Suc index) paths
       (validate_text errors (indexed ''changed_paths'' index) path 1 240)"

definition validate_owner_edit :: "owner_edit_descriptor \<Rightarrow> validation_errors + unit" where
  "validate_owner_edit edit =
     (let e1 = validate_id [] ''edit_id'' (edit_id edit);
          e2 = validate_id e1 ''draft_id'' (edit_draft_id edit);
          e3 = (if edit_base_draft_version edit = 0
                  \<or> edit_resulting_draft_version edit
                      \<noteq> saturating_add_u64 (edit_base_draft_version edit) 1
                then push_error e2 ''resulting_draft_version'' ''invalid_edit_version''
                       ''an owner edit must advance the draft version by exactly one''
                else e2);
          e4 = validate_count e3 ''changed_paths'' (length (edit_changed_paths edit)) 64;
          e5 = (if edit_changed_paths edit = []
                then push_error e4 ''changed_paths'' ''empty_edit''
                       ''an owner edit must name at least one changed path''
                else e4);
          e6 = validate_changed_paths 0 (edit_changed_paths edit) e5;
          e7 = validate_digest e6 ''resulting_content_digest'' (edit_resulting_content_digest edit)
      in finish (validate_audit e7 ''audit'' (edit_audit edit)))"

record approved_revision_metadata =
  meta_revision_id :: string
  meta_draft_id :: string
  meta_draft_version :: "64 word"
  meta_owner_id :: string
  meta_content_digest :: string
  meta_approved_at :: string
  meta_previous_revision_id :: "string option"
  meta_audit :: audit_descriptor

definition validate_revision_metadata ::
  "approved_revision_metadata \<Rightarrow> validation_errors + unit" where
  "validate_revision_metadata m =
     (let e1 = validate_id [] ''revision_id'' (meta_revision_id m);
          e2 = validate_id e1 ''draft_id'' (meta_draft_id m);
          e3 = validate_id e2 ''owner_id'' (meta_owner_id m);
          e4 = (if meta_draft_version m = 0
                then push_error e3 ''draft_version'' ''invalid_version''
                       ''approved draft version must be at least one''
                else e3);
          e5 = validate_digest e4 ''content_digest'' (meta_content_digest m);
          e6 = validate_timestamp e5 ''approved_at'' (meta_approved_at m);
          e7 = validate_optional_id e6 ''previous_revision_id'' (meta_previous_revision_id m)
      in finish (validate_audit e7 ''audit'' (meta_audit m)))"

record approval_requirement =
  req_target :: approval_target
  req_value_digest :: string

record field_approval =
  appr_target :: approval_target
  appr_value_digest :: string
  appr_revision_content_digest :: string
  appr_approved_by_owner_id :: string
  appr_approved_at :: string
  appr_audit :: audit_descriptor

record static_artifact_contract =
  sac_page_load_dependencies :: "page_load_dependency list"
  sac_portfolio_slots_consumed :: "16 word"
  sac_external_case_study_slots_consumed :: "16 word"

record approved_portfolio_revision =
  apr_metadata :: approved_revision_metadata
  apr_snapshot :: portfolio_draft
  apr_approval_manifest :: "approval_requirement list"
  apr_approvals :: "field_approval list"
  apr_authorized_deployment_fact_ids :: "string list"
  apr_static_artifact_contract :: static_artifact_contract

definition validate_static_contract ::
  "violations \<Rightarrow> static_artifact_contract \<Rightarrow> violations" where
  "validate_static_contract errors contract =
     (let e1 = (if sac_page_load_dependencies contract \<noteq> []
                then push_error errors ''static_artifact_contract.page_load_dependencies''
                       ''runtime_dependency_forbidden''
                       ''static artifacts cannot depend on the dashboard, GitHub, or tenant applications at page load''
                else errors);
          e2 = (if sac_portfolio_slots_consumed contract \<noteq> 0
                then push_error e1 ''static_artifact_contract.portfolio_slots_consumed''
                       ''slot_consumption_forbidden''
                       ''a portfolio consumes zero hosted project slots''
                else e1)
      in if sac_external_case_study_slots_consumed contract \<noteq> 0
         then push_error e2 ''static_artifact_contract.external_case_study_slots_consumed''
                ''slot_consumption_forbidden''
                ''an external case study consumes zero hosted project slots''
         else e2)"

fun validate_required_targets ::
  "approval_requirement list \<Rightarrow> approval_target list \<Rightarrow> violations \<Rightarrow> violations" where
  "validate_required_targets manifest [] errors = errors"
| "validate_required_targets manifest (target # targets) errors =
     validate_required_targets manifest targets
       (if length (filter (\<lambda>requirement. req_target requirement = target) manifest) \<noteq> 1
        then push_error errors ''approval_manifest'' ''approval_requirement_mismatch''
               ''every shown field must have exactly one server-derived approval requirement''
        else errors)"

definition validate_matching_approval ::
  "approved_revision_metadata \<Rightarrow> approval_requirement \<Rightarrow> field_approval \<Rightarrow> violations \<Rightarrow> violations" where
  "validate_matching_approval metadata requirement approval errors =
     (let e1 = (if appr_value_digest approval \<noteq> req_value_digest requirement
                then push_error errors ''approvals'' ''approval_value_changed''
                       ''approval value digest must match the approved field value''
                else errors);
          e2 = (if appr_revision_content_digest approval \<noteq> meta_content_digest metadata
                then push_error e1 ''approvals'' ''approval_revision_changed''
                       ''approval must cover this immutable revision digest''
                else e1)
      in if appr_approved_by_owner_id approval \<noteq> meta_owner_id metadata
         then push_error e2 ''approvals'' ''approval_owner_mismatch''
                ''approval must come from the portfolio owner''
         else e2)"

fun validate_manifest ::
  "approved_revision_metadata \<Rightarrow> approval_target list \<Rightarrow> field_approval list
     \<Rightarrow> approval_requirement list \<Rightarrow> violations \<Rightarrow> violations" where
  "validate_manifest metadata required approvals [] errors = errors"
| "validate_manifest metadata required approvals (requirement # requirements) errors =
     (let e1 = (if req_target requirement \<notin> set required
                then push_error errors ''approval_manifest'' ''unexpected_approval_requirement''
                       ''approval manifest contains a target that is not shown in the snapshot''
                else errors);
          e2 = validate_digest e1 ''approval_manifest.value_digest'' (req_value_digest requirement);
          matching = filter (\<lambda>approval. appr_target approval = req_target requirement) approvals;
          e3 = (case matching of
                  [approval] \<Rightarrow> validate_matching_approval metadata requirement approval e2
                | _ \<Rightarrow>
                    push_error e2 ''approvals'' ''missing_or_duplicate_approval''
                      ''every approval requirement must have exactly one owner approval'')
      in validate_manifest metadata required approvals requirements e3)"

fun validate_approvals ::
  "approval_requirement list \<Rightarrow> field_approval list \<Rightarrow> violations \<Rightarrow> violations" where
  "validate_approvals manifest [] errors = errors"
| "validate_approvals manifest (approval # approvals) errors =
     (let e1 = validate_digest errors ''approvals.value_digest'' (appr_value_digest approval);
          e2 = validate_digest e1 ''approvals.revision_content_digest''
                 (appr_revision_content_digest approval);
          e3 = validate_id e2 ''approvals.approved_by_owner_id''
                 (appr_approved_by_owner_id approval);
          e4 = validate_timestamp e3 ''approvals.approved_at'' (appr_approved_at approval);
          e5 = validate_audit e4 ''approvals.audit'' (appr_audit approval);
          e6 = (if \<not> (\<exists>requirement \<in> set manifest. req_target requirement = appr_target approval)
                then push_error e5 ''approvals'' ''unexpected_approval''
                       ''approval does not correspond to a server-derived requirement''
                else e5)
      in validate_approvals manifest approvals e6)"

fun validate_fact_ids :: "nat \<Rightarrow> string list \<Rightarrow> violations \<times> string set \<Rightarrow> violations \<times> string set" where
  "validate_fact_ids index [] st = st"
| "validate_fact_ids index (fid # fids) st =
     (let (errors, fact_ids) = st;
          path = indexed ''authorized_deployment_fact_ids'' index;
          e1 = validate_id errors path fid
      in validate_fact_ids (Suc index) fids (validate_unique e1 path fid fact_ids))"

definition validate_approved_revision ::
  "url_parser \<Rightarrow> approved_portfolio_revision \<Rightarrow> validation_errors + unit" where
  "validate_approved_revision parse_url revision =
     (let e1 = errors_from (validate_revision_metadata (apr_metadata revision));
          e2 = e1 @ errors_from (validate_draft parse_url (apr_snapshot revision));
          e3 = validate_count e2 ''approval_manifest'' (length (apr_approval_manifest revision)) 512;
          e4 = validate_count e3 ''approvals'' (length (apr_approvals revision)) 512;
          required_targets = required_approval_targets (apr_snapshot revision);
          e5 = validate_required_targets (apr_approval_manifest revision) required_targets e4;
          e6 = validate_manifest (apr_metadata revision) required_targets (apr_approvals revision)
                 (apr_approval_manifest revision) e5;
          e7 = validate_approvals (apr_approval_manifest revision) (apr_approvals revision) e6;
          (e8, fact_ids) =
            validate_fact_ids 0 (apr_authorized_deployment_fact_ids revision) (e7, {})
      in finish (validate_static_contract e8 (apr_static_artifact_contract revision)))"

section \<open>Deployment facts\<close>

record public_source_commit =
  psc_commit :: string
  psc_opted_in_by_owner_id :: string
  psc_opted_in_at :: string

record fact_refresh_authorization =
  fra_fields :: "refreshable_deployment_fact list"
  fra_authorized_by_owner_id :: string
  fra_authorized_at :: string

record authorized_deployment_facts =
  adf_contract_version :: portfolio_contract_version
  adf_facts_id :: string
  adf_owner_id :: string
  adf_project_reference_id :: string
  adf_deployment_id :: string
  adf_release_id :: string
  adf_managed_demo_url :: string
  adf_deployed_at :: string
  adf_availability :: availability_label
  adf_status_label :: string
  adf_public_source_commit :: "public_source_commit option"
  adf_fact_refresh :: "fact_refresh_authorization option"
  adf_audit :: audit_descriptor

fun validate_refresh_fields ::
  "refreshable_deployment_fact list \<Rightarrow> refreshable_deployment_fact set \<Rightarrow> violations \<Rightarrow> violations" where
  "validate_refresh_fields [] seen errors = errors"
| "validate_refresh_fields (f # fs) seen errors =
     validate_refresh_fields fs (insert f seen)
       (if f \<in> seen
        then push_error errors ''fact_refresh.fields'' ''duplicate_refresh_field''
               ''fact refresh fields must be unique''
        else errors)"

definition validate_fact_refresh ::
  "violations \<Rightarrow> fact_refresh_authorization \<Rightarrow> string \<Rightarrow> violations" where
  "validate_fact_refresh errors refresh owner_id =
     (let e1 = (if fra_fields refresh = []
                then push_error errors ''fact_refresh.fields'' ''empty_refresh_scope''
                       ''fact refresh opt-in must name at least one supported field''
                else errors);
          e2 = (if length (fra_fields refresh) > 3
                then push_error e1 ''fact_refresh.fields'' ''too_many_items''
                       ''fact refresh can cover only the three supported managed fields''
                else e1);
          e3 = validate_refresh_fields (fra_fields refresh) {} e2;
          e4 = validate_id e3 ''fact_refresh.authorized_by_owner_id''
                 (fra_authorized_by_owner_id refresh);
          e5 = (if fra_authorized_by_owner_id refresh \<noteq> owner_id
                then push_error e4 ''fact_refresh.authorized_by_owner_id'' ''owner_mismatch''
                       ''fact refresh opt-in must come from the portfolio owner''
                else e4)
      in validate_timestamp e5 ''fact_refresh.authorized_at'' (fra_authorized_at refresh))"

definition validate_source_commit_optin ::
  "violations \<Rightarrow> public_source_commit \<Rightarrow> string \<Rightarrow> violations" where
  "validate_source_commit_optin errors commit owner_id =
     (let e1 = validate_text errors ''public_source_commit.commit'' (psc_commit commit) 7 64;
          e2 = (if \<not> (\<forall>b \<in> set (psc_commit commit). is_ascii_hexdigit b)
                then push_error e1 ''public_source_commit.commit'' ''invalid_commit''
                       ''public source commit must be a hexadecimal commit identifier''
                else e1);
          e3 = validate_id e2 ''public_source_commit.opted_in_by_owner_id''
                 (psc_opted_in_by_owner_id commit);
          e4 = (if psc_opted_in_by_owner_id commit \<noteq> owner_id
                then push_error e3 ''public_source_commit.opted_in_by_owner_id'' ''owner_mismatch''
                       ''source commit display opt-in must come from the portfolio owner''
                else e3)
      in validate_timestamp e4 ''public_source_commit.opted_in_at'' (psc_opted_in_at commit))"

definition validate_deployment_facts ::
  "url_parser \<Rightarrow> authorized_deployment_facts \<Rightarrow> validation_errors + unit" where
  "validate_deployment_facts parse_url facts =
     (let e1 = validate_id [] ''facts_id'' (adf_facts_id facts);
          e2 = validate_id e1 ''owner_id'' (adf_owner_id facts);
          e3 = validate_id e2 ''project_reference_id'' (adf_project_reference_id facts);
          e4 = validate_id e3 ''deployment_id'' (adf_deployment_id facts);
          e5 = validate_id e4 ''release_id'' (adf_release_id facts);
          e6 = validate_url parse_url e5 ''managed_demo_url'' (adf_managed_demo_url facts) Https;
          e7 = validate_timestamp e6 ''deployed_at'' (adf_deployed_at facts);
          e8 = validate_text e7 ''status_label'' (adf_status_label facts) 1 80;
          e9 = (case adf_public_source_commit facts of
                  Some commit \<Rightarrow> validate_source_commit_optin e8 commit (adf_owner_id facts)
                | None \<Rightarrow> e8);
          e10 = (case adf_fact_refresh facts of
                   Some refresh \<Rightarrow> validate_fact_refresh e9 refresh (adf_owner_id facts)
                 | None \<Rightarrow> e9)
      in finish (validate_audit e10 ''audit'' (adf_audit facts)))"

end
