(* ===== verification/Portfolio_Properties.thy ===== *)
theory Portfolio_Properties
  imports Portfolio_Contract
begin

text \<open>
  What the validators of \<open>Portfolio_Contract\<close> guarantee.  Each field and each record has a
  declarative contract (\<open>text_ok\<close>, \<open>project_ok\<close>, \<open>draft_ok\<close>, ...), and the collection
  \<open>accept_simps\<close> holds, for every validator, that it stays silent exactly on values that meet
  the contract.  On top of these: the approval targets of an accepted draft are pairwise
  distinct, and the approvals of an accepted revision enumerate them.
\<close>

section \<open>Field contracts\<close>

definition text_ok :: "nat \<Rightarrow> nat \<Rightarrow> string \<Rightarrow> bool" where
  "text_ok minimum maximum v \<longleftrightarrow>
     minimum \<le> length (chars v) \<and> length (chars v) \<le> maximum
     \<and> (\<forall>c \<in> set (chars v). is_control c \<longrightarrow> c = 10 \<or> c = 9)"

definition id_ok :: "string \<Rightarrow> bool" where
  "id_ok v \<longleftrightarrow> v \<noteq> [] \<and> length v \<le> 128 \<and> (\<forall>b \<in> set v. id_byte b)"

definition digest_ok :: "string \<Rightarrow> bool" where
  "digest_ok v \<longleftrightarrow>
     (\<exists>h. v = ''sha256:'' @ h \<and> length h = 64 \<and> (\<forall>b \<in> set h. is_ascii_hexdigit b))"

definition timestamp_ok :: "string \<Rightarrow> bool" where
  "timestamp_ok v \<longleftrightarrow>
     text_ok 1 64 v \<and> CHR ''T'' \<in> set v \<and> (ends_with ''Z'' v \<or> CHR ''+'' \<in> set v)"

definition audit_ok :: "audit_descriptor \<Rightarrow> bool" where
  "audit_ok a \<longleftrightarrow>
     id_ok (audit_event_id a) \<and> id_ok (audit_actor_id a) \<and> timestamp_ok (audit_occurred_at a)
     \<and> text_ok 1 500 (audit_reason a) \<and> id_ok (audit_correlation_id a)"

definition url_ok :: "url_parser \<Rightarrow> link_scheme \<Rightarrow> string \<Rightarrow> bool" where
  "url_ok parse_url scheme v \<longleftrightarrow>
     text_ok 1 2048 v \<and> (\<forall>c \<in> set (chars v). \<not> is_whitespace c) \<and> CHR 0x5C \<notin> set v
     \<and> (\<exists>u. parse_url v = Some u \<and> (case scheme of Https \<Rightarrow> https_url u | Mailto \<Rightarrow> mailto_url u))"

definition link_ok :: "url_parser \<Rightarrow> public_link \<Rightarrow> bool" where
  "link_ok parse_url l \<longleftrightarrow>
     id_ok (link_id l) \<and> text_ok 1 80 (link_label l) \<and> url_ok parse_url Https (link_url l)"

definition attestation_ok :: "readiness_attestation \<Rightarrow> bool" where
  "attestation_ok a \<longleftrightarrow>
     id_ok (att_release_id a) \<and> timestamp_ok (att_checked_at a)
     \<and> text_ok 1 2000 (att_visitor_instructions a)"

definition readiness_ok :: "demo_readiness \<Rightarrow> bool" where
  "readiness_ok r \<longleftrightarrow>
     (case r of
        ReadyToShare a \<Rightarrow>
          att_demo_page_verified a \<and> att_synthetic_example_data_verified a
          \<and> att_restricted_access_verified a \<and> att_visitor_instructions_verified a
          \<and> attestation_ok a
      | NeedsRecheck previous reason \<Rightarrow>
          (reason = NeverChecked \<longrightarrow> previous = None)
          \<and> (\<forall>a. previous = Some a \<longrightarrow> attestation_ok a))"

definition decision_ok :: "technical_decision \<Rightarrow> bool" where
  "decision_ok d \<longleftrightarrow>
     id_ok (decision_id d) \<and> text_ok 1 1000 (decision_summary d)
     \<and> text_ok 1 2000 (decision_rationale d)"

definition evidence_ok :: "url_parser \<Rightarrow> project_evidence \<Rightarrow> bool" where
  "evidence_ok parse_url ev \<longleftrightarrow>
     id_ok (evidence_id ev) \<and> text_ok 1 160 (evidence_title ev)
     \<and> url_ok parse_url Https (evidence_url ev)
     \<and> pred_option (text_ok 1 500) (evidence_caption ev)
     \<and> pred_option (text_ok 1 500) (evidence_alt_text ev)
     \<and> (evidence_kind_of ev = ScreenshotEvidence \<longrightarrow> evidence_alt_text ev \<noteq> None)"

definition not_screenshot :: "project_evidence \<Rightarrow> bool" where
  "not_screenshot ev \<longleftrightarrow> evidence_kind_of ev \<noteq> ScreenshotEvidence"

definition shows_deployment_facts :: "project_reference \<Rightarrow> bool" where
  "shows_deployment_facts p \<longleftrightarrow>
     (let s = project_displayed_status p
      in shows_deployment_timestamp s \<or> shows_availability s \<or> shows_release_identifier s
         \<or> shows_source_commit s)"

definition kind_ok :: "project_reference_kind \<Rightarrow> bool" where
  "kind_ok k \<longleftrightarrow> (case k of HostedProject i \<Rightarrow> id_ok i | ExternalCaseStudy i \<Rightarrow> id_ok i)"

text \<open>The identifiers that a project's links and link-like evidence are approved under.\<close>

definition link_target_ids :: "project_reference \<Rightarrow> string list" where
  "link_target_ids p =
     map (\<lambda>l. link_id (plink_link l)) (project_links p)
     @ map evidence_id (filter not_screenshot (project_evidence_items p))"

definition project_ok :: "url_parser \<Rightarrow> bool \<Rightarrow> project_reference \<Rightarrow> bool" where
  "project_ok parse_url require_facts p \<longleftrightarrow>
     id_ok (project_reference_id p) \<and> kind_ok (project_kind p)
     \<and> text_ok 1 160 (project_title p) \<and> text_ok 1 4000 (project_purpose p)
     \<and> text_ok 1 4000 (project_contribution p)
     \<and> length (project_technical_decisions p) \<le> 16
     \<and> list_all decision_ok (project_technical_decisions p)
     \<and> distinct (map decision_id (project_technical_decisions p))
     \<and> length (project_links p) \<le> 16
     \<and> list_all (\<lambda>l. link_ok parse_url (plink_link l)) (project_links p)
     \<and> length (project_evidence_items p) \<le> 24
     \<and> list_all (evidence_ok parse_url) (project_evidence_items p)
     \<and> distinct (map evidence_id (project_evidence_items p))
     \<and> distinct (link_target_ids p)
     \<and> pred_option id_ok (project_authorized_deployment_facts_id p)
     \<and> (require_facts \<and> shows_deployment_facts p \<longrightarrow>
          project_authorized_deployment_facts_id p \<noteq> None)
     \<and> readiness_ok (project_demo_readiness p)"

definition contact_ok :: "url_parser \<Rightarrow> contact_link \<Rightarrow> bool" where
  "contact_ok parse_url c \<longleftrightarrow>
     id_ok (contact_id c) \<and> text_ok 1 80 (contact_label c)
     \<and> url_ok parse_url (contact_scheme (contact_kind_of c)) (contact_url c)"

definition draft_ok :: "url_parser \<Rightarrow> bool \<Rightarrow> portfolio_draft \<Rightarrow> bool" where
  "draft_ok parse_url require_facts d \<longleftrightarrow>
     text_ok 1 120 (profile_display_name (draft_profile d))
     \<and> pred_option (text_ok 1 160) (profile_headline (draft_profile d))
     \<and> text_ok 1 4000 (profile_introduction (draft_profile d))
     \<and> text_ok 1 240 (profile_target_role (draft_profile d))
     \<and> length (draft_skills d) \<le> 64 \<and> list_all (text_ok 1 80) (draft_skills d)
     \<and> pred_option (link_ok parse_url) (draft_resume d)
     \<and> length (draft_contacts d) \<le> 16 \<and> list_all (contact_ok parse_url) (draft_contacts d)
     \<and> distinct (map contact_id (draft_contacts d))
     \<and> length (draft_projects d) \<le> 32
     \<and> list_all (project_ok parse_url require_facts) (draft_projects d)
     \<and> distinct (map project_reference_id (draft_projects d))
     \<and> mset (map project_order (draft_projects d)) = mset (map of_nat [0..<length (draft_projects d)])"

section \<open>When the validators accept\<close>

lemma push_error_nonempty [simp]: "push_error errors path code m \<noteq> []"
  by (simp add: push_error_def)

lemma finish_accepts [accept_simps]: "finish errors = Inr u \<longleftrightarrow> errors = []"
  by (simp add: finish_def)

lemma errors_from_accepts [accept_simps]: "errors_from (finish errors) = errors"
  by (simp add: finish_def errors_from_def)

lemma validate_unique_pair:
  "validate_unique errors path value seen = (fst (validate_unique errors path value seen), insert value seen)"
  by (simp add: validate_unique_def)

lemma validate_unique_accepts [accept_simps]:
  "fst (validate_unique errors path value seen) = [] \<longleftrightarrow> errors = [] \<and> value \<notin> seen"
  by (simp add: validate_unique_def)

lemma validate_count_accepts [accept_simps]:
  "validate_count errors path n m = [] \<longleftrightarrow> errors = [] \<and> n \<le> m"
  by (auto simp: validate_count_def)

lemma validate_text_accepts [accept_simps]:
  "validate_text errors path v lo hi = [] \<longleftrightarrow> errors = [] \<and> text_ok lo hi v"
  by (auto simp: validate_text_def text_ok_def Let_def not_less)

lemma validate_optional_text_accepts [accept_simps]:
  "validate_optional_text errors path v hi = [] \<longleftrightarrow> errors = [] \<and> pred_option (text_ok 1 hi) v"
  by (auto simp: validate_optional_text_def accept_simps split: option.splits)

lemma id_byte_ascii: "id_byte b \<Longrightarrow> byte b < 128 \<and> \<not> is_control (byte b)"
  by (auto simp: id_byte_def is_ascii_alphanumeric_def is_ascii_alphabetic_def is_ascii_digit_def
      is_control_def)

lemma id_ok_text: "\<forall>b \<in> set v. id_byte b \<Longrightarrow> text_ok 1 128 v \<longleftrightarrow> v \<noteq> [] \<and> length v \<le> 128"
  using id_byte_ascii by (auto simp: text_ok_def chars_ascii Suc_le_eq)

lemma validate_id_accepts [accept_simps]:
  "validate_id errors path v = [] \<longleftrightarrow> errors = [] \<and> id_ok v"
  using id_ok_text by (auto simp: validate_id_def id_ok_def Let_def accept_simps)

lemma validate_optional_id_accepts [accept_simps]:
  "validate_optional_id errors path v = [] \<longleftrightarrow> errors = [] \<and> pred_option id_ok v"
  by (auto simp: validate_optional_id_def accept_simps split: option.splits)

lemma hexdigit_ascii: "is_ascii_hexdigit b \<Longrightarrow> byte b < 128 \<and> \<not> is_control (byte b)"
  by (auto simp: is_ascii_hexdigit_def is_ascii_digit_def is_control_def)

lemma digest_ok_text: "digest_ok v \<Longrightarrow> text_ok 71 71 v"
proof -
  assume "digest_ok v"
  then obtain h where h: "v = ''sha256:'' @ h" "length h = 64" "\<forall>b \<in> set h. is_ascii_hexdigit b"
    by (auto simp: digest_ok_def)
  then have "\<forall>b \<in> set v. byte b < 128" using hexdigit_ascii by auto
  then have "chars v = map byte v" by (rule chars_ascii)
  with h hexdigit_ascii show ?thesis by (auto simp: text_ok_def is_control_def)
qed

lemma validate_digest_accepts [accept_simps]:
  "validate_digest errors path v = [] \<longleftrightarrow> errors = [] \<and> digest_ok v"
proof -
  have "(case strip_prefix ''sha256:'' v of
           Some h \<Rightarrow> length h = 64 \<and> (\<forall>b \<in> set h. is_ascii_hexdigit b) | None \<Rightarrow> False)
        \<longleftrightarrow> digest_ok v"
    by (auto simp only: digest_ok_def strip_prefix_Some split: option.splits)
       (metis not_None_eq strip_prefix_Some)
  then show ?thesis
    using digest_ok_text by (auto simp: validate_digest_def Let_def accept_simps)
qed

lemma validate_timestamp_accepts [accept_simps]:
  "validate_timestamp errors path v = [] \<longleftrightarrow> errors = [] \<and> timestamp_ok v"
  by (auto simp: validate_timestamp_def timestamp_ok_def Let_def accept_simps)

lemma validate_audit_accepts [accept_simps]:
  "validate_audit errors path a = [] \<longleftrightarrow> errors = [] \<and> audit_ok a"
  by (auto simp: validate_audit_def audit_ok_def Let_def accept_simps)

lemma validate_url_accepts [accept_simps]:
  "validate_url parse_url errors path v scheme = [] \<longleftrightarrow> errors = [] \<and> url_ok parse_url scheme v"
  by (auto simp: validate_url_def url_ok_def Let_def accept_simps split: option.splits)

lemma validate_link_accepts [accept_simps]:
  "validate_link parse_url errors path l Https = [] \<longleftrightarrow> errors = [] \<and> link_ok parse_url l"
  by (auto simp: validate_link_def link_ok_def Let_def accept_simps)

lemma validate_readiness_accepts [accept_simps]:
  "validate_readiness errors path r = [] \<longleftrightarrow> errors = [] \<and> readiness_ok r"
  by (cases r)
     (auto simp: validate_readiness_def readiness_ok_def attestation_ok_def Let_def accept_simps
       split: option.splits)

text \<open>The loops: what each leaves in its set of seen identifiers, and when it stays silent.\<close>

lemma validate_decisions_accepts:
  "fst (validate_decisions path i ds (errors, seen)) = [] \<longleftrightarrow>
     errors = [] \<and> list_all decision_ok ds \<and> distinct (map decision_id ds)
     \<and> set (map decision_id ds) \<inter> seen = {}"
proof (induction ds arbitrary: i errors seen)
  case (Cons d ds)
  show ?case
    by (auto simp: Let_def validate_unique_def Cons.IH accept_simps decision_ok_def)
qed simp

lemma validate_links_seen:
  "snd (validate_links parse_url path i ls (errors, seen)) =
     set (map (\<lambda>l. link_id (plink_link l)) ls) \<union> seen"
  by (induction ls arbitrary: i errors seen) (simp_all add: Let_def validate_unique_def)

lemma validate_links_accepts:
  "fst (validate_links parse_url path i ls (errors, seen)) = [] \<longleftrightarrow>
     errors = [] \<and> list_all (\<lambda>l. link_ok parse_url (plink_link l)) ls
     \<and> distinct (map (\<lambda>l. link_id (plink_link l)) ls)
     \<and> set (map (\<lambda>l. link_id (plink_link l)) ls) \<inter> seen = {}"
proof (induction ls arbitrary: i errors seen)
  case (Cons l ls)
  show ?case
    by (auto simp: Let_def validate_unique_def Cons.IH accept_simps)
qed simp

lemma evidence_ok_alt:
  "evidence_ok parse_url ev \<longleftrightarrow>
     id_ok (evidence_id ev) \<and> text_ok 1 160 (evidence_title ev)
     \<and> url_ok parse_url Https (evidence_url ev)
     \<and> pred_option (text_ok 1 500) (evidence_caption ev)
     \<and> pred_option (text_ok 1 500) (evidence_alt_text ev)
     \<and> \<not> (evidence_kind_of ev = ScreenshotEvidence
          \<and> (case evidence_alt_text ev of None \<Rightarrow> True | Some t \<Rightarrow> t = []))"
  by (auto simp: evidence_ok_def text_ok_def split: option.splits)

lemma validate_evidence_accepts:
  "fst (validate_evidence parse_url path i evs (errors, seen, links)) = [] \<longleftrightarrow>
     errors = [] \<and> list_all (evidence_ok parse_url) evs \<and> distinct (map evidence_id evs)
     \<and> set (map evidence_id evs) \<inter> seen = {}
     \<and> set (map evidence_id (filter not_screenshot evs)) \<inter> links = {}"
proof (induction evs arbitrary: i errors seen links)
  case (Cons ev evs)
  show ?case
  proof (cases "not_screenshot ev")
    case True
    then show ?thesis
      by (auto simp: Let_def validate_unique_def Cons.IH accept_simps evidence_ok_alt
          not_screenshot_def)
  next
    case False
    then show ?thesis
      by (auto simp: Let_def validate_unique_def Cons.IH accept_simps evidence_ok_alt
          not_screenshot_def)
  qed
qed simp

lemma link_target_ids_distinct:
  assumes "distinct (map evidence_id (project_evidence_items p))"
  shows "distinct (link_target_ids p) \<longleftrightarrow>
     distinct (map (\<lambda>l. link_id (plink_link l)) (project_links p))
     \<and> set (map evidence_id (filter not_screenshot (project_evidence_items p)))
        \<inter> set (map (\<lambda>l. link_id (plink_link l)) (project_links p)) = {}"
  using assms distinct_map_filter [of evidence_id "project_evidence_items p" not_screenshot]
  by (auto simp: link_target_ids_def)

lemma validate_project_scan:
  "snd (validate_project parse_url rf path p (errors, scan)) =
     \<lparr>ps_reference_ids = insert (project_reference_id p) (ps_reference_ids scan),
      ps_orders = insert (project_order p) (ps_orders scan)\<rparr>"
  by (simp add: validate_project_def Let_def validate_unique_def case_prod_beta)

lemma validate_project_accepts:
  "fst (validate_project parse_url rf path p (errors, scan)) = [] \<longleftrightarrow>
     errors = [] \<and> project_ok parse_url rf p
     \<and> project_reference_id p \<notin> ps_reference_ids scan \<and> project_order p \<notin> ps_orders scan"
proof -
  let ?ds = "project_technical_decisions p" and ?ls = "project_links p"
    and ?evs = "project_evidence_items p"
  have kind: "(case project_kind p of HostedProject i \<Rightarrow> validate_id e a i
                | ExternalCaseStudy i \<Rightarrow> validate_id e b i) = [] \<longleftrightarrow> e = [] \<and> kind_ok (project_kind p)"
    for e a b by (cases "project_kind p") (simp_all add: accept_simps kind_ok_def)
  have links: "fst (validate_evidence parse_url path 0 ?evs
                 (e, {}, snd (validate_links parse_url path 0 ?ls (e', {})))) = [] \<longleftrightarrow>
      e = [] \<and> list_all (evidence_ok parse_url) ?evs \<and> distinct (map evidence_id ?evs)
      \<and> set (map evidence_id (filter not_screenshot ?evs))
          \<inter> set (map (\<lambda>l. link_id (plink_link l)) ?ls) = {}" for e e'
    by (simp add: validate_evidence_accepts validate_links_seen)
  show ?thesis
    using link_target_ids_distinct [of p]
    by (auto simp: validate_project_def project_ok_def Let_def validate_unique_def case_prod_beta
        kind links accept_simps validate_decisions_accepts validate_links_accepts
        shows_deployment_facts_def)
qed

lemma validate_projects_scan:
  "snd (validate_projects parse_url rf i ps (errors, scan)) =
     \<lparr>ps_reference_ids = set (map project_reference_id ps) \<union> ps_reference_ids scan,
      ps_orders = set (map project_order ps) \<union> ps_orders scan\<rparr>"
proof (induction ps arbitrary: i errors scan)
  case (Cons p ps)
  obtain errors' scan' where
    step: "validate_project parse_url rf (indexed ''projects'' i) p (errors, scan) = (errors', scan')"
    by (cases "validate_project parse_url rf (indexed ''projects'' i) p (errors, scan)")
  then show ?case
    using validate_project_scan [of parse_url rf "indexed ''projects'' i" p errors scan]
    by (simp add: Cons.IH)
qed simp

lemma validate_projects_accepts:
  "fst (validate_projects parse_url rf i ps (errors, scan)) = [] \<longleftrightarrow>
     errors = [] \<and> list_all (project_ok parse_url rf) ps
     \<and> distinct (map project_reference_id ps)
     \<and> set (map project_reference_id ps) \<inter> ps_reference_ids scan = {}
     \<and> distinct (map project_order ps) \<and> set (map project_order ps) \<inter> ps_orders scan = {}"
proof (induction ps arbitrary: i errors scan)
  case (Cons p ps)
  obtain errors' scan' where
    step: "validate_project parse_url rf (indexed ''projects'' i) p (errors, scan) = (errors', scan')"
    by (cases "validate_project parse_url rf (indexed ''projects'' i) p (errors, scan)")
  then have "errors' = [] \<longleftrightarrow> errors = [] \<and> project_ok parse_url rf p
      \<and> project_reference_id p \<notin> ps_reference_ids scan \<and> project_order p \<notin> ps_orders scan"
    and "ps_reference_ids scan' = insert (project_reference_id p) (ps_reference_ids scan)"
    and "ps_orders scan' = insert (project_order p) (ps_orders scan)"
    using validate_project_accepts [of parse_url rf "indexed ''projects'' i" p errors scan]
      validate_project_scan [of parse_url rf "indexed ''projects'' i" p errors scan]
    by simp_all
  then show ?case using step by (auto simp: Cons.IH)
qed simp

lemma validate_order_gap_accepts [accept_simps]:
  "validate_order_gap ks orders errors = [] \<longleftrightarrow> errors = [] \<and> of_nat ` set ks \<subseteq> orders"
  by (induction ks arbitrary: errors) auto

lemma validate_skills_accepts [accept_simps]:
  "validate_skills i ss errors = [] \<longleftrightarrow> errors = [] \<and> list_all (text_ok 1 80) ss"
  by (induction ss arbitrary: i errors) (auto simp: accept_simps)

lemma validate_contacts_accepts:
  "fst (validate_contacts parse_url i cs (errors, seen)) = [] \<longleftrightarrow>
     errors = [] \<and> list_all (contact_ok parse_url) cs \<and> distinct (map contact_id cs)
     \<and> set (map contact_id cs) \<inter> seen = {}"
proof (induction cs arbitrary: i errors seen)
  case (Cons c cs)
  show ?case
    by (auto simp: Let_def validate_unique_def Cons.IH accept_simps contact_ok_def)
qed simp

text \<open>
  Orders that are pairwise distinct and cover \<open>0..<n\<close> are a permutation of it; with at most 32
  projects the cast of the counter to \<open>u16\<close> is exact.
\<close>

lemma orders_contiguous_iff:
  fixes orders :: "16 word list"
  assumes "length orders \<le> 32"
  shows "distinct orders \<and> of_nat ` {0..<length orders} \<subseteq> set orders \<longleftrightarrow>
     mset orders = mset (map of_nat [0..<length orders])"
proof -
  let ?n = "length orders" and ?B = "map of_nat [0..<length orders] :: 16 word list"
  have "inj_on (of_nat :: nat \<Rightarrow> 16 word) {0..<?n}"
  proof (rule inj_onI)
    fix x y
    assume xy: "x \<in> {0..<?n}" "y \<in> {0..<?n}" and "(of_nat x :: 16 word) = of_nat y"
    then have "unat (of_nat x :: 16 word) = unat (of_nat y :: 16 word)" by simp
    then have "x mod 65536 = y mod 65536" by (simp add: unat_of_nat)
    with xy assms show "x = y" by simp
  qed
  then have dB: "distinct ?B" by (simp add: distinct_map)
  show ?thesis
  proof
    assume h: "distinct orders \<and> of_nat ` {0..<?n} \<subseteq> set orders"
    then have "set ?B \<subseteq> set orders" by simp
    moreover have "card (set ?B) = card (set orders)"
      using h dB by (metis distinct_card length_map length_upt diff_zero)
    ultimately have "set ?B = set orders" by (intro card_subset_eq) auto
    with h dB show "mset orders = mset ?B" using set_eq_iff_mset_eq_distinct [of orders ?B] by simp
  next
    assume m: "mset orders = mset ?B"
    then have "set orders = set ?B" by (rule mset_eq_setD)
    moreover have "distinct orders" using m dB by (metis mset_eq_imp_distinct_iff)
    ultimately show "distinct orders \<and> of_nat ` {0..<?n} \<subseteq> set orders" by simp
  qed
qed

lemma validate_with_fact_binding_accepts:
  "validate_with_fact_binding parse_url rf d = Inr () \<longleftrightarrow> draft_ok parse_url rf d"
proof -
  let ?ps = "draft_projects d"
  let ?scan = "\<lparr>ps_reference_ids = {}, ps_orders = {}\<rparr> :: project_scan"
  have resume: "(case draft_resume d of Some r \<Rightarrow> validate_link parse_url e ''resume'' r Https | None \<Rightarrow> e) = []
      \<longleftrightarrow> e = [] \<and> pred_option (link_ok parse_url) (draft_resume d)" for e
    by (auto simp: accept_simps split: option.split)
  have projects: "fst (validate_projects parse_url rf 0 ?ps (e, ?scan)) = []
      \<and> of_nat ` {0..<length ?ps} \<subseteq> ps_orders (snd (validate_projects parse_url rf 0 ?ps (e, ?scan)))
      \<and> length ?ps \<le> 32 \<longleftrightarrow>
      e = [] \<and> length ?ps \<le> 32 \<and> list_all (project_ok parse_url rf) ?ps
      \<and> distinct (map project_reference_id ?ps)
      \<and> mset (map project_order ?ps) = mset (map of_nat [0..<length ?ps])" for e
    using orders_contiguous_iff [of "map project_order ?ps"]
    by (auto simp: validate_projects_accepts validate_projects_scan)
  show ?thesis
    unfolding validate_with_fact_binding_def draft_ok_def Let_def case_prod_beta
    using projects
    by (simp add: accept_simps resume validate_contacts_accepts validate_projects_accepts
        validate_projects_scan) blast
qed

section \<open>Approval targets\<close>

lemma project_targets_scope:
  "t \<in> set (project_targets p) \<Longrightarrow>
     (\<exists>f. t = Narrative f (Some (project_reference_id p)))
     \<or> t = Contribution (project_reference_id p)
     \<or> (\<exists>x. t = TechnicalDecision (project_reference_id p) x)
     \<or> (\<exists>x. t = Link x (Some (project_reference_id p)))
     \<or> (\<exists>x. t = Screenshot (project_reference_id p) x)
     \<or> (\<exists>f. t = Status (project_reference_id p) f)"
  by (auto simp: project_targets_def evidence_target_def status_targets_def Let_def
      split: evidence_kind.splits if_splits)

definition target_project :: "approval_target \<Rightarrow> string option" where
  "target_project t =
     (case t of
        Narrative f p \<Rightarrow> p
      | Contact c \<Rightarrow> None
      | Link l p \<Rightarrow> p
      | Screenshot p e \<Rightarrow> Some p
      | Contribution p \<Rightarrow> Some p
      | TechnicalDecision p d \<Rightarrow> Some p
      | Status p f \<Rightarrow> Some p)"

lemma target_project_project: "t \<in> set (project_targets p) \<Longrightarrow> target_project t = Some (project_reference_id p)"
  by (drule project_targets_scope) (auto simp: target_project_def)

lemma target_project_profile: "t \<in> set (profile_targets d) \<Longrightarrow> target_project t = None"
  by (auto simp: profile_targets_def target_project_def Let_def split: option.splits if_splits)

lemma profile_targets_distinct:
  "distinct (map contact_id (draft_contacts d)) \<Longrightarrow> distinct (profile_targets d)"
  by (auto simp: profile_targets_def Let_def distinct_map inj_on_def split: option.splits)

lemma evidence_targets_distinct:
  assumes "distinct (map evidence_id evs)"
  shows "distinct (map (evidence_target pid) evs)"
  using assms
  by (auto simp: distinct_map inj_on_def evidence_target_def split: evidence_kind.splits)

lemma evidence_target_link:
  "ev \<in> set evs \<Longrightarrow> evidence_target pid ev = Link x (Some q) \<Longrightarrow>
     x \<in> evidence_id ` set (filter not_screenshot evs)"
  by (auto simp: evidence_target_def not_screenshot_def split: evidence_kind.splits)

lemma evidence_target_neq [simp]:
  "evidence_target pid ev \<noteq> Narrative f q'" "evidence_target pid ev \<noteq> Contribution q"
  "evidence_target pid ev \<noteq> TechnicalDecision q x" "evidence_target pid ev \<noteq> Status q g"
  "Narrative f q' \<noteq> evidence_target pid ev" "TechnicalDecision q x \<noteq> evidence_target pid ev"
  "Contribution q \<noteq> evidence_target pid ev"
  by (auto simp: evidence_target_def split: evidence_kind.splits)

lemma status_targets_distinct: "distinct (status_targets pid s)"
  by (simp add: status_targets_def)

lemma status_targets_shape: "t \<in> set (status_targets pid s) \<Longrightarrow> \<exists>f. t = Status pid f"
  by (auto simp: status_targets_def split: if_splits)

lemma project_targets_distinct:
  assumes "project_ok parse_url rf p"
  shows "distinct (project_targets p)"
proof -
  let ?pid = "project_reference_id p"
  have ids: "distinct (map decision_id (project_technical_decisions p))"
    "distinct (map evidence_id (project_evidence_items p))" "distinct (link_target_ids p)"
    using assms by (simp_all add: project_ok_def)
  then have links: "distinct (map (\<lambda>l. Link (link_id (plink_link l)) (Some ?pid)) (project_links p))"
    by (auto simp: link_target_ids_def distinct_map inj_on_def)
  have decisions: "distinct (map (\<lambda>d. TechnicalDecision ?pid (decision_id d)) (project_technical_decisions p))"
    using ids(1) by (auto simp: distinct_map inj_on_def)
  have apart: "Link (link_id (plink_link l)) (Some ?pid) \<noteq> evidence_target ?pid ev"
    if "l \<in> set (project_links p)" "ev \<in> set (project_evidence_items p)" for l ev
    using ids(3) that evidence_target_link [of ev "project_evidence_items p" ?pid "link_id (plink_link l)" ?pid]
    by (fastforce simp: link_target_ids_def)
  show ?thesis
    unfolding project_targets_def Let_def
    using links decisions evidence_targets_distinct [OF ids(2)] status_targets_distinct
    by (auto dest: status_targets_shape apart)
qed

lemma concat_project_targets_distinct:
  assumes "list_all (project_ok parse_url rf) ps" and "distinct (map project_reference_id ps)"
  shows "distinct (concat (map project_targets ps))"
  using assms
proof (induction ps)
  case (Cons p ps)
  have "t \<notin> set (concat (map project_targets ps))" if t: "t \<in> set (project_targets p)" for t
  proof
    assume "t \<in> set (concat (map project_targets ps))"
    then obtain q where "q \<in> set ps" "t \<in> set (project_targets q)" by auto
    with t Cons.prems(2) show False using target_project_project [of t p] target_project_project [of t q]
      by (auto simp: image_iff)
  qed
  then have "set (project_targets p) \<inter> set (concat (map project_targets ps)) = {}" by blast
  with Cons project_targets_distinct [of parse_url rf p] show ?case by simp
qed simp

lemma required_targets_distinct:
  assumes "draft_ok parse_url rf d"
  shows "distinct (required_approval_targets d)"
proof -
  let ?ps = "filter (\<lambda>p. project_visibility p = Shown) (draft_projects d)"
  have "distinct (concat (map project_targets ?ps))"
    using assms
    by (intro concat_project_targets_distinct [of parse_url rf])
       (auto simp: draft_ok_def list_all_iff distinct_map_filter)
  moreover have "distinct (profile_targets d)"
    using assms by (intro profile_targets_distinct) (simp add: draft_ok_def)
  moreover have "set (profile_targets d) \<inter> set (concat (map project_targets ?ps)) = {}"
    using target_project_profile target_project_project by fastforce
  ultimately show ?thesis unfolding required_approval_targets_def by (simp split: if_split) blast
qed

section \<open>Approved revisions\<close>

lemma errors_from_validate_draft:
  "errors_from (validate_draft parse_url d) = [] \<longleftrightarrow> draft_ok parse_url True d"
proof -
  have "errors_from (finish e) = [] \<longleftrightarrow> finish e = Inr ()" for e
    by (simp add: accept_simps)
  then have "errors_from (validate_draft parse_url d) = [] \<longleftrightarrow> validate_draft parse_url d = Inr ()"
    by (simp add: validate_draft_def validate_with_fact_binding_def Let_def case_prod_beta)
  then show ?thesis by (simp add: validate_draft_def validate_with_fact_binding_accepts)
qed

definition metadata_ok :: "approved_revision_metadata \<Rightarrow> bool" where
  "metadata_ok m \<longleftrightarrow>
     id_ok (meta_revision_id m) \<and> id_ok (meta_draft_id m) \<and> id_ok (meta_owner_id m)
     \<and> meta_draft_version m \<noteq> 0 \<and> digest_ok (meta_content_digest m)
     \<and> timestamp_ok (meta_approved_at m) \<and> pred_option id_ok (meta_previous_revision_id m)
     \<and> audit_ok (meta_audit m)"

lemma errors_from_metadata [accept_simps]:
  "errors_from (validate_revision_metadata m) = [] \<longleftrightarrow> metadata_ok m"
  by (auto simp: validate_revision_metadata_def metadata_ok_def Let_def accept_simps)

lemma validate_required_targets_accepts [accept_simps]:
  "validate_required_targets manifest ts errors = [] \<longleftrightarrow>
     errors = [] \<and> (\<forall>t \<in> set ts. length (filter (\<lambda>r. req_target r = t) manifest) = 1)"
  by (induction ts arbitrary: errors) auto

definition approval_matches ::
  "approved_revision_metadata \<Rightarrow> approval_requirement \<Rightarrow> field_approval \<Rightarrow> bool" where
  "approval_matches m r a \<longleftrightarrow>
     appr_value_digest a = req_value_digest r
     \<and> appr_revision_content_digest a = meta_content_digest m
     \<and> appr_approved_by_owner_id a = meta_owner_id m"

lemma validate_matching_approval_accepts [accept_simps]:
  "validate_matching_approval m r a errors = [] \<longleftrightarrow> errors = [] \<and> approval_matches m r a"
  by (auto simp: validate_matching_approval_def approval_matches_def Let_def)

lemma validate_manifest_accepts [accept_simps]:
  "validate_manifest m required approvals rs errors = [] \<longleftrightarrow>
     errors = [] \<and> (\<forall>r \<in> set rs. req_target r \<in> set required \<and> digest_ok (req_value_digest r)
       \<and> (\<exists>a. filter (\<lambda>a. appr_target a = req_target r) approvals = [a] \<and> approval_matches m r a))"
proof (induction rs arbitrary: errors)
  case (Cons r rs)
  show ?case
    by (auto simp: Let_def Cons.IH accept_simps split: list.splits)
qed simp

lemma validate_approvals_accepts [accept_simps]:
  "validate_approvals manifest as errors = [] \<longleftrightarrow>
     errors = [] \<and> (\<forall>a \<in> set as. digest_ok (appr_value_digest a)
       \<and> digest_ok (appr_revision_content_digest a) \<and> id_ok (appr_approved_by_owner_id a)
       \<and> timestamp_ok (appr_approved_at a) \<and> audit_ok (appr_audit a)
       \<and> appr_target a \<in> req_target ` set manifest)"
proof (induction as arbitrary: errors)
  case (Cons a as)
  show ?case by (auto simp: Let_def Cons.IH accept_simps image_iff) metis
qed simp

lemma validate_fact_ids_accepts:
  "fst (validate_fact_ids i fids (errors, seen)) = [] \<longleftrightarrow>
     errors = [] \<and> list_all id_ok fids \<and> distinct fids \<and> set fids \<inter> seen = {}"
proof (induction fids arbitrary: i errors seen)
  case (Cons f fids)
  show ?case by (auto simp: Let_def validate_unique_def Cons.IH accept_simps)
qed simp

definition static_contract_ok :: "static_artifact_contract \<Rightarrow> bool" where
  "static_contract_ok c \<longleftrightarrow>
     sac_page_load_dependencies c = [] \<and> sac_portfolio_slots_consumed c = 0
     \<and> sac_external_case_study_slots_consumed c = 0"

lemma validate_static_contract_accepts [accept_simps]:
  "validate_static_contract errors c = [] \<longleftrightarrow> errors = [] \<and> static_contract_ok c"
  by (auto simp: validate_static_contract_def static_contract_ok_def Let_def)

definition approvals_ok :: "approved_portfolio_revision \<Rightarrow> bool" where
  "approvals_ok v \<longleftrightarrow>
     (\<forall>t \<in> set (required_approval_targets (apr_snapshot v)).
        length (filter (\<lambda>r. req_target r = t) (apr_approval_manifest v)) = 1)
     \<and> (\<forall>r \<in> set (apr_approval_manifest v).
          req_target r \<in> set (required_approval_targets (apr_snapshot v))
          \<and> digest_ok (req_value_digest r)
          \<and> (\<exists>a. filter (\<lambda>a. appr_target a = req_target r) (apr_approvals v) = [a]
                \<and> approval_matches (apr_metadata v) r a))
     \<and> (\<forall>a \<in> set (apr_approvals v). digest_ok (appr_value_digest a)
          \<and> digest_ok (appr_revision_content_digest a) \<and> id_ok (appr_approved_by_owner_id a)
          \<and> timestamp_ok (appr_approved_at a) \<and> audit_ok (appr_audit a)
          \<and> appr_target a \<in> req_target ` set (apr_approval_manifest v))"

lemma validate_approved_revision_accepts:
  "validate_approved_revision parse_url v = Inr () \<longleftrightarrow>
     metadata_ok (apr_metadata v) \<and> draft_ok parse_url True (apr_snapshot v)
     \<and> length (apr_approval_manifest v) \<le> 512 \<and> length (apr_approvals v) \<le> 512
     \<and> approvals_ok v
     \<and> list_all id_ok (apr_authorized_deployment_fact_ids v)
     \<and> distinct (apr_authorized_deployment_fact_ids v)
     \<and> static_contract_ok (apr_static_artifact_contract v)"
  unfolding validate_approved_revision_def approvals_ok_def Let_def case_prod_beta
  by (simp add: accept_simps errors_from_validate_draft validate_fact_ids_accepts)

lemma manifest_enumerates_targets:
  assumes "distinct (required_approval_targets (apr_snapshot v))" and "approvals_ok v"
  shows "mset (map req_target (apr_approval_manifest v)) = mset (required_approval_targets (apr_snapshot v))"
  using assms by (intro exactly_once_mset) (auto simp: approvals_ok_def)

lemma approvals_enumerate_targets:
  assumes "distinct (required_approval_targets (apr_snapshot v))" and "approvals_ok v"
  shows "mset (map appr_target (apr_approvals v)) = mset (required_approval_targets (apr_snapshot v))"
proof (rule exactly_once_mset [OF assms(1)])
  have manifest: "req_target ` set (apr_approval_manifest v) = set (required_approval_targets (apr_snapshot v))"
    using mset_eq_setD [OF manifest_enumerates_targets [OF assms]] by simp
  then show "appr_target ` set (apr_approvals v) \<subseteq> set (required_approval_targets (apr_snapshot v))"
    using assms(2) by (auto simp: approvals_ok_def)
  fix t
  assume "t \<in> set (required_approval_targets (apr_snapshot v))"
  then obtain r where "r \<in> set (apr_approval_manifest v)" "req_target r = t"
    using manifest by (metis imageE)
  then show "length (filter (\<lambda>a. appr_target a = t) (apr_approvals v)) = 1"
    using assms(2) by (auto simp: approvals_ok_def)
qed

lemma approval_backed:
  assumes "approvals_ok v" and "a \<in> set (apr_approvals v)"
  shows "\<exists>r \<in> set (apr_approval_manifest v). req_target r = appr_target a \<and> approval_matches (apr_metadata v) r a"
proof -
  obtain r where r: "r \<in> set (apr_approval_manifest v)" "req_target r = appr_target a"
    using assms by (auto simp: approvals_ok_def)
  then obtain b where b: "filter (\<lambda>a. appr_target a = req_target r) (apr_approvals v) = [b]"
      "approval_matches (apr_metadata v) r b"
    using assms(1) by (auto simp: approvals_ok_def)
  have "a \<in> set (filter (\<lambda>a. appr_target a = req_target r) (apr_approvals v))"
    using assms(2) r by simp
  with b have "a = b" by simp
  with r b show ?thesis by blast
qed


section \<open>Owner edits and deployment facts\<close>

lemma validate_changed_paths_accepts [accept_simps]:
  "validate_changed_paths i paths errors = [] \<longleftrightarrow> errors = [] \<and> list_all (text_ok 1 240) paths"
  by (induction paths arbitrary: i errors) (auto simp: accept_simps)

lemma validate_owner_edit_accepts:
  "validate_owner_edit e = Inr () \<longleftrightarrow>
     id_ok (edit_id e) \<and> id_ok (edit_draft_id e)
     \<and> edit_base_draft_version e \<noteq> 0
     \<and> edit_resulting_draft_version e = saturating_add_u64 (edit_base_draft_version e) 1
     \<and> edit_changed_paths e \<noteq> [] \<and> length (edit_changed_paths e) \<le> 64
     \<and> list_all (text_ok 1 240) (edit_changed_paths e)
     \<and> digest_ok (edit_resulting_content_digest e) \<and> audit_ok (edit_audit e)"
  by (auto simp: validate_owner_edit_def Let_def accept_simps)

lemma saturating_add_one:
  "unat (saturating_add_u64 b 1) = (if unat b = 2 ^ 64 - 1 then 2 ^ 64 - 1 else unat b + 1)"
proof (cases "unat b + 1 < 2 ^ 64")
  case True
  then show ?thesis
    by (simp add: saturating_add_u64_def unat_plus_if')
next
  case False
  with unsigned_less [of b, where 'a = nat] have "unat b = 2 ^ 64 - 1" by simp
  then show ?thesis
    by (simp add: saturating_add_u64_def unsigned_minus_1_eq_mask mask_eq_exp_minus_1)
qed

lemma validate_refresh_fields_accepts [accept_simps]:
  "validate_refresh_fields fs seen errors = [] \<longleftrightarrow>
     errors = [] \<and> distinct fs \<and> set fs \<inter> seen = {}"
  by (induction fs arbitrary: seen errors) auto

definition refresh_ok :: "string \<Rightarrow> fact_refresh_authorization \<Rightarrow> bool" where
  "refresh_ok owner r \<longleftrightarrow>
     fra_fields r \<noteq> [] \<and> distinct (fra_fields r) \<and> fra_authorized_by_owner_id r = owner
     \<and> timestamp_ok (fra_authorized_at r)"

definition commit_optin_ok :: "string \<Rightarrow> public_source_commit \<Rightarrow> bool" where
  "commit_optin_ok owner c \<longleftrightarrow>
     7 \<le> length (psc_commit c) \<and> length (psc_commit c) \<le> 64
     \<and> (\<forall>b \<in> set (psc_commit c). is_ascii_hexdigit b)
     \<and> psc_opted_in_by_owner_id c = owner \<and> timestamp_ok (psc_opted_in_at c)"

lemma distinct_refresh_fields_le: "distinct (fs :: refreshable_deployment_fact list) \<Longrightarrow> length fs \<le> 3"
proof -
  assume d: "distinct fs"
  have sub: "set fs \<subseteq> {ManagedDemoDestination, DeploymentTimestampFact, AvailabilityLabelFact}"
  proof
    fix f assume "f \<in> set fs"
    show "f \<in> {ManagedDemoDestination, DeploymentTimestampFact, AvailabilityLabelFact}"
      by (cases f) auto
  qed
  have "card (set fs) \<le> card {ManagedDemoDestination, DeploymentTimestampFact, AvailabilityLabelFact}"
    by (rule card_mono [OF _ sub]) simp
  with distinct_card [OF d] show ?thesis by simp
qed

lemma validate_fact_refresh_accepts [accept_simps]:
  "validate_fact_refresh errors r owner = [] \<longleftrightarrow> errors = [] \<and> id_ok owner \<and> refresh_ok owner r"
  using distinct_refresh_fields_le [of "fra_fields r"]
  by (auto simp: validate_fact_refresh_def refresh_ok_def Let_def accept_simps)

lemma hex_text: "\<forall>b \<in> set v. is_ascii_hexdigit b \<Longrightarrow> text_ok lo hi v \<longleftrightarrow> lo \<le> length v \<and> length v \<le> hi"
  using hexdigit_ascii by (auto simp: text_ok_def chars_ascii)

lemma validate_source_commit_optin_accepts [accept_simps]:
  "validate_source_commit_optin errors c owner = [] \<longleftrightarrow>
     errors = [] \<and> id_ok owner \<and> commit_optin_ok owner c"
  using hex_text [of "psc_commit c"]
  by (auto simp: validate_source_commit_optin_def commit_optin_ok_def Let_def accept_simps)

lemma validate_deployment_facts_accepts:
  "validate_deployment_facts parse_url f = Inr () \<longleftrightarrow>
     id_ok (adf_facts_id f) \<and> id_ok (adf_owner_id f) \<and> id_ok (adf_project_reference_id f)
     \<and> id_ok (adf_deployment_id f) \<and> id_ok (adf_release_id f)
     \<and> url_ok parse_url Https (adf_managed_demo_url f) \<and> timestamp_ok (adf_deployed_at f)
     \<and> text_ok 1 80 (adf_status_label f)
     \<and> pred_option (commit_optin_ok (adf_owner_id f)) (adf_public_source_commit f)
     \<and> pred_option (refresh_ok (adf_owner_id f)) (adf_fact_refresh f)
     \<and> audit_ok (adf_audit f)"
  by (cases "adf_public_source_commit f"; cases "adf_fact_refresh f")
     (auto simp: validate_deployment_facts_def Let_def accept_simps)

section \<open>What the validators guarantee\<close>

definition facts_bound :: "project_reference \<Rightarrow> bool" where
  "facts_bound p \<longleftrightarrow> \<not> shows_deployment_facts p \<or> project_authorized_deployment_facts_id p \<noteq> None"

lemma project_ok_facts:
  "project_ok parse_url True p \<longleftrightarrow> project_ok parse_url False p \<and> facts_bound p"
  by (auto simp: project_ok_def facts_bound_def)

lemma draft_ok_facts:
  "draft_ok parse_url True d \<longleftrightarrow> draft_ok parse_url False d \<and> list_all facts_bound (draft_projects d)"
  by (auto simp: draft_ok_def list_all_iff project_ok_facts)

text \<open>
  C5. Drafts: \<open>PortfolioDraft::validate\<close> and \<open>validate_private_input\<close> accept exactly the drafts
  that meet the declarative contract: every text, identifier and link well formed and bounded,
  identifiers unique in their collection, link-like evidence apart from links, and the project
  orders a permutation of \<open>0, 1, ..., n - 1\<close>.
\<close>

theorem validate_draft_sound_complete:
  "validate_with_fact_binding parse_url rf d = Inr () \<longleftrightarrow> draft_ok parse_url rf d"
  by (rule validate_with_fact_binding_accepts)

text \<open>
  A draft is publishable (\<open>validate\<close>) exactly when it is storable (\<open>validate_private_input\<close>)
  and every project that displays a deployment field names an authorized deployment-facts record.
\<close>

lemma validate_draft_iff_private_and_bound:
  "validate_draft parse_url d = Inr () \<longleftrightarrow>
     validate_private_input parse_url d = Inr () \<and> list_all facts_bound (draft_projects d)"
  by (simp add: validate_draft_def validate_private_input_def validate_with_fact_binding_accepts
      draft_ok_facts)

text \<open>
  C7. Complete owner approval: in an accepted revision the approvals are, up to order, exactly
  the targets derived from what the snapshot shows, none twice; and each is backed by a manifest
  requirement for the same target with the same value digest, covers this revision's content
  digest and was given by the revision's owner.
\<close>

theorem approved_revision_fully_approved:
  assumes "validate_approved_revision parse_url v = Inr ()"
  shows "mset (map appr_target (apr_approvals v)) = mset (required_approval_targets (apr_snapshot v))
    \<and> distinct (required_approval_targets (apr_snapshot v))
    \<and> (\<forall>a \<in> set (apr_approvals v).
         appr_approved_by_owner_id a = meta_owner_id (apr_metadata v)
         \<and> appr_revision_content_digest a = meta_content_digest (apr_metadata v)
         \<and> \<lparr>req_target = appr_target a, req_value_digest = appr_value_digest a\<rparr>
            \<in> set (apr_approval_manifest v))"
proof -
  have ok: "draft_ok parse_url True (apr_snapshot v)" "approvals_ok v"
    using assms by (simp_all add: validate_approved_revision_accepts)
  note d = required_targets_distinct [OF ok(1)]
  have "appr_approved_by_owner_id a = meta_owner_id (apr_metadata v)
      \<and> appr_revision_content_digest a = meta_content_digest (apr_metadata v)
      \<and> \<lparr>req_target = appr_target a, req_value_digest = appr_value_digest a\<rparr> \<in> set (apr_approval_manifest v)"
    if a: "a \<in> set (apr_approvals v)" for a
  proof -
    obtain r :: approval_requirement where r: "r \<in> set (apr_approval_manifest v)"
        "req_target r = appr_target a" "approval_matches (apr_metadata v) r a"
      using approval_backed [OF ok(2) a] by blast
    then have "r = \<lparr>req_target = appr_target a, req_value_digest = appr_value_digest a\<rparr>"
      by (simp add: approval_matches_def)
    with r show ?thesis by (simp add: approval_matches_def)
  qed
  with approvals_enumerate_targets [OF d ok(2)] d show ?thesis by blast
qed

text \<open>
  C8. Nothing hidden is approved: an approval of an accepted revision that concerns a project
  concerns one the snapshot shows, in a shown project section.
\<close>

theorem approvals_only_for_shown_projects:
  assumes "validate_approved_revision parse_url v = Inr ()"
    and "a \<in> set (apr_approvals v)" and "target_project (appr_target a) = Some pid"
  shows "vis_projects (draft_section_visibility (apr_snapshot v)) = Shown
    \<and> (\<exists>p \<in> set (draft_projects (apr_snapshot v)).
         project_reference_id p = pid \<and> project_visibility p = Shown)"
proof -
  have ok: "draft_ok parse_url True (apr_snapshot v)" "approvals_ok v"
    using assms(1) by (simp_all add: validate_approved_revision_accepts)
  have "appr_target a \<in> set (required_approval_targets (apr_snapshot v))"
    using mset_eq_setD [OF approvals_enumerate_targets [OF required_targets_distinct [OF ok(1)] ok(2)]]
      assms(2) by auto
  with assms(3) show ?thesis
    by (auto simp: required_approval_targets_def target_project_profile target_project_project
        split: if_splits)
qed

text \<open>
  C9. Owner edits: an accepted edit starts from a version of at least one and names at least one
  changed path; its resulting version is the next one, except that the last \<open>u64\<close> is its own
  successor, because the sum saturates.
\<close>

theorem owner_edit_advances_version:
  assumes "validate_owner_edit e = Inr ()"
  shows "unat (edit_base_draft_version e) \<ge> 1 \<and> edit_changed_paths e \<noteq> []
    \<and> unat (edit_resulting_draft_version e) =
        (if unat (edit_base_draft_version e) = 2 ^ 64 - 1 then 2 ^ 64 - 1
         else unat (edit_base_draft_version e) + 1)"
  using assms
  by (auto simp: validate_owner_edit_accepts saturating_add_one Suc_le_eq unat_gt_0)

text \<open>
  Deployment facts: in accepted facts the source commit is shown, and the facts refreshed
  later, only on the opt-in of the owner of the facts; the commit is 7 to 64 hexadecimal digits
  and the refresh scope is a non-empty set of supported fields.
\<close>

lemma deployment_facts_owner_optin:
  assumes "validate_deployment_facts parse_url f = Inr ()"
  shows "pred_option (commit_optin_ok (adf_owner_id f)) (adf_public_source_commit f)
    \<and> pred_option (refresh_ok (adf_owner_id f)) (adf_fact_refresh f)
    \<and> url_ok parse_url Https (adf_managed_demo_url f)"
  using assms by (simp add: validate_deployment_facts_accepts)

text \<open>
  The timestamp check is weaker than the RFC 3339 form its message names, and it refuses the
  negative offsets that form allows.
\<close>

lemma timestamp_check_is_not_rfc3339:
  "validate_timestamp [] path ''T+'' = []
   \<and> validate_timestamp [] path ''2026-03-01T09:30:00-05:00'' \<noteq> []"
  by (simp add: accept_simps timestamp_ok_def text_ok_def ends_with_def strip_suffix_def
      is_control_def chars_ascii)

section \<open>An approved portfolio\<close>

definition demo_parse_url :: url_parser where
  "demo_parse_url v =
     map_option (\<lambda>host. \<lparr>url_scheme = ''https'', url_has_host = True, url_host_str = Some host,
                         url_username = [], url_password = None, url_path = ''/'',
                         url_query = None, url_fragment = None\<rparr>)
       (strip_prefix ''https://'' v)"

definition demo_digest :: string where
  "demo_digest = ''sha256:'' @ replicate 64 CHR ''a''"

definition demo_audit :: audit_descriptor where
  "demo_audit = \<lparr>audit_event_id = ''event-1'', audit_kind = OwnerApproval, audit_actor_id = ''owner-1'',
                 audit_occurred_at = ''2026-01-01T00:00:00Z'', audit_reason = ''approved'',
                 audit_correlation_id = ''request-1''\<rparr>"

definition demo_project :: project_reference where
  "demo_project =
    \<lparr>project_reference_id = ''ref-1'', project_kind = HostedProject ''project-1'', project_order = 0,
     project_visibility = Shown, project_title = ''Tracker'', project_purpose = ''Tracks work'',
     project_contribution = ''All of it'',
     project_technical_decisions =
       [\<lparr>decision_id = ''d1'', decision_summary = ''Rust'', decision_rationale = ''Types''\<rparr>],
     project_links =
       [\<lparr>plink_kind = DemoLink,
         plink_link = \<lparr>link_id = ''demo'', link_label = ''Demo'', link_url = ''https://demo.test''\<rparr>\<rparr>],
     project_evidence_items =
       [\<lparr>evidence_id = ''demo'', evidence_kind_of = ScreenshotEvidence, evidence_title = ''Home'',
         evidence_url = ''https://img.test'', evidence_caption = None,
         evidence_alt_text = Some ''The home page''\<rparr>],
     project_authorized_deployment_facts_id = Some ''facts-1'',
     project_displayed_status =
       \<lparr>shows_deployment_timestamp = True, shows_availability = False,
        shows_release_identifier = False, shows_source_commit = False, shows_demo_readiness = True\<rparr>,
     project_demo_readiness = NeedsRecheck None NeverChecked\<rparr>"

definition demo_draft :: portfolio_draft where
  "demo_draft =
    \<lparr>draft_contract_version = V1,
     draft_profile = \<lparr>profile_display_name = ''Ada'', profile_headline = None,
                      profile_introduction = ''Hello'', profile_target_role = ''Engineer''\<rparr>,
     draft_skills = [''Rust''], draft_resume = None, draft_contacts = [],
     draft_projects = [demo_project],
     draft_section_visibility =
       \<lparr>vis_headline = Hidden, vis_introduction = Shown, vis_target_role = Hidden, vis_skills = Shown,
        vis_resume = Hidden, vis_contacts = Hidden, vis_projects = Shown\<rparr>\<rparr>"

definition demo_approval :: "approval_target \<Rightarrow> field_approval" where
  "demo_approval t = \<lparr>appr_target = t, appr_value_digest = demo_digest,
     appr_revision_content_digest = demo_digest, appr_approved_by_owner_id = ''owner-1'',
     appr_approved_at = ''2026-01-01T00:00:00Z'', appr_audit = demo_audit\<rparr>"

definition demo_revision :: approved_portfolio_revision where
  "demo_revision =
    \<lparr>apr_metadata =
       \<lparr>meta_revision_id = ''rev-1'', meta_draft_id = ''draft-1'', meta_draft_version = 1,
        meta_owner_id = ''owner-1'', meta_content_digest = demo_digest,
        meta_approved_at = ''2026-01-01T00:00:00Z'', meta_previous_revision_id = None,
        meta_audit = demo_audit\<rparr>,
     apr_snapshot = demo_draft,
     apr_approval_manifest =
       map (\<lambda>t. \<lparr>req_target = t, req_value_digest = demo_digest\<rparr>) (required_approval_targets demo_draft),
     apr_approvals = map demo_approval (required_approval_targets demo_draft),
     apr_authorized_deployment_fact_ids = [''facts-1''],
     apr_static_artifact_contract =
       \<lparr>sac_page_load_dependencies = [], sac_portfolio_slots_consumed = 0,
        sac_external_case_study_slots_consumed = 0\<rparr>\<rparr>"

lemma filter_distinct_map:
  "distinct ts \<Longrightarrow> t \<in> set ts \<Longrightarrow> (\<And>x. key (f x) = x) \<Longrightarrow> filter (\<lambda>y. key y = t) (map f ts) = [f t]"
proof (induction ts)
  case (Cons x ts)
  have "filter (\<lambda>y. key y = t) (map f us) = []" if "t \<notin> set us" for us
    using that Cons.prems(3) by (induction us) auto
  with Cons show ?case by auto
qed simp

lemmas demo_text_simps =
  text_ok_def is_control_def is_whitespace_def chars_ascii

lemma demo_timestamp: "timestamp_ok ''2026-01-01T00:00:00Z''"
  by (simp add: timestamp_ok_def demo_text_simps ends_with_def strip_suffix_def)

lemma demo_ids [simp]:
  "id_ok ''event-1''" "id_ok ''owner-1''" "id_ok ''request-1''" "id_ok ''ref-1''" "id_ok ''project-1''"
  "id_ok ''d1''" "id_ok ''demo''" "id_ok ''facts-1''" "id_ok ''rev-1''" "id_ok ''draft-1''"
  by (simp_all add: id_ok_def id_byte_def is_ascii_alphanumeric_def is_ascii_alphabetic_def
      is_ascii_digit_def)

lemma demo_audit_ok: "audit_ok demo_audit"
  by (simp add: audit_ok_def demo_audit_def demo_timestamp) (simp add: demo_text_simps)

lemma demo_digest_ok: "digest_ok demo_digest"
  by (auto simp: digest_ok_def demo_digest_def is_ascii_hexdigit_def)

lemma demo_urls:
  "url_ok demo_parse_url Https ''https://demo.test''" "url_ok demo_parse_url Https ''https://img.test''"
  by (simp_all add: url_ok_def demo_parse_url_def https_url_def demo_text_simps)

lemma demo_project_ok: "project_ok demo_parse_url True demo_project"
  by (simp add: project_ok_def demo_project_def kind_ok_def decision_ok_def link_ok_def evidence_ok_def
      demo_urls link_target_ids_def not_screenshot_def readiness_ok_def)
     (simp add: demo_text_simps)

lemma demo_draft_ok: "draft_ok demo_parse_url True demo_draft"
  by (simp add: draft_ok_def demo_draft_def demo_project_ok)
     (simp add: demo_text_simps demo_project_def)

lemma demo_targets_le: "length (required_approval_targets demo_draft) \<le> 512"
  by (simp add: required_approval_targets_def demo_draft_def profile_targets_def project_targets_def
      demo_project_def status_targets_def Let_def)

lemma demo_approvals_ok: "approvals_ok demo_revision"
proof -
  note d = required_targets_distinct [OF demo_draft_ok]
  have "filter (\<lambda>r. req_target r = t)
          (map (\<lambda>t. \<lparr>req_target = t, req_value_digest = demo_digest\<rparr>) (required_approval_targets demo_draft))
        = [\<lparr>req_target = t, req_value_digest = demo_digest\<rparr>]"
    if "t \<in> set (required_approval_targets demo_draft)" for t
    using that by (intro filter_distinct_map [OF d]) simp_all
  moreover have "filter (\<lambda>a. appr_target a = t) (map demo_approval (required_approval_targets demo_draft))
        = [demo_approval t]" if "t \<in> set (required_approval_targets demo_draft)" for t
    using that by (intro filter_distinct_map [OF d]) (simp_all add: demo_approval_def)
  ultimately show ?thesis
    by (simp add: approvals_ok_def demo_revision_def approval_matches_def demo_digest_ok)
       (simp add: demo_approval_def demo_digest_ok demo_timestamp demo_audit_ok image_image)
qed

lemma demo_revision_accepted: "validate_approved_revision demo_parse_url demo_revision = Inr ()"
proof -
  have "metadata_ok (apr_metadata demo_revision)"
    by (simp add: metadata_ok_def demo_revision_def demo_digest_ok demo_timestamp demo_audit_ok)
  moreover have "apr_snapshot demo_revision = demo_draft"
    "length (apr_approval_manifest demo_revision) \<le> 512" "length (apr_approvals demo_revision) \<le> 512"
    "apr_authorized_deployment_fact_ids demo_revision = [''facts-1'']"
    "static_contract_ok (apr_static_artifact_contract demo_revision)"
    using demo_targets_le by (simp_all add: demo_revision_def static_contract_ok_def)
  ultimately show ?thesis
    using demo_draft_ok demo_approvals_ok by (simp add: validate_approved_revision_accepts)
qed

theorem approved_revision_fully_approved_witness:
  "mset (map appr_target (apr_approvals demo_revision)) = mset (required_approval_targets demo_draft)"
  using approved_revision_fully_approved [OF demo_revision_accepted] by (simp add: demo_revision_def)

theorem approvals_only_for_shown_projects_witness:
  "vis_projects (draft_section_visibility (apr_snapshot demo_revision)) = Shown
   \<and> (\<exists>p \<in> set (draft_projects (apr_snapshot demo_revision)).
        project_reference_id p = ''ref-1'' \<and> project_visibility p = Shown)"
proof -
  have "Contribution ''ref-1'' \<in> set (required_approval_targets demo_draft)"
    by (simp add: required_approval_targets_def demo_draft_def project_targets_def demo_project_def
        Let_def)
  then have "demo_approval (Contribution ''ref-1'') \<in> set (apr_approvals demo_revision)"
    by (simp add: demo_revision_def)
  from approvals_only_for_shown_projects [OF demo_revision_accepted this, of "''ref-1''"]
  show ?thesis by (simp add: demo_approval_def target_project_def)
qed

definition demo_edit :: owner_edit_descriptor where
  "demo_edit = \<lparr>edit_id = ''event-1'', edit_draft_id = ''draft-1'', edit_base_draft_version = - 1,
     edit_resulting_draft_version = - 1, edit_changed_paths = [''skills''],
     edit_resulting_content_digest = demo_digest, edit_audit = demo_audit\<rparr>"

theorem owner_edit_advances_version_witness:
  "validate_owner_edit demo_edit = Inr ()
   \<and> unat (edit_resulting_draft_version demo_edit) = 2 ^ 64 - 1"
proof -
  have "list_all (text_ok 1 240) (edit_changed_paths demo_edit)"
    by (simp add: demo_edit_def demo_text_simps)
  moreover have "saturating_add_u64 (- 1) 1 = - 1"
    by (simp add: saturating_add_u64_def unsigned_minus_1_eq_mask mask_eq_exp_minus_1)
  ultimately have ok: "validate_owner_edit demo_edit = Inr ()"
    by (simp add: validate_owner_edit_accepts) (simp add: demo_edit_def demo_digest_ok demo_audit_ok)
  have "unat (edit_base_draft_version demo_edit) = 2 ^ 64 - 1"
    by (simp add: demo_edit_def unsigned_minus_1_eq_mask mask_eq_exp_minus_1)
  with ok owner_edit_advances_version [OF ok] show ?thesis by simp
qed

definition demo_facts :: authorized_deployment_facts where
  "demo_facts = \<lparr>adf_contract_version = V1, adf_facts_id = ''facts-1'', adf_owner_id = ''owner-1'',
     adf_project_reference_id = ''ref-1'', adf_deployment_id = ''d1'', adf_release_id = ''rev-1'',
     adf_managed_demo_url = ''https://demo.test'', adf_deployed_at = ''2026-01-01T00:00:00Z'',
     adf_availability = Available, adf_status_label = ''Online'',
     adf_public_source_commit =
       Some \<lparr>psc_commit = ''0123abc'', psc_opted_in_by_owner_id = ''owner-1'',
             psc_opted_in_at = ''2026-01-01T00:00:00Z''\<rparr>,
     adf_fact_refresh = None, adf_audit = demo_audit\<rparr>"

lemma deployment_facts_owner_optin_witness:
  "pred_option (commit_optin_ok ''owner-1'') (adf_public_source_commit demo_facts)"
proof -
  have "text_ok 1 80 (adf_status_label demo_facts)" by (simp add: demo_facts_def demo_text_simps)
  then have "validate_deployment_facts demo_parse_url demo_facts = Inr ()"
    by (simp add: validate_deployment_facts_accepts)
       (simp add: demo_facts_def demo_urls demo_timestamp demo_audit_ok commit_optin_ok_def
         is_ascii_hexdigit_def is_ascii_digit_def)
  from deployment_facts_owner_optin [OF this] show ?thesis by (simp add: demo_facts_def)
qed

end
