(* ===== verification/Control_Intent.thy ===== *)
theory Control_Intent
  imports Hostlet_Prelude
begin

text \<open>
  The request discipline every mutating endpoint of the control plane shares
  (\<^verbatim>\<open>crates/control/src/intent.rs\<close> and the error constructors of \<^verbatim>\<open>error.rs\<close>): resource
  identifiers in paths, the \<open>Idempotency-Key\<close> and \<open>If-Match\<close> headers, request hashing, and the
  table of stored responses from which a repeated request is answered.

  The parsers and codecs of other crates (\<open>Uuid::parse_str\<close>, \<open>serde_json\<close>, SHA-256) are arguments
  of the definitions that use them.  An error carries its status, code and message; the random
  request id of \<open>ApiError\<close> is left out.  \<open>acquire_operation_lock\<close> takes a PostgreSQL advisory
  lock that keeps two transactions with the same key apart; here every transaction is one atomic
  step, so it has no counterpart.
\<close>

section \<open>Errors\<close>

record api_error =
  err_status :: nat
  err_code :: string
  err_message :: string

definition bad_request :: "string \<Rightarrow> string \<Rightarrow> api_error" where
  "bad_request code message = \<lparr>err_status = 400, err_code = code, err_message = message\<rparr>"

definition unauthorized :: api_error where
  "unauthorized = \<lparr>err_status = 401, err_code = ''authentication_required'',
     err_message = ''valid authentication is required''\<rparr>"

definition not_found :: api_error where
  "not_found = \<lparr>err_status = 404, err_code = ''not_found'', err_message = ''resource not found''\<rparr>"

definition conflict :: "string \<Rightarrow> string \<Rightarrow> api_error" where
  "conflict code message = \<lparr>err_status = 409, err_code = code, err_message = message\<rparr>"

definition unprocessable :: "string \<Rightarrow> string \<Rightarrow> api_error" where
  "unprocessable code message = \<lparr>err_status = 422, err_code = code, err_message = message\<rparr>"

definition precondition_required :: api_error where
  "precondition_required = \<lparr>err_status = 428, err_code = ''if_match_required'',
     err_message = ''a quoted If-Match revision is required''\<rparr>"

definition stale_revision :: api_error where
  "stale_revision = \<lparr>err_status = 412, err_code = ''stale_revision'',
     err_message = ''the resource revision has changed''\<rparr>"

definition database_unavailable :: api_error where
  "database_unavailable = \<lparr>err_status = 503, err_code = ''database_unavailable'',
     err_message = ''the durable database dependency is unavailable''\<rparr>"

definition foundation_unavailable :: api_error where
  "foundation_unavailable = \<lparr>err_status = 503, err_code = ''foundation_unavailable'',
     err_message = ''the durable control foundation is unavailable''\<rparr>"

definition internal :: api_error where
  "internal = \<lparr>err_status = 500, err_code = ''internal_error'',
     err_message = ''the request could not be completed''\<rparr>"

lemmas error_defs =
  bad_request_def unauthorized_def not_found_def conflict_def unprocessable_def
  precondition_required_def stale_revision_def database_unavailable_def
  foundation_unavailable_def internal_def

section \<open>Headers and identifiers\<close>

text \<open>
  A header value is either visible ASCII text or bytes on which \<open>HeaderValue::to_str\<close> fails.
  Only the two headers these functions read are kept of the map.
\<close>

datatype header_value = Visible string | Opaque

record header_map =
  hdr_idempotency_key :: "header_value option"
  hdr_if_match :: "header_value option"

definition MAX_IDEMPOTENCY_KEY_BYTES :: nat where
  "MAX_IDEMPOTENCY_KEY_BYTES = 128"

definition path_uuid :: "(string \<Rightarrow> uuid option) \<Rightarrow> string \<Rightarrow> api_error + uuid" where
  "path_uuid parse_uuid value =
     (case parse_uuid value of
        Some u \<Rightarrow> Inr u
      | None \<Rightarrow> Inl (bad_request ''invalid_id'' ''the resource id is invalid''))"

definition idempotency_key :: "header_map \<Rightarrow> api_error + string" where
  "idempotency_key headers =
     (case hdr_idempotency_key headers of
        Some (Visible key) \<Rightarrow>
          (if key = [] \<or> length key > MAX_IDEMPOTENCY_KEY_BYTES
              \<or> (\<exists>b \<in> set key. is_ascii_control b)
           then Inl (bad_request ''invalid_idempotency_key''
                       ''Idempotency-Key must contain between 1 and 128 non-control bytes'')
           else Inr key)
      | _ \<Rightarrow> Inl (bad_request ''idempotency_key_required''
                    ''a valid Idempotency-Key header is required''))"

definition malformed_if_match :: api_error where
  "malformed_if_match =
     bad_request ''malformed_if_match'' ''If-Match must contain one quoted positive revision''"

definition if_match_revision :: "header_map \<Rightarrow> api_error + int" where
  "if_match_revision headers =
     (case hdr_if_match headers of
        None \<Rightarrow> Inl precondition_required
      | Some Opaque \<Rightarrow> Inl malformed_if_match
      | Some (Visible value) \<Rightarrow>
          (case Option.bind (strip_prefix ''\"'' value) (strip_suffix ''\"'') of
             None \<Rightarrow> Inl malformed_if_match
           | Some unquoted \<Rightarrow>
               (case parse_i64 unquoted of
                  Some v \<Rightarrow> if v > 0 then Inr v else Inl malformed_if_match
                | None \<Rightarrow> Inl malformed_if_match)))"

definition request_hash ::
  "('r \<Rightarrow> string option) \<Rightarrow> (string \<Rightarrow> string) \<Rightarrow> 'r \<Rightarrow> api_error + string" where
  "request_hash to_vec sha256 request =
     (case to_vec request of Some bytes \<Rightarrow> Inr (sha256 bytes) | None \<Rightarrow> Inl internal)"

section \<open>Stored responses\<close>

record 'v idempotency_record =
  idem_actor :: uuid
  idem_operation :: string
  idem_key :: string
  idem_request_hash :: string
  idem_request_key_version :: "string option"
  idem_response_status :: int
  idem_response_body :: 'v

datatype 'r replay_answer = Miss | Match 'r | Changed

definition find_record ::
  "'v idempotency_record list \<Rightarrow> uuid \<Rightarrow> string \<Rightarrow> string \<Rightarrow> 'v idempotency_record option" where
  "find_record records actor operation key =
     find (\<lambda>r. idem_actor r = actor \<and> idem_operation r = operation \<and> idem_key r = key) records"

definition replay ::
  "('v \<Rightarrow> 'r option) \<Rightarrow> 'v idempotency_record list \<Rightarrow> uuid \<Rightarrow> string \<Rightarrow> string \<Rightarrow> string
     \<Rightarrow> api_error + 'r replay_answer" where
  "replay from_value records actor operation key hash =
     (case find_record records actor operation key of
        None \<Rightarrow> Inr Miss
      | Some r \<Rightarrow>
          if idem_request_hash r \<noteq> hash then Inr Changed
          else (case from_value (idem_response_body r) of
                  Some response \<Rightarrow> Inr (Match response)
                | None \<Rightarrow> Inl internal))"

text \<open>
  The \<open>CHECK\<close>s and the primary key of \<open>idempotency_records\<close> (migrations 0001 and 0003): a violated
  constraint fails the statement, which every caller reports as \<open>database_unavailable\<close>.
\<close>

definition record_check :: "'v idempotency_record \<Rightarrow> bool" where
  "record_check r \<longleftrightarrow>
     length (idem_request_hash r) = 32
     \<and> 200 \<le> idem_response_status r \<and> idem_response_status r \<le> 299
     \<and> 1 \<le> length (idem_operation r) \<and> length (idem_operation r) \<le> 160
     \<and> 1 \<le> length (idem_key r) \<and> length (idem_key r) \<le> 128
     \<and> (case idem_request_key_version r of
           Some v \<Rightarrow> 1 \<le> length v \<and> length v \<le> 64 | None \<Rightarrow> True)"

definition insert_record ::
  "'v idempotency_record \<Rightarrow> 'v idempotency_record list \<Rightarrow> 'v idempotency_record list option" where
  "insert_record r records =
     (if record_check r
        \<and> find_record records (idem_actor r) (idem_operation r) (idem_key r) = None
      then Some (records @ [r]) else None)"

definition store_replay ::
  "('r \<Rightarrow> 'v option) \<Rightarrow> 'v idempotency_record list \<Rightarrow> uuid \<Rightarrow> string \<Rightarrow> string \<Rightarrow> string \<Rightarrow> int \<Rightarrow> 'r
     \<Rightarrow> api_error + 'v idempotency_record list" where
  "store_replay to_value records actor operation key hash status response =
     (case to_value response of
        None \<Rightarrow> Inl internal
      | Some body \<Rightarrow>
          (case insert_record
                  \<lparr>idem_actor = actor, idem_operation = operation, idem_key = key,
                   idem_request_hash = hash, idem_request_key_version = None,
                   idem_response_status = status, idem_response_body = body\<rparr> records of
             Some records' \<Rightarrow> Inr records'
           | None \<Rightarrow> Inl database_unavailable))"

section \<open>The contract of the response table\<close>

text \<open>
  What the endpoints rely on: a stored response is found under its key, storing under one key
  does not disturb another, and a key is written at most once.  Then whatever else is stored
  later, the first response stays the one that is found.
\<close>

locale response_log =
  fixes find_in :: "'t \<Rightarrow> 'k \<Rightarrow> 'r option"
    and put :: "'k \<Rightarrow> 'r \<Rightarrow> 't \<Rightarrow> 't option"
  assumes put_found: "put k r t = Some t' \<Longrightarrow> find_in t' k = Some r"
    and put_other: "put k r t = Some t' \<Longrightarrow> l \<noteq> k \<Longrightarrow> find_in t' l = find_in t l"
    and put_once: "put k r t = Some t' \<Longrightarrow> find_in t k = None"
begin

definition extends :: "'t \<Rightarrow> 't \<Rightarrow> bool" where
  "extends t t' \<longleftrightarrow> (\<exists>k r. put k r t = Some t')"

lemma stored_stays: "extends t t' \<Longrightarrow> find_in t k = Some r \<Longrightarrow> find_in t' k = Some r"
  using put_other put_once unfolding extends_def by (metis option.distinct(1))

lemma first_write_wins:
  "extends\<^sup>*\<^sup>* t t' \<Longrightarrow> find_in t k = Some r \<Longrightarrow> find_in t' k = Some r"
  by (induction rule: rtranclp_induct) (auto intro: stored_stays)

lemma no_second_write: "find_in t k = Some r \<Longrightarrow> put k s t = None"
  using put_once by (metis not_None_eq option.distinct(1))

end

lemma find_append:
  "find P (xs @ ys) = (case find P xs of Some x \<Rightarrow> Some x | None \<Rightarrow> find P ys)"
  by (induction xs) simp_all

definition find_key :: "'v idempotency_record list \<Rightarrow> uuid \<times> string \<times> string \<Rightarrow> 'v idempotency_record option" where
  "find_key records = (\<lambda>(actor, operation, key). find_record records actor operation key)"

definition put_key ::
  "uuid \<times> string \<times> string \<Rightarrow> 'v idempotency_record \<Rightarrow> 'v idempotency_record list
     \<Rightarrow> 'v idempotency_record list option" where
  "put_key k r records =
     (if k = (idem_actor r, idem_operation r, idem_key r) then insert_record r records else None)"

interpretation responses: response_log find_key put_key
proof unfold_locales
  fix k :: "uuid \<times> string \<times> string" and r :: "'v idempotency_record" and t t'
  assume put: "put_key k r t = Some t'"
  then have k: "k = (idem_actor r, idem_operation r, idem_key r)"
    and none: "find_key t k = None" and t': "t' = t @ [r]"
    by (auto simp: put_key_def insert_record_def find_key_def split: if_splits)
  then show "find_key t' k = Some r" "find_key t k = None"
    by (simp_all add: find_key_def find_record_def find_append)
  show "find_key t' l = find_key t l" if "l \<noteq> k" for l
    using that k t' by (cases l)
      (auto simp: find_key_def find_record_def find_append split: option.splits)
qed

lemma find_record_key: "find_record records a op k = find_key records (a, op, k)"
  by (simp add: find_key_def)

lemma insert_record_extends: "insert_record r t = Some t' \<Longrightarrow> responses.extends t t'"
  unfolding responses.extends_def
  by (rule exI [of _ "(idem_actor r, idem_operation r, idem_key r)"], rule exI [of _ r])
     (simp add: put_key_def)

lemma store_replay_extends:
  "store_replay to_value t a op k h s x = Inr t' \<Longrightarrow> responses.extends t t'"
  by (auto simp: store_replay_def split: option.splits intro: insert_record_extends)

lemma store_replay_found:
  assumes "store_replay to_value t a op k h s x = Inr t'" and "from_value (the (to_value x)) = Some x"
  shows "replay from_value t' a op k h = Inr (Match x)"
proof -
  obtain body where body: "to_value x = Some body"
      "insert_record \<lparr>idem_actor = a, idem_operation = op, idem_key = k, idem_request_hash = h,
         idem_request_key_version = None, idem_response_status = s, idem_response_body = body\<rparr> t = Some t'"
    using assms(1) by (auto simp: store_replay_def split: option.splits)
  then have "find_key t' (a, op, k) =
      Some \<lparr>idem_actor = a, idem_operation = op, idem_key = k, idem_request_hash = h,
            idem_request_key_version = None, idem_response_status = s, idem_response_body = body\<rparr>"
    by (intro responses.put_found) (simp add: put_key_def)
  with body(1) assms(2) show ?thesis by (simp add: replay_def find_record_key)
qed

lemma replay_stable:
  assumes "responses.extends\<^sup>*\<^sup>* t t'" and "replay from_value t a op k h = Inr m" and "m \<noteq> Miss"
  shows "replay from_value t' a op k h = Inr m"
proof -
  obtain r where "find_key t (a, op, k) = Some r"
    using assms(2,3) by (auto simp: replay_def find_record_key split: option.splits)
  moreover from this have "find_key t' (a, op, k) = Some r"
    by (rule responses.first_write_wins [OF assms(1)])
  ultimately show ?thesis using assms(2) by (simp add: replay_def find_record_key)
qed

section \<open>What the request discipline guarantees\<close>

text \<open>
  C11. Revision preconditions: the header an owner builds from a positive revision \<open>n\<close>, the
  decimal numeral in double quotes, is read back as \<open>n\<close>, for every \<open>n\<close> an \<open>i64\<close> can hold.
\<close>

theorem if_match_roundtrip:
  assumes "0 < n" and "n < 2 ^ 63"
    and "hdr_if_match headers = Some (Visible (''\"'' @ show_nat n @ ''\"''))"
  shows "if_match_revision headers = Inr (int n)"
proof -
  have "Option.bind (strip_prefix ''\"'' (''\"'' @ show_nat n @ ''\"'')) (strip_suffix ''\"'') = Some (show_nat n)"
    using strip_prefix_Some [of "''\"''" "''\"'' @ show_nat n @ ''\"''" "show_nat n @ ''\"''"]
      strip_suffix_Some [of "''\"''" "show_nat n @ ''\"''" "show_nat n"]
    by (simp del: append_Cons append_Nil strip_prefix.simps)
  with assms show ?thesis
    by (simp add: if_match_revision_def parse_i64_show_nat del: append_Cons append_Nil)
qed

theorem if_match_roundtrip_witness:
  "if_match_revision \<lparr>hdr_idempotency_key = None, hdr_if_match = Some (Visible (''\"'' @ show_nat 7 @ ''\"''))\<rparr>
   = Inr 7"
  using if_match_roundtrip [of 7 "\<lparr>hdr_idempotency_key = None,
      hdr_if_match = Some (Visible (''\"'' @ show_nat 7 @ ''\"''))\<rparr>"]
  by simp

text \<open>
  C12. A repeated request is answered from the first response: once a response is stored under
  an actor, operation and key, then after any further responses are stored, a request with the
  same hash gets that response and a request with another hash is reported as changed.
\<close>

theorem stored_response_is_replayed:
  assumes stored: "store_replay to_value records actor operation key hash status response = Inr records'"
    and codec: "from_value (the (to_value response)) = Some response"
    and later: "responses.extends\<^sup>*\<^sup>* records' records''"
  shows "replay from_value records'' actor operation key hash = Inr (Match response)
    \<and> (hash' = hash \<or> replay from_value records'' actor operation key hash' = Inr Changed)"
proof -
  have "replay from_value records'' actor operation key hash = Inr (Match response)"
    using replay_stable [OF later store_replay_found [of to_value _ _ _ _ _ _ _ _ from_value, OF stored codec]]
    by simp
  then show ?thesis by (auto simp: replay_def split: option.splits if_splits)
qed

theorem stored_response_is_replayed_witness:
  "\<exists>records'. store_replay Some [] 1 ''job.create'' ''k1'' (replicate 32 CHR ''h'') 201 (5 :: nat) = Inr records'
     \<and> replay Some records' 1 ''job.create'' ''k1'' (replicate 32 CHR ''h'') = Inr (Match 5)
     \<and> replay Some records' 1 ''job.create'' ''k1'' (replicate 32 CHR ''g'') = Inr Changed"
proof -
  have stored: "store_replay Some [] 1 ''job.create'' ''k1'' (replicate 32 CHR ''h'') 201 (5 :: nat) =
      Inr [\<lparr>idem_actor = 1, idem_operation = ''job.create'', idem_key = ''k1'',
            idem_request_hash = replicate 32 CHR ''h'', idem_request_key_version = None, idem_response_status = 201,
            idem_response_body = 5\<rparr>]"
    by (simp add: store_replay_def insert_record_def record_check_def find_record_def)
  have "replicate 32 CHR ''g'' \<noteq> replicate 32 CHR ''h''" by simp
  with stored stored_response_is_replayed [OF stored, of Some, OF _ rtranclp.rtrancl_refl,
      of "replicate 32 CHR ''g''"]
  show ?thesis by auto
qed

end
