(* ===== verification/Job_Store.thy ===== *)
theory Job_Store
  imports Control_Intent
begin

text \<open>
  The tables the job endpoints work on (\<^verbatim>\<open>migrations/0003_jobs_secrets.sql\<close>, and from the
  earlier migrations the services, the stored responses and the audit trail) and the SQL
  statements as functions on them.  A table is the list of its rows in insertion order.  A
  statement that would break a \<open>CHECK\<close>, a key or a foreign key yields \<open>None\<close>; the deferred
  foreign key from a job to its current attempt is checked when the transaction commits.

  Columns of type \<open>bigint\<close> and \<open>integer\<close> are integers whose range is checked on every write, as
  PostgreSQL does.  Timestamps are integers.  References from owners, projects and sessions to
  their own tables are not checked here: the endpoints only write identifiers that an
  authenticated session or an existing row supplied.
\<close>

section \<open>Rows\<close>

record job_row =
  job_id :: uuid
  job_account_id :: uuid
  job_project_id :: uuid
  job_service_id :: uuid
  job_kind :: string
  job_operation :: string
  job_source_commit :: string
  job_state :: string
  job_revision :: int
  job_attempt_count :: int
  job_max_attempts :: int
  job_current_attempt_id :: "uuid option"
  job_current_fence :: int
  job_lease_expires_at :: "timestamp option"
  job_created_at :: timestamp
  job_updated_at :: timestamp

record attempt_row =
  at_id :: uuid
  at_account_id :: uuid
  at_project_id :: uuid
  at_job_id :: uuid
  at_number :: int
  at_fence :: int
  at_worker_id :: string
  at_state :: string
  at_lease_started_at :: timestamp
  at_lease_expires_at :: timestamp
  at_finished_at :: "timestamp option"
  at_terminal_code :: "string option"
  at_completion_hash :: "string option"

record secret_ref_row =
  ref_account_id :: uuid
  ref_project_id :: uuid
  ref_service_id :: uuid
  ref_job_id :: uuid
  ref_secret_id :: uuid
  ref_secret_version_id :: uuid
  ref_operation :: string
  ref_credential_kind :: string

record 'v effect_row =
  eff_id :: uuid
  eff_account_id :: uuid
  eff_project_id :: uuid
  eff_job_id :: uuid
  eff_attempt_id :: uuid
  eff_fence :: int
  eff_outcome_state :: string
  eff_outcome_code :: string
  eff_response_body :: 'v
  eff_completion_hash :: string

record service_row =
  service_row_id :: uuid
  service_account_id :: uuid
  service_project_id :: uuid

record secret_row =
  secret_id :: uuid
  secret_account_id :: uuid
  secret_project_id :: uuid
  secret_service_id :: uuid
  secret_name :: string
  secret_operation :: string
  secret_credential_kind :: string
  secret_status :: string
  secret_revision :: int
  secret_created_at :: timestamp
  secret_updated_at :: timestamp

record secret_version_row =
  version_id :: uuid
  version_account_id :: uuid
  version_project_id :: uuid
  version_service_id :: uuid
  version_secret_id :: uuid
  version_number :: int
  version_key_version :: string
  version_nonce :: string
  version_ciphertext :: string
  version_auth_tag :: string
  version_created_at :: timestamp

text \<open>The \<open>metadata\<close> of a worker's audit event: worker, attempt and fence.\<close>

record audit_row =
  audit_row_id :: uuid
  audit_account_id :: uuid
  audit_actor_account_id :: "uuid option"
  audit_session_id :: "uuid option"
  audit_event_type :: string
  audit_target_type :: string
  audit_target_id :: "uuid option"
  audit_outcome :: string
  audit_worker :: "(string \<times> uuid \<times> int) option"

record 'v job_db =
  db_jobs :: "job_row list"
  db_attempts :: "attempt_row list"
  db_secret_refs :: "secret_ref_row list"
  db_effects :: "'v effect_row list"
  db_services :: "service_row list"
  db_secrets :: "secret_row list"
  db_secret_versions :: "secret_version_row list"
  db_idempotency :: "'v idempotency_record list"
  db_audit :: "audit_row list"

section \<open>Constraints\<close>

definition in_bigint :: "int \<Rightarrow> bool" where
  "in_bigint v \<longleftrightarrow> - (2 ^ 63) \<le> v \<and> v < 2 ^ 63"

definition lowercase_hex :: "char \<Rightarrow> bool" where
  "lowercase_hex b \<longleftrightarrow> is_ascii_digit b \<or> (97 \<le> byte b \<and> byte b \<le> 102)"

definition job_check :: "job_row \<Rightarrow> bool" where
  "job_check j \<longleftrightarrow>
     job_kind j = ''foundation_bookkeeping'' \<and> job_operation j = ''build''
     \<and> (length (job_source_commit j) = 40 \<or> length (job_source_commit j) = 64)
     \<and> (\<forall>b \<in> set (job_source_commit j). lowercase_hex b)
     \<and> job_state j \<in> {''queued'', ''running'', ''succeeded'', ''failed'', ''canceled'', ''retriable''}
     \<and> job_revision j > 0 \<and> in_bigint (job_revision j)
     \<and> 0 \<le> job_attempt_count j \<and> job_attempt_count j \<le> 3
     \<and> job_max_attempts j = 3
     \<and> job_current_fence j \<ge> 0 \<and> in_bigint (job_current_fence j)
     \<and> (job_state j = ''running'' \<and> job_current_attempt_id j \<noteq> None \<and> job_lease_expires_at j \<noteq> None
        \<or> job_state j \<noteq> ''running'' \<and> job_lease_expires_at j = None)"

definition attempt_check :: "attempt_row \<Rightarrow> bool" where
  "attempt_check a \<longleftrightarrow>
     at_number a > 0 \<and> at_fence a > 0 \<and> in_bigint (at_fence a)
     \<and> 1 \<le> length (at_worker_id a) \<and> length (at_worker_id a) \<le> 128
     \<and> at_state a \<in> {''running'', ''succeeded'', ''failed'', ''retriable'', ''expired'', ''canceled''}
     \<and> (case at_terminal_code a of Some c \<Rightarrow> 1 \<le> length c \<and> length c \<le> 64 | None \<Rightarrow> True)
     \<and> (case at_completion_hash a of Some h \<Rightarrow> length h = 32 | None \<Rightarrow> True)
     \<and> at_lease_expires_at a > at_lease_started_at a
     \<and> (at_state a = ''running'' \<and> at_finished_at a = None \<and> at_terminal_code a = None
        \<or> at_state a \<noteq> ''running'' \<and> at_finished_at a \<noteq> None \<and> at_terminal_code a \<noteq> None)"

definition effect_check :: "'v effect_row \<Rightarrow> bool" where
  "effect_check e \<longleftrightarrow>
     eff_fence e > 0 \<and> in_bigint (eff_fence e)
     \<and> eff_outcome_state e \<in> {''succeeded'', ''failed''}
     \<and> 1 \<le> length (eff_outcome_code e) \<and> length (eff_outcome_code e) \<le> 64
     \<and> length (eff_completion_hash e) = 32"

definition secret_ref_check :: "secret_ref_row \<Rightarrow> bool" where
  "secret_ref_check r \<longleftrightarrow>
     ref_operation r = ''build''
     \<and> ref_credential_kind r \<in> {''source_repository_read'', ''build_environment'',
          ''production_database'', ''platform_management''}"

definition audit_check :: "audit_row \<Rightarrow> bool" where
  "audit_check e \<longleftrightarrow>
     1 \<le> length (audit_event_type e) \<and> length (audit_event_type e) \<le> 128
     \<and> 1 \<le> length (audit_target_type e) \<and> length (audit_target_type e) \<le> 128
     \<and> 1 \<le> length (audit_outcome e) \<and> length (audit_outcome e) \<le> 64"

text \<open>The deferred foreign key \<open>jobs_current_attempt_fk\<close>: a null current attempt satisfies it.\<close>

definition current_attempt_fk :: "attempt_row list \<Rightarrow> job_row \<Rightarrow> bool" where
  "current_attempt_fk attempts j \<longleftrightarrow>
     (case job_current_attempt_id j of
        None \<Rightarrow> True
      | Some aid \<Rightarrow>
          (\<exists>a \<in> set attempts. at_account_id a = job_account_id j \<and> at_project_id a = job_project_id j
             \<and> at_job_id a = job_id j \<and> at_id a = aid \<and> at_fence a = job_current_fence j))"

section \<open>Statements\<close>

definition insert_job :: "job_row \<Rightarrow> 'v job_db \<Rightarrow> 'v job_db option" where
  "insert_job j db =
     (if job_check j \<and> job_id j \<notin> job_id ` set (db_jobs db)
        \<and> (\<exists>s \<in> set (db_services db). service_account_id s = job_account_id j
             \<and> service_project_id s = job_project_id j \<and> service_row_id s = job_service_id j)
      then Some (db\<lparr>db_jobs := db_jobs db @ [j]\<rparr>) else None)"

definition update_jobs ::
  "(job_row \<Rightarrow> bool) \<Rightarrow> (job_row \<Rightarrow> job_row) \<Rightarrow> 'v job_db \<Rightarrow> 'v job_db option" where
  "update_jobs p f db =
     (if \<forall>j \<in> set (db_jobs db). p j \<longrightarrow> job_check (f j)
      then Some (db\<lparr>db_jobs := map (\<lambda>j. if p j then f j else j) (db_jobs db)\<rparr>) else None)"

definition insert_attempt :: "attempt_row \<Rightarrow> 'v job_db \<Rightarrow> 'v job_db option" where
  "insert_attempt a db =
     (if attempt_check a \<and> at_id a \<notin> at_id ` set (db_attempts db)
        \<and> (\<forall>b \<in> set (db_attempts db). at_job_id b = at_job_id a \<longrightarrow>
             at_number b \<noteq> at_number a \<and> at_fence b \<noteq> at_fence a)
        \<and> (\<exists>j \<in> set (db_jobs db). job_account_id j = at_account_id a
             \<and> job_project_id j = at_project_id a \<and> job_id j = at_job_id a)
      then Some (db\<lparr>db_attempts := db_attempts db @ [a]\<rparr>) else None)"

definition update_attempts ::
  "(attempt_row \<Rightarrow> bool) \<Rightarrow> (attempt_row \<Rightarrow> attempt_row) \<Rightarrow> 'v job_db \<Rightarrow> 'v job_db option" where
  "update_attempts p f db =
     (if \<forall>a \<in> set (db_attempts db). p a \<longrightarrow> attempt_check (f a)
      then Some (db\<lparr>db_attempts := map (\<lambda>a. if p a then f a else a) (db_attempts db)\<rparr>) else None)"

definition insert_secret_ref :: "secret_ref_row \<Rightarrow> 'v job_db \<Rightarrow> 'v job_db option" where
  "insert_secret_ref r db =
     (if secret_ref_check r
        \<and> (\<forall>q \<in> set (db_secret_refs db). ref_job_id q = ref_job_id r \<longrightarrow>
             ref_secret_version_id q \<noteq> ref_secret_version_id r \<and> ref_secret_id q \<noteq> ref_secret_id r)
        \<and> (\<exists>j \<in> set (db_jobs db). job_account_id j = ref_account_id r
             \<and> job_project_id j = ref_project_id r \<and> job_service_id j = ref_service_id r
             \<and> job_id j = ref_job_id r \<and> job_operation j = ref_operation r)
        \<and> (\<exists>s \<in> set (db_secrets db). secret_account_id s = ref_account_id r
             \<and> secret_project_id s = ref_project_id r \<and> secret_service_id s = ref_service_id r
             \<and> secret_id s = ref_secret_id r \<and> secret_operation s = ref_operation r
             \<and> secret_credential_kind s = ref_credential_kind r)
        \<and> (\<exists>v \<in> set (db_secret_versions db). version_account_id v = ref_account_id r
             \<and> version_project_id v = ref_project_id r \<and> version_service_id v = ref_service_id r
             \<and> version_secret_id v = ref_secret_id r \<and> version_id v = ref_secret_version_id r)
      then Some (db\<lparr>db_secret_refs := db_secret_refs db @ [r]\<rparr>) else None)"

definition effect_keys_ok :: "'v effect_row \<Rightarrow> 'v job_db \<Rightarrow> bool" where
  "effect_keys_ok e db \<longleftrightarrow>
     effect_check e \<and> eff_id e \<notin> eff_id ` set (db_effects db)
     \<and> (\<exists>j \<in> set (db_jobs db). job_account_id j = eff_account_id e
          \<and> job_project_id j = eff_project_id e \<and> job_id j = eff_job_id e)
     \<and> (\<exists>a \<in> set (db_attempts db). at_account_id a = eff_account_id e
          \<and> at_project_id a = eff_project_id e \<and> at_job_id a = eff_job_id e
          \<and> at_id a = eff_attempt_id e \<and> at_fence a = eff_fence e)"

definition insert_effect :: "'v effect_row \<Rightarrow> 'v job_db \<Rightarrow> 'v job_db option" where
  "insert_effect e db =
     (if effect_keys_ok e db \<and> eff_job_id e \<notin> eff_job_id ` set (db_effects db)
      then Some (db\<lparr>db_effects := db_effects db @ [e]\<rparr>) else None)"

text \<open>\<open>INSERT ... ON CONFLICT (job_id) DO NOTHING\<close>.\<close>

definition insert_effect_or_keep :: "'v effect_row \<Rightarrow> 'v job_db \<Rightarrow> 'v job_db option" where
  "insert_effect_or_keep e db =
     (if eff_job_id e \<in> eff_job_id ` set (db_effects db)
      then (if effect_check e then Some db else None)
      else insert_effect e db)"

definition insert_audit :: "audit_row \<Rightarrow> 'v job_db \<Rightarrow> 'v job_db option" where
  "insert_audit e db =
     (if audit_check e \<and> audit_row_id e \<notin> audit_row_id ` set (db_audit db)
      then Some (db\<lparr>db_audit := db_audit db @ [e]\<rparr>) else None)"

section \<open>Transactions\<close>

text \<open>
  A transaction body either commits a working copy together with the handler's result (an error
  response may be committed too, with its audit event) or aborts, by an explicit rollback or
  because \<open>?\<close> dropped the transaction.  The deferred foreign key is checked at the commit.
\<close>

datatype ('v, 'a) tx_result = Commit "'v job_db" "api_error + 'a" | Abort api_error

definition run_tx :: "'v job_db \<Rightarrow> ('v, 'a) tx_result \<Rightarrow> 'v job_db \<times> (api_error + 'a)" where
  "run_tx db body =
     (case body of
        Abort e \<Rightarrow> (db, Inl e)
      | Commit db' r \<Rightarrow>
          if \<forall>j \<in> set (db_jobs db'). current_attempt_fk (db_attempts db') j then (db', r)
          else (db, Inl database_unavailable))"

text \<open>Statement and query results threaded as \<open>?\<close> does.\<close>

definition stmt ::
  "'v job_db option \<Rightarrow> ('v job_db \<Rightarrow> ('v, 'a) tx_result) \<Rightarrow> ('v, 'a) tx_result" where
  "stmt r k = (case r of Some db \<Rightarrow> k db | None \<Rightarrow> Abort database_unavailable)"

definition try_result :: "api_error + 'b \<Rightarrow> ('b \<Rightarrow> ('v, 'a) tx_result) \<Rightarrow> ('v, 'a) tx_result" where
  "try_result r k = (case r of Inr x \<Rightarrow> k x | Inl e \<Rightarrow> Abort e)"

lemma stmt_Commit:
  "stmt r k = Commit db x \<longleftrightarrow> (\<exists>db1. r = Some db1 \<and> k db1 = Commit db x)"
  by (cases r) (simp_all add: stmt_def)

lemma try_result_Commit:
  "try_result r k = Commit db x \<longleftrightarrow> (\<exists>y. r = Inr y \<and> k y = Commit db x)"
  by (cases r) (simp_all add: try_result_def)

lemma option_case_Commit:
  "(case m of None \<Rightarrow> n | Some x \<Rightarrow> s x) = Commit db r \<longleftrightarrow>
     (m = None \<and> n = Commit db r) \<or> (\<exists>x. m = Some x \<and> s x = Commit db r)"
  by (cases m) simp_all

lemma replay_case_Commit:
  "(case m of Miss \<Rightarrow> n | Match x \<Rightarrow> s x | Changed \<Rightarrow> c) = Commit db r \<longleftrightarrow>
     (m = Miss \<and> n = Commit db r) \<or> (\<exists>x. m = Match x \<and> s x = Commit db r)
     \<or> (m = Changed \<and> c = Commit db r)"
  by (cases m) simp_all

lemma if_Commit:
  "(if b then x else y) = Commit db r \<longleftrightarrow> (b \<and> x = Commit db r) \<or> (\<not> b \<and> y = Commit db r)"
  by simp

lemmas tx_simps =
  stmt_Commit try_result_Commit option_case_Commit replay_case_Commit if_Commit

end
