(* ===== verification/Control_Jobs.thy ===== *)
theory Control_Jobs
  imports Job_Store "HOL-Library.Product_Lexorder"
begin

text \<open>
  The job endpoints of \<^verbatim>\<open>crates/control/src/jobs.rs\<close>: an owner creates and cancels jobs; a
  worker leases one, renews the lease and reports completion; expired leases are reaped.  Each
  handler is a transaction body over the tables of \<open>Job_Store\<close>, statement for statement;
  \<open>lease_job\<close> first runs the reaper, which is a bounded loop of transactions.

  What a transaction reads from outside is its \<open>tx_env\<close>: the successive readings of
  \<open>clock_timestamp()\<close> in the order the statements take them, the identifiers \<open>Uuid::new_v4\<close>
  returns, and the job rows other transactions hold locked, which \<open>SKIP LOCKED\<close> passes over.
  Codecs of other crates are the fields of \<open>job_ext\<close>.
\<close>

section \<open>Requests and responses\<close>

record secret_version_reference =
  svr_service_id :: string
  svr_secret_version_id :: string

record job_record =
  jr_id :: uuid
  jr_project_id :: string
  jr_service_id :: string
  jr_kind :: string
  jr_operation :: string
  jr_source_commit :: string
  jr_state :: string
  jr_revision :: nat
  jr_attempt_count :: nat
  jr_current_attempt_id :: "uuid option"
  jr_current_fence :: nat
  jr_lease_expires_at :: "timestamp option"
  jr_secret_version_refs :: "secret_version_reference list"
  jr_created_at :: timestamp
  jr_updated_at :: timestamp

record create_job_request =
  cjr_kind :: string
  cjr_operation :: string
  cjr_service_id :: string
  cjr_source_commit :: string
  cjr_secret_version_refs :: "secret_version_reference list"

record lease_request =
  lr_worker_id :: string
  lr_kinds :: "string list"

record attempt_lease =
  al_id :: uuid
  al_attempt_number :: nat
  al_fence :: nat
  al_worker_id :: string
  al_lease_expires_at :: timestamp

record lease_response =
  lres_job :: job_record
  lres_attempt :: attempt_lease

record lease_identity_request =
  lir_worker_id :: string
  lir_attempt_id :: uuid
  lir_fence :: int

record renew_response =
  rr_job_id :: uuid
  rr_attempt_id :: uuid
  rr_fence :: nat
  rr_lease_expires_at :: timestamp

record completion_outcome =
  co_state :: string
  co_code :: string

record complete_request =
  cr_worker_id :: string
  cr_attempt_id :: uuid
  cr_fence :: int
  cr_outcome :: completion_outcome

record job_effect_response =
  jer_id :: uuid
  jer_outcome_state :: string
  jer_outcome_code :: string

record complete_response =
  cres_job :: job_record
  cres_effect :: "job_effect_response option"

record authenticated =
  auth_account_id :: string
  auth_session_id :: uuid

section \<open>Outside of the handlers\<close>

record tx_env =
  env_now :: "nat \<Rightarrow> timestamp"
  env_fresh :: "nat \<Rightarrow> uuid"
  env_locked :: "uuid set"

record 'v job_ext =
  ext_parse_uuid :: "string \<Rightarrow> uuid option"
  ext_show_uuid :: "uuid \<Rightarrow> string"
  ext_sha256 :: "string \<Rightarrow> string"
  ext_create_bytes :: "create_job_request \<Rightarrow> string option"
  ext_cancel_bytes :: "unit \<Rightarrow> string option"
  ext_complete_bytes :: "complete_request \<Rightarrow> string option"
  ext_job_to_value :: "job_record \<Rightarrow> 'v option"
  ext_job_from_value :: "'v \<Rightarrow> job_record option"
  ext_complete_to_value :: "complete_response \<Rightarrow> 'v option"
  ext_complete_from_value :: "'v \<Rightarrow> complete_response option"
  ext_exhausted_body :: 'v

text \<open>One second, in the unit of timestamps (microseconds).\<close>

definition second :: timestamp where
  "second = 1000000"

section \<open>Validation\<close>

definition JOB_KIND :: string where "JOB_KIND = ''foundation_bookkeeping''"
definition JOB_OPERATION :: string where "JOB_OPERATION = ''build''"
definition MAX_SECRET_REFS :: nat where "MAX_SECRET_REFS = 32"

definition valid_source_commit :: "string \<Rightarrow> bool" where
  "valid_source_commit value \<longleftrightarrow>
     (length value = 40 \<or> length value = 64) \<and> (\<forall>b \<in> set value. lowercase_hex b)"

definition valid_worker_id :: "string \<Rightarrow> bool" where
  "valid_worker_id value \<longleftrightarrow>
     value \<noteq> [] \<and> length value \<le> 128 \<and> (\<forall>b \<in> set value. is_ascii_graphic b)"

definition valid_outcome :: "completion_outcome \<Rightarrow> bool" where
  "valid_outcome outcome \<longleftrightarrow>
     (co_state outcome, co_code outcome) \<in>
       {(''succeeded'', ''bookkeeping_complete''), (''failed'', ''bookkeeping_failed''),
        (''retriable'', ''retry_requested'')}"

definition as_u64 :: "int \<Rightarrow> api_error + nat" where
  "as_u64 value = (if value < 0 then Inl internal else Inr (nat value))"

definition as_u32 :: "int \<Rightarrow> api_error + nat" where
  "as_u32 value = (if value < 0 then Inl internal else Inr (nat value))"

definition fenced :: api_error where
  "fenced = conflict ''job_fenced'' ''the worker no longer owns a live lease for this job''"

definition account_uuid :: "'v job_ext \<Rightarrow> authenticated \<Rightarrow> api_error + uuid" where
  "account_uuid ext auth =
     (case ext_parse_uuid ext (auth_account_id auth) of Some u \<Rightarrow> Inr u | None \<Rightarrow> Inl internal)"

section \<open>Audit\<close>

definition audit ::
  "uuid \<Rightarrow> uuid \<Rightarrow> uuid \<Rightarrow> string \<Rightarrow> string \<Rightarrow> uuid option \<Rightarrow> string \<Rightarrow> 'v job_db \<Rightarrow> 'v job_db option" where
  "audit event_id actor session event_type target_type target outcome =
     insert_audit
       \<lparr>audit_row_id = event_id, audit_account_id = actor, audit_actor_account_id = Some actor,
        audit_session_id = Some session, audit_event_type = event_type,
        audit_target_type = target_type, audit_target_id = target, audit_outcome = outcome,
        audit_worker = None\<rparr>"

record worker_audit_context =
  ctx_job_id :: uuid
  ctx_worker_id :: string
  ctx_attempt_id :: uuid
  ctx_fence :: int

definition worker_audit ::
  "uuid \<Rightarrow> uuid \<Rightarrow> string \<Rightarrow> worker_audit_context \<Rightarrow> string \<Rightarrow> 'v job_db \<Rightarrow> 'v job_db option" where
  "worker_audit event_id account event_type context outcome =
     insert_audit
       \<lparr>audit_row_id = event_id, audit_account_id = account, audit_actor_account_id = None,
        audit_session_id = None, audit_event_type = event_type, audit_target_type = ''job'',
        audit_target_id = Some (ctx_job_id context), audit_outcome = outcome,
        audit_worker = Some (ctx_worker_id context, ctx_attempt_id context, ctx_fence context)\<rparr>"

section \<open>Loading a job\<close>

definition job_in_scope :: "uuid \<Rightarrow> uuid \<Rightarrow> uuid \<Rightarrow> job_row \<Rightarrow> bool" where
  "job_in_scope account project jid j \<longleftrightarrow>
     job_account_id j = account \<and> job_project_id j = project \<and> job_id j = jid"

definition job_record_of ::
  "'v job_ext \<Rightarrow> 'v job_db \<Rightarrow> uuid \<Rightarrow> job_row \<Rightarrow> api_error + job_record" where
  "job_record_of ext db account row =
     (let refs = sort (map ref_secret_version_id
                   (filter (\<lambda>r. ref_account_id r = account \<and> ref_project_id r = job_project_id row
                              \<and> ref_job_id r = job_id row) (db_secret_refs db)))
      in case as_u64 (job_revision row) of
           Inl e \<Rightarrow> Inl e
         | Inr revision \<Rightarrow>
             (case as_u32 (job_attempt_count row) of
                Inl e \<Rightarrow> Inl e
              | Inr attempts \<Rightarrow>
                  (case as_u64 (job_current_fence row) of
                     Inl e \<Rightarrow> Inl e
                   | Inr fence \<Rightarrow> Inr
                       \<lparr>jr_id = job_id row, jr_project_id = ext_show_uuid ext (job_project_id row),
                        jr_service_id = ext_show_uuid ext (job_service_id row),
                        jr_kind = job_kind row, jr_operation = job_operation row,
                        jr_source_commit = job_source_commit row, jr_state = job_state row,
                        jr_revision = revision, jr_attempt_count = attempts,
                        jr_current_attempt_id = job_current_attempt_id row,
                        jr_current_fence = fence,
                        jr_lease_expires_at = job_lease_expires_at row,
                        jr_secret_version_refs =
                          map (\<lambda>vid. \<lparr>svr_service_id = ext_show_uuid ext (job_service_id row),
                                       svr_secret_version_id = ext_show_uuid ext vid\<rparr>) refs,
                        jr_created_at = job_created_at row, jr_updated_at = job_updated_at row\<rparr>)))"

definition load_job ::
  "'v job_ext \<Rightarrow> 'v job_db \<Rightarrow> uuid \<Rightarrow> uuid \<Rightarrow> uuid \<Rightarrow> api_error + job_record" where
  "load_job ext db account project jid =
     (case find (job_in_scope account project jid) (db_jobs db) of
        None \<Rightarrow> Inl not_found
      | Some row \<Rightarrow> job_record_of ext db account row)"

section \<open>Owner endpoints\<close>

text \<open>The metadata query of the reference loop: the active secret a version belongs to, in scope.\<close>

definition secret_metadata ::
  "'v job_db \<Rightarrow> uuid \<Rightarrow> uuid \<Rightarrow> uuid \<Rightarrow> uuid \<Rightarrow> (uuid \<times> string \<times> string) option" where
  "secret_metadata db account project service vid =
     map_option (\<lambda>(v, s). (secret_id s, secret_operation s, secret_credential_kind s))
       (find (\<lambda>(v, s). secret_account_id s = version_account_id v
                \<and> secret_project_id s = version_project_id v
                \<and> secret_service_id s = version_service_id v \<and> secret_id s = version_secret_id v
                \<and> version_account_id v = account \<and> version_project_id v = project
                \<and> version_service_id v = service \<and> version_id v = vid
                \<and> secret_status s = ''active'')
         (List.product (db_secret_versions db) (db_secrets db)))"

fun resolve_refs ::
  "'v job_ext \<Rightarrow> 'v job_db \<Rightarrow> uuid \<Rightarrow> uuid \<Rightarrow> uuid \<Rightarrow> secret_version_reference list
     \<Rightarrow> uuid set \<Rightarrow> uuid set \<Rightarrow> (uuid \<times> uuid \<times> string) list
     \<Rightarrow> api_error + (uuid \<times> uuid \<times> string) list" where
  "resolve_refs ext db account project service [] seen_versions seen_secrets resolved = Inr resolved"
| "resolve_refs ext db account project service (reference # references) seen_versions seen_secrets resolved =
     (case path_uuid (ext_parse_uuid ext) (svr_service_id reference) of
        Inl e \<Rightarrow> Inl e
      | Inr reference_service \<Rightarrow>
          (case path_uuid (ext_parse_uuid ext) (svr_secret_version_id reference) of
             Inl e \<Rightarrow> Inl e
           | Inr vid \<Rightarrow>
               if reference_service \<noteq> service \<or> vid \<in> seen_versions
               then Inl (unprocessable ''invalid_secret_reference''
                           ''secret references must be unique and belong to the job service'')
               else (case secret_metadata db account project service vid of
                       None \<Rightarrow> Inl not_found
                     | Some (sid, operation, kind) \<Rightarrow>
                         if sid \<in> seen_secrets
                         then Inl (unprocessable ''duplicate_secret_definition''
                                     ''a job may bind only one version of each secret'')
                         else if operation \<noteq> JOB_OPERATION
                         then Inl (unprocessable ''secret_operation_mismatch''
                                     ''the secret version is not scoped to this job operation'')
                         else if kind \<notin> {''source_repository_read'', ''build_environment''}
                         then Inl (unprocessable ''credential_kind_not_allowed''
                                     ''build bookkeeping cannot bind production or management credentials'')
                         else resolve_refs ext db account project service references
                                (insert vid seen_versions) (insert sid seen_secrets)
                                (resolved @ [(sid, vid, kind)]))))"

fun insert_refs ::
  "uuid \<Rightarrow> uuid \<Rightarrow> uuid \<Rightarrow> uuid \<Rightarrow> (uuid \<times> uuid \<times> string) list \<Rightarrow> 'v job_db \<Rightarrow> 'v job_db option" where
  "insert_refs account project service jid [] db = Some db"
| "insert_refs account project service jid ((sid, vid, kind) # refs) db =
     (case insert_secret_ref
             \<lparr>ref_account_id = account, ref_project_id = project, ref_service_id = service,
              ref_job_id = jid, ref_secret_id = sid, ref_secret_version_id = vid,
              ref_operation = JOB_OPERATION, ref_credential_kind = kind\<rparr> db of
        None \<Rightarrow> None
      | Some db1 \<Rightarrow> insert_refs account project service jid refs db1)"

definition payload_changed :: api_error where
  "payload_changed = conflict ''idempotency_payload_changed''
     ''the idempotency key was already used with a different request''"

definition with_records ::
  "'v job_db \<Rightarrow> api_error + 'v idempotency_record list \<Rightarrow> api_error + 'v job_db" where
  "with_records db r = (case r of Inl e \<Rightarrow> Inl e | Inr records \<Rightarrow> Inr (db\<lparr>db_idempotency := records\<rparr>))"

text \<open>The row a new job starts as: the column defaults of the schema.\<close>

definition new_job :: "tx_env \<Rightarrow> uuid \<Rightarrow> uuid \<Rightarrow> uuid \<Rightarrow> uuid \<Rightarrow> string \<Rightarrow> job_row" where
  "new_job env jid account project service commit =
     \<lparr>job_id = jid, job_account_id = account, job_project_id = project, job_service_id = service,
      job_kind = JOB_KIND, job_operation = JOB_OPERATION, job_source_commit = commit,
      job_state = ''queued'', job_revision = 1, job_attempt_count = 0, job_max_attempts = 3,
      job_current_attempt_id = None, job_current_fence = 0, job_lease_expires_at = None,
      job_created_at = env_now env 0, job_updated_at = env_now env 0\<rparr>"

text \<open>The part of \<open>create_job\<close> after a replay miss.\<close>

definition create_new_job ::
  "'v job_ext \<Rightarrow> tx_env \<Rightarrow> authenticated \<Rightarrow> uuid \<Rightarrow> uuid \<Rightarrow> uuid \<Rightarrow> string \<Rightarrow> string \<Rightarrow> string
     \<Rightarrow> create_job_request \<Rightarrow> 'v job_db \<Rightarrow> ('v, nat \<times> job_record) tx_result" where
  "create_new_job ext env auth account project service operation key hash request db =
     (if \<not> (\<exists>s \<in> set (db_services db). service_account_id s = account
              \<and> service_project_id s = project \<and> service_row_id s = service)
      then stmt (audit (env_fresh env 0) account (auth_session_id auth) ''job.create'' ''service''
                   (Some service) ''denied'' db)
             (\<lambda>db1. Commit db1 (Inl not_found))
      else try_result
        (resolve_refs ext db account project service (cjr_secret_version_refs request) {} {} [])
        (\<lambda>resolved.
          let jid = env_fresh env 0
          in stmt (insert_job (new_job env jid account project service (cjr_source_commit request)) db)
          (\<lambda>db1. stmt (insert_refs account project service jid resolved db1)
          (\<lambda>db2. try_result (load_job ext db2 account project jid)
          (\<lambda>response. stmt (audit (env_fresh env 1) account (auth_session_id auth) ''job.create''
                              ''job'' (Some jid) ''succeeded'' db2)
          (\<lambda>db3. try_result
                   (with_records db3 (store_replay (ext_job_to_value ext) (db_idempotency db3)
                      account operation key hash 201 response))
          (\<lambda>db4. Commit db4 (Inr (201, response)))))))))"

definition create_job_tx ::
  "'v job_ext \<Rightarrow> tx_env \<Rightarrow> authenticated \<Rightarrow> string \<Rightarrow> header_map \<Rightarrow> create_job_request \<Rightarrow> 'v job_db
     \<Rightarrow> ('v, nat \<times> job_record) tx_result" where
  "create_job_tx ext env auth project_path headers request db =
     (if cjr_kind request \<noteq> JOB_KIND
      then Abort (unprocessable ''unsupported_job_kind'' ''M1 supports platform bookkeeping jobs only'')
      else if cjr_operation request \<noteq> JOB_OPERATION
      then Abort (unprocessable ''unsupported_job_operation''
             ''M1 bookkeeping jobs support the build credential-policy operation only'')
      else if \<not> valid_source_commit (cjr_source_commit request)
      then Abort (unprocessable ''invalid_source_commit''
             ''source_commit must be 40 or 64 lowercase hexadecimal characters'')
      else if length (cjr_secret_version_refs request) > MAX_SECRET_REFS
      then Abort (unprocessable ''too_many_secret_references''
             ''a job may bind at most 32 secret versions'')
      else
        try_result (account_uuid ext auth) (\<lambda>account.
        try_result (path_uuid (ext_parse_uuid ext) project_path) (\<lambda>project.
        try_result (path_uuid (ext_parse_uuid ext) (cjr_service_id request)) (\<lambda>service.
        try_result (idempotency_key headers) (\<lambda>key.
        try_result (request_hash (ext_create_bytes ext) (ext_sha256 ext) request) (\<lambda>hash.
          let operation = ''job.create/'' @ ext_show_uuid ext project
          in try_result
               (replay (ext_job_from_value ext) (db_idempotency db) account operation key hash)
               (\<lambda>found. case found of
                  Match response \<Rightarrow> Commit db (Inr (201, response))
                | Changed \<Rightarrow>
                    stmt (audit (env_fresh env 0) account (auth_session_id auth) ''job.create''
                            ''job'' None ''idempotency_conflict'' db)
                      (\<lambda>db1. Commit db1 (Inl payload_changed))
                | Miss \<Rightarrow>
                    create_new_job ext env auth account project service operation key hash
                      request db)))))))"

definition create_job ::
  "'v job_ext \<Rightarrow> tx_env \<Rightarrow> authenticated \<Rightarrow> string \<Rightarrow> header_map \<Rightarrow> create_job_request \<Rightarrow> 'v job_db
     \<Rightarrow> 'v job_db \<times> (api_error + nat \<times> job_record)" where
  "create_job ext env auth project_path headers request db =
     run_tx db (create_job_tx ext env auth project_path headers request db)"

definition get_job ::
  "'v job_ext \<Rightarrow> authenticated \<Rightarrow> string \<Rightarrow> string \<Rightarrow> 'v job_db
     \<Rightarrow> 'v job_db \<times> (api_error + job_record)" where
  "get_job ext auth project_path job_path db =
     run_tx db
       (try_result (account_uuid ext auth) (\<lambda>account.
        try_result (path_uuid (ext_parse_uuid ext) project_path) (\<lambda>project.
        try_result (path_uuid (ext_parse_uuid ext) job_path) (\<lambda>jid.
        try_result (load_job ext db account project jid) (\<lambda>response.
          Commit db (Inr response))))))"

definition cancel_attempt :: "tx_env \<Rightarrow> uuid \<Rightarrow> uuid \<Rightarrow> uuid \<Rightarrow> uuid \<Rightarrow> 'v job_db \<Rightarrow> 'v job_db option" where
  "cancel_attempt env account project jid aid =
     update_attempts
       (\<lambda>a. at_account_id a = account \<and> at_project_id a = project \<and> at_job_id a = jid
            \<and> at_id a = aid \<and> at_state a = ''running'')
       (\<lambda>a. a\<lparr>at_state := ''canceled'', at_finished_at := Some (env_now env 0),
              at_terminal_code := Some ''owner_canceled''\<rparr>)"

definition canceled_job :: "tx_env \<Rightarrow> job_row \<Rightarrow> job_row" where
  "canceled_job env j =
     j\<lparr>job_state := ''canceled'', job_revision := job_revision j + 1,
       job_current_attempt_id := None, job_current_fence := job_current_fence j + 1,
       job_lease_expires_at := None, job_updated_at := env_now env 1\<rparr>"

text \<open>The part of \<open>cancel_job\<close> after a replay miss.\<close>

definition cancel_known_job ::
  "'v job_ext \<Rightarrow> tx_env \<Rightarrow> authenticated \<Rightarrow> uuid \<Rightarrow> uuid \<Rightarrow> uuid \<Rightarrow> string \<Rightarrow> string \<Rightarrow> string \<Rightarrow> int
     \<Rightarrow> 'v job_db \<Rightarrow> ('v, job_record) tx_result" where
  "cancel_known_job ext env auth account project jid operation key hash expected_revision db =
     (case find (job_in_scope account project jid) (db_jobs db) of
        None \<Rightarrow> Abort not_found
      | Some j \<Rightarrow>
          if job_revision j \<noteq> expected_revision
          then stmt (audit (env_fresh env 0) account (auth_session_id auth) ''job.cancel'' ''job''
                       (Some jid) ''stale_revision'' db)
                 (\<lambda>db1. Commit db1 (Inl stale_revision))
          else if job_state j \<in> {''succeeded'', ''failed'', ''canceled''}
          then stmt (audit (env_fresh env 0) account (auth_session_id auth) ''job.cancel'' ''job''
                       (Some jid) ''terminal'' db)
                 (\<lambda>db1. Commit db1 (Inl (conflict ''job_terminal'' ''the job is already terminal'')))
          else
            stmt (case job_current_attempt_id j of
                    Some aid \<Rightarrow> cancel_attempt env account project jid aid db
                  | None \<Rightarrow> Some db)
            (\<lambda>db1. stmt (update_jobs (job_in_scope account project jid) (canceled_job env) db1)
            (\<lambda>db2. try_result (load_job ext db2 account project jid)
            (\<lambda>response. stmt (audit (env_fresh env 0) account (auth_session_id auth) ''job.cancel''
                                ''job'' (Some jid) ''succeeded'' db2)
            (\<lambda>db3. try_result
                     (with_records db3 (store_replay (ext_job_to_value ext) (db_idempotency db3)
                        account operation key hash 200 response))
            (\<lambda>db4. Commit db4 (Inr response)))))))"

definition cancel_job_tx ::
  "'v job_ext \<Rightarrow> tx_env \<Rightarrow> authenticated \<Rightarrow> string \<Rightarrow> string \<Rightarrow> header_map \<Rightarrow> 'v job_db
     \<Rightarrow> ('v, job_record) tx_result" where
  "cancel_job_tx ext env auth project_path job_path headers db =
     try_result (account_uuid ext auth) (\<lambda>account.
     try_result (path_uuid (ext_parse_uuid ext) project_path) (\<lambda>project.
     try_result (path_uuid (ext_parse_uuid ext) job_path) (\<lambda>jid.
     try_result (idempotency_key headers) (\<lambda>key.
     try_result (if_match_revision headers) (\<lambda>expected_revision.
     try_result (request_hash (ext_cancel_bytes ext) (ext_sha256 ext) ()) (\<lambda>hash.
       let operation = ''job.cancel/'' @ ext_show_uuid ext project @ ''/'' @ ext_show_uuid ext jid
       in try_result (replay (ext_job_from_value ext) (db_idempotency db) account operation key hash)
            (\<lambda>found. case found of
               Match response \<Rightarrow> Commit db (Inr response)
             | Changed \<Rightarrow>
                 stmt (audit (env_fresh env 0) account (auth_session_id auth) ''job.cancel'' ''job''
                         (Some jid) ''idempotency_conflict'' db)
                   (\<lambda>db1. Commit db1 (Inl payload_changed))
             | Miss \<Rightarrow>
                 cancel_known_job ext env auth account project jid operation key hash
                   expected_revision db)))))))"

definition cancel_job ::
  "'v job_ext \<Rightarrow> tx_env \<Rightarrow> authenticated \<Rightarrow> string \<Rightarrow> string \<Rightarrow> header_map \<Rightarrow> 'v job_db
     \<Rightarrow> 'v job_db \<times> (api_error + job_record)" where
  "cancel_job ext env auth project_path job_path headers db =
     run_tx db (cancel_job_tx ext env auth project_path job_path headers db)"

section \<open>Reaping expired leases\<close>

text \<open>\<open>ORDER BY ... LIMIT 1\<close>: the first row of the ordered selection.\<close>

definition first_by :: "('a \<Rightarrow> 'k :: linorder) \<Rightarrow> 'a list \<Rightarrow> 'a option" where
  "first_by k xs = (case sort_key k xs of [] \<Rightarrow> None | x # _ \<Rightarrow> Some x)"

definition expired_job :: "tx_env \<Rightarrow> 'v job_db \<Rightarrow> job_row option" where
  "expired_job env db =
     first_by (\<lambda>j. (the (job_lease_expires_at j), job_id j))
       (filter (\<lambda>j. job_state j = ''running''
                  \<and> (case job_lease_expires_at j of Some t \<Rightarrow> t \<le> env_now env 0 | None \<Rightarrow> False)
                  \<and> job_id j \<notin> env_locked env) (db_jobs db))"

definition expire_attempt :: "tx_env \<Rightarrow> job_row \<Rightarrow> uuid \<Rightarrow> 'v job_db \<Rightarrow> 'v job_db option" where
  "expire_attempt env j aid =
     update_attempts
       (\<lambda>a. at_account_id a = job_account_id j \<and> at_project_id a = job_project_id j
            \<and> at_job_id a = job_id j \<and> at_id a = aid \<and> at_fence a = job_current_fence j
            \<and> at_state a = ''running'')
       (\<lambda>a. a\<lparr>at_state := ''expired'', at_finished_at := Some (env_now env 1),
              at_terminal_code := Some ''lease_expired''\<rparr>)"

definition released_job :: "tx_env \<Rightarrow> string \<Rightarrow> job_row \<Rightarrow> job_row" where
  "released_job env state j =
     j\<lparr>job_state := state, job_revision := job_revision j + 1, job_current_attempt_id := None,
       job_lease_expires_at := None, job_updated_at := env_now env 2\<rparr>"

definition exhausted_effect :: "'v job_ext \<Rightarrow> tx_env \<Rightarrow> job_row \<Rightarrow> uuid \<Rightarrow> 'v effect_row" where
  "exhausted_effect ext env j aid =
     \<lparr>eff_id = env_fresh env 0, eff_account_id = job_account_id j,
      eff_project_id = job_project_id j, eff_job_id = job_id j, eff_attempt_id = aid,
      eff_fence = job_current_fence j, eff_outcome_state = ''failed'',
      eff_outcome_code = ''attempts_exhausted'', eff_response_body = ext_exhausted_body ext,
      eff_completion_hash = ext_sha256 ext ''failed:attempts_exhausted''\<rparr>"

text \<open>
  One iteration of the reaper's loop.  The result says whether a lease was reaped; the loop
  returns on the first iteration that finds none.
\<close>

definition reap_tx :: "'v job_ext \<Rightarrow> tx_env \<Rightarrow> 'v job_db \<Rightarrow> ('v, bool) tx_result" where
  "reap_tx ext env db =
     (case expired_job env db of
        None \<Rightarrow> Commit db (Inr False)
      | Some j \<Rightarrow>
          (case job_current_attempt_id j of
             None \<Rightarrow> Abort database_unavailable
           | Some aid \<Rightarrow>
               (let scope = job_in_scope (job_account_id j) (job_project_id j) (job_id j);
                    outcome = (if job_attempt_count j \<ge> 3 then ''failed'' else ''retriable'')
                in stmt (expire_attempt env j aid db)
                (\<lambda>db1. stmt (update_jobs scope (released_job env outcome) db1)
                (\<lambda>db2. stmt (if job_attempt_count j \<ge> 3
                             then insert_effect_or_keep (exhausted_effect ext env j aid) db2
                             else Some db2)
                (\<lambda>db3. case find (\<lambda>a. at_job_id a = job_id j \<and> at_id a = aid
                                    \<and> at_fence a = job_current_fence j) (db_attempts db3) of
                         None \<Rightarrow> Abort database_unavailable
                       | Some a \<Rightarrow>
                           stmt (worker_audit (env_fresh env 1) (job_account_id j) ''job.lease_expired''
                                   \<lparr>ctx_job_id = job_id j, ctx_worker_id = at_worker_id a,
                                    ctx_attempt_id = aid, ctx_fence = job_current_fence j\<rparr>
                                   outcome db3)
                             (\<lambda>db4. Commit db4 (Inr True))))))))"

fun reap_loop ::
  "'v job_ext \<Rightarrow> (nat \<Rightarrow> tx_env) \<Rightarrow> nat \<Rightarrow> 'v job_db \<Rightarrow> 'v job_db \<times> (api_error + unit)" where
  "reap_loop ext envs 0 db = (db, Inr ())"
| "reap_loop ext envs (Suc n) db =
     (case run_tx db (reap_tx ext (envs n) db) of
        (db1, Inl e) \<Rightarrow> (db1, Inl e)
      | (db1, Inr False) \<Rightarrow> (db1, Inr ())
      | (db1, Inr True) \<Rightarrow> reap_loop ext envs n db1)"

definition reap_expired ::
  "'v job_ext \<Rightarrow> (nat \<Rightarrow> tx_env) \<Rightarrow> 'v job_db \<Rightarrow> 'v job_db \<times> (api_error + unit)" where
  "reap_expired ext envs db = reap_loop ext envs 64 db"

section \<open>Worker endpoints\<close>

definition claimable_job :: "tx_env \<Rightarrow> 'v job_db \<Rightarrow> job_row option" where
  "claimable_job env db =
     first_by (\<lambda>j. (job_created_at j, job_id j))
       (filter (\<lambda>j. job_state j \<in> {''queued'', ''retriable''}
                  \<and> job_attempt_count j < job_max_attempts j
                  \<and> job_kind j = ''foundation_bookkeeping''
                  \<and> job_id j \<notin> env_locked env) (db_jobs db))"

definition leased_job :: "tx_env \<Rightarrow> uuid \<Rightarrow> int \<Rightarrow> int \<Rightarrow> timestamp \<Rightarrow> job_row \<Rightarrow> job_row" where
  "leased_job env aid n fence expires j =
     j\<lparr>job_state := ''running'', job_revision := job_revision j + 1, job_attempt_count := n,
       job_current_attempt_id := Some aid, job_current_fence := fence,
       job_lease_expires_at := Some expires, job_updated_at := env_now env 1\<rparr>"

definition new_attempt ::
  "tx_env \<Rightarrow> job_row \<Rightarrow> uuid \<Rightarrow> int \<Rightarrow> int \<Rightarrow> string \<Rightarrow> timestamp \<Rightarrow> attempt_row" where
  "new_attempt env j aid n fence worker expires =
     \<lparr>at_id = aid, at_account_id = job_account_id j, at_project_id = job_project_id j,
      at_job_id = job_id j, at_number = n, at_fence = fence, at_worker_id = worker,
      at_state = ''running'', at_lease_started_at = env_now env 2, at_lease_expires_at = expires,
      at_finished_at = None, at_terminal_code = None, at_completion_hash = None\<rparr>"

definition lease_tx ::
  "'v job_ext \<Rightarrow> int \<Rightarrow> tx_env \<Rightarrow> string \<Rightarrow> 'v job_db \<Rightarrow> ('v, lease_response option) tx_result" where
  "lease_tx ext lease_seconds env worker db =
     (case claimable_job env db of
        None \<Rightarrow> Commit db (Inr None)
      | Some j \<Rightarrow>
          (let aid = env_fresh env 0;
               n = job_attempt_count j + 1;
               fence = job_current_fence j + 1;
               expires = env_now env 0 + lease_seconds * second;
               scope = job_in_scope (job_account_id j) (job_project_id j) (job_id j)
           in stmt (update_jobs scope (leased_job env aid n fence expires) db)
           (\<lambda>db1. stmt (insert_attempt (new_attempt env j aid n fence worker expires) db1)
           (\<lambda>db2. try_result (load_job ext db2 (job_account_id j) (job_project_id j) (job_id j))
           (\<lambda>job. try_result (as_u32 n)
           (\<lambda>number. try_result (as_u64 fence)
           (\<lambda>fence64. stmt (worker_audit (env_fresh env 1) (job_account_id j) ''job.lease''
                              \<lparr>ctx_job_id = job_id j, ctx_worker_id = worker, ctx_attempt_id = aid,
                               ctx_fence = fence\<rparr> ''succeeded'' db2)
           (\<lambda>db3. Commit db3 (Inr (Some
                     \<lparr>lres_job = job,
                      lres_attempt = \<lparr>al_id = aid, al_attempt_number = number, al_fence = fence64,
                                      al_worker_id = worker, al_lease_expires_at = expires\<rparr>\<rparr>))))))))))"

definition lease_job ::
  "'v job_ext \<Rightarrow> int \<Rightarrow> (nat \<Rightarrow> tx_env) \<Rightarrow> lease_request \<Rightarrow> 'v job_db
     \<Rightarrow> 'v job_db \<times> (api_error + lease_response option)" where
  "lease_job ext lease_seconds envs request db =
     (if \<not> valid_worker_id (lr_worker_id request)
      then (db, Inl (bad_request ''invalid_worker_id''
                       ''worker_id must contain 1 to 128 visible ASCII characters''))
      else if lr_kinds request \<noteq> [JOB_KIND]
      then (db, Inl (unprocessable ''unsupported_job_kind''
                       ''the M1 worker leases foundation bookkeeping jobs only''))
      else (case reap_expired ext envs db of
              (db1, Inl e) \<Rightarrow> (db1, Inl e)
            | (db1, Inr _) \<Rightarrow>
                run_tx db1 (lease_tx ext lease_seconds (envs 64) (lr_worker_id request) db1)))"

text \<open>
  The join of a running job with its running current attempt that \<open>renew_job\<close> and
  \<open>complete_job\<close> lock, by job, attempt, fence and worker.
\<close>

definition held_lease ::
  "'v job_db \<Rightarrow> uuid \<Rightarrow> uuid \<Rightarrow> int \<Rightarrow> string \<Rightarrow> (job_row \<times> attempt_row) option" where
  "held_lease db jid aid fence worker =
     find (\<lambda>(j, a). at_account_id a = job_account_id j \<and> at_project_id a = job_project_id j
              \<and> at_job_id a = job_id j \<and> job_current_attempt_id j = Some (at_id a)
              \<and> job_id j = jid \<and> job_state j = ''running'' \<and> job_current_attempt_id j = Some aid
              \<and> job_current_fence j = fence \<and> at_worker_id a = worker \<and> at_state a = ''running'')
       (List.product (db_jobs db) (db_attempts db))"

text \<open>The second query: the same rows without the state and worker conditions, and the clock.\<close>

definition lease_live :: "tx_env \<Rightarrow> 'v job_db \<Rightarrow> uuid \<Rightarrow> uuid \<Rightarrow> int \<Rightarrow> bool option" where
  "lease_live env db jid aid fence =
     map_option (\<lambda>(j, a). (case job_lease_expires_at j of
                             Some t \<Rightarrow> t > env_now env 0 | None \<Rightarrow> False)
                          \<and> at_lease_expires_at a > env_now env 1)
       (find (\<lambda>(j, a). at_job_id a = job_id j \<and> job_current_attempt_id j = Some (at_id a)
                \<and> job_id j = jid \<and> at_id a = aid \<and> job_current_fence j = fence)
         (List.product (db_jobs db) (db_attempts db)))"

definition renew_tx ::
  "'v job_ext \<Rightarrow> int \<Rightarrow> tx_env \<Rightarrow> string \<Rightarrow> lease_identity_request \<Rightarrow> 'v job_db
     \<Rightarrow> ('v, renew_response) tx_result" where
  "renew_tx ext lease_seconds env job_path request db =
     try_result (path_uuid (ext_parse_uuid ext) job_path) (\<lambda>jid.
       if \<not> valid_worker_id (lir_worker_id request) \<or> lir_fence request \<le> 0 then Abort fenced
       else case held_lease db jid (lir_attempt_id request) (lir_fence request) (lir_worker_id request) of
         None \<Rightarrow> Abort fenced
       | Some (held, _) \<Rightarrow>
           (case lease_live env db jid (lir_attempt_id request) (lir_fence request) of
              None \<Rightarrow> Abort database_unavailable
            | Some False \<Rightarrow> Abort fenced
            | Some True \<Rightarrow>
                (let expires = env_now env 2 + lease_seconds * second
                 in stmt (update_jobs
                            (\<lambda>j. job_id j = jid \<and> job_current_attempt_id j = Some (lir_attempt_id request)
                                 \<and> job_current_fence j = lir_fence request)
                            (\<lambda>j. j\<lparr>job_lease_expires_at := Some expires,
                                   job_updated_at := env_now env 3\<rparr>) db)
                 (\<lambda>db1. stmt (update_attempts
                            (\<lambda>a. at_job_id a = jid \<and> at_id a = lir_attempt_id request
                                 \<and> at_fence a = lir_fence request)
                            (\<lambda>a. a\<lparr>at_lease_expires_at := expires\<rparr>) db1)
                 (\<lambda>db2. stmt (worker_audit (env_fresh env 0) (job_account_id held) ''job.renew''
                            \<lparr>ctx_job_id = jid, ctx_worker_id = lir_worker_id request,
                             ctx_attempt_id = lir_attempt_id request, ctx_fence = lir_fence request\<rparr>
                            ''succeeded'' db2)
                 (\<lambda>db3. Commit db3
                    (case as_u64 (lir_fence request) of
                       Inl e \<Rightarrow> Inl e
                     | Inr fence64 \<Rightarrow>
                         Inr \<lparr>rr_job_id = jid, rr_attempt_id = lir_attempt_id request,
                              rr_fence = fence64, rr_lease_expires_at = expires\<rparr>)))))))"

definition renew_job ::
  "'v job_ext \<Rightarrow> int \<Rightarrow> tx_env \<Rightarrow> string \<Rightarrow> lease_identity_request \<Rightarrow> 'v job_db
     \<Rightarrow> 'v job_db \<times> (api_error + renew_response)" where
  "renew_job ext lease_seconds env job_path request db =
     run_tx db (renew_tx ext lease_seconds env job_path request db)"

section \<open>Completion\<close>

definition completion_conflict :: "string \<Rightarrow> api_error" where
  "completion_conflict message = conflict ''completion_conflict'' message"

text \<open>A repeated \<open>retriable\<close> report, answered while no newer lease exists.\<close>

definition replay_retry ::
  "'v job_ext \<Rightarrow> job_row \<Rightarrow> complete_request \<Rightarrow> string \<Rightarrow> 'v job_db
     \<Rightarrow> ('v, complete_response) tx_result" where
  "replay_retry ext j request hash db =
     (case find (\<lambda>a. at_account_id a = job_account_id j \<and> at_project_id a = job_project_id j
                 \<and> at_job_id a = job_id j \<and> at_id a = cr_attempt_id request
                 \<and> at_fence a = cr_fence request \<and> at_state a = ''retriable'') (db_attempts db) of
        None \<Rightarrow> Abort fenced
      | Some a \<Rightarrow>
          (case at_completion_hash a of
             None \<Rightarrow> Abort database_unavailable
           | Some stored \<Rightarrow>
               if at_worker_id a \<noteq> cr_worker_id request \<or> stored \<noteq> hash
               then Abort (completion_conflict
                       ''the retry completion was already committed with another outcome'')
               else try_result (load_job ext db (job_account_id j) (job_project_id j) (job_id j))
                      (\<lambda>job. Commit db (Inr \<lparr>cres_job = job, cres_effect = None\<rparr>))))"

text \<open>A repeated terminal report, answered from the stored effect.\<close>

definition replay_terminal ::
  "'v job_ext \<Rightarrow> job_row \<Rightarrow> complete_request \<Rightarrow> string \<Rightarrow> 'v job_db
     \<Rightarrow> ('v, complete_response) tx_result" where
  "replay_terminal ext j request hash db =
     (case find (\<lambda>(a, e). eff_account_id e = at_account_id a \<and> eff_project_id e = at_project_id a
                 \<and> eff_job_id e = at_job_id a \<and> eff_attempt_id e = at_id a \<and> eff_fence e = at_fence a
                 \<and> at_account_id a = job_account_id j \<and> at_project_id a = job_project_id j
                 \<and> at_job_id a = job_id j \<and> at_id a = cr_attempt_id request
                 \<and> at_fence a = cr_fence request)
             (List.product (db_attempts db) (db_effects db)) of
        None \<Rightarrow> Abort fenced
      | Some (a, e) \<Rightarrow>
          if at_worker_id a \<noteq> cr_worker_id request \<or> eff_completion_hash e \<noteq> hash
          then Abort (completion_conflict
                  ''the terminal completion was already committed with another outcome'')
          else (case ext_complete_from_value ext (eff_response_body e) of
                  None \<Rightarrow> Abort internal
                | Some response \<Rightarrow> Commit db (Inr response)))"

definition finish_attempt ::
  "tx_env \<Rightarrow> job_row \<Rightarrow> complete_request \<Rightarrow> string \<Rightarrow> string \<Rightarrow> string \<Rightarrow> 'v job_db \<Rightarrow> 'v job_db option" where
  "finish_attempt env j request state code hash =
     update_attempts
       (\<lambda>a. at_account_id a = job_account_id j \<and> at_project_id a = job_project_id j
            \<and> at_job_id a = job_id j \<and> at_id a = cr_attempt_id request
            \<and> at_fence a = cr_fence request \<and> at_state a = ''running'')
       (\<lambda>a. a\<lparr>at_state := state, at_finished_at := Some (env_now env 2),
              at_terminal_code := Some code, at_completion_hash := Some hash\<rparr>)"

definition finished_job :: "tx_env \<Rightarrow> string \<Rightarrow> job_row \<Rightarrow> job_row" where
  "finished_job env state j =
     j\<lparr>job_state := state, job_revision := job_revision j + 1,
       job_current_attempt_id := (if state \<noteq> ''retriable'' then job_current_attempt_id j else None),
       job_lease_expires_at := None, job_updated_at := env_now env 3\<rparr>"

definition store_effect ::
  "'v job_ext \<Rightarrow> job_row \<Rightarrow> complete_request \<Rightarrow> string \<Rightarrow> complete_response \<Rightarrow> 'v job_db
     \<Rightarrow> api_error + 'v job_db" where
  "store_effect ext j request hash response db =
     (case cres_effect response of
        None \<Rightarrow> Inr db
      | Some effect \<Rightarrow>
          (case ext_complete_to_value ext response of
             None \<Rightarrow> Inl internal
           | Some body \<Rightarrow>
               (case insert_effect
                       \<lparr>eff_id = jer_id effect, eff_account_id = job_account_id j,
                        eff_project_id = job_project_id j, eff_job_id = job_id j,
                        eff_attempt_id = cr_attempt_id request, eff_fence = cr_fence request,
                        eff_outcome_state = jer_outcome_state effect,
                        eff_outcome_code = jer_outcome_code effect, eff_response_body = body,
                        eff_completion_hash = hash\<rparr> db of
                  None \<Rightarrow> Inl database_unavailable
                | Some db' \<Rightarrow> Inr db')))"

text \<open>The outcome that is recorded: a retry request on the third attempt fails the job.\<close>

definition effective_outcome :: "job_row \<Rightarrow> complete_request \<Rightarrow> string \<times> string" where
  "effective_outcome j request =
     (if co_state (cr_outcome request) = ''retriable'' \<and> job_attempt_count j \<ge> 3
      then (''failed'', ''attempts_exhausted'')
      else (co_state (cr_outcome request), co_code (cr_outcome request)))"

definition complete_live ::
  "'v job_ext \<Rightarrow> tx_env \<Rightarrow> job_row \<Rightarrow> complete_request \<Rightarrow> string \<Rightarrow> 'v job_db
     \<Rightarrow> ('v, complete_response) tx_result" where
  "complete_live ext env j request hash db =
     (let (state, code) = effective_outcome j request;
          scope = job_in_scope (job_account_id j) (job_project_id j) (job_id j)
      in stmt (finish_attempt env j request state code hash db)
      (\<lambda>db1. stmt (update_jobs scope (finished_job env state) db1)
      (\<lambda>db2. try_result (load_job ext db2 (job_account_id j) (job_project_id j) (job_id j))
      (\<lambda>job.
        let response = \<lparr>cres_job = job,
                        cres_effect = (if state \<noteq> ''retriable''
                          then Some \<lparr>jer_id = env_fresh env 0, jer_outcome_state = state,
                                     jer_outcome_code = code\<rparr>
                          else None)\<rparr>
        in try_result (store_effect ext j request hash response db2)
      (\<lambda>db3. stmt (worker_audit (env_fresh env 1) (job_account_id j) ''job.complete''
                     \<lparr>ctx_job_id = job_id j, ctx_worker_id = cr_worker_id request,
                      ctx_attempt_id = cr_attempt_id request, ctx_fence = cr_fence request\<rparr>
                     state db3)
      (\<lambda>db4. Commit db4 (Inr response)))))))"

definition complete_tx ::
  "'v job_ext \<Rightarrow> tx_env \<Rightarrow> string \<Rightarrow> complete_request \<Rightarrow> 'v job_db
     \<Rightarrow> ('v, complete_response) tx_result" where
  "complete_tx ext env job_path request db =
     try_result (path_uuid (ext_parse_uuid ext) job_path) (\<lambda>jid.
       if \<not> valid_worker_id (cr_worker_id request) \<or> cr_fence request \<le> 0
          \<or> \<not> valid_outcome (cr_outcome request)
       then Abort (bad_request ''invalid_completion'' ''the completion outcome is not supported'')
       else try_result (request_hash (ext_complete_bytes ext) (ext_sha256 ext) request) (\<lambda>hash.
         case find (\<lambda>j. job_id j = jid) (db_jobs db) of
           None \<Rightarrow> Abort fenced
         | Some j \<Rightarrow>
             if job_state j = ''retriable'' \<and> job_current_fence j = cr_fence request
             then replay_retry ext j request hash db
             else if job_state j \<in> {''succeeded'', ''failed''}
                  \<and> job_current_attempt_id j = Some (cr_attempt_id request)
                  \<and> job_current_fence j = cr_fence request
             then replay_terminal ext j request hash db
             else (case held_lease db jid (cr_attempt_id request) (cr_fence request)
                          (cr_worker_id request) of
                     None \<Rightarrow> Abort fenced
                   | Some (held, _) \<Rightarrow>
                       if job_lease_expires_at held = None then Abort database_unavailable
                       else (case lease_live env db jid (cr_attempt_id request) (cr_fence request) of
                               None \<Rightarrow> Abort database_unavailable
                             | Some False \<Rightarrow> Abort fenced
                             | Some True \<Rightarrow> complete_live ext env j request hash db))))"

definition complete_job ::
  "'v job_ext \<Rightarrow> tx_env \<Rightarrow> string \<Rightarrow> complete_request \<Rightarrow> 'v job_db
     \<Rightarrow> 'v job_db \<times> (api_error + complete_response)" where
  "complete_job ext env job_path request db =
     run_tx db (complete_tx ext env job_path request db)"

section \<open>The store as a state machine\<close>

text \<open>
  A store without jobs, and one step per committed transaction of an endpoint or of the reaper.
  Every transaction of every caller is a step, so a run is an arbitrary interleaving of owners,
  workers and the reaper.
\<close>

definition no_jobs :: "'v job_db \<Rightarrow> bool" where
  "no_jobs db \<longleftrightarrow>
     db_jobs db = [] \<and> db_attempts db = [] \<and> db_secret_refs db = [] \<and> db_effects db = []"

inductive job_step :: "'v job_ext \<Rightarrow> 'v job_db \<Rightarrow> 'v job_db \<Rightarrow> bool" for ext where
  create: "job_step ext db (fst (create_job ext env auth project_path headers request db))"
| cancel: "job_step ext db (fst (cancel_job ext env auth project_path job_path headers db))"
| reap: "job_step ext db (fst (run_tx db (reap_tx ext env db)))"
| lease: "valid_worker_id worker \<Longrightarrow>
    job_step ext db (fst (run_tx db (lease_tx ext lease_seconds env worker db)))"
| renew: "job_step ext db (fst (renew_job ext lease_seconds env job_path renewal db))"
| complete: "job_step ext db (fst (complete_job ext env job_path completion db))"

inductive_cases job_stepE: "job_step ext db db'"

end
