(* ===== verification/Job_Invariant.thy ===== *)
theory Job_Invariant
  imports Control_Jobs
begin

text \<open>
  The invariant of the job store.  \<open>lifecycle\<close> relates a job row to its attempts and effects:
  attempts are numbered and fenced 1, 2, ... without gaps, a running job holds exactly one live
  lease, its last attempt, and a job has an effect exactly when it has succeeded or failed.  For
  every transaction there is a predicate that says what a commit does to the one job it touches
  (\<open>leases\<close>, \<open>renews\<close>, \<open>reaps\<close>, \<open>cancels\<close>, \<open>completes\<close>), derived from the statements once,
  and a lemma that the lifecycle survives it.
\<close>

section \<open>The life of one job\<close>

definition attempts_of :: "'v job_db \<Rightarrow> uuid \<Rightarrow> attempt_row list" where
  "attempts_of db jid = filter (\<lambda>a. at_job_id a = jid) (db_attempts db)"

definition effects_of :: "'v job_db \<Rightarrow> uuid \<Rightarrow> 'v effect_row list" where
  "effects_of db jid = filter (\<lambda>e. eff_job_id e = jid) (db_effects db)"

definition attempt_log :: "job_row \<Rightarrow> attempt_row list \<Rightarrow> bool" where
  "attempt_log j as \<longleftrightarrow>
     (\<forall>a \<in> set as. at_account_id a = job_account_id j \<and> at_project_id a = job_project_id j)
     \<and> map at_number as = [1..job_attempt_count j] \<and> map at_fence as = [1..job_attempt_count j]"

definition idle :: "attempt_row list \<Rightarrow> bool" where
  "idle as \<longleftrightarrow> (\<forall>a \<in> set as. at_state a \<noteq> ''running'')"

definition leased :: "job_row \<Rightarrow> attempt_row list \<Rightarrow> bool" where
  "leased j as \<longleftrightarrow>
     as \<noteq> [] \<and> idle (butlast as) \<and> at_state (last as) = ''running''
     \<and> job_current_attempt_id j = Some (at_id (last as))
     \<and> job_lease_expires_at j = Some (at_lease_expires_at (last as))"

definition settled :: "job_row \<Rightarrow> attempt_row list \<Rightarrow> 'v effect_row list \<Rightarrow> bool" where
  "settled j as es \<longleftrightarrow>
     as \<noteq> [] \<and> (job_current_attempt_id j = None \<or> job_current_attempt_id j = Some (at_id (last as)))
     \<and> (\<exists>e. es = [e] \<and> eff_attempt_id e = at_id (last as) \<and> eff_fence e = job_current_fence j
           \<and> eff_outcome_state e = job_state j \<and> eff_account_id e = job_account_id j
           \<and> eff_project_id e = job_project_id j)"

definition phase_ok :: "job_row \<Rightarrow> attempt_row list \<Rightarrow> 'v effect_row list \<Rightarrow> bool" where
  "phase_ok j as es \<longleftrightarrow>
     (if job_state j = ''running'' then leased j as \<and> es = []
      else idle as
        \<and> (if job_state j = ''succeeded'' \<or> job_state j = ''failed'' then settled j as es
           else es = [] \<and> job_current_attempt_id j = None
             \<and> (job_state j = ''queued'' \<longrightarrow> as = [])
             \<and> (job_state j = ''retriable'' \<longrightarrow> as \<noteq> [] \<and> job_attempt_count j < 3)))"

definition lifecycle :: "job_row \<Rightarrow> attempt_row list \<Rightarrow> 'v effect_row list \<Rightarrow> bool" where
  "lifecycle j as es \<longleftrightarrow>
     job_check j \<and> attempt_log j as \<and> phase_ok j as es
     \<and> job_current_fence j = job_attempt_count j + (if job_state j = ''canceled'' then 1 else 0)
     \<and> job_revision j \<le> 2 * job_attempt_count j + (if job_state j = ''running'' then 0 else 1)
                       + (if job_state j = ''canceled'' then 1 else 0)"

definition jobs_inv :: "'v job_db \<Rightarrow> bool" where
  "jobs_inv db \<longleftrightarrow>
     distinct (map job_id (db_jobs db)) \<and> distinct (map at_id (db_attempts db))
     \<and> at_job_id ` set (db_attempts db) \<subseteq> job_id ` set (db_jobs db)
     \<and> eff_job_id ` set (db_effects db) \<subseteq> job_id ` set (db_jobs db)
     \<and> (\<forall>j \<in> set (db_jobs db). lifecycle j (attempts_of db (job_id j)) (effects_of db (job_id j)))"

lemmas phase_defs = phase_ok_def leased_def settled_def idle_def

lemma attempt_log_length: "attempt_log j as \<Longrightarrow> int (length as) = max 0 (job_attempt_count j)"
proof -
  assume "attempt_log j as"
  then have "length (map at_fence as) = length [1..job_attempt_count j]"
    by (simp add: attempt_log_def)
  then show ?thesis by simp
qed

lemma lifecycle_length:
  "lifecycle j as es \<Longrightarrow> job_attempt_count j = int (length as)"
  using attempt_log_length [of j as] by (auto simp: lifecycle_def job_check_def)

lemma attempt_log_snoc:
  assumes "attempt_log j as" and "0 \<le> job_attempt_count j"
    and "job_attempt_count j' = job_attempt_count j + 1"
    and "job_account_id j' = job_account_id j" and "job_project_id j' = job_project_id j"
    and "at_account_id a = job_account_id j" and "at_project_id a = job_project_id j"
    and "at_number a = job_attempt_count j + 1" and "at_fence a = job_attempt_count j + 1"
  shows "attempt_log j' (as @ [a])"
  using assms upto_rec2 [of 1 "job_attempt_count j + 1"] by (auto simp: attempt_log_def)

lemma attempt_log_map:
  assumes "attempt_log j as" and "job_attempt_count j' = job_attempt_count j"
    and "job_account_id j' = job_account_id j" and "job_project_id j' = job_project_id j"
    and "\<And>a. at_account_id (f a) = at_account_id a" and "\<And>a. at_project_id (f a) = at_project_id a"
    and "\<And>a. at_number (f a) = at_number a" and "\<And>a. at_fence (f a) = at_fence a"
  shows "attempt_log j' (map f as)"
  using assms by (auto simp: attempt_log_def comp_def)

section \<open>What the transitions do to one job\<close>

lemma lifecycle_lease:
  assumes "lifecycle j as es" and "job_state j = ''queued'' \<or> job_state j = ''retriable''"
    and "job_check (leased_job env aid (job_attempt_count j + 1) (job_current_fence j + 1) t j)"
  shows "lifecycle (leased_job env aid (job_attempt_count j + 1) (job_current_fence j + 1) t j)
    (as @ [new_attempt env j aid (job_attempt_count j + 1) (job_current_fence j + 1) w t]) es"
proof -
  have "attempt_log j as" "0 \<le> job_attempt_count j" and fence: "job_current_fence j = job_attempt_count j"
    using assms(1,2) by (auto simp: lifecycle_def job_check_def)
  then have "attempt_log (leased_job env aid (job_attempt_count j + 1) (job_current_fence j + 1) t j)
    (as @ [new_attempt env j aid (job_attempt_count j + 1) (job_current_fence j + 1) w t])"
    by (intro attempt_log_snoc [of j]) (simp_all add: leased_job_def new_attempt_def)
  moreover have "idle as" "es = []"
    using assms(1,2) by (auto simp: lifecycle_def phase_ok_def)
  then have "phase_ok (leased_job env aid (job_attempt_count j + 1) (job_current_fence j + 1) t j)
    (as @ [new_attempt env j aid (job_attempt_count j + 1) (job_current_fence j + 1) w t]) es"
    by (simp add: phase_ok_def leased_def leased_job_def new_attempt_def)
  moreover have "job_revision j \<le> 2 * job_attempt_count j + 1"
    using assms(1,2) by (auto simp: lifecycle_def)
  ultimately show ?thesis
    using assms(3) fence unfolding lifecycle_def by (simp add: leased_job_def)
qed

text \<open>An attempt update of the running job that only changes its current attempt.\<close>

lemma current_attempt_only:
  assumes "leased j as" and "\<And>a. p a \<Longrightarrow> at_state a = ''running''" and "p (last as)"
  shows "map (\<lambda>a. if p a then f a else a) as = butlast as @ [f (last as)]"
proof -
  obtain bs c where as: "as = bs @ [c]"
    using assms(1) by (cases as rule: rev_cases) (auto simp: leased_def)
  have "map (\<lambda>a. if p a then f a else a) bs = bs"
    using assms(1,2) as by (intro map_idI) (auto simp: leased_def idle_def)
  with as assms(3) show ?thesis by simp
qed

lemma attempt_log_set_last:
  assumes "attempt_log j as" and "as \<noteq> []" and "job_attempt_count j' = job_attempt_count j"
    and "job_account_id j' = job_account_id j" and "job_project_id j' = job_project_id j"
    and "at_account_id b = at_account_id (last as)" and "at_project_id b = at_project_id (last as)"
    and "at_number b = at_number (last as)" and "at_fence b = at_fence (last as)"
  shows "attempt_log j' (butlast as @ [b])"
proof -
  obtain bs c where as: "as = bs @ [c]" using assms(2) by (cases as rule: rev_cases) auto
  with assms show ?thesis by (auto simp: attempt_log_def)
qed

lemma lifecycle_release:
  assumes "lifecycle j as es" and "job_state j = ''running''"
    and "job_check j'" and "at_id b = at_id (last as)" and "at_state b \<noteq> ''running''"
    and "at_account_id b = at_account_id (last as)" and "at_project_id b = at_project_id (last as)"
    and "at_number b = at_number (last as)" and "at_fence b = at_fence (last as)"
    and "job_account_id j' = job_account_id j" and "job_project_id j' = job_project_id j"
    and "job_attempt_count j' = job_attempt_count j" and "job_revision j' = job_revision j + 1"
    and "job_current_fence j' = job_current_fence j + (if job_state j' = ''canceled'' then 1 else 0)"
    and "job_state j' \<noteq> ''running''" and "job_state j' \<noteq> ''queued''"
    and "job_state j' = ''retriable'' \<Longrightarrow> job_attempt_count j < 3"
    and "job_state j' = ''succeeded'' \<or> job_state j' = ''failed'' \<Longrightarrow> settled j' (butlast as @ [b]) es'"
    and "job_state j' \<noteq> ''succeeded'' \<Longrightarrow> job_state j' \<noteq> ''failed'' \<Longrightarrow>
         es' = [] \<and> job_current_attempt_id j' = None"
  shows "lifecycle j' (butlast as @ [b]) es'"
proof -
  have log: "attempt_log j' (butlast as @ [b])"
    using assms by (intro attempt_log_set_last [of j]) (auto simp: lifecycle_def phase_defs)
  have "idle (butlast as @ [b])"
    using assms(1,2,5) by (auto simp: lifecycle_def phase_defs)
  then have "phase_ok j' (butlast as @ [b]) es'"
    using assms(15-19) assms(12) unfolding phase_ok_def by auto
  with log assms(1,2,3,12,13,14) assms(15) show ?thesis by (auto simp: lifecycle_def)
qed

section \<open>Transactions that touch one job\<close>

text \<open>
  Every committed change of an existing job replaces its row, its attempts and its effects and
  leaves every other job alone.
\<close>

definition replaces ::
  "'v job_db \<Rightarrow> job_row \<Rightarrow> job_row \<Rightarrow> attempt_row list \<Rightarrow> 'v effect_row list \<Rightarrow> 'v job_db \<Rightarrow> bool" where
  "replaces db j j' as es db' \<longleftrightarrow>
     j \<in> set (db_jobs db) \<and> job_id j' = job_id j
     \<and> db_jobs db' = map (\<lambda>i. if i = j then j' else i) (db_jobs db)
     \<and> attempts_of db' = (attempts_of db)(job_id j := as)
     \<and> effects_of db' = (effects_of db)(job_id j := es)"

lemma attempts_of_iff: "a \<in> set (attempts_of db k) \<longleftrightarrow> a \<in> set (db_attempts db) \<and> at_job_id a = k"
  by (auto simp: attempts_of_def)

lemma effects_of_iff: "e \<in> set (effects_of db k) \<longleftrightarrow> e \<in> set (db_effects db) \<and> eff_job_id e = k"
  by (auto simp: effects_of_def)

lemma jobs_inv_lifecycle:
  "jobs_inv db \<Longrightarrow> j \<in> set (db_jobs db) \<Longrightarrow>
     lifecycle j (attempts_of db (job_id j)) (effects_of db (job_id j))"
  by (simp add: jobs_inv_def)

lemma job_unique:
  "jobs_inv db \<Longrightarrow> i \<in> set (db_jobs db) \<Longrightarrow> j \<in> set (db_jobs db) \<Longrightarrow> job_id i = job_id j \<Longrightarrow> i = j"
  by (simp add: jobs_inv_def distinct_map inj_on_def)

lemma replaces_jobs_set:
  "replaces db j j' as es db' \<Longrightarrow> jobs_inv db \<Longrightarrow> set (db_jobs db') = insert j' (set (db_jobs db) - {j})"
  by (auto simp: replaces_def)

lemma replaces_ids: "replaces db j j' as es db' \<Longrightarrow> map job_id (db_jobs db') = map job_id (db_jobs db)"
  by (simp add: replaces_def)

lemma image_subset_by_filter:
  assumes "\<And>k. filter (\<lambda>x. f x = k) xs \<noteq> [] \<Longrightarrow> k \<in> K"
  shows "f ` set xs \<subseteq> K"
proof
  fix k assume "k \<in> f ` set xs"
  then have "filter (\<lambda>x. f x = k) xs \<noteq> []" by (auto simp: filter_empty_conv)
  then show "k \<in> K" by (rule assms)
qed

lemma jobs_inv_replaces:
  assumes inv: "jobs_inv db" and r: "replaces db j j' as es db'"
    and ids: "distinct (map at_id (db_attempts db'))" and life: "lifecycle j' as es"
  shows "jobs_inv db'"
proof -
  have jid: "job_id j' = job_id j" and j: "j \<in> set (db_jobs db)" using r by (simp_all add: replaces_def)
  have at: "attempts_of db' = (attempts_of db)(job_id j := as)"
    and ef: "effects_of db' = (effects_of db)(job_id j := es)"
    using r by (simp_all add: replaces_def)
  have sets: "job_id ` set (db_jobs db') = job_id ` set (db_jobs db)"
    using replaces_ids [OF r] by (metis list.set_map)
  have "at_job_id ` set (db_attempts db') \<subseteq> job_id ` set (db_jobs db)"
  proof (rule image_subset_by_filter)
    fix k assume "filter (\<lambda>a. at_job_id a = k) (db_attempts db') \<noteq> []"
    then have "k = job_id j \<or> attempts_of db k \<noteq> []"
      using at by (auto simp: attempts_of_def [symmetric])
    with inv j show "k \<in> job_id ` set (db_jobs db)"
      by (auto simp: jobs_inv_def attempts_of_def filter_empty_conv)
  qed
  moreover have "eff_job_id ` set (db_effects db') \<subseteq> job_id ` set (db_jobs db)"
  proof (rule image_subset_by_filter)
    fix k assume "filter (\<lambda>e. eff_job_id e = k) (db_effects db') \<noteq> []"
    then have "k = job_id j \<or> effects_of db k \<noteq> []"
      using ef by (auto simp: effects_of_def [symmetric])
    with inv j show "k \<in> job_id ` set (db_jobs db)"
      by (auto simp: jobs_inv_def effects_of_def filter_empty_conv)
  qed
  moreover have "lifecycle i (attempts_of db' (job_id i)) (effects_of db' (job_id i))"
    if "i \<in> set (db_jobs db')" for i
  proof (cases "i = j'")
    case True
    with life jid at ef show ?thesis by simp
  next
    case False
    with that have i: "i \<in> set (db_jobs db)" "i \<noteq> j"
      using replaces_jobs_set [OF r inv] by auto
    then have "job_id i \<noteq> job_id j" using job_unique [OF inv] j by blast
    with at ef jobs_inv_lifecycle [OF inv i(1)] show ?thesis by simp
  qed
  ultimately show ?thesis
    using inv ids replaces_ids [OF r] sets by (simp add: jobs_inv_def)
qed

text \<open>The statements, seen from one job.\<close>

lemma job_in_scope_iff:
  assumes "jobs_inv db" and "j \<in> set (db_jobs db)" and "i \<in> set (db_jobs db)"
  shows "job_in_scope (job_account_id j) (job_project_id j) (job_id j) i \<longleftrightarrow> i = j"
  using job_unique [OF assms(1) assms(3) assms(2)] by (auto simp: job_in_scope_def)

lemma update_jobs_Some:
  "update_jobs p f db = Some db' \<longleftrightarrow>
     (\<forall>j \<in> set (db_jobs db). p j \<longrightarrow> job_check (f j))
     \<and> db' = db\<lparr>db_jobs := map (\<lambda>j. if p j then f j else j) (db_jobs db)\<rparr>"
  by (auto simp: update_jobs_def)

lemma update_jobs_scope:
  assumes "jobs_inv db" and "j \<in> set (db_jobs db)" and "db_jobs db1 = db_jobs db"
    and "update_jobs (job_in_scope (job_account_id j) (job_project_id j) (job_id j)) f db1 = Some db2"
  shows "job_check (f j) \<and> db2 = db1\<lparr>db_jobs := map (\<lambda>i. if i = j then f j else i) (db_jobs db)\<rparr>"
proof -
  have "map (\<lambda>i. if job_in_scope (job_account_id j) (job_project_id j) (job_id j) i then f i else i) (db_jobs db)
        = map (\<lambda>i. if i = j then f j else i) (db_jobs db)"
    using job_in_scope_iff [OF assms(1,2)] by (intro map_cong) auto
  with assms(3,4) have "db2 = db1\<lparr>db_jobs := map (\<lambda>i. if i = j then f j else i) (db_jobs db)\<rparr>"
    unfolding update_jobs_Some by metis
  moreover have "job_check (f j)"
    using assms(2-4) by (simp add: update_jobs_Some job_in_scope_def)
  ultimately show ?thesis by blast
qed

lemma update_attempts_of:
  assumes "update_attempts p f db = Some db'" and "\<And>a. p a \<Longrightarrow> at_job_id a = jid"
    and "\<And>a. at_job_id (f a) = at_job_id a"
  shows "attempts_of db' = (attempts_of db)(jid := map (\<lambda>a. if p a then f a else a) (attempts_of db jid))"
proof
  fix k
  let ?g = "\<lambda>a. if p a then f a else a"
  have g: "at_job_id (?g a) = at_job_id a" for a using assms(3) by simp
  have "attempts_of db' k = filter (\<lambda>a. at_job_id a = k) (map ?g (db_attempts db))"
    using assms(1) by (auto simp: attempts_of_def update_attempts_def split: if_splits)
  also have "\<dots> = map ?g (attempts_of db k)"
    using g by (simp add: filter_map comp_def attempts_of_def)
  finally have "attempts_of db' k = map ?g (attempts_of db k)" .
  moreover have "map ?g (attempts_of db k) = attempts_of db k" if "k \<noteq> jid"
    using that assms(2) by (intro map_idI) (auto simp: attempts_of_def)
  ultimately show "attempts_of db' k =
      ((attempts_of db)(jid := map ?g (attempts_of db jid))) k" by auto
qed

lemma update_attempts_rest:
  assumes "update_attempts p f db = Some db'" and "\<And>a. at_id (f a) = at_id a"
  shows "map at_id (db_attempts db') = map at_id (db_attempts db) \<and> db_jobs db' = db_jobs db
    \<and> db_effects db' = db_effects db \<and> db_idempotency db' = db_idempotency db
    \<and> db_secret_refs db' = db_secret_refs db"
  using assms by (auto simp: update_attempts_def split: if_splits)

lemma insert_audit_rest:
  "insert_audit e db = Some db' \<Longrightarrow>
     db_jobs db' = db_jobs db \<and> db_attempts db' = db_attempts db \<and> db_effects db' = db_effects db
     \<and> db_idempotency db' = db_idempotency db \<and> db_secret_refs db' = db_secret_refs db"
  by (auto simp: insert_audit_def split: if_splits)

lemma attempts_of_cong: "db_attempts db' = db_attempts db \<Longrightarrow> attempts_of db' = attempts_of db"
  by (simp add: attempts_of_def fun_eq_iff)

lemma effects_of_cong: "db_effects db' = db_effects db \<Longrightarrow> effects_of db' = effects_of db"
  by (simp add: effects_of_def fun_eq_iff)

lemma insert_attempt_of:
  "insert_attempt a db = Some db' \<Longrightarrow>
     attempts_of db' = (attempts_of db)(at_job_id a := attempts_of db (at_job_id a) @ [a])
     \<and> db_jobs db' = db_jobs db \<and> db_effects db' = db_effects db \<and> attempt_check a
     \<and> at_id a \<notin> at_id ` set (db_attempts db) \<and> db_attempts db' = db_attempts db @ [a]
     \<and> db_idempotency db' = db_idempotency db \<and> db_secret_refs db' = db_secret_refs db"
  by (auto simp: insert_attempt_def attempts_of_def fun_eq_iff split: if_splits)

lemma insert_effect_of:
  "insert_effect e db = Some db' \<Longrightarrow>
     effects_of db' = (effects_of db)(eff_job_id e := effects_of db (eff_job_id e) @ [e])
     \<and> effects_of db (eff_job_id e) = []
     \<and> db_jobs db' = db_jobs db \<and> db_attempts db' = db_attempts db
     \<and> db_idempotency db' = db_idempotency db \<and> db_secret_refs db' = db_secret_refs db"
  by (auto simp: insert_effect_def effects_of_def fun_eq_iff filter_empty_conv image_iff split: if_splits)

section \<open>What each transaction commits\<close>

definition same_jobs :: "'v job_db \<Rightarrow> 'v job_db \<Rightarrow> bool" where
  "same_jobs db db' \<longleftrightarrow>
     db_jobs db' = db_jobs db \<and> db_attempts db' = db_attempts db \<and> db_effects db' = db_effects db"

lemma same_jobs_inv: "same_jobs db db' \<Longrightarrow> jobs_inv db \<Longrightarrow> jobs_inv db'"
  by (simp add: same_jobs_def jobs_inv_def attempts_of_def effects_of_def)

lemma same_jobs_refl [simp]: "same_jobs db db"
  by (simp add: same_jobs_def)

lemma audit_same_jobs: "insert_audit e db = Some db' \<Longrightarrow> same_jobs db db'"
  by (simp add: insert_audit_rest same_jobs_def)

lemma first_by_Some:
  assumes "first_by k xs = Some x"
  shows "x \<in> set xs \<and> (\<forall>y \<in> set xs. k x \<le> k y)"
proof -
  obtain ys where ys: "sort_key k xs = x # ys"
    using assms by (auto simp: first_by_def split: list.splits)
  then have "set xs = set (x # ys)" using set_sort [of k xs] by metis
  moreover have "sorted (map k (x # ys))" using ys sorted_sort_key [of k xs] by metis
  ultimately show ?thesis by auto
qed

lemma first_by_None: "first_by k xs = None \<longleftrightarrow> xs = []"
  using set_sort [of k xs] by (auto simp: first_by_def split: list.splits) (metis length_0_conv length_sort)

lemma find_job_Some:
  "find (job_in_scope acc proj jid) js = Some j \<Longrightarrow>
     j \<in> set js \<and> job_account_id j = acc \<and> job_project_id j = proj \<and> job_id j = jid"
  by (auto simp: find_Some_iff job_in_scope_def)

subsection \<open>Creation\<close>

lemma insert_refs_same: "insert_refs acc proj svc jid refs db = Some db' \<Longrightarrow> same_jobs db db'"
proof (induction refs arbitrary: db)
  case (Cons r refs)
  then show ?case
    by (cases r) (fastforce simp: insert_secret_ref_def same_jobs_def split: option.splits if_splits)
qed simp

definition adds_job :: "'v job_db \<Rightarrow> job_row \<Rightarrow> 'v job_db \<Rightarrow> bool" where
  "adds_job db j db' \<longleftrightarrow>
     db_jobs db' = db_jobs db @ [j] \<and> db_attempts db' = db_attempts db
     \<and> db_effects db' = db_effects db \<and> job_id j \<notin> job_id ` set (db_jobs db) \<and> job_check j"

lemma adds_job_inv:
  assumes inv: "jobs_inv db" and a: "adds_job db (new_job env jid acc proj svc c) db'"
  shows "jobs_inv db'"
proof -
  let ?j = "new_job env jid acc proj svc c"
  have fresh: "jid \<notin> job_id ` set (db_jobs db)" using a by (simp add: adds_job_def new_job_def)
  then have none: "attempts_of db jid = []" "effects_of db jid = []"
    using inv by (auto simp: jobs_inv_def attempts_of_def effects_of_def filter_empty_conv)
  then have "lifecycle ?j (attempts_of db jid) (effects_of db jid)"
    using a by (simp add: lifecycle_def adds_job_def attempt_log_def phase_defs new_job_def)
  moreover have "attempts_of db' = attempts_of db" "effects_of db' = effects_of db"
    using a by (auto simp: adds_job_def intro!: attempts_of_cong effects_of_cong)
  moreover have "job_id ?j = jid" by (simp add: new_job_def)
  ultimately have "\<forall>i \<in> set (db_jobs db'). lifecycle i (attempts_of db' (job_id i)) (effects_of db' (job_id i))"
    using inv a by (auto simp: jobs_inv_def adds_job_def)
  moreover have "map job_id (db_jobs db') = map job_id (db_jobs db) @ [jid]"
    and "db_attempts db' = db_attempts db" "db_effects db' = db_effects db"
    using a by (simp_all add: adds_job_def new_job_def)
  moreover from this have "job_id ` set (db_jobs db') = insert jid (job_id ` set (db_jobs db))"
    by (metis list.set_map set_append list.simps(15) empty_set Un_insert_right Un_empty_right)
  ultimately show ?thesis
    using inv fresh by (auto simp: jobs_inv_def)
qed

lemma with_records_same: "with_records db r = Inr db' \<Longrightarrow> same_jobs db db'"
  by (auto simp: with_records_def same_jobs_def split: sum.splits)

lemma create_new_job_commit:
  assumes "create_new_job ext env auth acc proj svc op key hash req db = Commit db' r"
  shows "same_jobs db db' \<or> adds_job db (new_job env (env_fresh env 0) acc proj svc (cjr_source_commit req)) db'"
  using assms
  by (auto simp: create_new_job_def tx_simps Let_def audit_def insert_job_def adds_job_def
        split: if_splits dest!: audit_same_jobs insert_refs_same with_records_same)
     (auto simp: same_jobs_def)

lemma create_job_tx_commit:
  assumes "create_job_tx ext env auth path headers req db = Commit db' r"
  shows "same_jobs db db' \<or> (\<exists>acc proj svc.
     adds_job db (new_job env (env_fresh env 0) acc proj svc (cjr_source_commit req)) db')"
  using assms
  by (auto simp: create_job_tx_def tx_simps Let_def audit_def
        dest!: audit_same_jobs dest: create_new_job_commit)

subsection \<open>Leasing\<close>

lemma claimable_job_Some:
  assumes "claimable_job env db = Some j"
  shows "j \<in> set (db_jobs db) \<and> (job_state j = ''queued'' \<or> job_state j = ''retriable'')
    \<and> job_attempt_count j < job_max_attempts j \<and> job_id j \<notin> env_locked env"
  using first_by_Some [OF assms [unfolded claimable_job_def]] by auto

definition leases ::
  "tx_env \<Rightarrow> int \<Rightarrow> string \<Rightarrow> 'v job_db \<Rightarrow> job_row \<Rightarrow> 'v job_db \<Rightarrow> bool" where
  "leases env secs w db j db' \<longleftrightarrow>
     claimable_job env db = Some j
     \<and> replaces db j
         (leased_job env (env_fresh env 0) (job_attempt_count j + 1) (job_current_fence j + 1)
            (env_now env 0 + secs * second) j)
         (attempts_of db (job_id j) @
            [new_attempt env j (env_fresh env 0) (job_attempt_count j + 1) (job_current_fence j + 1) w
               (env_now env 0 + secs * second)])
         (effects_of db (job_id j)) db'
     \<and> job_check (leased_job env (env_fresh env 0) (job_attempt_count j + 1) (job_current_fence j + 1)
            (env_now env 0 + secs * second) j)
     \<and> distinct (map at_id (db_attempts db'))"

lemma lease_tx_commit:
  assumes inv: "jobs_inv db" and commit: "lease_tx ext secs env w db = Commit db' r"
  shows "(claimable_job env db = None \<and> same_jobs db db' \<and> r = Inr None)
    \<or> (\<exists>j resp. leases env secs w db j db' \<and> r = Inr (Some resp)
         \<and> al_id (lres_attempt resp) = env_fresh env 0 \<and> al_worker_id (lres_attempt resp) = w
         \<and> int (al_fence (lres_attempt resp)) = job_current_fence j + 1)"
proof (cases "claimable_job env db")
  case None
  with commit show ?thesis by (simp add: lease_tx_def)
next
  case (Some j)
  let ?aid = "env_fresh env 0" and ?n = "job_attempt_count j + 1" and ?f = "job_current_fence j + 1"
    and ?t = "env_now env 0 + secs * second"
  let ?j' = "leased_job env ?aid ?n ?f ?t j" and ?a = "new_attempt env j ?aid ?n ?f w ?t"
  have j: "j \<in> set (db_jobs db)" using claimable_job_Some [OF Some] by blast
  obtain db1 db2 job number fence64 where
    s1: "update_jobs (job_in_scope (job_account_id j) (job_project_id j) (job_id j))
           (leased_job env ?aid ?n ?f ?t) db = Some db1" and
    s2: "insert_attempt ?a db1 = Some db2" and f64: "as_u64 ?f = Inr fence64" and
    s3: "worker_audit (env_fresh env 1) (job_account_id j) ''job.lease''
           \<lparr>ctx_job_id = job_id j, ctx_worker_id = w, ctx_attempt_id = ?aid, ctx_fence = ?f\<rparr>
           ''succeeded'' db2 = Some db'" and
    r: "r = Inr (Some \<lparr>lres_job = job, lres_attempt = \<lparr>al_id = ?aid, al_attempt_number = number,
             al_fence = fence64, al_worker_id = w, al_lease_expires_at = ?t\<rparr>\<rparr>)"
    using commit Some by (auto simp: lease_tx_def tx_simps Let_def)
  have u: "job_check ?j'" "db1 = db\<lparr>db_jobs := map (\<lambda>i. if i = j then ?j' else i) (db_jobs db)\<rparr>"
    using update_jobs_scope [OF inv j refl s1] by blast+
  have a: "at_job_id ?a = job_id j" "at_id ?a = ?aid" by (simp_all add: new_attempt_def)
  have db': "db_jobs db' = db_jobs db2 \<and> db_attempts db' = db_attempts db2 \<and> db_effects db' = db_effects db2"
    using s3 by (auto simp: worker_audit_def dest: insert_audit_rest)
  note at = insert_attempt_of [OF s2, unfolded a]
  have "attempts_of db1 = attempts_of db" "effects_of db1 = effects_of db"
    using u(2) by (simp_all add: attempts_of_def effects_of_def fun_eq_iff)
  moreover have "attempts_of db' = attempts_of db2" "effects_of db' = effects_of db1"
    using db' at by (simp_all add: attempts_of_def effects_of_def fun_eq_iff)
  moreover have "db_jobs db' = map (\<lambda>i. if i = j then ?j' else i) (db_jobs db)"
    using db' at u(2) by simp
  ultimately have "replaces db j ?j' (attempts_of db (job_id j) @ [?a]) (effects_of db (job_id j)) db'"
    using at j by (simp add: replaces_def leased_job_def)
  moreover have "distinct (map at_id (db_attempts db'))"
    using inv db' at u(2) a by (simp add: jobs_inv_def)
  moreover have "int fence64 = ?f"
    using f64 by (auto simp: as_u64_def split: if_splits)
  ultimately show ?thesis
    using Some u(1) r by (auto simp: leases_def)
qed

lemma leases_inv:
  assumes inv: "jobs_inv db" and l: "leases env secs w db j db'"
  shows "jobs_inv db'"
proof -
  have j: "j \<in> set (db_jobs db)" "job_state j = ''queued'' \<or> job_state j = ''retriable''"
    using claimable_job_Some [of env db j] l by (auto simp: leases_def)
  show ?thesis
    using l lifecycle_lease [OF jobs_inv_lifecycle [OF inv j(1)] j(2)]
    by (auto simp: leases_def intro: jobs_inv_replaces [OF inv])
qed

subsection \<open>Reaping\<close>

lemma running_lease:
  assumes "lifecycle j as es" and "job_state j = ''running''"
  shows "leased j as" and "es = []" and "last as \<in> set as"
    and "at_fence (last as) = job_current_fence j" and "job_current_fence j = job_attempt_count j"
    and "at_account_id (last as) = job_account_id j" and "at_project_id (last as) = job_project_id j"
    and "job_current_fence j \<ge> 1"
proof -
  show l: "leased j as" and "es = []" using assms by (auto simp: lifecycle_def phase_ok_def)
  then have ne: "as \<noteq> []" by (simp add: leased_def)
  then show m: "last as \<in> set as" by simp
  have log: "attempt_log j as" using assms(1) by (simp add: lifecycle_def)
  show fence: "job_current_fence j = job_attempt_count j" using assms by (simp add: lifecycle_def)
  have n: "job_attempt_count j \<ge> 1"
    using lifecycle_length [OF assms(1)] ne by (cases as) auto
  then show "job_current_fence j \<ge> 1" using fence by simp
  have "at_fence (last as) = last [1..job_attempt_count j]"
    using log ne by (metis attempt_log_def last_map)
  also have "\<dots> = job_attempt_count j"
    using n upto_rec2 [of 1 "job_attempt_count j"] by simp
  finally show "at_fence (last as) = job_current_fence j" using fence by simp
  show "at_account_id (last as) = job_account_id j" "at_project_id (last as) = job_project_id j"
    using log m by (auto simp: attempt_log_def)
qed

lemma update_current_attempt:
  assumes "leased j (attempts_of db jid)" and "update_attempts p f db = Some db'"
    and "\<And>a. p a \<Longrightarrow> at_job_id a = jid" and "\<And>a. p a \<Longrightarrow> at_state a = ''running''"
    and "p (last (attempts_of db jid))" and "\<And>a. at_job_id (f a) = at_job_id a" and "\<And>a. at_id (f a) = at_id a"
  shows "attempts_of db' =
      (attempts_of db)(jid := butlast (attempts_of db jid) @ [f (last (attempts_of db jid))])"
    and "map at_id (db_attempts db') = map at_id (db_attempts db)"
    and "db_jobs db' = db_jobs db" and "db_effects db' = db_effects db"
    and "db_idempotency db' = db_idempotency db"
  using update_attempts_of [OF assms(2,3,6)] update_attempts_rest [OF assms(2,7)]
    current_attempt_only [OF assms(1), of p f] assms(4,5)
  by auto

definition expired_attempt :: "tx_env \<Rightarrow> attempt_row \<Rightarrow> attempt_row" where
  "expired_attempt env a = a\<lparr>at_state := ''expired'', at_finished_at := Some (env_now env 1),
     at_terminal_code := Some ''lease_expired''\<rparr>"

definition reap_outcome :: "job_row \<Rightarrow> string" where
  "reap_outcome j = (if job_attempt_count j \<ge> 3 then ''failed'' else ''retriable'')"

definition reaps :: "'v job_ext \<Rightarrow> tx_env \<Rightarrow> 'v job_db \<Rightarrow> job_row \<Rightarrow> 'v job_db \<Rightarrow> bool" where
  "reaps ext env db j db' \<longleftrightarrow>
     expired_job env db = Some j
     \<and> replaces db j (released_job env (reap_outcome j) j)
         (butlast (attempts_of db (job_id j)) @ [expired_attempt env (last (attempts_of db (job_id j)))])
         (if job_attempt_count j \<ge> 3
          then [exhausted_effect ext env j (at_id (last (attempts_of db (job_id j))))] else []) db'
     \<and> job_check (released_job env (reap_outcome j) j)
     \<and> distinct (map at_id (db_attempts db'))"

lemma expired_job_Some:
  assumes "expired_job env db = Some j"
  shows "j \<in> set (db_jobs db) \<and> job_state j = ''running'' \<and> job_id j \<notin> env_locked env
    \<and> (\<exists>t. job_lease_expires_at j = Some t \<and> t \<le> env_now env 0)"
  using first_by_Some [OF assms [unfolded expired_job_def]] by (auto split: option.splits)

lemma reap_tx_commit:
  assumes inv: "jobs_inv db" and commit: "reap_tx ext env db = Commit db' r"
  shows "(expired_job env db = None \<and> db' = db \<and> r = Inr False)
    \<or> (\<exists>j. reaps ext env db j db' \<and> r = Inr True)"
proof (cases "expired_job env db")
  case None
  with commit show ?thesis by (simp add: reap_tx_def)
next
  case (Some j)
  let ?as = "attempts_of db (job_id j)"
  have j: "j \<in> set (db_jobs db)" "job_state j = ''running''" using expired_job_Some [OF Some] by blast+
  note life = jobs_inv_lifecycle [OF inv j(1)]
  note lease = running_lease [OF life j(2)]
  have cur: "job_current_attempt_id j = Some (at_id (last ?as))" using lease(1) by (simp add: leased_def)
  let ?aid = "at_id (last ?as)"
  let ?e = "exhausted_effect ext env j ?aid"
  obtain db1 db2 db3 w where
    s1: "expire_attempt env j ?aid db = Some db1" and
    s2: "update_jobs (job_in_scope (job_account_id j) (job_project_id j) (job_id j))
           (released_job env (reap_outcome j)) db1 = Some db2" and
    s3: "(if job_attempt_count j \<ge> 3 then insert_effect_or_keep ?e db2 else Some db2) = Some db3" and
    s4: "worker_audit (env_fresh env 1) (job_account_id j) ''job.lease_expired'' w (reap_outcome j) db3
           = Some db'" and
    r: "r = Inr True"
    using commit Some cur
    by (auto simp: reap_tx_def tx_simps Let_def reap_outcome_def simp del: if_Commit)
  have target: "last ?as \<in> set (db_attempts db) \<and> at_job_id (last ?as) = job_id j"
    using lease(3) by (simp add: attempts_of_iff)
  note up = update_current_attempt [OF lease(1) s1 [unfolded expire_attempt_def], simplified]
  have up: "attempts_of db1 = (attempts_of db)(job_id j := butlast ?as @ [expired_attempt env (last ?as)])"
      "map at_id (db_attempts db1) = map at_id (db_attempts db)"
    and rest: "db_jobs db1 = db_jobs db" "db_effects db1 = db_effects db"
    using up lease target by (auto simp: leased_def expired_attempt_def)
  have u: "job_check (released_job env (reap_outcome j) j)"
      "db2 = db1\<lparr>db_jobs := map (\<lambda>i. if i = j then released_job env (reap_outcome j) j else i) (db_jobs db)\<rparr>"
    using update_jobs_scope [OF inv j(1) rest(1) s2] by blast+
  have eff2: "effects_of db2 = effects_of db" "attempts_of db2 = attempts_of db1"
    using u(2) rest(2) by (simp_all add: effects_of_def attempts_of_def fun_eq_iff)
  have "db_effects db2 = db_effects db" using u(2) rest(2) by simp
  then have "eff_job_id ?e \<notin> eff_job_id ` set (db_effects db2)"
    using lease(2) by (auto simp: exhausted_effect_def effects_of_def filter_empty_conv)
  then have eff3: "effects_of db3 = (effects_of db)(job_id j :=
        (if job_attempt_count j \<ge> 3 then [?e] else []))"
    and same3: "db_jobs db3 = db_jobs db2" "db_attempts db3 = db_attempts db2"
    using s3 lease(2) eff2(1) insert_effect_of [of ?e db2 db3]
    by (auto simp: insert_effect_or_keep_def exhausted_effect_def split: if_splits)
  have db': "db_jobs db' = db_jobs db3" "db_attempts db' = db_attempts db3" "db_effects db' = db_effects db3"
    using s4 by (auto simp: worker_audit_def dest: insert_audit_rest)
  have "attempts_of db' = attempts_of db1" "effects_of db' = effects_of db3"
    using db' same3 eff2 by (simp_all add: attempts_of_def effects_of_def fun_eq_iff)
  then have "replaces db j (released_job env (reap_outcome j) j)
      (butlast ?as @ [expired_attempt env (last ?as)])
      (if job_attempt_count j \<ge> 3 then [?e] else []) db'"
    using up(1) eff3 j u(2) same3 db' by (simp add: replaces_def released_job_def)
  moreover have "distinct (map at_id (db_attempts db'))"
    using inv up(2) db' same3 u(2) by (simp add: jobs_inv_def)
  ultimately show ?thesis using Some u(1) r by (auto simp: reaps_def)
qed

lemma reaps_inv:
  assumes inv: "jobs_inv db" and reap: "reaps ext env db j db'"
  shows "jobs_inv db'"
proof -
  have j: "j \<in> set (db_jobs db)" "job_state j = ''running''"
    using expired_job_Some [of env db j] reap by (auto simp: reaps_def)
  note life = jobs_inv_lifecycle [OF inv j(1)]
  note lease = running_lease [OF life j(2)]
  have "lifecycle (released_job env (reap_outcome j) j)
      (butlast (attempts_of db (job_id j)) @ [expired_attempt env (last (attempts_of db (job_id j)))])
      (if job_attempt_count j \<ge> 3
       then [exhausted_effect ext env j (at_id (last (attempts_of db (job_id j))))] else [])"
  proof (cases "job_attempt_count j \<ge> 3")
    case True
    with reap lease show ?thesis
      by (intro lifecycle_release [OF life j(2)])
         (auto simp: reaps_def released_job_def expired_attempt_def reap_outcome_def settled_def
           exhausted_effect_def)
  next
    case False
    with reap lease show ?thesis
      by (intro lifecycle_release [OF life j(2)])
         (auto simp: reaps_def released_job_def expired_attempt_def reap_outcome_def)
  qed
  with reap show ?thesis by (auto simp: reaps_def intro: jobs_inv_replaces [OF inv])
qed

subsection \<open>Holding a lease\<close>

lemma held_lease_Some:
  assumes "held_lease db jid aid fence w = Some (j, a)"
  shows "j \<in> set (db_jobs db) \<and> a \<in> set (db_attempts db) \<and> job_id j = jid \<and> at_job_id a = jid
    \<and> job_state j = ''running'' \<and> job_current_attempt_id j = Some aid \<and> at_id a = aid
    \<and> job_current_fence j = fence \<and> at_worker_id a = w \<and> at_state a = ''running''"
  using find_SomeD [OF assms [unfolded held_lease_def]] by auto

lemma held_lease_last:
  assumes inv: "jobs_inv db" and h: "held_lease db jid aid fence w = Some (j, a)"
  shows "a = last (attempts_of db jid)" and "at_id (last (attempts_of db jid)) = aid"
proof -
  note s = held_lease_Some [OF h]
  then have life: "lifecycle j (attempts_of db jid) (effects_of db jid)"
    using jobs_inv_lifecycle [OF inv, of j] by auto
  note lease = running_lease [OF life] s
  then show "at_id (last (attempts_of db jid)) = aid" by (simp add: leased_def)
  then show "a = last (attempts_of db jid)"
    using lease inv by (auto simp: jobs_inv_def distinct_map attempts_of_iff inj_on_def)
qed

definition renewed_job :: "tx_env \<Rightarrow> int \<Rightarrow> job_row \<Rightarrow> job_row" where
  "renewed_job env secs j = j\<lparr>job_lease_expires_at := Some (env_now env 2 + secs * second),
     job_updated_at := env_now env 3\<rparr>"

definition renewed_attempt :: "tx_env \<Rightarrow> int \<Rightarrow> uuid \<Rightarrow> attempt_row \<Rightarrow> attempt_row" where
  "renewed_attempt env secs aid a =
     (if at_id a = aid then a\<lparr>at_lease_expires_at := env_now env 2 + secs * second\<rparr> else a)"

lemma lifecycle_renew:
  assumes life: "lifecycle j as es" and run: "job_state j = ''running''"
    and aid: "aid = at_id (last as)" and check: "job_check (renewed_job env secs j)"
  shows "lifecycle (renewed_job env secs j) (map (renewed_attempt env secs aid) as) es"
proof -
  note lease = running_lease [OF life run]
  have "attempt_log (renewed_job env secs j) (map (renewed_attempt env secs aid) as)"
    using life by (intro attempt_log_map [of j])
      (auto simp: lifecycle_def renewed_job_def renewed_attempt_def)
  moreover have "leased (renewed_job env secs j) (map (renewed_attempt env secs aid) as)"
    using lease(1) aid
    by (auto simp: leased_def idle_def renewed_job_def renewed_attempt_def last_map map_butlast [symmetric])
  moreover have "job_revision j \<le> 2 * job_attempt_count j" using life run by (simp add: lifecycle_def)
  ultimately show ?thesis
    using lease run check by (simp add: lifecycle_def phase_ok_def renewed_job_def)
qed

definition renews ::
  "tx_env \<Rightarrow> int \<Rightarrow> lease_identity_request \<Rightarrow> 'v job_db \<Rightarrow> job_row \<Rightarrow> 'v job_db \<Rightarrow> bool" where
  "renews env secs req db j db' \<longleftrightarrow>
     j \<in> set (db_jobs db) \<and> job_state j = ''running''
     \<and> at_id (last (attempts_of db (job_id j))) = lir_attempt_id req
     \<and> job_current_fence j = lir_fence req
     \<and> at_worker_id (last (attempts_of db (job_id j))) = lir_worker_id req
     \<and> (\<exists>t. job_lease_expires_at j = Some t \<and> env_now env 0 < t)
     \<and> replaces db j (renewed_job env secs j)
         (map (renewed_attempt env secs (lir_attempt_id req)) (attempts_of db (job_id j)))
         (effects_of db (job_id j)) db'
     \<and> job_check (renewed_job env secs j)
     \<and> distinct (map at_id (db_attempts db'))"

lemma lease_live_Some:
  assumes inv: "jobs_inv db" and h: "held_lease db jid aid fence w = Some (j, a)"
    and "lease_live env db jid aid fence = Some True"
  shows "\<exists>t. job_lease_expires_at j = Some t \<and> env_now env 0 < t"
proof -
  obtain i b where "i \<in> set (db_jobs db)" "job_id i = jid"
      "case job_lease_expires_at i of Some t \<Rightarrow> t > env_now env 0 | None \<Rightarrow> False"
    using assms(3) unfolding lease_live_def by (auto dest!: find_SomeD)
  moreover have "j \<in> set (db_jobs db)" "job_id j = jid" using held_lease_Some [OF h] by auto
  ultimately show ?thesis using job_unique [OF inv] by (auto split: option.splits)
qed

lemma renew_tx_commit:
  assumes inv: "jobs_inv db" and commit: "renew_tx ext secs env path req db = Commit db' r"
  shows "\<exists>j. renews env secs req db j db' \<and> path_uuid (ext_parse_uuid ext) path = Inr (job_id j)"
proof -
  let ?aid = "lir_attempt_id req" and ?fence = "lir_fence req"
  let ?t = "env_now env 2 + secs * second"
  obtain jid j a db1 db2 where
    path: "path_uuid (ext_parse_uuid ext) path = Inr jid" and
    h: "held_lease db jid ?aid ?fence (lir_worker_id req) = Some (j, a)" and
    live: "lease_live env db jid ?aid ?fence = Some True" and
    s1: "update_jobs (\<lambda>j. job_id j = jid \<and> job_current_attempt_id j = Some ?aid \<and> job_current_fence j = ?fence)
           (renewed_job env secs) db = Some db1" and
    s2: "update_attempts (\<lambda>a. at_job_id a = jid \<and> at_id a = ?aid \<and> at_fence a = ?fence)
           (\<lambda>a. a\<lparr>at_lease_expires_at := ?t\<rparr>) db1 = Some db2" and
    s3: "worker_audit (env_fresh env 0) (job_account_id j) ''job.renew''
           \<lparr>ctx_job_id = jid, ctx_worker_id = lir_worker_id req, ctx_attempt_id = ?aid, ctx_fence = ?fence\<rparr>
           ''succeeded'' db2 = Some db'"
    using commit
    by (auto simp: renew_tx_def tx_simps Let_def renewed_job_def [abs_def] split: bool.splits)
  note held = held_lease_Some [OF h] and last = held_lease_last [OF inv h]
  have j: "j \<in> set (db_jobs db)" "job_id j = jid" using held by auto
  note life = jobs_inv_lifecycle [OF inv j(1)]
  have lease: "leased j (attempts_of db jid)" "at_fence (last (attempts_of db jid)) = ?fence"
    using running_lease [OF life] held j by auto
  have pred: "(job_id i = jid \<and> job_current_attempt_id i = Some ?aid \<and> job_current_fence i = ?fence) \<longleftrightarrow> i = j"
    if "i \<in> set (db_jobs db)" for i
    using that job_unique [OF inv that j(1)] held by auto
  have "map (\<lambda>i. if job_id i = jid \<and> job_current_attempt_id i = Some ?aid \<and> job_current_fence i = ?fence
                  then renewed_job env secs i else i) (db_jobs db)
      = map (\<lambda>i. if i = j then renewed_job env secs j else i) (db_jobs db)"
    using pred by (intro map_cong) auto
  then have db1: "db1 = db\<lparr>db_jobs := map (\<lambda>i. if i = j then renewed_job env secs j else i) (db_jobs db)\<rparr>"
    using s1 unfolding update_jobs_Some by metis
  have check: "job_check (renewed_job env secs j)"
    using s1 pred [OF j(1)] j(1) by (auto simp: update_jobs_Some)
  have at1: "attempts_of db1 = attempts_of db" "effects_of db1 = effects_of db"
    using db1 by (simp_all add: attempts_of_def effects_of_def fun_eq_iff)
  have "(if at_job_id a = jid \<and> at_id a = ?aid \<and> at_fence a = ?fence then a\<lparr>at_lease_expires_at := ?t\<rparr> else a)
      = renewed_attempt env secs ?aid a" if "a \<in> set (attempts_of db jid)" for a
  proof (cases "at_id a = ?aid")
    case True
    then have "a = last (attempts_of db jid)"
      using that last(2) inv running_lease(3) [OF life] held j
      by (auto simp: jobs_inv_def distinct_map attempts_of_iff inj_on_def)
    with lease(2) last(2) that show ?thesis by (auto simp: renewed_attempt_def attempts_of_iff)
  qed (simp add: renewed_attempt_def)
  then have "attempts_of db2 = (attempts_of db)(jid := map (renewed_attempt env secs ?aid) (attempts_of db jid))"
    using update_attempts_of [OF s2, of jid] at1 by (auto cong: map_cong)
  moreover have db': "db_jobs db' = db_jobs db1" "db_attempts db' = db_attempts db2" "db_effects db' = db_effects db1"
      "map at_id (db_attempts db2) = map at_id (db_attempts db1)"
    using s3 update_attempts_rest [OF s2] by (auto simp: worker_audit_def dest!: insert_audit_rest)
  moreover from db' have "attempts_of db' = attempts_of db2" "effects_of db' = effects_of db"
    using at1 by (simp_all add: attempts_of_def effects_of_def fun_eq_iff)
  ultimately have "replaces db j (renewed_job env secs j)
      (map (renewed_attempt env secs ?aid) (attempts_of db (job_id j))) (effects_of db (job_id j)) db'"
    using j db1 by (simp add: replaces_def renewed_job_def)
  moreover have "distinct (map at_id (db_attempts db'))"
    using db' db1 inv by (simp add: jobs_inv_def)
  ultimately show ?thesis
    using j held last check path lease_live_Some [OF inv h live] by (auto simp: renews_def)
qed

lemma renews_inv: "jobs_inv db \<Longrightarrow> renews env secs req db j db' \<Longrightarrow> jobs_inv db'"
  using lifecycle_renew [OF jobs_inv_lifecycle, of db j "lir_attempt_id req" env secs]
  by (auto simp: renews_def intro: jobs_inv_replaces)

subsection \<open>Cancellation\<close>

definition canceled_attempt :: "tx_env \<Rightarrow> attempt_row \<Rightarrow> attempt_row" where
  "canceled_attempt env a = a\<lparr>at_state := ''canceled'', at_finished_at := Some (env_now env 0),
     at_terminal_code := Some ''owner_canceled''\<rparr>"

definition canceled_attempts :: "tx_env \<Rightarrow> job_row \<Rightarrow> attempt_row list \<Rightarrow> attempt_row list" where
  "canceled_attempts env j as =
     (if job_state j = ''running'' then butlast as @ [canceled_attempt env (last as)] else as)"

definition cancels :: "tx_env \<Rightarrow> 'v job_db \<Rightarrow> job_row \<Rightarrow> 'v job_db \<Rightarrow> bool" where
  "cancels env db j db' \<longleftrightarrow>
     j \<in> set (db_jobs db) \<and> job_state j \<notin> {''succeeded'', ''failed'', ''canceled''}
     \<and> replaces db j (canceled_job env j) (canceled_attempts env j (attempts_of db (job_id j))) [] db'
     \<and> job_check (canceled_job env j) \<and> distinct (map at_id (db_attempts db'))"

lemma lifecycle_cancel:
  assumes life: "lifecycle j as es" and "job_state j \<notin> {''succeeded'', ''failed'', ''canceled''}"
    and check: "job_check (canceled_job env j)"
  shows "lifecycle (canceled_job env j) (canceled_attempts env j as) []"
proof (cases "job_state j = ''running''")
  case True
  with check show ?thesis
    unfolding canceled_attempts_def using running_lease [OF life True]
    by (simp, intro lifecycle_release [OF life True])
       (auto simp: canceled_job_def canceled_attempt_def)
next
  case False
  with assms have "idle as" "attempt_log j as" "job_current_fence j = job_attempt_count j"
      "job_revision j \<le> 2 * job_attempt_count j + 1"
    by (auto simp: lifecycle_def phase_ok_def split: if_splits)
  with False check show ?thesis
    by (simp add: lifecycle_def phase_ok_def canceled_attempts_def canceled_job_def attempt_log_def)
qed

lemma cancels_inv: "jobs_inv db \<Longrightarrow> cancels env db j db' \<Longrightarrow> jobs_inv db'"
  using lifecycle_cancel [OF jobs_inv_lifecycle, of db j env]
  by (auto simp: cancels_def intro: jobs_inv_replaces)

lemma no_effects_before_terminal:
  "lifecycle j as es \<Longrightarrow> job_state j \<notin> {''succeeded'', ''failed''} \<Longrightarrow> es = []"
  by (auto simp: lifecycle_def phase_ok_def split: if_splits)

lemma cancel_known_job_commit:
  assumes inv: "jobs_inv db"
    and commit: "cancel_known_job ext env auth acc proj jid op key hash n db = Commit db' r"
  shows "(same_jobs db db' \<and> (\<exists>e. r = Inl e))
    \<or> (\<exists>j. cancels env db j db' \<and> job_id j = jid \<and> job_account_id j = acc
         \<and> job_revision j = n \<and> (\<exists>resp. r = Inr resp))"
proof -
  obtain j where f: "find (job_in_scope acc proj jid) (db_jobs db) = Some j"
    using commit by (auto simp: cancel_known_job_def split: option.splits)
  note scope = find_job_Some [OF f]
  then have j: "j \<in> set (db_jobs db)" "job_in_scope acc proj jid = job_in_scope (job_account_id j) (job_project_id j) (job_id j)"
    by auto
  note life = jobs_inv_lifecycle [OF inv j(1)]
  let ?as = "attempts_of db (job_id j)"
  show ?thesis
  proof (cases "job_revision j \<noteq> n \<or> job_state j \<in> {''succeeded'', ''failed'', ''canceled''}")
    case True
    with commit f have "same_jobs db db' \<and> (\<exists>e. r = Inl e)"
      by (auto simp: cancel_known_job_def tx_simps audit_def dest!: audit_same_jobs)
    then show ?thesis by blast
  next
    case False
    obtain db1 db2 resp where
      s1: "(case job_current_attempt_id j of
              Some aid \<Rightarrow> cancel_attempt env acc proj jid aid db | None \<Rightarrow> Some db) = Some db1" and
      s2: "update_jobs (job_in_scope acc proj jid) (canceled_job env) db1 = Some db2" and
      s3: "same_jobs db2 db'" and r: "r = Inr resp"
      using commit f False
      by (auto simp: cancel_known_job_def tx_simps audit_def dest!: audit_same_jobs with_records_same)
         (auto simp: same_jobs_def)
    have up: "attempts_of db1 = (attempts_of db)(job_id j := canceled_attempts env j ?as)
        \<and> map at_id (db_attempts db1) = map at_id (db_attempts db)
        \<and> db_jobs db1 = db_jobs db \<and> db_effects db1 = db_effects db"
    proof (cases "job_state j = ''running''")
      case True
      note lease = running_lease [OF life True]
      have "cancel_attempt env acc proj jid (at_id (last ?as)) db = Some db1"
        using s1 lease(1) by (simp add: leased_def)
      note u = update_current_attempt [OF lease(1) this [unfolded cancel_attempt_def], simplified]
      show ?thesis
        using u lease scope True
        by (auto simp: leased_def canceled_attempts_def canceled_attempt_def attempts_of_iff)
    next
      case idle: False
      then have "job_current_attempt_id j = None"
        using life False by (auto simp: lifecycle_def phase_ok_def split: if_splits)
      with s1 idle show ?thesis by (simp add: canceled_attempts_def)
    qed
    then have rest: "db_jobs db1 = db_jobs db" "db_effects db1 = db_effects db" by auto
    have u: "job_check (canceled_job env j)"
        "db2 = db1\<lparr>db_jobs := map (\<lambda>i. if i = j then canceled_job env j else i) (db_jobs db)\<rparr>"
      using update_jobs_scope [OF inv j(1) rest(1) s2 [unfolded j(2)]] by blast+
    have "attempts_of db' = attempts_of db1" "effects_of db' = effects_of db"
      using s3 u(2) rest by (simp_all add: same_jobs_def attempts_of_def effects_of_def fun_eq_iff)
    moreover have "effects_of db (job_id j) = []"
      using no_effects_before_terminal [OF life] False by auto
    ultimately have "replaces db j (canceled_job env j) (canceled_attempts env j ?as) [] db'"
      using up u(2) s3 j(1) by (auto simp: replaces_def canceled_job_def same_jobs_def)
    moreover have "distinct (map at_id (db_attempts db'))"
      using up u(2) s3 inv by (simp add: same_jobs_def jobs_inv_def)
    ultimately show ?thesis using False j(1) u(1) r scope by (auto simp: cancels_def)
  qed
qed

lemma cancel_job_tx_commit:
  assumes "jobs_inv db" and "cancel_job_tx ext env auth proj_path job_path headers db = Commit db' r"
  shows "same_jobs db db' \<or> (\<exists>j. cancels env db j db')"
  using assms(2)
  by (auto simp: cancel_job_tx_def tx_simps Let_def audit_def
        dest!: audit_same_jobs cancel_known_job_commit [OF assms(1)])

subsection \<open>Completion\<close>

definition finished_attempt :: "tx_env \<Rightarrow> string \<Rightarrow> string \<Rightarrow> string \<Rightarrow> attempt_row \<Rightarrow> attempt_row" where
  "finished_attempt env state code hash a =
     a\<lparr>at_state := state, at_finished_at := Some (env_now env 2),
       at_terminal_code := Some code, at_completion_hash := Some hash\<rparr>"

definition completion_effects ::
  "'v job_ext \<Rightarrow> tx_env \<Rightarrow> job_row \<Rightarrow> complete_request \<Rightarrow> string \<Rightarrow> complete_response \<Rightarrow> 'v effect_row list" where
  "completion_effects ext env j request hash response =
     (case effective_outcome j request of (state, code) \<Rightarrow>
        if state = ''retriable'' then []
        else [\<lparr>eff_id = env_fresh env 0, eff_account_id = job_account_id j,
               eff_project_id = job_project_id j, eff_job_id = job_id j,
               eff_attempt_id = cr_attempt_id request, eff_fence = cr_fence request,
               eff_outcome_state = state, eff_outcome_code = code,
               eff_response_body = the (ext_complete_to_value ext response),
               eff_completion_hash = hash\<rparr>])"

definition completes ::
  "'v job_ext \<Rightarrow> tx_env \<Rightarrow> complete_request \<Rightarrow> string \<Rightarrow> 'v job_db \<Rightarrow> job_row \<Rightarrow> complete_response \<Rightarrow> 'v job_db \<Rightarrow> bool" where
  "completes ext env request hash db j response db' \<longleftrightarrow>
     j \<in> set (db_jobs db) \<and> job_state j = ''running''
     \<and> at_id (last (attempts_of db (job_id j))) = cr_attempt_id request
     \<and> job_current_fence j = cr_fence request
     \<and> at_worker_id (last (attempts_of db (job_id j))) = cr_worker_id request
     \<and> (\<exists>t. job_lease_expires_at j = Some t \<and> env_now env 0 < t)
     \<and> valid_outcome (cr_outcome request)
     \<and> (case effective_outcome j request of (state, code) \<Rightarrow>
          replaces db j (finished_job env state j)
            (butlast (attempts_of db (job_id j))
               @ [finished_attempt env state code hash (last (attempts_of db (job_id j)))])
            (completion_effects ext env j request hash response) db'
          \<and> job_check (finished_job env state j)
          \<and> (cres_effect response = None \<longleftrightarrow> state = ''retriable''))
     \<and> distinct (map at_id (db_attempts db'))"

lemma finished_job_fields [simp]:
  "job_id (finished_job env state j) = job_id j"
  "job_state (finished_job env state j) = state"
  "job_account_id (finished_job env state j) = job_account_id j"
  "job_project_id (finished_job env state j) = job_project_id j"
  "job_attempt_count (finished_job env state j) = job_attempt_count j"
  "job_current_fence (finished_job env state j) = job_current_fence j"
  "job_revision (finished_job env state j) = job_revision j + 1"
  "job_current_attempt_id (finished_job env state j) =
     (if state \<noteq> ''retriable'' then job_current_attempt_id j else None)"
  by (simp_all add: finished_job_def)

lemma finished_attempt_fields [simp]:
  "at_id (finished_attempt env state code hash a) = at_id a"
  "at_state (finished_attempt env state code hash a) = state"
  "at_account_id (finished_attempt env state code hash a) = at_account_id a"
  "at_project_id (finished_attempt env state code hash a) = at_project_id a"
  "at_number (finished_attempt env state code hash a) = at_number a"
  "at_fence (finished_attempt env state code hash a) = at_fence a"
  by (simp_all add: finished_attempt_def)

lemma effective_outcome_cases:
  assumes "valid_outcome (cr_outcome request)" and "effective_outcome j request = (state, code)"
  shows "state \<in> {''succeeded'', ''failed'', ''retriable''}"
    and "state = ''retriable'' \<Longrightarrow> job_attempt_count j < 3"
  using assms by (auto simp: valid_outcome_def effective_outcome_def split: if_splits)

lemma lifecycle_complete:
  assumes life: "lifecycle j as es" and run: "job_state j = ''running''"
    and out: "valid_outcome (cr_outcome request)" "effective_outcome j request = (state, code)"
    and check: "job_check (finished_job env state j)"
    and "cr_attempt_id request = at_id (last as)" and "cr_fence request = job_current_fence j"
  shows "lifecycle (finished_job env state j) (butlast as @ [finished_attempt env state code hash (last as)])
    (completion_effects ext env j request hash response)"
proof -
  note lease = running_lease [OF life run] and cases = effective_outcome_cases [OF out]
  have "settled (finished_job env state j) (butlast as @ [finished_attempt env state code hash (last as)])
      (completion_effects ext env j request hash response)" if "state \<noteq> ''retriable''"
    using that lease(1) out(2) assms(6,7) by (simp add: settled_def leased_def completion_effects_def)
  moreover have "completion_effects ext env j request hash response = []" if "state = ''retriable''"
    using that out(2) by (simp add: completion_effects_def)
  ultimately show ?thesis
    using cases check lease
    by (intro lifecycle_release [OF life run]) auto
qed

lemma completes_inv:
  assumes inv: "jobs_inv db" and c: "completes ext env request hash db j response db'"
  shows "jobs_inv db'"
proof -
  obtain state code where out: "effective_outcome j request = (state, code)"
    by (cases "effective_outcome j request")
  have j: "j \<in> set (db_jobs db)" "job_state j = ''running''" "valid_outcome (cr_outcome request)"
    and check: "job_check (finished_job env state j)"
    using c out by (simp_all add: completes_def)
  note life = lifecycle_complete [OF jobs_inv_lifecycle [OF inv j(1)] j(2,3) out check]
  from c out life show ?thesis by (auto simp: completes_def intro: jobs_inv_replaces [OF inv])
qed

lemma complete_live_commit:
  assumes inv: "jobs_inv db" and h: "held_lease db (job_id j) (cr_attempt_id request) (cr_fence request)
      (cr_worker_id request) = Some (i, a)" and jin: "j \<in> set (db_jobs db)"
    and live: "lease_live env db (job_id j) (cr_attempt_id request) (cr_fence request) = Some True"
    and valid: "valid_outcome (cr_outcome request)"
    and commit: "complete_live ext env j request hash db = Commit db' r"
  shows "\<exists>response. completes ext env request hash db j response db' \<and> r = Inr response
     \<and> (cres_effect response \<noteq> None \<longrightarrow> ext_complete_to_value ext response \<noteq> None)"
proof -
  obtain state code where out: "effective_outcome j request = (state, code)"
    by (cases "effective_outcome j request")
  let ?as = "attempts_of db (job_id j)"
  let ?eff = "if state \<noteq> ''retriable'' then Some \<lparr>jer_id = env_fresh env 0, jer_outcome_state = state,
                jer_outcome_code = code\<rparr> else None"
  have i: "i = j" using held_lease_Some [OF h] job_unique [OF inv _ jin] by auto
  note held = held_lease_Some [OF h [unfolded i]] and last = held_lease_last [OF inv h]
  have j: "j \<in> set (db_jobs db)" "job_state j = ''running''" using held by auto
  note life = jobs_inv_lifecycle [OF inv j(1)]
  note lease = running_lease [OF life j(2)]
  obtain db1 db2 db3 job where
    s1: "finish_attempt env j request state code hash db = Some db1" and
    s2: "update_jobs (job_in_scope (job_account_id j) (job_project_id j) (job_id j)) (finished_job env state) db1 = Some db2" and
    s3: "store_effect ext j request hash \<lparr>cres_job = job, cres_effect = ?eff\<rparr> db2 = Inr db3" and
    s4: "worker_audit (env_fresh env 1) (job_account_id j) ''job.complete''
           \<lparr>ctx_job_id = job_id j, ctx_worker_id = cr_worker_id request,
            ctx_attempt_id = cr_attempt_id request, ctx_fence = cr_fence request\<rparr> state db3 = Some db'" and
    r: "r = Inr \<lparr>cres_job = job, cres_effect = ?eff\<rparr>"
    using commit out by (auto simp: complete_live_def tx_simps Let_def simp del: if_Commit)
  let ?resp = "\<lparr>cres_job = job, cres_effect = ?eff\<rparr>"
  note u = update_current_attempt [OF lease(1) s1 [unfolded finish_attempt_def], simplified]
  have up: "attempts_of db1 = (attempts_of db)(job_id j := butlast ?as @ [finished_attempt env state code hash (last ?as)])"
      "map at_id (db_attempts db1) = map at_id (db_attempts db)"
    and rest: "db_jobs db1 = db_jobs db" "db_effects db1 = db_effects db"
    using u lease held last by (auto simp: leased_def finished_attempt_def attempts_of_iff)
  have c: "job_check (finished_job env state j)"
      "db2 = db1\<lparr>db_jobs := map (\<lambda>i. if i = j then finished_job env state j else i) (db_jobs db)\<rparr>"
    using update_jobs_scope [OF inv j(1) rest(1) s2] by blast+
  have same2: "effects_of db2 = effects_of db" "attempts_of db2 = attempts_of db1"
    using c(2) rest by (simp_all add: effects_of_def attempts_of_def fun_eq_iff)
  have eff3: "effects_of db3 = (effects_of db)(job_id j := completion_effects ext env j request hash ?resp)"
    and same3: "db_jobs db3 = db_jobs db2" "db_attempts db3 = db_attempts db2"
    and val: "state \<noteq> ''retriable'' \<Longrightarrow> ext_complete_to_value ext ?resp \<noteq> None"
    using s3 out lease(2) same2(1)
    by (auto simp: store_effect_def completion_effects_def fun_eq_iff
        split: if_splits option.splits dest!: insert_effect_of)
  have db': "db_jobs db' = db_jobs db3" "db_attempts db' = db_attempts db3" "db_effects db' = db_effects db3"
    using s4 by (auto simp: worker_audit_def dest: insert_audit_rest)
  have "attempts_of db' = attempts_of db1" "effects_of db' = effects_of db3"
    using db' same3 same2 by (simp_all add: attempts_of_def effects_of_def fun_eq_iff)
  then have "replaces db j (finished_job env state j)
      (butlast ?as @ [finished_attempt env state code hash (last ?as)])
      (completion_effects ext env j request hash ?resp) db'"
    using up(1) eff3 j(1) c(2) same3 db' by (simp add: replaces_def)
  moreover have "distinct (map at_id (db_attempts db'))"
    using inv up(2) db' same3 c(2) by (simp add: jobs_inv_def)
  ultimately have "completes ext env request hash db j ?resp db'"
    using j c(1) held last valid out lease_live_Some [OF inv h [unfolded i] live]
    by (auto simp: completes_def)
  with r val show ?thesis by auto
qed

lemma replay_retry_commit: "replay_retry ext j request hash db = Commit db' r \<Longrightarrow> db' = db"
  by (auto simp: replay_retry_def tx_simps)

lemma replay_terminal_commit: "replay_terminal ext j request hash db = Commit db' r \<Longrightarrow> db' = db"
  by (auto simp: replay_terminal_def tx_simps split: option.splits if_splits)

lemma complete_tx_commit:
  assumes inv: "jobs_inv db" and commit: "complete_tx ext env path request db = Commit db' r"
  shows "db' = db \<or> (\<exists>j hash response. completes ext env request hash db j response db' \<and> r = Inr response
     \<and> path_uuid (ext_parse_uuid ext) path = Inr (job_id j)
     \<and> request_hash (ext_complete_bytes ext) (ext_sha256 ext) request = Inr hash
     \<and> (cres_effect response \<noteq> None \<longrightarrow> ext_complete_to_value ext response \<noteq> None))"
proof -
  obtain jid hash j where
    path: "path_uuid (ext_parse_uuid ext) path = Inr jid" and
    valid: "valid_outcome (cr_outcome request)" and
    hash: "request_hash (ext_complete_bytes ext) (ext_sha256 ext) request = Inr hash" and
    f: "find (\<lambda>j. job_id j = jid) (db_jobs db) = Some j" and
    branch: "replay_retry ext j request hash db = Commit db' r
      \<or> replay_terminal ext j request hash db = Commit db' r
      \<or> (\<exists>h. held_lease db jid (cr_attempt_id request) (cr_fence request) (cr_worker_id request) = Some h
           \<and> lease_live env db jid (cr_attempt_id request) (cr_fence request) = Some True
           \<and> complete_live ext env j request hash db = Commit db' r)"
    using commit by (auto simp: complete_tx_def tx_simps split: bool.splits if_splits)
  have j: "j \<in> set (db_jobs db)" "job_id j = jid" using find_SomeD [OF f] by auto
  show ?thesis
  proof (cases "\<exists>h. held_lease db jid (cr_attempt_id request) (cr_fence request) (cr_worker_id request) = Some h
           \<and> lease_live env db jid (cr_attempt_id request) (cr_fence request) = Some True
           \<and> complete_live ext env j request hash db = Commit db' r")
    case True
    then obtain i a where "held_lease db jid (cr_attempt_id request) (cr_fence request) (cr_worker_id request) = Some (i, a)"
      "lease_live env db jid (cr_attempt_id request) (cr_fence request) = Some True"
      "complete_live ext env j request hash db = Commit db' r" by auto
    with complete_live_commit [OF inv _ j(1) _ valid] j(2) hash path show ?thesis by metis
  next
    case False
    with branch show ?thesis by (auto dest: replay_retry_commit replay_terminal_commit)
  qed
qed

section \<open>The invariant\<close>

lemma run_tx_inv:
  assumes "jobs_inv db" and "\<And>db' r. body = Commit db' r \<Longrightarrow> jobs_inv db'"
  shows "jobs_inv (fst (run_tx db body))"
  using assms by (cases body) (simp_all add: run_tx_def)

lemma no_jobs_inv: "no_jobs db \<Longrightarrow> jobs_inv db"
  by (simp add: no_jobs_def jobs_inv_def)

lemma job_step_inv:
  assumes "jobs_inv db" and "job_step ext db db'"
  shows "jobs_inv db'"
  using assms(2)
proof cases
  case create
  then show ?thesis
    using assms(1) create_job_tx_commit same_jobs_inv adds_job_inv
    unfolding create_job_def by (metis run_tx_inv)
next
  case cancel
  then show ?thesis
    using assms(1) cancel_job_tx_commit same_jobs_inv cancels_inv
    unfolding cancel_job_def by (metis run_tx_inv)
next
  case reap
  then show ?thesis using assms(1) reap_tx_commit reaps_inv by (metis run_tx_inv)
next
  case lease
  then show ?thesis using assms(1) lease_tx_commit same_jobs_inv leases_inv by (metis run_tx_inv)
next
  case renew
  then show ?thesis
    using assms(1) renew_tx_commit renews_inv unfolding renew_job_def by (metis run_tx_inv)
next
  case complete
  then show ?thesis
    using assms(1) complete_tx_commit completes_inv unfolding complete_job_def by (metis run_tx_inv)
qed

interpretation jobs: guarded_machine no_jobs "job_step ext" jobs_inv
  by unfold_locales (auto intro: no_jobs_inv job_step_inv)

text \<open>The composite handlers are runs of the machine.\<close>

lemma reap_loop_steps: "(job_step ext)\<^sup>*\<^sup>* db (fst (reap_loop ext envs n db))"
proof (induction n arbitrary: db)
  case (Suc n)
  have step: "job_step ext db (fst (run_tx db (reap_tx ext (envs n) db)))" by (rule job_step.reap)
  with Suc.IH [of "fst (run_tx db (reap_tx ext (envs n) db))"] show ?case
    by (auto split: prod.splits sum.splits bool.splits intro: converse_rtranclp_into_rtranclp)
qed simp

lemma lease_job_steps: "(job_step ext)\<^sup>*\<^sup>* db (fst (lease_job ext secs envs request db))"
proof (cases "valid_worker_id (lr_worker_id request)")
  case True
  let ?db1 = "fst (reap_expired ext envs db)"
  have "(job_step ext)\<^sup>*\<^sup>* db ?db1" unfolding reap_expired_def by (rule reap_loop_steps)
  moreover from this have
    "(job_step ext)\<^sup>*\<^sup>* db (fst (run_tx ?db1 (lease_tx ext secs (envs 64) (lr_worker_id request) ?db1)))"
    using job_step.lease [OF True] by (rule rtranclp.rtrancl_into_rtrancl)
  ultimately show ?thesis
    by (auto simp: lease_job_def split: prod.splits sum.splits)
qed (simp add: lease_job_def)

end
