(* ===== verification/Job_Runs.thy ===== *)
theory Job_Runs
  imports Job_Invariant
begin

text \<open>
  Runs of the job store: what the invariant says about one job, what a step can do to it
  (\<open>job_change\<close>), that a terminal job is never touched again (\<open>keeps\<close>), and the relations
  between stores that hold along every run because every statement keeps them (\<open>job_frame\<close>).
\<close>

section \<open>Consequences of the invariant\<close>

lemma lifecycle_running_attempts:
  assumes "lifecycle j as es"
  shows "filter (\<lambda>a. at_state a = ''running'') as = (if job_state j = ''running'' then [last as] else [])"
proof (cases "job_state j = ''running''")
  case True
  then have l: "leased j as" using running_lease(1) [OF assms] by blast
  then obtain bs c where as: "as = bs @ [c]" by (cases as rule: rev_cases) (auto simp: leased_def)
  with l True show ?thesis by (auto simp: leased_def idle_def filter_empty_conv)
next
  case False
  with assms have "idle as" by (simp add: lifecycle_def phase_ok_def)
  with False show ?thesis by (simp add: idle_def filter_empty_conv)
qed

lemma lifecycle_bounds:
  assumes "lifecycle j as es"
  shows "0 \<le> job_attempt_count j \<and> job_attempt_count j \<le> 3
    \<and> job_attempt_count j \<le> job_current_fence j \<and> job_current_fence j \<le> job_attempt_count j + 1
    \<and> 1 \<le> job_revision j \<and> job_revision j \<le> 2 * job_attempt_count j + 2"
  using assms by (auto simp: lifecycle_def job_check_def split: if_splits)

lemma settled_current:
  assumes "lifecycle j as es" and "job_current_attempt_id j = Some aid"
  shows "as \<noteq> [] \<and> at_id (last as) = aid \<and> at_fence (last as) = job_current_fence j"
proof (cases "job_state j = ''running''")
  case True
  with running_lease [OF assms(1) True] assms(2) show ?thesis by (simp add: leased_def)
next
  case False
  with assms have s: "settled j as es" "job_state j \<noteq> ''canceled''"
    by (auto simp: lifecycle_def phase_ok_def split: if_splits)
  then have ne: "as \<noteq> []" "at_id (last as) = aid" using assms(2) by (auto simp: settled_def)
  have "job_attempt_count j \<ge> 1" using lifecycle_length [OF assms(1)] ne by (cases as) auto
  moreover have "at_fence (last as) = last [1..job_attempt_count j]"
    using assms(1) ne by (metis attempt_log_def last_map lifecycle_def)
  ultimately have "at_fence (last as) = job_attempt_count j"
    using upto_rec2 [of 1 "job_attempt_count j"] by simp
  with ne s assms(1) show ?thesis by (simp add: lifecycle_def)
qed

lemma jobs_inv_fk:
  assumes inv: "jobs_inv db" and j: "j \<in> set (db_jobs db)"
  shows "current_attempt_fk (db_attempts db) j"
proof (cases "job_current_attempt_id j")
  case (Some aid)
  let ?a = "last (attempts_of db (job_id j))"
  note life = jobs_inv_lifecycle [OF inv j]
  note s = settled_current [OF life Some]
  then have "?a \<in> set (attempts_of db (job_id j))" by simp
  moreover from this have "at_account_id ?a = job_account_id j" "at_project_id ?a = job_project_id j"
    using life by (auto simp: lifecycle_def attempt_log_def)
  ultimately show ?thesis
    using s Some by (auto simp: current_attempt_fk_def attempts_of_iff)
qed (simp add: current_attempt_fk_def)

lemma run_tx_Commit: "jobs_inv db' \<Longrightarrow> run_tx db (Commit db' r) = (db', r)"
  by (simp add: run_tx_def jobs_inv_fk)

lemma run_tx_ok:
  "run_tx db body = (db', Inr x) \<Longrightarrow> body = Commit db' (Inr x)"
  by (cases body) (auto simp: run_tx_def split: if_splits)

lemma run_tx_changed:
  "run_tx db body = (db', r) \<Longrightarrow> db' \<noteq> db \<Longrightarrow> body = Commit db' r"
  by (cases body) (auto simp: run_tx_def split: if_splits)

section \<open>What a step does to one job\<close>

definition terminal :: "job_row \<Rightarrow> bool" where
  "terminal j \<longleftrightarrow> job_state j \<in> {''succeeded'', ''failed'', ''canceled''}"

text \<open>A job with its attempts and effects, as one value.\<close>

definition keeps :: "job_row \<Rightarrow> 'v job_db \<Rightarrow> 'v job_db \<Rightarrow> bool" where
  "keeps j db db' \<longleftrightarrow>
     j \<in> set (db_jobs db') \<and> attempts_of db' (job_id j) = attempts_of db (job_id j)
     \<and> effects_of db' (job_id j) = effects_of db (job_id j)"

lemma replaces_keeps:
  assumes "jobs_inv db" and "replaces db i i' as es db'" and "j \<in> set (db_jobs db)" and "j \<noteq> i"
  shows "keeps j db db'"
proof -
  have "i \<in> set (db_jobs db)" using assms(2) by (simp add: replaces_def)
  then have "job_id j \<noteq> job_id i" using job_unique [OF assms(1,3)] assms(4) by blast
  with assms show ?thesis by (auto simp: keeps_def replaces_def)
qed

lemma same_jobs_keeps: "same_jobs db db' \<Longrightarrow> j \<in> set (db_jobs db) \<Longrightarrow> keeps j db db'"
  by (simp add: keeps_def same_jobs_def attempts_of_def effects_of_def)

lemma adds_job_keeps: "adds_job db i db' \<Longrightarrow> j \<in> set (db_jobs db) \<Longrightarrow> keeps j db db'"
  by (auto simp: keeps_def adds_job_def attempts_of_def effects_of_def)

text \<open>
  The step relation as a case rule: nothing happens to the jobs, one is added, or one that is not
  terminal is leased, renewed, reaped, canceled or completed.
\<close>

definition job_change :: "'v job_ext \<Rightarrow> 'v job_db \<Rightarrow> 'v job_db \<Rightarrow> bool" where
  "job_change ext db db' \<longleftrightarrow>
     same_jobs db db' \<or> (\<exists>env jid acc proj svc c. adds_job db (new_job env jid acc proj svc c) db')
     \<or> (\<exists>env j. cancels env db j db') \<or> (\<exists>env j. reaps ext env db j db')
     \<or> (\<exists>env secs w j. leases env secs w db j db') \<or> (\<exists>env secs req j. renews env secs req db j db')
     \<or> (\<exists>env req hash j resp. completes ext env req hash db j resp db')"

lemma job_change_intros:
  "same_jobs db db' \<Longrightarrow> job_change ext db db'"
  "adds_job db (new_job env jid acc proj svc c) db' \<Longrightarrow> job_change ext db db'"
  "cancels env db j db' \<Longrightarrow> job_change ext db db'"
  "reaps ext env db j db' \<Longrightarrow> job_change ext db db'"
  "leases env secs w db j db' \<Longrightarrow> job_change ext db db'"
  "renews env secs req db j db' \<Longrightarrow> job_change ext db db'"
  "completes ext env creq hash db j resp db' \<Longrightarrow> job_change ext db db'"
  by (auto simp: job_change_def)

lemma run_tx_change:
  assumes "\<And>db' r. body = Commit db' r \<Longrightarrow> job_change ext db db'"
  shows "job_change ext db (fst (run_tx db body))"
  using assms by (cases body) (auto simp: run_tx_def job_change_def)

lemma job_step_change:
  assumes inv: "jobs_inv db" and "job_step ext db db'"
  shows "job_change ext db db'"
  using assms(2)
proof cases
  case create
  then show ?thesis
    unfolding create_job_def
    by (auto intro!: run_tx_change dest!: create_job_tx_commit intro: job_change_intros)
next
  case cancel
  then show ?thesis
    unfolding cancel_job_def
    by (auto intro!: run_tx_change dest!: cancel_job_tx_commit [OF inv] intro: job_change_intros)
next
  case reap
  then show ?thesis
    by (auto intro!: run_tx_change dest!: reap_tx_commit [OF inv] intro: job_change_intros)
next
  case lease
  then show ?thesis
    by (auto intro!: run_tx_change dest!: lease_tx_commit [OF inv] intro: job_change_intros)
next
  case renew
  then show ?thesis
    unfolding renew_job_def
    by (auto intro!: run_tx_change dest!: renew_tx_commit [OF inv] intro: job_change_intros)
next
  case complete
  then show ?thesis
    unfolding complete_job_def
    by (auto intro!: run_tx_change dest!: complete_tx_commit [OF inv] intro: job_change_intros)
qed

lemma change_keeps_terminal:
  assumes inv: "jobs_inv db" and c: "job_change ext db db'" and j: "j \<in> set (db_jobs db)" and "terminal j"
  shows "keeps j db db'"
proof -
  have "j \<noteq> i" if "job_state i \<notin> {''succeeded'', ''failed'', ''canceled''}" for i
    using that assms(4) by (auto simp: terminal_def)
  then show ?thesis
    using c same_jobs_keeps [OF _ j] adds_job_keeps [OF _ j] replaces_keeps [OF inv _ j]
    unfolding job_change_def
    by (elim disjE exE)
       (auto simp: cancels_def reaps_def leases_def renews_def completes_def split: prod.splits
         dest!: expired_job_Some claimable_job_Some)
qed

lemma steps_keep_terminal:
  assumes "(job_step ext)\<^sup>*\<^sup>* db db'" and "jobs_inv db" and "j \<in> set (db_jobs db)" and "terminal j"
  shows "keeps j db db'"
  using assms(1)
proof (induction rule: rtranclp_induct)
  case base
  show ?case using assms(3) by (simp add: keeps_def)
next
  case (step db1 db2)
  have "jobs_inv db1" by (rule jobs.steps_inv [OF step.hyps(1) assms(2)])
  with step.hyps(2) have "job_change ext db1 db2" by (rule job_step_change [rotated])
  with \<open>jobs_inv db1\<close> step.IH assms(4) have "keeps j db1 db2"
    by (intro change_keeps_terminal) (auto simp: keeps_def)
  with step.IH show ?case by (simp add: keeps_def)
qed

section \<open>Relations that every statement keeps\<close>

text \<open>
  A preorder on stores that contains every statement the job endpoints issue contains every step
  and every run.  Each such relation is an instance: that stored responses only accumulate, that
  attempt rows stay valid, that secrets are not touched.
\<close>

definition keeps_scope :: "(job_row \<Rightarrow> job_row) \<Rightarrow> bool" where
  "keeps_scope f \<longleftrightarrow>
     (\<forall>j. job_id (f j) = job_id j \<and> job_account_id (f j) = job_account_id j
        \<and> job_project_id (f j) = job_project_id j \<and> job_service_id (f j) = job_service_id j
        \<and> job_operation (f j) = job_operation j)"

lemma job_updates_keep_scope:
  "keeps_scope (canceled_job env)" "keeps_scope (released_job env state)"
  "keeps_scope (leased_job env aid n fence expires)" "keeps_scope (finished_job env state)"
  "keeps_scope (\<lambda>j. j\<lparr>job_lease_expires_at := Some t, job_updated_at := u\<rparr>)"
  by (simp_all add: keeps_scope_def canceled_job_def released_job_def leased_job_def finished_job_def)

definition build_kind :: "string \<Rightarrow> bool" where
  "build_kind kind \<longleftrightarrow> kind = ''source_repository_read'' \<or> kind = ''build_environment''"

lemma resolve_refs_kinds:
  "resolve_refs ext db account project service refs seen_v seen_s acc = Inr resolved \<Longrightarrow>
     \<forall>(s, v, k) \<in> set acc. build_kind k \<Longrightarrow> \<forall>(s, v, k) \<in> set resolved. build_kind k"
proof (induction refs arbitrary: seen_v seen_s acc)
  case (Cons ref refs)
  then obtain vid sid kind where k: "build_kind kind"
    and rest: "resolve_refs ext db account project service refs (insert vid seen_v) (insert sid seen_s)
       (acc @ [(sid, vid, kind)]) = Inr resolved"
    by (auto simp: build_kind_def split: sum.splits option.splits if_splits prod.splits)
  from Cons.IH [OF rest] k Cons.prems(2) show ?case by auto
qed simp

locale job_frame =
  fixes rel :: "'v job_db \<Rightarrow> 'v job_db \<Rightarrow> bool"
  assumes rel_refl: "rel db db"
    and rel_trans: "rel db db1 \<Longrightarrow> rel db1 db2 \<Longrightarrow> rel db db2"
    and insert_job_rel: "insert_job j db = Some db' \<Longrightarrow> rel db db'"
    and update_jobs_rel: "keeps_scope f \<Longrightarrow> update_jobs p f db = Some db' \<Longrightarrow> rel db db'"
    and insert_attempt_rel: "insert_attempt a db = Some db' \<Longrightarrow> rel db db'"
    and update_attempts_rel: "update_attempts q g db = Some db' \<Longrightarrow> rel db db'"
    and insert_secret_ref_rel:
      "build_kind (ref_credential_kind s) \<Longrightarrow> insert_secret_ref s db = Some db' \<Longrightarrow> rel db db'"
    and insert_effect_rel: "insert_effect e db = Some db' \<Longrightarrow> rel db db'"
    and insert_audit_rel: "insert_audit d db = Some db' \<Longrightarrow> rel db db'"
    and insert_record_rel:
      "insert_record r (db_idempotency db) = Some rs \<Longrightarrow> rel db (db\<lparr>db_idempotency := rs\<rparr>)"
begin

lemma insert_effect_or_keep_rel: "insert_effect_or_keep e db = Some db' \<Longrightarrow> rel db db'"
  by (auto simp: insert_effect_or_keep_def rel_refl split: if_splits intro: insert_effect_rel)

lemma insert_refs_rel:
  "insert_refs acc proj svc jid refs db = Some db' \<Longrightarrow> \<forall>(s, v, k) \<in> set refs. build_kind k \<Longrightarrow> rel db db'"
proof (induction refs arbitrary: db)
  case (Cons r refs)
  then show ?case
    by (cases r) (auto split: option.splits intro: rel_trans dest!: insert_secret_ref_rel [rotated])
qed (simp add: rel_refl)

lemma bind_refs_rel:
  "resolve_refs ext db account project service refs {} {} [] = Inr resolved \<Longrightarrow>
     insert_refs acc proj svc jid resolved db1 = Some db2 \<Longrightarrow> rel db1 db2"
  using resolve_refs_kinds [of ext db account project service refs "{}" "{}" "[]" resolved]
  by (intro insert_refs_rel) auto

lemma store_effect_rel: "store_effect ext j request hash response db = Inr db' \<Longrightarrow> rel db db'"
  by (auto simp: store_effect_def rel_refl split: option.splits if_splits intro: insert_effect_rel)

lemma with_records_rel:
  "with_records db (store_replay tv (db_idempotency db) a op k h s x) = Inr db' \<Longrightarrow> rel db db'"
  by (auto simp: with_records_def store_replay_def split: sum.splits option.splits intro: insert_record_rel)

lemmas rels =
  insert_job_rel job_updates_keep_scope [THEN update_jobs_rel] insert_attempt_rel update_attempts_rel
  insert_effect_rel insert_audit_rel insert_effect_or_keep_rel store_effect_rel with_records_rel

lemma create_rel: "create_job_tx ext env auth path headers req db = Commit db' r \<Longrightarrow> rel db db'"
  by (auto simp: create_job_tx_def create_new_job_def audit_def tx_simps Let_def rel_refl
      dest!: rels) (meson rel_trans bind_refs_rel)+

lemma cancel_rel:
  "cancel_job_tx ext env auth proj_path job_path headers db = Commit db' r \<Longrightarrow> rel db db'"
  by (auto simp: cancel_job_tx_def cancel_known_job_def cancel_attempt_def audit_def tx_simps Let_def rel_refl
      split: option.splits dest!: rels) (meson rel_trans)+

lemma reap_rel: "reap_tx ext env db = Commit db' r \<Longrightarrow> rel db db'"
  by (auto simp: reap_tx_def expire_attempt_def worker_audit_def tx_simps Let_def rel_refl
      split: if_splits dest!: rels) (meson rel_trans)+

lemma lease_rel: "lease_tx ext secs env w db = Commit db' r \<Longrightarrow> rel db db'"
  by (auto simp: lease_tx_def worker_audit_def tx_simps Let_def rel_refl dest!: rels) (meson rel_trans)+

lemma renew_rel: "renew_tx ext secs env path req db = Commit db' r \<Longrightarrow> rel db db'"
  by (auto simp: renew_tx_def worker_audit_def tx_simps Let_def rel_refl split: bool.splits dest!: rels)
     (meson rel_trans)+

lemma complete_live_rel: "complete_live ext env j req hash db = Commit db' r \<Longrightarrow> rel db db'"
  by (cases "effective_outcome j req")
     (auto simp: complete_live_def finish_attempt_def worker_audit_def tx_simps Let_def simp del: if_Commit
       dest!: rels, (meson rel_trans)+)

lemma complete_rel: "complete_tx ext env path req db = Commit db' r \<Longrightarrow> rel db db'"
  by (auto simp: complete_tx_def tx_simps rel_refl split: bool.splits if_splits
      dest!: complete_live_rel replay_retry_commit replay_terminal_commit)

lemma run_tx_rel:
  assumes "\<And>db' r. body = Commit db' r \<Longrightarrow> rel db db'"
  shows "rel db (fst (run_tx db body))"
  using assms by (cases body) (auto simp: run_tx_def rel_refl)

lemma step_rel: "job_step ext db db' \<Longrightarrow> rel db db'"
  by (erule job_stepE)
     (simp_all only: create_job_def cancel_job_def renew_job_def complete_job_def,
      (rule run_tx_rel, erule create_rel cancel_rel reap_rel lease_rel renew_rel complete_rel)+)

lemma steps_rel: "(job_step ext)\<^sup>*\<^sup>* db db' \<Longrightarrow> rel db db'"
  by (induction rule: rtranclp_induct) (blast intro: rel_refl rel_trans step_rel)+

end

text \<open>The table of stored responses only grows.\<close>

abbreviation log_extends :: "'v job_db \<Rightarrow> 'v job_db \<Rightarrow> bool" where
  "log_extends db db' \<equiv> responses.extends\<^sup>*\<^sup>* (db_idempotency db) (db_idempotency db')"

interpretation log_frame: job_frame log_extends
  by unfold_locales
     (auto simp: insert_job_def update_jobs_def insert_attempt_def update_attempts_def
        insert_secret_ref_def insert_effect_def insert_audit_def split: if_splits
        dest: insert_record_extends)

end
