(* ===== verification/Job_Properties.thy ===== *)
theory Job_Properties
  imports Job_Runs
begin

text \<open>
  What the job endpoints guarantee in every reachable store: leases, fences and effects
  (C13 to C19), repeated requests (C20, C21), the scope of what an owner can cancel or bind
  (C22, C23), and that expired leases are released (C24).
\<close>

section \<open>Leases, effects and counters\<close>

text \<open>
  C13. One live lease: in every store reachable by owners, workers and the reaper in any order, a
  job has a running attempt exactly when it is running, and then exactly one, which is its current
  attempt and carries its current fence and expiry.
\<close>

theorem at_most_one_live_lease:
  assumes "reachable no_jobs (job_step ext) db" and "j \<in> set (db_jobs db)"
  shows "if job_state j = ''running''
    then \<exists>a. filter (\<lambda>a. at_state a = ''running'') (attempts_of db (job_id j)) = [a]
           \<and> job_current_attempt_id j = Some (at_id a) \<and> at_fence a = job_current_fence j
           \<and> job_lease_expires_at j = Some (at_lease_expires_at a)
    else filter (\<lambda>a. at_state a = ''running'') (attempts_of db (job_id j)) = []"
proof -
  have life: "lifecycle j (attempts_of db (job_id j)) (effects_of db (job_id j))"
    using jobs_inv_lifecycle [OF jobs.reachable_inv [OF assms(1)] assms(2)] .
  show ?thesis
  proof (cases "job_state j = ''running''")
    case True
    with running_lease [OF life True] lifecycle_running_attempts [OF life] show ?thesis
      by (simp add: leased_def)
  next
    case False
    with lifecycle_running_attempts [OF life] show ?thesis by simp
  qed
qed

text \<open>
  C14. Exactly one effect: in every reachable store a job that has succeeded or failed has exactly
  one recorded effect, with the job's outcome, fence and last attempt; every other job has none.
\<close>

theorem one_effect_per_settled_job:
  assumes "reachable no_jobs (job_step ext) db" and "j \<in> set (db_jobs db)"
  shows "if job_state j = ''succeeded'' \<or> job_state j = ''failed''
    then \<exists>e. effects_of db (job_id j) = [e] \<and> eff_outcome_state e = job_state j
           \<and> eff_fence e = job_current_fence j
           \<and> eff_attempt_id e = at_id (last (attempts_of db (job_id j)))
    else effects_of db (job_id j) = []"
  using jobs_inv_lifecycle [OF jobs.reachable_inv [OF assms(1)] assms(2)]
  by (auto simp: lifecycle_def phase_ok_def settled_def split: if_splits)

text \<open>
  C15. Counters: in every reachable store a job has had at most three attempts, their fences are
  1, 2, ... in order, its current fence is the last of them (one more once canceled), and its
  revision is at most eight: none of the \<open>i64\<close> and \<open>i32\<close> additions of the handlers can overflow.
\<close>

theorem job_counters_bounded:
  assumes "reachable no_jobs (job_step ext) db" and "j \<in> set (db_jobs db)"
  shows "map at_fence (attempts_of db (job_id j)) = [1..job_attempt_count j]
    \<and> job_attempt_count j \<le> 3
    \<and> job_current_fence j = job_attempt_count j + (if job_state j = ''canceled'' then 1 else 0)
    \<and> 1 \<le> job_revision j \<and> job_revision j \<le> 8"
proof -
  have life: "lifecycle j (attempts_of db (job_id j)) (effects_of db (job_id j))"
    using jobs_inv_lifecycle [OF jobs.reachable_inv [OF assms(1)] assms(2)] .
  then show ?thesis
    using lifecycle_bounds [OF life] by (auto simp: lifecycle_def attempt_log_def)
qed

text \<open>
  C16. Terminal states are final: along any further steps, a job that has succeeded, failed or been
  canceled keeps its row, its attempts and its effects unchanged.
\<close>

theorem terminal_jobs_are_final:
  assumes "reachable no_jobs (job_step ext) db" and "(job_step ext)\<^sup>*\<^sup>* db db'"
    and "j \<in> set (db_jobs db)" and "terminal j"
  shows "j \<in> set (db_jobs db') \<and> attempts_of db' (job_id j) = attempts_of db (job_id j)
    \<and> effects_of db' (job_id j) = effects_of db (job_id j)"
  using steps_keep_terminal [OF assms(2) jobs.reachable_inv [OF assms(1)] assms(3,4)]
  by (simp add: keeps_def)

text \<open>
  C17. Leasing: a granted lease goes to the claimable job, among those no other transaction holds
  locked, that was created first; the job becomes running under the returned attempt, worker and
  fence, the fence is above that of every earlier attempt, and no other job changes.
\<close>

theorem lease_grants_oldest_claimable:
  assumes reach: "reachable no_jobs (job_step ext) db"
    and lease: "run_tx db (lease_tx ext secs env worker db) = (db', Inr (Some resp))"
  shows "\<exists>j \<in> set (db_jobs db). \<exists>j' \<in> set (db_jobs db').
      job_state j \<in> {''queued'', ''retriable''}
    \<and> (\<forall>i \<in> set (db_jobs db). job_state i \<in> {''queued'', ''retriable''} \<and> job_id i \<notin> env_locked env
         \<longrightarrow> (job_created_at j, job_id j) \<le> (job_created_at i, job_id i))
    \<and> job_id j' = job_id j \<and> job_state j' = ''running''
    \<and> job_current_attempt_id j' = Some (al_id (lres_attempt resp))
    \<and> job_current_fence j' = int (al_fence (lres_attempt resp))
    \<and> al_worker_id (lres_attempt resp) = worker
    \<and> (\<forall>a \<in> set (attempts_of db (job_id j)). at_fence a < int (al_fence (lres_attempt resp)))
    \<and> (\<forall>i \<in> set (db_jobs db). i \<noteq> j \<longrightarrow> keeps i db db')"
proof -
  note inv = jobs.reachable_inv [OF reach]
  obtain j where l: "leases env secs worker db j db'" and r: "al_id (lres_attempt resp) = env_fresh env 0"
      "al_worker_id (lres_attempt resp) = worker" "int (al_fence (lres_attempt resp)) = job_current_fence j + 1"
    using lease_tx_commit [OF inv run_tx_ok [OF lease]] by auto
  let ?j' = "leased_job env (env_fresh env 0) (job_attempt_count j + 1) (job_current_fence j + 1)
               (env_now env 0 + secs * second) j"
  have c: "claimable_job env db = Some j" using l by (simp add: leases_def)
  note cj = claimable_job_Some [OF c]
  obtain as es where rep: "replaces db j ?j' as es db'" using l by (auto simp: leases_def)
  have j': "?j' \<in> set (db_jobs db')" using replaces_jobs_set [OF rep inv] by simp
  have oldest: "(job_created_at j, job_id j) \<le> (job_created_at i, job_id i)"
    if i: "i \<in> set (db_jobs db)" "job_state i \<in> {''queued'', ''retriable''}" "job_id i \<notin> env_locked env" for i
  proof -
    have "job_attempt_count i < job_max_attempts i \<and> job_kind i = ''foundation_bookkeeping''"
      using jobs_inv_lifecycle [OF inv i(1)] i(2) attempt_log_length [of i "[]"]
      by (auto simp: lifecycle_def phase_ok_def job_check_def attempt_log_def)
    with i first_by_Some [OF c [unfolded claimable_job_def]] show ?thesis by auto
  qed
  have life: "lifecycle j (attempts_of db (job_id j)) (effects_of db (job_id j))"
    using jobs_inv_lifecycle [OF inv] cj by blast
  have "at_fence a \<le> job_current_fence j" if "a \<in> set (attempts_of db (job_id j))" for a
  proof -
    have "at_fence a \<in> set [1..job_attempt_count j]"
      using life that unfolding lifecycle_def attempt_log_def by (metis image_eqI list.set_map)
    with lifecycle_bounds [OF life] show ?thesis by auto
  qed
  then have fences: "\<forall>a \<in> set (attempts_of db (job_id j)). at_fence a < int (al_fence (lres_attempt resp))"
    using r(3) by force
  have others: "\<forall>i \<in> set (db_jobs db). i \<noteq> j \<longrightarrow> keeps i db db'"
    using replaces_keeps [OF inv rep] by blast
  show ?thesis
    using cj j' oldest fences others r
    by (intro bexI [of _ j] bexI [of _ ?j']) (auto simp: leased_job_def)
qed

section \<open>Workers and their leases\<close>

definition holds_live_lease :: "tx_env \<Rightarrow> 'v job_db \<Rightarrow> job_row \<Rightarrow> uuid \<Rightarrow> int \<Rightarrow> string \<Rightarrow> bool" where
  "holds_live_lease env db j aid fence worker \<longleftrightarrow>
     job_state j = ''running'' \<and> job_current_attempt_id j = Some aid \<and> job_current_fence j = fence
     \<and> (\<exists>a \<in> set (attempts_of db (job_id j)). at_id a = aid \<and> at_worker_id a = worker)
     \<and> (\<exists>t. job_lease_expires_at j = Some t \<and> env_now env 0 < t)"

lemma completes_holds:
  assumes inv: "jobs_inv db" and c: "completes ext env request hash db j response db'"
  shows "holds_live_lease env db j (cr_attempt_id request) (cr_fence request) (cr_worker_id request)"
proof -
  have j: "j \<in> set (db_jobs db)" "job_state j = ''running''" using c by (simp_all add: completes_def)
  note lease = running_lease [OF jobs_inv_lifecycle [OF inv j(1)] j(2)]
  with c j show ?thesis by (auto simp: holds_live_lease_def completes_def leased_def)
qed

lemma renews_holds:
  assumes inv: "jobs_inv db" and c: "renews env secs request db j db'"
  shows "holds_live_lease env db j (lir_attempt_id request) (lir_fence request) (lir_worker_id request)"
proof -
  have j: "j \<in> set (db_jobs db)" "job_state j = ''running''" using c by (simp_all add: renews_def)
  note lease = running_lease [OF jobs_inv_lifecycle [OF inv j(1)] j(2)]
  with c j show ?thesis by (auto simp: holds_live_lease_def renews_def leased_def)
qed

lemma complete_job_changed:
  assumes inv: "jobs_inv db" and "fst (complete_job ext env path request db) \<noteq> db"
  shows "\<exists>j \<in> set (db_jobs db). path_uuid (ext_parse_uuid ext) path = Inr (job_id j)
    \<and> holds_live_lease env db j (cr_attempt_id request) (cr_fence request) (cr_worker_id request)"
proof -
  obtain r where "complete_tx ext env path request db = Commit (fst (complete_job ext env path request db)) r"
    using run_tx_changed [of db "complete_tx ext env path request db" "fst (complete_job ext env path request db)"]
      assms(2) by (metis complete_job_def prod.collapse)
  with complete_tx_commit [OF inv this] assms(2) completes_holds [OF inv] show ?thesis
    by (metis completes_def)
qed

lemma renew_job_changed:
  assumes inv: "jobs_inv db" and "fst (renew_job ext secs env path request db) \<noteq> db"
  shows "\<exists>j \<in> set (db_jobs db). path_uuid (ext_parse_uuid ext) path = Inr (job_id j)
    \<and> holds_live_lease env db j (lir_attempt_id request) (lir_fence request) (lir_worker_id request)"
proof -
  obtain r where "renew_tx ext secs env path request db = Commit (fst (renew_job ext secs env path request db)) r"
    using run_tx_changed [of db "renew_tx ext secs env path request db" "fst (renew_job ext secs env path request db)"]
      assms(2) by (metis renew_job_def prod.collapse)
  with renew_tx_commit [OF inv this] renews_holds [OF inv] show ?thesis
    by (metis renews_def)
qed

text \<open>
  C18. Fencing: in every reachable store, unless the worker holds the live lease of the job, that
  is, names its current attempt and fence under its own worker id before the expiry, neither its
  completion report nor its renewal changes the store, however late or often it is sent.
\<close>

theorem stale_worker_changes_nothing:
  assumes "reachable no_jobs (job_step ext) db"
    and "ext_parse_uuid ext path = Some (job_id j)" and "j \<in> set (db_jobs db)"
    and "\<not> holds_live_lease env db j aid fence worker"
  shows "fst (complete_job ext env path
           \<lparr>cr_worker_id = worker, cr_attempt_id = aid, cr_fence = fence, cr_outcome = outcome\<rparr> db) = db
    \<and> fst (renew_job ext secs env path
           \<lparr>lir_worker_id = worker, lir_attempt_id = aid, lir_fence = fence\<rparr> db) = db"
proof -
  note inv = jobs.reachable_inv [OF assms(1)]
  have "i = j" if "i \<in> set (db_jobs db)" "path_uuid (ext_parse_uuid ext) path = Inr (job_id i)" for i
    using that assms(2,3) job_unique [OF inv] by (simp add: path_uuid_def)
  with assms(4) complete_job_changed [OF inv, of ext env path] renew_job_changed [OF inv, of ext secs env path]
  show ?thesis by fastforce
qed

text \<open>
  C19. Canceling takes the job away from its worker: for a canceled job every well-formed
  completion report and every renewal is answered \<open>job_fenced\<close> and changes nothing.
\<close>

theorem canceled_job_refuses_workers:
  assumes "reachable no_jobs (job_step ext) db" and "ext_parse_uuid ext path = Some (job_id j)"
    and "j \<in> set (db_jobs db)" and "job_state j = ''canceled''"
    and "valid_worker_id (cr_worker_id request)" and "0 < cr_fence request"
    and "valid_outcome (cr_outcome request)" and "ext_complete_bytes ext request \<noteq> None"
  shows "complete_job ext env path request db = (db, Inl fenced)
    \<and> renew_job ext secs env path renewal db = (db, Inl fenced)"
proof -
  note inv = jobs.reachable_inv [OF assms(1)]
  have none: "held_lease db (job_id j) aid fence w = None" for aid fence w
  proof (rule ccontr)
    assume "held_lease db (job_id j) aid fence w \<noteq> None"
    then obtain i a where "held_lease db (job_id j) aid fence w = Some (i, a)" by auto
    then have "i \<in> set (db_jobs db)" "job_id i = job_id j" "job_state i = ''running''"
      using held_lease_Some by blast+
    moreover from this have "i = j" by (intro job_unique [OF inv _ assms(3)])
    ultimately show False using assms(4) by simp
  qed
  have "find (\<lambda>i. job_id i = job_id j) (db_jobs db) = Some j"
    using assms(3) job_unique [OF inv _ assms(3)]
    by (cases "find (\<lambda>i. job_id i = job_id j) (db_jobs db)") (auto simp: find_None_iff dest: find_SomeD)
  with none assms show ?thesis
    by (auto simp: complete_job_def complete_tx_def renew_job_def renew_tx_def try_result_def path_uuid_def
        request_hash_def run_tx_def split: option.splits)
qed

section \<open>Repeated reports\<close>

definition settled_by ::
  "'v job_ext \<Rightarrow> 'v job_db \<Rightarrow> job_row \<Rightarrow> complete_request \<Rightarrow> string \<Rightarrow> complete_response \<Rightarrow> bool" where
  "settled_by ext db j request hash response \<longleftrightarrow>
     j \<in> set (db_jobs db) \<and> (job_state j = ''succeeded'' \<or> job_state j = ''failed'')
     \<and> job_current_attempt_id j = Some (cr_attempt_id request) \<and> job_current_fence j = cr_fence request
     \<and> at_worker_id (last (attempts_of db (job_id j))) = cr_worker_id request
     \<and> (\<exists>e. effects_of db (job_id j) = [e] \<and> eff_completion_hash e = hash
           \<and> ext_complete_from_value ext (eff_response_body e) = Some response)"

lemma find_job_by_id:
  "jobs_inv db \<Longrightarrow> j \<in> set (db_jobs db) \<Longrightarrow> find (\<lambda>i. job_id i = job_id j) (db_jobs db) = Some j"
  by (rule find_unique) (auto intro: job_unique)

lemma attempt_unique:
  "jobs_inv db \<Longrightarrow> a \<in> set (attempts_of db k) \<Longrightarrow> b \<in> set (attempts_of db l) \<Longrightarrow> at_id a = at_id b \<Longrightarrow> a = b"
  by (auto simp: jobs_inv_def distinct_map attempts_of_iff inj_on_def)

lemma settled_effect:
  assumes inv: "jobs_inv db" and s: "settled_by ext db j request hash response"
  shows "\<exists>e. effects_of db (job_id j) = [e] \<and> eff_job_id e = job_id j
    \<and> eff_account_id e = job_account_id j \<and> eff_project_id e = job_project_id j
    \<and> eff_attempt_id e = cr_attempt_id request \<and> eff_fence e = cr_fence request
    \<and> eff_completion_hash e = hash \<and> ext_complete_from_value ext (eff_response_body e) = Some response"
proof -
  have j: "j \<in> set (db_jobs db)" using s by (simp add: settled_by_def)
  note life = jobs_inv_lifecycle [OF inv j]
  obtain e where e: "effects_of db (job_id j) = [e]" "eff_completion_hash e = hash"
      "ext_complete_from_value ext (eff_response_body e) = Some response"
    using s by (auto simp: settled_by_def)
  have "eff_job_id e = job_id j" using e(1) effects_of_iff [of e db "job_id j"] by simp
  moreover have "settled j (attempts_of db (job_id j)) (effects_of db (job_id j))"
    using life s by (auto simp: lifecycle_def phase_ok_def settled_by_def)
  ultimately show ?thesis using e s by (auto simp: settled_def settled_by_def)
qed

lemma replay_settled:
  assumes inv: "jobs_inv db" and s: "settled_by ext db j request hash response"
  shows "replay_terminal ext j request hash db = Commit db (Inr response)"
proof -
  let ?as = "attempts_of db (job_id j)"
  have j: "j \<in> set (db_jobs db)" using s by (simp add: settled_by_def)
  note life = jobs_inv_lifecycle [OF inv j]
  have cur: "?as \<noteq> []" "at_id (last ?as) = cr_attempt_id request" "at_fence (last ?as) = cr_fence request"
    using settled_current [OF life] s by (auto simp: settled_by_def)
  then have a: "last ?as \<in> set ?as" by simp
  then have scope: "at_account_id (last ?as) = job_account_id j" "at_project_id (last ?as) = job_project_id j"
      "at_job_id (last ?as) = job_id j" "last ?as \<in> set (db_attempts db)"
    using life by (auto simp: lifecycle_def attempt_log_def attempts_of_iff)
  obtain e where e: "effects_of db (job_id j) = [e]" "eff_job_id e = job_id j"
      "eff_account_id e = job_account_id j" "eff_project_id e = job_project_id j"
      "eff_attempt_id e = cr_attempt_id request" "eff_fence e = cr_fence request"
      "eff_completion_hash e = hash" "ext_complete_from_value ext (eff_response_body e) = Some response"
    using settled_effect [OF inv s] by blast
  have e_in: "e \<in> set (db_effects db)" using e(1) effects_of_iff [of e db "job_id j"] by simp
  have uniq: "x = last ?as \<and> y = e"
    if "x \<in> set (db_attempts db)" "y \<in> set (db_effects db)" "at_job_id x = job_id j"
       "at_id x = cr_attempt_id request" "eff_job_id y = at_job_id x" for x y
  proof
    have "x \<in> set ?as" using that by (simp add: attempts_of_iff)
    then show "x = last ?as" using a cur(2) that(4) by (intro attempt_unique [OF inv]) auto
    show "y = e" using that e(1) effects_of_iff [of y db "job_id j"] by auto
  qed
  define P where "P = (\<lambda>(a :: attempt_row, e :: 'a effect_row). eff_account_id e = at_account_id a \<and> eff_project_id e = at_project_id a
                 \<and> eff_job_id e = at_job_id a \<and> eff_attempt_id e = at_id a \<and> eff_fence e = at_fence a
                 \<and> at_account_id a = job_account_id j \<and> at_project_id a = job_project_id j
                 \<and> at_job_id a = job_id j \<and> at_id a = cr_attempt_id request
                 \<and> at_fence a = cr_fence request)"
  have "find P (List.product (db_attempts db) (db_effects db)) = Some (last ?as, e)"
  proof (rule find_unique)
    show "(last ?as, e) \<in> set (List.product (db_attempts db) (db_effects db))" using scope e_in by simp
    show "P (last ?as, e)" using scope cur e by (simp add: P_def)
    fix z assume z: "z \<in> set (List.product (db_attempts db) (db_effects db))" "P z"
    obtain x y where "z = (x, y)" by (cases z)
    with z uniq [of x y] show "z = (last ?as, e)" by (simp add: P_def)
  qed
  then show ?thesis
    using s e unfolding replay_terminal_def P_def by (simp add: settled_by_def)
qed

lemma completes_settled:
  assumes inv: "jobs_inv db" and c: "completes ext env request hash db j response db'"
    and eff: "cres_effect response \<noteq> None"
    and codec: "ext_complete_from_value ext (the (ext_complete_to_value ext response)) = Some response"
  shows "\<exists>j'. settled_by ext db' j' request hash response \<and> job_id j' = job_id j"
proof -
  obtain state code where out: "effective_outcome j request = (state, code)"
    by (cases "effective_outcome j request")
  let ?j' = "finished_job env state j"
  have st: "state = ''succeeded'' \<or> state = ''failed''"
    using effective_outcome_cases(1) [OF _ out] c eff out by (auto simp: completes_def)
  have rep: "replaces db j ?j' (butlast (attempts_of db (job_id j))
        @ [finished_attempt env state code hash (last (attempts_of db (job_id j)))])
      (completion_effects ext env j request hash response) db'"
    using c out by (simp add: completes_def)
  have run: "j \<in> set (db_jobs db)" "job_state j = ''running''"
    and id: "at_id (last (attempts_of db (job_id j))) = cr_attempt_id request"
      "at_worker_id (last (attempts_of db (job_id j))) = cr_worker_id request"
      "job_current_fence j = cr_fence request"
    using c by (simp_all add: completes_def)
  note lease = running_lease [OF jobs_inv_lifecycle [OF inv run(1)] run(2)]
  have "?j' \<in> set (db_jobs db')" using replaces_jobs_set [OF rep inv] by simp
  moreover have "attempts_of db' (job_id j) = butlast (attempts_of db (job_id j))
        @ [finished_attempt env state code hash (last (attempts_of db (job_id j)))]"
      "effects_of db' (job_id j) = completion_effects ext env j request hash response"
    using rep by (simp_all add: replaces_def)
  ultimately have "settled_by ext db' ?j' request hash response"
    using st lease id out codec
    by (auto simp: settled_by_def leased_def completion_effects_def finished_attempt_def)
  then show ?thesis by (intro exI [of _ ?j']) simp
qed

lemma replay_terminal_settled:
  assumes inv: "jobs_inv db" and j: "j \<in> set (db_jobs db)" "job_state j = ''succeeded'' \<or> job_state j = ''failed''"
    and cur: "job_current_attempt_id j = Some (cr_attempt_id request)" "job_current_fence j = cr_fence request"
    and r: "replay_terminal ext j request hash db = Commit db' (Inr response)"
  shows "settled_by ext db j request hash response"
proof -
  obtain a e where f: "(a, e) \<in> set (List.product (db_attempts db) (db_effects db))"
      "at_job_id a = job_id j" "at_id a = cr_attempt_id request" "eff_job_id e = at_job_id a"
    and w: "at_worker_id a = cr_worker_id request" "eff_completion_hash e = hash"
      "ext_complete_from_value ext (eff_response_body e) = Some response"
    using r by (auto simp: replay_terminal_def split: option.splits if_splits dest!: find_SomeD)
  have last: "attempts_of db (job_id j) \<noteq> []" "at_id (last (attempts_of db (job_id j))) = cr_attempt_id request"
    using settled_current [OF jobs_inv_lifecycle [OF inv j(1)] cur(1)] by auto
  then have "last (attempts_of db (job_id j)) \<in> set (attempts_of db (job_id j))" by simp
  moreover have "a \<in> set (attempts_of db (job_id j))" using f by (auto simp: attempts_of_iff)
  ultimately have "a = last (attempts_of db (job_id j))"
    using f(3) last(2) by (intro attempt_unique [OF inv]) auto
  moreover have "\<exists>e'. effects_of db (job_id j) = [e']"
    using jobs_inv_lifecycle [OF inv j(1)] j(2) by (auto simp: lifecycle_def phase_ok_def settled_def)
  then have "effects_of db (job_id j) = [e]"
    using f effects_of_iff [of e db "job_id j"] by auto
  ultimately show ?thesis using j cur w by (simp add: settled_by_def)
qed

lemma complete_tx_branches:
  assumes inv: "jobs_inv db" and j: "j \<in> set (db_jobs db)"
    and path: "ext_parse_uuid ext path = Some (job_id j)"
    and "valid_worker_id (cr_worker_id request)" and "0 < cr_fence request"
    and "valid_outcome (cr_outcome request)"
    and "request_hash (ext_complete_bytes ext) (ext_sha256 ext) request = Inr hash"
    and "settled_by ext db j request hash response"
  shows "complete_tx ext env path request db = replay_terminal ext j request hash db"
  using assms find_job_by_id [OF inv j]
  by (auto simp: complete_tx_def try_result_def path_uuid_def settled_by_def)

lemma complete_ok_settled:
  assumes inv: "jobs_inv db" and ok: "complete_tx ext env path request db = Commit db' (Inr response)"
    and eff: "cres_effect response \<noteq> None"
    and codec: "ext_complete_from_value ext (the (ext_complete_to_value ext response)) = Some response"
  shows "\<exists>j hash. settled_by ext db' j request hash response \<and> ext_parse_uuid ext path = Some (job_id j)
    \<and> valid_worker_id (cr_worker_id request) \<and> 0 < cr_fence request \<and> valid_outcome (cr_outcome request)
    \<and> request_hash (ext_complete_bytes ext) (ext_sha256 ext) request = Inr hash"
proof -
  obtain jid hash j where
    path: "ext_parse_uuid ext path = Some jid" and
    valid: "valid_worker_id (cr_worker_id request)" "0 < cr_fence request" "valid_outcome (cr_outcome request)" and
    hash: "request_hash (ext_complete_bytes ext) (ext_sha256 ext) request = Inr hash" and
    f: "find (\<lambda>j. job_id j = jid) (db_jobs db) = Some j" and
    branch: "replay_retry ext j request hash db = Commit db' (Inr response)
      \<or> (job_state j = ''succeeded'' \<or> job_state j = ''failed'') \<and> job_current_attempt_id j = Some (cr_attempt_id request)
         \<and> job_current_fence j = cr_fence request \<and> replay_terminal ext j request hash db = Commit db' (Inr response)
      \<or> (\<exists>h. held_lease db jid (cr_attempt_id request) (cr_fence request) (cr_worker_id request) = Some h
           \<and> lease_live env db jid (cr_attempt_id request) (cr_fence request) = Some True
           \<and> complete_live ext env j request hash db = Commit db' (Inr response))"
    using ok
    by (auto simp: complete_tx_def tx_simps path_uuid_def not_le split: bool.splits if_splits option.splits)
  have j: "j \<in> set (db_jobs db)" "job_id j = jid" using find_SomeD [OF f] by auto
  from branch consider
      (retry) "replay_retry ext j request hash db = Commit db' (Inr response)"
    | (stored) "settled_by ext db' j request hash response"
    | (live) h where "held_lease db (job_id j) (cr_attempt_id request) (cr_fence request) (cr_worker_id request) = Some h"
        "lease_live env db (job_id j) (cr_attempt_id request) (cr_fence request) = Some True"
        "complete_live ext env j request hash db = Commit db' (Inr response)"
    using replay_terminal_settled [OF inv j(1)] replay_terminal_commit j(2) by metis
  then show ?thesis
  proof cases
    case retry
    with eff have False by (auto simp: replay_retry_def tx_simps split: if_splits)
    then show ?thesis ..
  next
    case stored
    with path valid hash j show ?thesis by blast
  next
    case live
    obtain i a where h: "h = (i, a)" by (cases h)
    have "completes ext env request hash db j response db'"
      using complete_live_commit [OF inv live(1) [unfolded h] j(1) live(2) valid(3) live(3)] by auto
    from completes_settled [OF inv this eff codec] path valid hash j show ?thesis by metis
  qed
qed

text \<open>
  C20. Completion is idempotent: once a worker's report has settled a job, the same report sent
  again at any later time, whatever happened in between, gets the same response and changes
  nothing, provided the stored JSON body decodes to the response it encodes.
\<close>

theorem completion_is_idempotent:
  assumes reach: "reachable no_jobs (job_step ext) db"
    and first: "complete_job ext env path request db = (db1, Inr response)"
    and settles: "cres_effect response \<noteq> None"
    and codec: "ext_complete_from_value ext (the (ext_complete_to_value ext response)) = Some response"
    and later: "(job_step ext)\<^sup>*\<^sup>* db1 db2"
  shows "complete_job ext env' path request db2 = (db2, Inr response)"
proof -
  note inv = jobs.reachable_inv [OF reach]
  have commit: "complete_tx ext env path request db = Commit db1 (Inr response)"
    by (rule run_tx_ok [OF first [unfolded complete_job_def]])
  have "job_step ext db db1" using job_step.complete [of ext db env path request] first by simp
  then have inv1: "jobs_inv db1" by (rule job_step_inv [OF inv])
  note inv2 = jobs.steps_inv [OF later inv1]
  obtain j hash where s: "settled_by ext db1 j request hash response"
    and req: "ext_parse_uuid ext path = Some (job_id j)" "valid_worker_id (cr_worker_id request)"
      "0 < cr_fence request" "valid_outcome (cr_outcome request)"
      "request_hash (ext_complete_bytes ext) (ext_sha256 ext) request = Inr hash"
    using complete_ok_settled [OF inv commit settles codec] by blast
  have "keeps j db1 db2"
    using s by (intro steps_keep_terminal [OF later inv1]) (auto simp: settled_by_def terminal_def)
  then have s2: "settled_by ext db2 j request hash response" and j2: "j \<in> set (db_jobs db2)"
    using s by (auto simp: settled_by_def keeps_def)
  have "complete_tx ext env' path request db2 = Commit db2 (Inr response)"
    using complete_tx_branches [OF inv2 j2 req s2] replay_settled [OF inv2 s2] by simp
  then show ?thesis by (simp add: complete_job_def run_tx_Commit [OF inv2])
qed

section \<open>Owner requests\<close>

lemma with_records_stored:
  assumes "with_records db (store_replay tv (db_idempotency db) a op k h s x) = Inr db'"
    and "fv (the (tv x)) = Some x"
  shows "replay fv (db_idempotency db') a op k h = Inr (Match x)"
  using assms store_replay_found [of tv _ a op k h s x _ fv]
  by (auto simp: with_records_def split: sum.splits)

lemma create_new_job_stored:
  assumes "create_new_job ext env auth acc proj svc op key hash req db = Commit db' (Inr (s, resp))"
    and "ext_job_from_value ext (the (ext_job_to_value ext resp)) = Some resp"
  shows "replay (ext_job_from_value ext) (db_idempotency db') acc op key hash = Inr (Match resp)"
  using assms by (auto simp: create_new_job_def tx_simps Let_def dest!: with_records_stored)

lemma create_ok_stored:
  assumes "create_job_tx ext env auth path headers request db = Commit db' (Inr (s, resp))"
    and "ext_job_from_value ext (the (ext_job_to_value ext resp)) = Some resp"
    and log: "responses.extends\<^sup>*\<^sup>* (db_idempotency db') (db_idempotency db2)"
  shows "create_job_tx ext env' auth path headers request db2 = Commit db2 (Inr (201, resp))"
proof -
  obtain account project service key hash where
    pre: "cjr_kind request = JOB_KIND" "cjr_operation request = JOB_OPERATION"
      "valid_source_commit (cjr_source_commit request)"
      "length (cjr_secret_version_refs request) \<le> MAX_SECRET_REFS"
      "account_uuid ext auth = Inr account" "path_uuid (ext_parse_uuid ext) path = Inr project"
      "path_uuid (ext_parse_uuid ext) (cjr_service_id request) = Inr service"
      "idempotency_key headers = Inr key"
      "request_hash (ext_create_bytes ext) (ext_sha256 ext) request = Inr hash"
    and found: "replay (ext_job_from_value ext) (db_idempotency db') account
        (''job.create/'' @ ext_show_uuid ext project) key hash = Inr (Match resp)"
    using assms(1,2)
    by (auto simp: create_job_tx_def tx_simps Let_def not_less dest!: create_new_job_stored)
  have "replay (ext_job_from_value ext) (db_idempotency db2) account
        (''job.create/'' @ ext_show_uuid ext project) key hash = Inr (Match resp)"
    using replay_stable [OF log found] by simp
  with pre show ?thesis by (simp add: create_job_tx_def try_result_def Let_def)
qed

text \<open>
  C21. Creation is idempotent: after a successful creation, the same request under the same
  idempotency key returns the same record, at any later time, and creates nothing, provided the
  stored JSON body decodes to the record it encodes.
\<close>

theorem create_is_idempotent:
  assumes reach: "reachable no_jobs (job_step ext) db"
    and first: "create_job ext env auth path headers request db = (db1, Inr (status, response))"
    and codec: "ext_job_from_value ext (the (ext_job_to_value ext response)) = Some response"
    and later: "(job_step ext)\<^sup>*\<^sup>* db1 db2"
  shows "create_job ext env' auth path headers request db2 = (db2, Inr (201, response))"
proof -
  have "job_step ext db db1" using job_step.create [of ext db env auth path headers request] first by simp
  then have inv2: "jobs_inv db2"
    using job_step_inv [OF jobs.reachable_inv [OF reach]] jobs.steps_inv [OF later] by blast
  have "create_job_tx ext env auth path headers request db = Commit db1 (Inr (status, response))"
    by (rule run_tx_ok [OF first [unfolded create_job_def]])
  then have "create_job_tx ext env' auth path headers request db2 = Commit db2 (Inr (201, response))"
    by (rule create_ok_stored [OF _ codec log_frame.steps_rel [OF later]])
  then show ?thesis by (simp add: create_job_def run_tx_Commit [OF inv2])
qed

lemma cancel_job_changed:
  assumes inv: "jobs_inv db" and commit: "cancel_job_tx ext env auth proj_path job_path headers db = Commit db' r"
  shows "same_jobs db db' \<or> (\<exists>j account. cancels env db j db' \<and> account_uuid ext auth = Inr account
     \<and> job_account_id j = account \<and> path_uuid (ext_parse_uuid ext) job_path = Inr (job_id j)
     \<and> if_match_revision headers = Inr (job_revision j))"
  using commit
  by (auto simp: cancel_job_tx_def tx_simps Let_def audit_def
        dest!: audit_same_jobs cancel_known_job_commit [OF inv])

text \<open>
  C22. Cancellation: if a cancel request changes the job table at all, then exactly one job
  changes; it belongs to the caller's account, is the one the path names, had the revision the
  \<open>If-Match\<close> header states and was not terminal, and it is now canceled under a higher fence.
\<close>

theorem cancel_changes_only_own_job:
  assumes reach: "reachable no_jobs (job_step ext) db"
    and changed: "db_jobs (fst (cancel_job ext env auth project_path job_path headers db)) \<noteq> db_jobs db"
  shows "\<exists>j \<in> set (db_jobs db). \<exists>j'. account_uuid ext auth = Inr (job_account_id j)
      \<and> ext_parse_uuid ext job_path = Some (job_id j)
      \<and> if_match_revision headers = Inr (job_revision j) \<and> \<not> terminal j
      \<and> job_id j' = job_id j \<and> job_state j' = ''canceled'' \<and> job_current_fence j' = job_current_fence j + 1
      \<and> set (db_jobs (fst (cancel_job ext env auth project_path job_path headers db)))
          = insert j' (set (db_jobs db) - {j})"
proof -
  note inv = jobs.reachable_inv [OF reach]
  let ?db' = "fst (cancel_job ext env auth project_path job_path headers db)"
  obtain r where "cancel_job_tx ext env auth project_path job_path headers db = Commit ?db' r"
    using run_tx_changed [of db "cancel_job_tx ext env auth project_path job_path headers db" ?db']
      changed by (metis cancel_job_def prod.collapse)
  from cancel_job_changed [OF inv this] changed obtain j where
    c: "cancels env db j ?db'" and own: "account_uuid ext auth = Inr (job_account_id j)"
      "path_uuid (ext_parse_uuid ext) job_path = Inr (job_id j)"
      "if_match_revision headers = Inr (job_revision j)"
    by (auto simp: same_jobs_def)
  have j: "j \<in> set (db_jobs db)" "\<not> terminal j" using c by (auto simp: cancels_def terminal_def)
  have "set (db_jobs ?db') = insert (canceled_job env j) (set (db_jobs db) - {j})"
    using c replaces_jobs_set [OF _ inv] by (auto simp: cancels_def)
  with j own show ?thesis
    by (intro bexI [of _ j] exI [of _ "canceled_job env j"])
       (auto simp: canceled_job_def path_uuid_def split: option.splits)
qed

section \<open>Secrets bound to a job\<close>

definition bindable :: "'v job_db \<Rightarrow> uuid \<Rightarrow> uuid \<Rightarrow> uuid \<Rightarrow> uuid \<times> uuid \<times> string \<Rightarrow> bool" where
  "bindable db account project service = (\<lambda>(sid, vid, kind).
     kind \<in> {''source_repository_read'', ''build_environment''}
     \<and> (\<exists>s \<in> set (db_secrets db). secret_id s = sid \<and> secret_status s = ''active''
          \<and> secret_operation s = ''build'' \<and> secret_credential_kind s = kind
          \<and> secret_account_id s = account \<and> secret_project_id s = project \<and> secret_service_id s = service)
     \<and> (\<exists>v \<in> set (db_secret_versions db). version_id v = vid \<and> version_secret_id v = sid))"

lemma secret_metadata_Some:
  assumes "secret_metadata db account project service vid = Some (sid, operation, kind)"
  shows "\<exists>s \<in> set (db_secrets db). secret_id s = sid \<and> secret_status s = ''active''
      \<and> secret_operation s = operation \<and> secret_credential_kind s = kind
      \<and> secret_account_id s = account \<and> secret_project_id s = project \<and> secret_service_id s = service
      \<and> (\<exists>v \<in> set (db_secret_versions db). version_id v = vid \<and> version_secret_id v = sid)"
  using assms unfolding secret_metadata_def by (fastforce dest: find_SomeD)

lemma secret_metadata_bindable:
  assumes "secret_metadata db account project service vid = Some (sid, JOB_OPERATION, kind)"
    and "kind \<in> {''source_repository_read'', ''build_environment''}"
  shows "bindable db account project service (sid, vid, kind)"
  using secret_metadata_Some [OF assms(1)] assms(2) by (auto simp: bindable_def JOB_OPERATION_def)

lemma resolve_refs_bindable:
  "resolve_refs ext db account project service refs seen_v seen_s acc = Inr resolved \<Longrightarrow>
     list_all (bindable db account project service) acc \<Longrightarrow> list_all (bindable db account project service) resolved"
proof (induction refs arbitrary: seen_v seen_s acc)
  case (Cons ref refs)
  then obtain vid sid kind where
    m: "secret_metadata db account project service vid = Some (sid, JOB_OPERATION, kind)"
      "kind \<in> {''source_repository_read'', ''build_environment''}"
    and rest: "resolve_refs ext db account project service refs (insert vid seen_v) (insert sid seen_s)
       (acc @ [(sid, vid, kind)]) = Inr resolved"
    by (auto split: sum.splits option.splits if_splits prod.splits)
  from secret_metadata_bindable [OF m] Cons.IH [OF rest] Cons.prems(2) show ?case by simp
qed simp

lemma insert_refs_bound:
  "insert_refs account project service jid resolved db = Some db' \<Longrightarrow>
     r \<in> set (db_secret_refs db') \<Longrightarrow> r \<notin> set (db_secret_refs db) \<Longrightarrow>
     ref_account_id r = account \<and> ref_project_id r = project \<and> ref_service_id r = service
     \<and> ref_job_id r = jid \<and> ref_operation r = ''build''
     \<and> (ref_secret_id r, ref_secret_version_id r, ref_credential_kind r) \<in> set resolved"
proof (induction resolved arbitrary: db)
  case (Cons x resolved)
  obtain sid vid kind where x: "x = (sid, vid, kind)" by (cases x)
  with Cons.prems(1) obtain db1 where
    i: "insert_secret_ref \<lparr>ref_account_id = account, ref_project_id = project, ref_service_id = service,
          ref_job_id = jid, ref_secret_id = sid, ref_secret_version_id = vid,
          ref_operation = JOB_OPERATION, ref_credential_kind = kind\<rparr> db = Some db1"
    and rest: "insert_refs account project service jid resolved db1 = Some db'"
    by (auto split: option.splits)
  show ?case
  proof (cases "r \<in> set (db_secret_refs db1)")
    case True
    with i Cons.prems(3) x show ?thesis
      by (auto simp: insert_secret_ref_def JOB_OPERATION_def split: if_splits)
  next
    case False
    with Cons.IH [OF rest Cons.prems(2)] show ?thesis by auto
  qed
qed simp

lemma refs_kept:
  "insert_job j db = Some db' \<Longrightarrow> db_secret_refs db' = db_secret_refs db"
  "insert_audit e db = Some db' \<Longrightarrow> db_secret_refs db' = db_secret_refs db"
  "with_records db r = Inr db' \<Longrightarrow> db_secret_refs db' = db_secret_refs db"
  by (auto simp: insert_job_def insert_audit_def with_records_def split: if_splits sum.splits)

text \<open>
  C23. Least privilege at creation: every secret reference a created job gains is bound to that
  job, in the caller's account and in the project and service of the request, and names a version
  of an active secret of that service whose operation is \<open>build\<close> and whose kind is repository
  access or build environment; production and management credentials are never bound.
\<close>

theorem created_job_binds_only_build_secrets:
  assumes "create_job ext env auth path headers request db = (db', Inr (status, response))"
    and "r \<in> set (db_secret_refs db')" and "r \<notin> set (db_secret_refs db)"
  shows "account_uuid ext auth = Inr (ref_account_id r)
    \<and> ext_parse_uuid ext path = Some (ref_project_id r)
    \<and> ext_parse_uuid ext (cjr_service_id request) = Some (ref_service_id r)
    \<and> ref_job_id r = env_fresh env 0 \<and> ref_operation r = ''build''
    \<and> bindable db (ref_account_id r) (ref_project_id r) (ref_service_id r)
        (ref_secret_id r, ref_secret_version_id r, ref_credential_kind r)"
proof -
  have commit: "create_job_tx ext env auth path headers request db = Commit db' (Inr (status, response))"
    by (rule run_tx_ok [OF assms(1) [unfolded create_job_def]])
  obtain account project service resolved and db1 db2 :: "'a job_db" where
    ids: "account_uuid ext auth = Inr account" "path_uuid (ext_parse_uuid ext) path = Inr project"
      "path_uuid (ext_parse_uuid ext) (cjr_service_id request) = Inr service" and
    res: "resolve_refs ext db account project service (cjr_secret_version_refs request) {} {} [] = Inr resolved" and
    ins: "insert_refs account project service (env_fresh env 0) resolved db1 = Some db2" and
    refs: "db_secret_refs db1 = db_secret_refs db" "db_secret_refs db' = db_secret_refs db2"
    using commit assms(2,3)
    by (auto simp: create_job_tx_def create_new_job_def tx_simps Let_def audit_def dest!: refs_kept)
  have "list_all (bindable db account project service) resolved"
    using resolve_refs_bindable [OF res] by simp
  with insert_refs_bound [OF ins, of r] assms(2,3) refs ids show ?thesis
    by (auto simp: list_all_iff path_uuid_def split: option.splits)
qed

section \<open>Expired leases are released\<close>

definition attempts_checked :: "'v job_db \<Rightarrow> bool" where
  "attempts_checked db \<longleftrightarrow> (\<forall>a \<in> set (db_attempts db). attempt_check a)"

lemma same_jobs_checked: "same_jobs db db' \<Longrightarrow> attempts_checked db \<Longrightarrow> attempts_checked db'"
  by (simp add: same_jobs_def attempts_checked_def)

abbreviation stays_checked :: "'v job_db \<Rightarrow> 'v job_db \<Rightarrow> bool" where
  "stays_checked db db' \<equiv> attempts_checked db \<longrightarrow> attempts_checked db'"

lemma kept_attempts_checked: "db_attempts db' = db_attempts db \<Longrightarrow> stays_checked db db'"
  by (simp add: attempts_checked_def)

lemma insert_attempt_checked: "insert_attempt a db = Some db' \<Longrightarrow> stays_checked db db'"
  by (auto simp: attempts_checked_def insert_attempt_def split: if_splits)

lemma update_attempts_checked: "update_attempts q g db = Some db' \<Longrightarrow> stays_checked db db'"
  by (auto simp: attempts_checked_def update_attempts_def split: if_splits)

interpretation checked_frame: job_frame stays_checked
  by unfold_locales (simp | erule insert_attempt_checked update_attempts_checked
   | rule kept_attempts_checked; clarsimp simp: insert_job_def update_jobs_def insert_secret_ref_def insert_effect_def
       insert_audit_def split: if_splits)+

interpretation checked_jobs: guarded_machine no_jobs "job_step ext" attempts_checked
proof unfold_locales
  show "attempts_checked db" if "no_jobs db" for db :: "'a job_db"
    using that by (simp add: no_jobs_def attempts_checked_def)
qed (auto dest: checked_frame.step_rel)

lemma finished_attempt_check:
  assumes "attempt_check a" and "s \<in> {''succeeded'', ''failed'', ''retriable'', ''expired'', ''canceled''}"
    and "1 \<le> length c" and "length c \<le> 64"
  shows "attempt_check (a\<lparr>at_state := s, at_finished_at := Some t, at_terminal_code := Some c\<rparr>)"
  using assms by (auto simp: attempt_check_def)

lemma released_job_check:
  assumes "lifecycle j as es" and "s = ''failed'' \<or> s = ''retriable''"
  shows "job_check (released_job env s j)"
proof -
  have "job_check j" using assms(1) by (simp add: lifecycle_def)
  moreover have "in_bigint (job_revision j + 1)" "0 < job_revision j + 1"
    using lifecycle_bounds [OF assms(1)] by (auto simp: in_bigint_def)
  ultimately show ?thesis using assms(2) by (auto simp: job_check_def released_job_def)
qed

lemma update_attempts_in:
  "update_attempts p f db = Some db' \<Longrightarrow> a \<in> set (db_attempts db) \<Longrightarrow> (if p a then f a else a) \<in> set (db_attempts db')"
  by (auto simp: update_attempts_def split: if_splits)

lemma reap_succeeds:
  assumes inv: "jobs_inv db" and checked: "attempts_checked db" and e: "expired_job env db = Some j"
    and fresh: "env_fresh env 0 \<notin> eff_id ` set (db_effects db)"
      "env_fresh env 1 \<notin> audit_row_id ` set (db_audit db)"
    and sha: "length (ext_sha256 ext ''failed:attempts_exhausted'') = 32"
  shows "\<exists>db'. reap_tx ext env db = Commit db' (Inr True)"
proof -
  let ?as = "attempts_of db (job_id j)"
  let ?aid = "at_id (last ?as)"
  let ?scope = "job_in_scope (job_account_id j) (job_project_id j) (job_id j)"
  have j: "j \<in> set (db_jobs db)" "job_state j = ''running''" using expired_job_Some [OF e] by blast+
  note life = jobs_inv_lifecycle [OF inv j(1)]
  note lease = running_lease [OF life j(2)]
  have cur: "job_current_attempt_id j = Some ?aid" using lease(1) by (simp add: leased_def)
  have "\<exists>db1. expire_attempt env j ?aid db = Some db1"
    using checked finished_attempt_check
    by (auto simp: expire_attempt_def update_attempts_def attempts_checked_def)
  then obtain db1 where s1: "expire_attempt env j ?aid db = Some db1" by blast
  have same1: "db_jobs db1 = db_jobs db" "db_effects db1 = db_effects db" "db_audit db1 = db_audit db"
    using s1 by (auto simp: expire_attempt_def update_attempts_def split: if_splits)
  have "?scope i \<longrightarrow> job_check (released_job env (reap_outcome j) i)" if "i \<in> set (db_jobs db)" for i
    using job_in_scope_iff [OF inv j(1) that] released_job_check [OF life] by (auto simp: reap_outcome_def)
  then obtain db2 where s2: "update_jobs ?scope (released_job env (reap_outcome j)) db1 = Some db2"
    using same1(1) by (auto simp: update_jobs_def)
  have same2: "db_attempts db2 = db_attempts db1" "db_effects db2 = db_effects db" "db_audit db2 = db_audit db"
    using s2 same1 by (auto simp: update_jobs_Some)
  have "released_job env (reap_outcome j) j \<in> set (db_jobs db2)"
    using s2 same1(1) j(1) by (auto simp: update_jobs_Some job_in_scope_def)
  then have job2: "\<exists>i \<in> set (db_jobs db2). job_account_id i = job_account_id j
      \<and> job_project_id i = job_project_id j \<and> job_id i = job_id j"
    by (auto simp: released_job_def intro: bexI [of _ "released_job env (reap_outcome j) j"])
  have "\<exists>a \<in> set (db_attempts db2). at_account_id a = job_account_id j \<and> at_project_id a = job_project_id j
      \<and> at_job_id a = job_id j \<and> at_id a = ?aid \<and> at_fence a = job_current_fence j"
    using update_attempts_in [OF s1 [unfolded expire_attempt_def], of "last ?as"] lease same2(1)
    by (intro bexI [of _ "expired_attempt env (last ?as)"])
       (auto simp: attempts_of_iff leased_def expired_attempt_def)
  then obtain a where a: "a \<in> set (db_attempts db2)" "at_account_id a = job_account_id j"
      "at_project_id a = job_project_id j" "at_job_id a = job_id j" "at_id a = ?aid" "at_fence a = job_current_fence j"
    by blast
  let ?e = "exhausted_effect ext env j ?aid"
  have "effect_keys_ok ?e db2"
    using job2 a lease(8) lifecycle_bounds [OF life] sha fresh(1) same2(2)
    by (auto simp: effect_keys_ok_def effect_check_def exhausted_effect_def in_bigint_def)
  then have "\<exists>db3. insert_effect_or_keep ?e db2 = Some db3"
    by (simp add: insert_effect_or_keep_def insert_effect_def) (simp add: effect_keys_ok_def)
  then obtain db3 where
    s3: "(if job_attempt_count j \<ge> 3 then insert_effect_or_keep ?e db2 else Some db2) = Some db3"
    by (cases "job_attempt_count j \<ge> 3") auto
  have same3: "db_attempts db3 = db_attempts db2" "db_audit db3 = db_audit db"
    using s3 same2 by (auto simp: insert_effect_or_keep_def insert_effect_def split: if_splits)
  obtain b where s4: "find (\<lambda>a. at_job_id a = job_id j \<and> at_id a = ?aid \<and> at_fence a = job_current_fence j)
      (db_attempts db3) = Some b"
    using a same3 by (cases "find (\<lambda>a. at_job_id a = job_id j \<and> at_id a = ?aid \<and> at_fence a = job_current_fence j)
      (db_attempts db3)") (auto simp: find_None_iff)
  let ?ctx = "\<lparr>ctx_job_id = job_id j, ctx_worker_id = at_worker_id b, ctx_attempt_id = ?aid,
                 ctx_fence = job_current_fence j\<rparr>"
  have "\<exists>db4. worker_audit (env_fresh env 1) (job_account_id j) ''job.lease_expired'' ?ctx (reap_outcome j) db3 = Some db4"
    using fresh(2) same3(2) by (auto simp: worker_audit_def insert_audit_def audit_check_def reap_outcome_def)
  then obtain db4 where
    s5: "worker_audit (env_fresh env 1) (job_account_id j) ''job.lease_expired'' ?ctx (reap_outcome j) db3 = Some db4"
    by blast
  have "reap_tx ext env db = Commit db4 (Inr True)"
    unfolding reap_tx_def reap_outcome_def [symmetric] Let_def e option.case cur s1 stmt_def s2 s3 s4 s5 by simp
  then show ?thesis by blast
qed

text \<open>
  C24. An abandoned job comes back: whenever some running job's lease has expired and no other
  transaction holds it, and the new identifiers are unused, one iteration of the reaper releases a
  job whose lease has expired: it goes back to \<open>retriable\<close>, or fails for good on the third attempt.
\<close>

theorem expired_lease_is_released:
  assumes reach: "reachable no_jobs (job_step ext) db"
    and expired: "i \<in> set (db_jobs db)" "job_state i = ''running''" "job_id i \<notin> env_locked env"
      "job_lease_expires_at i = Some t" "t \<le> env_now env 0"
    and fresh: "env_fresh env 0 \<notin> eff_id ` set (db_effects db)"
      "env_fresh env 1 \<notin> audit_row_id ` set (db_audit db)"
    and sha: "length (ext_sha256 ext ''failed:attempts_exhausted'') = 32"
  shows "\<exists>db' j j'. run_tx db (reap_tx ext env db) = (db', Inr True)
    \<and> j \<in> set (db_jobs db) \<and> job_state j = ''running'' \<and> the (job_lease_expires_at j) \<le> env_now env 0
    \<and> j' \<in> set (db_jobs db') \<and> job_id j' = job_id j
    \<and> job_state j' = (if job_attempt_count j \<ge> 3 then ''failed'' else ''retriable'')"
proof -
  note inv = jobs.reachable_inv [OF reach] and checked = checked_jobs.reachable_inv [OF reach]
  have "expired_job env db \<noteq> None"
    using expired by (auto simp: expired_job_def first_by_None filter_empty_conv intro!: bexI [of _ i])
  then obtain j where j: "expired_job env db = Some j" by blast
  obtain db' where commit: "reap_tx ext env db = Commit db' (Inr True)"
    using reap_succeeds [OF inv checked j fresh sha] by blast
  with reap_tx_commit [OF inv commit] j have r: "reaps ext env db j db'"
    by (auto simp: reaps_def)
  have "run_tx db (reap_tx ext env db) = (db', Inr True)"
    using commit run_tx_Commit [OF reaps_inv [OF inv r]] by simp
  moreover have "released_job env (reap_outcome j) j \<in> set (db_jobs db')"
    using r replaces_jobs_set [OF _ inv] by (auto simp: reaps_def)
  ultimately show ?thesis
    using expired_job_Some [OF j]
    by (intro exI [of _ db'] exI [of _ j] exI [of _ "released_job env (reap_outcome j) j"])
       (auto simp: released_job_def reap_outcome_def)
qed

end
