(* ===== verification/Job_Witnesses.thy ===== *)
theory Job_Witnesses
  imports Job_Properties
begin

text \<open>
  A concrete run of the job store: an owner creates a job with one secret (\<open>db1\<close>), a worker
  leases it (\<open>db2\<close>), and it is completed (\<open>db3\<close>) or canceled (\<open>db4\<close>).  The properties of
  \<open>Job_Properties\<close> are applied to it, with every hypothesis discharged by evaluation.
\<close>

definition demo_uuids :: "(string \<times> uuid) list" where
  "demo_uuids = [(''account'', 1), (''project'', 2), (''service'', 3), (''job'', 16)]"

definition demo_ext :: "(job_record + complete_response) option job_ext" where
  "demo_ext =
     \<lparr>ext_parse_uuid = map_of demo_uuids, ext_show_uuid = (\<lambda>u. ''id''),
      ext_sha256 = (\<lambda>s. replicate 32 CHR ''h''), ext_create_bytes = (\<lambda>r. Some (cjr_source_commit r)),
      ext_cancel_bytes = (\<lambda>_. Some ''cancel''), ext_complete_bytes = (\<lambda>r. Some (cr_worker_id r)),
      ext_job_to_value = (\<lambda>r. Some (Some (Inl r))),
      ext_job_from_value = (\<lambda>v. case v of Some (Inl r) \<Rightarrow> Some r | _ \<Rightarrow> None),
      ext_complete_to_value = (\<lambda>r. Some (Some (Inr r))),
      ext_complete_from_value = (\<lambda>v. case v of Some (Inr r) \<Rightarrow> Some r | _ \<Rightarrow> None),
      ext_exhausted_body = None\<rparr>"

text \<open>The environment of the \<open>k\<close>-th transaction: its clock readings and its new identifiers.\<close>

definition demo_env :: "int \<Rightarrow> tx_env" where
  "demo_env k =
     \<lparr>env_now = (\<lambda>i. k * 10 + int i), env_fresh = (\<lambda>i. of_int (16 * k + int i)), env_locked = {}\<rparr>"

definition demo_auth :: authenticated where
  "demo_auth = \<lparr>auth_account_id = ''account'', auth_session_id = 9\<rparr>"

definition demo_headers :: header_map where
  "demo_headers = \<lparr>hdr_idempotency_key = Some (Visible ''key-1''), hdr_if_match = Some (Visible ''\"2\"'')\<rparr>"

definition demo_create :: create_job_request where
  "demo_create = \<lparr>cjr_kind = ''foundation_bookkeeping'', cjr_operation = ''build'',
     cjr_service_id = ''service'', cjr_source_commit = replicate 40 CHR ''a'',
     cjr_secret_version_refs = [\<lparr>svr_service_id = ''service'', svr_secret_version_id = ''job''\<rparr>]\<rparr>"

definition demo_completion :: complete_request where
  "demo_completion = \<lparr>cr_worker_id = ''worker'', cr_attempt_id = 32, cr_fence = 1,
     cr_outcome = \<lparr>co_state = ''succeeded'', co_code = ''bookkeeping_complete''\<rparr>\<rparr>"

definition db0 :: "(job_record + complete_response) option job_db" where
  "db0 = \<lparr>db_jobs = [], db_attempts = [], db_secret_refs = [], db_effects = [],
     db_services = [\<lparr>service_row_id = 3, service_account_id = 1, service_project_id = 2\<rparr>],
     db_secrets = [\<lparr>secret_id = 5, secret_account_id = 1, secret_project_id = 2, secret_service_id = 3,
        secret_name = ''TOKEN'', secret_operation = ''build'', secret_credential_kind = ''build_environment'',
        secret_status = ''active'', secret_revision = 2, secret_created_at = 0, secret_updated_at = 0\<rparr>],
     db_secret_versions = [\<lparr>version_id = 16, version_account_id = 1, version_project_id = 2,
        version_service_id = 3, version_secret_id = 5, version_number = 1, version_key_version = ''v1'', version_nonce = [],
        version_ciphertext = [], version_auth_tag = [], version_created_at = 0\<rparr>],
     db_idempotency = [], db_audit = []\<rparr>"

definition db1 where "db1 = fst (create_job demo_ext (demo_env 1) demo_auth ''project'' demo_headers demo_create db0)"
definition db2 where "db2 = fst (run_tx db1 (lease_tx demo_ext 60 (demo_env 2) ''worker'' db1))"
definition db3 where "db3 = fst (complete_job demo_ext (demo_env 3) ''job'' demo_completion db2)"

definition db4 where
  "db4 = fst (cancel_job demo_ext (demo_env 3) demo_auth ''project'' ''job'' demo_headers db2)"

text \<open>The stores after the creation and after the lease, evaluated once.\<close>

definition demo_job :: job_row where
  "demo_job = \<lparr>job_id = 16, job_account_id = 1, job_project_id = 2, job_service_id = 3,
     job_kind = ''foundation_bookkeeping'', job_operation = ''build'', job_source_commit = replicate 40 CHR ''a'',
     job_state = ''queued'', job_revision = 1, job_attempt_count = 0, job_max_attempts = 3,
     job_current_attempt_id = None, job_current_fence = 0, job_lease_expires_at = None, job_created_at = 10,
     job_updated_at = 10\<rparr>"

definition demo_record :: job_record where
  "demo_record = \<lparr>jr_id = 16, jr_project_id = ''id'', jr_service_id = ''id'', jr_kind = ''foundation_bookkeeping'',
     jr_operation = ''build'', jr_source_commit = replicate 40 CHR ''a'', jr_state = ''queued'', jr_revision = 1,
     jr_attempt_count = 0, jr_current_attempt_id = None, jr_current_fence = 0, jr_lease_expires_at = None,
     jr_secret_version_refs = [\<lparr>svr_service_id = ''id'', svr_secret_version_id = ''id''\<rparr>], jr_created_at = 10,
     jr_updated_at = 10\<rparr>"

definition demo_audit :: audit_row where
  "demo_audit = \<lparr>audit_row_id = 17, audit_account_id = 1, audit_actor_account_id = Some 1, audit_session_id = Some 9,
     audit_event_type = ''job.create'', audit_target_type = ''job'', audit_target_id = Some 16,
     audit_outcome = ''succeeded'', audit_worker = None\<rparr>"

lemma db1_value [code]:
  "db1 = db0\<lparr>db_jobs := [demo_job],
     db_secret_refs := [\<lparr>ref_account_id = 1, ref_project_id = 2, ref_service_id = 3, ref_job_id = 16,
       ref_secret_id = 5, ref_secret_version_id = 16, ref_operation = ''build'',
       ref_credential_kind = ''build_environment''\<rparr>],
     db_idempotency := [\<lparr>idem_actor = 1, idem_operation = ''job.create/id'', idem_key = ''key-1'',
       idem_request_hash = replicate 32 CHR ''h'', idem_request_key_version = None, idem_response_status = 201,
       idem_response_body = Some (Inl demo_record)\<rparr>],
     db_audit := [demo_audit]\<rparr>"
  by code_simp

lemma db2_value [code]:
  "db2 = db1\<lparr>db_jobs := [demo_job\<lparr>job_state := ''running'', job_revision := 2, job_attempt_count := 1,
       job_current_attempt_id := Some 32, job_current_fence := 1, job_lease_expires_at := Some 60000020,
       job_updated_at := 21\<rparr>],
     db_attempts := [\<lparr>at_id = 32, at_account_id = 1, at_project_id = 2, at_job_id = 16, at_number = 1, at_fence = 1,
       at_worker_id = ''worker'', at_state = ''running'', at_lease_started_at = 22, at_lease_expires_at = 60000020,
       at_finished_at = None, at_terminal_code = None, at_completion_hash = None\<rparr>],
     db_audit := [demo_audit, demo_audit\<lparr>audit_row_id := 33, audit_actor_account_id := None,
       audit_session_id := None, audit_event_type := ''job.lease'', audit_worker := Some (''worker'', 32, 1)\<rparr>]\<rparr>"
  by code_simp

text \<open>Number, state and attempts of the jobs of the two final stores.\<close>

lemma final_jobs:
  "map (\<lambda>j. (job_state j, job_attempt_count j, job_id j)) (db_jobs db3) = [(''succeeded'', 1, 16)]"
  "map (\<lambda>j. (job_state j, job_attempt_count j, job_id j)) (db_jobs db4) = [(''canceled'', 1, 16)]"
  by code_simp+

lemma reachable_db1: "reachable no_jobs (job_step demo_ext) db1"
proof -
  have "reachable no_jobs (job_step demo_ext) db0"
    by (rule reachable_init) (simp add: no_jobs_def db0_def)
  then show ?thesis unfolding db1_def by (rule reachable_step) (rule job_step.create)
qed

lemma reachable_db2: "reachable no_jobs (job_step demo_ext) db2"
  unfolding db2_def
  by (rule reachable_step [OF reachable_db1 job_step.lease]) code_simp

lemma reachable_db3: "reachable no_jobs (job_step demo_ext) db3"
  unfolding db3_def by (rule reachable_step [OF reachable_db2 job_step.complete])

lemma reachable_db4: "reachable no_jobs (job_step demo_ext) db4"
  unfolding db4_def by (rule reachable_step [OF reachable_db2 job_step.cancel])

definition the_job :: "'v job_db \<Rightarrow> job_row" where "the_job db = hd (db_jobs db)"

lemma the_job_in: "the_job db2 \<in> set (db_jobs db2)" "the_job db3 \<in> set (db_jobs db3)" "the_job db4 \<in> set (db_jobs db4)"
  using final_jobs by (auto simp: the_job_def db2_value)

lemma the_job_states:
  "job_state (the_job db2) = ''running''" "job_state (the_job db3) = ''succeeded''"
  "job_state (the_job db4) = ''canceled''"
  using final_jobs by (auto simp: the_job_def db2_value)

theorem at_most_one_live_lease_witness:
  "\<exists>a. filter (\<lambda>a. at_state a = ''running'') (attempts_of db2 (job_id (the_job db2))) = [a]
     \<and> job_current_attempt_id (the_job db2) = Some (at_id a)"
  using at_most_one_live_lease [OF reachable_db2 the_job_in(1)] the_job_states(1) by auto

theorem one_effect_per_settled_job_witness:
  "\<exists>e. effects_of db3 (job_id (the_job db3)) = [e] \<and> eff_outcome_state e = ''succeeded''"
  using one_effect_per_settled_job [OF reachable_db3 the_job_in(2)] the_job_states(2) by auto

theorem job_counters_bounded_witness:
  "job_current_fence (the_job db4) = 2 \<and> job_revision (the_job db4) \<le> 8"
proof -
  have "job_attempt_count (the_job db4) = 1" using final_jobs(2) by (auto simp: the_job_def)
  with job_counters_bounded [OF reachable_db4 the_job_in(3)] the_job_states(3) show ?thesis by simp
qed

theorem terminal_jobs_are_final_witness:
  "the_job db3 \<in> set (db_jobs (fst (run_tx db3 (reap_tx demo_ext (demo_env 9) db3))))"
proof -
  have "(job_step demo_ext)\<^sup>*\<^sup>* db3 (fst (run_tx db3 (reap_tx demo_ext (demo_env 9) db3)))"
    by (rule r_into_rtranclp) (rule job_step.reap)
  moreover have "terminal (the_job db3)" using the_job_states(2) by (simp add: terminal_def)
  ultimately show ?thesis
    using terminal_jobs_are_final [OF reachable_db3 _ the_job_in(2)] by blast
qed

theorem lease_grants_oldest_claimable_witness:
  "\<exists>j' \<in> set (db_jobs db2). job_state j' = ''running'' \<and> job_current_fence j' = 1"
proof -
  let ?r = "run_tx db1 (lease_tx demo_ext 60 (demo_env 2) ''worker'' db1)"
  obtain resp where r: "?r = (db2, Inr (Some resp))" and f: "al_fence (lres_attempt resp) = 1"
  proof -
    have "case snd ?r of Inr (Some resp) \<Rightarrow> al_fence (lres_attempt resp) = 1 | _ \<Rightarrow> False" by code_simp
    then show ?thesis using that by (cases ?r) (auto simp: db2_def split: sum.splits option.splits)
  qed
  from lease_grants_oldest_claimable [OF reachable_db1 r] f show ?thesis by force
qed

theorem stale_worker_changes_nothing_witness:
  "fst (complete_job demo_ext (demo_env 7000000) ''job'' demo_completion db2) = db2"
proof -
  have "\<not> holds_live_lease (demo_env 7000000) db2 (the_job db2) 32 1 ''worker''"
  proof -
    have "job_lease_expires_at (the_job db2) = Some 60000020" by code_simp
    then show ?thesis by (simp add: holds_live_lease_def demo_env_def)
  qed
  moreover have "ext_parse_uuid demo_ext ''job'' = Some (job_id (the_job db2))" by code_simp
  ultimately show ?thesis
    using stale_worker_changes_nothing [OF reachable_db2 _ the_job_in(1)]
    by (simp add: demo_completion_def)
qed

theorem canceled_job_refuses_workers_witness:
  "complete_job demo_ext (demo_env 5) ''job'' demo_completion db4 = (db4, Inl fenced)"
proof -
  have "valid_worker_id (cr_worker_id demo_completion)" "0 < cr_fence demo_completion"
    "valid_outcome (cr_outcome demo_completion)"
    by code_simp+
  moreover have "ext_parse_uuid demo_ext ''job'' = Some (job_id (the_job db4))"
    using final_jobs(2) by (auto simp: the_job_def demo_ext_def demo_uuids_def)
  moreover have "ext_complete_bytes demo_ext demo_completion \<noteq> None" by (simp add: demo_ext_def)
  ultimately show ?thesis
    using canceled_job_refuses_workers [OF reachable_db4 _ the_job_in(3) the_job_states(3)] by blast
qed

theorem completion_is_idempotent_witness:
  "\<exists>response. complete_job demo_ext (demo_env 3) ''job'' demo_completion db2 = (db3, Inr response)
     \<and> complete_job demo_ext (demo_env 8) ''job'' demo_completion db3 = (db3, Inr response)"
proof -
  let ?r = "complete_job demo_ext (demo_env 3) ''job'' demo_completion db2"
  have "case snd ?r of Inr resp \<Rightarrow> cres_effect resp \<noteq> None | _ \<Rightarrow> False" by code_simp
  then obtain response where r: "?r = (db3, Inr response)" "cres_effect response \<noteq> None"
    by (cases ?r) (auto simp: db3_def split: sum.splits)
  have "ext_complete_from_value demo_ext (the (ext_complete_to_value demo_ext response)) = Some response"
    by (simp add: demo_ext_def)
  from completion_is_idempotent [OF reachable_db2 r this rtranclp.rtrancl_refl] r(1) show ?thesis by blast
qed

theorem create_is_idempotent_witness:
  "\<exists>response. create_job demo_ext (demo_env 8) demo_auth ''project'' demo_headers demo_create db2
     = (db2, Inr (201, response))"
proof -
  let ?r = "create_job demo_ext (demo_env 1) demo_auth ''project'' demo_headers demo_create db0"
  have reach: "reachable no_jobs (job_step demo_ext) db0"
    by (rule reachable_init) (simp add: no_jobs_def db0_def)
  have "case snd ?r of Inr _ \<Rightarrow> True | _ \<Rightarrow> False" by code_simp
  then obtain status response where r: "?r = (db1, Inr (status, response))"
    by (cases ?r) (auto simp: db1_def split: sum.splits)
  have codec: "ext_job_from_value demo_ext (the (ext_job_to_value demo_ext response)) = Some response"
    by (simp add: demo_ext_def)
  have "job_step demo_ext db1 db2"
    unfolding db2_def by (rule job_step.lease) code_simp
  from create_is_idempotent [OF reach r codec r_into_rtranclp [of "job_step demo_ext", OF this]]
  show ?thesis by blast
qed

theorem cancel_changes_only_own_job_witness:
  "\<exists>j \<in> set (db_jobs db2). \<exists>j'. job_account_id j = 1 \<and> job_revision j = 2
     \<and> set (db_jobs db4) = insert j' (set (db_jobs db2) - {j})"
proof -
  have "db_jobs db4 \<noteq> db_jobs db2" using final_jobs(2) by (auto simp: db2_value)
  then have "db_jobs (fst (cancel_job demo_ext (demo_env 3) demo_auth ''project'' ''job'' demo_headers db2)) \<noteq> db_jobs db2"
    by (simp add: db4_def)
  from cancel_changes_only_own_job [OF reachable_db2 this] obtain j j' where
    "j \<in> set (db_jobs db2)" "account_uuid demo_ext demo_auth = Inr (job_account_id j)"
    "if_match_revision demo_headers = Inr (job_revision j)"
    "set (db_jobs db4) = insert j' (set (db_jobs db2) - {j})"
    unfolding db4_def by blast
  moreover have "account_uuid demo_ext demo_auth = Inr 1" "if_match_revision demo_headers = Inr 2"
    by code_simp+
  ultimately show ?thesis by auto
qed

theorem created_job_binds_only_build_secrets_witness:
  "bindable db0 1 2 3 (5, 16, ''build_environment'')"
proof -
  let ?r = "create_job demo_ext (demo_env 1) demo_auth ''project'' demo_headers demo_create db0"
  let ?ref = "hd (db_secret_refs db1)"
  have "case snd ?r of Inr _ \<Rightarrow> True | _ \<Rightarrow> False" by code_simp
  then obtain status response where r: "?r = (db1, Inr (status, response))"
    by (cases ?r) (auto simp: db1_def split: sum.splits)
  have "length (db_secret_refs db1) = 1" by code_simp
  then have "?ref \<in> set (db_secret_refs db1)" by (auto simp: length_Suc_conv)
  moreover have "?ref \<notin> set (db_secret_refs db0)" by (simp add: db0_def)
  ultimately have "bindable db0 (ref_account_id ?ref) (ref_project_id ?ref) (ref_service_id ?ref)
      (ref_secret_id ?ref, ref_secret_version_id ?ref, ref_credential_kind ?ref)"
    using created_job_binds_only_build_secrets [OF r] by blast
  moreover have "(ref_account_id ?ref, ref_project_id ?ref, ref_service_id ?ref, ref_secret_id ?ref,
      ref_secret_version_id ?ref, ref_credential_kind ?ref) = (1, 2, 3, 5, 16, ''build_environment'')"
    by code_simp
  ultimately show ?thesis by simp
qed

theorem expired_lease_is_released_witness:
  "\<exists>db' j'. run_tx db2 (reap_tx demo_ext (demo_env 7000000) db2) = (db', Inr True)
     \<and> j' \<in> set (db_jobs db') \<and> job_state j' \<in> {''failed'', ''retriable''}"
proof -
  have "job_lease_expires_at (the_job db2) = Some 60000020" "db_effects db2 = []"
    "map audit_row_id (db_audit db2) = [17, 33]"
    by code_simp+
  moreover from this(3) have "audit_row_id ` set (db_audit db2) = {17, 33}"
    by (metis list.set_map list.simps(15) empty_set)
  moreover have "env_fresh (demo_env 7000000) 1 \<notin> {17, 33 :: uuid}" "env_locked (demo_env 7000000) = {}"
      "60000020 \<le> env_now (demo_env 7000000) 0" "length (ext_sha256 demo_ext s) = 32" for s
    by (simp_all add: demo_env_def demo_ext_def)
  ultimately obtain db' and j j' :: job_row where "run_tx db2 (reap_tx demo_ext (demo_env 7000000) db2) = (db', Inr True)"
      "j' \<in> set (db_jobs db')" "job_state j' = (if job_attempt_count j \<ge> 3 then ''failed'' else ''retriable'')"
    using expired_lease_is_released [OF reachable_db2 the_job_in(1) the_job_states(1), of "demo_env 7000000" 60000020]
    by auto
  then show ?thesis by (intro exI [of _ db'] exI [of _ j']) simp
qed

end
