(* ===== verification/Control_Secrets.thy ===== *)
theory Control_Secrets
  imports Job_Runs
begin

text \<open>
  Secrets: \<^verbatim>\<open>crates/control/src/secrets.rs\<close>, the key of \<^verbatim>\<open>crypto.rs\<close>, and the endpoint of
  \<^verbatim>\<open>jobs.rs\<close> that hands a job's secrets to the worker holding its lease.  An owner creates a
  secret and adds encrypted versions to it under \<open>If-Match\<close>; a job binds versions when it is
  created; a worker with the live lease resolves them.  The AEAD cipher, HMAC, the bytes of a
  UUID and the JSON codecs are fields of \<open>secret_ext\<close>; the nonce drawn from the operating
  system's generator is an argument.
\<close>

section \<open>Rows and constraints\<close>

definition secret_check :: "secret_row \<Rightarrow> bool" where
  "secret_check s \<longleftrightarrow>
     1 \<le> length (secret_name s) \<and> length (secret_name s) \<le> 128
     \<and> secret_operation s \<in> {''build'', ''runtime'', ''database_migration'', ''platform_management''}
     \<and> secret_credential_kind s \<in> {''source_repository_read'', ''build_environment'',
          ''production_database'', ''platform_management''}
     \<and> secret_status s \<in> {''active'', ''revoked''}
     \<and> secret_revision s > 0 \<and> in_bigint (secret_revision s)"

definition version_check :: "secret_version_row \<Rightarrow> bool" where
  "version_check v \<longleftrightarrow>
     version_number v > 0 \<and> in_bigint (version_number v)
     \<and> 1 \<le> length (version_key_version v) \<and> length (version_key_version v) \<le> 64
     \<and> length (version_nonce v) = 24
     \<and> 1 \<le> length (version_ciphertext v) \<and> length (version_ciphertext v) \<le> 16384
     \<and> length (version_auth_tag v) = 16"

text \<open>
  The insertion of a secret: PostgreSQL tests the \<open>CHECK\<close>s, then the unique keys, then the
  foreign key, and the endpoint tells a violated unique key from the rest.
\<close>

datatype insert_violation = UniqueViolation | OtherViolation

definition secret_key_taken :: "secret_row \<Rightarrow> secret_row list \<Rightarrow> bool" where
  "secret_key_taken s rows \<longleftrightarrow>
     (\<exists>t \<in> set rows. secret_id t = secret_id s
        \<or> secret_account_id t = secret_account_id s \<and> secret_project_id t = secret_project_id s
          \<and> secret_service_id t = secret_service_id s \<and> secret_name t = secret_name s
          \<and> secret_operation t = secret_operation s
          \<and> secret_credential_kind t = secret_credential_kind s)"

definition service_exists :: "'v job_db \<Rightarrow> uuid \<Rightarrow> uuid \<Rightarrow> uuid \<Rightarrow> bool" where
  "service_exists db account project service \<longleftrightarrow>
     (\<exists>s \<in> set (db_services db). service_account_id s = account
        \<and> service_project_id s = project \<and> service_row_id s = service)"

definition insert_secret :: "secret_row \<Rightarrow> 'v job_db \<Rightarrow> insert_violation + 'v job_db" where
  "insert_secret s db =
     (if \<not> secret_check s then Inl OtherViolation
      else if secret_key_taken s (db_secrets db) then Inl UniqueViolation
      else if \<not> service_exists db (secret_account_id s) (secret_project_id s) (secret_service_id s)
      then Inl OtherViolation
      else Inr (db\<lparr>db_secrets := db_secrets db @ [s]\<rparr>))"

definition secret_in_scope :: "uuid \<Rightarrow> uuid \<Rightarrow> uuid \<Rightarrow> uuid \<Rightarrow> secret_row \<Rightarrow> bool" where
  "secret_in_scope account project service sid s \<longleftrightarrow>
     secret_account_id s = account \<and> secret_project_id s = project
     \<and> secret_service_id s = service \<and> secret_id s = sid"

definition insert_secret_version :: "secret_version_row \<Rightarrow> 'v job_db \<Rightarrow> 'v job_db option" where
  "insert_secret_version v db =
     (if version_check v \<and> version_id v \<notin> version_id ` set (db_secret_versions db)
        \<and> (\<forall>w \<in> set (db_secret_versions db). version_secret_id w = version_secret_id v \<longrightarrow>
             version_number w \<noteq> version_number v)
        \<and> (\<exists>s \<in> set (db_secrets db). secret_in_scope (version_account_id v) (version_project_id v)
             (version_service_id v) (version_secret_id v) s)
      then Some (db\<lparr>db_secret_versions := db_secret_versions db @ [v]\<rparr>) else None)"

definition update_secrets ::
  "(secret_row \<Rightarrow> bool) \<Rightarrow> (secret_row \<Rightarrow> secret_row) \<Rightarrow> 'v job_db \<Rightarrow> 'v job_db option" where
  "update_secrets p f db =
     (if \<forall>s \<in> set (db_secrets db). p s \<longrightarrow> secret_check (f s)
      then Some (db\<lparr>db_secrets := map (\<lambda>s. if p s then f s else s) (db_secrets db)\<rparr>) else None)"

section \<open>Requests and responses\<close>

record create_secret_request =
  csr_name :: string
  csr_operation :: string
  csr_credential_kind :: string

record secret_record =
  sm_id :: uuid
  sm_owner_account_id :: string
  sm_project_id :: string
  sm_service_id :: string
  sm_name :: string
  sm_operation :: string
  sm_credential_kind :: string
  sm_status :: string
  sm_revision :: nat
  sm_created_at :: timestamp

record secret_version_metadata =
  svm_id :: uuid
  svm_secret_id :: uuid
  svm_version :: nat
  svm_created_at :: timestamp

record resolved_job_secret =
  rjs_secret_version_id :: uuid
  rjs_name :: string
  rjs_value :: string

datatype secret_resolve_error = Fenced | ScopeDenied | CredentialKindNotAllowed | Unavailable

record resolve_credentials_request =
  rcr_worker_id :: string
  rcr_attempt_id :: uuid
  rcr_fence :: int
  rcr_secret_version_ids :: "uuid list"

definition CREATE_SECRET_OPERATION :: string where "CREATE_SECRET_OPERATION = ''secret.create''"
definition CREATE_VERSION_OPERATION :: string where
  "CREATE_VERSION_OPERATION = ''secret.version.create''"
definition SECRET_AAD_DOMAIN :: string where "SECRET_AAD_DOMAIN = ''hostlet-secret/v1''"
definition SECRET_REPLAY_DOMAIN :: string where
  "SECRET_REPLAY_DOMAIN = ''hostlet-secret-replay/v1''"
definition MAX_SECRET_VALUE_BYTES :: nat where "MAX_SECRET_VALUE_BYTES = 16384"
definition MAX_JOB_SECRET_REFS :: nat where "MAX_JOB_SECRET_REFS = 32"

definition into_api_error :: "secret_resolve_error \<Rightarrow> api_error" where
  "into_api_error e =
     (case e of
        Fenced \<Rightarrow> conflict ''job_fenced'' ''the job lease is no longer current''
      | ScopeDenied \<Rightarrow> not_found
      | CredentialKindNotAllowed \<Rightarrow> unprocessable ''credential_kind_not_allowed''
          ''the credential kind is not available to this operation''
      | Unavailable \<Rightarrow> foundation_unavailable)"

section \<open>The key\<close>

text \<open>
  The cipher seals a plaintext under a key, a nonce and additional data into a ciphertext and a
  tag, and opens it again.
\<close>

record 'v secret_ext =
  sx_uuid_bytes :: "uuid \<Rightarrow> string"
  sx_seal :: "string \<Rightarrow> string \<Rightarrow> string \<Rightarrow> string \<Rightarrow> (string \<times> string) option"
  sx_open :: "string \<Rightarrow> string \<Rightarrow> string \<Rightarrow> string \<Rightarrow> string \<Rightarrow> string option"
  sx_hmac :: "string \<Rightarrow> string \<Rightarrow> string"
  sx_base64 :: "string \<Rightarrow> string"
  sx_create_bytes :: "create_secret_request \<Rightarrow> string option"
  sx_secret_to_value :: "secret_record \<Rightarrow> 'v option"
  sx_secret_from_value :: "'v \<Rightarrow> secret_record option"
  sx_version_to_value :: "secret_version_metadata \<Rightarrow> 'v option"
  sx_version_from_value :: "'v \<Rightarrow> secret_version_metadata option"

record secret_key =
  key_bytes :: string
  key_version :: string

record encrypted_value =
  enc_nonce :: string
  enc_ciphertext :: string
  enc_auth_tag :: string

datatype crypto_error = EncryptionFailed | AuthenticationFailed

definition KEY_ID_DOMAIN :: string where
  "KEY_ID_DOMAIN = ''hostlet-secret-key-id/v1'' @ [CHR 0x00]"

definition REPLAY_KEY_DOMAIN :: string where
  "REPLAY_KEY_DOMAIN = ''hostlet-secret-replay-key/v1'' @ [CHR 0x00]"

definition new_secret_key :: "'v job_ext \<Rightarrow> 'v secret_ext \<Rightarrow> string \<Rightarrow> secret_key" where
  "new_secret_key ext sx bytes =
     \<lparr>key_bytes = bytes,
      key_version = ''v1-'' @ sx_base64 sx (ext_sha256 ext (KEY_ID_DOMAIN @ bytes))\<rparr>"

definition encrypt ::
  "'v secret_ext \<Rightarrow> secret_key \<Rightarrow> string \<Rightarrow> string \<Rightarrow> string \<Rightarrow> crypto_error + encrypted_value" where
  "encrypt sx key nonce additional_data plaintext =
     (case sx_seal sx (key_bytes key) nonce additional_data plaintext of
        None \<Rightarrow> Inl EncryptionFailed
      | Some (ciphertext, tag) \<Rightarrow>
          Inr \<lparr>enc_nonce = nonce, enc_ciphertext = ciphertext, enc_auth_tag = tag\<rparr>)"

definition decrypt ::
  "'v secret_ext \<Rightarrow> secret_key \<Rightarrow> string \<Rightarrow> string \<Rightarrow> string \<Rightarrow> string \<Rightarrow> crypto_error + string" where
  "decrypt sx key additional_data nonce ciphertext auth_tag =
     (if length nonce \<noteq> 24 \<or> length auth_tag \<noteq> 16 then Inl AuthenticationFailed
      else case sx_open sx (key_bytes key) nonce additional_data ciphertext auth_tag of
             None \<Rightarrow> Inl AuthenticationFailed
           | Some plaintext \<Rightarrow> Inr plaintext)"

definition replay_fingerprint :: "'v secret_ext \<Rightarrow> secret_key \<Rightarrow> string \<Rightarrow> string" where
  "replay_fingerprint sx key canonical_request =
     sx_hmac sx (sx_hmac sx (key_bytes key) REPLAY_KEY_DOMAIN) canonical_request"

text \<open>
  Lengths and values of the additional data.  \<open>u32::try_from\<close> saturates at \<open>u32::MAX\<close>;
  \<open>to_be_bytes\<close> writes the most significant byte first.
\<close>

definition be32 :: "nat \<Rightarrow> string" where
  "be32 n = [char_of (n div 2 ^ 24), char_of (n div 2 ^ 16), char_of (n div 2 ^ 8), char_of n]"

definition append_field :: "string \<Rightarrow> string \<Rightarrow> string" where
  "append_field output value =
     output @ be32 (if length value < 2 ^ 32 then length value else 2 ^ 32 - 1) @ value"

definition secret_aad ::
  "'v secret_ext \<Rightarrow> uuid \<Rightarrow> uuid \<Rightarrow> uuid \<Rightarrow> string \<Rightarrow> string \<Rightarrow> uuid \<Rightarrow> uuid \<Rightarrow> string" where
  "secret_aad sx account project service operation kind sid vid =
     (let o1 = append_field [] SECRET_AAD_DOMAIN;
          o2 = append_field o1 (sx_uuid_bytes sx account);
          o3 = append_field o2 (sx_uuid_bytes sx project);
          o4 = append_field o3 (sx_uuid_bytes sx service);
          o5 = append_field o4 operation;
          o6 = append_field o5 kind;
          o7 = append_field o6 (sx_uuid_bytes sx sid)
      in append_field o7 (sx_uuid_bytes sx vid))"

definition version_request_bytes ::
  "'v secret_ext \<Rightarrow> uuid \<Rightarrow> uuid \<Rightarrow> uuid \<Rightarrow> uuid \<Rightarrow> string \<Rightarrow> string" where
  "version_request_bytes sx account project service sid value =
     (let o1 = append_field [] SECRET_REPLAY_DOMAIN;
          o2 = append_field o1 (sx_uuid_bytes sx account);
          o3 = append_field o2 (sx_uuid_bytes sx project);
          o4 = append_field o3 (sx_uuid_bytes sx service);
          o5 = append_field o4 (sx_uuid_bytes sx sid)
      in append_field o5 value)"

section \<open>Owner endpoints\<close>

definition validate_secret_request :: "create_secret_request \<Rightarrow> api_error + unit" where
  "validate_secret_request request =
     (if trim (csr_name request) = [] \<or> length (csr_name request) > 128
         \<or> (\<exists>b \<in> set (csr_name request). is_ascii_control b)
      then Inl (unprocessable ''invalid_secret'' ''secret name must contain 1 to 128 non-control bytes'')
      else if csr_operation request \<notin> {''build'', ''runtime'', ''database_migration'', ''platform_management''}
      then Inl (unprocessable ''invalid_secret'' ''the secret operation is unsupported'')
      else if csr_credential_kind request \<notin> {''source_repository_read'', ''build_environment'',
                ''production_database'', ''platform_management''}
      then Inl (unprocessable ''invalid_secret'' ''the credential kind is unsupported'')
      else Inr ())"

definition validate_secret_value :: "string \<Rightarrow> api_error + unit" where
  "validate_secret_value value =
     (if value = [] \<or> length value > MAX_SECRET_VALUE_BYTES
      then Inl (unprocessable ''invalid_secret'' ''secret value must contain 1 to 16384 UTF-8 bytes'')
      else Inr ())"

definition secret_record_of :: "'v job_ext \<Rightarrow> secret_row \<Rightarrow> api_error + secret_record" where
  "secret_record_of ext s =
     (case as_u64 (secret_revision s) of
        Inl e \<Rightarrow> Inl e
      | Inr revision \<Rightarrow> Inr
          \<lparr>sm_id = secret_id s, sm_owner_account_id = ext_show_uuid ext (secret_account_id s),
           sm_project_id = ext_show_uuid ext (secret_project_id s),
           sm_service_id = ext_show_uuid ext (secret_service_id s), sm_name = secret_name s,
           sm_operation = secret_operation s, sm_credential_kind = secret_credential_kind s,
           sm_status = secret_status s, sm_revision = revision,
           sm_created_at = secret_created_at s\<rparr>)"

definition version_metadata_of :: "secret_version_row \<Rightarrow> api_error + secret_version_metadata" where
  "version_metadata_of v =
     (case as_u64 (version_number v) of
        Inl e \<Rightarrow> Inl e
      | Inr n \<Rightarrow> Inr \<lparr>svm_id = version_id v, svm_secret_id = version_secret_id v, svm_version = n,
                       svm_created_at = version_created_at v\<rparr>)"

definition load_secret ::
  "'v job_ext \<Rightarrow> 'v job_db \<Rightarrow> uuid \<Rightarrow> uuid \<Rightarrow> uuid \<Rightarrow> uuid \<Rightarrow> api_error + secret_record option" where
  "load_secret ext db account project service sid =
     (case find (secret_in_scope account project service sid) (db_secrets db) of
        None \<Rightarrow> Inr None
      | Some s \<Rightarrow> (case secret_record_of ext s of Inl e \<Rightarrow> Inl e | Inr r \<Rightarrow> Inr (Some r)))"

definition new_secret ::
  "tx_env \<Rightarrow> uuid \<Rightarrow> uuid \<Rightarrow> uuid \<Rightarrow> uuid \<Rightarrow> create_secret_request \<Rightarrow> secret_row" where
  "new_secret env sid account project service request =
     \<lparr>secret_id = sid, secret_account_id = account, secret_project_id = project,
      secret_service_id = service, secret_name = trim (csr_name request),
      secret_operation = csr_operation request,
      secret_credential_kind = csr_credential_kind request, secret_status = ''active'',
      secret_revision = 1, secret_created_at = env_now env 0, secret_updated_at = env_now env 0\<rparr>"

text \<open>The part of \<open>create_secret\<close> after a replay miss.\<close>

definition create_new_secret ::
  "'v job_ext \<Rightarrow> 'v secret_ext \<Rightarrow> tx_env \<Rightarrow> authenticated \<Rightarrow> uuid \<Rightarrow> uuid \<Rightarrow> uuid \<Rightarrow> string \<Rightarrow> string
     \<Rightarrow> string \<Rightarrow> create_secret_request \<Rightarrow> 'v job_db \<Rightarrow> ('v, nat \<times> secret_record) tx_result" where
  "create_new_secret ext sx env auth account project service operation key hash request db =
     (if \<not> service_exists db account project service
      then stmt (audit (env_fresh env 0) account (auth_session_id auth) CREATE_SECRET_OPERATION
                   ''secret'' None ''denied'' db)
             (\<lambda>db1. Commit db1 (Inl not_found))
      else
        let sid = env_fresh env 0;
            row = new_secret env sid account project service request
        in case insert_secret row db of
             Inl UniqueViolation \<Rightarrow>
               Abort (conflict ''secret_already_exists'' ''a secret with this scope and name already exists'')
           | Inl OtherViolation \<Rightarrow> Abort database_unavailable
           | Inr db1 \<Rightarrow>
               try_result (secret_record_of ext row) (\<lambda>response.
               stmt (audit (env_fresh env 1) account (auth_session_id auth) CREATE_SECRET_OPERATION
                       ''secret'' (Some sid) ''succeeded'' db1) (\<lambda>db2.
               try_result (with_records db2 (store_replay (sx_secret_to_value sx) (db_idempotency db2)
                             account operation key hash 201 response)) (\<lambda>db3.
               Commit db3 (Inr (201, response))))))"

definition create_secret_tx ::
  "'v job_ext \<Rightarrow> 'v secret_ext \<Rightarrow> tx_env \<Rightarrow> authenticated \<Rightarrow> string \<Rightarrow> string \<Rightarrow> header_map
     \<Rightarrow> create_secret_request \<Rightarrow> 'v job_db \<Rightarrow> ('v, nat \<times> secret_record) tx_result" where
  "create_secret_tx ext sx env auth project_path service_path headers request db =
     try_result (validate_secret_request request) (\<lambda>_.
     try_result (account_uuid ext auth) (\<lambda>account.
     try_result (path_uuid (ext_parse_uuid ext) project_path) (\<lambda>project.
     try_result (path_uuid (ext_parse_uuid ext) service_path) (\<lambda>service.
     try_result (idempotency_key headers) (\<lambda>key.
     try_result (request_hash (sx_create_bytes sx) (ext_sha256 ext) request) (\<lambda>hash.
       let operation = CREATE_SECRET_OPERATION @ ''/'' @ ext_show_uuid ext project @ ''/''
                         @ ext_show_uuid ext service
       in try_result
            (replay (sx_secret_from_value sx) (db_idempotency db) account operation key hash)
            (\<lambda>found. case found of
               Match response \<Rightarrow> Commit db (Inr (201, response))
             | Changed \<Rightarrow>
                 stmt (audit (env_fresh env 0) account (auth_session_id auth) CREATE_SECRET_OPERATION
                         ''secret'' None ''idempotency_conflict'' db)
                   (\<lambda>db1. Commit db1 (Inl payload_changed))
             | Miss \<Rightarrow>
                 create_new_secret ext sx env auth account project service operation key hash
                   request db)))))))"

definition create_secret ::
  "'v job_ext \<Rightarrow> 'v secret_ext \<Rightarrow> tx_env \<Rightarrow> authenticated \<Rightarrow> string \<Rightarrow> string \<Rightarrow> header_map
     \<Rightarrow> create_secret_request \<Rightarrow> 'v job_db \<Rightarrow> 'v job_db \<times> (api_error + nat \<times> secret_record)" where
  "create_secret ext sx env auth project_path service_path headers request db =
     run_tx db (create_secret_tx ext sx env auth project_path service_path headers request db)"

definition get_secret ::
  "'v job_ext \<Rightarrow> authenticated \<Rightarrow> string \<Rightarrow> string \<Rightarrow> string \<Rightarrow> 'v job_db
     \<Rightarrow> 'v job_db \<times> (api_error + secret_record)" where
  "get_secret ext auth project_path service_path secret_path db =
     run_tx db
       (try_result (account_uuid ext auth) (\<lambda>account.
        try_result (path_uuid (ext_parse_uuid ext) project_path) (\<lambda>project.
        try_result (path_uuid (ext_parse_uuid ext) service_path) (\<lambda>service.
        try_result (path_uuid (ext_parse_uuid ext) secret_path) (\<lambda>sid.
        try_result (load_secret ext db account project service sid) (\<lambda>found.
          case found of None \<Rightarrow> Abort not_found | Some response \<Rightarrow> Commit db (Inr response)))))))"

text \<open>
  Stored responses of version creation carry the key version their fingerprint was made with: a
  fingerprint of another key cannot be compared.
\<close>

definition secret_replay ::
  "'v secret_ext \<Rightarrow> 'v idempotency_record list \<Rightarrow> uuid \<Rightarrow> string \<Rightarrow> string \<Rightarrow> string \<Rightarrow> string
     \<Rightarrow> api_error + secret_version_metadata replay_answer" where
  "secret_replay sx records account operation key fingerprint version =
     (case find_record records account operation key of
        None \<Rightarrow> Inr Miss
      | Some r \<Rightarrow>
          (case idem_request_key_version r of
             None \<Rightarrow> Inl foundation_unavailable
           | Some stored_key_version \<Rightarrow>
               if stored_key_version \<noteq> version then Inl foundation_unavailable
               else if idem_request_hash r \<noteq> fingerprint then Inr Changed
               else (case sx_version_from_value sx (idem_response_body r) of
                       Some response \<Rightarrow> Inr (Match response)
                     | None \<Rightarrow> Inl internal)))"

definition store_secret_replay ::
  "'v secret_ext \<Rightarrow> 'v idempotency_record list \<Rightarrow> uuid \<Rightarrow> string \<Rightarrow> string \<Rightarrow> string \<Rightarrow> string
     \<Rightarrow> secret_version_metadata \<Rightarrow> api_error + 'v idempotency_record list" where
  "store_secret_replay sx records account operation key fingerprint version response =
     (case sx_version_to_value sx response of
        None \<Rightarrow> Inl internal
      | Some body \<Rightarrow>
          (case insert_record
                  \<lparr>idem_actor = account, idem_operation = operation, idem_key = key,
                   idem_request_hash = fingerprint, idem_request_key_version = Some version,
                   idem_response_status = 201, idem_response_body = body\<rparr> records of
             Some records' \<Rightarrow> Inr records'
           | None \<Rightarrow> Inl database_unavailable))"

text \<open>\<open>SELECT COALESCE(MAX(version_number), 0) + 1\<close>.\<close>

definition next_version :: "'v job_db \<Rightarrow> uuid \<Rightarrow> int" where
  "next_version db sid =
     fold max (map version_number (filter (\<lambda>v. version_secret_id v = sid) (db_secret_versions db))) 0 + 1"

definition bump_secret :: "tx_env \<Rightarrow> secret_row \<Rightarrow> secret_row" where
  "bump_secret env s =
     s\<lparr>secret_revision := secret_revision s + 1, secret_updated_at := env_now env 0\<rparr>"

definition new_secret_version ::
  "tx_env \<Rightarrow> uuid \<Rightarrow> secret_row \<Rightarrow> int \<Rightarrow> secret_key \<Rightarrow> encrypted_value \<Rightarrow> secret_version_row" where
  "new_secret_version env vid s n key encrypted =
     \<lparr>version_id = vid, version_account_id = secret_account_id s,
      version_project_id = secret_project_id s, version_service_id = secret_service_id s,
      version_secret_id = secret_id s, version_number = n,
      version_key_version = key_version key, version_nonce = enc_nonce encrypted,
      version_ciphertext = enc_ciphertext encrypted, version_auth_tag = enc_auth_tag encrypted,
      version_created_at = env_now env 0\<rparr>"

text \<open>The part of \<open>create_secret_version\<close> after a replay miss.\<close>

definition create_new_version ::
  "'v job_ext \<Rightarrow> 'v secret_ext \<Rightarrow> secret_key \<Rightarrow> string \<Rightarrow> tx_env \<Rightarrow> authenticated \<Rightarrow> uuid \<Rightarrow> uuid \<Rightarrow> uuid
     \<Rightarrow> uuid \<Rightarrow> string \<Rightarrow> string \<Rightarrow> string \<Rightarrow> int \<Rightarrow> string \<Rightarrow> 'v job_db
     \<Rightarrow> ('v, nat \<times> secret_version_metadata) tx_result" where
  "create_new_version ext sx key nonce env auth account project service sid operation ikey
     fingerprint expected_revision value db =
     (case find (\<lambda>s. secret_in_scope account project service sid s \<and> secret_status s = ''active'')
             (db_secrets db) of
        None \<Rightarrow> stmt (audit (env_fresh env 0) account (auth_session_id auth) CREATE_VERSION_OPERATION
                        ''secret_version'' None ''denied'' db)
                  (\<lambda>db1. Commit db1 (Inl not_found))
      | Some s \<Rightarrow>
          if secret_revision s \<noteq> expected_revision
          then stmt (audit (env_fresh env 0) account (auth_session_id auth) CREATE_VERSION_OPERATION
                       ''secret_version'' None ''stale_revision'' db)
                 (\<lambda>db1. Commit db1 (Inl stale_revision))
          else if \<not> in_bigint (next_version db sid) then Abort database_unavailable
          else
            let vid = env_fresh env 0;
                aad = secret_aad sx account project service (secret_operation s)
                        (secret_credential_kind s) sid vid
            in case encrypt sx key nonce aad value of
                 Inl _ \<Rightarrow> Abort foundation_unavailable
               | Inr encrypted \<Rightarrow>
                   let row = new_secret_version env vid s (next_version db sid) key encrypted
                   in stmt (insert_secret_version row db) (\<lambda>db1.
                   stmt (update_secrets (secret_in_scope account project service sid) (bump_secret env) db1) (\<lambda>db2.
                   try_result (version_metadata_of row) (\<lambda>response.
                   stmt (audit (env_fresh env 1) account (auth_session_id auth) CREATE_VERSION_OPERATION
                           ''secret_version'' (Some vid) ''succeeded'' db2) (\<lambda>db3.
                   try_result (with_records db3 (store_secret_replay sx (db_idempotency db3) account
                                 operation ikey fingerprint (key_version key) response)) (\<lambda>db4.
                   Commit db4 (Inr (201, response))))))))"

definition create_secret_version_tx ::
  "'v job_ext \<Rightarrow> 'v secret_ext \<Rightarrow> secret_key option \<Rightarrow> string \<Rightarrow> tx_env \<Rightarrow> authenticated \<Rightarrow> string \<Rightarrow> string
     \<Rightarrow> string \<Rightarrow> header_map \<Rightarrow> string \<Rightarrow> 'v job_db \<Rightarrow> ('v, nat \<times> secret_version_metadata) tx_result" where
  "create_secret_version_tx ext sx configured nonce env auth project_path service_path secret_path
     headers value db =
     try_result (validate_secret_value value) (\<lambda>_.
     try_result (account_uuid ext auth) (\<lambda>account.
     try_result (path_uuid (ext_parse_uuid ext) project_path) (\<lambda>project.
     try_result (path_uuid (ext_parse_uuid ext) service_path) (\<lambda>service.
     try_result (path_uuid (ext_parse_uuid ext) secret_path) (\<lambda>sid.
     try_result (idempotency_key headers) (\<lambda>ikey.
     try_result (if_match_revision headers) (\<lambda>expected_revision.
     case configured of
       None \<Rightarrow> Abort foundation_unavailable
     | Some key \<Rightarrow>
         let fingerprint = replay_fingerprint sx key
               (version_request_bytes sx account project service sid value);
             operation = CREATE_VERSION_OPERATION @ ''/'' @ ext_show_uuid ext sid
         in try_result
              (secret_replay sx (db_idempotency db) account operation ikey fingerprint (key_version key))
              (\<lambda>found. case found of
                 Match response \<Rightarrow> Commit db (Inr (201, response))
               | Changed \<Rightarrow>
                   stmt (audit (env_fresh env 0) account (auth_session_id auth) CREATE_VERSION_OPERATION
                           ''secret_version'' None ''idempotency_conflict'' db)
                     (\<lambda>db1. Commit db1 (Inl payload_changed))
               | Miss \<Rightarrow>
                   create_new_version ext sx key nonce env auth account project service sid operation
                     ikey fingerprint expected_revision value db))))))))"

definition create_secret_version ::
  "'v job_ext \<Rightarrow> 'v secret_ext \<Rightarrow> secret_key option \<Rightarrow> string \<Rightarrow> tx_env \<Rightarrow> authenticated \<Rightarrow> string \<Rightarrow> string
     \<Rightarrow> string \<Rightarrow> header_map \<Rightarrow> string \<Rightarrow> 'v job_db
     \<Rightarrow> 'v job_db \<times> (api_error + nat \<times> secret_version_metadata)" where
  "create_secret_version ext sx configured nonce env auth project_path service_path secret_path
     headers value db =
     run_tx db (create_secret_version_tx ext sx configured nonce env auth project_path service_path
                  secret_path headers value db)"

definition get_secret_version ::
  "'v job_ext \<Rightarrow> authenticated \<Rightarrow> string \<Rightarrow> string \<Rightarrow> string \<Rightarrow> string \<Rightarrow> 'v job_db
     \<Rightarrow> 'v job_db \<times> (api_error + secret_version_metadata)" where
  "get_secret_version ext auth project_path service_path secret_path version_path db =
     run_tx db
       (try_result (account_uuid ext auth) (\<lambda>account.
        try_result (path_uuid (ext_parse_uuid ext) project_path) (\<lambda>project.
        try_result (path_uuid (ext_parse_uuid ext) service_path) (\<lambda>service.
        try_result (path_uuid (ext_parse_uuid ext) secret_path) (\<lambda>sid.
        try_result (path_uuid (ext_parse_uuid ext) version_path) (\<lambda>vid.
          case find (\<lambda>v. version_account_id v = account \<and> version_project_id v = project
                       \<and> version_service_id v = service \<and> version_secret_id v = sid
                       \<and> version_id v = vid) (db_secret_versions db) of
            None \<Rightarrow> Abort not_found
          | Some v \<Rightarrow> try_result (version_metadata_of v) (\<lambda>response. Commit db (Inr response))))))))"

definition check_keyring :: "secret_key \<Rightarrow> 'v job_db \<Rightarrow> api_error + unit" where
  "check_keyring key db =
     (if (\<exists>v \<in> set (db_secret_versions db). version_key_version v \<noteq> key_version key)
         \<or> (\<exists>r \<in> set (db_idempotency db).
              case idem_request_key_version r of
                Some version \<Rightarrow> version \<noteq> key_version key
              | None \<Rightarrow> starts_with ''secret.version.create/'' (idem_operation r))
      then Inl foundation_unavailable else Inr ())"

section \<open>Resolution for a worker\<close>

text \<open>The scope query: the running job and its running current attempt, both leases unexpired.\<close>

definition live_scope ::
  "tx_env \<Rightarrow> 'v job_db \<Rightarrow> uuid \<Rightarrow> uuid \<Rightarrow> int \<Rightarrow> string \<Rightarrow> job_row option" where
  "live_scope env db jid aid fence worker =
     map_option fst
       (find (\<lambda>(j, a). at_account_id a = job_account_id j \<and> at_project_id a = job_project_id j
                \<and> at_job_id a = job_id j \<and> job_current_attempt_id j = Some (at_id a)
                \<and> job_id j = jid \<and> job_current_attempt_id j = Some aid \<and> job_current_fence j = fence
                \<and> job_state j = ''running'' \<and> at_state a = ''running'' \<and> at_fence a = fence
                \<and> at_worker_id a = worker
                \<and> (case job_lease_expires_at j of Some t \<Rightarrow> t > env_now env 0 | None \<Rightarrow> False)
                \<and> at_lease_expires_at a > env_now env 1)
         (List.product (db_jobs db) (db_attempts db)))"

type_synonym resolve_row = "secret_ref_row \<times> secret_row \<times> secret_version_row"

definition resolve_rows :: "'v job_db \<Rightarrow> job_row \<Rightarrow> uuid list \<Rightarrow> resolve_row list" where
  "resolve_rows db j requested =
     filter (\<lambda>(r, s, v).
         secret_account_id s = ref_account_id r \<and> secret_project_id s = ref_project_id r
         \<and> secret_service_id s = ref_service_id r \<and> secret_id s = ref_secret_id r
         \<and> secret_operation s = ref_operation r \<and> secret_credential_kind s = ref_credential_kind r
         \<and> version_account_id v = ref_account_id r \<and> version_project_id v = ref_project_id r
         \<and> version_service_id v = ref_service_id r \<and> version_secret_id v = ref_secret_id r
         \<and> version_id v = ref_secret_version_id r
         \<and> ref_job_id r = job_id j \<and> ref_account_id r = job_account_id j
         \<and> ref_project_id r = job_project_id j \<and> ref_service_id r = job_service_id j
         \<and> ref_operation r = job_operation j \<and> secret_status s = ''active''
         \<and> ref_secret_version_id r \<in> set requested)
       (List.product (db_secret_refs db) (List.product (db_secrets db) (db_secret_versions db)))"

fun decrypt_rows ::
  "'v secret_ext \<Rightarrow> secret_key \<Rightarrow> job_row \<Rightarrow> resolve_row list \<Rightarrow> (uuid \<rightharpoonup> resolved_job_secret)
     \<Rightarrow> secret_resolve_error + (uuid \<rightharpoonup> resolved_job_secret)" where
  "decrypt_rows sx key j [] resolved = Inr resolved"
| "decrypt_rows sx key j ((r, s, v) # rows) resolved =
     (if secret_operation s \<noteq> ''build'' \<or> job_operation j \<noteq> ''build''
      then Inl CredentialKindNotAllowed
      else if secret_credential_kind s \<notin> {''source_repository_read'', ''build_environment''}
      then Inl CredentialKindNotAllowed
      else if version_key_version v \<noteq> key_version key then Inl Unavailable
      else case decrypt sx key
                  (secret_aad sx (job_account_id j) (job_project_id j) (job_service_id j)
                     (secret_operation s) (secret_credential_kind s) (version_secret_id v) (version_id v))
                  (version_nonce v) (version_ciphertext v) (version_auth_tag v) of
             Inl _ \<Rightarrow> Inl Unavailable
           | Inr plaintext \<Rightarrow>
               if \<not> valid_utf8 plaintext then Inl Unavailable
               else decrypt_rows sx key j rows
                      (resolved(version_id v \<mapsto>
                         \<lparr>rjs_secret_version_id = version_id v, rjs_name = secret_name s,
                          rjs_value = plaintext\<rparr>)))"

fun take_requested ::
  "uuid list \<Rightarrow> (uuid \<rightharpoonup> resolved_job_secret) \<Rightarrow> secret_resolve_error + resolved_job_secret list" where
  "take_requested [] resolved = Inr []"
| "take_requested (vid # vids) resolved =
     (case resolved vid of
        None \<Rightarrow> Inl ScopeDenied
      | Some secret \<Rightarrow>
          (case take_requested vids (resolved(vid := None)) of
             Inl e \<Rightarrow> Inl e
           | Inr secrets \<Rightarrow> Inr (secret # secrets)))"

text \<open>
  The query that joins references, secrets and versions has no \<open>ORDER BY\<close>: \<open>scan\<close> is the order
  in which the server returns its rows.
\<close>

definition resolve_for_locked_live_job ::
  "'v secret_ext \<Rightarrow> secret_key \<Rightarrow> (resolve_row list \<Rightarrow> resolve_row list) \<Rightarrow> tx_env \<Rightarrow> uuid \<Rightarrow> string \<Rightarrow> uuid
     \<Rightarrow> int \<Rightarrow> uuid list \<Rightarrow> 'v job_db \<Rightarrow> secret_resolve_error + resolved_job_secret list" where
  "resolve_for_locked_live_job sx key scan env jid worker aid fence requested db =
     (if length requested > MAX_JOB_SECRET_REFS \<or> \<not> distinct requested then Inl ScopeDenied
      else if jid \<notin> job_id ` set (db_jobs db) then Inl Fenced
      else case live_scope env db jid aid fence worker of
             None \<Rightarrow> Inl Fenced
           | Some j \<Rightarrow>
               if requested = [] then Inr []
               else
                 let rows = scan (resolve_rows db j requested)
                 in if length rows \<noteq> length requested then Inl ScopeDenied
                    else case decrypt_rows sx key j rows Map.empty of
                           Inl e \<Rightarrow> Inl e
                         | Inr resolved \<Rightarrow> take_requested requested resolved)"

definition resolve_credentials_tx ::
  "'v job_ext \<Rightarrow> 'v secret_ext \<Rightarrow> secret_key option \<Rightarrow> (resolve_row list \<Rightarrow> resolve_row list) \<Rightarrow> tx_env
     \<Rightarrow> string \<Rightarrow> resolve_credentials_request \<Rightarrow> 'v job_db \<Rightarrow> ('v, resolved_job_secret list) tx_result" where
  "resolve_credentials_tx ext sx configured scan env job_path request db =
     try_result (path_uuid (ext_parse_uuid ext) job_path) (\<lambda>jid.
       if \<not> valid_worker_id (rcr_worker_id request) \<or> rcr_fence request \<le> 0
          \<or> length (rcr_secret_version_ids request) > MAX_SECRET_REFS
          \<or> \<not> distinct (rcr_secret_version_ids request)
       then Abort fenced
       else case configured of
         None \<Rightarrow> Abort foundation_unavailable
       | Some key \<Rightarrow>
           (case resolve_for_locked_live_job sx key scan env jid (rcr_worker_id request)
                   (rcr_attempt_id request) (rcr_fence request) (rcr_secret_version_ids request) db of
              Inl e \<Rightarrow> Abort (into_api_error e)
            | Inr credentials \<Rightarrow>
                (case find (\<lambda>j. job_id j = jid) (db_jobs db) of
                   None \<Rightarrow> Abort database_unavailable
                 | Some j \<Rightarrow>
                     stmt (worker_audit (env_fresh env 0) (job_account_id j) ''job.credentials_resolve''
                             \<lparr>ctx_job_id = jid, ctx_worker_id = rcr_worker_id request,
                              ctx_attempt_id = rcr_attempt_id request, ctx_fence = rcr_fence request\<rparr>
                             ''succeeded'' db)
                       (\<lambda>db1. Commit db1 (Inr credentials)))))"

definition resolve_credentials ::
  "'v job_ext \<Rightarrow> 'v secret_ext \<Rightarrow> secret_key option \<Rightarrow> (resolve_row list \<Rightarrow> resolve_row list) \<Rightarrow> tx_env
     \<Rightarrow> string \<Rightarrow> resolve_credentials_request \<Rightarrow> 'v job_db
     \<Rightarrow> 'v job_db \<times> (api_error + resolved_job_secret list)" where
  "resolve_credentials ext sx configured scan env job_path request db =
     run_tx db (resolve_credentials_tx ext sx configured scan env job_path request db)"

text \<open>The bearer token of a worker: its SHA-256 must equal the configured hash.\<close>

definition worker_auth ::
  "'v job_ext \<Rightarrow> string option \<Rightarrow> header_value option \<Rightarrow> api_error + unit" where
  "worker_auth ext worker_token_hash authorization =
     (let supplied = (case authorization of
                        Some (Visible value) \<Rightarrow>
                          (case strip_prefix ''Bearer '' value of
                             Some token \<Rightarrow> if token = [] then None else Some token
                           | None \<Rightarrow> None)
                      | _ \<Rightarrow> None)
      in case (supplied, worker_token_hash) of
           (Some token, Some expected) \<Rightarrow>
             if ext_sha256 ext token \<noteq> expected then Inl unauthorized else Inr ()
         | _ \<Rightarrow> Inl unauthorized)"

section \<open>The store with secrets as a state machine\<close>

definition no_rows :: "'v job_db \<Rightarrow> bool" where
  "no_rows db \<longleftrightarrow> no_jobs db \<and> db_secrets db = [] \<and> db_secret_versions db = [] \<and> db_secret_refs db = []"

inductive store_step :: "'v job_ext \<Rightarrow> 'v secret_ext \<Rightarrow> 'v job_db \<Rightarrow> 'v job_db \<Rightarrow> bool"
  for ext :: "'v job_ext" and sx :: "'v secret_ext" where
  job: "job_step ext db db' \<Longrightarrow> store_step ext sx db db'"
| secret: "store_step ext sx db (fst (create_secret ext sx env auth pp sp headers request db))"
| version: "store_step ext sx db
     (fst (create_secret_version ext sx configured nonce env auth pp sp secp headers value db))"
| resolve: "store_step ext sx db
     (fst (resolve_credentials ext sx configured scan env path rrequest db))"

inductive_cases store_stepE: "store_step ext sx db db'"

end
