(* ===== verification/Secret_Resolution.thy ===== *)
theory Secret_Resolution
  imports Control_Secrets Job_Properties
begin

text \<open>
  Two parts of the secrets component on their own: the encoding of the additional data, whose
  length-prefixed fields can be read back, and what a resolution that succeeds has read from the
  tables.
\<close>

section \<open>The encoding of the additional data\<close>

lemma be32_inj:
  assumes "m < 2 ^ 32" and "n < 2 ^ 32" and "be32 m = be32 n"
  shows "m = n"
proof -
  have shift: "k div 2 ^ 16 = k div 2 ^ 8 div 2 ^ 8" "k div 2 ^ 24 = k div 2 ^ 8 div 2 ^ 8 div 2 ^ 8"
    for k :: nat by (simp_all add: div_mult2_eq [symmetric])
  have digits: "k = (k div 2 ^ 24 mod 256) * 2 ^ 24 + (k div 2 ^ 16 mod 256) * 2 ^ 16
      + (k div 2 ^ 8 mod 256) * 2 ^ 8 + k mod 256" if "k < 2 ^ 32" for k :: nat
  proof -
    have "k div 2 ^ 8 div 2 ^ 8 div 2 ^ 8 < 256"
      using that by (simp add: div_mult2_eq [symmetric] less_mult_imp_div_less)
    then have top: "k div 2 ^ 24 mod 256 = k div 2 ^ 8 div 2 ^ 8 div 2 ^ 8" by (simp add: shift)
    have "k = k div 256 * 256 + k mod 256" "k div 256 = k div 256 div 256 * 256 + k div 256 mod 256"
      "k div 256 div 256 = k div 256 div 256 div 256 * 256 + k div 256 div 256 mod 256" by simp_all
    then have "k = k div 256 div 256 div 256 * 16777216 + k div 256 div 256 mod 256 * 65536
        + k div 256 mod 256 * 256 + k mod 256" by linarith
    then show ?thesis unfolding top shift(1) by simp
  qed
  have "of_char (char_of k :: char) = k mod 256" for k :: nat by (simp add: of_char_of)
  with assms(3) have "m div 2 ^ 24 mod 256 = n div 2 ^ 24 mod 256" "m div 2 ^ 16 mod 256 = n div 2 ^ 16 mod 256"
    "m div 2 ^ 8 mod 256 = n div 2 ^ 8 mod 256" "m mod 256 = n mod 256"
    unfolding be32_def by (metis list.inject)+
  with digits [OF assms(1)] digits [OF assms(2)] show ?thesis by simp
qed

definition length_prefixed :: "string \<Rightarrow> string" where
  "length_prefixed v = be32 (if length v < 2 ^ 32 then length v else 2 ^ 32 - 1) @ v"

lemma append_field_prefixed: "append_field out v = out @ length_prefixed v"
  by (simp add: append_field_def length_prefixed_def)

text \<open>A field shorter than 4 GiB is recovered from any byte string that starts with it.\<close>

lemma prefixed_inj:
  assumes "length v < 2 ^ 32" and "length w < 2 ^ 32"
  shows "length_prefixed v @ x = length_prefixed w @ y \<longleftrightarrow> v = w \<and> x = y"
proof
  assume eq: "length_prefixed v @ x = length_prefixed w @ y"
  have "length (be32 n) = 4" for n by (simp add: be32_def)
  with eq have "be32 (length v) = be32 (length w)" and rest: "v @ x = w @ y"
    using assms by (auto simp: length_prefixed_def append_eq_append_conv)
  then have "length v = length w" using be32_inj assms by blast
  with rest show "v = w \<and> x = y" by simp
qed simp

lemma prefixed_inj_end: "length v < 2 ^ 32 \<Longrightarrow> length w < 2 ^ 32 \<Longrightarrow> length_prefixed v = length_prefixed w \<longleftrightarrow> v = w"
  using prefixed_inj [of v w "[]" "[]"] by simp

lemma secret_aad_fields:
  "secret_aad sx account project service operation kind sid vid =
     length_prefixed SECRET_AAD_DOMAIN @ length_prefixed (sx_uuid_bytes sx account) @ length_prefixed (sx_uuid_bytes sx project)
     @ length_prefixed (sx_uuid_bytes sx service) @ length_prefixed operation @ length_prefixed kind
     @ length_prefixed (sx_uuid_bytes sx sid) @ length_prefixed (sx_uuid_bytes sx vid)"
  by (simp add: secret_aad_def append_field_prefixed)

section \<open>What a resolution hands out\<close>

lemma sum_case_Commit:
  "(case m of Inl e \<Rightarrow> f e | Inr x \<Rightarrow> s x) = Commit db r \<longleftrightarrow>
     (\<exists>e. m = Inl e \<and> f e = Commit db r) \<or> (\<exists>x. m = Inr x \<and> s x = Commit db r)"
  by (cases m) simp_all

definition credential_of :: "'v secret_ext \<Rightarrow> secret_key \<Rightarrow> job_row \<Rightarrow> resolve_row \<Rightarrow> resolved_job_secret \<Rightarrow> bool" where
  "credential_of sx key j row c \<longleftrightarrow>
     (case row of (r, s, v) \<Rightarrow>
        secret_operation s = ''build'' \<and> build_kind (secret_credential_kind s)
        \<and> rjs_secret_version_id c = version_id v \<and> rjs_name c = secret_name s
        \<and> decrypt sx key
             (secret_aad sx (job_account_id j) (job_project_id j) (job_service_id j)
                (secret_operation s) (secret_credential_kind s) (version_secret_id v) (version_id v))
             (version_nonce v) (version_ciphertext v) (version_auth_tag v) = Inr (rjs_value c))"

lemma decrypt_rows_credentials:
  "decrypt_rows sx key j rows m = Inr m' \<Longrightarrow> m' vid = Some c \<Longrightarrow>
     m vid = Some c \<or> (rjs_secret_version_id c = vid \<and> (\<exists>row \<in> set rows. credential_of sx key j row c))"
proof (induction sx key j rows m rule: decrypt_rows.induct)
  case (2 sx key j r s v rows m)
  from 2(2) obtain plaintext where
    ok: "secret_operation s = ''build''" "build_kind (secret_credential_kind s)"
      "decrypt sx key (secret_aad sx (job_account_id j) (job_project_id j) (job_service_id j)
         (secret_operation s) (secret_credential_kind s) (version_secret_id v) (version_id v))
         (version_nonce v) (version_ciphertext v) (version_auth_tag v) = Inr plaintext"
    and rest: "decrypt_rows sx key j rows (m(version_id v \<mapsto>
        \<lparr>rjs_secret_version_id = version_id v, rjs_name = secret_name s, rjs_value = plaintext\<rparr>)) = Inr m'"
    and guards: "\<not> (secret_operation s \<noteq> ''build'' \<or> job_operation j \<noteq> ''build'')"
      "\<not> secret_credential_kind s \<notin> {''source_repository_read'', ''build_environment''}"
      "\<not> version_key_version v \<noteq> key_version key" "\<not> \<not> valid_utf8 plaintext"
    by (auto simp: build_kind_def split: if_splits sum.splits)
  from 2(1) [OF guards(1,2,3) ok(3) guards(4) rest 2(3)] ok show ?case
    by (auto simp: credential_of_def split: if_splits)
qed simp

lemma take_requested_Inr:
  "take_requested vids m = Inr cs \<Longrightarrow> \<forall>vid c. m vid = Some c \<longrightarrow> rjs_secret_version_id c = vid \<Longrightarrow>
     map rjs_secret_version_id cs = vids \<and> (\<forall>c \<in> set cs. m (rjs_secret_version_id c) = Some c)"
proof (induction vids arbitrary: m cs)
  case (Cons vid vids)
  from Cons.prems(1) obtain c cs' where
    c: "m vid = Some c" "take_requested vids (m(vid := None)) = Inr cs'" "cs = c # cs'"
    by (simp split: option.splits sum.splits)
  have "\<forall>v c. (m(vid := None)) v = Some c \<longrightarrow> rjs_secret_version_id c = v"
    using Cons.prems(2) by simp
  note rest = Cons.IH [OF c(2) this]
  have "m (rjs_secret_version_id d) = Some d" if "d \<in> set cs'" for d
    using rest that by (metis fun_upd_apply option.distinct(1))
  moreover have "rjs_secret_version_id c = vid" using Cons.prems(2) c(1) by blast
  ultimately show ?case using rest c by simp
qed simp

definition holds_live_lease ::
  "tx_env \<Rightarrow> 'v job_db \<Rightarrow> uuid \<Rightarrow> int \<Rightarrow> string \<Rightarrow> job_row \<Rightarrow> attempt_row \<Rightarrow> bool" where
  "holds_live_lease env db aid fence worker j a \<longleftrightarrow>
     j \<in> set (db_jobs db) \<and> a \<in> set (db_attempts db) \<and> at_job_id a = job_id j \<and> at_id a = aid
     \<and> job_state j = ''running'' \<and> at_state a = ''running'' \<and> job_current_attempt_id j = Some aid
     \<and> job_current_fence j = fence \<and> at_fence a = fence \<and> at_worker_id a = worker
     \<and> (\<exists>t. job_lease_expires_at j = Some t \<and> env_now env 0 < t) \<and> env_now env 1 < at_lease_expires_at a"

lemma live_scope_Some:
  assumes "live_scope env db jid aid fence worker = Some j"
  shows "job_id j = jid \<and> (\<exists>a. holds_live_lease env db aid fence worker j a)"
proof -
  obtain a where "(j, a) \<in> set (List.product (db_jobs db) (db_attempts db))"
    "job_id j = jid \<and> job_current_attempt_id j = Some aid \<and> at_job_id a = job_id j
     \<and> job_current_attempt_id j = Some (at_id a) \<and> job_current_fence j = fence
     \<and> job_state j = ''running'' \<and> at_state a = ''running'' \<and> at_fence a = fence \<and> at_worker_id a = worker
     \<and> (case job_lease_expires_at j of Some t \<Rightarrow> t > env_now env 0 | None \<Rightarrow> False)
     \<and> at_lease_expires_at a > env_now env 1"
    using assms unfolding live_scope_def by (fastforce dest: find_SomeD)
  then have "holds_live_lease env db aid fence worker j a" "job_id j = jid"
    unfolding holds_live_lease_def by (auto split: option.splits)
  then show ?thesis by blast
qed

lemma resolve_Inr:
  assumes ok: "resolve_for_locked_live_job sx key scan env jid worker aid fence requested db = Inr cs"
    and scan: "\<forall>rows. set (scan rows) = set rows"
  shows "\<exists>j a. job_id j = jid \<and> holds_live_lease env db aid fence worker j a
      \<and> map rjs_secret_version_id cs = requested
      \<and> (\<forall>c \<in> set cs. \<exists>row \<in> set (resolve_rows db j requested). credential_of sx key j row c)"
proof -
  obtain j where j: "live_scope env db jid aid fence worker = Some j"
    using ok by (auto simp: resolve_for_locked_live_job_def split: if_splits option.splits)
  from live_scope_Some [OF j] obtain a where a: "job_id j = jid" "holds_live_lease env db aid fence worker j a"
    by blast
  show ?thesis
  proof (cases "requested = []")
    case True
    with ok j a show ?thesis by (auto simp: resolve_for_locked_live_job_def split: if_splits)
  next
    case False
    with ok j obtain m where
      m: "decrypt_rows sx key j (scan (resolve_rows db j requested)) Map.empty = Inr m"
        "take_requested requested m = Inr cs"
      by (auto simp: resolve_for_locked_live_job_def Let_def split: if_splits sum.splits)
    note d = decrypt_rows_credentials [OF m(1)]
    have "\<forall>vid c. m vid = Some c \<longrightarrow> rjs_secret_version_id c = vid" using d by fastforce
    note t = take_requested_Inr [OF m(2) this]
    have "\<exists>row \<in> set (resolve_rows db j requested). credential_of sx key j row c" if "c \<in> set cs" for c
      using d [of "rjs_secret_version_id c" c] t that scan by auto
    with a t show ?thesis by blast
  qed
qed

definition bound_row :: "'v job_db \<Rightarrow> job_row \<Rightarrow> resolve_row \<Rightarrow> bool" where
  "bound_row db j row \<longleftrightarrow>
     (case row of (r, s, v) \<Rightarrow>
        r \<in> set (db_secret_refs db) \<and> s \<in> set (db_secrets db) \<and> v \<in> set (db_secret_versions db)
        \<and> ref_job_id r = job_id j \<and> ref_secret_id r = secret_id s \<and> ref_secret_version_id r = version_id v
        \<and> version_secret_id v = secret_id s \<and> secret_status s = ''active''
        \<and> secret_account_id s = job_account_id j \<and> secret_project_id s = job_project_id j
        \<and> secret_service_id s = job_service_id j)"

lemma resolve_rows_bound: "row \<in> set (resolve_rows db j requested) \<Longrightarrow> bound_row db j row"
  by (auto simp: resolve_rows_def bound_row_def)


end
