(* ===== verification/Secret_Invariant.thy ===== *)
theory Secret_Invariant
  imports Secret_Resolution
begin

text \<open>
  The invariant of the secret tables: identifiers are unique, versions are numbered from one and
  counted by the revision of their secret (\<open>numbered\<close>), and the references of jobs point to rows
  of the same scope (\<open>refs_ok\<close>).  Every job step keeps the secrets (an instance of \<open>job_frame\<close>),
  every secret step adds a secret or a version or only logs, and nothing is ever removed
  (\<open>secrets_grow\<close>).
\<close>

section \<open>What the secret endpoints commit\<close>

text \<open>Only stored responses and audit events differ.\<close>

definition only_log :: "'v job_db \<Rightarrow> 'v job_db \<Rightarrow> bool" where
  "only_log db db' \<longleftrightarrow>
     db' = db\<lparr>db_idempotency := db_idempotency db', db_audit := db_audit db'\<rparr>"

lemma only_log_refl [simp]: "only_log db db"
  by (simp add: only_log_def)

lemma only_log_trans: "only_log db db1 \<Longrightarrow> only_log db1 db2 \<Longrightarrow> only_log db db2"
  by (cases db; cases db1; cases db2) (simp add: only_log_def)

lemma log_statements:
  "insert_audit e db = Some db' \<Longrightarrow> only_log db db'"
  "with_records db r = Inr db' \<Longrightarrow> only_log db db'"
  by (cases db; auto simp: only_log_def insert_audit_def with_records_def split: if_splits sum.splits)+

lemma only_log_tables:
  "only_log db db' \<Longrightarrow> db_secrets db' = db_secrets db \<and> db_secret_versions db' = db_secret_versions db
     \<and> db_secret_refs db' = db_secret_refs db \<and> db_services db' = db_services db \<and> same_jobs db db'"
  by (cases db; cases db') (simp add: only_log_def same_jobs_def)

lemma create_secret_commit:
  assumes "create_secret_tx ext sx env auth pp sp headers request db = Commit db' r"
  shows "only_log db db' \<or> (\<exists>account project service db1.
     insert_secret (new_secret env (env_fresh env 0) account project service request) db = Inr db1
     \<and> only_log db1 db')"
  using assms
  by (auto simp: create_secret_tx_def create_new_secret_def audit_def tx_simps sum_case_Commit Let_def
        split: insert_violation.splits dest!: log_statements)
     (metis insert_violation.exhaust only_log_trans)+

lemma resolve_commit:
  assumes "resolve_credentials_tx ext sx configured scan env path request db = Commit db' r"
  shows "only_log db db'"
  using assms
  by (auto simp: resolve_credentials_tx_def worker_audit_def tx_simps sum_case_Commit dest!: log_statements)

text \<open>A version added to a secret, sealed under the additional data of its row.\<close>

definition version_aad :: "'v secret_ext \<Rightarrow> secret_row \<Rightarrow> uuid \<Rightarrow> string" where
  "version_aad sx s vid = secret_aad sx (secret_account_id s) (secret_project_id s)
     (secret_service_id s) (secret_operation s) (secret_credential_kind s) (secret_id s) vid"

definition own_secret :: "secret_row \<Rightarrow> secret_row \<Rightarrow> bool" where
  "own_secret s = secret_in_scope (secret_account_id s) (secret_project_id s) (secret_service_id s) (secret_id s)"

definition adds_version ::
  "'v secret_ext \<Rightarrow> secret_key \<Rightarrow> string \<Rightarrow> tx_env \<Rightarrow> string \<Rightarrow> secret_row \<Rightarrow> secret_version_row
     \<Rightarrow> 'v job_db \<Rightarrow> 'v job_db \<Rightarrow> bool" where
  "adds_version sx key nonce env value s v db db' \<longleftrightarrow>
     s \<in> set (db_secrets db)
     \<and> (\<exists>encrypted db1 db2. encrypt sx key nonce (version_aad sx s (version_id v)) value = Inr encrypted
          \<and> v = new_secret_version env (env_fresh env 0) s (next_version db (secret_id s)) key encrypted
          \<and> insert_secret_version v db = Some db1
          \<and> update_secrets (own_secret s) (bump_secret env) db1 = Some db2 \<and> only_log db2 db')"

lemma create_new_version_commit:
  assumes "create_new_version ext sx key nonce env auth account project service sid operation ikey
     fingerprint expected value db = Commit db' r"
  shows "only_log db db' \<or> (\<exists>s v. adds_version sx key nonce env value s v db db'
     \<and> secret_in_scope account project service sid s \<and> secret_revision s = expected
     \<and> (\<exists>meta. r = Inr (201, meta) \<and> svm_id meta = version_id v \<and> int (svm_version meta) = version_number v))"
proof (cases "only_log db db'")
  case False
  with assms obtain s encrypted db1 db2 db3 meta where
    s: "find (\<lambda>s. secret_in_scope account project service sid s \<and> secret_status s = ''active'')
          (db_secrets db) = Some s" "secret_revision s = expected"
    and e: "encrypt sx key nonce (secret_aad sx account project service (secret_operation s)
              (secret_credential_kind s) sid (env_fresh env 0)) value = Inr encrypted"
    and i: "insert_secret_version (new_secret_version env (env_fresh env 0) s (next_version db sid) key encrypted) db
              = Some db1"
    and u: "update_secrets (secret_in_scope account project service sid) (bump_secret env) db1 = Some db2"
    and m: "version_metadata_of (new_secret_version env (env_fresh env 0) s (next_version db sid) key encrypted)
              = Inr meta" "r = Inr (201, meta)"
    and l: "only_log db2 db3" "only_log db3 db'"
    by (auto simp: create_new_version_def audit_def tx_simps sum_case_Commit Let_def dest!: log_statements)
  from s(1) have s1: "s \<in> set (db_secrets db)" "secret_in_scope account project service sid s"
    by (auto dest: find_SomeD)
  then have eqs: "account = secret_account_id s" "project = secret_project_id s"
    "service = secret_service_id s" "sid = secret_id s" by (auto simp: secret_in_scope_def)
  let ?v = "new_secret_version env (env_fresh env 0) s (next_version db sid) key encrypted"
  have "version_id ?v = env_fresh env 0" by (simp add: new_secret_version_def)
  then have "adds_version sx key nonce env value s ?v db db'"
    using s1 e i u only_log_trans [OF l] unfolding adds_version_def eqs version_aad_def own_secret_def by auto
  moreover have "svm_id meta = version_id ?v \<and> int (svm_version meta) = version_number ?v"
    using m(1) by (auto simp: version_metadata_of_def as_u64_def split: if_splits)
  ultimately show ?thesis using s1(2) s(2) m(2) by blast
qed simp

lemma create_secret_version_commit:
  assumes "create_secret_version_tx ext sx configured nonce env auth pp sp secp headers value db = Commit db' r"
  shows "only_log db db' \<or> (\<exists>key s v. configured = Some key \<and> adds_version sx key nonce env value s v db db'
     \<and> if_match_revision headers = Inr (secret_revision s) \<and> value \<noteq> [] \<and> length value \<le> MAX_SECRET_VALUE_BYTES
     \<and> (\<exists>meta. r = Inr (201, meta) \<and> svm_id meta = version_id v \<and> int (svm_version meta) = version_number v))"
  using assms
  by (auto simp: create_secret_version_tx_def audit_def tx_simps Let_def validate_secret_value_def not_less
        split: if_splits dest!: log_statements create_new_version_commit)

section \<open>The invariant of the secret tables\<close>

definition versions_of :: "'v job_db \<Rightarrow> uuid \<Rightarrow> secret_version_row list" where
  "versions_of db sid = filter (\<lambda>v. version_secret_id v = sid) (db_secret_versions db)"

text \<open>The versions of a secret are numbered from one in the order of their creation, and its
  revision is one more than their number.\<close>

definition numbered :: "'v job_db \<Rightarrow> secret_row \<Rightarrow> bool" where
  "numbered db s \<longleftrightarrow>
     (let n = int (length (versions_of db (secret_id s)))
      in map version_number (versions_of db (secret_id s)) = [1..n] \<and> secret_revision s = n + 1)"

definition secret_tables_ok :: "'v job_db \<Rightarrow> bool" where
  "secret_tables_ok db \<longleftrightarrow>
     distinct (map secret_id (db_secrets db)) \<and> distinct (map version_id (db_secret_versions db))
     \<and> (\<forall>s \<in> set (db_secrets db). secret_status s = ''active'' \<and> numbered db s)
     \<and> (\<forall>v \<in> set (db_secret_versions db). version_check v
          \<and> (\<exists>s \<in> set (db_secrets db). secret_in_scope (version_account_id v) (version_project_id v)
               (version_service_id v) (version_secret_id v) s))"

definition ref_job :: "secret_ref_row \<Rightarrow> job_row \<Rightarrow> bool" where
  "ref_job r j \<longleftrightarrow> job_account_id j = ref_account_id r \<and> job_project_id j = ref_project_id r
     \<and> job_service_id j = ref_service_id r \<and> job_id j = ref_job_id r \<and> job_operation j = ref_operation r"

definition ref_secret :: "secret_ref_row \<Rightarrow> secret_row \<Rightarrow> bool" where
  "ref_secret r s \<longleftrightarrow> secret_account_id s = ref_account_id r \<and> secret_project_id s = ref_project_id r
     \<and> secret_service_id s = ref_service_id r \<and> secret_id s = ref_secret_id r
     \<and> secret_operation s = ref_operation r \<and> secret_credential_kind s = ref_credential_kind r"

definition ref_version :: "secret_ref_row \<Rightarrow> secret_version_row \<Rightarrow> bool" where
  "ref_version r v \<longleftrightarrow> version_account_id v = ref_account_id r \<and> version_project_id v = ref_project_id r
     \<and> version_service_id v = ref_service_id r \<and> version_secret_id v = ref_secret_id r
     \<and> version_id v = ref_secret_version_id r"

abbreviation ref_key :: "secret_ref_row \<Rightarrow> uuid \<times> uuid" where
  "ref_key r \<equiv> (ref_job_id r, ref_secret_version_id r)"

definition refs_ok :: "'v job_db \<Rightarrow> bool" where
  "refs_ok db \<longleftrightarrow>
     distinct (map ref_key (db_secret_refs db))
     \<and> (\<forall>r \<in> set (db_secret_refs db). build_kind (ref_credential_kind r) \<and> ref_operation r = ''build''
          \<and> (\<exists>j \<in> set (db_jobs db). ref_job r j) \<and> (\<exists>s \<in> set (db_secrets db). ref_secret r s)
          \<and> (\<exists>v \<in> set (db_secret_versions db). ref_version r v))"

subsection \<open>Job steps\<close>

definition secrets_kept :: "'v job_db \<Rightarrow> 'v job_db \<Rightarrow> bool" where
  "secrets_kept db db' \<longleftrightarrow>
     db_secrets db' = db_secrets db \<and> db_secret_versions db' = db_secret_versions db
     \<and> set (db_secret_refs db) \<subseteq> set (db_secret_refs db') \<and> (refs_ok db \<longrightarrow> refs_ok db')"

lemma secrets_keptI:
  assumes "db_secrets db' = db_secrets db" "db_secret_versions db' = db_secret_versions db"
    "db_secret_refs db' = db_secret_refs db"
    and "\<And>r j. j \<in> set (db_jobs db) \<Longrightarrow> ref_job r j \<Longrightarrow> \<exists>j' \<in> set (db_jobs db'). ref_job r j'"
  shows "secrets_kept db db'"
  using assms unfolding secrets_kept_def refs_ok_def by simp blast

lemma update_jobs_secrets:
  assumes "keeps_scope f" and "update_jobs p f db = Some db'"
  shows "secrets_kept db db'"
proof (rule secrets_keptI)
  fix r j assume j: "j \<in> set (db_jobs db)" "ref_job r j"
  then have "ref_job r (if p j then f j else j)" using assms(1) by (simp add: ref_job_def keeps_scope_def)
  moreover have "(if p j then f j else j) \<in> set (db_jobs db')"
    using assms(2) j(1) by (auto simp: update_jobs_def split: if_splits)
  ultimately show "\<exists>j' \<in> set (db_jobs db'). ref_job r j'" by blast
qed (use assms(2) in \<open>auto simp: update_jobs_def split: if_splits\<close>)

lemma insert_secret_ref_secrets:
  assumes "build_kind (ref_credential_kind r)" and "insert_secret_ref r db = Some db'"
  shows "secrets_kept db db'"
proof -
  have db': "db' = db\<lparr>db_secret_refs := db_secret_refs db @ [r]\<rparr>" and op: "ref_operation r = ''build''"
    and new: "\<forall>q \<in> set (db_secret_refs db). ref_job_id q = ref_job_id r \<longrightarrow> ref_secret_version_id q \<noteq> ref_secret_version_id r"
    and fk: "\<exists>j \<in> set (db_jobs db). ref_job r j" "\<exists>s \<in> set (db_secrets db). ref_secret r s"
      "\<exists>v \<in> set (db_secret_versions db). ref_version r v"
    using assms(2)
    by (auto simp: insert_secret_ref_def secret_ref_check_def ref_job_def ref_secret_def ref_version_def
        split: if_splits)
  from new have "ref_key r \<notin> set (map ref_key (db_secret_refs db))" by auto
  with db' op fk assms(1) show ?thesis by (auto simp: secrets_kept_def refs_ok_def)
qed

interpretation secret_frame: job_frame secrets_kept
proof unfold_locales
  show "secrets_kept db db1 \<Longrightarrow> secrets_kept db1 db2 \<Longrightarrow> secrets_kept db db2" for db db1 db2 :: "'a job_db"
    by (auto simp: secrets_kept_def)
qed ((rule update_jobs_secrets insert_secret_ref_secrets; assumption)
   | (rule secrets_keptI; auto simp: insert_job_def insert_attempt_def update_attempts_def
        insert_effect_def insert_audit_def split: if_splits))+

subsection \<open>Secret steps\<close>

definition same_secret :: "secret_row \<Rightarrow> secret_row \<Rightarrow> bool" where
  "same_secret s t \<longleftrightarrow> secret_id t = secret_id s \<and> secret_account_id t = secret_account_id s
     \<and> secret_project_id t = secret_project_id s \<and> secret_service_id t = secret_service_id s
     \<and> secret_name t = secret_name s \<and> secret_operation t = secret_operation s
     \<and> secret_credential_kind t = secret_credential_kind s \<and> secret_status t = secret_status s"

definition secrets_grow :: "'v job_db \<Rightarrow> 'v job_db \<Rightarrow> bool" where
  "secrets_grow db db' \<longleftrightarrow>
     (\<forall>s \<in> set (db_secrets db). \<exists>t \<in> set (db_secrets db'). same_secret s t)
     \<and> set (db_secret_versions db) \<subseteq> set (db_secret_versions db')
     \<and> set (db_secret_refs db) \<subseteq> set (db_secret_refs db')"

lemma same_secret_refl [simp]: "same_secret s s"
  by (simp add: same_secret_def)

lemma same_secret_trans: "same_secret s t \<Longrightarrow> same_secret t u \<Longrightarrow> same_secret s u"
  by (simp add: same_secret_def)

lemma secrets_grow_refl [simp]: "secrets_grow db db"
  unfolding secrets_grow_def by (blast intro: same_secret_refl)

lemma secrets_grow_trans: "secrets_grow db db1 \<Longrightarrow> secrets_grow db1 db2 \<Longrightarrow> secrets_grow db db2"
  unfolding secrets_grow_def by (meson order_trans same_secret_trans)

lemma secrets_kept_grow: "secrets_kept db db' \<Longrightarrow> secrets_grow db db'"
  unfolding secrets_kept_def secrets_grow_def by (metis same_secret_refl order_refl)

lemma refs_ok_grow:
  assumes "refs_ok db" and "secrets_grow db db'" and "db_secret_refs db' = db_secret_refs db"
    and "same_jobs db db'"
  shows "refs_ok db'"
proof -
  have "\<exists>t \<in> set (db_secrets db'). ref_secret r t" if s: "s \<in> set (db_secrets db)" "ref_secret r s" for r s
  proof -
    obtain t where "t \<in> set (db_secrets db')" "same_secret s t"
      using assms(2) s(1) unfolding secrets_grow_def by blast
    with s(2) show ?thesis by (intro bexI [of _ t]) (auto simp: ref_secret_def same_secret_def)
  qed
  moreover have "set (db_secret_versions db) \<subseteq> set (db_secret_versions db')"
    using assms(2) by (simp add: secrets_grow_def)
  ultimately have "\<exists>t \<in> set (db_secrets db'). ref_secret r t" "\<exists>v \<in> set (db_secret_versions db'). ref_version r v"
    if "r \<in> set (db_secret_refs db)" for r
    using assms(1) that unfolding refs_ok_def by blast+
  with assms(1,3,4) show ?thesis by (simp add: refs_ok_def same_jobs_def)
qed

lemma only_log_kept: "only_log db db' \<Longrightarrow> secrets_kept db db'"
  by (rule secrets_keptI) (auto dest!: only_log_tables simp: same_jobs_def)

definition secrets_inv :: "'v job_db \<Rightarrow> bool" where
  "secrets_inv db \<longleftrightarrow> jobs_inv db \<and> secret_tables_ok db \<and> refs_ok db"

lemma kept_tables_ok: "secrets_kept db db' \<Longrightarrow> secret_tables_ok db \<Longrightarrow> secret_tables_ok db'"
  by (simp add: secrets_kept_def secret_tables_ok_def numbered_def versions_of_def)

lemma only_log_inv: "only_log db db' \<Longrightarrow> secrets_inv db \<Longrightarrow> secrets_inv db'"
  using kept_tables_ok [OF only_log_kept, of db db'] only_log_tables [of db db'] same_jobs_inv [of db db']
    only_log_kept [of db db']
  by (simp add: secrets_inv_def secrets_kept_def)

lemma insert_secret_Inr:
  "insert_secret s db = Inr db' \<Longrightarrow> db' = db\<lparr>db_secrets := db_secrets db @ [s]\<rparr> \<and> secret_check s
     \<and> secret_id s \<notin> secret_id ` set (db_secrets db)"
  by (auto simp: insert_secret_def secret_key_taken_def split: if_splits)

lemma insert_secret_grow: "insert_secret s db = Inr db' \<Longrightarrow> secrets_grow db db'"
  using insert_secret_Inr [of s db db'] unfolding secrets_grow_def
  by simp (metis Un_iff same_secret_refl)

lemma insert_secret_inv:
  assumes inv: "secrets_inv db" and i: "insert_secret s db = Inr db'"
    and s: "secret_status s = ''active''" "secret_revision s = 1"
  shows "secrets_inv db'"
proof -
  note i' = insert_secret_Inr [OF i]
  have ok: "secret_tables_ok db" using inv by (simp add: secrets_inv_def)
  then have "version_secret_id v \<noteq> secret_id s" if "v \<in> set (db_secret_versions db)" for v
  proof -
    from ok that obtain t where "t \<in> set (db_secrets db)" "secret_id t = version_secret_id v"
      by (auto simp: secret_tables_ok_def secret_in_scope_def)
    with i' show ?thesis by (metis imageI)
  qed
  then have "numbered db' s" using i' s(2)
    by (auto simp: numbered_def versions_of_def filter_empty_conv Let_def)
  moreover have "numbered db' t = numbered db t" for t using i' by (simp add: numbered_def versions_of_def)
  ultimately have "secret_tables_ok db'"
    using ok i' s(1) by (auto simp: secret_tables_ok_def)
  moreover have "same_jobs db db'" "db_secret_refs db' = db_secret_refs db" using i' by (simp_all add: same_jobs_def)
  ultimately show ?thesis
    using inv refs_ok_grow [OF _ insert_secret_grow [OF i]] same_jobs_inv by (auto simp: secrets_inv_def)
qed

lemma fold_max_upto: "0 \<le> n \<Longrightarrow> fold max [1..n] (0 :: int) = n"
proof (induction n rule: int_ge_induct)
  case (step i)
  then have "[1..i + 1] = [1..i] @ [i + 1]" using upto_rec2 [of 1 "i + 1"] by simp
  with step show ?case by simp
qed simp

lemma numbered_next:
  "numbered db s \<Longrightarrow> next_version db (secret_id s) = int (length (versions_of db (secret_id s))) + 1"
  by (simp add: numbered_def Let_def next_version_def versions_of_def fold_max_upto)

definition bumped :: "tx_env \<Rightarrow> secret_row \<Rightarrow> secret_row \<Rightarrow> secret_row" where
  "bumped env s t = (if own_secret s t then bump_secret env t else t)"

lemma bumped_same: "same_secret t (bumped env s t)"
  by (simp add: same_secret_def bumped_def bump_secret_def)

lemma bumped_fields:
  "secret_id (bumped env s t) = secret_id t" "secret_status (bumped env s t) = secret_status t"
  "secret_in_scope x y z w (bumped env s t) = secret_in_scope x y z w t"
  by (simp_all add: bumped_def bump_secret_def secret_in_scope_def)

lemma adds_version_tables:
  assumes "adds_version sx key nonce env value s v db db'"
  shows "db_secret_versions db' = db_secret_versions db @ [v]
    \<and> db_secrets db' = map (bumped env s) (db_secrets db)
    \<and> db_secret_refs db' = db_secret_refs db \<and> same_jobs db db' \<and> s \<in> set (db_secrets db)
    \<and> version_check v \<and> version_id v \<notin> version_id ` set (db_secret_versions db)
    \<and> own_secret s s \<and> secret_in_scope (version_account_id v) (version_project_id v) (version_service_id v)
          (version_secret_id v) s
    \<and> version_secret_id v = secret_id s \<and> version_number v = next_version db (secret_id s)"
  using assms
  by (auto simp: adds_version_def insert_secret_version_def update_secrets_def own_secret_def
      new_secret_version_def secret_in_scope_def same_jobs_def bumped_def dest!: only_log_tables split: if_splits)

lemma adds_version_grow:
  assumes "adds_version sx key nonce env value s v db db'"
  shows "secrets_grow db db'"
proof -
  have "\<exists>u \<in> set (db_secrets db'). same_secret t u" if "t \<in> set (db_secrets db)" for t
    using adds_version_tables [OF assms] that bumped_same [of t env s] by auto
  then show ?thesis using adds_version_tables [OF assms] by (auto simp: secrets_grow_def)
qed

lemma adds_version_numbered:
  assumes ok: "secret_tables_ok db" and a: "adds_version sx key nonce env value s v db db'"
    and t: "t \<in> set (db_secrets db)"
  shows "numbered db' (bumped env s t)"
proof -
  note tab = adds_version_tables [OF a]
  have num: "numbered db t" using ok t by (simp add: secret_tables_ok_def)
  have vs: "versions_of db' i = versions_of db i @ (if i = secret_id s then [v] else [])" for i
    using tab by (simp add: versions_of_def)
  have own: "own_secret s t \<longleftrightarrow> secret_id t = secret_id s"
  proof
    assume "secret_id t = secret_id s"
    then have "t = s" using ok t tab by (auto simp: secret_tables_ok_def distinct_map inj_on_def)
    then show "own_secret s t" using tab by simp
  qed (simp add: own_secret_def secret_in_scope_def)
  show ?thesis
  proof (cases "own_secret s t")
    case True
    let ?n = "int (length (versions_of db (secret_id t)))"
    have "[1..?n + 1] = [1..?n] @ [?n + 1]" using upto_rec2 [of 1 "?n + 1"] by simp
    moreover have "version_number v = ?n + 1" using tab numbered_next [OF num] own True by simp
    ultimately show ?thesis
      using num own True vs by (simp add: numbered_def Let_def bumped_def bump_secret_def add.commute)
  next
    case False
    with num own vs show ?thesis by (simp add: numbered_def bumped_def)
  qed
qed

lemma adds_version_inv:
  assumes inv: "secrets_inv db" and a: "adds_version sx key nonce env value s v db db'"
  shows "secrets_inv db'"
proof -
  note tab = adds_version_tables [OF a]
  have ok: "secret_tables_ok db" using inv by (simp add: secrets_inv_def)
  have "map secret_id (db_secrets db') = map secret_id (db_secrets db)" using tab by (simp add: bumped_fields)
  moreover have "distinct (map version_id (db_secret_versions db'))" using tab ok by (simp add: secret_tables_ok_def)
  moreover have "\<forall>t \<in> set (db_secrets db'). secret_status t = ''active'' \<and> numbered db' t"
    using tab ok adds_version_numbered [OF ok a] by (auto simp: secret_tables_ok_def bumped_fields)
  moreover have "\<forall>w \<in> set (db_secret_versions db'). version_check w \<and> (\<exists>t \<in> set (db_secrets db').
      secret_in_scope (version_account_id w) (version_project_id w) (version_service_id w) (version_secret_id w) t)"
    using tab ok unfolding secret_tables_ok_def by (simp add: bumped_fields) (metis (mono_tags))
  ultimately have "secret_tables_ok db'" using ok by (simp add: secret_tables_ok_def)
  moreover have "refs_ok db'"
    using refs_ok_grow [OF _ adds_version_grow [OF a]] tab inv by (simp add: secrets_inv_def)
  ultimately show ?thesis using inv tab same_jobs_inv by (auto simp: secrets_inv_def)
qed

section \<open>Runs\<close>

lemma run_tx_fst: "fst (run_tx db body) = db \<or> (\<exists>r. body = Commit (fst (run_tx db body)) r)"
  by (cases body) (auto simp: run_tx_def)

lemma new_secret_fresh:
  "secret_status (new_secret env sid account project service request) = ''active''"
  "secret_revision (new_secret env sid account project service request) = 1"
  by (simp_all add: new_secret_def)

lemma store_step_cases:
  assumes "store_step ext sx db db'"
  shows "job_step ext db db' \<or> only_log db db'
    \<or> (\<exists>s db1. insert_secret s db = Inr db1 \<and> secret_status s = ''active'' \<and> secret_revision s = 1 \<and> only_log db1 db')
    \<or> (\<exists>key nonce env value s v. adds_version sx key nonce env value s v db db')"
  using assms
proof cases
  case (secret env auth pp sp headers request)
  then show ?thesis
    using run_tx_fst [of db "create_secret_tx ext sx env auth pp sp headers request db"]
    by (simp add: create_secret_def) (metis create_secret_commit new_secret_fresh only_log_refl)
next
  case (version configured nonce env auth pp sp secp headers val)
  then show ?thesis
    using run_tx_fst [of db "create_secret_version_tx ext sx configured nonce env auth pp sp secp headers val db"]
    by (auto simp: create_secret_version_def dest!: create_secret_version_commit)
next
  case (resolve configured scan env path request)
  then show ?thesis
    using run_tx_fst [of db "resolve_credentials_tx ext sx configured scan env path request db"]
    by (auto simp: resolve_credentials_def dest!: resolve_commit)
qed simp

lemma store_step_grow: "store_step ext sx db db' \<Longrightarrow> secrets_grow db db'"
  using store_step_cases [of ext sx db db'] secrets_kept_grow [OF secret_frame.step_rel [of ext db db']]
    secrets_kept_grow [OF only_log_kept] insert_secret_grow adds_version_grow secrets_grow_trans by metis

lemma store_steps_grow: "(store_step ext sx)\<^sup>*\<^sup>* db db' \<Longrightarrow> secrets_grow db db'"
  by (induction rule: rtranclp_induct) (auto intro: secrets_grow_trans store_step_grow)

lemma job_step_secrets_inv:
  assumes "secrets_inv db" and "job_step ext db db'"
  shows "secrets_inv db'"
  using assms secret_frame.step_rel [OF assms(2)] kept_tables_ok job_step_inv
  unfolding secrets_inv_def by (auto simp: secrets_kept_def)

lemma store_step_inv:
  assumes "secrets_inv db" and "store_step ext sx db db'"
  shows "secrets_inv db'"
  using store_step_cases [OF assms(2)] job_step_secrets_inv [OF assms(1)] only_log_inv
    insert_secret_inv [OF assms(1)] adds_version_inv [OF assms(1)] assms(1) by metis

lemma no_rows_inv: "no_rows db \<Longrightarrow> secrets_inv db"
  using no_jobs_inv by (auto simp: no_rows_def secrets_inv_def secret_tables_ok_def refs_ok_def)

interpretation store: guarded_machine no_rows "store_step ext sx" secrets_inv
  by unfold_locales (auto intro: no_rows_inv store_step_inv)


end
