(* ===== verification/Secret_Properties.thy ===== *)
theory Secret_Properties
  imports Secret_Invariant
begin

text \<open>
  What the secrets component guarantees: who gets a credential (C25), that a stored value comes
  back to the worker of a job that binds it (C26), how versions are numbered (C27), and that the
  additional data binds a ciphertext to its row (C28).  The witnesses follow one concrete run:
  create a secret, add a version, create a job that binds it, lease it, resolve.
\<close>

section \<open>A secret comes back\<close>

lemma live_scope_of_lease:
  assumes inv: "jobs_inv db" and h: "holds_live_lease env db aid fence worker j a"
  shows "live_scope env db (job_id j) aid fence worker = Some j"
proof -
  let ?P = "\<lambda>(i, b). at_account_id b = job_account_id i \<and> at_project_id b = job_project_id i
      \<and> at_job_id b = job_id i \<and> job_current_attempt_id i = Some (at_id b)
      \<and> job_id i = job_id j \<and> job_current_attempt_id i = Some aid \<and> job_current_fence i = fence
      \<and> job_state i = ''running'' \<and> at_state b = ''running'' \<and> at_fence b = fence \<and> at_worker_id b = worker
      \<and> (case job_lease_expires_at i of Some t \<Rightarrow> t > env_now env 0 | None \<Rightarrow> False)
      \<and> at_lease_expires_at b > env_now env 1"
  let ?xs = "List.product (db_jobs db) (db_attempts db)"
  have j: "j \<in> set (db_jobs db)" and a: "a \<in> set (attempts_of db (job_id j))"
    using h by (auto simp: holds_live_lease_def attempts_of_iff)
  then have "at_account_id a = job_account_id j" "at_project_id a = job_project_id j"
    using jobs_inv_lifecycle [OF inv j] by (auto simp: lifecycle_def attempt_log_def)
  then have "?P (j, a)" "(j, a) \<in> set ?xs" using h by (auto simp: holds_live_lease_def)
  then obtain i b where f: "find ?P ?xs = Some (i, b)" by (cases "find ?P ?xs") (auto simp: find_None_iff)
  then have "i \<in> set (db_jobs db)" "job_id i = job_id j" by (auto dest!: find_SomeD)
  then have "i = j" using job_unique [OF inv _ j] by blast
  with f show ?thesis by (simp add: live_scope_def)
qed

lemma filter_unique:
  "distinct xs \<Longrightarrow> x \<in> set xs \<Longrightarrow> (\<And>y. y \<in> set xs \<Longrightarrow> P y \<longleftrightarrow> y = x) \<Longrightarrow> filter P xs = [x]"
  by (induction xs) (auto simp: filter_empty_conv)

lemma keyed_unique: "distinct (map k xs) \<Longrightarrow> x \<in> set xs \<Longrightarrow> y \<in> set xs \<Longrightarrow> k x = k y \<Longrightarrow> x = y"
  by (auto simp: distinct_map inj_on_def)

lemma resolve_rows_single:
  assumes inv: "secrets_inv db" and j: "j \<in> set (db_jobs db)"
    and r: "r \<in> set (db_secret_refs db)" "ref_job_id r = job_id j"
  obtains s v where "resolve_rows db j [ref_secret_version_id r] = [(r, s, v)]"
    "s \<in> set (db_secrets db)" "v \<in> set (db_secret_versions db)" "ref_job r j" "ref_secret r s" "ref_version r v"
proof -
  have refs: "refs_ok db" and ok: "secret_tables_ok db" and jinv: "jobs_inv db"
    using inv by (auto simp: secrets_inv_def)
  then obtain i s v where row: "i \<in> set (db_jobs db)" "ref_job r i" "s \<in> set (db_secrets db)" "ref_secret r s"
      "v \<in> set (db_secret_versions db)" "ref_version r v"
    using r(1) unfolding refs_ok_def by blast
  then have "i = j" using r(2) job_unique [OF jinv row(1) j] by (auto simp: ref_job_def)
  with row have rj: "ref_job r j" by simp
  let ?xs = "List.product (db_secret_refs db) (List.product (db_secrets db) (db_secret_versions db))"
  have keys: "distinct (map ref_key (db_secret_refs db))" "distinct (map secret_id (db_secrets db))"
      "distinct (map version_id (db_secret_versions db))"
    using refs ok by (simp_all add: refs_ok_def secret_tables_ok_def)
  then have "distinct ?xs" by (intro distinct_product) (auto simp: distinct_map)
  moreover have "(r, s, v) \<in> set ?xs" using r(1) row by simp
  ultimately have "resolve_rows db j [ref_secret_version_id r] = [(r, s, v)]"
    unfolding resolve_rows_def
  proof (rule filter_unique, goal_cases)
    case (1 y)
    obtain r' s' v' where y: "y = (r', s', v')" by (cases y)
    show ?case (is "?P y \<longleftrightarrow> _")
    proof
      assume P: "?P y"
      then have "r' = r" using 1 y r by (intro keyed_unique [OF keys(1)]) (auto simp: )
      moreover from this have "s' = s" using 1 y P row by (intro keyed_unique [OF keys(2)]) (auto simp: ref_secret_def)
      moreover have "v' = v" using calculation 1 y P row by (intro keyed_unique [OF keys(3)]) (auto simp: ref_version_def)
      ultimately show "y = (r, s, v)" using y by simp
    next
      assume "y = (r, s, v)"
      with row rj ok show "?P y"
        by (auto simp: ref_secret_def ref_version_def ref_job_def secret_tables_ok_def)
    qed
  qed
  with row rj that show ?thesis by blast
qed

lemma adds_version_open:
  assumes a: "adds_version sx key nonce env val s v db db'"
    and cipher: "\<forall>aad c t. sx_seal sx (key_bytes key) nonce aad val = Some (c, t) \<longrightarrow>
      sx_open sx (key_bytes key) nonce aad c t = Some val"
  shows "decrypt sx key (version_aad sx s (version_id v)) (version_nonce v) (version_ciphertext v)
      (version_auth_tag v) = Inr val \<and> version_key_version v = key_version key"
proof -
  have check: "version_check v" using adds_version_tables [OF a] by simp
  obtain encrypted where e: "encrypt sx key nonce (version_aad sx s (version_id v)) val = Inr encrypted"
    and v: "v = new_secret_version env (env_fresh env 0) s (next_version db (secret_id s)) key encrypted"
    using a by (auto simp: adds_version_def)
  then have "sx_seal sx (key_bytes key) nonce (version_aad sx s (version_id v)) val
      = Some (version_ciphertext v, version_auth_tag v)" "version_nonce v = nonce"
    "version_key_version v = key_version key"
    by (auto simp: encrypt_def new_secret_version_def split: option.splits)
  with cipher check show ?thesis by (simp add: decrypt_def version_check_def)
qed

lemma resolve_single:
  assumes inv: "secrets_inv db" and lease: "holds_live_lease env db aid fence worker j a"
    and rows: "resolve_rows db j [vid] = [(r, s, v)]" and v: "version_id v = vid"
    and kind: "secret_operation s = ''build''" "build_kind (secret_credential_kind s)"
      "job_operation j = ''build''" "version_key_version v = key_version key"
    and opens: "decrypt sx key (secret_aad sx (job_account_id j) (job_project_id j) (job_service_id j)
         (secret_operation s) (secret_credential_kind s) (version_secret_id v) (version_id v))
         (version_nonce v) (version_ciphertext v) (version_auth_tag v) = Inr val" "valid_utf8 val"
    and scan: "\<forall>rows. mset (scan rows) = mset rows"
  shows "resolve_for_locked_live_job sx key scan env (job_id j) worker aid fence [vid] db
     = Inr [\<lparr>rjs_secret_version_id = vid, rjs_name = secret_name s, rjs_value = val\<rparr>]"
proof -
  have "jobs_inv db" using inv by (simp add: secrets_inv_def)
  note scope = live_scope_of_lease [OF this lease]
  have j: "job_id j \<in> job_id ` set (db_jobs db)" using lease by (auto simp: holds_live_lease_def)
  have "mset (scan [(r, s, v)]) = mset [(r, s, v)]" using scan by blast
  then have "scan [(r, s, v)] = [(r, s, v)]" by simp
  with scope rows kind opens j v show ?thesis
    by (simp add: resolve_for_locked_live_job_def MAX_JOB_SECRET_REFS_def build_kind_def)
qed

lemma resolve_credentials_audited:
  assumes inv: "jobs_inv db" and j: "j \<in> set (db_jobs db)"
    and path: "ext_parse_uuid ext path = Some (job_id j)"
    and request: "valid_worker_id (rcr_worker_id request)" "0 < rcr_fence request"
      "length (rcr_secret_version_ids request) \<le> MAX_SECRET_REFS" "distinct (rcr_secret_version_ids request)"
    and r: "resolve_for_locked_live_job sx key scan env (job_id j) (rcr_worker_id request)
        (rcr_attempt_id request) (rcr_fence request) (rcr_secret_version_ids request) db = Inr cs"
    and fresh: "env_fresh env 0 \<notin> audit_row_id ` set (db_audit db)"
  shows "\<exists>db'. resolve_credentials ext sx (Some key) scan env path request db = (db', Inr cs)"
proof -
  have find: "find (\<lambda>i. job_id i = job_id j) (db_jobs db) = Some j" by (rule find_job_by_id [OF inv j])
  obtain db' where audit: "worker_audit (env_fresh env 0) (job_account_id j) ''job.credentials_resolve''
      \<lparr>ctx_job_id = job_id j, ctx_worker_id = rcr_worker_id request, ctx_attempt_id = rcr_attempt_id request,
       ctx_fence = rcr_fence request\<rparr> ''succeeded'' db = Some db'"
    using fresh by (auto simp: worker_audit_def insert_audit_def audit_check_def)
  then have "same_jobs db db'" by (auto simp: worker_audit_def dest: audit_same_jobs)
  then have "jobs_inv db'" using inv by (rule same_jobs_inv)
  moreover have "resolve_credentials_tx ext sx (Some key) scan env path request db = Commit db' (Inr cs)"
    using path request r find audit
    by (simp add: resolve_credentials_tx_def try_result_def path_uuid_def stmt_def)
  ultimately show ?thesis by (simp add: resolve_credentials_def run_tx_Commit)
qed

section \<open>Properties\<close>

text \<open>
  C25. Least privilege at use: a worker receives credentials only while it holds the live lease of
  the job (the job runs, its current attempt, fence and worker are the ones of the request, and
  neither lease has expired); it receives exactly the versions it asked for, in that order; each
  is bound to this job, belongs to an active build secret of the job's own service and of a build
  kind, and its value is the decryption of the stored version under the row's additional data.
\<close>

theorem credentials_only_for_live_lease:
  assumes ok: "resolve_credentials ext sx configured scan env path request db = (db', Inr credentials)"
    and scan: "\<forall>rows. set (scan rows) = set rows"
  shows "\<exists>key j a. configured = Some key \<and> ext_parse_uuid ext path = Some (job_id j)
      \<and> holds_live_lease env db (rcr_attempt_id request) (rcr_fence request) (rcr_worker_id request) j a
      \<and> map rjs_secret_version_id credentials = rcr_secret_version_ids request
      \<and> (\<forall>c \<in> set credentials. \<exists>row. bound_row db j row \<and> credential_of sx key j row c)"
proof -
  have "resolve_credentials_tx ext sx configured scan env path request db = Commit db' (Inr credentials)"
    by (rule run_tx_ok [OF ok [unfolded resolve_credentials_def]])
  then obtain key jid where key: "configured = Some key" "ext_parse_uuid ext path = Some jid"
    and r: "resolve_for_locked_live_job sx key scan env jid (rcr_worker_id request)
        (rcr_attempt_id request) (rcr_fence request) (rcr_secret_version_ids request) db = Inr credentials"
    by (auto simp: resolve_credentials_tx_def tx_simps sum_case_Commit path_uuid_def split: option.splits)
  from resolve_Inr [OF r scan] key show ?thesis by (blast dest: resolve_rows_bound)
qed

text \<open>
  C26. Round trip of a secret: if a request added a version with some value, then at any later
  time, after any steps of owners, workers and the reaper, the worker that holds the live lease of
  a job bound to that version and asks for it receives exactly that value, provided the cipher
  opens what it sealed and the key is still the same.
\<close>

theorem stored_secret_is_resolved:
  assumes reach: "reachable no_rows (store_step ext sx) db"
    and created: "create_secret_version ext sx (Some key) nonce env auth pp sp secp headers val db
      = (db1, Inr (status, meta))" "db_secret_versions db1 \<noteq> db_secret_versions db"
    and utf8: "valid_utf8 val"
    and cipher: "\<forall>aad c t. sx_seal sx (key_bytes key) nonce aad val = Some (c, t) \<longrightarrow>
      sx_open sx (key_bytes key) nonce aad c t = Some val"
    and later: "(store_step ext sx)\<^sup>*\<^sup>* db1 db2"
    and lease: "holds_live_lease env2 db2 aid fence worker j a"
    and bound: "r \<in> set (db_secret_refs db2)" "ref_job_id r = job_id j" "ref_secret_version_id r = svm_id meta"
    and request: "ext_parse_uuid ext path = Some (job_id j)" "valid_worker_id worker" "0 < fence"
    and fresh: "env_fresh env2 0 \<notin> audit_row_id ` set (db_audit db2)"
    and scan: "\<forall>rows. mset (scan rows) = mset rows"
  shows "\<exists>db3 name. resolve_credentials ext sx (Some key) scan env2 path
      \<lparr>rcr_worker_id = worker, rcr_attempt_id = aid, rcr_fence = fence, rcr_secret_version_ids = [svm_id meta]\<rparr> db2
    = (db3, Inr [\<lparr>rjs_secret_version_id = svm_id meta, rjs_name = name, rjs_value = val\<rparr>])"
proof -
  note inv = store.reachable_inv [OF reach]
  have tx: "create_secret_version_tx ext sx (Some key) nonce env auth pp sp secp headers val db
      = Commit db1 (Inr (status, meta))"
    by (rule run_tx_ok [OF created(1) [unfolded create_secret_version_def]])
  obtain s v where a: "adds_version sx key nonce env val s v db db1" and id: "svm_id meta = version_id v"
    using create_secret_version_commit [OF tx] created(2) by (auto dest!: only_log_tables)
  note opens = adds_version_open [OF a cipher]
  have inv2: "secrets_inv db2" by (rule store.steps_inv [OF later adds_version_inv [OF inv a]])
  have j: "j \<in> set (db_jobs db2)" using lease by (simp add: holds_live_lease_def)
  obtain s2 v2 where rows: "resolve_rows db2 j [svm_id meta] = [(r, s2, v2)]"
      "s2 \<in> set (db_secrets db2)" "v2 \<in> set (db_secret_versions db2)" "ref_job r j" "ref_secret r s2" "ref_version r v2"
    by (rule resolve_rows_single [OF inv2 j bound(1,2), unfolded bound(3)])
  have "v \<in> set (db_secret_versions db1)" using adds_version_tables [OF a] by simp
  then have "v \<in> set (db_secret_versions db2)" using store_steps_grow [OF later] by (auto simp: secrets_grow_def)
  then have v2: "v2 = v" using inv2 rows(3,6) id bound(3)
    by (intro keyed_unique [of version_id "db_secret_versions db2"])
       (auto simp: secrets_inv_def secret_tables_ok_def ref_version_def)
  have "s \<in> set (db_secrets db)" using adds_version_tables [OF a] by simp
  then obtain s1 where "s1 \<in> set (db_secrets db2)" "same_secret s s1"
    using secrets_grow_trans [OF adds_version_grow [OF a] store_steps_grow [OF later]]
    unfolding secrets_grow_def by blast
  moreover have "version_secret_id v = secret_id s" using adds_version_tables [OF a] by simp
  ultimately have s2: "same_secret s s2" using inv2 rows(2,5,6) v2
    by (metis (no_types, lifting) keyed_unique ref_secret_def ref_version_def same_secret_def secret_tables_ok_def secrets_inv_def)
  have refs: "refs_ok db2" using inv2 by (simp add: secrets_inv_def)
  have aad: "version_aad sx s (version_id v) = secret_aad sx (job_account_id j) (job_project_id j)
      (job_service_id j) (secret_operation s2) (secret_credential_kind s2) (version_secret_id v2) (version_id v2)"
    using s2 rows(4,5,6) v2 by (simp add: version_aad_def same_secret_def ref_job_def ref_secret_def ref_version_def)
  have kinds: "secret_operation s2 = ''build''" "build_kind (secret_credential_kind s2)" "job_operation j = ''build''"
    using refs bound(1) rows(4,5) by (auto simp: refs_ok_def ref_job_def ref_secret_def)
  have "resolve_for_locked_live_job sx key scan env2 (job_id j) worker aid fence [svm_id meta] db2
     = Inr [\<lparr>rjs_secret_version_id = svm_id meta, rjs_name = secret_name s2, rjs_value = val\<rparr>]"
    using opens v2 id aad
    by (intro resolve_single [OF inv2 lease rows(1) _ kinds _ _ utf8 scan]) simp_all
  from resolve_credentials_audited [OF _ j request(1), where request = "\<lparr>rcr_worker_id = worker,
      rcr_attempt_id = aid, rcr_fence = fence, rcr_secret_version_ids = [svm_id meta]\<rparr>", OF _ _ _ _ _ _ fresh,
      of sx key scan] inv2 request this
  show ?thesis by (auto simp: secrets_inv_def MAX_SECRET_REFS_def)
qed

text \<open>
  C27. Versions are dense: in every reachable store the versions of a secret are numbered
  \<open>1, 2, ..., n\<close> in the order of their creation and the revision of the secret is \<open>n + 1\<close>, so an
  \<open>If-Match\<close> revision names one state of the secret.
\<close>

theorem secret_versions_are_dense:
  assumes "reachable no_rows (store_step ext sx) db" and "s \<in> set (db_secrets db)"
  shows "map version_number (versions_of db (secret_id s)) = [1..int (length (versions_of db (secret_id s)))]
    \<and> secret_revision s = int (length (versions_of db (secret_id s))) + 1"
  using store.reachable_inv [OF assms(1)] assms(2)
  by (simp add: secrets_inv_def secret_tables_ok_def numbered_def Let_def)

text \<open>
  C28. A ciphertext is bound to its row: the additional data of two versions agree only if
  account, project, service, operation, kind, secret and version all agree, so no stored
  ciphertext can be moved to another row and still open.
\<close>

theorem secret_aad_binds_scope:
  assumes codec: "inj (sx_uuid_bytes sx)" "\<forall>u. length (sx_uuid_bytes sx u) = 16"
    and short: "length operation < 2 ^ 32" "length kind < 2 ^ 32"
      "length operation' < 2 ^ 32" "length kind' < 2 ^ 32"
    and eq: "secret_aad sx account project service operation kind sid vid
       = secret_aad sx account' project' service' operation' kind' sid' vid'"
  shows "account = account' \<and> project = project' \<and> service = service' \<and> operation = operation'
    \<and> kind = kind' \<and> sid = sid' \<and> vid = vid'"
  using eq codec short
  by (simp add: secret_aad_fields prefixed_inj prefixed_inj_end inj_eq)

section \<open>A concrete run\<close>

datatype vault_value = VJob job_record | VSecret secret_record | VVersion secret_version_metadata | VDone

definition vault_ext :: "vault_value job_ext" where
  "vault_ext =
     \<lparr>ext_parse_uuid = map_of [(''account'', 1), (''project'', 2), (''service'', 3), (''secret'', 16),
        (''version'', 32), (''job'', 48)],
      ext_show_uuid = (\<lambda>u. ''id''),
      ext_sha256 = (\<lambda>s. replicate 32 CHR ''h''), ext_create_bytes = (\<lambda>r. Some (cjr_source_commit r)),
      ext_cancel_bytes = (\<lambda>_. None), ext_complete_bytes = (\<lambda>r. None),
      ext_job_to_value = (\<lambda>r. Some (VJob r)),
      ext_job_from_value = (\<lambda>v. case v of VJob r \<Rightarrow> Some r | _ \<Rightarrow> None),
      ext_complete_to_value = (\<lambda>r. None), ext_complete_from_value = (\<lambda>v. None),
      ext_exhausted_body = VDone\<rparr>"

text \<open>The sixteen bytes of an identifier, least significant first.\<close>

definition vault_uuid_bytes :: "uuid \<Rightarrow> string" where
  "vault_uuid_bytes u = map (\<lambda>i. char_of (drop_bit (8 * i) (unat u))) [0..<16]"

definition vault_sx :: "vault_value secret_ext" where
  "vault_sx =
     \<lparr>sx_uuid_bytes = vault_uuid_bytes, sx_seal = (\<lambda>k n a p. Some (rev p, replicate 16 CHR ''t'')),
      sx_open = (\<lambda>k n a c t. Some (rev c)), sx_hmac = (\<lambda>k m. replicate 32 CHR ''f''), sx_base64 = (\<lambda>s. s),
      sx_create_bytes = (\<lambda>r. Some (csr_name r)),
      sx_secret_to_value = (\<lambda>r. Some (VSecret r)),
      sx_secret_from_value = (\<lambda>v. case v of VSecret r \<Rightarrow> Some r | _ \<Rightarrow> None),
      sx_version_to_value = (\<lambda>r. Some (VVersion r)),
      sx_version_from_value = (\<lambda>v. case v of VVersion r \<Rightarrow> Some r | _ \<Rightarrow> None)\<rparr>"

lemma vault_uuid_bytes_inj: "inj vault_uuid_bytes"
proof (rule injI)
  fix u w assume eq: "vault_uuid_bytes u = vault_uuid_bytes w"
  have "drop_bit (8 * i) (unat u) mod 256 = drop_bit (8 * i) (unat w) mod 256" if "i < 16" for i
  proof -
    have "vault_uuid_bytes u ! i = vault_uuid_bytes w ! i" using eq by simp
    then have "(char_of (drop_bit (8 * i) (unat u)) :: char) = char_of (drop_bit (8 * i) (unat w))"
      using that by (simp add: vault_uuid_bytes_def)
    then have "(of_char (char_of (drop_bit (8 * i) (unat u)) :: char) :: nat)
        = of_char (char_of (drop_bit (8 * i) (unat w)) :: char)" by simp
    then show ?thesis by (simp add: of_char_of)
  qed
  then have bytes: "take_bit 8 (drop_bit (8 * i) (unat u)) = take_bit 8 (drop_bit (8 * i) (unat w))" if "i < 16" for i
    using that by (simp add: take_bit_eq_mod)
  have "bit (unat u) n = bit (unat w) n" if "n < 128" for n
  proof -
    have i: "n div 8 < 16" "n mod 8 < 8" using that by simp_all
    have "bit (unat x) n = bit (take_bit 8 (drop_bit (8 * (n div 8)) (unat x))) (n mod 8)" for x :: uuid
      using i(2) by (simp add: bit_take_bit_iff bit_drop_bit_eq)
    with bytes [OF i(1)] show ?thesis by metis
  qed
  then show "u = w" by (intro bit_word_eqI) (simp add: bit_unsigned_iff)
qed

theorem secret_aad_binds_scope_witness:
  "secret_aad vault_sx 1 2 3 ''build'' ''build_environment'' 16 32
     \<noteq> secret_aad vault_sx 1 2 3 ''build'' ''build_environment'' 16 33"
proof
  assume eq: "secret_aad vault_sx 1 2 3 ''build'' ''build_environment'' 16 32
     = secret_aad vault_sx 1 2 3 ''build'' ''build_environment'' 16 33"
  have "inj (sx_uuid_bytes vault_sx)" "\<forall>u. length (sx_uuid_bytes vault_sx u) = 16"
    using vault_uuid_bytes_inj by (simp_all add: vault_sx_def vault_uuid_bytes_def)
  from secret_aad_binds_scope [OF this _ _ _ _ eq] show False by simp
qed

definition vault_env :: "int \<Rightarrow> tx_env" where
  "vault_env k =
     \<lparr>env_now = (\<lambda>i. k * 10 + int i), env_fresh = (\<lambda>i. of_int (16 * k + int i)), env_locked = {}\<rparr>"

definition vault_auth :: authenticated where
  "vault_auth = \<lparr>auth_account_id = ''account'', auth_session_id = 9\<rparr>"

definition vault_headers :: header_map where
  "vault_headers = \<lparr>hdr_idempotency_key = Some (Visible ''key-1''), hdr_if_match = Some (Visible ''\"1\"'')\<rparr>"

definition vault_key :: secret_key where "vault_key = \<lparr>key_bytes = replicate 32 CHR ''k'', key_version = ''v1-key''\<rparr>"

definition vault_request :: create_secret_request where
  "vault_request = \<lparr>csr_name = ''TOKEN'', csr_operation = ''build'', csr_credential_kind = ''build_environment''\<rparr>"

definition vault_job :: create_job_request where
  "vault_job = \<lparr>cjr_kind = ''foundation_bookkeeping'', cjr_operation = ''build'',
     cjr_service_id = ''service'', cjr_source_commit = replicate 40 CHR ''a'',
     cjr_secret_version_refs = [\<lparr>svr_service_id = ''service'', svr_secret_version_id = ''version''\<rparr>]\<rparr>"

definition vault0 :: "vault_value job_db" where
  "vault0 = \<lparr>db_jobs = [], db_attempts = [], db_secret_refs = [], db_effects = [],
     db_services = [\<lparr>service_row_id = 3, service_account_id = 1, service_project_id = 2\<rparr>],
     db_secrets = [], db_secret_versions = [], db_idempotency = [], db_audit = []\<rparr>"

definition vault1 where
  "vault1 = fst (create_secret vault_ext vault_sx (vault_env 1) vault_auth ''project'' ''service'' vault_headers
     vault_request vault0)"
definition vault2_result where
  "vault2_result = create_secret_version vault_ext vault_sx (Some vault_key) (replicate 24 CHR ''n'') (vault_env 2)
     vault_auth ''project'' ''service'' ''secret'' vault_headers ''hunter2'' vault1"
definition vault2 where "vault2 = fst vault2_result"
definition vault3 where
  "vault3 = fst (create_job vault_ext (vault_env 3) vault_auth ''project'' vault_headers vault_job vault2)"
definition vault4 where "vault4 = fst (run_tx vault3 (lease_tx vault_ext 60 (vault_env 4) ''worker'' vault3))"



lemmas vault_defs = vault_ext_def vault_sx_def vault_env_def vault_auth_def vault_headers_def vault_key_def
  vault_request_def vault_job_def

lemmas tx_defs = run_tx_def try_result_def stmt_def path_uuid_def account_uuid_def audit_def insert_audit_def
  audit_check_def with_records_def store_replay_def insert_record_def record_check_def find_record_def
  request_hash_def idempotency_key_def if_match_revision_def replay_def in_bigint_def as_u64_def
  current_attempt_fk_def

definition vault_secret :: secret_row where
  "vault_secret = \<lparr>secret_id = 16, secret_account_id = 1, secret_project_id = 2, secret_service_id = 3,
     secret_name = ''TOKEN'', secret_operation = ''build'', secret_credential_kind = ''build_environment'',
     secret_status = ''active'', secret_revision = 1, secret_created_at = 10, secret_updated_at = 10\<rparr>"


lemma trim_token: "trim ''TOKEN'' = ''TOKEN''" by code_simp
lemma vault_valid: "validate_secret_request vault_request = Inr ()" by code_simp
lemma vault_key_ok: "idempotency_key vault_headers = Inr ''key-1''" by code_simp
lemma vault_if_match: "if_match_revision vault_headers = Inr 1" by code_simp

lemma vault1_eq: "vault1 = vault0\<lparr>db_secrets := [vault_secret],
    db_idempotency := [\<lparr>idem_actor = 1, idem_operation = ''secret.create/id/id'', idem_key = ''key-1'',
       idem_request_hash = replicate 32 CHR ''h'', idem_request_key_version = None, idem_response_status = 201,
       idem_response_body = VSecret \<lparr>sm_id = 16, sm_owner_account_id = ''id'', sm_project_id = ''id'',
         sm_service_id = ''id'', sm_name = ''TOKEN'', sm_operation = ''build'',
         sm_credential_kind = ''build_environment'', sm_status = ''active'', sm_revision = 1, sm_created_at = 10\<rparr>\<rparr>],
    db_audit := [\<lparr>audit_row_id = 17, audit_account_id = 1, audit_actor_account_id = Some 1, audit_session_id = Some 9,
       audit_event_type = ''secret.create'', audit_target_type = ''secret'', audit_target_id = Some 16,
       audit_outcome = ''succeeded'', audit_worker = None\<rparr>]\<rparr>"
  unfolding vault1_def create_secret_def create_secret_tx_def vault_valid vault_key_ok
  by (simp add: vault_defs vault0_def tx_defs create_new_secret_def service_exists_def insert_secret_def new_secret_def
    secret_check_def trim_token secret_key_taken_def CREATE_SECRET_OPERATION_def secret_record_of_def vault_secret_def)

definition vault_meta :: secret_version_metadata where
  "vault_meta = \<lparr>svm_id = 32, svm_secret_id = 16, svm_version = 1, svm_created_at = 20\<rparr>"

definition vault_version :: secret_version_row where
  "vault_version = \<lparr>version_id = 32, version_account_id = 1, version_project_id = 2, version_service_id = 3,
     version_secret_id = 16, version_number = 1, version_key_version = ''v1-key'',
     version_nonce = replicate 24 CHR ''n'', version_ciphertext = rev ''hunter2'',
     version_auth_tag = replicate 16 CHR ''t'', version_created_at = 20\<rparr>"

lemma vault_value_ok: "validate_secret_value ''hunter2'' = Inr ()"
  by (simp add: validate_secret_value_def MAX_SECRET_VALUE_BYTES_def)

definition vault_record :: "string \<Rightarrow> string \<Rightarrow> string option \<Rightarrow> vault_value \<Rightarrow> vault_value idempotency_record" where
  "vault_record op hash kv body = \<lparr>idem_actor = 1, idem_operation = op, idem_key = ''key-1'',
     idem_request_hash = hash, idem_request_key_version = kv, idem_response_status = 201, idem_response_body = body\<rparr>"

definition vault_audit :: "uuid \<Rightarrow> string \<Rightarrow> string \<Rightarrow> uuid \<Rightarrow> audit_row" where
  "vault_audit i event target t = \<lparr>audit_row_id = i, audit_account_id = 1, audit_actor_account_id = Some 1,
     audit_session_id = Some 9, audit_event_type = event, audit_target_type = target, audit_target_id = Some t,
     audit_outcome = ''succeeded'', audit_worker = None\<rparr>"

lemma vault2_result_eq:
  "vault2_result = (vault0\<lparr>db_secrets := [vault_secret\<lparr>secret_revision := 2, secret_updated_at := 20\<rparr>],
      db_secret_versions := [vault_version],
      db_idempotency := db_idempotency vault1 @
         [vault_record ''secret.version.create/id'' (replicate 32 CHR ''f'') (Some ''v1-key'') (VVersion vault_meta)],
      db_audit := db_audit vault1 @ [vault_audit 33 ''secret.version.create'' ''secret_version'' 32]\<rparr>,
    Inr (201, vault_meta))"
  unfolding vault2_result_def create_secret_version_def create_secret_version_tx_def vault_value_ok vault_key_ok vault_if_match
  by (simp add: vault_defs vault1_eq vault0_def tx_defs create_new_version_def secret_replay_def
    secret_in_scope_def next_version_def encrypt_def insert_secret_version_def new_secret_version_def version_check_def
    update_secrets_def bump_secret_def secret_check_def vault_secret_def version_metadata_of_def vault_meta_def
    store_secret_replay_def vault_version_def replay_fingerprint_def CREATE_VERSION_OPERATION_def
    vault_record_def vault_audit_def)

definition vault_new_job :: job_row where
  "vault_new_job = \<lparr>job_id = 48, job_account_id = 1, job_project_id = 2, job_service_id = 3, job_kind = JOB_KIND,
     job_operation = JOB_OPERATION, job_source_commit = replicate 40 CHR ''a'', job_state = ''queued'', job_revision = 1,
     job_attempt_count = 0, job_max_attempts = 3, job_current_attempt_id = None, job_current_fence = 0,
     job_lease_expires_at = None, job_created_at = 30, job_updated_at = 30\<rparr>"

definition vault_ref :: secret_ref_row where
  "vault_ref = \<lparr>ref_account_id = 1, ref_project_id = 2, ref_service_id = 3, ref_job_id = 48, ref_secret_id = 16,
     ref_secret_version_id = 32, ref_operation = ''build'', ref_credential_kind = ''build_environment''\<rparr>"

lemma vault_job_ok: "valid_source_commit (cjr_source_commit vault_job)" "job_check vault_new_job" by code_simp+

definition "vault_job_record = \<lparr>jr_id = 48, jr_project_id = ''id'', jr_service_id = ''id'', jr_kind = JOB_KIND,
     jr_operation = JOB_OPERATION, jr_source_commit = replicate 40 CHR ''a'', jr_state = ''queued'', jr_revision = 1,
     jr_attempt_count = 0, jr_current_attempt_id = None, jr_current_fence = 0, jr_lease_expires_at = None,
     jr_secret_version_refs = [\<lparr>svr_service_id = ''id'', svr_secret_version_id = ''id''\<rparr>],
     jr_created_at = 30, jr_updated_at = 30\<rparr>"

lemma vault3_eq: "vault3 = vault2\<lparr>db_jobs := [vault_new_job], db_secret_refs := [vault_ref],
    db_idempotency := db_idempotency vault2 @ [vault_record ''job.create/id'' (replicate 32 CHR ''h'') None (VJob vault_job_record)],
    db_audit := db_audit vault2 @ [vault_audit 49 ''job.create'' ''job'' 48]\<rparr>"
  unfolding vault3_def create_job_def create_job_tx_def vault_key_ok 
  using vault_job_ok
  by (simp add: vault_defs vault2_def vault2_result_eq vault1_eq vault0_def tx_defs create_new_job_def
    secret_metadata_def insert_job_def new_job_def vault_new_job_def insert_secret_ref_def secret_ref_check_def
    load_job_def job_in_scope_def job_record_of_def as_u32_def JOB_KIND_def JOB_OPERATION_def MAX_SECRET_REFS_def
    vault_record_def vault_audit_def vault_ref_def vault_job_record_def vault_secret_def vault_version_def)

definition vault_leased_job :: job_row where
  "vault_leased_job = vault_new_job\<lparr>job_state := ''running'', job_revision := 2, job_attempt_count := 1,
     job_current_attempt_id := Some 64, job_current_fence := 1, job_lease_expires_at := Some 60000040,
     job_updated_at := 41\<rparr>"

definition vault_attempt :: attempt_row where
  "vault_attempt = \<lparr>at_id = 64, at_account_id = 1, at_project_id = 2, at_job_id = 48, at_number = 1, at_fence = 1,
     at_worker_id = ''worker'', at_state = ''running'', at_lease_started_at = 42, at_lease_expires_at = 60000040,
     at_finished_at = None, at_terminal_code = None, at_completion_hash = None\<rparr>"

lemma vault_leased_ok: "job_check vault_leased_job" "attempt_check vault_attempt"
  using vault_job_ok(2)
  by (auto simp: job_check_def vault_leased_job_def attempt_check_def vault_attempt_def in_bigint_def)

lemma vault4_eq: "vault4 = vault3\<lparr>db_jobs := [vault_leased_job], db_attempts := [vault_attempt],
    db_audit := db_audit vault3 @ [\<lparr>audit_row_id = 65, audit_account_id = 1, audit_actor_account_id = None,
     audit_session_id = None, audit_event_type = ''job.lease'', audit_target_type = ''job'', audit_target_id = Some 48,
     audit_outcome = ''succeeded'', audit_worker = Some (''worker'', 64, 1)\<rparr>]\<rparr>"
  unfolding vault4_def lease_tx_def
  using vault_leased_ok
  by (simp add: vault_defs vault3_eq vault2_def vault2_result_eq vault1_eq vault0_def tx_defs claimable_job_def
    first_by_def insert_attempt_def update_jobs_def leased_job_def new_attempt_def second_def
    load_job_def job_in_scope_def job_record_of_def as_u32_def JOB_KIND_def JOB_OPERATION_def worker_audit_def
    vault_leased_job_def vault_attempt_def vault_new_job_def vault_record_def vault_audit_def vault_ref_def)

lemma reachable_vault1: "reachable no_rows (store_step vault_ext vault_sx) vault1"
proof -
  have "reachable no_rows (store_step vault_ext vault_sx) vault0"
    by (rule reachable_init) (simp add: no_rows_def no_jobs_def vault0_def)
  then show ?thesis unfolding vault1_def by (rule reachable_step) (rule store_step.secret)
qed

lemma vault_steps: "(store_step vault_ext vault_sx)\<^sup>*\<^sup>* vault2 vault4"
proof -
  have "store_step vault_ext vault_sx vault2 vault3"
    unfolding vault3_def by (rule store_step.job) (rule job_step.create)
  moreover have "store_step vault_ext vault_sx vault3 vault4"
    unfolding vault4_def by (rule store_step.job, rule job_step.lease) code_simp
  ultimately show ?thesis by (meson rtranclp.rtrancl_refl rtranclp.rtrancl_into_rtrancl)
qed

lemma vault_lease_live: "holds_live_lease (vault_env 5) vault4 64 1 ''worker'' vault_leased_job vault_attempt"
  by (simp add: holds_live_lease_def vault4_eq vault_leased_job_def vault_attempt_def vault_new_job_def vault_env_def)

lemma vault_request_ok:
  "valid_worker_id ''worker''" "valid_utf8 ''hunter2''"
  "env_fresh (vault_env 5) 0 \<notin> audit_row_id ` set (db_audit vault4)"
proof -
  show "valid_worker_id ''worker''" "valid_utf8 ''hunter2''" by code_simp+
  show "env_fresh (vault_env 5) 0 \<notin> audit_row_id ` set (db_audit vault4)"
    by (simp add: vault4_eq vault3_eq vault2_def vault2_result_eq vault1_eq vault_env_def vault_audit_def)
qed

theorem stored_secret_is_resolved_witness:
  "\<exists>db3 name. resolve_credentials vault_ext vault_sx (Some vault_key) (\<lambda>rows. rows) (vault_env 5) ''job''
      \<lparr>rcr_worker_id = ''worker'', rcr_attempt_id = 64, rcr_fence = 1, rcr_secret_version_ids = [32]\<rparr> vault4
    = (db3, Inr [\<lparr>rjs_secret_version_id = 32, rjs_name = name, rjs_value = ''hunter2''\<rparr>])"
proof -
  have r: "vault_ref \<in> set (db_secret_refs vault4)" "ref_job_id vault_ref = job_id vault_leased_job"
     "ref_secret_version_id vault_ref = svm_id vault_meta"
     "ext_parse_uuid vault_ext ''job'' = Some (job_id vault_leased_job)"
    by (simp_all add: vault4_eq vault3_eq vault_ref_def vault_leased_job_def vault_new_job_def vault_meta_def vault_ext_def)
  have created: "create_secret_version vault_ext vault_sx (Some vault_key) (replicate 24 CHR ''n'') (vault_env 2)
     vault_auth ''project'' ''service'' ''secret'' vault_headers ''hunter2'' vault1 = (vault2, Inr (201, vault_meta))"
    using vault2_result_eq by (simp add: vault2_result_def vault2_def)
  have new: "db_secret_versions vault2 \<noteq> db_secret_versions vault1"
    by (simp add: vault2_def vault2_result_eq vault1_eq vault0_def)
  have "\<forall>aad c t. sx_seal vault_sx (key_bytes vault_key) (replicate 24 CHR ''n'') aad ''hunter2'' = Some (c, t) \<longrightarrow>
      sx_open vault_sx (key_bytes vault_key) (replicate 24 CHR ''n'') aad c t = Some ''hunter2''"
    by (auto simp: vault_sx_def)
  from stored_secret_is_resolved [OF reachable_vault1 created new vault_request_ok(2) this vault_steps
      vault_lease_live r vault_request_ok(1) _ vault_request_ok(3), of "\<lambda>rows. rows"]
  show ?thesis by (simp add: vault_meta_def)
qed

theorem credentials_only_for_live_lease_witness:
  "\<exists>j a. holds_live_lease (vault_env 5) vault4 64 1 ''worker'' j a \<and> job_id j = 48"
proof -
  let ?request = "\<lparr>rcr_worker_id = ''worker'', rcr_attempt_id = 64, rcr_fence = 1, rcr_secret_version_ids = [32]\<rparr>"
  let ?run = "resolve_credentials vault_ext vault_sx (Some vault_key) (\<lambda>rows. rows) (vault_env 5) ''job'' ?request vault4"
  have "snd ?run = Inr [\<lparr>rjs_secret_version_id = 32, rjs_name = ''TOKEN'', rjs_value = ''hunter2''\<rparr>]"
    using vault_request_ok(1,2)
    by (simp add: resolve_credentials_def resolve_credentials_tx_def resolve_for_locked_live_job_def live_scope_def
      resolve_rows_def decrypt_def tx_defs worker_audit_def MAX_SECRET_REFS_def MAX_JOB_SECRET_REFS_def vault_defs
      vault4_eq vault3_eq vault2_def vault2_result_eq vault1_eq vault0_def vault_leased_job_def vault_attempt_def
      vault_new_job_def vault_ref_def vault_secret_def vault_version_def vault_audit_def JOB_OPERATION_def
      del: valid_utf8.simps)
  then have "?run = (fst ?run, Inr [\<lparr>rjs_secret_version_id = 32, rjs_name = ''TOKEN'', rjs_value = ''hunter2''\<rparr>])"
    by (simp add: prod_eq_iff)
  from credentials_only_for_live_lease [OF this] show ?thesis by (auto simp: vault_ext_def)
qed

theorem secret_versions_are_dense_witness:
  "secret_revision (vault_secret\<lparr>secret_revision := 2, secret_updated_at := 20\<rparr>) = 2
   \<and> map version_number (versions_of vault2 16) = [1..1]"
proof -
  have "reachable no_rows (store_step vault_ext vault_sx) vault2"
    unfolding vault2_def vault2_result_def by (rule reachable_step [OF reachable_vault1 store_step.version])
  moreover have "vault_secret\<lparr>secret_revision := 2, secret_updated_at := 20\<rparr> \<in> set (db_secrets vault2)"
    "versions_of vault2 16 = [vault_version]"
    by (simp_all add: vault2_def vault2_result_eq versions_of_def vault_version_def)
  ultimately show ?thesis using secret_versions_are_dense by (fastforce simp: vault_secret_def)
qed

end
