(* ===== verification/Json_Value.thy ===== *)
theory Json_Value
  imports Hostlet_Prelude
begin

text \<open>
  \<open>serde_json::Value\<close> as the sources use it: the six constructors and the accessors \<open>get\<close>,
  \<open>as_str\<close>, \<open>as_bool\<close>, \<open>as_array\<close> and \<open>as_object\<close>.  An object is the list of its entries; \<open>get\<close>
  returns the value of a key and \<open>None\<close> for anything that is not an object.  A number keeps its
  text: the code never computes with one.
\<close>

datatype json =
    JNull
  | JBool bool
  | JNumber string
  | JString string
  | JArray "json list"
  | JObject "(string \<times> json) list"

fun json_get :: "string \<Rightarrow> json \<Rightarrow> json option" where
  "json_get key (JObject entries) = map_of entries key"
| "json_get key _ = None"

fun as_str :: "json \<Rightarrow> string option" where
  "as_str (JString s) = Some s"
| "as_str _ = None"

fun as_bool :: "json \<Rightarrow> bool option" where
  "as_bool (JBool b) = Some b"
| "as_bool _ = None"

fun as_array :: "json \<Rightarrow> json list option" where
  "as_array (JArray vs) = Some vs"
| "as_array _ = None"

fun as_object :: "json \<Rightarrow> (string \<times> json) list option" where
  "as_object (JObject entries) = Some entries"
| "as_object _ = None"

definition get_str :: "string \<Rightarrow> json \<Rightarrow> string option" where
  "get_str key value = Option.bind (json_get key value) as_str"

definition get_bool :: "string \<Rightarrow> json \<Rightarrow> bool option" where
  "get_bool key value = Option.bind (json_get key value) as_bool"

lemma map_of_size:
  "map_of entries key = Some v \<Longrightarrow> size v < Suc (size_list (size_prod (\<lambda>_. 0) size) entries)"
  by (induction entries) (auto split: if_splits)

end
