(* ===== verification/Publisher_Render.thy ===== *)
theory Publisher_Render
  imports Json_Value Portfolio_Contract
begin

text \<open>
  The renderer of \<^verbatim>\<open>crates/publisher/src/render.rs\<close>: an approved public document becomes a
  directory of static files (a page per project, an index, a stylesheet) with a manifest of their
  digests.  Parameters are the URL parser, SHA-256 in hexadecimal, the RFC 3339 printer of
  timestamps and the JSON codecs (\<open>render_ext\<close>), and which file-system calls fail (\<open>os_fails\<close>).
\<close>

section \<open>The public document\<close>

datatype contact_link_kind = EmailContact | WebsiteContact | SocialContact | OtherContact
datatype public_link_kind = SourceLink | DemoLink | OtherLink
datatype public_evidence_kind = ScreenshotEvidence | DocumentEvidence | DemoRecordingEvidence
datatype public_availability = IsAvailable | IsDegraded | IsDemoOffline

record doc_link =
  dl_id :: string
  dl_label :: string
  dl_url :: string

record doc_contact =
  dc_id :: string
  dc_kind :: contact_link_kind
  dc_label :: string
  dc_url :: string

record doc_decision =
  dd_id :: string
  dd_summary :: string
  dd_rationale :: string

record doc_project_link =
  dpl_kind :: public_link_kind
  dpl_link :: doc_link

record doc_evidence =
  de_id :: string
  de_kind :: public_evidence_kind
  de_title :: string
  de_url :: string
  de_caption :: "string option"
  de_alt_text :: "string option"

record doc_deployment =
  dep_fact_revision_id :: uuid
  dep_managed_demo_url :: "string option"
  dep_deployed_at :: "timestamp option"
  dep_availability :: "public_availability option"
  dep_status_label :: "string option"
  dep_release_identifier :: "string option"
  dep_source_commit :: "string option"

record doc_project =
  dp_project_reference_id :: string
  dp_order :: nat
  dp_title :: string
  dp_purpose :: string
  dp_contribution :: string
  dp_technical_decisions :: "doc_decision list"
  dp_links :: "doc_project_link list"
  dp_evidence :: "doc_evidence list"
  dp_deployment :: "doc_deployment option"
  dp_readiness :: "json option"

record public_document =
  doc_contract_version :: string
  doc_approved_revision_id :: uuid
  doc_display_name :: string
  doc_headline :: "string option"
  doc_introduction :: "string option"
  doc_target_role :: "string option"
  doc_skills :: "string list"
  doc_resume :: "doc_link option"
  doc_contacts :: "doc_contact list"
  doc_projects :: "doc_project list"
  doc_appearance :: json

record manifest_file =
  mf_path :: string
  mf_bytes :: nat
  mf_sha256 :: string
  mf_content_type :: string

record manifest =
  man_format :: string
  man_publication_id :: uuid
  man_document_digest :: string
  man_files :: "manifest_file list"

text \<open>The URL accessors of the portfolio contract, and one more that only the publisher uses.\<close>

record based_url = parsed_url +
  url_cannot_be_a_base :: bool

record render_ext =
  rx_parse_url :: "string \<Rightarrow> based_url option"
  rx_sha256_hex :: "string \<Rightarrow> string"
  rx_rfc3339 :: "timestamp \<Rightarrow> string"
  rx_document_to_vec :: "json \<Rightarrow> string option"
  rx_document_from_value :: "json \<Rightarrow> public_document option"
  rx_manifest_to_vec :: "manifest \<Rightarrow> string option"
  rx_manifest_from_slice :: "string \<Rightarrow> manifest option"

section \<open>Escaping\<close>

text \<open>
  The five characters are ASCII, so going through the characters of a string or through its bytes
  is the same.
\<close>

definition escape_char :: "char \<Rightarrow> string" where
  "escape_char c =
     (if c = CHR ''&'' then ''&amp;''
      else if c = CHR ''<'' then ''&lt;''
      else if c = CHR ''>'' then ''&gt;''
      else if c = CHR 0x22 then ''&quot;''
      else if c = CHR 0x27 then ''&#39;''
      else [c])"

definition escape :: "string \<Rightarrow> string" where
  "escape value = fold (\<lambda>c out. out @ escape_char c) value []"

definition escape_attr :: "string \<Rightarrow> string" where
  "escape_attr value = escape value"

text \<open>\<open>str::replace\<close> of one ASCII character.\<close>

definition replace_char :: "char \<Rightarrow> char \<Rightarrow> string \<Rightarrow> string" where
  "replace_char a b s = map (\<lambda>c. if c = a then b else c) s"

definition project_path :: "render_ext \<Rightarrow> string \<Rightarrow> string" where
  "project_path rx reference =
     (if reference \<noteq> [] \<and> length reference \<le> 80
         \<and> (\<forall>b \<in> set reference. is_ascii_alphanumeric b \<or> b = CHR ''-'' \<or> b = CHR ''_'')
      then reference
      else take 24 (''project-'' @ rx_sha256_hex rx reference))"

definition lower_hex :: "string \<Rightarrow> bool" where
  "lower_hex s \<longleftrightarrow> (\<forall>b \<in> set s. is_ascii_hexdigit b \<and> \<not> is_ascii_uppercase b)"

definition valid_sha256_digest :: "string \<Rightarrow> bool" where
  "valid_sha256_digest value \<longleftrightarrow>
     (case strip_prefix ''sha256:'' value of
        Some hex \<Rightarrow> length hex = 64 \<and> lower_hex hex
      | None \<Rightarrow> False)"

section \<open>Validation\<close>

definition public_https :: "render_ext \<Rightarrow> string \<Rightarrow> string + unit" where
  "public_https rx value =
     (case rx_parse_url rx value of
        None \<Rightarrow> Inl ''unsafe_public_url''
      | Some url \<Rightarrow>
          if url_scheme url \<noteq> ''https'' \<or> url_host_str url = None \<or> url_username url \<noteq> []
             \<or> url_password url \<noteq> None
          then Inl ''unsafe_public_url'' else Inr ())"

definition public_mailto :: "render_ext \<Rightarrow> string \<Rightarrow> string + unit" where
  "public_mailto rx value =
     (case rx_parse_url rx value of
        None \<Rightarrow> Inl ''unsafe_public_url''
      | Some url \<Rightarrow>
          if url_scheme url \<noteq> ''mailto'' \<or> \<not> url_cannot_be_a_base url \<or> url_path url = []
             \<or> CHR 0x0D \<in> set (url_path url) \<or> CHR 0x0A \<in> set (url_path url)
             \<or> url_query url \<noteq> None \<or> url_fragment url \<noteq> None
          then Inl ''unsafe_public_url'' else Inr ())"

definition public_id :: "string \<Rightarrow> string + unit" where
  "public_id value =
     (if value = [] \<or> length value > 128 \<or> (\<exists>c \<in> set (chars value). is_control c)
      then Inl ''invalid_public_document'' else Inr ())"

text \<open>Checks in sequence: \<open>?\<close> returns the first error.\<close>

definition and_then :: "'e + unit \<Rightarrow> 'e + unit \<Rightarrow> 'e + unit" where
  "and_then a b = (case a of Inl e \<Rightarrow> Inl e | Inr _ \<Rightarrow> b)"

fun check_all :: "('a \<Rightarrow> 'e + unit) \<Rightarrow> 'a list \<Rightarrow> 'e + unit" where
  "check_all f [] = Inr ()"
| "check_all f (x # xs) = and_then (f x) (check_all f xs)"

definition check_contact :: "render_ext \<Rightarrow> doc_contact \<Rightarrow> string + unit" where
  "check_contact rx contact =
     and_then (public_id (dc_id contact))
       (case dc_kind contact of
          EmailContact \<Rightarrow> public_mailto rx (dc_url contact)
        | _ \<Rightarrow> public_https rx (dc_url contact))"

definition check_evidence :: "render_ext \<Rightarrow> doc_evidence \<Rightarrow> string + unit" where
  "check_evidence rx evidence =
     and_then (public_id (de_id evidence))
       (if de_kind evidence = ScreenshotEvidence then Inl ''unsupported_external_image''
        else public_https rx (de_url evidence))"

definition check_project :: "render_ext \<Rightarrow> doc_project \<Rightarrow> string + unit" where
  "check_project rx project =
     and_then (public_id (dp_project_reference_id project))
    (and_then (check_all (\<lambda>d. public_id (dd_id d)) (dp_technical_decisions project))
    (and_then (check_all (\<lambda>l. and_then (public_id (dl_id (dpl_link l))) (public_https rx (dl_url (dpl_link l))))
                 (dp_links project))
    (and_then (check_all (check_evidence rx) (dp_evidence project))
    (and_then (case Option.bind (dp_deployment project) dep_managed_demo_url of
                 Some url \<Rightarrow> public_https rx url | None \<Rightarrow> Inr ())
       (case dp_deployment project of
          Some deployment \<Rightarrow>
            if dep_fact_revision_id deployment = 0 then Inl ''invalid_public_document'' else Inr ()
        | None \<Rightarrow> Inr ())))))"

fun strictly_ascending :: "nat list \<Rightarrow> bool" where
  "strictly_ascending (a # b # xs) \<longleftrightarrow> a < b \<and> strictly_ascending (b # xs)"
| "strictly_ascending _ \<longleftrightarrow> True"

definition validate_document :: "render_ext \<Rightarrow> public_document \<Rightarrow> string + unit" where
  "validate_document rx document =
     (if doc_approved_revision_id document = 0 then Inl ''invalid_public_document''
      else if \<not> strictly_ascending (map dp_order (doc_projects document)) then Inl ''invalid_project_order''
      else and_then (case doc_resume document of
                       Some link \<Rightarrow> and_then (public_id (dl_id link)) (public_https rx (dl_url link))
                     | None \<Rightarrow> Inr ())
          (and_then (check_all (check_contact rx) (doc_contacts document))
                    (check_all (check_project rx) (doc_projects document))))"

section \<open>Pages\<close>

definition CSS :: string where
  \<open>CSS =
       '':root{--accent:#e15f41;--ink:#17202a;--muted:#5d6d7e;--paper:#fffaf5;--card:#fff;--li''
     @ ''ne:#eadfd5;font-family:ui-sans-serif,system-ui,sans-serif}*{box-sizing:border-box}bod''
     @ ''y{margin:0;background:var(--paper);color:var(--ink);line-height:1.6}main{width:min(72''
     @ ''rem,calc(100% - 2rem));margin:auto;padding:4rem 0}header{max-width:52rem;margin-botto''
     @ ''m:4rem}h1{font-size:clamp(2.7rem,8vw,6rem);line-height:.95;margin:.2rem 0 1.4rem}h2{m''
     @ ''argin-top:3rem}h3{margin:.2rem 0}.eyebrow,.meta{color:var(--muted);font-size:.92rem}.''
     @ ''accent{color:var(--accent)}.grid{display:grid;grid-template-columns:repeat(auto-fit,m''
     @ ''inmax(17rem,1fr));gap:1rem}.card{display:block;background:var(--card);border:1px soli''
     @ ''d var(--line);border-radius:1rem;padding:1.4rem;color:inherit;text-decoration:none}.c''
     @ ''ard:hover{border-color:var(--accent)}.tags,.links{display:flex;flex-wrap:wrap;gap:.6r''
     @ ''em;list-style:none;padding:0}.tags li{background:var(--card);border:1px solid var(--l''
     @ ''ine);border-radius:999px;padding:.25rem .7rem}a{color:var(--accent);text-underline-of''
     @ ''fset:.18em}.evidence{max-width:100%;border-radius:.7rem;border:1px solid var(--line)}''
     @ ''.decision{border-left:.2rem solid var(--accent);padding-left:1rem}.back{display:inlin''
     @ ''e-block;margin-bottom:2rem}@media(prefers-color-scheme:dark){:root{--ink:#f5eee8;--mu''
     @ ''ted:#b9aaa0;--paper:#171411;--card:#221d19;--line:#40352e}}''\<close>

definition themed_css :: "json \<Rightarrow> string" where
  \<open>themed_css appearance =
     (let accent = (case get_str ''accent'' appearance of
                      Some name \<Rightarrow>
                        if name = ''coral'' then ''#e15f41''
                        else if name = ''indigo'' then ''#4f46a5''
                        else if name = ''forest'' then ''#27845c''
                        else ''#e15f41''
                    | None \<Rightarrow> ''#e15f41'');
          font = (case get_str ''typography'' appearance of
                    Some name \<Rightarrow>
                      if name = ''serif'' \<or> name = ''editorial_serif'' then ''ui-serif,Georgia,serif''
                      else ''ui-sans-serif,system-ui,sans-serif''
                  | None \<Rightarrow> ''ui-sans-serif,system-ui,sans-serif'')
      in CSS @ [CHR 0x0A] @ '':root{--accent:'' @ accent @ '';font-family:'' @ font @ ''}'' @ [CHR 0x0A])\<close>

definition opt_html :: "('a \<Rightarrow> string) \<Rightarrow> 'a option \<Rightarrow> string" where
  "opt_html f v = (case v of Some x \<Rightarrow> f x | None \<Rightarrow> [])"

definition section_html :: "string \<Rightarrow> ('a \<Rightarrow> string) \<Rightarrow> 'a list \<Rightarrow> string \<Rightarrow> string" where
  "section_html before f xs after = (if xs = [] then [] else before @ concat (map f xs) @ after)"

definition link_item :: "string \<times> string \<Rightarrow> string" where
  \<open>link_item = (\<lambda>(label, url).
     ''<li><a rel="noopener noreferrer" href="'' @ escape_attr url @ ''">'' @ escape label @ ''</a></li>'')\<close>

definition project_card :: "render_ext \<Rightarrow> doc_project \<Rightarrow> string" where
  \<open>project_card rx project =
     ''<a class="card" href="projects/'' @ project_path rx (dp_project_reference_id project)
     @ ''/"><h3>'' @ escape (dp_title project) @ ''</h3><p>'' @ escape (dp_purpose project) @ ''</p></a>''\<close>

definition index_links :: "public_document \<Rightarrow> (string \<times> string) list" where
  "index_links document =
     (case doc_resume document of Some resume \<Rightarrow> [(dl_label resume, dl_url resume)] | None \<Rightarrow> [])
     @ map (\<lambda>contact. (dc_label contact, dc_url contact)) (doc_contacts document)"

definition index_html :: "render_ext \<Rightarrow> public_document \<Rightarrow> string" where
  \<open>index_html rx document =
     ''<!doctype html><html lang="en"><head><meta charset="utf-8"><meta name="viewport" content="width=device-width,initial-scale=1"><meta name="color-scheme" content="light dark"><link rel="stylesheet" href="assets/site.css"><title>''
     @ escape (doc_display_name document)
     @ ''</title></head><body><main><header><p class="eyebrow">Portfolio</p><h1>''
     @ escape (doc_display_name document) @ ''</h1>''
     @ opt_html (\<lambda>t. ''<h2 class="accent">'' @ escape t @ ''</h2>'') (doc_headline document)
     @ opt_html (\<lambda>t. ''<p>'' @ escape t @ ''</p>'') (doc_introduction document)
     @ opt_html (\<lambda>t. ''<p class="meta">Target role: '' @ escape t @ ''</p>'') (doc_target_role document)
     @ ''</header>''
     @ section_html ''<section><h2>Featured projects</h2><div class="grid">'' (project_card rx)
         (doc_projects document) ''</div></section>''
     @ section_html ''<section><h2>Skills</h2><ul class="tags">'' (\<lambda>skill. ''<li>'' @ escape skill @ ''</li>'')
         (doc_skills document) ''</ul></section>''
     @ section_html ''<section><h2>Resume &amp; contact</h2><ul class="links">'' link_item
         (index_links document) ''</ul></section>''
     @ ''</main></body></html>''\<close>

definition readiness_checks :: "(string \<times> string) list" where
  "readiness_checks =
     [(''demo_page_verified'', ''Demo page verified''),
      (''synthetic_example_data_verified'', ''Example data verified''),
      (''restricted_access_verified'', ''Restricted access verified''),
      (''visitor_instructions_verified'', ''Visitor instructions verified'')]"

definition check_item :: "json \<Rightarrow> string \<times> string \<Rightarrow> string" where
  \<open>check_item attestation = (\<lambda>(key, label).
     opt_html (\<lambda>checked. ''<li>'' @ label @ (if checked then '': yes'' else '': no'') @ ''</li>'')
       (get_bool key attestation))\<close>

definition render_attestation :: "json \<Rightarrow> string" where
  \<open>render_attestation attestation =
     opt_html (\<lambda>t. ''<p class="meta">Checked release: '' @ escape t @ ''</p>'') (get_str ''release_id'' attestation)
     @ opt_html (\<lambda>t. ''<p class="meta">Checked at: '' @ escape t @ ''</p>'') (get_str ''checked_at'' attestation)
     @ opt_html (\<lambda>t. ''<p>'' @ escape t @ ''</p>'') (get_str ''visitor_instructions'' attestation)
     @ ''<ul>'' @ concat (map (check_item attestation) readiness_checks) @ ''</ul>''\<close>

definition render_readiness :: "json \<Rightarrow> string" where
  \<open>render_readiness value =
     (let state = (case get_str ''state'' value of Some s \<Rightarrow> s | None \<Rightarrow> ''needs_recheck'')
      in ''<p>'' @ escape (replace_char CHR ''_'' CHR '' '' state) @ ''</p>''
         @ opt_html (\<lambda>reason. ''<p class="meta">Reason: '' @ escape (replace_char CHR ''_'' CHR '' '' reason) @ ''</p>'')
             (get_str ''reason'' value)
         @ (case json_get ''attestation'' value of
              Some (JObject entries) \<Rightarrow> render_attestation (JObject entries)
            | _ \<Rightarrow> []))\<close>

definition public_availability_label :: "public_availability \<Rightarrow> string" where
  "public_availability_label a =
     (case a of IsAvailable \<Rightarrow> ''Available'' | IsDegraded \<Rightarrow> ''Degraded'' | IsDemoOffline \<Rightarrow> ''Demo offline'')"

definition render_deployment :: "render_ext \<Rightarrow> doc_deployment \<Rightarrow> string" where
  \<open>render_deployment rx deployment =
     ''<h2>Deployment</h2><dl>''
     @ opt_html (\<lambda>url. ''<dt>Live demo</dt><dd><a rel="noopener noreferrer" href="'' @ escape_attr url
                        @ ''">Open demo</a></dd>'') (dep_managed_demo_url deployment)
     @ opt_html (\<lambda>time. ''<dt>Deployed</dt><dd><time datetime="'' @ escape_attr (rx_rfc3339 rx time) @ ''">''
                        @ escape (rx_rfc3339 rx time) @ ''</time></dd>'') (dep_deployed_at deployment)
     @ opt_html (\<lambda>status. ''<dt>Availability</dt><dd>'' @ escape status @ ''</dd>'')
         (case dep_status_label deployment of
            Some status \<Rightarrow> Some status
          | None \<Rightarrow> map_option public_availability_label (dep_availability deployment))
     @ opt_html (\<lambda>release. ''<dt>Release</dt><dd>'' @ escape release @ ''</dd>'') (dep_release_identifier deployment)
     @ opt_html (\<lambda>commit. ''<dt>Source commit</dt><dd><code>'' @ escape commit @ ''</code></dd>'')
         (dep_source_commit deployment)
     @ ''</dl>''\<close>

definition evidence_figure :: "doc_evidence \<Rightarrow> string" where
  \<open>evidence_figure evidence =
     ''<figure class="card">''
     @ (if de_kind evidence = ScreenshotEvidence
        then ''<img class="evidence" loading="lazy" src="'' @ escape_attr (de_url evidence) @ ''" alt="''
             @ escape_attr (case de_alt_text evidence of Some t \<Rightarrow> t | None \<Rightarrow> de_title evidence) @ ''">''
        else ''<a rel="noopener noreferrer" href="'' @ escape_attr (de_url evidence) @ ''">''
             @ escape (de_title evidence) @ ''</a>'')
     @ ''<figcaption>''
     @ (if de_kind evidence = ScreenshotEvidence then ''<strong>'' @ escape (de_title evidence) @ ''</strong>'' else [])
     @ opt_html (\<lambda>caption. '' '' @ escape caption) (de_caption evidence)
     @ ''</figcaption>'' @ ''</figure>''\<close>

text \<open>The em dash and the arrow of the page are their UTF-8 bytes.\<close>

definition project_html :: "render_ext \<Rightarrow> public_document \<Rightarrow> doc_project \<Rightarrow> string" where
  \<open>project_html rx document project =
     ''<!doctype html><html lang="en"><head><meta charset="utf-8"><meta name="viewport" content="width=device-width,initial-scale=1"><link rel="stylesheet" href="../../assets/site.css"><title>''
     @ escape (dp_title project) @ '' '' @ [CHR 0xE2, CHR 0x80, CHR 0x94] @ '' ''
     @ escape (doc_display_name document)
     @ ''</title></head><body><main><a class="back" href="../../">'' @ [CHR 0xE2, CHR 0x86, CHR 0x90]
     @ '' Portfolio</a><p class="eyebrow">Case study</p><h1>''
     @ escape (dp_title project) @ ''</h1><h2>Purpose</h2><p>'' @ escape (dp_purpose project)
     @ ''</p><h2>My contribution</h2><p>'' @ escape (dp_contribution project) @ ''</p>''
     @ section_html ''<h2>Technical decisions</h2>''
         (\<lambda>decision. ''<article class="decision"><h3>'' @ escape (dd_summary decision) @ ''</h3><p>''
                     @ escape (dd_rationale decision) @ ''</p></article>'')
         (dp_technical_decisions project) []
     @ section_html ''<h2>Links</h2><ul class="links">''
         (\<lambda>item. link_item (dl_label (dpl_link item), dl_url (dpl_link item))) (dp_links project) ''</ul>''
     @ opt_html (render_deployment rx) (dp_deployment project)
     @ opt_html (\<lambda>readiness. ''<h2>Demo readiness</h2>'' @ render_readiness readiness) (dp_readiness project)
     @ section_html ''<h2>Evidence</h2><div class="grid">'' evidence_figure (dp_evidence project) ''</div>''
     @ ''</main></body></html>''\<close>

section \<open>Writing the site\<close>

text \<open>
  The file system as \<open>render\<close> uses it: which paths are directories, and the contents of files.
  Any call may fail in the operating system; \<open>os_fails\<close> says which.
\<close>

datatype os_call = CreateDirAll string | SetPermissions string | WriteNew string

record site_fs =
  fs_dirs :: "string set"
  fs_files :: "string \<rightharpoonup> string"

text \<open>\<open>Path::join\<close> with a relative path, and the directories \<open>create_dir_all\<close> makes: the path and its ancestors.\<close>

definition path_join :: "string \<Rightarrow> string \<Rightarrow> string" where
  "path_join base relative = base @ ''/'' @ relative"

definition path_parent :: "string \<Rightarrow> string" where
  "path_parent path = rev (drop 1 (dropWhile (\<lambda>c. c \<noteq> CHR ''/'') (rev path)))"

definition path_ancestors :: "string \<Rightarrow> string set" where
  "path_ancestors path =
     set (map (\<lambda>n. take n path)
       (filter (\<lambda>n. n = length path \<or> path ! n = CHR ''/'') [1..<Suc (length path)]))"

definition create_dir_all :: "(os_call \<Rightarrow> bool) \<Rightarrow> string \<Rightarrow> string \<Rightarrow> site_fs \<Rightarrow> string + site_fs" where
  "create_dir_all os_fails code path fs =
     (if os_fails (CreateDirAll path) \<or> (\<exists>p \<in> path_ancestors path. fs_files fs p \<noteq> None) then Inl code
      else Inr (fs\<lparr>fs_dirs := fs_dirs fs \<union> path_ancestors path\<rparr>))"

definition write_new :: "(os_call \<Rightarrow> bool) \<Rightarrow> string \<Rightarrow> string \<Rightarrow> site_fs \<Rightarrow> string + site_fs" where
  "write_new os_fails path bytes fs =
     (if os_fails (WriteNew path) \<or> path \<in> fs_dirs fs \<or> fs_files fs path \<noteq> None
         \<or> path_parent path \<notin> fs_dirs fs
      then Inl ''staging_write_failed''
      else Inr (fs\<lparr>fs_files := (fs_files fs)(path \<mapsto> bytes)\<rparr>))"

text \<open>
  The outputs are a \<open>BTreeMap\<close>: a later insertion under the same path replaces the earlier one,
  and iteration is in the order of the paths.
\<close>

fun bytes_less :: "string \<Rightarrow> string \<Rightarrow> bool" where
  "bytes_less xs [] = False"
| "bytes_less [] (y # ys) = True"
| "bytes_less (x # xs) (y # ys) = (byte x < byte y \<or> x = y \<and> bytes_less xs ys)"

fun put_output :: "string \<Rightarrow> string \<times> string \<Rightarrow> (string \<times> string \<times> string) list \<Rightarrow> (string \<times> string \<times> string) list" where
  "put_output path out [] = [(path, out)]"
| "put_output path out ((p, o') # outputs) =
     (if path = p then (path, out) # outputs
      else if bytes_less path p then (path, out) # (p, o') # outputs
      else (p, o') # put_output path out outputs)"

definition HTML :: string where "HTML = ''text/html; charset=utf-8''"

definition site_outputs :: "render_ext \<Rightarrow> public_document \<Rightarrow> (string \<times> string \<times> string) list" where
  "site_outputs rx document =
     fold (\<lambda>project. put_output (''projects/'' @ project_path rx (dp_project_reference_id project) @ ''/index.html'')
             (project_html rx document project, HTML))
       (doc_projects document)
       (put_output ''index.html'' (index_html rx document, HTML)
         (put_output ''assets/site.css'' (themed_css (doc_appearance document), ''text/css; charset=utf-8'') []))"

definition manifest_entry :: "render_ext \<Rightarrow> string \<times> string \<times> string \<Rightarrow> manifest_file" where
  "manifest_entry rx = (\<lambda>(path, bytes, content_type).
     \<lparr>mf_path = path, mf_bytes = length bytes, mf_sha256 = ''sha256:'' @ rx_sha256_hex rx bytes,
      mf_content_type = content_type\<rparr>)"

fun write_outputs ::
  "render_ext \<Rightarrow> (os_call \<Rightarrow> bool) \<Rightarrow> string \<Rightarrow> (string \<times> string \<times> string) list \<Rightarrow> manifest_file list \<Rightarrow> site_fs
     \<Rightarrow> string + site_fs \<times> manifest_file list" where
  "write_outputs rx os_fails staging [] files fs = Inr (fs, files)"
| "write_outputs rx os_fails staging ((relative, bytes, content_type) # outputs) files fs =
     (let path = path_join staging relative
      in case create_dir_all os_fails ''staging_write_failed'' (path_parent path) fs of
           Inl e \<Rightarrow> Inl e
         | Inr fs1 \<Rightarrow>
             (case write_new os_fails path bytes fs1 of
                Inl e \<Rightarrow> Inl e
              | Inr fs2 \<Rightarrow> write_outputs rx os_fails staging outputs
                             (files @ [manifest_entry rx (relative, bytes, content_type)]) fs2))"

definition write_site ::
  "render_ext \<Rightarrow> (os_call \<Rightarrow> bool) \<Rightarrow> public_document \<Rightarrow> uuid \<Rightarrow> string \<Rightarrow> string \<Rightarrow> site_fs \<Rightarrow> string + site_fs \<times> string" where
  "write_site rx os_fails document publication_id document_digest staging fs =
     (case write_outputs rx os_fails staging (site_outputs rx document) [] fs of
        Inl e \<Rightarrow> Inl e
      | Inr (fs1, files) \<Rightarrow>
          (case rx_manifest_to_vec rx
                  \<lparr>man_format = ''hostlet.static-site-manifest/v1'', man_publication_id = publication_id,
                   man_document_digest = document_digest, man_files = files\<rparr> of
             None \<Rightarrow> Inl ''manifest_encode_failed''
           | Some bytes \<Rightarrow>
               (case write_new os_fails (path_join staging ''manifest.json'') bytes fs1 of
                  Inl e \<Rightarrow> Inl e
                | Inr fs2 \<Rightarrow> Inr (fs2, ''sha256:'' @ rx_sha256_hex rx bytes))))"

definition render ::
  "render_ext \<Rightarrow> (os_call \<Rightarrow> bool) \<Rightarrow> json \<Rightarrow> uuid \<Rightarrow> string \<Rightarrow> string \<Rightarrow> site_fs \<Rightarrow> string + site_fs \<times> string" where
  "render rx os_fails document_value publication_id document_digest staging fs =
     (case rx_document_to_vec rx document_value of
        None \<Rightarrow> Inl ''invalid_public_document''
      | Some encoded \<Rightarrow>
          if ''sha256:'' @ rx_sha256_hex rx encoded \<noteq> document_digest
          then Inl ''public_document_digest_mismatch''
          else case rx_document_from_value rx document_value of
                 None \<Rightarrow> Inl ''invalid_public_document''
               | Some document \<Rightarrow>
                   if doc_contract_version document \<noteq> ''hostlet.public-portfolio/v1''
                      \<or> \<not> valid_sha256_digest document_digest
                   then Inl ''invalid_public_document''
                   else case validate_document rx document of
                          Inl e \<Rightarrow> Inl e
                        | Inr _ \<Rightarrow>
                            if staging \<in> fs_dirs fs \<or> fs_files fs staging \<noteq> None
                            then Inl ''staging_path_exists''
                            else case create_dir_all os_fails ''staging_create_failed'' staging fs of
                                   Inl e \<Rightarrow> Inl e
                                 | Inr fs1 \<Rightarrow>
                                     if os_fails (SetPermissions staging) then Inl ''staging_create_failed''
                                     else write_site rx os_fails document publication_id document_digest
                                            staging fs1)"

end
