(* ===== verification/Publisher_Server.thy ===== *)
theory Publisher_Server
  imports Publisher_Render Control_Intent
begin

text \<open>
  The static file server of \<^verbatim>\<open>crates/publisher/src/server.rs\<close> and the checks of the publisher's
  worker (\<^verbatim>\<open>worker.rs\<close>).  A request names a site and a path; the site's \<open>current\<close> link names an
  artifact directory after the digest of its manifest, and a file is served only if the manifest
  declares it and its bytes have the declared digest.  The operating system's answers are the
  fields of \<open>server_os\<close>.
\<close>

section \<open>Paths\<close>

text \<open>
  \<open>Path::components\<close>: empty segments and \<open>.\<close> vanish except for a leading one.  Two paths are
  equal when their components are.
\<close>

datatype component = RootDir | CurDir | ParentDir | Normal string

definition component_of :: "string \<Rightarrow> component" where
  "component_of segment = (if segment = ''..'' then ParentDir else Normal segment)"

definition path_components :: "string \<Rightarrow> component list" where
  "path_components path =
     (let segments = split_on CHR ''/'' path
      in (if starts_with ''/'' path then [RootDir] else if hd segments = ''.'' then [CurDir] else [])
         @ map component_of (filter (\<lambda>s. s \<noteq> [] \<and> s \<noteq> ''.'') segments))"

definition is_absolute :: "string \<Rightarrow> bool" where
  "is_absolute path \<longleftrightarrow> starts_with ''/'' path"

definition file_name :: "string \<Rightarrow> string option" where
  "file_name path =
     (case rev (path_components path) of Normal s # _ \<Rightarrow> Some s | _ \<Rightarrow> None)"

definition all_normal :: "string \<Rightarrow> bool" where
  "all_normal path \<longleftrightarrow> (\<forall>c \<in> set (path_components path). case c of Normal _ \<Rightarrow> True | _ \<Rightarrow> False)"

definition is_ascii :: "string \<Rightarrow> bool" where
  "is_ascii s \<longleftrightarrow> (\<forall>b \<in> set s. byte b < 128)"

section \<open>Requests\<close>

text \<open>A failed request is answered with its status code; every failure here is 404.\<close>

definition NOT_FOUND :: nat where "NOT_FOUND = 404"

definition slug_char :: "char \<Rightarrow> bool" where
  "slug_char b \<longleftrightarrow> (97 \<le> byte b \<and> byte b \<le> 122) \<or> is_ascii_digit b \<or> b = CHR ''-''"

definition validate_slug :: "string \<Rightarrow> nat + unit" where
  "validate_slug value =
     (if value = [] \<or> length value > 63 \<or> starts_with ''-'' value \<or> ends_with ''-'' value
         \<or> \<not> (\<forall>b \<in> set value. slug_char b)
      then Inl NOT_FOUND else Inr ())"

definition validate_path :: "string \<Rightarrow> nat + unit" where
  "validate_path value =
     (if value = [] \<or> length value > 512 \<or> \<not> is_ascii value \<or> CHR 0x5C \<in> set value \<or> CHR ''%'' \<in> set value
      then Inl NOT_FOUND
      else if is_absolute value \<or> \<not> all_normal value
              \<or> (\<exists>part \<in> set (split_on CHR ''/'' value). part = [] \<or> part = ''.'' \<or> part = ''..'')
      then Inl NOT_FOUND else Inr ())"

text \<open>
  The loop over the bytes of the raw target: a percent sign needs two hexadecimal digits after it
  and must not encode a slash or a backslash.
\<close>

fun validate_raw_uri :: "string \<Rightarrow> nat + unit" where
  "validate_raw_uri [] = Inr ()"
| "validate_raw_uri (c # rest) =
     (if c = CHR ''%''
      then (case rest of
              a # b # rest' \<Rightarrow>
                if \<not> is_ascii_hexdigit a \<or> \<not> is_ascii_hexdigit b then Inl NOT_FOUND
                else let first = to_ascii_lowercase a; second = to_ascii_lowercase b
                     in if first = CHR ''2'' \<and> second = CHR ''f'' \<or> first = CHR ''5'' \<and> second = CHR ''c''
                        then Inl NOT_FOUND else validate_raw_uri rest'
            | _ \<Rightarrow> Inl NOT_FOUND)
      else validate_raw_uri rest)"

record site_request =
  rq_hosts :: "header_value list"
  rq_raw_uri :: string
  rq_slug :: string

definition validate_request :: "string \<Rightarrow> site_request \<Rightarrow> nat + unit" where
  "validate_request expected_host request =
     (if length (rq_hosts request) \<noteq> 1 \<or> hd (rq_hosts request) \<noteq> Visible expected_host
      then Inl NOT_FOUND else validate_raw_uri (rq_raw_uri request))"

section \<open>Loading a file\<close>

datatype file_kind = KDir | KFile nat | KSymlink

record server_os =
  os_read_link :: "string \<Rightarrow> string option"
  os_symlink_metadata :: "string \<Rightarrow> file_kind option"
  os_read :: "string \<Rightarrow> string option"

definition artifact_name_ok :: "string \<Rightarrow> bool" where
  "artifact_name_ok name \<longleftrightarrow>
     starts_with ''sha256-'' name \<and> length name = 71 \<and> lower_hex (drop 7 name)"

definition current_artifact :: "server_os \<Rightarrow> string \<Rightarrow> string \<Rightarrow> nat + string" where
  "current_artifact os root slug =
     (case os_read_link os (path_join (path_join (path_join root ''sites'') slug) ''current'') of
        None \<Rightarrow> Inl NOT_FOUND
      | Some pointer \<Rightarrow>
          (case file_name pointer of
             None \<Rightarrow> Inl NOT_FOUND
           | Some name \<Rightarrow>
               if \<not> artifact_name_ok name then Inl NOT_FOUND
               else if path_components pointer \<noteq> path_components (path_join ''../../artifacts'' name)
               then Inl NOT_FOUND else Inr name))"

definition load_manifest :: "render_ext \<Rightarrow> server_os \<Rightarrow> string \<Rightarrow> string \<Rightarrow> nat + manifest" where
  "load_manifest rx os artifact name =
     (if os_symlink_metadata os artifact \<noteq> Some KDir then Inl NOT_FOUND
      else case os_read os (path_join artifact ''manifest.json'') of
             None \<Rightarrow> Inl NOT_FOUND
           | Some bytes \<Rightarrow>
               if length bytes > 256 * 1024 then Inl NOT_FOUND
               else if name \<noteq> ''sha256-'' @ rx_sha256_hex rx bytes then Inl NOT_FOUND
               else case rx_manifest_from_slice rx bytes of
                      None \<Rightarrow> Inl NOT_FOUND
                    | Some manifest \<Rightarrow>
                        if man_format manifest \<noteq> ''hostlet.static-site-manifest/v1'' then Inl NOT_FOUND
                        else Inr manifest)"

text \<open>The manifest collected into a map: of several entries for a path the last one counts.\<close>

definition declared_entry :: "manifest \<Rightarrow> string \<Rightarrow> manifest_file option" where
  "declared_entry manifest relative =
     map_of (rev (map (\<lambda>entry. (mf_path entry, entry)) (man_files manifest))) relative"

definition load_file ::
  "render_ext \<Rightarrow> server_os \<Rightarrow> string \<Rightarrow> string \<Rightarrow> site_request \<Rightarrow> string \<Rightarrow> nat + string \<times> string \<times> bool" where
  "load_file rx os root expected_host request relative =
     (case validate_request expected_host request of Inl e \<Rightarrow> Inl e | Inr _ \<Rightarrow>
     (case validate_slug (rq_slug request) of Inl e \<Rightarrow> Inl e | Inr _ \<Rightarrow>
     (case validate_path relative of Inl e \<Rightarrow> Inl e | Inr _ \<Rightarrow>
     (case current_artifact os root (rq_slug request) of Inl e \<Rightarrow> Inl e | Inr name \<Rightarrow>
      let artifact = path_join (path_join root ''artifacts'') name
      in case load_manifest rx os artifact name of Inl e \<Rightarrow> Inl e | Inr manifest \<Rightarrow>
     (case declared_entry manifest relative of None \<Rightarrow> Inl NOT_FOUND | Some entry \<Rightarrow>
      let file = path_join artifact relative
      in if os_symlink_metadata os file \<noteq> Some (KFile (mf_bytes entry)) \<or> mf_bytes entry > 8 * 1024 * 1024
         then Inl NOT_FOUND
         else case os_read os file of
                None \<Rightarrow> Inl NOT_FOUND
              | Some bytes \<Rightarrow>
                  if ''sha256:'' @ rx_sha256_hex rx bytes \<noteq> mf_sha256 entry then Inl NOT_FOUND
                  else Inr (bytes, mf_content_type entry,
                            \<not> starts_with ''text/html'' (mf_content_type entry)))))))"

record site_response =
  rp_status :: nat
  rp_headers :: "(string \<times> string) list"
  rp_body :: string

definition CSP :: string where
  \<open>CSP = ''default-src '' @ [CHR 0x27] @ ''none'' @ [CHR 0x27] @ ''; style-src '' @ [CHR 0x27] @ ''self'' @ [CHR 0x27]
     @ ''; img-src '' @ [CHR 0x27] @ ''self'' @ [CHR 0x27] @ ''; base-uri '' @ [CHR 0x27] @ ''none'' @ [CHR 0x27]
     @ ''; form-action '' @ [CHR 0x27] @ ''none'' @ [CHR 0x27] @ ''; frame-ancestors '' @ [CHR 0x27] @ ''none'' @ [CHR 0x27]\<close>

text \<open>Whether a content type may be a header value is asked of the \<open>http\<close> crate.\<close>

definition serve_file ::
  "render_ext \<Rightarrow> (string \<Rightarrow> bool) \<Rightarrow> server_os \<Rightarrow> string \<Rightarrow> string \<Rightarrow> site_request \<Rightarrow> string \<Rightarrow> site_response" where
  "serve_file rx header_ok os root expected_host request relative =
     (case load_file rx os root expected_host request relative of
        Inl status \<Rightarrow> \<lparr>rp_status = status, rp_headers = [], rp_body = []\<rparr>
      | Inr (bytes, content_type, immutable) \<Rightarrow>
          \<lparr>rp_status = 200,
           rp_headers =
             [(''content-type'', if header_ok content_type then content_type else ''application/octet-stream''),
              (''cache-control'', if immutable then ''public, max-age=31536000, immutable'' else ''no-cache''),
              (''content-security-policy'', CSP), (''x-content-type-options'', ''nosniff''),
              (''referrer-policy'', ''no-referrer''), (''x-frame-options'', ''DENY'')],
           rp_body = bytes\<rparr>)"

definition site_root ::
  "render_ext \<Rightarrow> (string \<Rightarrow> bool) \<Rightarrow> server_os \<Rightarrow> string \<Rightarrow> string \<Rightarrow> site_request \<Rightarrow> site_response" where
  "site_root rx header_ok os root expected_host request =
     serve_file rx header_ok os root expected_host request ''index.html''"

definition site_file ::
  "render_ext \<Rightarrow> (string \<Rightarrow> bool) \<Rightarrow> server_os \<Rightarrow> string \<Rightarrow> string \<Rightarrow> site_request \<Rightarrow> string \<Rightarrow> site_response" where
  "site_file rx header_ok os root expected_host request path =
     serve_file rx header_ok os root expected_host request
       (if ends_with ''/'' path then path @ ''index.html'' else path)"

section \<open>The worker's checks\<close>

record worker_options =
  wo_control_url :: "string option"
  wo_worker_id :: "string option"
  wo_once :: bool

definition validate_control_url :: "render_ext \<Rightarrow> string \<Rightarrow> string + unit" where
  "validate_control_url rx value =
     (case rx_parse_url rx value of
        None \<Rightarrow> Inl ''publisher_control_url_invalid''
      | Some url \<Rightarrow>
          if url_scheme url \<noteq> ''http'' \<or> url_username url \<noteq> [] \<or> url_password url \<noteq> None
             \<or> url_query url \<noteq> None \<or> url_fragment url \<noteq> None \<or> url_path url \<noteq> ''/''
             \<or> url_host_str url \<notin> {Some ''127.0.0.1'', Some ''localhost'', Some ''::1''}
          then Inl ''publisher_control_url_invalid'' else Inr ())"

text \<open>The loop over the arguments: a flag that needs a value takes the next argument, if any.\<close>

fun parse_flags :: "string list \<Rightarrow> worker_options \<Rightarrow> string + worker_options" where
  "parse_flags [] options = Inr options"
| "parse_flags (arg # args) options =
     (if arg = ''--control-url'' \<and> wo_control_url options = None
      then (case args of
              [] \<Rightarrow> Inr options
            | value # rest \<Rightarrow> parse_flags rest (options\<lparr>wo_control_url := Some value\<rparr>))
      else if arg = ''--worker-id'' \<and> wo_worker_id options = None
      then (case args of
              [] \<Rightarrow> Inr options
            | value # rest \<Rightarrow> parse_flags rest (options\<lparr>wo_worker_id := Some value\<rparr>))
      else if arg = ''--once'' \<and> \<not> wo_once options
      then parse_flags args (options\<lparr>wo_once := True\<rparr>)
      else Inl ''publisher_worker_arguments_invalid'')"

definition parse_options :: "render_ext \<Rightarrow> string list \<Rightarrow> string + string \<times> string \<times> bool" where
  "parse_options rx args =
     (case parse_flags args \<lparr>wo_control_url = None, wo_worker_id = None, wo_once = False\<rparr> of
        Inl e \<Rightarrow> Inl e
      | Inr options \<Rightarrow>
          (case wo_control_url options of
             None \<Rightarrow> Inl ''publisher_control_url_required''
           | Some control_url \<Rightarrow>
               (case validate_control_url rx control_url of
                  Inl e \<Rightarrow> Inl e
                | Inr _ \<Rightarrow>
                    (case wo_worker_id options of
                       None \<Rightarrow> Inl ''publisher_worker_id_required''
                     | Some worker_id \<Rightarrow>
                         if worker_id = [] \<or> length worker_id > 128
                            \<or> \<not> (\<forall>b \<in> set worker_id. is_ascii_graphic b)
                         then Inl ''publisher_worker_id_invalid''
                         else Inr (control_url, worker_id, wo_once options)))))"

definition safe_relative :: "string \<Rightarrow> string + string" where
  "safe_relative value =
     (if value = [] \<or> CHR 0x5C \<in> set value \<or> \<not> is_ascii value then Inl ''invalid_staging_contract''
      else if is_absolute value \<or> \<not> all_normal value then Inl ''invalid_staging_contract''
      else Inr value)"

definition safe_slug :: "string \<Rightarrow> bool" where
  "safe_slug value \<longleftrightarrow>
     value \<noteq> [] \<and> length value \<le> 63 \<and> \<not> starts_with ''-'' value \<and> \<not> ends_with ''-'' value
     \<and> (\<forall>b \<in> set value. slug_char b)"

record publisher_lease =
  pl_publication_id :: uuid
  pl_approved_revision_id :: uuid
  pl_slug :: string
  pl_document :: json
  pl_document_digest :: string
  pl_staging_relative_path :: string
  pl_attempt_id :: uuid
  pl_fence :: int
  pl_lease_expires_at :: timestamp

text \<open>The part of the worker's loop between a lease and the rendering: where the site is staged.\<close>

definition staging_of_lease ::
  "(uuid \<Rightarrow> string) \<Rightarrow> timestamp \<Rightarrow> string \<Rightarrow> publisher_lease \<Rightarrow> string + string" where
  "staging_of_lease show_uuid now root lease =
     (if pl_approved_revision_id lease = 0 \<or> pl_lease_expires_at lease \<le> now \<or> \<not> safe_slug (pl_slug lease)
      then Inl ''invalid_publisher_lease''
      else if pl_staging_relative_path lease
                \<noteq> ''staging/'' @ show_uuid (pl_publication_id lease) @ ''/'' @ show_uuid (pl_attempt_id lease)
      then Inl ''invalid_staging_contract''
      else case safe_relative (pl_staging_relative_path lease) of
             Inl e \<Rightarrow> Inl e
           | Inr relative \<Rightarrow> Inr (path_join root relative))"

end
