(* ===== verification/Publisher_Properties.thy ===== *)
theory Publisher_Properties
  imports Publisher_Server
begin

text \<open>
  What the publisher guarantees.  No text of a document adds a tag, an attribute or a quote to a
  page, and every link is a checked one (C29).  A site that was rendered and whose staging directory
  became the artifact the \<open>current\<close> link names is served byte for byte (C30), and what is served
  is always what a manifest of that digest declares (C31).  The witnesses render and serve a small
  site.
\<close>

section \<open>Escaped text carries no markup\<close>

definition markup :: "string \<Rightarrow> string" where
  "markup s = filter (\<lambda>c. c = CHR ''<'' \<or> c = CHR ''>'' \<or> c = CHR 0x22 \<or> c = CHR 0x27) s"

lemma markup_append [simp]: "markup (xs @ ys) = markup xs @ markup ys"
  by (simp add: markup_def)

lemma markup_Nil [simp]: "markup [] = []"
  by (simp add: markup_def)

lemma markup_concat: "markup (concat xss) = concat (map markup xss)"
  by (induction xss) simp_all

lemma escape_concat: "escape s = concat (map escape_char s)"
proof -
  have "fold (\<lambda>c out. out @ escape_char c) s out = out @ concat (map escape_char s)" for out
    by (induction s arbitrary: out) simp_all
  then show ?thesis by (simp add: escape_def)
qed

lemma markup_escape [simp]: "markup (escape s) = []"
proof -
  have "markup (escape_char c) = []" for c by (simp add: escape_char_def markup_def)
  then show ?thesis by (simp add: escape_concat markup_concat)
qed

lemma markup_escape_attr [simp]: "markup (escape_attr s) = []"
  by (simp add: escape_attr_def)

lemma markup_safe:
  assumes "\<And>b. b \<in> set s \<Longrightarrow> is_ascii_alphanumeric b \<or> b = CHR ''-'' \<or> b = CHR ''_''"
  shows "markup s = []"
proof -
  have "\<not> is_ascii_alphanumeric CHR ''<''" "\<not> is_ascii_alphanumeric CHR ''>''"
    "\<not> is_ascii_alphanumeric CHR 0x22" "\<not> is_ascii_alphanumeric CHR 0x27"
    by (simp_all add: ascii_class_defs)
  with assms show ?thesis by (auto simp: markup_def filter_empty_conv)
qed

definition hex_digests :: "render_ext \<Rightarrow> bool" where
  "hex_digests rx \<longleftrightarrow> (\<forall>s. length (rx_sha256_hex rx s) = 64 \<and> lower_hex (rx_sha256_hex rx s))"

lemma project_path_chars:
  assumes "hex_digests rx" and "b \<in> set (project_path rx reference)"
  shows "is_ascii_alphanumeric b \<or> b = CHR ''-'' \<or> b = CHR ''_''"
proof -
  have hex: "is_ascii_alphanumeric c" if "c \<in> set (rx_sha256_hex rx reference)" for c
  proof -
    have "is_ascii_hexdigit c" using assms(1) that by (auto simp: hex_digests_def lower_hex_def)
    then show ?thesis by (auto simp: ascii_class_defs)
  qed
  have "b \<in> set reference \<and> (\<forall>b \<in> set reference. is_ascii_alphanumeric b \<or> b = CHR ''-'' \<or> b = CHR ''_'')
      \<or> b \<in> set (''project-'' @ rx_sha256_hex rx reference)"
    using assms(2) by (auto simp: project_path_def split: if_splits dest: in_set_takeD)
  then show ?thesis
  proof
    assume "b \<in> set (''project-'' @ rx_sha256_hex rx reference)"
    then consider "b \<in> set ''project-''" | "b \<in> set (rx_sha256_hex rx reference)" by auto
    moreover have "\<forall>c \<in> set ''project-''. is_ascii_alphanumeric c \<or> c = CHR ''-''"
      by (simp add: ascii_class_defs)
    ultimately show ?thesis using hex by cases blast+
  qed blast
qed

lemma project_path_length: "hex_digests rx \<Longrightarrow> project_path rx reference \<noteq> [] \<and> length (project_path rx reference) \<le> 80"
  by (auto simp: project_path_def)

lemma markup_project_path [simp]: "hex_digests rx \<Longrightarrow> markup (project_path rx reference) = []"
  by (rule markup_safe) (rule project_path_chars)

text \<open>A document with every text replaced by the empty one, the shape kept.\<close>

fun blank_json :: "json \<Rightarrow> json" where
  "blank_json (JString s) = JString []"
| "blank_json (JObject entries) = JObject (map (\<lambda>(k, v). (k, blank_json v)) entries)"
| "blank_json v = v"

definition blank_link :: "doc_link \<Rightarrow> doc_link" where
  "blank_link l = l\<lparr>dl_label := [], dl_url := []\<rparr>"

definition blank_contact :: "doc_contact \<Rightarrow> doc_contact" where
  "blank_contact c = c\<lparr>dc_label := [], dc_url := []\<rparr>"

definition blank_evidence :: "doc_evidence \<Rightarrow> doc_evidence" where
  "blank_evidence e = e\<lparr>de_title := [], de_url := [], de_caption := map_option (\<lambda>_. []) (de_caption e),
     de_alt_text := map_option (\<lambda>_. []) (de_alt_text e)\<rparr>"

definition blank_deployment :: "doc_deployment \<Rightarrow> doc_deployment" where
  "blank_deployment d = d\<lparr>dep_managed_demo_url := map_option (\<lambda>_. []) (dep_managed_demo_url d),
     dep_status_label := map_option (\<lambda>_. []) (dep_status_label d),
     dep_release_identifier := map_option (\<lambda>_. []) (dep_release_identifier d),
     dep_source_commit := map_option (\<lambda>_. []) (dep_source_commit d)\<rparr>"

definition blank_project :: "doc_project \<Rightarrow> doc_project" where
  "blank_project p = p\<lparr>dp_project_reference_id := [], dp_title := [], dp_purpose := [], dp_contribution := [],
     dp_technical_decisions := map (\<lambda>d. d\<lparr>dd_summary := [], dd_rationale := []\<rparr>) (dp_technical_decisions p),
     dp_links := map (\<lambda>l. l\<lparr>dpl_link := blank_link (dpl_link l)\<rparr>) (dp_links p),
     dp_evidence := map blank_evidence (dp_evidence p),
     dp_deployment := map_option blank_deployment (dp_deployment p),
     dp_readiness := map_option blank_json (dp_readiness p)\<rparr>"

definition blank_document :: "public_document \<Rightarrow> public_document" where
  "blank_document d = d\<lparr>doc_display_name := [], doc_headline := map_option (\<lambda>_. []) (doc_headline d),
     doc_introduction := map_option (\<lambda>_. []) (doc_introduction d),
     doc_target_role := map_option (\<lambda>_. []) (doc_target_role d),
     doc_skills := map (\<lambda>_. []) (doc_skills d), doc_resume := map_option blank_link (doc_resume d),
     doc_contacts := map blank_contact (doc_contacts d), doc_projects := map blank_project (doc_projects d)\<rparr>"

lemma json_get_blank: "json_get key (blank_json v) = map_option blank_json (json_get key v)"
  by (cases v) (simp_all add: map_of_map)

lemma as_str_blank: "as_str (blank_json v) = map_option (\<lambda>_. []) (as_str v)"
  by (cases v) simp_all

lemma as_bool_blank: "as_bool (blank_json v) = as_bool v"
  by (cases v) simp_all

lemma get_blank [simp]:
  "get_str key (blank_json v) = map_option (\<lambda>_. []) (get_str key v)"
  "get_bool key (blank_json v) = get_bool key v"
  by (cases "json_get key v"; simp add: get_str_def get_bool_def json_get_blank as_str_blank as_bool_blank)+

lemma markup_opt:
  "(\<And>x. markup (f x) = markup (g (h x))) \<Longrightarrow> markup (opt_html f v) = markup (opt_html g (map_option h v))"
  by (cases v) (simp_all add: opt_html_def)

lemma markup_section:
  "(\<And>x. markup (f x) = markup (g (h x))) \<Longrightarrow>
     markup (section_html before f xs after) = markup (section_html before g (map h xs) after)"
  by (simp add: section_html_def markup_concat comp_def)

lemma append_cong2: "a = b \<Longrightarrow> c = d \<Longrightarrow> a @ c = b @ d"
  by simp

lemmas markup_rules = markup_append markup_escape markup_escape_attr markup_Nil

lemma markup_link_item: "markup (link_item (a, b)) = markup (link_item (c, d))"
  by (simp only: link_item_def prod.case markup_rules)

lemma markup_attestation: "markup (render_attestation v) = markup (render_attestation (blank_json v))"
  by (simp only: render_attestation_def check_item_def get_blank markup_append)
     (intro append_cong2 refl markup_opt; simp only: markup_rules)

lemma markup_readiness: "markup (render_readiness v) = markup (render_readiness (blank_json v))"
proof -
  have att: "markup (case json_get k v of Some (JObject entries) \<Rightarrow> render_attestation (JObject entries) | _ \<Rightarrow> [])
      = markup (case json_get k (blank_json v) of Some (JObject entries) \<Rightarrow> render_attestation (JObject entries) | _ \<Rightarrow> [])" for k
    using markup_attestation [of "the (json_get k v)"]
    by (cases "json_get k v"; cases "the (json_get k v)") (simp_all add: json_get_blank)
  show ?thesis
    by (simp only: render_readiness_def Let_def get_blank markup_append markup_escape)
       (intro append_cong2 refl markup_opt att; simp only: markup_rules)
qed

lemma markup_deployment: "markup (render_deployment rx d) = markup (render_deployment rx (blank_deployment d))"
proof -
  have status: "markup (opt_html (\<lambda>status. a @ escape status @ b)
        (case dep_status_label d of Some s \<Rightarrow> Some s | None \<Rightarrow> map_option public_availability_label (dep_availability d)))
      = markup (opt_html (\<lambda>status. a @ escape status @ b)
        (case map_option (\<lambda>_. []) (dep_status_label d) of
           Some s \<Rightarrow> Some s | None \<Rightarrow> map_option public_availability_label (dep_availability d)))" for a b
    by (cases "dep_status_label d") (simp_all add: opt_html_def)
  have fields: "dep_managed_demo_url (blank_deployment d) = map_option (\<lambda>_. []) (dep_managed_demo_url d)"
    "dep_status_label (blank_deployment d) = map_option (\<lambda>_. []) (dep_status_label d)"
    "dep_release_identifier (blank_deployment d) = map_option (\<lambda>_. []) (dep_release_identifier d)"
    "dep_source_commit (blank_deployment d) = map_option (\<lambda>_. []) (dep_source_commit d)"
    "dep_deployed_at (blank_deployment d) = dep_deployed_at d"
    "dep_availability (blank_deployment d) = dep_availability d"
    by (simp_all add: blank_deployment_def)
  show ?thesis
    by (simp only: render_deployment_def fields markup_append)
       (intro append_cong2 refl markup_opt status; simp only: markup_rules)
qed

lemma markup_figure: "markup (evidence_figure e) = markup (evidence_figure (blank_evidence e))"
proof -
  have fields: "de_kind (blank_evidence e) = de_kind e"
    "de_caption (blank_evidence e) = map_option (\<lambda>_. []) (de_caption e)"
    by (simp_all add: blank_evidence_def)
  show ?thesis
    by (cases "de_kind e = ScreenshotEvidence")
       (simp_all only: evidence_figure_def fields if_True if_False markup_append markup_escape markup_escape_attr refl simp_thms,
        (intro append_cong2 refl markup_opt; simp only: markup_rules)+)
qed

lemma markup_index:
  assumes "hex_digests rx"
  shows "markup (index_html rx d) = markup (index_html rx (blank_document d))"
proof -
  have card: "markup (project_card rx p) = markup (project_card rx (blank_project p))" for p
    by (simp only: project_card_def markup_append markup_escape markup_project_path [OF assms])
  have links: "map (\<lambda>_. ([], [])) (index_links d) = index_links (blank_document d)"
    by (auto simp: index_links_def blank_document_def blank_link_def blank_contact_def split: option.split)
  have item: "markup (link_item x) = markup (link_item ([], []))" for x
    using markup_link_item by (cases x) blast
  have fields: "doc_headline (blank_document d) = map_option (\<lambda>_. []) (doc_headline d)"
    "doc_introduction (blank_document d) = map_option (\<lambda>_. []) (doc_introduction d)"
    "doc_target_role (blank_document d) = map_option (\<lambda>_. []) (doc_target_role d)"
    "doc_skills (blank_document d) = map (\<lambda>_. []) (doc_skills d)"
    "doc_projects (blank_document d) = map blank_project (doc_projects d)"
    by (simp_all add: blank_document_def)
  show ?thesis
    by (simp only: index_html_def fields links [symmetric] markup_append markup_escape)
       (intro append_cong2 refl markup_opt markup_section card item; simp only: markup_rules)
qed

lemma markup_project:
  "markup (project_html rx d p) = markup (project_html rx (blank_document d) (blank_project p))"
proof -
  have fields: "dp_technical_decisions (blank_project p) = map (\<lambda>d. d\<lparr>dd_summary := [], dd_rationale := []\<rparr>) (dp_technical_decisions p)"
    "dp_links (blank_project p) = map (\<lambda>l. l\<lparr>dpl_link := blank_link (dpl_link l)\<rparr>) (dp_links p)"
    "dp_evidence (blank_project p) = map blank_evidence (dp_evidence p)"
    "dp_deployment (blank_project p) = map_option blank_deployment (dp_deployment p)"
    "dp_readiness (blank_project p) = map_option blank_json (dp_readiness p)"
    by (simp_all add: blank_project_def)
  have ready: "markup (a @ render_readiness v) = markup (a @ render_readiness (blank_json v))" for a v
    by (simp only: markup_append markup_readiness [of v])
  show ?thesis
    by (simp only: project_html_def fields markup_append markup_escape)
       (intro append_cong2 refl markup_opt markup_section markup_deployment markup_figure ready markup_link_item;
        simp only: markup_rules)
qed

section \<open>Validated links\<close>

lemma and_then_Inr [simp]: "and_then a b = Inr () \<longleftrightarrow> a = Inr () \<and> b = Inr ()"
  by (cases a) (simp_all add: and_then_def)

lemma check_all_Inr [simp]: "check_all f xs = Inr () \<longleftrightarrow> (\<forall>x \<in> set xs. f x = Inr ())"
  by (induction xs) simp_all

definition project_urls :: "doc_project \<Rightarrow> string list" where
  "project_urls p = map (\<lambda>l. dl_url (dpl_link l)) (dp_links p) @ map de_url (dp_evidence p)
     @ (case Option.bind (dp_deployment p) dep_managed_demo_url of Some url \<Rightarrow> [url] | None \<Rightarrow> [])"

definition safe_href :: "render_ext \<Rightarrow> string \<Rightarrow> bool" where
  "safe_href rx url \<longleftrightarrow>
     (\<exists>u. rx_parse_url rx url = Some u \<and>
        (url_scheme u = ''https'' \<and> url_host_str u \<noteq> None \<and> url_username u = [] \<and> url_password u = None
         \<or> url_scheme u = ''mailto'' \<and> url_query u = None \<and> url_fragment u = None))"

lemma public_https_safe: "public_https rx url = Inr () \<Longrightarrow> safe_href rx url"
  by (auto simp: public_https_def safe_href_def split: option.splits if_splits)

lemma public_mailto_safe: "public_mailto rx url = Inr () \<Longrightarrow> safe_href rx url"
  by (auto simp: public_mailto_def safe_href_def split: option.splits if_splits)

lemma check_project_safe:
  assumes "check_project rx p = Inr ()"
  shows "\<forall>url \<in> set (project_urls p). safe_href rx url"
  using assms
  by (auto simp: check_project_def project_urls_def check_evidence_def split: option.splits if_splits
      intro: public_https_safe)

lemma validate_document_safe:
  assumes "validate_document rx d = Inr ()"
  shows "\<forall>(label, url) \<in> set (index_links d). safe_href rx url"
    "\<forall>p \<in> set (doc_projects d). \<forall>url \<in> set (project_urls p). safe_href rx url"
proof -
  have c: "safe_href rx (dc_url c)" if "check_contact rx c = Inr ()" for c
    using that by (cases "dc_kind c") (auto simp: check_contact_def intro: public_https_safe public_mailto_safe)
  show "\<forall>(label, url) \<in> set (index_links d). safe_href rx url"
    using assms c
    by (auto simp: validate_document_def index_links_def split: if_splits option.splits intro: public_https_safe)
  show "\<forall>p \<in> set (doc_projects d). \<forall>url \<in> set (project_urls p). safe_href rx url"
    using assms check_project_safe by (auto simp: validate_document_def split: if_splits)
qed

lemma render_Inr:
  assumes "render rx os_fails value publication_id digest staging fs = Inr (fs', result)"
  obtains d fs1 where "rx_document_from_value rx value = Some d" "validate_document rx d = Inr ()"
    "staging \<notin> fs_dirs fs" "create_dir_all os_fails ''staging_create_failed'' staging fs = Inr fs1"
    "write_site rx os_fails d publication_id digest staging fs1 = Inr (fs', result)"
  using assms by (auto simp: render_def split: option.splits sum.splits if_splits)

text \<open>
  C29.  The pages of a rendered document have the markup characters of the same pages with all the
  document's texts removed: no name, title, description, label, URL, caption, commit or readiness
  text contributes an angle bracket or a quote.  Every link of a page is an https URL with a host
  and without credentials, or a mailto address without query and fragment.
\<close>

theorem rendered_text_is_inert:
  assumes "render rx os_fails value publication_id digest staging fs = Inr (fs', result)"
    and "hex_digests rx"
  shows "\<exists>d. rx_document_from_value rx value = Some d
    \<and> markup (index_html rx d) = markup (index_html rx (blank_document d))
    \<and> (\<forall>(label, url) \<in> set (index_links d). safe_href rx url)
    \<and> (\<forall>p \<in> set (doc_projects d).
          markup (project_html rx d p) = markup (project_html rx (blank_document d) (blank_project p))
          \<and> (\<forall>url \<in> set (project_urls p). safe_href rx url))"
  using assms(1)
proof (rule render_Inr)
  fix d assume d: "rx_document_from_value rx value = Some d" "validate_document rx d = Inr ()"
  show ?thesis
    using d markup_index [OF assms(2), of d] markup_project [of rx d] validate_document_safe [OF d(2)] by blast
qed

section \<open>What is written and served\<close>

lemma path_join_inj [simp]: "path_join base a = path_join base b \<longleftrightarrow> a = b"
  by (simp add: path_join_def)

lemma write_new_Inr:
  "write_new os_fails path bytes fs = Inr fs' \<Longrightarrow>
     fs_files fs path = None \<and> fs' = fs\<lparr>fs_files := (fs_files fs)(path \<mapsto> bytes)\<rparr>"
  by (auto simp: write_new_def split: if_splits)

lemma create_dir_all_files: "create_dir_all os_fails code path fs = Inr fs' \<Longrightarrow> fs_files fs' = fs_files fs"
  by (auto simp: create_dir_all_def split: if_splits)

lemma write_outputs_Inr:
  "write_outputs rx os_fails staging outputs files fs = Inr (fs', files') \<Longrightarrow>
     files' = files @ map (manifest_entry rx) outputs \<and> fs_files fs \<subseteq>\<^sub>m fs_files fs'
     \<and> distinct (map fst outputs)
     \<and> (\<forall>(relative, bytes, content_type) \<in> set outputs.
          fs_files fs (path_join staging relative) = None
          \<and> fs_files fs' (path_join staging relative) = Some bytes)"
proof (induction rx os_fails staging outputs files fs rule: write_outputs.induct)
  case (2 rx os_fails staging relative bytes content_type outputs files fs)
  let ?path = "path_join staging relative"
  from 2(2) obtain fs1 fs2 where
    d: "create_dir_all os_fails ''staging_write_failed'' (path_parent ?path) fs = Inr fs1"
    and w: "write_new os_fails ?path bytes fs1 = Inr fs2"
    and rest: "write_outputs rx os_fails staging outputs
       (files @ [manifest_entry rx (relative, bytes, content_type)]) fs2 = Inr (fs', files')"
    by (auto simp: Let_def split: sum.splits)
  note ih = 2(1) [OF refl d w rest]
  note files1 = create_dir_all_files [OF d] and files2 = write_new_Inr [OF w]
  have none: "fs_files fs ?path = None" and at: "fs_files fs2 ?path = Some bytes" and mono: "fs_files fs \<subseteq>\<^sub>m fs_files fs2"
    using files1 files2 by (auto simp: map_le_def)
  have at': "fs_files fs' ?path = Some bytes" and mono': "fs_files fs \<subseteq>\<^sub>m fs_files fs'"
    using ih at mono by (auto simp: map_le_def dom_def)
  have notin: "relative \<notin> fst ` set outputs" using ih at by (fastforce simp: image_iff)
  have later: "fs_files fs (path_join staging r) = None \<and> fs_files fs' (path_join staging r) = Some b"
    if "(r, b, c) \<in> set outputs" for r b c
    using ih that files1 files2 by (auto split: if_splits)
  show ?case using ih none at' mono' notin later by auto
qed (simp add: map_le_def)

lemma write_site_Inr:
  assumes "write_site rx os_fails d publication_id digest staging fs = Inr (fs', result)"
  obtains m mbytes where
    "m = \<lparr>man_format = ''hostlet.static-site-manifest/v1'', man_publication_id = publication_id,
       man_document_digest = digest, man_files = map (manifest_entry rx) (site_outputs rx d)\<rparr>"
    "rx_manifest_to_vec rx m = Some mbytes" "result = ''sha256:'' @ rx_sha256_hex rx mbytes"
    "fs_files fs' (path_join staging ''manifest.json'') = Some mbytes"
    "distinct (map fst (site_outputs rx d))"
    "\<forall>(relative, bytes, content_type) \<in> set (site_outputs rx d).
       fs_files fs' (path_join staging relative) = Some bytes"
proof -
  from assms obtain fs1 files mbytes where
    w: "write_outputs rx os_fails staging (site_outputs rx d) [] fs = Inr (fs1, files)"
    and m: "rx_manifest_to_vec rx \<lparr>man_format = ''hostlet.static-site-manifest/v1'', man_publication_id = publication_id,
       man_document_digest = digest, man_files = files\<rparr> = Some mbytes"
    and n: "write_new os_fails (path_join staging ''manifest.json'') mbytes fs1 = Inr fs'"
    and r: "result = ''sha256:'' @ rx_sha256_hex rx mbytes"
    by (auto simp: write_site_def split: sum.splits option.splits prod.splits)
  note w' = write_outputs_Inr [OF w] and n' = write_new_Inr [OF n]
  have "\<forall>(relative, bytes, content_type) \<in> set (site_outputs rx d).
       fs_files fs' (path_join staging relative) = Some bytes"
  proof (rule ballI, clarify)
    fix relative bytes ct assume "(relative, bytes, ct) \<in> set (site_outputs rx d)"
    then have "fs_files fs1 (path_join staging relative) = Some bytes" using w' by blast
    with n' show "fs_files fs' (path_join staging relative) = Some bytes" by auto
  qed
  with that [OF refl] w' n' m r show thesis by auto
qed

text \<open>The paths of a site are ones the server accepts.\<close>

lemma split_on_append:
  "c \<notin> set a \<Longrightarrow> split_on c (a @ c # b) = a # split_on c b"
  by (induction a) (auto split: list.splits)

lemma split_on_single: "c \<notin> set a \<Longrightarrow> split_on c a = [a]"
  by (induction a) auto

lemma split_on_join:
  "xs \<noteq> [] \<Longrightarrow> \<forall>x \<in> set xs. c \<notin> set x \<Longrightarrow> split_on c (join_with c xs) = xs"
  by (induction c xs rule: join_with.induct) (auto simp: split_on_single split_on_append)

definition path_char :: "char \<Rightarrow> bool" where
  "path_char b \<longleftrightarrow> is_ascii_alphanumeric b \<or> b = CHR ''-'' \<or> b = CHR ''_'' \<or> b = CHR ''.''"

definition plain_segment :: "string \<Rightarrow> bool" where
  "plain_segment s \<longleftrightarrow> s \<noteq> [] \<and> s \<noteq> ''.'' \<and> s \<noteq> ''..'' \<and> (\<forall>b \<in> set s. path_char b)"

lemma path_char_bounds: "path_char b \<Longrightarrow> byte b < 128 \<and> b \<noteq> CHR ''/'' \<and> b \<noteq> CHR 0x5C \<and> b \<noteq> CHR ''%''"
  by (auto simp: path_char_def ascii_class_defs)

lemma join_with_chars: "b \<in> set (join_with c xs) \<Longrightarrow> b = c \<or> (\<exists>x \<in> set xs. b \<in> set x)"
  by (induction c xs rule: join_with.induct) auto

lemma plain_path_accepted:
  assumes "xs \<noteq> []" and plain: "\<forall>x \<in> set xs. plain_segment x" and "length (join_with CHR ''/'' xs) \<le> 512"
  shows "validate_path (join_with CHR ''/'' xs) = Inr ()"
proof -
  let ?p = "join_with CHR ''/'' xs"
  have chars: "path_char b \<or> b = CHR ''/''" if "b \<in> set ?p" for b
    using join_with_chars [OF that] plain by (auto simp: plain_segment_def)
  have split: "split_on CHR ''/'' ?p = xs"
    using assms(1) plain path_char_bounds by (intro split_on_join) (auto simp: plain_segment_def)
  obtain x ys where xs: "xs = x # ys" using assms(1) by (cases xs) auto
  have x: "x \<noteq> []" "hd x \<noteq> CHR ''/''" using plain path_char_bounds xs by (auto simp: plain_segment_def)
  have hd: "?p \<noteq> [] \<and> hd ?p = hd x" using xs x by (cases ys) auto
  then have abs: "\<not> starts_with ''/'' ?p" using x by (auto simp: starts_with_iff)
  have comps: "path_components ?p = map Normal xs"
  proof -
    have "filter (\<lambda>s. s \<noteq> [] \<and> s \<noteq> ''.'') xs = xs" using plain by (auto simp: filter_id_conv plain_segment_def)
    moreover have "map component_of xs = map Normal xs" using plain by (simp add: component_of_def plain_segment_def)
    moreover have "hd xs \<noteq> ''.''" using plain xs by (simp add: plain_segment_def)
    ultimately show ?thesis using abs by (simp add: path_components_def split Let_def)
  qed
  then have "all_normal ?p" by (auto simp: all_normal_def)
  moreover have "is_ascii ?p" "CHR 0x5C \<notin> set ?p" "CHR ''%'' \<notin> set ?p"
    using chars path_char_bounds by (fastforce simp: is_ascii_def)+
  moreover have "\<not> (\<exists>part \<in> set (split_on CHR ''/'' ?p). part = [] \<or> part = ''.'' \<or> part = ''..'')"
    using plain by (auto simp: split plain_segment_def)
  ultimately show ?thesis using hd abs assms(3) by (simp add: validate_path_def is_absolute_def)
qed

lemma put_output_set: "set (put_output path out outputs) \<subseteq> insert (path, out) (set outputs)"
  by (induction path out outputs rule: put_output.induct) (auto split: if_splits)

lemma site_outputs_cases:
  assumes "(path, bytes, ct) \<in> set (site_outputs rx d)"
  shows "path = ''index.html'' \<and> bytes = index_html rx d \<or> path = ''assets/site.css'' \<and> bytes = themed_css (doc_appearance d)
    \<or> (\<exists>p \<in> set (doc_projects d). path = ''projects/'' @ project_path rx (dp_project_reference_id p) @ ''/index.html''
          \<and> bytes = project_html rx d p)"
proof -
  let ?put = "\<lambda>project. put_output (''projects/'' @ project_path rx (dp_project_reference_id project) @ ''/index.html'')
             (project_html rx d project, HTML)"
  have fold: "x \<in> set (fold ?put ps acc) \<Longrightarrow> x \<in> set acc \<or> (\<exists>p \<in> set ps.
      x = (''projects/'' @ project_path rx (dp_project_reference_id p) @ ''/index.html'', project_html rx d p, HTML))" for x ps acc
    by (induction ps arbitrary: acc) (auto dest!: subsetD [OF put_output_set] simp del: append_Cons)
  have base: "x \<in> set (put_output ''index.html'' (index_html rx d, HTML)
         (put_output ''assets/site.css'' (themed_css (doc_appearance d), ''text/css; charset=utf-8'') [])) \<Longrightarrow>
     x = (''index.html'', index_html rx d, HTML) \<or> x = (''assets/site.css'', themed_css (doc_appearance d), ''text/css; charset=utf-8'')" for x
    using put_output_set by fastforce
  from fold [OF assms [unfolded site_outputs_def]] base show ?thesis by (elim disjE) (blast, blast)
qed

lemma site_path_accepted:
  assumes "hex_digests rx" and "(path, bytes, ct) \<in> set (site_outputs rx d)"
  shows "validate_path path = Inr ()"
proof -
  have names: "plain_segment ''index.html''" "plain_segment ''assets''" "plain_segment ''site.css''" "plain_segment ''projects''"
    by (simp_all add: plain_segment_def path_char_def ascii_class_defs)
  have pp: "plain_segment (project_path rx r)" for r
  proof -
    have dot: "\<not> is_ascii_alphanumeric CHR ''.''" by (simp add: ascii_class_defs)
    have "CHR ''.'' \<notin> set (project_path rx r)"
      using project_path_chars [OF assms(1), of "CHR ''.''" r] dot by auto
    then have "project_path rx r \<noteq> ''.''" "project_path rx r \<noteq> ''..''"
      by (metis list.set_intros(1))+
    with project_path_length [OF assms(1), of r] project_path_chars [OF assms(1), of _ r] show ?thesis
      unfolding plain_segment_def path_char_def by blast
  qed
  from site_outputs_cases [OF assms(2)] consider
    "path = ''index.html''" | "path = ''assets/site.css''" |
    r where "path = ''projects/'' @ project_path rx r @ ''/index.html''" by blast
  then show ?thesis
  proof cases
    case 1 with plain_path_accepted [of "[''index.html'']"] names show ?thesis by simp
  next
    case 2 with plain_path_accepted [of "[''assets'', ''site.css'']"] names show ?thesis by simp
  next
    case 3 with plain_path_accepted [of "[''projects'', project_path rx r, ''index.html'']"] names pp
      project_path_length [OF assms(1), of r] show ?thesis by simp
  qed
qed

lemma current_artifact_link:
  assumes hex: "length hex = 64" "lower_hex hex"
    and link: "os_read_link os (path_join (path_join (path_join root ''sites'') slug) ''current'')
      = Some (path_join ''../../artifacts'' (''sha256-'' @ hex))"
  shows "current_artifact os root slug = Inr (''sha256-'' @ hex)"
proof -
  let ?name = "''sha256-'' @ hex"
  have h: "is_ascii_hexdigit b" if "b \<in> set hex" for b using hex(2) that by (simp add: lower_hex_def)
  then have "CHR ''/'' \<notin> set hex" by (force simp: ascii_class_defs)
  then have "split_on CHR ''/'' (path_join ''../../artifacts'' ?name) = [''..'', ''..'', ''artifacts'', ?name]"
    by (simp add: path_join_def split_on_single)
  then have comps: "path_components (path_join ''../../artifacts'' ?name)
      = [ParentDir, ParentDir, Normal ''artifacts'', Normal ?name]"
    by (simp add: path_components_def component_of_def starts_with_iff path_join_def)
  have "artifact_name_ok ?name" using hex by (simp add: artifact_name_ok_def starts_with_iff)
  with link comps show ?thesis by (simp add: current_artifact_def file_name_def)
qed

lemma declared_entry_manifest:
  assumes "distinct (map fst outputs)" and "(path, bytes, ct) \<in> set outputs"
  shows "declared_entry \<lparr>man_format = f, man_publication_id = i, man_document_digest = g,
       man_files = map (manifest_entry rx) outputs\<rparr> path = Some (manifest_entry rx (path, bytes, ct))"
proof -
  let ?es = "map (\<lambda>entry. (mf_path entry, entry)) (map (manifest_entry rx) outputs)"
  have "map fst ?es = map fst outputs" by (auto simp: manifest_entry_def)
  then have "distinct (map fst (rev ?es))" using assms(1) by (metis distinct_rev rev_map)
  moreover have "(path, manifest_entry rx (path, bytes, ct)) \<in> set (rev ?es)"
    using assms(2) by (force simp: manifest_entry_def)
  ultimately have "map_of (rev ?es) path = Some (manifest_entry rx (path, bytes, ct))" by (rule map_of_is_SomeI)
  then show ?thesis by (simp add: declared_entry_def)
qed

lemma load_file_Inr:
  assumes "current_artifact os root (rq_slug request) = Inr name"
    and "load_manifest rx os (path_join (path_join root ''artifacts'') name) name = Inr m"
    and "declared_entry m path = Some (manifest_entry rx (path, bytes, content_type))"
    and "os_read os (path_join (path_join (path_join root ''artifacts'') name) path) = Some bytes"
      "os_symlink_metadata os (path_join (path_join (path_join root ''artifacts'') name) path) = Some (KFile (length bytes))"
    and "validate_path path = Inr ()" "validate_request host request = Inr ()" "validate_slug (rq_slug request) = Inr ()"
    and "length bytes \<le> 8 * 1024 * 1024"
  shows "load_file rx os root host request path = Inr (bytes, content_type, \<not> starts_with ''text/html'' content_type)"
  using assms by (simp add: load_file_def Let_def manifest_entry_def)

text \<open>
  C30.  If a document was rendered, the files of its staging directory are the files of the artifact
  directory named after the returned digest, and the site's \<open>current\<close> link points there, then the
  server answers a valid request for each page of the site with the rendered bytes and the
  rendered content type, HTML pages alone being revalidated.
\<close>

theorem published_site_is_served:
  assumes rendered: "render rx os_fails document publication_id document_digest staging fs = Inr (fs', ''sha256:'' @ hex)"
    and decoded: "rx_document_from_value rx document = Some d"
    and digests: "hex_digests rx"
    and codec: "\<forall>m b. rx_manifest_to_vec rx m = Some b \<longrightarrow> rx_manifest_from_slice rx b = Some m"
    and promoted: "artifact = path_join (path_join root ''artifacts'') (''sha256-'' @ hex)"
      "os_symlink_metadata os artifact = Some KDir"
      "\<forall>relative bytes. fs_files fs' (path_join staging relative) = Some bytes \<longrightarrow>
         os_read os (path_join artifact relative) = Some bytes
         \<and> os_symlink_metadata os (path_join artifact relative) = Some (KFile (length bytes))"
      "os_read_link os (path_join (path_join (path_join root ''sites'') (rq_slug request)) ''current'')
         = Some (path_join ''../../artifacts'' (''sha256-'' @ hex))"
    and small: "length (the (fs_files fs' (path_join staging ''manifest.json''))) \<le> 256 * 1024"
      "length bytes \<le> 8 * 1024 * 1024"
    and request: "validate_request host request = Inr ()" "validate_slug (rq_slug request) = Inr ()"
    and page: "(path, bytes, content_type) \<in> set (site_outputs rx d)"
  shows "load_file rx os root host request path
    = Inr (bytes, content_type, \<not> starts_with ''text/html'' content_type)"
proof -
  obtain fs1 where "write_site rx os_fails d publication_id document_digest staging fs1 = Inr (fs', ''sha256:'' @ hex)"
    using rendered decoded by (elim render_Inr) simp
  then obtain m mbytes where
    m: "m = \<lparr>man_format = ''hostlet.static-site-manifest/v1'', man_publication_id = publication_id,
       man_document_digest = document_digest, man_files = map (manifest_entry rx) (site_outputs rx d)\<rparr>"
      "rx_manifest_to_vec rx m = Some mbytes" "''sha256:'' @ hex = ''sha256:'' @ rx_sha256_hex rx mbytes"
    and files: "fs_files fs' (path_join staging ''manifest.json'') = Some mbytes"
      "distinct (map fst (site_outputs rx d))"
      and written: "\<forall>(relative, bytes, content_type) \<in> set (site_outputs rx d).
         fs_files fs' (path_join staging relative) = Some bytes"
    by (rule write_site_Inr)
  have staged: "fs_files fs' (path_join staging path) = Some bytes" using page written by auto
  have hex: "hex = rx_sha256_hex rx mbytes" using m(3) by simp
  then have "current_artifact os root (rq_slug request) = Inr (''sha256-'' @ hex)"
    using current_artifact_link [OF _ _ promoted(4)] digests by (simp add: hex_digests_def)
  moreover have "load_manifest rx os artifact (''sha256-'' @ hex) = Inr m"
    using promoted(2,3) files(1) small(1) codec m(1,2) hex by (simp add: load_manifest_def)
  moreover have "declared_entry m path = Some (manifest_entry rx (path, bytes, content_type))"
    unfolding m(1) by (rule declared_entry_manifest [OF files(2) page])
  moreover have "os_read os (path_join artifact path) = Some bytes"
    "os_symlink_metadata os (path_join artifact path) = Some (KFile (length bytes))"
    using promoted(3) staged by blast+
  moreover have "validate_path path = Inr ()" by (rule site_path_accepted [OF digests page])
  ultimately show ?thesis
    using request small(2) unfolding promoted(1) by (rule load_file_Inr)
qed

text \<open>
  C31.  Whatever the file system holds, served bytes have the digest that an entry of a manifest
  declares for that path, and the manifest has the digest in the name of the artifact directory; the
  path has no empty, \<open>.\<close> or \<open>..\<close> segment.
\<close>

theorem served_bytes_are_declared:
  assumes "load_file rx os root host request path = Inr (bytes, content_type, immutable)"
  shows "\<exists>name mbytes m entry. os_read os (path_join (path_join (path_join root ''artifacts'') name) ''manifest.json'') = Some mbytes
    \<and> name = ''sha256-'' @ rx_sha256_hex rx mbytes \<and> rx_manifest_from_slice rx mbytes = Some m
    \<and> entry \<in> set (man_files m) \<and> mf_path entry = path \<and> mf_content_type entry = content_type
    \<and> mf_sha256 entry = ''sha256:'' @ rx_sha256_hex rx bytes
    \<and> os_read os (path_join (path_join (path_join root ''artifacts'') name) path) = Some bytes
    \<and> (\<forall>part \<in> set (split_on CHR ''/'' path). part \<noteq> [] \<and> part \<noteq> ''.'' \<and> part \<noteq> ''..'')"
proof -
  from assms obtain name m entry where
    valid: "validate_path path = Inr ()"
    and man: "load_manifest rx os (path_join (path_join root ''artifacts'') name) name = Inr m"
    and entry: "declared_entry m path = Some entry"
    and read: "os_read os (path_join (path_join (path_join root ''artifacts'') name) path) = Some bytes"
      "mf_sha256 entry = ''sha256:'' @ rx_sha256_hex rx bytes" "mf_content_type entry = content_type"
    by (auto simp: load_file_def Let_def split: sum.splits option.splits if_splits)
  obtain mbytes where mb: "os_read os (path_join (path_join (path_join root ''artifacts'') name) ''manifest.json'') = Some mbytes"
      "name = ''sha256-'' @ rx_sha256_hex rx mbytes" "rx_manifest_from_slice rx mbytes = Some m"
    using man by (auto simp: load_manifest_def split: option.splits if_splits)
  have "entry \<in> set (man_files m) \<and> mf_path entry = path"
    using map_of_SomeD [OF entry [unfolded declared_entry_def]] by auto
  moreover have "\<forall>part \<in> set (split_on CHR ''/'' path). part \<noteq> [] \<and> part \<noteq> ''.'' \<and> part \<noteq> ''..''"
    using valid by (auto simp: validate_path_def split: if_splits)
  ultimately show ?thesis using mb read by blast
qed

section \<open>A published site\<close>

definition site_doc :: public_document where
  "site_doc = \<lparr>doc_contract_version = ''hostlet.public-portfolio/v1'', doc_approved_revision_id = 1,
     doc_display_name = ''<A>'', doc_headline = None, doc_introduction = None, doc_target_role = None,
     doc_skills = [], doc_resume = None, doc_contacts = [], doc_projects = [], doc_appearance = JNull\<rparr>"

definition site_hex :: string where
  "site_hex = replicate 64 CHR ''a''"

definition bare_rx :: render_ext where
  "bare_rx = \<lparr>rx_parse_url = (\<lambda>_. None), rx_sha256_hex = (\<lambda>_. site_hex), rx_rfc3339 = (\<lambda>_. []),
     rx_document_to_vec = (\<lambda>_. Some []), rx_document_from_value = (\<lambda>_. Some site_doc),
     rx_manifest_to_vec = (\<lambda>_. None), rx_manifest_from_slice = (\<lambda>_. None)\<rparr>"

definition site_manifest :: manifest where
  "site_manifest = \<lparr>man_format = ''hostlet.static-site-manifest/v1'', man_publication_id = 7,
     man_document_digest = ''sha256:'' @ site_hex, man_files = map (manifest_entry bare_rx) (site_outputs bare_rx site_doc)\<rparr>"

definition site_rx :: render_ext where
  "site_rx = bare_rx\<lparr>rx_manifest_to_vec := (\<lambda>m. if m = site_manifest then Some ''M'' else None),
     rx_manifest_from_slice := (\<lambda>_. Some site_manifest)\<rparr>"

definition site_artifact :: string where
  "site_artifact = path_join (path_join ''/r'' ''artifacts'') (''sha256-'' @ site_hex)"

definition site_contents :: "(string \<times> string) list" where
  "site_contents = [(''manifest.json'', ''M''), (''index.html'', index_html site_rx site_doc),
     (''assets/site.css'', themed_css JNull)]"

definition site_os :: server_os where
  "site_os = \<lparr>os_read_link = (\<lambda>_. Some (path_join ''../../artifacts'' (''sha256-'' @ site_hex))),
     os_symlink_metadata = (\<lambda>path. if path = site_artifact then Some KDir
        else map_option (\<lambda>bytes. KFile (length bytes))
               (map_of (map (\<lambda>(relative, bytes). (path_join site_artifact relative, bytes)) site_contents) path)),
     os_read = map_of (map (\<lambda>(relative, bytes). (path_join site_artifact relative, bytes)) site_contents)\<rparr>"

definition site_request0 :: site_request where
  "site_request0 = \<lparr>rq_hosts = [Visible ''h''], rq_raw_uri = ''/p/ada'', rq_slug = ''ada''\<rparr>"

definition site_fs0 :: site_fs where
  "site_fs0 = \<lparr>fs_dirs = {}, fs_files = Map.empty\<rparr>"

definition site_fs1 :: site_fs where
  "site_fs1 = \<lparr>fs_dirs = {''s'', ''s/assets''},
     fs_files = [path_join ''s'' ''assets/site.css'' \<mapsto> themed_css JNull,
       path_join ''s'' ''index.html'' \<mapsto> index_html site_rx site_doc, path_join ''s'' ''manifest.json'' \<mapsto> ''M'']\<rparr>"

lemma site_hex_ok: "length site_hex = 64" "lower_hex site_hex"
  by (simp_all add: site_hex_def lower_hex_def is_ascii_uppercase_def ascii_class_defs)

lemma site_rx_simps [simp]:
  "rx_sha256_hex site_rx = (\<lambda>_. site_hex)" "rx_document_to_vec site_rx = (\<lambda>_. Some [])"
  "rx_document_from_value site_rx = (\<lambda>_. Some site_doc)"
  "rx_manifest_to_vec site_rx = (\<lambda>m. if m = site_manifest then Some ''M'' else None)"
  "rx_manifest_from_slice site_rx = (\<lambda>_. Some site_manifest)"
  "rx_sha256_hex bare_rx = (\<lambda>_. site_hex)"
  by (simp_all add: site_rx_def bare_rx_def)

lemma site_hex_digests: "hex_digests site_rx"
  by (simp add: hex_digests_def site_hex_ok)

lemma site_doc_outputs:
  "site_outputs rx site_doc
     = [(''assets/site.css'', themed_css JNull, ''text/css; charset=utf-8''), (''index.html'', index_html rx site_doc, HTML)]"
  by (simp add: site_outputs_def site_doc_def)

lemma site_index: "index_html bare_rx site_doc = index_html site_rx site_doc"
  by (simp add: index_html_def site_doc_def section_html_def del: append_Cons)

lemma site_manifest_files:
  "man_files site_manifest = map (manifest_entry site_rx) (site_outputs site_rx site_doc)"
  by (simp add: site_manifest_def site_doc_outputs site_index manifest_entry_def)

lemma site_rendered:
  "render site_rx (\<lambda>_. False) JNull 7 (''sha256:'' @ site_hex) ''s'' site_fs0 = Inr (site_fs1, ''sha256:'' @ site_hex)"
proof -
  have anc: "path_ancestors ''s'' = {''s''}" "path_ancestors ''s/assets'' = {''s'', ''s/assets''}"
    by (auto simp: path_ancestors_def upt_rec)
  have par: "path_parent (path_join ''s'' ''assets/site.css'') = ''s/assets''"
    "path_parent (path_join ''s'' ''index.html'') = ''s''" "path_parent (path_join ''s'' ''manifest.json'') = ''s''"
    by (simp_all add: path_parent_def path_join_def)
  have digest: "valid_sha256_digest (''sha256:'' @ site_hex)"
    using site_hex_ok by (simp add: valid_sha256_digest_def starts_with_iff)
  have ne: "path_join ''s'' r \<noteq> ''s''" "''s'' \<noteq> path_join ''s'' r" "path_join ''s'' r = ''s/assets'' \<longleftrightarrow> r = ''assets''" for r by (simp_all add: path_join_def)
  have doc: "doc_contract_version site_doc = ''hostlet.public-portfolio/v1''" "validate_document site_rx site_doc = Inr ()"
    by (simp_all add: site_doc_def validate_document_def)
  have man: "\<lparr>man_format = ''hostlet.static-site-manifest/v1'', man_publication_id = 7,
     man_document_digest = ''sha256:'' @ site_hex, man_files = [manifest_entry site_rx (''assets/site.css'', themed_css JNull, ''text/css; charset=utf-8'')]
       @ [manifest_entry site_rx (''index.html'', index_html site_rx site_doc, HTML)]\<rparr> = site_manifest"
    by (simp add: site_manifest_def site_doc_outputs site_index manifest_entry_def)
  show ?thesis
    by (simp add: render_def write_site_def site_doc_outputs create_dir_all_def write_new_def par anc ne digest doc
        site_fs0_def site_fs1_def Let_def man del: append_Cons)
qed

lemma site_request_ok: "validate_request ''h'' site_request0 = Inr ()" "validate_slug (rq_slug site_request0) = Inr ()"
  by (simp_all add: site_request0_def validate_request_def validate_slug_def starts_with_iff ends_with_def strip_suffix_def slug_char_def ascii_class_defs)

lemma site_promoted:
  "fs_files site_fs1 (path_join ''s'' relative) = Some bytes \<Longrightarrow>
     os_read site_os (path_join site_artifact relative) = Some bytes
     \<and> os_symlink_metadata site_os (path_join site_artifact relative) = Some (KFile (length bytes))"
proof -
  have ne: "path_join site_artifact r \<noteq> site_artifact" for r by (simp add: path_join_def)
  show "fs_files site_fs1 (path_join ''s'' relative) = Some bytes \<Longrightarrow> ?thesis"
    by (simp add: site_fs1_def site_os_def site_contents_def ne split: if_splits) auto
qed

lemma site_index_length: "length (index_html site_rx site_doc) \<le> 8 * 1024 * 1024"
  by (simp add: index_html_def site_doc_def opt_html_def section_html_def escape_def escape_char_def index_links_def)

theorem rendered_text_is_inert_witness:
  "markup (index_html site_rx site_doc) = markup (index_html site_rx (blank_document site_doc))"
  using rendered_text_is_inert [OF site_rendered site_hex_digests] by simp

theorem published_site_is_served_witness:
  "load_file site_rx site_os ''/r'' ''h'' site_request0 ''index.html''
     = Inr (index_html site_rx site_doc, HTML, False)"
proof -
  have links: "os_symlink_metadata site_os site_artifact = Some KDir"
    "os_read_link site_os (path_join (path_join (path_join ''/r'' ''sites'') (rq_slug site_request0)) ''current'')
       = Some (path_join ''../../artifacts'' (''sha256-'' @ site_hex))"
    by (simp_all add: site_os_def)
  have "load_file site_rx site_os ''/r'' ''h'' site_request0 ''index.html''
     = Inr (index_html site_rx site_doc, HTML, \<not> starts_with ''text/html'' HTML)"
  proof (rule published_site_is_served [OF site_rendered _ site_hex_digests _ site_artifact_def links(1) _ links(2) _
        site_index_length site_request_ok])
    show "\<forall>relative bytes. fs_files site_fs1 (path_join ''s'' relative) = Some bytes \<longrightarrow>
         os_read site_os (path_join site_artifact relative) = Some bytes
         \<and> os_symlink_metadata site_os (path_join site_artifact relative) = Some (KFile (length bytes))"
      using site_promoted by blast
    show "length (the (fs_files site_fs1 (path_join ''s'' ''manifest.json''))) \<le> 256 * 1024"
      by (simp add: site_fs1_def)
    show "(''index.html'', index_html site_rx site_doc, HTML) \<in> set (site_outputs site_rx site_doc)"
      by (simp add: site_doc_outputs)
  qed simp_all
  then show ?thesis by (simp add: HTML_def starts_with_iff)
qed

lemma site_loaded:
  "load_file site_rx site_os ''/r'' ''h'' site_request0 ''index.html''
     = Inr (index_html site_rx site_doc, HTML, \<not> starts_with ''text/html'' HTML)"
proof (rule load_file_Inr)
  let ?out = "(''index.html'', index_html site_rx site_doc, HTML)"
  show "current_artifact site_os ''/r'' (rq_slug site_request0) = Inr (''sha256-'' @ site_hex)"
    using current_artifact_link [OF site_hex_ok] by (simp add: site_os_def)
  show "load_manifest site_rx site_os (path_join (path_join ''/r'' ''artifacts'') (''sha256-'' @ site_hex)) (''sha256-'' @ site_hex)
     = Inr site_manifest"
    by (simp add: load_manifest_def site_artifact_def [symmetric] del: append_Cons)
       (simp add: site_os_def site_contents_def site_manifest_def)
  show "declared_entry site_manifest ''index.html'' = Some (manifest_entry site_rx ?out)"
    by (simp add: declared_entry_def site_manifest_files site_doc_outputs manifest_entry_def)
qed (use site_promoted [of "''index.html''"] site_request_ok site_index_length site_path_accepted [OF site_hex_digests, of "''index.html''" _ _ site_doc] in
   \<open>simp_all add: site_artifact_def [symmetric] site_fs1_def site_doc_outputs del: append_Cons\<close>)

theorem served_bytes_are_declared_witness:
  "\<exists>name mbytes. os_read site_os (path_join (path_join (path_join ''/r'' ''artifacts'') name) ''manifest.json'') = Some mbytes
    \<and> name = ''sha256-'' @ rx_sha256_hex site_rx mbytes"
  using served_bytes_are_declared [OF site_loaded] by blast

end
