(* ===== verification/Store_Transactions.thy ===== *)
theory Store_Transactions
  imports Control_Intent
begin

text \<open>
  Database transactions of the control plane, over any record of tables: the value of a handler's
  body, how \<open>?\<close> threads statements and checks through it, and a predicate with one rule per
  combinator by which the committed states of a handler are described.
\<close>

section \<open>Bodies\<close>

text \<open>
  A body commits a working copy with the handler's result, which may be an error response, or is
  rolled back when the transaction is dropped.  Deferred constraints are checked at the commit.
\<close>

datatype ('s, 'a) txn = Committed 's "api_error + 'a" | RolledBack api_error

definition run_txn :: "('s \<Rightarrow> bool) \<Rightarrow> 's \<Rightarrow> ('s, 'a) txn \<Rightarrow> 's \<times> (api_error + 'a)" where
  "run_txn deferred s body =
     (case body of
        RolledBack e \<Rightarrow> (s, Inl e)
      | Committed s' r \<Rightarrow> if deferred s' then (s', r) else (s, Inl database_unavailable))"

definition sql :: "'s option \<Rightarrow> ('s \<Rightarrow> ('s, 'a) txn) \<Rightarrow> ('s, 'a) txn" where
  "sql r k = (case r of Some s \<Rightarrow> k s | None \<Rightarrow> RolledBack database_unavailable)"

definition attempt :: "api_error + 'b \<Rightarrow> ('b \<Rightarrow> ('s, 'a) txn) \<Rightarrow> ('s, 'a) txn" where
  "attempt r k = (case r of Inr x \<Rightarrow> k x | Inl e \<Rightarrow> RolledBack e)"

definition ok_or :: "api_error \<Rightarrow> 'b option \<Rightarrow> api_error + 'b" where
  "ok_or e v = (case v of Some x \<Rightarrow> Inr x | None \<Rightarrow> Inl e)"

definition ensure :: "bool \<Rightarrow> api_error \<Rightarrow> api_error + unit" where
  "ensure b e = (if b then Inr () else Inl e)"

text \<open>Two checks in sequence, the first error wins.\<close>

definition also_ensure :: "api_error + unit \<Rightarrow> api_error + unit \<Rightarrow> api_error + unit" where
  "also_ensure a b = (case a of Inl e \<Rightarrow> Inl e | Inr _ \<Rightarrow> b)"

lemma ok_or_Inr [simp]: "ok_or e v = Inr x \<longleftrightarrow> v = Some x"
  by (cases v) (simp_all add: ok_or_def)

lemma ensure_Inr [simp]: "ensure b e = Inr u \<longleftrightarrow> b"
  by (simp add: ensure_def)

lemma also_ensure_Inr [simp]: "also_ensure a b = Inr u \<longleftrightarrow> a = Inr () \<and> b = Inr ()"
  by (cases a) (simp_all add: also_ensure_def)

section \<open>What every commit satisfies\<close>

definition commits :: "('s \<Rightarrow> api_error + 'a \<Rightarrow> bool) \<Rightarrow> ('s, 'a) txn \<Rightarrow> bool" where
  "commits Q body = (case body of Committed s r \<Rightarrow> Q s r | RolledBack e \<Rightarrow> True)"

lemma commits_Committed: "Q s r \<Longrightarrow> commits Q (Committed s r)"
  by (simp add: commits_def)

lemma commits_RolledBack: "commits Q (RolledBack e)"
  by (simp add: commits_def)

lemma commits_sql: "(\<And>s. r = Some s \<Longrightarrow> commits Q (k s)) \<Longrightarrow> commits Q (sql r k)"
  by (cases r) (simp_all add: sql_def commits_RolledBack)

lemma commits_attempt: "(\<And>x. r = Inr x \<Longrightarrow> commits Q (k x)) \<Longrightarrow> commits Q (attempt r k)"
  by (cases r) (simp_all add: attempt_def commits_RolledBack)

lemma commits_if: "(b \<Longrightarrow> commits Q x) \<Longrightarrow> (\<not> b \<Longrightarrow> commits Q y) \<Longrightarrow> commits Q (if b then x else y)"
  by simp

lemma commits_option:
  "(v = None \<Longrightarrow> commits Q n) \<Longrightarrow> (\<And>x. v = Some x \<Longrightarrow> commits Q (s x))
     \<Longrightarrow> commits Q (case v of None \<Rightarrow> n | Some x \<Rightarrow> s x)"
  by (cases v) simp_all

lemma commits_replay:
  "(v = Miss \<Longrightarrow> commits Q n) \<Longrightarrow> (\<And>x. v = Match x \<Longrightarrow> commits Q (s x)) \<Longrightarrow> (v = Changed \<Longrightarrow> commits Q c)
     \<Longrightarrow> commits Q (case v of Miss \<Rightarrow> n | Match x \<Rightarrow> s x | Changed \<Rightarrow> c)"
  by (cases v) simp_all

lemma commits_prod: "(\<And>a b. v = (a, b) \<Longrightarrow> commits Q (f a b)) \<Longrightarrow> commits Q (case v of (a, b) \<Rightarrow> f a b)"
  by (cases v) simp

lemma commits_Let: "(\<And>x. x = v \<Longrightarrow> commits Q (f x)) \<Longrightarrow> commits Q (let x = v in f x)"
  by simp

lemmas commits_rules =
  commits_RolledBack commits_sql commits_attempt commits_if commits_option commits_replay commits_prod commits_Let

lemma run_txn_commits:
  assumes "commits Q body" and "run_txn deferred s body = (s', r)" and "s' = s \<Longrightarrow> r \<notin> range Inr \<Longrightarrow> P"
    and "Q s' r \<Longrightarrow> deferred s' \<Longrightarrow> P"
  shows P
  using assms by (cases body) (auto simp: run_txn_def commits_def split: if_splits)

lemma run_txn_inv:
  assumes "commits (\<lambda>s' _. R s') body" and "R s"
  shows "R (fst (run_txn deferred s body))"
  using assms by (cases body) (auto simp: run_txn_def commits_def)

lemma commits_mono: "commits Q body \<Longrightarrow> (\<And>s r. Q s r \<Longrightarrow> Q' s r) \<Longrightarrow> commits Q' body"
  by (cases body) (simp_all add: commits_def)

end
