(* ===== verification/Admission_Store.thy ===== *)
theory Admission_Store
  imports Store_Transactions Job_Store
begin

text \<open>
  The tables of hosting admission (\<^verbatim>\<open>migrations/0005_onboarding.sql\<close>) and the columns that the
  admission endpoints use of the project graph (\<^verbatim>\<open>0002_project_graph.sql\<close>) and of the GitHub
  bindings, with the statements \<^verbatim>\<open>crates/control/src/admission.rs\<close> issues on them.  As in the job
  store, a table is the list of its rows in insertion order and a statement that violates a
  constraint yields \<open>None\<close>.  All readings of \<open>clock_timestamp()\<close> within one statement agree.
\<close>

section \<open>Rows\<close>

record pool_row =
  pool_key :: string
  pool_profile :: string
  pool_hosted_slot_limit :: int
  pool_rollout_headroom_limit :: int
  pool_revision :: int
  pool_updated_at :: timestamp

record entitlement_row =
  ent_id :: uuid
  ent_account_id :: uuid
  ent_pool_key :: string
  ent_source :: string
  ent_hosted_slot_limit :: int
  ent_build_seconds_limit :: int
  ent_period_starts_at :: timestamp
  ent_period_ends_at :: timestamp
  ent_state :: string
  ent_revision :: int
  ent_updated_at :: timestamp

record proof_row =
  proof_id :: uuid
  proof_account_id :: uuid
  proof_project_id :: uuid
  proof_deployment_id :: uuid
  proof_configuration_revision_id :: uuid
  proof_source_commit :: string
  proof_inventory_revision :: int
  proof_source :: string
  proof_state :: string
  proof_expires_at :: timestamp
  proof_created_at :: timestamp

record hold_row =
  hold_id :: uuid
  hold_account_id :: uuid
  hold_project_id :: uuid
  hold_deployment_id :: uuid
  hold_source_proof_id :: uuid
  hold_entitlement_id :: uuid
  hold_pool_key :: string
  hold_reservation_id :: "uuid option"
  hold_reservation_epoch :: "uuid option"
  hold_kind :: string
  hold_state :: string
  hold_expires_at :: timestamp
  hold_consumed_at :: "timestamp option"
  hold_released_at :: "timestamp option"
  hold_created_at :: timestamp

record reservation_row =
  res_id :: uuid
  res_account_id :: uuid
  res_project_id :: uuid
  res_first_deployment_id :: uuid
  res_entitlement_id :: uuid
  res_pool_key :: string
  res_initial_hold_id :: uuid
  res_epoch :: uuid
  res_state :: string
  res_retention_reason :: "string option"
  res_release_observation_id :: "uuid option"
  res_created_at :: timestamp
  res_updated_at :: timestamp
  res_released_at :: "timestamp option"

record observation_row =
  obs_id :: uuid
  obs_account_id :: uuid
  obs_project_id :: uuid
  obs_deployment_id :: uuid
  obs_reservation_id :: uuid
  obs_reservation_epoch :: uuid
  obs_rollout_hold_id :: "uuid option"
  obs_outcome :: string
  obs_resource_inventory :: string
  obs_proof_ref :: string

record usage_row =
  use_id :: uuid
  use_account_id :: uuid
  use_project_id :: uuid
  use_deployment_id :: uuid
  use_entitlement_id :: uuid
  use_attempt_id :: uuid
  use_kind :: string
  use_seconds :: int
  use_debit_event_id :: "uuid option"
  use_platform_fault_ref :: "string option"

record refund_row =
  refund_id :: uuid
  refund_account_id :: uuid
  refund_project_id :: uuid
  refund_deployment_id :: uuid
  refund_hold_id :: uuid
  refund_kind :: string
  refund_state :: string
  refund_reason :: string

record 'v receipt_row =
  receipt_event_id :: uuid
  receipt_kind :: string
  receipt_request_hash :: string
  receipt_response_body :: 'v

record project_row =
  prow_id :: uuid
  prow_account_id :: uuid
  prow_hosted_slots :: int
  prow_slot_state :: string
  prow_current_configuration :: "uuid option"
  prow_revision :: int
  prow_updated_at :: timestamp

record deployment_row =
  drow_id :: uuid
  drow_account_id :: uuid
  drow_project_id :: uuid
  drow_configuration_revision_id :: uuid
  drow_source_commit :: string
  drow_lifecycle :: string

record lifecycle_intent_row =
  lin_account_id :: uuid
  lin_project_id :: uuid
  lin_kind :: string
  lin_target_deployment_id :: "uuid option"
  lin_state :: string

record hosting_event_row =
  hse_id :: uuid
  hse_account_id :: uuid
  hse_project_id :: uuid
  hse_deployment_id :: "uuid option"
  hse_state :: string
  hse_source :: string
  hse_reason :: string

record binding_row =
  bnd_id :: uuid
  bnd_account_id :: uuid
  bnd_project_id :: uuid
  bnd_repository_id :: uuid
  bnd_installation_id :: int
  bnd_status :: string

record authorization_row =
  gau_account_id :: uuid
  gau_status :: string
  gau_token_expires_at :: "timestamp option"

record installation_row =
  gin_id :: int
  gin_status :: string

record source_revision_row =
  gsr_id :: uuid
  gsr_binding_id :: uuid
  gsr_account_id :: uuid
  gsr_project_id :: uuid
  gsr_repository_id :: uuid
  gsr_configuration_revision_id :: uuid
  gsr_commit_sha :: string
  gsr_source :: string

text \<open>What the project graph and the GitHub integration maintain, and the admission tables.\<close>

record graph_tables =
  g_accounts :: "uuid list"
  g_projects :: "project_row list"
  g_deployments :: "deployment_row list"
  g_lifecycle_intents :: "lifecycle_intent_row list"
  g_hosting_events :: "hosting_event_row list"
  g_bindings :: "binding_row list"
  g_authorizations :: "authorization_row list"
  g_installations :: "installation_row list"
  g_source_revisions :: "source_revision_row list"

record 'v admission_db =
  ad_pools :: "pool_row list"
  ad_entitlements :: "entitlement_row list"
  ad_proofs :: "proof_row list"
  ad_holds :: "hold_row list"
  ad_reservations :: "reservation_row list"
  ad_observations :: "observation_row list"
  ad_usage :: "usage_row list"
  ad_refunds :: "refund_row list"
  ad_receipts :: "'v receipt_row list"
  ad_graph :: graph_tables
  ad_idempotency :: "'v idempotency_record list"
  ad_audit :: "audit_row list"

section \<open>Constraints\<close>

definition in_integer :: "int \<Rightarrow> bool" where
  "in_integer v \<longleftrightarrow> - (2 ^ 31) \<le> v \<and> v < 2 ^ 31"

definition octets_between :: "nat \<Rightarrow> nat \<Rightarrow> string \<Rightarrow> bool" where
  "octets_between low high s \<longleftrightarrow> low \<le> length s \<and> length s \<le> high"

definition commit_column :: "string \<Rightarrow> bool" where
  "commit_column s \<longleftrightarrow> (length s = 40 \<or> length s = 64) \<and> (\<forall>b \<in> set s. lowercase_hex b)"

definition pool_check :: "pool_row \<Rightarrow> bool" where
  "pool_check p \<longleftrightarrow>
     octets_between 1 64 (pool_key p) \<and> octets_between 1 64 (pool_profile p)
     \<and> pool_hosted_slot_limit p \<ge> 0 \<and> in_integer (pool_hosted_slot_limit p)
     \<and> pool_rollout_headroom_limit p \<ge> 0 \<and> in_integer (pool_rollout_headroom_limit p)
     \<and> pool_revision p > 0 \<and> in_bigint (pool_revision p)"

definition entitlement_check :: "entitlement_row \<Rightarrow> bool" where
  "entitlement_check e \<longleftrightarrow>
     ent_source e = ''synthetic_internal''
     \<and> ent_hosted_slot_limit e \<ge> 0 \<and> in_integer (ent_hosted_slot_limit e)
     \<and> ent_build_seconds_limit e \<ge> 0 \<and> in_integer (ent_build_seconds_limit e)
     \<and> ent_state e \<in> {''active'', ''expired'', ''revoked''}
     \<and> ent_revision e > 0 \<and> in_bigint (ent_revision e)
     \<and> ent_period_ends_at e > ent_period_starts_at e"

definition proof_check :: "proof_row \<Rightarrow> bool" where
  "proof_check p \<longleftrightarrow>
     commit_column (proof_source_commit p)
     \<and> proof_inventory_revision p > 0 \<and> in_bigint (proof_inventory_revision p)
     \<and> proof_source p = ''synthetic_internal''
     \<and> proof_state p \<in> {''valid'', ''superseded'', ''expired''}"

definition hold_check :: "hold_row \<Rightarrow> bool" where
  "hold_check h \<longleftrightarrow>
     hold_state h \<in> {''active'', ''consumed'', ''released'', ''expired''}
     \<and> (hold_kind h = ''initial'' \<and> hold_reservation_id h = None \<and> hold_reservation_epoch h = None
        \<or> hold_kind h = ''rollout'' \<and> hold_reservation_id h \<noteq> None \<and> hold_reservation_epoch h \<noteq> None)
     \<and> hold_expires_at h > hold_created_at h
     \<and> (hold_state h \<noteq> ''consumed'' \<or> hold_consumed_at h \<noteq> None)
     \<and> (hold_state h \<noteq> ''active'' \<or> hold_consumed_at h = None)
     \<and> (hold_state h \<in> {''released'', ''expired''} \<longleftrightarrow> hold_released_at h \<noteq> None)"

definition reservation_check :: "reservation_row \<Rightarrow> bool" where
  "reservation_check r \<longleftrightarrow>
     res_state r \<in> {''reserved'', ''resources_retained'', ''release_pending'', ''released''}
     \<and> (case res_retention_reason r of Some reason \<Rightarrow> octets_between 1 160 reason | None \<Rightarrow> True)
     \<and> (res_state r = ''released'' \<longleftrightarrow> res_released_at r \<noteq> None)
     \<and> (res_state r = ''resources_retained'' \<longleftrightarrow> res_retention_reason r \<noteq> None)"

definition observation_check :: "observation_row \<Rightarrow> bool" where
  "observation_check b \<longleftrightarrow>
     obs_outcome b \<in> {''resources_retained'', ''cleanup_confirmed'', ''rollout_released'', ''deployment_healthy''}
     \<and> obs_resource_inventory b \<in> {''none'', ''runtime'', ''static_release'', ''database'', ''multiple''}
     \<and> octets_between 1 256 (obs_proof_ref b)
     \<and> (obs_outcome b = ''cleanup_confirmed'' \<and> obs_resource_inventory b = ''none''
        \<or> obs_outcome b \<in> {''resources_retained'', ''deployment_healthy''} \<and> obs_resource_inventory b \<noteq> ''none''
        \<or> obs_outcome b = ''rollout_released'' \<and> obs_rollout_hold_id b \<noteq> None)"

definition usage_check :: "usage_row \<Rightarrow> bool" where
  "usage_check u \<longleftrightarrow>
     use_seconds u > 0 \<and> in_integer (use_seconds u)
     \<and> (case use_platform_fault_ref u of Some r \<Rightarrow> octets_between 1 256 r | None \<Rightarrow> True)
     \<and> (use_kind u = ''debit'' \<and> use_debit_event_id u = None \<and> use_platform_fault_ref u = None
        \<or> use_kind u = ''platform_fault_credit'' \<and> use_debit_event_id u \<noteq> None \<and> use_platform_fault_ref u \<noteq> None)"

definition project_check :: "project_row \<Rightarrow> bool" where
  "project_check p \<longleftrightarrow>
     prow_revision p > 0 \<and> in_bigint (prow_revision p)
     \<and> (prow_hosted_slots p = 0 \<and> prow_slot_state p \<in> {''no_slot'', ''admission_required'', ''release_pending'', ''released''}
        \<or> prow_hosted_slots p = 1 \<and> prow_slot_state p \<in> {''reserved'', ''resources_retained'', ''release_pending''})"

definition deployment_of :: "'v admission_db \<Rightarrow> uuid \<Rightarrow> uuid \<Rightarrow> uuid \<Rightarrow> deployment_row option" where
  "deployment_of db account project deployment =
     find (\<lambda>d. drow_account_id d = account \<and> drow_project_id d = project \<and> drow_id d = deployment)
       (g_deployments (ad_graph db))"

definition entitlement_fk :: "'v admission_db \<Rightarrow> uuid \<Rightarrow> uuid \<Rightarrow> string \<Rightarrow> bool" where
  "entitlement_fk db eid account key \<longleftrightarrow>
     (\<exists>e \<in> set (ad_entitlements db). ent_id e = eid \<and> ent_account_id e = account \<and> ent_pool_key e = key)"

text \<open>The partial unique index on holds: at most one in flight per deployment and kind.\<close>

definition hold_in_flight :: "hold_row \<Rightarrow> bool" where
  "hold_in_flight h \<longleftrightarrow>
     hold_kind h = ''initial'' \<and> hold_state h = ''active''
     \<or> hold_kind h = ''rollout'' \<and> hold_state h \<in> {''active'', ''consumed''}"

definition holds_index_ok :: "hold_row list \<Rightarrow> bool" where
  "holds_index_ok holds \<longleftrightarrow>
     distinct (map (\<lambda>h. (hold_project_id h, hold_deployment_id h, hold_kind h)) (filter hold_in_flight holds))"

definition unreleased :: "reservation_row \<Rightarrow> bool" where
  "unreleased r \<longleftrightarrow> res_state r \<noteq> ''released''"

definition reservations_index_ok :: "reservation_row list \<Rightarrow> bool" where
  "reservations_index_ok rs \<longleftrightarrow> distinct (map res_project_id (filter unreleased rs))"

text \<open>The deferred foreign key from a released slot to the observation that released it.\<close>

definition release_observation_fk :: "'v admission_db \<Rightarrow> bool" where
  "release_observation_fk db \<longleftrightarrow>
     (\<forall>r \<in> set (ad_reservations db). case res_release_observation_id r of
        None \<Rightarrow> True
      | Some oid \<Rightarrow> (\<exists>b \<in> set (ad_observations db). obs_account_id b = res_account_id r
                       \<and> obs_project_id b = res_project_id r \<and> obs_id b = oid))"

section \<open>Statements\<close>

text \<open>\<open>INSERT ... ON CONFLICT (pool_key) DO UPDATE\<close>: the row as inserted or as updated.\<close>

definition upsert_pool :: "pool_row \<Rightarrow> 'v admission_db \<Rightarrow> ('v admission_db \<times> pool_row) option" where
  "upsert_pool new db =
     (case find (\<lambda>p. pool_key p = pool_key new) (ad_pools db) of
        None \<Rightarrow> if pool_check new then Some (db\<lparr>ad_pools := ad_pools db @ [new]\<rparr>, new) else None
      | Some old \<Rightarrow>
          let row = new\<lparr>pool_revision := pool_revision old + 1\<rparr>
          in if pool_check new \<and> pool_check row
             then Some (db\<lparr>ad_pools := map (\<lambda>p. if pool_key p = pool_key new then row else p) (ad_pools db)\<rparr>, row)
             else None)"

definition upsert_entitlement ::
  "entitlement_row \<Rightarrow> 'v admission_db \<Rightarrow> ('v admission_db \<times> entitlement_row) option" where
  "upsert_entitlement new db =
     (if \<not> entitlement_check new \<or> ent_pool_key new \<notin> pool_key ` set (ad_pools db)
         \<or> ent_account_id new \<notin> set (g_accounts (ad_graph db))
      then None
      else case find (\<lambda>e. ent_account_id e = ent_account_id new) (ad_entitlements db) of
             None \<Rightarrow>
               if ent_id new \<in> ent_id ` set (ad_entitlements db) then None
               else Some (db\<lparr>ad_entitlements := ad_entitlements db @ [new]\<rparr>, new)
           | Some old \<Rightarrow>
               let row = new\<lparr>ent_id := ent_id old, ent_revision := ent_revision old + 1\<rparr>
               in if entitlement_check row
                  then Some (db\<lparr>ad_entitlements :=
                         map (\<lambda>e. if ent_account_id e = ent_account_id new then row else e) (ad_entitlements db)\<rparr>, row)
                  else None)"

definition supersede_proofs :: "uuid \<Rightarrow> 'v admission_db \<Rightarrow> 'v admission_db" where
  "supersede_proofs deployment db =
     db\<lparr>ad_proofs := map (\<lambda>p. if proof_deployment_id p = deployment \<and> proof_state p = ''valid''
                                then p\<lparr>proof_state := ''superseded''\<rparr> else p) (ad_proofs db)\<rparr>"

definition insert_proof :: "proof_row \<Rightarrow> 'v admission_db \<Rightarrow> 'v admission_db option" where
  "insert_proof p db =
     (if proof_check p \<and> proof_id p \<notin> proof_id ` set (ad_proofs db)
        \<and> (\<forall>q \<in> set (ad_proofs db).
             proof_account_id q = proof_account_id p \<and> proof_project_id q = proof_project_id p
             \<and> proof_deployment_id q = proof_deployment_id p \<longrightarrow>
             proof_inventory_revision q \<noteq> proof_inventory_revision p)
        \<and> (proof_state p = ''valid'' \<longrightarrow>
             (\<forall>q \<in> set (ad_proofs db). proof_deployment_id q = proof_deployment_id p \<longrightarrow> proof_state q \<noteq> ''valid''))
        \<and> (\<exists>d \<in> set (g_deployments (ad_graph db)). drow_account_id d = proof_account_id p
             \<and> drow_project_id d = proof_project_id p \<and> drow_id d = proof_deployment_id p
             \<and> drow_configuration_revision_id d = proof_configuration_revision_id p)
      then Some (db\<lparr>ad_proofs := ad_proofs db @ [p]\<rparr>) else None)"

definition insert_hold :: "hold_row \<Rightarrow> 'v admission_db \<Rightarrow> 'v admission_db option" where
  "insert_hold h db =
     (if hold_check h \<and> hold_id h \<notin> hold_id ` set (ad_holds db)
        \<and> entitlement_fk db (hold_entitlement_id h) (hold_account_id h) (hold_pool_key h)
        \<and> (\<exists>p \<in> set (ad_proofs db). proof_id p = hold_source_proof_id h \<and> proof_account_id p = hold_account_id h
             \<and> proof_project_id p = hold_project_id h \<and> proof_deployment_id p = hold_deployment_id h)
        \<and> deployment_of db (hold_account_id h) (hold_project_id h) (hold_deployment_id h) \<noteq> None
        \<and> (hold_reservation_id h = None \<or> hold_reservation_epoch h = None
           \<or> (\<exists>r \<in> set (ad_reservations db). res_account_id r = hold_account_id h
                \<and> res_project_id r = hold_project_id h \<and> res_pool_key r = hold_pool_key h
                \<and> Some (res_id r) = hold_reservation_id h \<and> Some (res_epoch r) = hold_reservation_epoch h))
        \<and> holds_index_ok (ad_holds db @ [h])
      then Some (db\<lparr>ad_holds := ad_holds db @ [h]\<rparr>) else None)"

definition update_holds ::
  "(hold_row \<Rightarrow> bool) \<Rightarrow> (hold_row \<Rightarrow> hold_row) \<Rightarrow> 'v admission_db \<Rightarrow> 'v admission_db option" where
  "update_holds p f db =
     (let holds = map (\<lambda>h. if p h then f h else h) (ad_holds db)
      in if (\<forall>h \<in> set (ad_holds db). p h \<longrightarrow> hold_check (f h)) \<and> holds_index_ok holds
         then Some (db\<lparr>ad_holds := holds\<rparr>) else None)"

definition insert_reservation :: "reservation_row \<Rightarrow> 'v admission_db \<Rightarrow> 'v admission_db option" where
  "insert_reservation r db =
     (if reservation_check r
        \<and> (\<forall>q \<in> set (ad_reservations db). res_id q \<noteq> res_id r \<and> res_initial_hold_id q \<noteq> res_initial_hold_id r
             \<and> res_epoch q \<noteq> res_epoch r)
        \<and> entitlement_fk db (res_entitlement_id r) (res_account_id r) (res_pool_key r)
        \<and> (\<exists>h \<in> set (ad_holds db). hold_id h = res_initial_hold_id r \<and> hold_account_id h = res_account_id r
             \<and> hold_project_id h = res_project_id r \<and> hold_deployment_id h = res_first_deployment_id r)
        \<and> (\<exists>p \<in> set (g_projects (ad_graph db)). prow_account_id p = res_account_id r \<and> prow_id p = res_project_id r)
        \<and> deployment_of db (res_account_id r) (res_project_id r) (res_first_deployment_id r) \<noteq> None
        \<and> reservations_index_ok (ad_reservations db @ [r])
      then Some (db\<lparr>ad_reservations := ad_reservations db @ [r]\<rparr>) else None)"

definition update_reservations ::
  "(reservation_row \<Rightarrow> bool) \<Rightarrow> (reservation_row \<Rightarrow> reservation_row) \<Rightarrow> 'v admission_db \<Rightarrow> 'v admission_db option" where
  "update_reservations p f db =
     (let rs = map (\<lambda>r. if p r then f r else r) (ad_reservations db)
      in if (\<forall>r \<in> set (ad_reservations db). p r \<longrightarrow> reservation_check (f r)) \<and> reservations_index_ok rs
         then Some (db\<lparr>ad_reservations := rs\<rparr>) else None)"

definition insert_observation :: "observation_row \<Rightarrow> 'v admission_db \<Rightarrow> 'v admission_db option" where
  "insert_observation b db =
     (if observation_check b \<and> obs_id b \<notin> obs_id ` set (ad_observations db)
        \<and> (\<exists>r \<in> set (ad_reservations db). res_account_id r = obs_account_id b \<and> res_project_id r = obs_project_id b
             \<and> res_id r = obs_reservation_id b \<and> res_epoch r = obs_reservation_epoch b)
        \<and> deployment_of db (obs_account_id b) (obs_project_id b) (obs_deployment_id b) \<noteq> None
        \<and> (obs_rollout_hold_id b = None
           \<or> (\<exists>h \<in> set (ad_holds db). Some (hold_id h) = obs_rollout_hold_id b
                \<and> hold_account_id h = obs_account_id b \<and> hold_project_id h = obs_project_id b
                \<and> hold_deployment_id h = obs_deployment_id b
                \<and> hold_reservation_id h = Some (obs_reservation_id b)
                \<and> hold_reservation_epoch h = Some (obs_reservation_epoch b)))
      then Some (db\<lparr>ad_observations := ad_observations db @ [b]\<rparr>) else None)"

definition insert_usage :: "usage_row \<Rightarrow> 'v admission_db \<Rightarrow> 'v admission_db option" where
  "insert_usage u db =
     (if usage_check u \<and> use_id u \<notin> use_id ` set (ad_usage db)
        \<and> use_account_id u \<in> set (g_accounts (ad_graph db))
        \<and> (\<exists>e \<in> set (ad_entitlements db). ent_id e = use_entitlement_id u \<and> ent_account_id e = use_account_id u)
        \<and> deployment_of db (use_account_id u) (use_project_id u) (use_deployment_id u) \<noteq> None
        \<and> (case use_debit_event_id u of None \<Rightarrow> True | Some d \<Rightarrow> d \<in> use_id ` set (ad_usage db) \<or> d = use_id u)
        \<and> (\<forall>w \<in> set (ad_usage db).
             (use_kind w = ''debit'' \<and> use_kind u = ''debit'' \<longrightarrow>
                (use_entitlement_id w, use_attempt_id w) \<noteq> (use_entitlement_id u, use_attempt_id u))
             \<and> (use_kind w = ''platform_fault_credit'' \<and> use_kind u = ''platform_fault_credit'' \<longrightarrow>
                use_debit_event_id w \<noteq> use_debit_event_id u))
      then Some (db\<lparr>ad_usage := ad_usage db @ [u]\<rparr>) else None)"

text \<open>\<open>INSERT ... ON CONFLICT (hold_id) DO NOTHING\<close> of one row.\<close>

definition insert_refund :: "refund_row \<Rightarrow> 'v admission_db \<Rightarrow> 'v admission_db option" where
  "insert_refund f db =
     (if refund_hold_id f \<in> refund_hold_id ` set (ad_refunds db) then Some db
      else if refund_id f \<notin> refund_id ` set (ad_refunds db)
        \<and> refund_hold_id f \<in> hold_id ` set (ad_holds db)
        \<and> deployment_of db (refund_account_id f) (refund_project_id f) (refund_deployment_id f) \<noteq> None
      then Some (db\<lparr>ad_refunds := ad_refunds db @ [f]\<rparr>) else None)"

definition insert_receipt :: "'v receipt_row \<Rightarrow> 'v admission_db \<Rightarrow> 'v admission_db option" where
  "insert_receipt r db =
     (if receipt_event_id r \<notin> receipt_event_id ` set (ad_receipts db) \<and> length (receipt_request_hash r) = 32
        \<and> receipt_kind r \<in> {''entitlement'', ''capacity'', ''source_proof'', ''resource_observation'',
             ''build_debit'', ''platform_fault_credit''}
      then Some (db\<lparr>ad_receipts := ad_receipts db @ [r]\<rparr>) else None)"

definition update_projects ::
  "uuid \<Rightarrow> uuid \<Rightarrow> (project_row \<Rightarrow> project_row) \<Rightarrow> 'v admission_db \<Rightarrow> 'v admission_db option" where
  "update_projects account project f db =
     (let p = (\<lambda>row. prow_account_id row = account \<and> prow_id row = project); g = ad_graph db
      in if \<forall>row \<in> set (g_projects g). p row \<longrightarrow> project_check (f row)
         then Some (db\<lparr>ad_graph := g\<lparr>g_projects := map (\<lambda>row. if p row then f row else row) (g_projects g)\<rparr>\<rparr>)
         else None)"

text \<open>The lifecycles written here never become \<open>admission_required\<close>, so no index can be violated.\<close>

definition set_lifecycle ::
  "uuid \<Rightarrow> uuid \<Rightarrow> uuid \<Rightarrow> string set \<Rightarrow> string \<Rightarrow> 'v admission_db \<Rightarrow> 'v admission_db" where
  "set_lifecycle account project deployment from lifecycle db =
     (let g = ad_graph db
      in db\<lparr>ad_graph := g\<lparr>g_deployments :=
            map (\<lambda>d. if drow_account_id d = account \<and> drow_project_id d = project \<and> drow_id d = deployment
                        \<and> drow_lifecycle d \<in> from
                     then d\<lparr>drow_lifecycle := lifecycle\<rparr> else d) (g_deployments g)\<rparr>\<rparr>)"

definition insert_hosting_event :: "hosting_event_row \<Rightarrow> 'v admission_db \<Rightarrow> 'v admission_db option" where
  "insert_hosting_event e db =
     (let g = ad_graph db
      in if hse_id e \<notin> hse_id ` set (g_hosting_events g) \<and> octets_between 1 500 (hse_reason e)
           \<and> hse_state e \<in> {''admission_required'', ''reserved'', ''failed_no_resources'',
                ''failed_resources_retained'', ''rollback_requested'', ''removal_pending'', ''removed''}
           \<and> hse_source e \<in> {''owner_intent'', ''trusted_observation''}
           \<and> (\<exists>p \<in> set (g_projects g). prow_account_id p = hse_account_id e \<and> prow_id p = hse_project_id e)
           \<and> (case hse_deployment_id e of
                None \<Rightarrow> True
              | Some d \<Rightarrow> deployment_of db (hse_account_id e) (hse_project_id e) d \<noteq> None)
         then Some (db\<lparr>ad_graph := g\<lparr>g_hosting_events := g_hosting_events g @ [e]\<rparr>\<rparr>) else None)"

definition insert_admission_audit :: "audit_row \<Rightarrow> 'v admission_db \<Rightarrow> 'v admission_db option" where
  "insert_admission_audit e db =
     (if audit_check e \<and> audit_row_id e \<notin> audit_row_id ` set (ad_audit db)
      then Some (db\<lparr>ad_audit := ad_audit db @ [e]\<rparr>) else None)"

end
