(* ===== verification/Control_Admission.thy ===== *)
theory Control_Admission
  imports Admission_Store Control_Jobs
begin

text \<open>
  Hosting admission: \<^verbatim>\<open>crates/control/src/admission.rs\<close>.  An owner first takes a capacity hold for a
  deployment whose source has been proved and then turns it into a slot reservation (first
  deployment) or into rollout headroom (later ones).  Trusted fixtures set the limits, record source
  proofs, observe what became of the resources and meter build seconds.

  \<open>env_now env 0\<close> is the transaction's timestamp and \<open>env_now env n\<close> the n-th reading of the
  clock; \<open>env_fresh env n\<close> are the generated identifiers, those from 10 on for the refund intents
  of expired holds.  The encoders and the UUID reader and printer are the fields of
  \<open>admission_ext\<close>.  The extractors for \<open>Authenticated\<close> and \<open>WorkerAuth\<close> run before a handler.
\<close>

section \<open>Requests and responses\<close>

record hold_record =
  hr_id :: uuid
  hr_kind :: string
  hr_state :: string
  hr_project_id :: uuid
  hr_deployment_id :: uuid
  hr_source_proof_id :: uuid
  hr_expires_at :: timestamp

record reservation_record =
  rvr_id :: uuid
  rvr_project_id :: uuid
  rvr_first_deployment_id :: uuid
  rvr_state :: string
  rvr_reservation_epoch :: uuid
  rvr_retention_reason :: "string option"

record admission_response =
  ar_hold :: hold_record
  ar_reservation :: "reservation_record option"
  ar_admitted_for_later_execution :: bool
  ar_execution_enqueued :: bool

record entitlement_totals =
  es_source :: string
  es_hosted_slot_limit :: int
  es_hosted_slots_used :: int
  es_active_initial_holds :: int
  es_build_seconds_limit :: int
  es_build_seconds_debited :: int
  es_build_seconds_credited :: int
  es_build_seconds_remaining :: int
  es_period_starts_at :: timestamp
  es_period_ends_at :: timestamp

record create_hold_request =
  chr_source_proof_id :: uuid
  chr_ttl_seconds :: int

record admit_request =
  adr_capacity_hold_id :: uuid

record capacity_fixture_request =
  cfr_event_id :: uuid
  cfr_pool_key :: string
  cfr_profile :: string
  cfr_hosted_slot_limit :: int
  cfr_rollout_headroom_limit :: int

record capacity_fixture_response =
  cfs_pool_key :: string
  cfs_profile :: string
  cfs_hosted_slot_limit :: int
  cfs_rollout_headroom_limit :: int
  cfs_revision :: int

record entitlement_fixture_request =
  efr_event_id :: uuid
  efr_account_id :: uuid
  efr_pool_key :: string
  efr_hosted_slot_limit :: int
  efr_build_seconds_limit :: int
  efr_period_starts_at :: timestamp
  efr_period_ends_at :: timestamp
  efr_state :: string

record entitlement_fixture_response =
  efs_id :: uuid
  efs_account_id :: uuid
  efs_pool_key :: string
  efs_source :: string
  efs_hosted_slot_limit :: int
  efs_build_seconds_limit :: int
  efs_period_starts_at :: timestamp
  efs_period_ends_at :: timestamp
  efs_state :: string
  efs_revision :: int

record source_proof_request =
  spr_event_id :: uuid
  spr_account_id :: uuid
  spr_project_id :: uuid
  spr_deployment_id :: uuid
  spr_configuration_revision_id :: uuid
  spr_source_commit :: string
  spr_inventory_revision :: int
  spr_expires_at :: timestamp

record source_proof_response =
  sps_id :: uuid
  sps_account_id :: uuid
  sps_project_id :: uuid
  sps_deployment_id :: uuid
  sps_configuration_revision_id :: uuid
  sps_source_commit :: string
  sps_inventory_revision :: int
  sps_source :: string
  sps_state :: string
  sps_expires_at :: timestamp

record resource_observation_request =
  ror_event_id :: uuid
  ror_account_id :: uuid
  ror_project_id :: uuid
  ror_deployment_id :: uuid
  ror_reservation_id :: uuid
  ror_reservation_epoch :: uuid
  ror_outcome :: string
  ror_resource_inventory :: string
  ror_proof_ref :: string
  ror_rollout_hold_id :: "uuid option"

record resource_observation_response =
  ros_id :: uuid
  ros_outcome :: string
  ros_reservation :: reservation_record
  ros_released_rollout_hold_id :: "uuid option"

record build_usage_request =
  bur_event_id :: uuid
  bur_account_id :: uuid
  bur_project_id :: uuid
  bur_deployment_id :: uuid
  bur_attempt_id :: uuid
  bur_kind :: string
  bur_seconds :: int
  bur_debit_event_id :: "uuid option"
  bur_platform_fault_ref :: "string option"

record build_usage_response =
  bus_id :: uuid
  bus_kind :: string
  bus_attempt_id :: uuid
  bus_seconds :: int
  bus_debit_event_id :: "uuid option"
  bus_build_seconds_remaining :: int
  bus_execution_enqueued :: bool

record 'v admission_ext =
  ax_parse_uuid :: "string \<Rightarrow> uuid option"
  ax_show_uuid :: "uuid \<Rightarrow> string"
  ax_sha256 :: "string \<Rightarrow> string"
  ax_hold_bytes :: "create_hold_request \<Rightarrow> string option"
  ax_admit_bytes :: "admit_request \<Rightarrow> string option"
  ax_capacity_bytes :: "capacity_fixture_request \<Rightarrow> string option"
  ax_entitlement_bytes :: "entitlement_fixture_request \<Rightarrow> string option"
  ax_proof_bytes :: "source_proof_request \<Rightarrow> string option"
  ax_observation_bytes :: "resource_observation_request \<Rightarrow> string option"
  ax_usage_bytes :: "build_usage_request \<Rightarrow> string option"
  ax_admission_to_value :: "admission_response \<Rightarrow> 'v option"
  ax_admission_from_value :: "'v \<Rightarrow> admission_response option"
  ax_capacity_to_value :: "capacity_fixture_response \<Rightarrow> 'v option"
  ax_capacity_from_value :: "'v \<Rightarrow> capacity_fixture_response option"
  ax_entitlement_to_value :: "entitlement_fixture_response \<Rightarrow> 'v option"
  ax_entitlement_from_value :: "'v \<Rightarrow> entitlement_fixture_response option"
  ax_proof_to_value :: "source_proof_response \<Rightarrow> 'v option"
  ax_proof_from_value :: "'v \<Rightarrow> source_proof_response option"
  ax_observation_to_value :: "resource_observation_response \<Rightarrow> 'v option"
  ax_observation_from_value :: "'v \<Rightarrow> resource_observation_response option"
  ax_usage_to_value :: "build_usage_response \<Rightarrow> 'v option"
  ax_usage_from_value :: "'v \<Rightarrow> build_usage_response option"

section \<open>What is in use\<close>

definition count_rows :: "('r \<Rightarrow> bool) \<Rightarrow> 'r list \<Rightarrow> int" where
  "count_rows p rows = int (length (filter p rows))"

definition active_initial :: "hold_row \<Rightarrow> bool" where
  "active_initial h \<longleftrightarrow> hold_kind h = ''initial'' \<and> hold_state h = ''active''"

definition account_slot_use :: "uuid \<Rightarrow> 'v admission_db \<Rightarrow> int" where
  "account_slot_use account db =
     count_rows (\<lambda>r. res_account_id r = account \<and> unreleased r) (ad_reservations db)
     + count_rows (\<lambda>h. hold_account_id h = account \<and> active_initial h) (ad_holds db)"

definition pool_slot_use :: "string \<Rightarrow> 'v admission_db \<Rightarrow> int" where
  "pool_slot_use key db =
     count_rows (\<lambda>r. res_pool_key r = key \<and> unreleased r) (ad_reservations db)
     + count_rows (\<lambda>h. hold_pool_key h = key \<and> active_initial h) (ad_holds db)"

definition rollout_in_use :: "hold_row \<Rightarrow> bool" where
  "rollout_in_use h \<longleftrightarrow> hold_kind h = ''rollout'' \<and> hold_state h \<in> {''active'', ''consumed''}"

definition pool_rollout_use :: "string \<Rightarrow> 'v admission_db \<Rightarrow> int" where
  "pool_rollout_use key db = count_rows (\<lambda>h. hold_pool_key h = key \<and> rollout_in_use h) (ad_holds db)"

definition usage_total :: "string \<Rightarrow> uuid \<Rightarrow> 'v admission_db \<Rightarrow> int" where
  "usage_total kind account db =
     sum_list (map use_seconds (filter (\<lambda>u. use_account_id u = account \<and> use_kind u = kind) (ad_usage db)))"

definition usage_totals :: "uuid \<Rightarrow> 'v admission_db \<Rightarrow> int \<times> int" where
  "usage_totals account db =
     (usage_total ''debit'' account db, usage_total ''platform_fault_credit'' account db)"

section \<open>Guards\<close>

definition lock_entitlement_and_pool :: "uuid \<Rightarrow> 'v admission_db \<Rightarrow> api_error + entitlement_row" where
  "lock_entitlement_and_pool account db =
     (case find (\<lambda>e. ent_account_id e = account) (ad_entitlements db) of
        None \<Rightarrow> Inl (conflict ''entitlement_unavailable'' ''an active synthetic entitlement is required'')
      | Some found \<Rightarrow>
          if ent_pool_key found \<notin> pool_key ` set (ad_pools db)
          then Inl (conflict ''entitlement_unavailable''
                      ''the synthetic entitlement capacity pool is unavailable'')
          else ok_or (conflict ''entitlement_unavailable'' ''an active synthetic entitlement is required'')
                 (find (\<lambda>e. ent_account_id e = account \<and> ent_pool_key e = ent_pool_key found)
                    (ad_entitlements db)))"

definition ensure_entitlement_active :: "timestamp \<Rightarrow> entitlement_row \<Rightarrow> api_error + unit" where
  "ensure_entitlement_active now row =
     ensure (\<not> (ent_state row \<noteq> ''active'' \<or> ent_period_starts_at row > now \<or> ent_period_ends_at row \<le> now))
       (conflict ''entitlement_unavailable'' ''an active synthetic entitlement is required'')"

definition ensure_build_allowance :: "uuid \<Rightarrow> entitlement_row \<Rightarrow> 'v admission_db \<Rightarrow> api_error + unit" where
  "ensure_build_allowance account entitlement db =
     (let (debited, credited) = usage_totals account db
      in ensure (\<not> debited - credited \<ge> ent_build_seconds_limit entitlement)
           (conflict ''build_allowance_exhausted'' ''the synthetic build allowance is exhausted''))"

definition lock_project_revision :: "uuid \<Rightarrow> uuid \<Rightarrow> int \<Rightarrow> 'v admission_db \<Rightarrow> api_error + unit" where
  "lock_project_revision account project expected db =
     (case find (\<lambda>p. prow_account_id p = account \<and> prow_id p = project) (g_projects (ad_graph db)) of
        None \<Rightarrow> Inl not_found
      | Some p \<Rightarrow> ensure (prow_revision p = expected) stale_revision)"

definition not_authorized :: "string \<Rightarrow> api_error" where
  "not_authorized message = conflict ''github_source_not_authorized'' message"

definition ensure_binding :: "timestamp \<Rightarrow> uuid \<Rightarrow> uuid \<Rightarrow> uuid \<Rightarrow> string \<Rightarrow> graph_tables \<Rightarrow> api_error + unit" where
  "ensure_binding now account project configuration commit g =
     also_ensure
       (ensure (\<exists>a \<in> set (g_authorizations g). gau_account_id a = account \<and> gau_status a = ''active''
                  \<and> (case gau_token_expires_at a of None \<Rightarrow> True | Some t \<Rightarrow> t > now))
          (not_authorized ''the project has binding history but its user authorization is unavailable''))
       (case find (\<lambda>b. bnd_account_id b = account \<and> bnd_project_id b = project \<and> bnd_status b = ''active'')
               (g_bindings g) of
          None \<Rightarrow> Inl (not_authorized ''the project has binding history but no active binding'')
        | Some b \<Rightarrow>
            also_ensure
              (ensure (\<exists>i \<in> set (g_installations g). gin_id i = bnd_installation_id b \<and> gin_status i = ''active'')
                 (not_authorized ''the project installation is not active''))
           (also_ensure
              (ensure (\<exists>c \<in> set (g_bindings g). bnd_id c = bnd_id b \<and> bnd_account_id c = account
                         \<and> bnd_project_id c = project \<and> bnd_repository_id c = bnd_repository_id b
                         \<and> bnd_installation_id c = bnd_installation_id b \<and> bnd_status c = ''active'')
                 (not_authorized ''the project binding is not active''))
              (ensure (\<exists>s \<in> set (g_source_revisions g). gsr_binding_id s = bnd_id b \<and> gsr_account_id s = account
                         \<and> gsr_project_id s = project \<and> gsr_repository_id s = bnd_repository_id b
                         \<and> gsr_source s = ''owner_resolve'' \<and> gsr_configuration_revision_id s = configuration
                         \<and> gsr_commit_sha s = commit)
                 (not_authorized ''the active binding has no exact owner-resolved source revision''))))"

definition ensure_source_context ::
  "timestamp \<Rightarrow> uuid \<Rightarrow> uuid \<Rightarrow> uuid \<Rightarrow> uuid \<Rightarrow> string \<Rightarrow> graph_tables \<Rightarrow> api_error + unit" where
  "ensure_source_context now account project deployment configuration commit g =
     also_ensure
       (ensure ((\<exists>p \<in> set (g_projects g). prow_account_id p = account \<and> prow_id p = project
                   \<and> prow_current_configuration p = Some configuration)
                \<or> (\<exists>li \<in> set (g_lifecycle_intents g). \<exists>d \<in> set (g_deployments g).
                     drow_account_id d = lin_account_id li \<and> drow_project_id d = lin_project_id li
                     \<and> Some (drow_id d) = lin_target_deployment_id li
                     \<and> lin_account_id li = account \<and> lin_project_id li = project \<and> lin_kind li = ''rollback''
                     \<and> lin_state li = ''requested'' \<and> lin_target_deployment_id li = Some deployment
                     \<and> drow_lifecycle d = ''healthy'' \<and> drow_configuration_revision_id d = configuration
                     \<and> drow_source_commit d = commit))
          (conflict ''admission_source_stale''
             ''the exact source and configuration are not current or an eligible rollback target''))
       (if \<exists>b \<in> set (g_bindings g). bnd_account_id b = account \<and> bnd_project_id b = project
        then ensure_binding now account project configuration commit g else Inr ())"

definition source_stale :: api_error where
  "source_stale = conflict ''admission_source_stale''
     ''the exact source and current configuration were not verified''"

definition validate_source_proof ::
  "timestamp \<Rightarrow> timestamp \<Rightarrow> uuid \<Rightarrow> uuid \<Rightarrow> uuid \<Rightarrow> uuid \<Rightarrow> 'v admission_db \<Rightarrow> api_error + unit" where
  "validate_source_proof now now' account project deployment pid db =
     (case find (\<lambda>p. proof_id p = pid \<and> proof_account_id p = account \<and> proof_project_id p = project
                  \<and> proof_deployment_id p = deployment) (ad_proofs db) of
        None \<Rightarrow> Inl source_stale
      | Some p \<Rightarrow>
          (case deployment_of db account project deployment of
             None \<Rightarrow> Inl not_found
           | Some d \<Rightarrow>
               also_ensure
                 (ensure (\<not> (proof_deployment_id p \<noteq> deployment
                             \<or> proof_configuration_revision_id p \<noteq> drow_configuration_revision_id d
                             \<or> proof_state p \<noteq> ''valid'' \<or> proof_expires_at p \<le> now)) source_stale)
                 (ensure_source_context now' account project deployment (proof_configuration_revision_id p)
                    (proof_source_commit p) (ad_graph db))))"

definition ensure_lifecycle_allows_hold :: "uuid \<Rightarrow> uuid \<Rightarrow> uuid \<Rightarrow> 'v admission_db \<Rightarrow> api_error + unit" where
  "ensure_lifecycle_allows_hold account project deployment db =
     (case deployment_of db account project deployment of
        None \<Rightarrow> Inl not_found
      | Some d \<Rightarrow>
          (case find (\<lambda>li. lin_account_id li = account \<and> lin_project_id li = project \<and> lin_state li = ''requested'')
                  (g_lifecycle_intents (ad_graph db)) of
             None \<Rightarrow>
               ensure (drow_lifecycle d = ''admission_required'')
                 (conflict ''deployment_not_admissible'' ''the deployment is not awaiting admission'')
           | Some li \<Rightarrow>
               ensure (lin_kind li = ''rollback'' \<and> lin_target_deployment_id li = Some deployment
                       \<and> drow_lifecycle d = ''healthy'')
                 (conflict ''lifecycle_intent_pending'' ''a conflicting project lifecycle intent is pending'')))"

definition ensure_capacity_available ::
  "uuid \<Rightarrow> entitlement_row \<Rightarrow> string \<Rightarrow> 'v admission_db \<Rightarrow> api_error + unit" where
  "ensure_capacity_available account entitlement kind db =
     (let key = ent_pool_key entitlement; pool = find (\<lambda>p. pool_key p = key) (ad_pools db)
      in if kind = ''initial''
         then also_ensure
                (ensure (\<not> account_slot_use account db \<ge> ent_hosted_slot_limit entitlement)
                   (conflict ''entitlement_capacity_exhausted''
                      ''the synthetic hosted-slot entitlement is exhausted''))
                (case pool of
                   None \<Rightarrow> Inl database_unavailable
                 | Some p \<Rightarrow>
                     ensure (\<not> pool_slot_use key db \<ge> pool_hosted_slot_limit p)
                       (conflict ''platform_capacity_exhausted''
                          ''the synthetic hosted capacity pool is exhausted''))
         else (case pool of
                 None \<Rightarrow> Inl database_unavailable
               | Some p \<Rightarrow>
                   ensure (\<not> pool_rollout_use key db \<ge> pool_rollout_headroom_limit p)
                     (conflict ''rollout_capacity_exhausted''
                        ''the synthetic rollout headroom is exhausted'')))"

section \<open>Expiring holds\<close>

definition expired_hold :: "timestamp \<Rightarrow> (hold_row \<Rightarrow> bool) \<Rightarrow> hold_row \<Rightarrow> bool" where
  "expired_hold now scope h \<longleftrightarrow>
     hold_state h = ''active'' \<and> hold_consumed_at h = None \<and> hold_expires_at h \<le> now \<and> scope h"

fun insert_refunds :: "tx_env \<Rightarrow> nat \<Rightarrow> hold_row list \<Rightarrow> 'v admission_db \<Rightarrow> 'v admission_db option" where
  "insert_refunds env n [] db = Some db"
| "insert_refunds env n (h # hs) db =
     (case insert_refund
             \<lparr>refund_id = env_fresh env n, refund_account_id = hold_account_id h,
              refund_project_id = hold_project_id h, refund_deployment_id = hold_deployment_id h,
              refund_hold_id = hold_id h, refund_kind = ''refund_required'', refund_state = ''pending'',
              refund_reason = ''hold_expired''\<rparr> db of
        None \<Rightarrow> None
      | Some db1 \<Rightarrow> insert_refunds env (Suc n) hs db1)"

definition expire_holds :: "tx_env \<Rightarrow> timestamp \<Rightarrow> (hold_row \<Rightarrow> bool) \<Rightarrow> 'v admission_db \<Rightarrow> 'v admission_db option" where
  "expire_holds env now scope db =
     (let expired = filter (expired_hold now scope) (ad_holds db)
      in case update_holds (expired_hold now scope)
                (\<lambda>h. h\<lparr>hold_state := ''expired'', hold_released_at := Some now\<rparr>) db of
           None \<Rightarrow> None
         | Some db1 \<Rightarrow> insert_refunds env 10 (filter (\<lambda>h. hold_kind h = ''initial'') expired) db1)"

definition expire_holds_for_scope ::
  "tx_env \<Rightarrow> timestamp \<Rightarrow> uuid \<Rightarrow> string \<Rightarrow> 'v admission_db \<Rightarrow> 'v admission_db option" where
  "expire_holds_for_scope env now account key =
     expire_holds env now (\<lambda>h. hold_account_id h = account \<or> hold_pool_key h = key)"

text \<open>One statement outside a transaction; the number of expired holds is the answer.\<close>

definition reconcile :: "tx_env \<Rightarrow> 'v admission_db \<Rightarrow> 'v admission_db \<times> (api_error + nat)" where
  "reconcile env db =
     (case expire_holds env (env_now env 1) (\<lambda>_. True) db of
        None \<Rightarrow> (db, Inl database_unavailable)
      | Some db' \<Rightarrow> (db', Inr (length (filter (expired_hold (env_now env 1) (\<lambda>_. True)) (ad_holds db)))))"

section \<open>Loading\<close>

definition load_hold :: "uuid \<Rightarrow> uuid \<Rightarrow> uuid \<Rightarrow> 'v admission_db \<Rightarrow> api_error + hold_record" where
  "load_hold account project hid db =
     (case find (\<lambda>h. hold_id h = hid \<and> hold_account_id h = account \<and> hold_project_id h = project) (ad_holds db) of
        None \<Rightarrow> Inl not_found
      | Some h \<Rightarrow> Inr
          \<lparr>hr_id = hold_id h, hr_kind = hold_kind h, hr_state = hold_state h, hr_project_id = hold_project_id h,
           hr_deployment_id = hold_deployment_id h, hr_source_proof_id = hold_source_proof_id h,
           hr_expires_at = hold_expires_at h\<rparr>)"

definition load_reservation :: "uuid \<Rightarrow> uuid \<Rightarrow> uuid \<Rightarrow> 'v admission_db \<Rightarrow> api_error + reservation_record" where
  "load_reservation account project rid db =
     (case find (\<lambda>r. res_id r = rid \<and> res_account_id r = account \<and> res_project_id r = project)
             (ad_reservations db) of
        None \<Rightarrow> Inl not_found
      | Some r \<Rightarrow> Inr
          \<lparr>rvr_id = res_id r, rvr_project_id = res_project_id r, rvr_first_deployment_id = res_first_deployment_id r,
           rvr_state = res_state r, rvr_reservation_epoch = res_epoch r,
           rvr_retention_reason = res_retention_reason r\<rparr>)"

definition load_active_reservation ::
  "uuid \<Rightarrow> uuid \<Rightarrow> 'v admission_db \<Rightarrow> api_error + reservation_record option" where
  "load_active_reservation account project db =
     (case find (\<lambda>r. res_account_id r = account \<and> res_project_id r = project \<and> unreleased r)
             (ad_reservations db) of
        None \<Rightarrow> Inr None
      | Some r \<Rightarrow> map_sum id Some (load_reservation account project (res_id r) db))"

definition refresh_admission_response ::
  "uuid \<Rightarrow> 'v admission_db \<Rightarrow> admission_response \<Rightarrow> api_error + admission_response" where
  "refresh_admission_response account db response =
     (case load_hold account (hr_project_id (ar_hold response)) (hr_id (ar_hold response)) db of
        Inl e \<Rightarrow> Inl e
      | Inr hold \<Rightarrow>
          (case ar_reservation response of
             None \<Rightarrow> Inr (response\<lparr>ar_hold := hold\<rparr>)
           | Some reservation \<Rightarrow>
               (case load_reservation account (rvr_project_id reservation) (rvr_id reservation) db of
                  Inl e \<Rightarrow> Inl e
                | Inr loaded \<Rightarrow> Inr (response\<lparr>ar_hold := hold, ar_reservation := Some loaded\<rparr>))))"

definition admission_audit ::
  "uuid \<Rightarrow> uuid \<Rightarrow> uuid \<Rightarrow> string \<Rightarrow> string \<Rightarrow> uuid option \<Rightarrow> string \<Rightarrow> 'v admission_db \<Rightarrow> 'v admission_db option" where
  "admission_audit event_id actor session event_type target_type target outcome =
     insert_admission_audit
       \<lparr>audit_row_id = event_id, audit_account_id = actor, audit_actor_account_id = Some actor,
        audit_session_id = Some session, audit_event_type = event_type,
        audit_target_type = target_type, audit_target_id = target, audit_outcome = outcome,
        audit_worker = None\<rparr>"

definition store_admission ::
  "'v admission_ext \<Rightarrow> uuid \<Rightarrow> string \<Rightarrow> string \<Rightarrow> string \<Rightarrow> int \<Rightarrow> admission_response \<Rightarrow> 'v admission_db
     \<Rightarrow> api_error + 'v admission_db" where
  "store_admission ext account operation key hash status response db =
     (case store_replay (ax_admission_to_value ext) (ad_idempotency db) account operation key hash status response of
        Inl e \<Rightarrow> Inl e
      | Inr records \<Rightarrow> Inr (db\<lparr>ad_idempotency := records\<rparr>))"

definition admission_account :: "'v admission_ext \<Rightarrow> authenticated \<Rightarrow> api_error + uuid" where
  "admission_account ext auth = ok_or internal (ax_parse_uuid ext (auth_account_id auth))"

section \<open>Holding capacity\<close>

definition hold_kind_for :: "reservation_record option \<Rightarrow> string" where
  "hold_kind_for active = (if active \<noteq> None then ''rollout'' else ''initial'')"

definition new_hold ::
  "tx_env \<Rightarrow> uuid \<Rightarrow> uuid \<Rightarrow> uuid \<Rightarrow> entitlement_row \<Rightarrow> reservation_record option \<Rightarrow> create_hold_request \<Rightarrow> hold_row" where
  "new_hold env account project deployment entitlement active request =
     \<lparr>hold_id = env_fresh env 0, hold_account_id = account, hold_project_id = project,
      hold_deployment_id = deployment, hold_source_proof_id = chr_source_proof_id request,
      hold_entitlement_id = ent_id entitlement, hold_pool_key = ent_pool_key entitlement,
      hold_reservation_id = map_option rvr_id active,
      hold_reservation_epoch = map_option rvr_reservation_epoch active,
      hold_kind = hold_kind_for active, hold_state = ''active'',
      hold_expires_at = env_now env 5 + chr_ttl_seconds request * second,
      hold_consumed_at = None, hold_released_at = None, hold_created_at = env_now env 0\<rparr>"

text \<open>The checks both owner endpoints make after the entitlement and its pool are locked.\<close>

definition ensure_entitled ::
  "tx_env \<Rightarrow> uuid \<Rightarrow> uuid \<Rightarrow> int \<Rightarrow> entitlement_row \<Rightarrow> 'v admission_db \<Rightarrow> api_error + unit" where
  "ensure_entitled env account project expected entitlement db =
     also_ensure (ensure_entitlement_active (env_now env 2) entitlement)
    (also_ensure (ensure_build_allowance account entitlement db)
       (lock_project_revision account project expected db))"

definition ensure_deployable ::
  "tx_env \<Rightarrow> uuid \<Rightarrow> uuid \<Rightarrow> uuid \<Rightarrow> uuid \<Rightarrow> 'v admission_db \<Rightarrow> api_error + unit" where
  "ensure_deployable env account project deployment pid db =
     also_ensure (validate_source_proof (env_now env 3) (env_now env 4) account project deployment pid db)
       (ensure_lifecycle_allows_hold account project deployment db)"

definition create_new_hold ::
  "'v admission_ext \<Rightarrow> tx_env \<Rightarrow> authenticated \<Rightarrow> uuid \<Rightarrow> uuid \<Rightarrow> uuid \<Rightarrow> int \<Rightarrow> string \<Rightarrow> string \<Rightarrow> string
     \<Rightarrow> create_hold_request \<Rightarrow> 'v admission_db \<Rightarrow> ('v admission_db, nat \<times> admission_response) txn" where
  "create_new_hold ext env auth account project deployment expected operation key hash request db =
     attempt (lock_entitlement_and_pool account db) (\<lambda>entitlement.
     sql (expire_holds_for_scope env (env_now env 1) account (ent_pool_key entitlement) db) (\<lambda>db1.
     attempt (ensure_entitled env account project expected entitlement db1) (\<lambda>_.
     attempt (ensure_deployable env account project deployment (chr_source_proof_id request) db1) (\<lambda>_.
     attempt (load_active_reservation account project db1) (\<lambda>active.
     attempt (ensure (\<not> (\<exists>h \<in> set (ad_holds db1). hold_project_id h = project \<and> hold_deployment_id h = deployment
                            \<and> hold_kind h = hold_kind_for active \<and> hold_in_flight h))
                (conflict ''capacity_hold_exists''
                   ''an in-flight capacity hold already exists for this deployment'')) (\<lambda>_.
     attempt (ensure_capacity_available account entitlement (hold_kind_for active) db1) (\<lambda>_.
     sql (insert_hold (new_hold env account project deployment entitlement active request) db1) (\<lambda>db2.
     attempt (load_hold account project (env_fresh env 0) db2) (\<lambda>hold.
     let response = \<lparr>ar_hold = hold, ar_reservation = active, ar_admitted_for_later_execution = False,
                     ar_execution_enqueued = False\<rparr>
     in sql (admission_audit (env_fresh env 1) account (auth_session_id auth) ''admission.hold.create''
               ''capacity_hold'' (Some (env_fresh env 0)) ''succeeded'' db2) (\<lambda>db3.
        attempt (store_admission ext account operation key hash 201 response db3) (\<lambda>db4.
          Committed db4 (Inr (201, response)))))))))))))"

text \<open>What both owner endpoints do with an earlier response to the same key.\<close>

definition replay_admission ::
  "'v admission_ext \<Rightarrow> nat \<Rightarrow> uuid \<Rightarrow> string \<Rightarrow> string \<Rightarrow> string \<Rightarrow> 'v admission_db
     \<Rightarrow> ('v admission_db, nat \<times> admission_response) txn \<Rightarrow> ('v admission_db, nat \<times> admission_response) txn" where
  "replay_admission ext status account operation key hash db miss =
     attempt (replay (ax_admission_from_value ext) (ad_idempotency db) account operation key hash)
       (\<lambda>found. case found of
          Miss \<Rightarrow> miss
        | Match response \<Rightarrow>
            attempt (refresh_admission_response account db response) (\<lambda>refreshed.
              Committed db (Inr (status, refreshed)))
        | Changed \<Rightarrow> RolledBack payload_changed)"

definition create_hold_tx ::
  "'v admission_ext \<Rightarrow> tx_env \<Rightarrow> authenticated \<Rightarrow> string \<Rightarrow> string \<Rightarrow> header_map \<Rightarrow> create_hold_request
     \<Rightarrow> 'v admission_db \<Rightarrow> ('v admission_db, nat \<times> admission_response) txn" where
  "create_hold_tx ext env auth project_path deployment_path headers request db =
     (if \<not> (5 \<le> chr_ttl_seconds request \<and> chr_ttl_seconds request \<le> 300)
      then RolledBack (unprocessable ''invalid_hold_ttl'' ''ttl_seconds must be between 5 and 300'')
      else
        attempt (admission_account ext auth) (\<lambda>account.
        attempt (path_uuid (ax_parse_uuid ext) project_path) (\<lambda>project.
        attempt (path_uuid (ax_parse_uuid ext) deployment_path) (\<lambda>deployment.
        attempt (if_match_revision headers) (\<lambda>expected.
        attempt (idempotency_key headers) (\<lambda>key.
        attempt (request_hash (ax_hold_bytes ext) (ax_sha256 ext) request) (\<lambda>hash.
          let operation = ''admission.hold.create/'' @ ax_show_uuid ext project @ ''/'' @ ax_show_uuid ext deployment
          in replay_admission ext 201 account operation key hash db
               (create_new_hold ext env auth account project deployment expected operation key hash
                  request db))))))))"

definition create_hold ::
  "'v admission_ext \<Rightarrow> tx_env \<Rightarrow> authenticated \<Rightarrow> string \<Rightarrow> string \<Rightarrow> header_map \<Rightarrow> create_hold_request
     \<Rightarrow> 'v admission_db \<Rightarrow> 'v admission_db \<times> (api_error + nat \<times> admission_response)" where
  "create_hold ext env auth project_path deployment_path headers request db =
     run_txn release_observation_fk db
       (create_hold_tx ext env auth project_path deployment_path headers request db)"

section \<open>Admission\<close>

definition reserve_project :: "tx_env \<Rightarrow> project_row \<Rightarrow> project_row" where
  "reserve_project env p =
     p\<lparr>prow_hosted_slots := 1, prow_slot_state := ''reserved'', prow_revision := prow_revision p + 1,
       prow_updated_at := env_now env 0\<rparr>"

definition reserved_event :: "tx_env \<Rightarrow> nat \<Rightarrow> uuid \<Rightarrow> uuid \<Rightarrow> uuid \<Rightarrow> string \<Rightarrow> hosting_event_row" where
  "reserved_event env n account project deployment reason =
     \<lparr>hse_id = env_fresh env n, hse_account_id = account, hse_project_id = project,
      hse_deployment_id = Some deployment, hse_state = ''reserved'', hse_source = ''trusted_observation'',
      hse_reason = reason\<rparr>"

definition project_reserved :: "tx_env \<Rightarrow> uuid \<Rightarrow> uuid \<Rightarrow> uuid \<Rightarrow> 'v admission_db \<Rightarrow> 'v admission_db option" where
  "project_reserved env account project deployment db =
     Option.bind
       (update_projects account project (reserve_project env)
          (set_lifecycle account project deployment {''admission_required''} ''queued'' db))
       (insert_hosting_event (reserved_event env 2 account project deployment
          ''M2 synthetic entitlement and capacity admission; no execution enqueued''))"

definition awaiting_admission :: "uuid \<Rightarrow> uuid \<Rightarrow> uuid \<Rightarrow> deployment_row \<Rightarrow> bool" where
  "awaiting_admission account project deployment d \<longleftrightarrow>
     drow_account_id d = account \<and> drow_project_id d = project \<and> drow_id d = deployment
     \<and> drow_lifecycle d = ''admission_required''"

definition rollout_admitted ::
  "tx_env \<Rightarrow> uuid \<Rightarrow> uuid \<Rightarrow> uuid \<Rightarrow> 'v admission_db \<Rightarrow> api_error + 'v admission_db" where
  "rollout_admitted env account project deployment db =
     (if length (filter (awaiting_admission account project deployment) (g_deployments (ad_graph db))) \<noteq> 1
      then Inl internal
      else ok_or database_unavailable
        (Option.bind
          (update_projects account project
             (\<lambda>p. p\<lparr>prow_revision := prow_revision p + 1, prow_updated_at := env_now env 0\<rparr>)
             (set_lifecycle account project deployment {''admission_required''} ''queued'' db))
          (insert_hosting_event (reserved_event env 2 account project deployment
             ''rollout capacity admission consumed under the existing project slot; no execution enqueued''))))"

definition consume_hold :: "tx_env \<Rightarrow> uuid \<Rightarrow> 'v admission_db \<Rightarrow> 'v admission_db option" where
  "consume_hold env hid =
     update_holds (\<lambda>h. hold_id h = hid)
       (\<lambda>h. h\<lparr>hold_state := ''consumed'', hold_consumed_at := Some (env_now env 6)\<rparr>)"

definition new_reservation ::
  "tx_env \<Rightarrow> uuid \<Rightarrow> uuid \<Rightarrow> uuid \<Rightarrow> entitlement_row \<Rightarrow> uuid \<Rightarrow> reservation_row" where
  "new_reservation env account project deployment entitlement hid =
     \<lparr>res_id = env_fresh env 0, res_account_id = account, res_project_id = project,
      res_first_deployment_id = deployment, res_entitlement_id = ent_id entitlement,
      res_pool_key = ent_pool_key entitlement, res_initial_hold_id = hid, res_epoch = env_fresh env 1,
      res_state = ''reserved'', res_retention_reason = None, res_release_observation_id = None,
      res_created_at = env_now env 0, res_updated_at = env_now env 0, res_released_at = None\<rparr>"

definition admit_initial ::
  "tx_env \<Rightarrow> uuid \<Rightarrow> uuid \<Rightarrow> uuid \<Rightarrow> entitlement_row \<Rightarrow> uuid \<Rightarrow> 'v admission_db
     \<Rightarrow> ('v admission_db \<Rightarrow> reservation_record \<Rightarrow> nat \<Rightarrow> ('v admission_db, 'a) txn) \<Rightarrow> ('v admission_db, 'a) txn" where
  "admit_initial env account project deployment entitlement hid db k =
     sql (consume_hold env hid db) (\<lambda>db1.
     sql (insert_reservation (new_reservation env account project deployment entitlement hid) db1) (\<lambda>db2.
     sql (project_reserved env account project deployment db2) (\<lambda>db3.
     attempt (load_reservation account project (env_fresh env 0) db3) (\<lambda>reservation.
       k db3 reservation 201))))"

definition admit_rollout ::
  "tx_env \<Rightarrow> uuid \<Rightarrow> uuid \<Rightarrow> uuid \<Rightarrow> uuid \<Rightarrow> 'v admission_db
     \<Rightarrow> ('v admission_db \<Rightarrow> reservation_record \<Rightarrow> nat \<Rightarrow> ('v admission_db, 'a) txn) \<Rightarrow> ('v admission_db, 'a) txn" where
  "admit_rollout env account project deployment hid db k =
     sql (consume_hold env hid db) (\<lambda>db1.
     attempt (load_active_reservation account project db1) (\<lambda>active.
     attempt (ok_or (conflict ''slot_reservation_missing'' ''rollout admission requires an active project slot'')
                active) (\<lambda>reservation.
     attempt (rollout_admitted env account project deployment db1) (\<lambda>db2.
       k db2 reservation 200))))"

definition find_owned_hold :: "uuid \<Rightarrow> uuid \<Rightarrow> uuid \<Rightarrow> uuid \<Rightarrow> 'v admission_db \<Rightarrow> hold_row option" where
  "find_owned_hold account project deployment hid db =
     find (\<lambda>h. hold_id h = hid \<and> hold_account_id h = account \<and> hold_project_id h = project
             \<and> hold_deployment_id h = deployment) (ad_holds db)"

text \<open>The response of an admission, its audit event and its stored copy.\<close>

definition finish_admission ::
  "'v admission_ext \<Rightarrow> tx_env \<Rightarrow> authenticated \<Rightarrow> uuid \<Rightarrow> uuid \<Rightarrow> string \<Rightarrow> string \<Rightarrow> string \<Rightarrow> uuid
     \<Rightarrow> 'v admission_db \<Rightarrow> reservation_record \<Rightarrow> nat \<Rightarrow> ('v admission_db, nat \<times> admission_response) txn" where
  "finish_admission ext env auth account project operation key hash hid db reservation status =
     attempt (load_hold account project hid db) (\<lambda>hold.
     let response = \<lparr>ar_hold = hold, ar_reservation = Some reservation,
                     ar_admitted_for_later_execution = True, ar_execution_enqueued = False\<rparr>
     in sql (admission_audit (env_fresh env 3) account (auth_session_id auth) ''admission.consume''
               ''slot_reservation'' (Some (rvr_id reservation)) ''succeeded'' db) (\<lambda>db1.
        attempt (store_admission ext account operation key hash (int status) response db1) (\<lambda>db2.
          Committed db2 (Inr (status, response)))))"

definition admit_new ::
  "'v admission_ext \<Rightarrow> tx_env \<Rightarrow> authenticated \<Rightarrow> uuid \<Rightarrow> uuid \<Rightarrow> uuid \<Rightarrow> int \<Rightarrow> string \<Rightarrow> string \<Rightarrow> string
     \<Rightarrow> admit_request \<Rightarrow> 'v admission_db \<Rightarrow> ('v admission_db, nat \<times> admission_response) txn" where
  "admit_new ext env auth account project deployment expected operation key hash request db =
     (let hid = adr_capacity_hold_id request
      in attempt (lock_entitlement_and_pool account db) (\<lambda>entitlement.
         sql (expire_holds_for_scope env (env_now env 1) account (ent_pool_key entitlement) db) (\<lambda>db1.
         attempt (ensure_entitled env account project expected entitlement db1) (\<lambda>_.
         attempt (ok_or not_found (find_owned_hold account project deployment hid db1)) (\<lambda>h.
         if hold_state h \<noteq> ''active'' \<or> hold_expires_at h \<le> env_now env 5
         then Committed db1 (Inl (conflict ''capacity_hold_expired'' ''the capacity hold is no longer active''))
         else
           attempt (ensure_deployable env account project deployment (hold_source_proof_id h) db1) (\<lambda>_.
           let finish = finish_admission ext env auth account project operation key hash hid
           in if hold_kind h = ''initial''
              then admit_initial env account project deployment entitlement hid db1 finish
              else admit_rollout env account project deployment hid db1 finish))))))"

definition admit_tx ::
  "'v admission_ext \<Rightarrow> tx_env \<Rightarrow> authenticated \<Rightarrow> string \<Rightarrow> string \<Rightarrow> header_map \<Rightarrow> admit_request
     \<Rightarrow> 'v admission_db \<Rightarrow> ('v admission_db, nat \<times> admission_response) txn" where
  "admit_tx ext env auth project_path deployment_path headers request db =
     attempt (admission_account ext auth) (\<lambda>account.
     attempt (path_uuid (ax_parse_uuid ext) project_path) (\<lambda>project.
     attempt (path_uuid (ax_parse_uuid ext) deployment_path) (\<lambda>deployment.
     attempt (if_match_revision headers) (\<lambda>expected.
     attempt (idempotency_key headers) (\<lambda>key.
     attempt (request_hash (ax_admit_bytes ext) (ax_sha256 ext) request) (\<lambda>hash.
       let operation = ''admission.consume/'' @ ax_show_uuid ext project @ ''/'' @ ax_show_uuid ext deployment
       in replay_admission ext 200 account operation key hash db
            (admit_new ext env auth account project deployment expected operation key hash request db)))))))"

definition admit ::
  "'v admission_ext \<Rightarrow> tx_env \<Rightarrow> authenticated \<Rightarrow> string \<Rightarrow> string \<Rightarrow> header_map \<Rightarrow> admit_request
     \<Rightarrow> 'v admission_db \<Rightarrow> 'v admission_db \<times> (api_error + nat \<times> admission_response)" where
  "admit ext env auth project_path deployment_path headers request db =
     run_txn release_observation_fk db (admit_tx ext env auth project_path deployment_path headers request db)"

section \<open>Reading\<close>

text \<open>\<open>ORDER BY created_at DESC, id DESC LIMIT 1\<close>.\<close>

definition later_hold :: "hold_row \<Rightarrow> hold_row option \<Rightarrow> hold_row option" where
  "later_hold h best =
     (case best of
        None \<Rightarrow> Some h
      | Some b \<Rightarrow>
          if hold_created_at b < hold_created_at h
             \<or> hold_created_at b = hold_created_at h \<and> hold_id b < hold_id h
          then Some h else Some b)"

definition get_hold ::
  "'v admission_ext \<Rightarrow> authenticated \<Rightarrow> string \<Rightarrow> string \<Rightarrow> 'v admission_db
     \<Rightarrow> 'v admission_db \<times> (api_error + hold_record)" where
  "get_hold ext auth project_path deployment_path db =
     run_txn release_observation_fk db
       (attempt (admission_account ext auth) (\<lambda>account.
        attempt (path_uuid (ax_parse_uuid ext) project_path) (\<lambda>project.
        attempt (path_uuid (ax_parse_uuid ext) deployment_path) (\<lambda>deployment.
        attempt (ok_or not_found
                   (fold later_hold
                      (filter (\<lambda>h. hold_account_id h = account \<and> hold_project_id h = project
                                 \<and> hold_deployment_id h = deployment) (ad_holds db)) None)) (\<lambda>h.
        attempt (load_hold account project (hold_id h) db) (\<lambda>response.
          Committed db (Inr response)))))))"

definition get_reservation ::
  "'v admission_ext \<Rightarrow> authenticated \<Rightarrow> string \<Rightarrow> 'v admission_db
     \<Rightarrow> 'v admission_db \<times> (api_error + reservation_record)" where
  "get_reservation ext auth project_path db =
     run_txn release_observation_fk db
       (attempt (admission_account ext auth) (\<lambda>account.
        attempt (path_uuid (ax_parse_uuid ext) project_path) (\<lambda>project.
        attempt (load_active_reservation account project db) (\<lambda>active.
        attempt (ok_or not_found active) (\<lambda>response. Committed db (Inr response))))))"

definition entitlement_summary :: "uuid \<Rightarrow> 'v admission_db \<Rightarrow> api_error + entitlement_totals" where
  "entitlement_summary account db =
     (case find (\<lambda>e. ent_account_id e = account) (ad_entitlements db) of
        None \<Rightarrow> Inl (conflict ''entitlement_unavailable'' ''a synthetic entitlement has not been supplied'')
      | Some row \<Rightarrow>
          let (debited, credited) = usage_totals account db
          in Inr
            \<lparr>es_source = ent_source row, es_hosted_slot_limit = ent_hosted_slot_limit row,
             es_hosted_slots_used =
               count_rows (\<lambda>r. res_account_id r = account \<and> unreleased r) (ad_reservations db),
             es_active_initial_holds =
               count_rows (\<lambda>h. hold_account_id h = account \<and> active_initial h) (ad_holds db),
             es_build_seconds_limit = ent_build_seconds_limit row,
             es_build_seconds_debited = debited, es_build_seconds_credited = credited,
             es_build_seconds_remaining = max (ent_build_seconds_limit row - debited + credited) 0,
             es_period_starts_at = ent_period_starts_at row, es_period_ends_at = ent_period_ends_at row\<rparr>)"

definition get_entitlement ::
  "'v admission_ext \<Rightarrow> authenticated \<Rightarrow> 'v admission_db \<Rightarrow> 'v admission_db \<times> (api_error + entitlement_totals)" where
  "get_entitlement ext auth db =
     run_txn release_observation_fk db
       (attempt (admission_account ext auth) (\<lambda>account.
        attempt (entitlement_summary account db) (\<lambda>response. Committed db (Inr response))))"

end
