(* ===== verification/Admission_Fixtures.thy ===== *)
theory Admission_Fixtures
  imports Control_Admission
begin

text \<open>
  The trusted fixtures of \<^verbatim>\<open>crates/control/src/admission.rs\<close>: capacity pools, entitlements, source
  proofs, observations of resources and metered build seconds.  Every fixture has an event
  identifier under which its response is stored, so that a repeated event is answered from the
  receipt.
\<close>

section \<open>Receipts\<close>

definition find_receipt :: "uuid \<Rightarrow> 'v admission_db \<Rightarrow> 'v receipt_row option" where
  "find_receipt event db = find (\<lambda>r. receipt_event_id r = event) (ad_receipts db)"

text \<open>
  The event identifier is read back from the request's JSON value; the request hash is that of the
  request's bytes.
\<close>

definition fixture_replay ::
  "'v admission_ext \<Rightarrow> ('v \<Rightarrow> 'r option) \<Rightarrow> string \<Rightarrow> uuid \<Rightarrow> api_error + string \<Rightarrow> 'v admission_db
     \<Rightarrow> api_error + 'r option" where
  "fixture_replay ext from_value kind event hash db =
     (case ax_parse_uuid ext (ax_show_uuid ext event) of
        None \<Rightarrow> Inl internal
      | Some event_id \<Rightarrow>
          (case hash of
             Inl e \<Rightarrow> Inl e
           | Inr digest \<Rightarrow>
               (case find_receipt event_id db of
                  None \<Rightarrow> Inr None
                | Some r \<Rightarrow>
                    if receipt_kind r = kind \<and> receipt_request_hash r = digest
                    then (case from_value (receipt_response_body r) of
                            Some response \<Rightarrow> Inr (Some response)
                          | None \<Rightarrow> Inl internal)
                    else Inl (conflict ''fixture_event_payload_changed''
                           ''the fixture event id was reused with a different operation or payload''))))"

definition store_fixture ::
  "('r \<Rightarrow> 'v option) \<Rightarrow> uuid \<Rightarrow> string \<Rightarrow> api_error + string \<Rightarrow> 'r \<Rightarrow> 'v admission_db \<Rightarrow> api_error + 'v admission_db" where
  "store_fixture to_value event kind hash response db =
     (case hash of
        Inl e \<Rightarrow> Inl e
      | Inr digest \<Rightarrow>
          (case to_value response of
             None \<Rightarrow> Inl internal
           | Some body \<Rightarrow> ok_or database_unavailable
               (insert_receipt \<lparr>receipt_event_id = event, receipt_kind = kind, receipt_request_hash = digest,
                  receipt_response_body = body\<rparr> db)))"

text \<open>How every fixture begins and ends.\<close>

definition with_receipt ::
  "'v admission_ext \<Rightarrow> ('v \<Rightarrow> 'r option) \<Rightarrow> string \<Rightarrow> uuid \<Rightarrow> api_error + string \<Rightarrow> 'v admission_db
     \<Rightarrow> ('v admission_db, 'r) txn \<Rightarrow> ('v admission_db, 'r) txn" where
  "with_receipt ext from_value kind event hash db fresh =
     attempt (fixture_replay ext from_value kind event hash db) (\<lambda>found. case found of
        None \<Rightarrow> fresh
      | Some response \<Rightarrow> Committed db (Inr response))"

definition finish_fixture ::
  "('r \<Rightarrow> 'v option) \<Rightarrow> uuid \<Rightarrow> string \<Rightarrow> api_error + string \<Rightarrow> 'r \<Rightarrow> 'v admission_db \<Rightarrow> ('v admission_db, 'r) txn" where
  "finish_fixture to_value event kind hash response db =
     attempt (store_fixture to_value event kind hash response db) (\<lambda>db'. Committed db' (Inr response))"

section \<open>Limits\<close>

definition validate_label :: "string \<Rightarrow> string \<Rightarrow> api_error + unit" where
  "validate_label value code =
     ensure (\<not> (value = [] \<or> length value > 64 \<or> (\<exists>b \<in> set value. is_ascii_control b)))
       (unprocessable code ''the fixture label is invalid'')"

definition put_capacity_tx ::
  "'v admission_ext \<Rightarrow> tx_env \<Rightarrow> capacity_fixture_request \<Rightarrow> 'v admission_db
     \<Rightarrow> ('v admission_db, capacity_fixture_response) txn" where
  "put_capacity_tx ext env request db =
     attempt (validate_label (cfr_pool_key request) ''invalid_pool_key'') (\<lambda>_.
     attempt (validate_label (cfr_profile request) ''invalid_capacity_profile'') (\<lambda>_.
     attempt (ensure (\<not> (cfr_hosted_slot_limit request < 0 \<or> cfr_rollout_headroom_limit request < 0))
                (unprocessable ''invalid_capacity_limit'' ''capacity limits must be nonnegative'')) (\<lambda>_.
     let hash = request_hash (ax_capacity_bytes ext) (ax_sha256 ext) request; key = cfr_pool_key request
     in with_receipt ext (ax_capacity_from_value ext) ''capacity'' (cfr_event_id request) hash db
       (attempt (ensure (\<not> (pool_slot_use key db > cfr_hosted_slot_limit request
                            \<or> pool_rollout_use key db > cfr_rollout_headroom_limit request))
                  (conflict ''capacity_in_use'' ''capacity cannot be reduced below durable use'')) (\<lambda>_.
        attempt (ok_or database_unavailable
                   (upsert_pool \<lparr>pool_key = key, pool_profile = cfr_profile request,
                      pool_hosted_slot_limit = cfr_hosted_slot_limit request,
                      pool_rollout_headroom_limit = cfr_rollout_headroom_limit request, pool_revision = 1,
                      pool_updated_at = env_now env 0\<rparr> db)) (\<lambda>(db1, row).
          finish_fixture (ax_capacity_to_value ext) (cfr_event_id request) ''capacity'' hash
            \<lparr>cfs_pool_key = pool_key row, cfs_profile = pool_profile row,
             cfs_hosted_slot_limit = pool_hosted_slot_limit row,
             cfs_rollout_headroom_limit = pool_rollout_headroom_limit row, cfs_revision = pool_revision row\<rparr>
            db1))))))"

definition put_capacity_fixture ::
  "'v admission_ext \<Rightarrow> tx_env \<Rightarrow> capacity_fixture_request \<Rightarrow> 'v admission_db
     \<Rightarrow> 'v admission_db \<times> (api_error + capacity_fixture_response)" where
  "put_capacity_fixture ext env request db =
     run_txn release_observation_fk db (put_capacity_tx ext env request db)"

definition entitlement_replaced :: "entitlement_fixture_request \<Rightarrow> entitlement_row option \<Rightarrow> bool" where
  "entitlement_replaced request existing \<longleftrightarrow>
     (case existing of
        None \<Rightarrow> False
      | Some e \<Rightarrow> ent_pool_key e \<noteq> efr_pool_key request \<or> ent_period_starts_at e \<noteq> efr_period_starts_at request
                  \<or> ent_period_ends_at e \<noteq> efr_period_ends_at request)"

definition put_entitlement_tx ::
  "'v admission_ext \<Rightarrow> tx_env \<Rightarrow> entitlement_fixture_request \<Rightarrow> 'v admission_db
     \<Rightarrow> ('v admission_db, entitlement_fixture_response) txn" where
  "put_entitlement_tx ext env request db =
     attempt (ensure (\<not> (efr_hosted_slot_limit request < 0 \<or> efr_build_seconds_limit request < 0
                          \<or> efr_period_ends_at request \<le> efr_period_starts_at request
                          \<or> efr_state request \<notin> {''active'', ''expired'', ''revoked''}))
                (unprocessable ''invalid_entitlement_fixture'' ''the synthetic entitlement fixture is invalid'')) (\<lambda>_.
     let hash = request_hash (ax_entitlement_bytes ext) (ax_sha256 ext) request; account = efr_account_id request
     in with_receipt ext (ax_entitlement_from_value ext) ''entitlement'' (efr_event_id request) hash db
       (attempt (ensure (efr_pool_key request \<in> pool_key ` set (ad_pools db))
                   (conflict ''capacity_pool_missing'' ''the synthetic capacity pool does not exist'')) (\<lambda>_.
        let existing = find (\<lambda>e. ent_account_id e = account) (ad_entitlements db);
            (debited, credited) = usage_totals account db
        in attempt (ensure (\<not> (account_slot_use account db > efr_hosted_slot_limit request
                               \<or> debited - credited > efr_build_seconds_limit request))
                      (conflict ''entitlement_in_use'' ''entitlement cannot be reduced below durable use'')) (\<lambda>_.
           attempt (ensure (\<not> entitlement_replaced request existing)
                      (conflict ''entitlement_period_immutable''
                         ''the synthetic entitlement period and capacity pool cannot be replaced'')) (\<lambda>_.
           attempt (ok_or database_unavailable
                      (upsert_entitlement
                         \<lparr>ent_id = (case existing of Some e \<Rightarrow> ent_id e | None \<Rightarrow> env_fresh env 0),
                          ent_account_id = account, ent_pool_key = efr_pool_key request,
                          ent_source = ''synthetic_internal'', ent_hosted_slot_limit = efr_hosted_slot_limit request,
                          ent_build_seconds_limit = efr_build_seconds_limit request,
                          ent_period_starts_at = efr_period_starts_at request,
                          ent_period_ends_at = efr_period_ends_at request, ent_state = efr_state request,
                          ent_revision = 1, ent_updated_at = env_now env 0\<rparr> db)) (\<lambda>(db1, row).
             finish_fixture (ax_entitlement_to_value ext) (efr_event_id request) ''entitlement'' hash
               \<lparr>efs_id = ent_id row, efs_account_id = ent_account_id row, efs_pool_key = ent_pool_key row,
                efs_source = ent_source row, efs_hosted_slot_limit = ent_hosted_slot_limit row,
                efs_build_seconds_limit = ent_build_seconds_limit row,
                efs_period_starts_at = ent_period_starts_at row, efs_period_ends_at = ent_period_ends_at row,
                efs_state = ent_state row, efs_revision = ent_revision row\<rparr>
               db1))))))"

definition put_entitlement_fixture ::
  "'v admission_ext \<Rightarrow> tx_env \<Rightarrow> entitlement_fixture_request \<Rightarrow> 'v admission_db
     \<Rightarrow> 'v admission_db \<times> (api_error + entitlement_fixture_response)" where
  "put_entitlement_fixture ext env request db =
     run_txn release_observation_fk db (put_entitlement_tx ext env request db)"

section \<open>Source proofs\<close>

definition invalid_source_proof :: api_error where
  "invalid_source_proof = unprocessable ''invalid_source_proof''
     ''the source proof revision and expiry must be in the future''"

definition put_source_proof_tx ::
  "'v admission_ext \<Rightarrow> tx_env \<Rightarrow> source_proof_request \<Rightarrow> 'v admission_db
     \<Rightarrow> ('v admission_db, source_proof_response) txn" where
  "put_source_proof_tx ext env request db =
     (let account = spr_account_id request; project = spr_project_id request;
          deployment = spr_deployment_id request; configuration = spr_configuration_revision_id request;
          commit = spr_source_commit request;
          hash = request_hash (ax_proof_bytes ext) (ax_sha256 ext) request
      in attempt (ensure (\<not> spr_inventory_revision request \<le> 0) invalid_source_proof) (\<lambda>_.
         attempt (ensure (\<not> spr_expires_at request \<le> env_now env 1) invalid_source_proof) (\<lambda>_.
         with_receipt ext (ax_proof_from_value ext) ''source_proof'' (spr_event_id request) hash db
          (attempt (ensure (\<exists>p \<in> set (g_projects (ad_graph db)). prow_account_id p = account \<and> prow_id p = project)
                      not_found) (\<lambda>_.
           attempt (ensure (\<exists>d \<in> set (g_deployments (ad_graph db)). drow_account_id d = account
                             \<and> drow_project_id d = project \<and> drow_id d = deployment
                             \<and> drow_configuration_revision_id d = configuration \<and> drow_source_commit d = commit)
                      source_stale) (\<lambda>_.
           attempt (ensure_source_context (env_now env 2) account project deployment configuration commit
                      (ad_graph db)) (\<lambda>_.
           attempt (ensure (\<not> (\<exists>p \<in> set (ad_proofs db). proof_account_id p = account \<and> proof_project_id p = project
                                  \<and> proof_deployment_id p = deployment
                                  \<and> spr_inventory_revision request \<le> proof_inventory_revision p))
                      (conflict ''source_inventory_revision_stale''
                         ''the source inventory revision must advance monotonically'')) (\<lambda>_.
           sql (insert_proof
                  \<lparr>proof_id = env_fresh env 0, proof_account_id = account, proof_project_id = project,
                   proof_deployment_id = deployment, proof_configuration_revision_id = configuration,
                   proof_source_commit = commit, proof_inventory_revision = spr_inventory_revision request,
                   proof_source = ''synthetic_internal'', proof_state = ''valid'',
                   proof_expires_at = spr_expires_at request, proof_created_at = env_now env 0\<rparr>
                  (supersede_proofs deployment db)) (\<lambda>db1.
             finish_fixture (ax_proof_to_value ext) (spr_event_id request) ''source_proof'' hash
               \<lparr>sps_id = env_fresh env 0, sps_account_id = account, sps_project_id = project,
                sps_deployment_id = deployment, sps_configuration_revision_id = configuration,
                sps_source_commit = commit, sps_inventory_revision = spr_inventory_revision request,
                sps_source = ''synthetic_internal'', sps_state = ''valid'',
                sps_expires_at = spr_expires_at request\<rparr>
               db1)))))))))"

definition put_source_proof ::
  "'v admission_ext \<Rightarrow> tx_env \<Rightarrow> source_proof_request \<Rightarrow> 'v admission_db
     \<Rightarrow> 'v admission_db \<times> (api_error + source_proof_response)" where
  "put_source_proof ext env request db =
     run_txn release_observation_fk db (put_source_proof_tx ext env request db)"

section \<open>Observations\<close>

definition validate_observation :: "resource_observation_request \<Rightarrow> api_error + unit" where
  "validate_observation request =
     (let outcome = ror_outcome request; inventory = ror_resource_inventory request;
          valid = (if outcome = ''cleanup_confirmed'' then inventory = ''none''
                   else if outcome = ''resources_retained'' then inventory \<noteq> ''none''
                   else if outcome = ''deployment_healthy'' then inventory \<noteq> ''none''
                   else if outcome = ''rollout_released'' then ror_rollout_hold_id request \<noteq> None
                   else False)
      in ensure (\<not> (\<not> valid \<or> ror_proof_ref request = [] \<or> length (ror_proof_ref request) > 256))
           (unprocessable ''invalid_resource_observation'' ''the resource observation is invalid''))"

text \<open>The hold of a rollout observation, as the two statements select it.\<close>

definition rollout_hold_of ::
  "resource_observation_request \<Rightarrow> string \<Rightarrow> uuid \<Rightarrow> string set \<Rightarrow> hold_row \<Rightarrow> bool" where
  "rollout_hold_of request key hid states h \<longleftrightarrow>
     hold_id h = hid \<and> hold_account_id h = ror_account_id request \<and> hold_project_id h = ror_project_id request
     \<and> hold_deployment_id h = ror_deployment_id request \<and> hold_pool_key h = key
     \<and> hold_reservation_id h = Some (ror_reservation_id request)
     \<and> hold_reservation_epoch h = Some (ror_reservation_epoch request)
     \<and> hold_kind h = ''rollout'' \<and> hold_state h \<in> states"

definition observation_linked ::
  "resource_observation_request \<Rightarrow> reservation_row \<Rightarrow> 'v admission_db \<Rightarrow> api_error + unit" where
  "observation_linked request reservation db =
     (case ror_rollout_hold_id request of
        Some hid \<Rightarrow>
          ensure (\<exists>h \<in> set (ad_holds db).
                    rollout_hold_of request (res_pool_key reservation) hid {''consumed'', ''released''} h)
            (conflict ''observation_generation_mismatch''
               ''the rollout hold does not belong to this reservation generation and deployment'')
      | None \<Rightarrow>
          ensure (ror_deployment_id request = res_first_deployment_id reservation)
            (conflict ''observation_generation_mismatch''
               ''the deployment is not linked to this reservation generation''))"

definition retain_resources ::
  "tx_env \<Rightarrow> resource_observation_request \<Rightarrow> 'v admission_db \<Rightarrow> 'v admission_db option" where
  "retain_resources env request db =
     Option.bind
       (update_reservations (\<lambda>r. res_id r = ror_reservation_id request)
          (\<lambda>r. r\<lparr>res_state := ''resources_retained'', res_retention_reason := Some (ror_resource_inventory request),
                 res_updated_at := env_now env 0\<rparr>) db)
       (update_projects (ror_account_id request) (ror_project_id request)
          (\<lambda>p. p\<lparr>prow_hosted_slots := 1, prow_slot_state := ''resources_retained'',
                 prow_revision := prow_revision p + 1, prow_updated_at := env_now env 0\<rparr>))"

definition release_slot ::
  "tx_env \<Rightarrow> resource_observation_request \<Rightarrow> 'v admission_db \<Rightarrow> 'v admission_db option" where
  "release_slot env request db =
     map_option
       (set_lifecycle (ror_account_id request) (ror_project_id request) (ror_deployment_id request)
          {''admission_required'', ''queued''} ''failed_no_resources'')
       (Option.bind
         (update_reservations (\<lambda>r. res_id r = ror_reservation_id request)
            (\<lambda>r. r\<lparr>res_state := ''released'', res_retention_reason := None,
                   res_release_observation_id := Some (ror_event_id request),
                   res_released_at := Some (env_now env 1), res_updated_at := env_now env 0\<rparr>) db)
         (update_projects (ror_account_id request) (ror_project_id request)
            (\<lambda>p. p\<lparr>prow_hosted_slots := 0, prow_slot_state := ''released'',
                   prow_revision := prow_revision p + 1, prow_updated_at := env_now env 0\<rparr>)))"

definition apply_outcome ::
  "tx_env \<Rightarrow> resource_observation_request \<Rightarrow> reservation_row \<Rightarrow> 'v admission_db
     \<Rightarrow> api_error + 'v admission_db \<times> uuid option" where
  "apply_outcome env request reservation db =
     (let outcome = ror_outcome request
      in if outcome = ''resources_retained''
         then (if res_state reservation = ''released''
               then Inl (conflict ''slot_reservation_released'' ''a released slot cannot retain resources'')
               else map_sum id (\<lambda>db'. (db', None)) (ok_or database_unavailable (retain_resources env request db)))
         else if outcome = ''deployment_healthy''
         then (if res_state reservation = ''released''
               then Inl (conflict ''slot_reservation_released''
                           ''a released slot cannot receive a healthy deployment observation'')
               else Inr (set_lifecycle (ror_account_id request) (ror_project_id request)
                           (ror_deployment_id request) UNIV ''healthy'' db, None))
         else if outcome = ''cleanup_confirmed''
         then (if res_state reservation \<noteq> ''released''
               then map_sum id (\<lambda>db'. (db', None)) (ok_or database_unavailable (release_slot env request db))
               else Inr (db, None))
         else if outcome = ''rollout_released''
         then (case ror_rollout_hold_id request of
                 None \<Rightarrow> Inl internal
               | Some hid \<Rightarrow>
                   let p = rollout_hold_of request (res_pool_key reservation) hid {''consumed''}
                   in (case update_holds p
                              (\<lambda>h. h\<lparr>hold_state := ''released'', hold_released_at := Some (env_now env 1)\<rparr>) db of
                         None \<Rightarrow> Inl database_unavailable
                       | Some db' \<Rightarrow>
                           if length (filter p (ad_holds db)) \<noteq> 1
                           then Inl (conflict ''rollout_hold_not_active''
                                       ''the rollout hold is not active for this project'')
                           else Inr (db', Some hid)))
         else Inl internal)"

definition record_observation_tx ::
  "'v admission_ext \<Rightarrow> tx_env \<Rightarrow> resource_observation_request \<Rightarrow> 'v admission_db
     \<Rightarrow> ('v admission_db, resource_observation_response) txn" where
  "record_observation_tx ext env request db =
     (let account = ror_account_id request; project = ror_project_id request; rid = ror_reservation_id request;
          hash = request_hash (ax_observation_bytes ext) (ax_sha256 ext) request
      in attempt (validate_observation request) (\<lambda>_.
         with_receipt ext (ax_observation_from_value ext) ''resource_observation'' (ror_event_id request) hash db
          (attempt (ensure (\<exists>p \<in> set (g_projects (ad_graph db)). prow_account_id p = account \<and> prow_id p = project)
                      not_found) (\<lambda>_.
           attempt (ok_or not_found
                      (find (\<lambda>r. res_id r = rid \<and> res_account_id r = account \<and> res_project_id r = project)
                         (ad_reservations db))) (\<lambda>reservation.
           attempt (ensure (res_epoch reservation = ror_reservation_epoch request)
                      (conflict ''reservation_epoch_stale''
                         ''the observation does not apply to the current reservation epoch'')) (\<lambda>_.
           attempt (observation_linked request reservation db) (\<lambda>_.
           sql (insert_observation
                  \<lparr>obs_id = ror_event_id request, obs_account_id = account, obs_project_id = project,
                   obs_deployment_id = ror_deployment_id request, obs_reservation_id = rid,
                   obs_reservation_epoch = ror_reservation_epoch request,
                   obs_rollout_hold_id = ror_rollout_hold_id request, obs_outcome = ror_outcome request,
                   obs_resource_inventory = ror_resource_inventory request,
                   obs_proof_ref = ror_proof_ref request\<rparr> db) (\<lambda>db1.
           attempt (apply_outcome env request reservation db1) (\<lambda>(db2, released).
           attempt (load_reservation account project rid db2) (\<lambda>record.
             finish_fixture (ax_observation_to_value ext) (ror_event_id request) ''resource_observation'' hash
               \<lparr>ros_id = ror_event_id request, ros_outcome = ror_outcome request, ros_reservation = record,
                ros_released_rollout_hold_id = released\<rparr>
               db2))))))))))"

definition record_resource_observation ::
  "'v admission_ext \<Rightarrow> tx_env \<Rightarrow> resource_observation_request \<Rightarrow> 'v admission_db
     \<Rightarrow> 'v admission_db \<times> (api_error + resource_observation_response)" where
  "record_resource_observation ext env request db =
     run_txn release_observation_fk db (record_observation_tx ext env request db)"

section \<open>Build seconds\<close>

definition validate_build_usage :: "build_usage_request \<Rightarrow> api_error + unit" where
  "validate_build_usage request =
     ensure (bur_seconds request > 0
        \<and> (if bur_kind request = ''debit''
           then bur_debit_event_id request = None \<and> bur_platform_fault_ref request = None
           else if bur_kind request = ''platform_fault_credit''
           then bur_debit_event_id request \<noteq> None
                \<and> (case bur_platform_fault_ref request of
                     Some r \<Rightarrow> r \<noteq> [] \<and> length r \<le> 256 | None \<Rightarrow> False)
           else False))
       (unprocessable ''invalid_build_usage_event'' ''the synthetic build usage event is invalid'')"

definition usage_of_request :: "build_usage_request \<Rightarrow> entitlement_row \<Rightarrow> string \<Rightarrow> usage_row" where
  "usage_of_request request entitlement kind =
     \<lparr>use_id = bur_event_id request, use_account_id = bur_account_id request,
      use_project_id = bur_project_id request, use_deployment_id = bur_deployment_id request,
      use_entitlement_id = ent_id entitlement, use_attempt_id = bur_attempt_id request, use_kind = kind,
      use_seconds = bur_seconds request, use_debit_event_id = None, use_platform_fault_ref = None\<rparr>"

definition record_debit ::
  "build_usage_request \<Rightarrow> entitlement_row \<Rightarrow> 'v admission_db \<Rightarrow> api_error + 'v admission_db" where
  "record_debit request entitlement db =
     (if \<exists>u \<in> set (ad_usage db). use_entitlement_id u = ent_id entitlement
           \<and> use_attempt_id u = bur_attempt_id request \<and> use_kind u = ''debit''
      then Inl (conflict ''build_attempt_already_debited'' ''the synthetic build attempt already has a debit'')
      else let (debited, credited) = usage_totals (bur_account_id request) db
           in if debited - credited + bur_seconds request > ent_build_seconds_limit entitlement
              then Inl (conflict ''build_allowance_exhausted'' ''the synthetic build allowance is exhausted'')
              else ok_or database_unavailable (insert_usage (usage_of_request request entitlement ''debit'') db))"

definition record_credit ::
  "build_usage_request \<Rightarrow> entitlement_row \<Rightarrow> 'v admission_db \<Rightarrow> api_error + 'v admission_db" where
  "record_credit request entitlement db =
     (case bur_debit_event_id request of
        None \<Rightarrow> Inl internal
      | Some debit_id \<Rightarrow>
          (case find (\<lambda>u. use_id u = debit_id \<and> use_kind u = ''debit'') (ad_usage db) of
             None \<Rightarrow> Inl not_found
           | Some debit \<Rightarrow>
               if (use_account_id debit, use_project_id debit, use_deployment_id debit, use_attempt_id debit,
                   use_seconds debit)
                  \<noteq> (bur_account_id request, bur_project_id request, bur_deployment_id request,
                      bur_attempt_id request, bur_seconds request)
               then Inl (conflict ''platform_fault_credit_mismatch''
                           ''the platform-fault credit does not exactly match its debit'')
               else if \<exists>u \<in> set (ad_usage db). use_debit_event_id u = Some debit_id
               then Inl (conflict ''platform_fault_already_credited''
                           ''the build debit already has a platform-fault credit'')
               else ok_or database_unavailable
                      (insert_usage ((usage_of_request request entitlement ''platform_fault_credit'')
                         \<lparr>use_debit_event_id := Some debit_id,
                          use_platform_fault_ref := bur_platform_fault_ref request\<rparr>) db)))"

definition record_build_usage_tx ::
  "'v admission_ext \<Rightarrow> tx_env \<Rightarrow> build_usage_request \<Rightarrow> 'v admission_db
     \<Rightarrow> ('v admission_db, build_usage_response) txn" where
  "record_build_usage_tx ext env request db =
     (let account = bur_account_id request; event = bur_event_id request;
          kind = (if bur_kind request = ''debit'' then ''build_debit'' else ''platform_fault_credit'');
          hash = request_hash (ax_usage_bytes ext) (ax_sha256 ext) request
      in attempt (validate_build_usage request) (\<lambda>_.
         with_receipt ext (ax_usage_from_value ext) kind event hash db
          (attempt (lock_entitlement_and_pool account db) (\<lambda>entitlement.
           attempt (if bur_kind request = ''debit'' then ensure_entitlement_active (env_now env 1) entitlement
                    else Inr ()) (\<lambda>_.
           attempt (ensure (deployment_of db account (bur_project_id request) (bur_deployment_id request) \<noteq> None)
                      not_found) (\<lambda>_.
           attempt (if bur_kind request = ''debit'' then record_debit request entitlement db
                    else record_credit request entitlement db) (\<lambda>db1.
           let (debited, credited) = usage_totals account db1
           in finish_fixture (ax_usage_to_value ext) event kind hash
                \<lparr>bus_id = event, bus_kind = bur_kind request, bus_attempt_id = bur_attempt_id request,
                 bus_seconds = bur_seconds request, bus_debit_event_id = bur_debit_event_id request,
                 bus_build_seconds_remaining = ent_build_seconds_limit entitlement - debited + credited,
                 bus_execution_enqueued = False\<rparr>
                db1)))))))"

definition record_build_usage ::
  "'v admission_ext \<Rightarrow> tx_env \<Rightarrow> build_usage_request \<Rightarrow> 'v admission_db
     \<Rightarrow> 'v admission_db \<times> (api_error + build_usage_response)" where
  "record_build_usage ext env request db =
     run_txn release_observation_fk db (record_build_usage_tx ext env request db)"

end
