(* ===== verification/Capacity_Ledger.thy ===== *)
theory Capacity_Ledger
  imports Hostlet_Prelude
begin

text \<open>
  The specification of capacity: a ledger gives every resource a limit and an amount in use, and
  moves by changing a limit not below the use, by acquiring what is free, or by releasing.  The
  locale \<open>ledger_refinement\<close> is what an implementation owes: each of its steps is some moves of
  the ledger it stands for.
\<close>

datatype resource = AccountSlots uuid | PoolSlots string | PoolRollout string | BuildSeconds uuid

record ledger =
  lg_limit :: "resource \<Rightarrow> int"
  lg_used :: "resource \<Rightarrow> int"

inductive ledger_step :: "ledger \<Rightarrow> ledger \<Rightarrow> bool" where
  set_limit: "lg_used l r \<le> n \<Longrightarrow> ledger_step l (l\<lparr>lg_limit := (lg_limit l)(r := n)\<rparr>)"
| acquire: "\<forall>r. 0 \<le> amount r \<and> (amount r = 0 \<or> lg_used l r + amount r \<le> lg_limit l r)
     \<Longrightarrow> ledger_step l (l\<lparr>lg_used := \<lambda>r. lg_used l r + amount r\<rparr>)"
| release: "\<forall>r. 0 \<le> used r \<and> used r \<le> lg_used l r \<Longrightarrow> ledger_step l (l\<lparr>lg_used := used\<rparr>)"

definition ledger_ok :: "ledger \<Rightarrow> bool" where
  "ledger_ok l \<longleftrightarrow> (\<forall>r. 0 \<le> lg_used l r \<and> lg_used l r \<le> lg_limit l r)"

lemma ledger_step_ok: "ledger_step l l' \<Longrightarrow> ledger_ok l \<Longrightarrow> ledger_ok l'"
proof (induction rule: ledger_step.induct)
  case (acquire amount l)
  have "0 \<le> lg_used l r + amount r \<and> lg_used l r + amount r \<le> lg_limit l r" for r
    using acquire by (metis add_nonneg_nonneg add.right_neutral ledger_ok_def)
  then show ?case by (simp add: ledger_ok_def)
qed (auto simp: ledger_ok_def intro: order_trans)

lemma ledger_steps_ok: "ledger_step\<^sup>*\<^sup>* l l' \<Longrightarrow> ledger_ok l \<Longrightarrow> ledger_ok l'"
  by (induction rule: rtranclp_induct) (auto intro: ledger_step_ok)

locale ledger_refinement =
  fixes abs :: "'s \<Rightarrow> ledger"
    and inv :: "'s \<Rightarrow> bool"
    and step :: "'s \<Rightarrow> 's \<Rightarrow> bool"
  assumes refines: "step s s' \<Longrightarrow> inv s \<Longrightarrow> ledger_ok (abs s) \<Longrightarrow> inv s' \<and> ledger_step\<^sup>*\<^sup>* (abs s) (abs s')"
begin

lemma run_refines:
  assumes "step\<^sup>*\<^sup>* s s'" and "inv s" and "ledger_ok (abs s)"
  shows "inv s' \<and> ledger_step\<^sup>*\<^sup>* (abs s) (abs s')"
  using assms
proof (induction rule: rtranclp_induct)
  case (step s1 s2)
  then have s1: "inv s1" "ledger_step\<^sup>*\<^sup>* (abs s) (abs s1)" by auto
  then have "ledger_ok (abs s1)" using step.prems(2) by (blast intro: ledger_steps_ok)
  with refines [OF step.hyps(2) s1(1)] s1(2) show ?case by (auto intro: rtranclp_trans)
qed simp

lemma within_limits:
  "step\<^sup>*\<^sup>* s s' \<Longrightarrow> inv s \<Longrightarrow> ledger_ok (abs s) \<Longrightarrow> ledger_ok (abs s')"
  using run_refines ledger_steps_ok by blast

end

end
