(* ===== verification/Admission_Ledger.thy ===== *)
theory Admission_Ledger
  imports Admission_Fixtures Capacity_Ledger
begin

text \<open>
  The admission tables implement the capacity ledger.  \<open>ledger_of\<close> reads limits and use off the
  tables; \<open>admission_inv\<close> are the keys and references the argument needs; each statement and then
  each handler is shown to be some moves of the ledger, and the handlers interpret
  \<open>ledger_refinement\<close>.
\<close>

section \<open>The ledger of the tables\<close>

definition account_limit :: "(entitlement_row \<Rightarrow> int) \<Rightarrow> uuid \<Rightarrow> 'v admission_db \<Rightarrow> int" where
  "account_limit column account db =
     (case find (\<lambda>e. ent_account_id e = account) (ad_entitlements db) of Some e \<Rightarrow> column e | None \<Rightarrow> 0)"

definition pool_limit :: "(pool_row \<Rightarrow> int) \<Rightarrow> string \<Rightarrow> 'v admission_db \<Rightarrow> int" where
  "pool_limit column key db =
     (case find (\<lambda>p. pool_key p = key) (ad_pools db) of Some p \<Rightarrow> column p | None \<Rightarrow> 0)"

definition seconds_used :: "uuid \<Rightarrow> 'v admission_db \<Rightarrow> int" where
  "seconds_used account db = usage_total ''debit'' account db - usage_total ''platform_fault_credit'' account db"

definition ledger_of :: "'v admission_db \<Rightarrow> ledger" where
  "ledger_of db =
     \<lparr>lg_limit = (\<lambda>r. case r of
        AccountSlots a \<Rightarrow> account_limit ent_hosted_slot_limit a db
      | PoolSlots k \<Rightarrow> pool_limit pool_hosted_slot_limit k db
      | PoolRollout k \<Rightarrow> pool_limit pool_rollout_headroom_limit k db
      | BuildSeconds a \<Rightarrow> account_limit ent_build_seconds_limit a db),
      lg_used = (\<lambda>r. case r of
        AccountSlots a \<Rightarrow> account_slot_use a db
      | PoolSlots k \<Rightarrow> pool_slot_use k db
      | PoolRollout k \<Rightarrow> pool_rollout_use k db
      | BuildSeconds a \<Rightarrow> seconds_used a db)\<rparr>"

section \<open>The invariant\<close>

definition credit_matches :: "usage_row list \<Rightarrow> usage_row \<Rightarrow> bool" where
  "credit_matches us u \<longleftrightarrow>
     (\<exists>d \<in> set us. use_debit_event_id u = Some (use_id d) \<and> use_kind d = ''debit''
        \<and> use_account_id d = use_account_id u \<and> use_seconds d = use_seconds u)"

definition admission_inv :: "'v admission_db \<Rightarrow> bool" where
  "admission_inv db \<longleftrightarrow>
     distinct (map pool_key (ad_pools db)) \<and> distinct (map ent_account_id (ad_entitlements db))
     \<and> (\<forall>e \<in> set (ad_entitlements db). ent_pool_key e \<in> pool_key ` set (ad_pools db))
     \<and> distinct (map hold_id (ad_holds db)) \<and> distinct (map res_id (ad_reservations db))
     \<and> (\<forall>h \<in> set (ad_holds db). entitlement_fk db (hold_entitlement_id h) (hold_account_id h) (hold_pool_key h))
     \<and> (\<forall>r \<in> set (ad_reservations db). entitlement_fk db (res_entitlement_id r) (res_account_id r) (res_pool_key r))
     \<and> distinct (map use_id (ad_usage db))
     \<and> (\<forall>u \<in> set (ad_usage db). use_account_id u \<in> ent_account_id ` set (ad_entitlements db) \<and> use_seconds u > 0)
     \<and> (\<forall>u \<in> set (ad_usage db). use_kind u = ''platform_fault_credit'' \<longrightarrow> credit_matches (ad_usage db) u)
     \<and> distinct (map use_debit_event_id (filter (\<lambda>u. use_kind u = ''platform_fault_credit'') (ad_usage db)))"

text \<open>One step of a handler, or all of it, refines the ledger.\<close>

definition refines_ledger :: "'v admission_db \<Rightarrow> 'v admission_db \<Rightarrow> bool" where
  "refines_ledger db db' \<longleftrightarrow>
     (admission_inv db \<and> ledger_ok (ledger_of db) \<longrightarrow>
        admission_inv db' \<and> ledger_step\<^sup>*\<^sup>* (ledger_of db) (ledger_of db'))"

lemma refines_refl: "refines_ledger db db"
  by (simp add: refines_ledger_def)

lemma refines_trans: "refines_ledger db db1 \<Longrightarrow> refines_ledger db1 db2 \<Longrightarrow> refines_ledger db db2"
  unfolding refines_ledger_def by (meson ledger_steps_ok rtranclp_trans)

definition same_capacity :: "'v admission_db \<Rightarrow> 'v admission_db \<Rightarrow> bool" where
  "same_capacity db db' \<longleftrightarrow>
     ad_pools db' = ad_pools db \<and> ad_entitlements db' = ad_entitlements db \<and> ad_holds db' = ad_holds db
     \<and> ad_reservations db' = ad_reservations db \<and> ad_usage db' = ad_usage db"

lemma same_capacity_ledger:
  assumes "same_capacity db db'"
  shows "ledger_of db' = ledger_of db" "admission_inv db' = admission_inv db"
  using assms
  by (simp_all add: same_capacity_def ledger_of_def account_limit_def pool_limit_def seconds_used_def
      account_slot_use_def pool_slot_use_def pool_rollout_use_def usage_total_def admission_inv_def
      entitlement_fk_def cong: resource.case_cong)

lemma same_capacity_refines: "same_capacity db db' \<Longrightarrow> refines_ledger db db'"
  by (simp add: refines_ledger_def same_capacity_ledger)

lemma insert_refunds_same: "insert_refunds env n hs db = Some db' \<Longrightarrow> same_capacity db db'"
  by (induction env n hs db rule: insert_refunds.induct)
     (auto simp: same_capacity_def insert_refund_def split: option.splits if_splits)

lemma other_statements_same:
  "insert_admission_audit a db = Some db' \<Longrightarrow> same_capacity db db'"
  "insert_proof p db = Some db' \<Longrightarrow> same_capacity db db'"
  "insert_observation b db = Some db' \<Longrightarrow> same_capacity db db'"
  "insert_receipt r db = Some db' \<Longrightarrow> same_capacity db db'"
  "insert_hosting_event e db = Some db' \<Longrightarrow> same_capacity db db'"
  "update_projects account project f db = Some db' \<Longrightarrow> same_capacity db db'"
  "same_capacity db (set_lifecycle account project deployment ls l db)"
  "same_capacity db (supersede_proofs deployment db)"
  by (auto simp: same_capacity_def insert_admission_audit_def insert_proof_def insert_observation_def
      insert_receipt_def insert_hosting_event_def update_projects_def set_lifecycle_def supersede_proofs_def
      Let_def split: if_splits)

lemma same_capacity_trans: "same_capacity db db1 \<Longrightarrow> same_capacity db1 db2 \<Longrightarrow> same_capacity db db2"
  by (simp add: same_capacity_def)

lemma store_admission_same: "store_admission ext a op k h s r db = Inr db' \<Longrightarrow> same_capacity db db'"
  by (auto simp: store_admission_def same_capacity_def split: sum.splits)

lemma store_fixture_same: "store_fixture f ev k h r db = Inr db' \<Longrightarrow> same_capacity db db'"
  by (auto simp: store_fixture_def split: sum.splits option.splits intro: other_statements_same)

lemma project_reserved_same: "project_reserved env a p d db = Some db' \<Longrightarrow> same_capacity db db'"
  by (auto simp: project_reserved_def bind_eq_Some_conv
      intro: same_capacity_trans [OF other_statements_same(7) same_capacity_trans] other_statements_same)

lemma rollout_admitted_same: "rollout_admitted env a p d db = Inr db' \<Longrightarrow> same_capacity db db'"
  by (auto simp: rollout_admitted_def bind_eq_Some_conv split: if_splits
      intro: same_capacity_trans [OF other_statements_same(7) same_capacity_trans] other_statements_same)

section \<open>Counting\<close>

lemma count_rows_nonneg: "0 \<le> count_rows p xs"
  by (simp add: count_rows_def)

lemma count_rows_append [simp]: "count_rows p (xs @ ys) = count_rows p xs + count_rows p ys"
  by (simp add: count_rows_def)

lemma count_rows_single [simp]: "count_rows p [x] = (if p x then 1 else 0)"
  by (simp add: count_rows_def)

lemma count_rows_map_le: "(\<And>x. x \<in> set xs \<Longrightarrow> p (f x) \<Longrightarrow> p x) \<Longrightarrow> count_rows p (map f xs) \<le> count_rows p xs"
  unfolding count_rows_def by (induction xs) auto

lemma ledger_of_simps [simp]:
  "lg_limit (ledger_of db) (AccountSlots a) = account_limit ent_hosted_slot_limit a db"
  "lg_limit (ledger_of db) (PoolSlots k) = pool_limit pool_hosted_slot_limit k db"
  "lg_limit (ledger_of db) (PoolRollout k) = pool_limit pool_rollout_headroom_limit k db"
  "lg_limit (ledger_of db) (BuildSeconds a) = account_limit ent_build_seconds_limit a db"
  "lg_used (ledger_of db) (AccountSlots a) = account_slot_use a db"
  "lg_used (ledger_of db) (PoolSlots k) = pool_slot_use k db"
  "lg_used (ledger_of db) (PoolRollout k) = pool_rollout_use k db"
  "lg_used (ledger_of db) (BuildSeconds a) = seconds_used a db"
  by (simp_all add: ledger_of_def)

lemma ledger_of_eqI:
  assumes "\<And>r. lg_limit (ledger_of db) r = lg_limit l r" and "\<And>r. lg_used (ledger_of db) r = lg_used l r"
  shows "ledger_of db = l"
  using assms by (intro ledger.equality ext) simp_all

section \<open>Moves of the ledger\<close>

lemma ledger_release:
  assumes "\<And>r. lg_limit (ledger_of db') r = lg_limit (ledger_of db) r"
    and "\<And>r. 0 \<le> lg_used (ledger_of db') r \<and> lg_used (ledger_of db') r \<le> lg_used (ledger_of db) r"
  shows "ledger_step\<^sup>*\<^sup>* (ledger_of db) (ledger_of db')"
proof -
  have "ledger_of db' = (ledger_of db)\<lparr>lg_used := lg_used (ledger_of db')\<rparr>"
    using assms(1) by (intro ledger_of_eqI) simp_all
  moreover have "ledger_step (ledger_of db) ((ledger_of db)\<lparr>lg_used := lg_used (ledger_of db')\<rparr>)"
    using assms(2) by (intro ledger_step.release) blast
  ultimately show ?thesis by (metis r_into_rtranclp)
qed

lemma ledger_acquire:
  assumes "\<And>r. lg_limit (ledger_of db') r = lg_limit (ledger_of db) r"
    and "\<And>r. lg_used (ledger_of db') r = lg_used (ledger_of db) r + amount r"
    and "\<And>r. 0 \<le> amount r \<and> (amount r = 0 \<or> lg_used (ledger_of db) r + amount r \<le> lg_limit (ledger_of db) r)"
  shows "ledger_step\<^sup>*\<^sup>* (ledger_of db) (ledger_of db')"
proof -
  have "ledger_of db' = (ledger_of db)\<lparr>lg_used := \<lambda>r. lg_used (ledger_of db) r + amount r\<rparr>"
    using assms(1,2) by (intro ledger_of_eqI) simp_all
  moreover have "ledger_step (ledger_of db) ((ledger_of db)\<lparr>lg_used := \<lambda>r. lg_used (ledger_of db) r + amount r\<rparr>)"
    using assms(3) by (intro ledger_step.acquire) blast
  ultimately show ?thesis by (metis r_into_rtranclp)
qed

lemma seconds_nonneg:
  assumes "admission_inv db"
  shows "0 \<le> seconds_used a db"
proof -
  let ?credit = "\<lambda>u. use_kind u = ''platform_fault_credit''" and ?debit = "\<lambda>u. use_kind u = ''debit''"
  let ?us = "ad_usage db"
  let ?C = "filter (\<lambda>u. use_account_id u = a \<and> ?credit u) ?us" and ?D = "filter (\<lambda>u. use_account_id u = a \<and> ?debit u) ?us"
  define deb where "deb u = (SOME d. d \<in> set ?us \<and> use_debit_event_id u = Some (use_id d) \<and> ?debit d
      \<and> use_account_id d = use_account_id u \<and> use_seconds d = use_seconds u)" for u :: usage_row
  have deb: "deb u \<in> set ?D \<and> use_debit_event_id u = Some (use_id (deb u)) \<and> use_seconds (deb u) = use_seconds u"
    if "u \<in> set ?C" for u
  proof -
    have "\<exists>d. d \<in> set ?us \<and> use_debit_event_id u = Some (use_id d) \<and> ?debit d
        \<and> use_account_id d = use_account_id u \<and> use_seconds d = use_seconds u"
      using that assms by (auto simp: admission_inv_def credit_matches_def)
    from someI_ex [OF this] that show ?thesis unfolding deb_def by simp
  qed
  have dist: "distinct ?us" using assms by (auto simp: admission_inv_def distinct_map)
  have inj_id: "inj_on use_debit_event_id (set (filter ?credit ?us))"
    using assms by (auto simp: admission_inv_def distinct_map)
  have inj: "inj_on deb (set ?C)"
  proof (rule inj_onI)
    fix x y assume xy: "x \<in> set ?C" "y \<in> set ?C" "deb x = deb y"
    from deb [OF xy(1)] deb [OF xy(2)] xy(3) have "use_debit_event_id x = use_debit_event_id y" by simp
    from inj_onD [OF inj_id this] xy(1,2) show "x = y" by simp
  qed
  have "sum_list (map use_seconds ?C) = sum use_seconds (set ?C)"
    using dist by (intro sum_list_distinct_conv_sum_set) simp
  also have "\<dots> = sum use_seconds (deb ` set ?C)"
    using deb by (subst sum.reindex [OF inj]) (auto intro: sum.cong)
  also have "\<dots> \<le> sum use_seconds (set ?D)"
  proof (rule sum_mono2)
    show "deb ` set ?C \<subseteq> set ?D" using deb by blast
    show "0 \<le> use_seconds b" if "b \<in> set ?D - deb ` set ?C" for b
      using that assms by (force simp: admission_inv_def)
  qed simp
  also have "\<dots> = sum_list (map use_seconds ?D)"
    using dist by (intro sum_list_distinct_conv_sum_set [symmetric]) simp
  finally show ?thesis by (simp add: seconds_used_def usage_total_def)
qed

lemma ledger_nonneg:
  assumes "admission_inv db"
  shows "0 \<le> lg_used (ledger_of db) r"
  using seconds_nonneg [OF assms]
  by (cases r) (simp_all add: account_slot_use_def pool_slot_use_def pool_rollout_use_def count_rows_nonneg
      add_nonneg_nonneg)

text \<open>Statements that free capacity.\<close>

lemma entitlement_fk_cong: "ad_entitlements db' = ad_entitlements db \<Longrightarrow> entitlement_fk db' = entitlement_fk db"
  by (auto simp: entitlement_fk_def fun_eq_iff)

lemma limits_cong:
  assumes "ad_pools db' = ad_pools db" "ad_entitlements db' = ad_entitlements db"
  shows "lg_limit (ledger_of db') r = lg_limit (ledger_of db) r"
  using assms by (cases r) (simp_all add: account_limit_def pool_limit_def)

lemma update_holds_refines:
  assumes upd: "update_holds p f db = Some db'"
    and keep: "\<And>h. hold_id (f h) = hold_id h \<and> hold_account_id (f h) = hold_account_id h
      \<and> hold_pool_key (f h) = hold_pool_key h \<and> hold_entitlement_id (f h) = hold_entitlement_id h"
    and frees: "\<And>h. h \<in> set (ad_holds db) \<Longrightarrow> p h \<Longrightarrow>
      (active_initial (f h) \<longrightarrow> active_initial h) \<and> (rollout_in_use (f h) \<longrightarrow> rollout_in_use h)"
  shows "refines_ledger db db'"
  unfolding refines_ledger_def
proof (intro impI conjI; elim conjE)
  let ?g = "\<lambda>h. if p h then f h else h"
  have db': "db' = db\<lparr>ad_holds := map ?g (ad_holds db)\<rparr>"
    using upd by (auto simp: update_holds_def Let_def split: if_splits)
  have ids: "map (hold_id \<circ> ?g) (ad_holds db) = map hold_id (ad_holds db)" using keep by auto
  assume inv: "admission_inv db"
  show inv': "admission_inv db'"
    using inv keep
    by (auto simp: admission_inv_def db' ids entitlement_fk_cong [of db' db, unfolded db'])
  have le: "count_rows (\<lambda>h. hold_account_id h = a \<and> active_initial h) (map ?g (ad_holds db))
      \<le> count_rows (\<lambda>h. hold_account_id h = a \<and> active_initial h) (ad_holds db)"
    "count_rows (\<lambda>h. hold_pool_key h = k \<and> active_initial h) (map ?g (ad_holds db))
      \<le> count_rows (\<lambda>h. hold_pool_key h = k \<and> active_initial h) (ad_holds db)"
    "count_rows (\<lambda>h. hold_pool_key h = k \<and> rollout_in_use h) (map ?g (ad_holds db))
      \<le> count_rows (\<lambda>h. hold_pool_key h = k \<and> rollout_in_use h) (ad_holds db)" for a k
    using frees keep by (auto intro!: count_rows_map_le split: if_splits)
  show "ledger_step\<^sup>*\<^sup>* (ledger_of db) (ledger_of db')"
  proof (rule ledger_release)
    fix r
    show "lg_limit (ledger_of db') r = lg_limit (ledger_of db) r" by (rule limits_cong) (simp_all add: db')
    have "lg_used (ledger_of db') r \<le> lg_used (ledger_of db) r"
    proof (cases r)
      case (AccountSlots a) then show ?thesis using le(1) [of a] by (simp add: db' account_slot_use_def)
    next
      case (PoolSlots k) then show ?thesis using le(2) [of k] by (simp add: db' pool_slot_use_def)
    next
      case (PoolRollout k) then show ?thesis using le(3) [of k] by (simp add: db' pool_rollout_use_def)
    qed (simp add: db' seconds_used_def usage_total_def)
    with ledger_nonneg [OF inv', of r]
    show "0 \<le> lg_used (ledger_of db') r \<and> lg_used (ledger_of db') r \<le> lg_used (ledger_of db) r" by blast
  qed
qed

lemma update_reservations_refines:
  assumes upd: "update_reservations p f db = Some db'"
    and keep: "\<And>r. res_id (f r) = res_id r \<and> res_account_id (f r) = res_account_id r
      \<and> res_pool_key (f r) = res_pool_key r \<and> res_entitlement_id (f r) = res_entitlement_id r"
    and frees: "\<And>r. r \<in> set (ad_reservations db) \<Longrightarrow> p r \<Longrightarrow> unreleased (f r) \<Longrightarrow> unreleased r"
  shows "refines_ledger db db'"
  unfolding refines_ledger_def
proof (intro impI conjI; elim conjE)
  let ?g = "\<lambda>r. if p r then f r else r"
  have db': "db' = db\<lparr>ad_reservations := map ?g (ad_reservations db)\<rparr>"
    using upd by (auto simp: update_reservations_def Let_def split: if_splits)
  have ids: "map (res_id \<circ> ?g) (ad_reservations db) = map res_id (ad_reservations db)" using keep by auto
  assume inv: "admission_inv db"
  show inv': "admission_inv db'"
    using inv keep
    by (auto simp: admission_inv_def db' ids entitlement_fk_cong [of db' db, unfolded db'])
  have le: "count_rows (\<lambda>r. res_account_id r = a \<and> unreleased r) (map ?g (ad_reservations db))
      \<le> count_rows (\<lambda>r. res_account_id r = a \<and> unreleased r) (ad_reservations db)"
    "count_rows (\<lambda>r. res_pool_key r = k \<and> unreleased r) (map ?g (ad_reservations db))
      \<le> count_rows (\<lambda>r. res_pool_key r = k \<and> unreleased r) (ad_reservations db)" for a k
    using frees keep by (auto intro!: count_rows_map_le split: if_splits)
  show "ledger_step\<^sup>*\<^sup>* (ledger_of db) (ledger_of db')"
  proof (rule ledger_release)
    fix r
    show "lg_limit (ledger_of db') r = lg_limit (ledger_of db) r" by (rule limits_cong) (simp_all add: db')
    have "lg_used (ledger_of db') r \<le> lg_used (ledger_of db) r"
    proof (cases r)
      case (AccountSlots a) then show ?thesis using le(1) [of a] by (simp add: db' account_slot_use_def)
    next
      case (PoolSlots k) then show ?thesis using le(2) [of k] by (simp add: db' pool_slot_use_def)
    qed (simp_all add: db' pool_rollout_use_def seconds_used_def usage_total_def)
    with ledger_nonneg [OF inv', of r]
    show "0 \<le> lg_used (ledger_of db') r \<and> lg_used (ledger_of db') r \<le> lg_used (ledger_of db) r" by blast
  qed
qed

text \<open>Statements that take capacity.\<close>

lemma find_key_distinct: "distinct (map k xs) \<Longrightarrow> x \<in> set xs \<Longrightarrow> find (\<lambda>y. k y = k x) xs = Some x"
  by (induction xs) auto

lemma account_limit_row:
  "admission_inv db \<Longrightarrow> e \<in> set (ad_entitlements db) \<Longrightarrow> account_limit column (ent_account_id e) db = column e"
  using find_key_distinct [of ent_account_id "ad_entitlements db" e] by (simp add: account_limit_def admission_inv_def)

lemma entitlement_unique:
  assumes "admission_inv db" "e \<in> set (ad_entitlements db)" "entitlement_fk db eid (ent_account_id e) key"
  shows "key = ent_pool_key e"
proof -
  obtain e' where "e' \<in> set (ad_entitlements db)" "ent_account_id e' = ent_account_id e" "ent_pool_key e' = key"
    using assms(3) by (auto simp: entitlement_fk_def)
  moreover have "inj_on ent_account_id (set (ad_entitlements db))" using assms(1) by (simp add: admission_inv_def distinct_map)
  ultimately show ?thesis using assms(2) by (auto dest: inj_onD)
qed

definition slot_free :: "uuid \<Rightarrow> string \<Rightarrow> 'v admission_db \<Rightarrow> bool" where
  "slot_free account key db \<longleftrightarrow>
     account_slot_use account db < account_limit ent_hosted_slot_limit account db
     \<and> pool_slot_use key db < pool_limit pool_hosted_slot_limit key db"

lemma insert_hold_refines:
  assumes ins: "insert_hold h db = Some db'"
    and initial: "active_initial h \<Longrightarrow> slot_free (hold_account_id h) (hold_pool_key h) db"
    and rollout: "rollout_in_use h \<Longrightarrow>
      pool_rollout_use (hold_pool_key h) db < pool_limit pool_rollout_headroom_limit (hold_pool_key h) db"
  shows "refines_ledger db db'"
  unfolding refines_ledger_def
proof (intro impI conjI; elim conjE)
  have db': "db' = db\<lparr>ad_holds := ad_holds db @ [h]\<rparr>" and new: "hold_id h \<notin> hold_id ` set (ad_holds db)"
    and fk: "entitlement_fk db (hold_entitlement_id h) (hold_account_id h) (hold_pool_key h)"
    using ins by (auto simp: insert_hold_def split: if_splits)
  assume inv: "admission_inv db"
  then show "admission_inv db'"
    using new fk by (auto simp: admission_inv_def db' entitlement_fk_cong [of db' db, unfolded db'])
  let ?amount = "\<lambda>r. case r of
      AccountSlots a \<Rightarrow> if a = hold_account_id h \<and> active_initial h then (1 :: int) else 0
    | PoolSlots k \<Rightarrow> if k = hold_pool_key h \<and> active_initial h then (1 :: int) else 0
    | PoolRollout k \<Rightarrow> if k = hold_pool_key h \<and> rollout_in_use h then (1 :: int) else 0
    | BuildSeconds a \<Rightarrow> 0"
  show "ledger_step\<^sup>*\<^sup>* (ledger_of db) (ledger_of db')"
  proof (rule ledger_acquire [of _ _ ?amount])
    fix r
    show "lg_limit (ledger_of db') r = lg_limit (ledger_of db) r" by (rule limits_cong) (simp_all add: db')
    show "lg_used (ledger_of db') r = lg_used (ledger_of db) r + ?amount r"
      by (cases r) (auto simp: db' account_slot_use_def pool_slot_use_def pool_rollout_use_def
          seconds_used_def usage_total_def)
    show "0 \<le> ?amount r \<and> (?amount r = 0 \<or> lg_used (ledger_of db) r + ?amount r \<le> lg_limit (ledger_of db) r)"
      using initial rollout by (cases r) (auto simp: slot_free_def)
  qed
qed

lemma insert_reservation_refines:
  assumes ins: "insert_reservation r db = Some db'" and free: "slot_free (res_account_id r) (res_pool_key r) db"
  shows "refines_ledger db db'"
  unfolding refines_ledger_def
proof (intro impI conjI; elim conjE)
  have db': "db' = db\<lparr>ad_reservations := ad_reservations db @ [r]\<rparr>" and new: "res_id r \<notin> res_id ` set (ad_reservations db)"
    and fk: "entitlement_fk db (res_entitlement_id r) (res_account_id r) (res_pool_key r)"
    using ins by (auto simp: insert_reservation_def split: if_splits)
  assume inv: "admission_inv db"
  then show "admission_inv db'"
    using new fk by (auto simp: admission_inv_def db' entitlement_fk_cong [of db' db, unfolded db'])
  let ?amount = "\<lambda>x. case x of
      AccountSlots a \<Rightarrow> if a = res_account_id r \<and> unreleased r then (1 :: int) else 0
    | PoolSlots k \<Rightarrow> if k = res_pool_key r \<and> unreleased r then (1 :: int) else 0
    | _ \<Rightarrow> 0"
  show "ledger_step\<^sup>*\<^sup>* (ledger_of db) (ledger_of db')"
  proof (rule ledger_acquire [of _ _ ?amount])
    fix x
    show "lg_limit (ledger_of db') x = lg_limit (ledger_of db) x" by (rule limits_cong) (simp_all add: db')
    show "lg_used (ledger_of db') x = lg_used (ledger_of db) x + ?amount x"
      by (cases x) (auto simp: db' account_slot_use_def pool_slot_use_def pool_rollout_use_def
          seconds_used_def usage_total_def)
    show "0 \<le> ?amount x \<and> (?amount x = 0 \<or> lg_used (ledger_of db) x + ?amount x \<le> lg_limit (ledger_of db) x)"
      using free by (cases x) (auto simp: slot_free_def)
  qed
qed

lemma count_rows_update_one:
  assumes "distinct (map k xs)" and "x \<in> set xs" and "p x" and "\<not> p (f x)"
  shows "count_rows p (map (\<lambda>y. if k y = k x then f y else y) xs) = count_rows p xs - 1"
  using assms
proof (induction xs)
  case (Cons y xs)
  show ?case
  proof (cases "y = x")
    case True
    with Cons.prems(1) have "\<forall>z \<in> set xs. k z \<noteq> k x" by (metis distinct.simps(2) image_eqI list.set_map list.simps(9))
    then have "map (\<lambda>y. if k y = k x then f y else y) xs = xs" by (intro map_idI) simp
    with True Cons.prems(3,4) show ?thesis by (simp add: count_rows_def)
  next
    case False
    with Cons.prems(1,2) have "k y \<noteq> k x" "x \<in> set xs" by auto
    with Cons show ?thesis by (simp add: count_rows_def)
  qed
qed simp

lemma consume_hold_refines:
  assumes "consume_hold env (hold_id h) db = Some db1" and "h \<in> set (ad_holds db)" and "hold_state h = ''active''"
  shows "refines_ledger db db1"
proof (cases "admission_inv db")
  case True
  then have "x = h" if "x \<in> set (ad_holds db)" "hold_id x = hold_id h" for x
    using that assms(2) by (auto simp: admission_inv_def distinct_map dest: inj_onD)
  with assms(1,3) show ?thesis unfolding consume_hold_def
    by (elim update_holds_refines) (auto simp: active_initial_def rollout_in_use_def)
qed (simp add: refines_ledger_def)

lemma admit_initial_refines:
  assumes con: "consume_hold env (hold_id h) db = Some db1" and h: "h \<in> set (ad_holds db)" "active_initial h"
    and e: "e \<in> set (ad_entitlements db)" "ent_account_id e = hold_account_id h"
    and ins: "insert_reservation (new_reservation env (hold_account_id h) project deployment e (hold_id h)) db1 = Some db2"
  shows "refines_ledger db db2"
proof -
  have first: "refines_ledger db db1"
    using consume_hold_refines [OF con h(1)] h(2) by (simp add: active_initial_def)
  show ?thesis
  proof (cases "admission_inv db \<and> ledger_ok (ledger_of db)")
    case True
    have db1: "db1 = db\<lparr>ad_holds := map (\<lambda>y. if hold_id y = hold_id h
        then y\<lparr>hold_state := ''consumed'', hold_consumed_at := Some (env_now env 6)\<rparr> else y) (ad_holds db)\<rparr>"
      using con by (auto simp: consume_hold_def update_holds_def Let_def split: if_splits)
    have dist: "distinct (map hold_id (ad_holds db))" using True by (simp add: admission_inv_def)
    have "entitlement_fk db (hold_entitlement_id h) (ent_account_id e) (hold_pool_key h)"
      using True h(1) e(2) by (auto simp: admission_inv_def)
    then have key: "hold_pool_key h = ent_pool_key e" using entitlement_unique True e(1) by blast
    have fewer: "account_slot_use (hold_account_id h) db1 = account_slot_use (hold_account_id h) db - 1"
      "pool_slot_use (ent_pool_key e) db1 = pool_slot_use (ent_pool_key e) db - 1"
      using h key unfolding account_slot_use_def pool_slot_use_def db1
      by (simp_all add: count_rows_update_one [OF dist h(1)] active_initial_def)
    have bound: "account_slot_use a db \<le> account_limit ent_hosted_slot_limit a db"
      "pool_slot_use k db \<le> pool_limit pool_hosted_slot_limit k db" for a k
      using True by (metis ledger_ok_def ledger_of_simps)+
    have limits: "account_limit column a db1 = account_limit column a db"
      "pool_limit column' k db1 = pool_limit column' k db" for column a column' k
      by (simp_all add: db1 account_limit_def pool_limit_def)
    have "slot_free (hold_account_id h) (ent_pool_key e) db1"
      unfolding slot_free_def fewer limits using bound(1) [of "hold_account_id h"] bound(2) [of "ent_pool_key e"] by linarith
    with ins have "refines_ledger db1 db2"
      by (intro insert_reservation_refines) (auto simp: new_reservation_def)
    with first show ?thesis by (rule refines_trans)
  qed (auto simp: refines_ledger_def)
qed

text \<open>Statements that change limits.\<close>

lemma ledger_set_two:
  assumes "r1 \<noteq> r2" and "lg_used l r1 \<le> n1" and "lg_used l r2 \<le> n2"
  shows "ledger_step\<^sup>*\<^sup>* l (l\<lparr>lg_limit := (lg_limit l)(r1 := n1, r2 := n2)\<rparr>)"
proof -
  have "ledger_step l (l\<lparr>lg_limit := (lg_limit l)(r1 := n1)\<rparr>)" using assms(2) by (rule ledger_step.set_limit)
  moreover have "ledger_step (l\<lparr>lg_limit := (lg_limit l)(r1 := n1)\<rparr>) (l\<lparr>lg_limit := (lg_limit l)(r1 := n1, r2 := n2)\<rparr>)"
    using ledger_step.set_limit [of "l\<lparr>lg_limit := (lg_limit l)(r1 := n1)\<rparr>" r2 n2] assms(3) by simp
  ultimately show ?thesis by auto
qed

lemma find_none_iff: "find (\<lambda>x. k x = y) xs = None \<longleftrightarrow> y \<notin> k ` set xs"
  by (induction xs) auto

lemma find_some_key: "find (\<lambda>x. k x = y) xs = Some x \<Longrightarrow> x \<in> set xs \<and> k x = y \<and> y \<in> k ` set xs"
  by (induction xs) (auto split: if_splits)

lemma find_upsert:
  assumes "k row = y"
  shows "find (\<lambda>x. k x = z) (if y \<in> k ` set xs then map (\<lambda>x. if k x = y then row else x) xs else xs @ [row])
    = (if z = y then Some row else find (\<lambda>x. k x = z) xs)"
proof -
  have other: "z \<noteq> y \<Longrightarrow> find (\<lambda>x. k x = z) (map (\<lambda>x. if k x = y then row else x) xs) = find (\<lambda>x. k x = z) xs"
    using assms by (induction xs) auto
  have here: "y \<in> k ` set xs \<Longrightarrow> find (\<lambda>x. k x = y) (map (\<lambda>x. if k x = y then row else x) xs) = Some row"
    using assms by (induction xs) auto
  have new: "y \<notin> k ` set xs \<Longrightarrow> find (\<lambda>x. k x = y) xs = None" by (simp add: find_none_iff)
  show ?thesis using other here new assms by (auto simp: find_append split: option.split)
qed

lemma upsert_pool_refines:
  assumes up: "upsert_pool new db = Some (db', row)"
    and use: "pool_slot_use (pool_key new) db \<le> pool_hosted_slot_limit new"
      "pool_rollout_use (pool_key new) db \<le> pool_rollout_headroom_limit new"
  shows "refines_ledger db db'"
  unfolding refines_ledger_def
proof (intro impI conjI; elim conjE)
  let ?g = "\<lambda>p. if pool_key p = pool_key new then row else p"
  have row: "pool_key row = pool_key new" "pool_hosted_slot_limit row = pool_hosted_slot_limit new"
    "pool_rollout_headroom_limit row = pool_rollout_headroom_limit new"
    using up by (auto simp: upsert_pool_def Let_def split: option.splits if_splits)
  have db': "db' = db\<lparr>ad_pools := if pool_key new \<in> pool_key ` set (ad_pools db) then map ?g (ad_pools db)
      else ad_pools db @ [row]\<rparr>"
    using up by (auto simp: upsert_pool_def Let_def find_none_iff split: option.splits if_splits
        dest!: find_some_key)
  have keys: "map pool_key (ad_pools db') = (if pool_key new \<in> pool_key ` set (ad_pools db) then map pool_key (ad_pools db)
      else map pool_key (ad_pools db) @ [pool_key new])" using row(1) by (auto simp: db')
  then have more: "pool_key ` set (ad_pools db) \<subseteq> pool_key ` set (ad_pools db')"
    by (metis Un_upper1 list.set_map set_append subset_refl)
  have rest: "ad_entitlements db' = ad_entitlements db" "ad_holds db' = ad_holds db"
    "ad_reservations db' = ad_reservations db" "ad_usage db' = ad_usage db" by (simp_all add: db')
  assume inv: "admission_inv db"
  then show "admission_inv db'"
    using more by (auto simp: admission_inv_def rest keys entitlement_fk_cong [OF rest(1)])
  have look: "find (\<lambda>p. pool_key p = k) (ad_pools db') = (if k = pool_key new then Some row
      else find (\<lambda>p. pool_key p = k) (ad_pools db))" for k
    using find_upsert [of pool_key row "pool_key new", OF row(1), where xs = "ad_pools db" and z = k] by (simp add: db')
  have "ledger_of db' = (ledger_of db)\<lparr>lg_limit := (lg_limit (ledger_of db))
     (PoolSlots (pool_key new) := pool_hosted_slot_limit new, PoolRollout (pool_key new) := pool_rollout_headroom_limit new)\<rparr>"
    (is "_ = ?l")
  proof (rule ledger_of_eqI)
    fix r
    show "lg_limit (ledger_of db') r = lg_limit ?l r"
      by (cases r) (simp_all add: pool_limit_def look row account_limit_def rest)
    show "lg_used (ledger_of db') r = lg_used ?l r"
      by (cases r) (simp_all add: rest account_slot_use_def pool_slot_use_def pool_rollout_use_def
          seconds_used_def usage_total_def)
  qed
  with use ledger_set_two [of "PoolSlots (pool_key new)" "PoolRollout (pool_key new)" "ledger_of db"]
  show "ledger_step\<^sup>*\<^sup>* (ledger_of db) (ledger_of db')" by simp
qed

lemma upsert_entitlement_refines:
  assumes up: "upsert_entitlement new db = Some (db', row)"
    and use: "account_slot_use (ent_account_id new) db \<le> ent_hosted_slot_limit new"
      "seconds_used (ent_account_id new) db \<le> ent_build_seconds_limit new"
    and same: "\<And>e. find (\<lambda>e. ent_account_id e = ent_account_id new) (ad_entitlements db) = Some e \<Longrightarrow>
      ent_pool_key e = ent_pool_key new"
  shows "refines_ledger db db'"
  unfolding refines_ledger_def
proof (intro impI conjI; elim conjE)
  let ?g = "\<lambda>e. if ent_account_id e = ent_account_id new then row else e"
  let ?old = "find (\<lambda>e. ent_account_id e = ent_account_id new) (ad_entitlements db)"
  have row: "ent_account_id row = ent_account_id new" "ent_hosted_slot_limit row = ent_hosted_slot_limit new"
    "ent_build_seconds_limit row = ent_build_seconds_limit new" "ent_pool_key row = ent_pool_key new"
    "\<And>e. ?old = Some e \<Longrightarrow> ent_id row = ent_id e"
    using up by (auto simp: upsert_entitlement_def Let_def split: option.splits if_splits)
  have pool: "ent_pool_key new \<in> pool_key ` set (ad_pools db)"
    using up by (auto simp: upsert_entitlement_def split: if_splits)
  have db': "db' = db\<lparr>ad_entitlements := if ent_account_id new \<in> ent_account_id ` set (ad_entitlements db)
      then map ?g (ad_entitlements db) else ad_entitlements db @ [row]\<rparr>"
    using up by (auto simp: upsert_entitlement_def Let_def find_none_iff split: option.splits if_splits
        dest!: find_some_key)
  have keys: "map ent_account_id (ad_entitlements db') = (if ent_account_id new \<in> ent_account_id ` set (ad_entitlements db)
      then map ent_account_id (ad_entitlements db) else map ent_account_id (ad_entitlements db) @ [ent_account_id new])"
    using row(1) by (auto simp: db')
  then have more: "ent_account_id ` set (ad_entitlements db) \<subseteq> ent_account_id ` set (ad_entitlements db')"
    by (metis Un_upper1 list.set_map set_append subset_refl)
  have rest: "ad_pools db' = ad_pools db" "ad_holds db' = ad_holds db"
    "ad_reservations db' = ad_reservations db" "ad_usage db' = ad_usage db" by (simp_all add: db')
  assume inv: "admission_inv db"
  have old: "?old = Some e" if "e \<in> set (ad_entitlements db)" "ent_account_id e = ent_account_id new" for e
    using find_key_distinct [of ent_account_id "ad_entitlements db" e] inv that by (simp add: admission_inv_def)
  have fk: "entitlement_fk db' i a k" if ex: "entitlement_fk db i a k" for i a k
  proof -
    obtain e where e: "e \<in> set (ad_entitlements db)" "ent_id e = i" "ent_account_id e = a" "ent_pool_key e = k"
      using ex unfolding entitlement_fk_def by blast
    then have "?g e \<in> set (ad_entitlements db')" by (auto simp: db')
    moreover have "ent_id (?g e) = i" "ent_account_id (?g e) = a" "ent_pool_key (?g e) = k"
      using e row old [of e] same [of e] by auto
    ultimately show ?thesis unfolding entitlement_fk_def by blast
  qed
  have pools: "\<forall>e \<in> set (ad_entitlements db'). ent_pool_key e \<in> pool_key ` set (ad_pools db)"
    using inv pool row(4) by (auto simp: admission_inv_def db')
  show "admission_inv db'"
    using inv more pools fk by (auto simp: admission_inv_def rest keys)
  have look: "find (\<lambda>e. ent_account_id e = a) (ad_entitlements db') = (if a = ent_account_id new then Some row
      else find (\<lambda>e. ent_account_id e = a) (ad_entitlements db))" for a
    using find_upsert [of ent_account_id row "ent_account_id new", OF row(1), where xs = "ad_entitlements db" and z = a] by (simp add: db')
  have "ledger_of db' = (ledger_of db)\<lparr>lg_limit := (lg_limit (ledger_of db))
     (AccountSlots (ent_account_id new) := ent_hosted_slot_limit new,
      BuildSeconds (ent_account_id new) := ent_build_seconds_limit new)\<rparr>"
    (is "_ = ?l")
  proof (rule ledger_of_eqI)
    fix r
    show "lg_limit (ledger_of db') r = lg_limit ?l r"
      by (cases r) (simp_all add: pool_limit_def look row account_limit_def rest)
    show "lg_used (ledger_of db') r = lg_used ?l r"
      by (cases r) (simp_all add: rest account_slot_use_def pool_slot_use_def pool_rollout_use_def
          seconds_used_def usage_total_def)
  qed
  with use ledger_set_two [of "AccountSlots (ent_account_id new)" "BuildSeconds (ent_account_id new)" "ledger_of db"]
  show "ledger_step\<^sup>*\<^sup>* (ledger_of db) (ledger_of db')" by simp
qed

text \<open>Metered build seconds.\<close>

lemma usage_append [simp]:
  "usage_total kind a (db\<lparr>ad_usage := ad_usage db @ [u]\<rparr>)
     = usage_total kind a db + (if use_account_id u = a \<and> use_kind u = kind then use_seconds u else 0)"
  by (simp add: usage_total_def)

lemma insert_usage_Some:
  assumes "insert_usage u db = Some db'"
  shows "db' = db\<lparr>ad_usage := ad_usage db @ [u]\<rparr>" "use_id u \<notin> use_id ` set (ad_usage db)" "use_seconds u > 0"
    "use_account_id u \<in> ent_account_id ` set (ad_entitlements db)"
proof -
  have all: "usage_check u \<and> use_id u \<notin> use_id ` set (ad_usage db) \<and> db' = db\<lparr>ad_usage := ad_usage db @ [u]\<rparr>"
    and e: "\<exists>e \<in> set (ad_entitlements db). ent_id e = use_entitlement_id u \<and> ent_account_id e = use_account_id u"
    using assms unfolding insert_usage_def by (simp_all split: if_splits)
  show "db' = db\<lparr>ad_usage := ad_usage db @ [u]\<rparr>" "use_id u \<notin> use_id ` set (ad_usage db)" "use_seconds u > 0"
    using all by (simp_all add: usage_check_def)
  show "use_account_id u \<in> ent_account_id ` set (ad_entitlements db)" using e by (metis image_eqI)
qed

lemma credit_matches_mono: "credit_matches us u \<Longrightarrow> credit_matches (us @ vs) u"
  by (auto simp: credit_matches_def)

lemma insert_usage_inv:
  assumes ins: "insert_usage u db = Some db'" and inv: "admission_inv db"
    and credit: "use_kind u = ''platform_fault_credit'' \<Longrightarrow> credit_matches (ad_usage db) u
      \<and> use_debit_event_id u \<notin> use_debit_event_id ` set (ad_usage db)"
  shows "admission_inv db'"
proof -
  note u = insert_usage_Some [OF ins]
  have "\<forall>w \<in> set (ad_usage db @ [u]). use_kind w = ''platform_fault_credit'' \<longrightarrow> credit_matches (ad_usage db @ [u]) w"
    using inv credit by (auto simp: admission_inv_def intro: credit_matches_mono)
  moreover have "distinct (map use_debit_event_id (filter (\<lambda>u. use_kind u = ''platform_fault_credit'') (ad_usage db @ [u])))"
    using inv credit by (auto simp: admission_inv_def)
  ultimately show ?thesis
    using inv u(2,3,4) unfolding u(1)
    by (auto simp: admission_inv_def entitlement_fk_cong [of "db\<lparr>ad_usage := ad_usage db @ [u]\<rparr>" db])
qed

lemma debit_refines:
  assumes ins: "insert_usage u db = Some db'" and debit: "use_kind u = ''debit''"
    and fits: "seconds_used (use_account_id u) db + use_seconds u
      \<le> account_limit ent_build_seconds_limit (use_account_id u) db"
  shows "refines_ledger db db'"
  unfolding refines_ledger_def
proof (intro impI conjI; elim conjE)
  note u = insert_usage_Some [OF ins]
  assume inv: "admission_inv db"
  show "admission_inv db'" by (rule insert_usage_inv [OF ins inv]) (simp add: debit)
  let ?amount = "\<lambda>r. if r = BuildSeconds (use_account_id u) then use_seconds u else 0"
  show "ledger_step\<^sup>*\<^sup>* (ledger_of db) (ledger_of db')"
  proof (rule ledger_acquire [of _ _ ?amount])
    fix r
    show "lg_limit (ledger_of db') r = lg_limit (ledger_of db) r" by (rule limits_cong) (simp_all add: u(1))
    show "lg_used (ledger_of db') r = lg_used (ledger_of db) r + ?amount r"
      using debit by (cases r) (auto simp: u(1) account_slot_use_def pool_slot_use_def pool_rollout_use_def seconds_used_def)
    show "0 \<le> ?amount r \<and> (?amount r = 0 \<or> lg_used (ledger_of db) r + ?amount r \<le> lg_limit (ledger_of db) r)"
      using fits u(3) by (cases r) auto
  qed
qed

lemma credit_refines:
  assumes ins: "insert_usage u db = Some db'" and credit: "use_kind u = ''platform_fault_credit''"
    "credit_matches (ad_usage db) u" "use_debit_event_id u \<notin> use_debit_event_id ` set (ad_usage db)"
  shows "refines_ledger db db'"
  unfolding refines_ledger_def
proof (intro impI conjI; elim conjE)
  note u = insert_usage_Some [OF ins]
  assume inv: "admission_inv db"
  show inv': "admission_inv db'" by (rule insert_usage_inv [OF ins inv]) (use credit in blast)
  show "ledger_step\<^sup>*\<^sup>* (ledger_of db) (ledger_of db')"
  proof (rule ledger_release)
    fix r
    show "lg_limit (ledger_of db') r = lg_limit (ledger_of db) r" by (rule limits_cong) (simp_all add: u(1))
    have "lg_used (ledger_of db') r \<le> lg_used (ledger_of db) r"
      using u(3) credit(1) by (cases r) (auto simp: u(1) account_slot_use_def pool_slot_use_def pool_rollout_use_def seconds_used_def)
    with ledger_nonneg [OF inv', of r]
    show "0 \<le> lg_used (ledger_of db') r \<and> lg_used (ledger_of db') r \<le> lg_used (ledger_of db) r" by blast
  qed
qed

section \<open>The handlers\<close>

lemma expire_holds_refines:
  assumes "expire_holds env now scope db = Some db'"
  shows "refines_ledger db db'" "ad_entitlements db' = ad_entitlements db"
proof -
  obtain db1 where upd: "update_holds (expired_hold now scope)
      (\<lambda>h. h\<lparr>hold_state := ''expired'', hold_released_at := Some now\<rparr>) db = Some db1"
    and ref: "insert_refunds env 10 (filter (\<lambda>h. hold_kind h = ''initial'')
      (filter (expired_hold now scope) (ad_holds db))) db1 = Some db'"
    using assms by (auto simp: expire_holds_def Let_def simp del: filter_filter split: option.splits)
  have "refines_ledger db db1"
    by (rule update_holds_refines [OF upd]) (simp_all add: active_initial_def rollout_in_use_def)
  with insert_refunds_same [OF ref] show "refines_ledger db db'"
    by (blast intro: refines_trans same_capacity_refines)
  have "ad_entitlements db1 = ad_entitlements db"
    using upd by (auto simp: update_holds_def Let_def split: if_splits)
  with insert_refunds_same [OF ref] show "ad_entitlements db' = ad_entitlements db" by (simp add: same_capacity_def)
qed

lemma lock_entitlement_Inr:
  assumes "lock_entitlement_and_pool account db = Inr e"
  shows "e \<in> set (ad_entitlements db)" "ent_account_id e = account"
  using assms by (auto simp: lock_entitlement_and_pool_def find_Some_iff split: option.splits if_splits)

lemma capacity_available:
  assumes av: "ensure_capacity_available account e kind db = Inr ()" and inv: "admission_inv db"
    and e: "e \<in> set (ad_entitlements db)" "ent_account_id e = account"
  shows "kind = ''initial'' \<Longrightarrow> slot_free account (ent_pool_key e) db"
    "kind \<noteq> ''initial'' \<Longrightarrow>
      pool_rollout_use (ent_pool_key e) db < pool_limit pool_rollout_headroom_limit (ent_pool_key e) db"
  using av account_limit_row [OF inv e(1), of ent_hosted_slot_limit] e(2)
  by (auto simp: ensure_capacity_available_def Let_def slot_free_def pool_limit_def split: option.splits if_splits)

lemma new_hold_refines:
  assumes av: "ensure_capacity_available account e (hold_kind_for active) db = Inr ()"
    and e: "e \<in> set (ad_entitlements db)" "ent_account_id e = account"
    and ins: "insert_hold (new_hold env account project deployment e active request) db = Some db'"
  shows "refines_ledger db db'"
proof (cases "admission_inv db")
  case True
  note free = capacity_available [OF av True e]
  show ?thesis
    by (rule insert_hold_refines [OF ins])
       (use free in \<open>auto simp: new_hold_def active_initial_def rollout_in_use_def\<close>)
qed (simp add: refines_ledger_def)

lemma admission_audit_refines: "admission_audit i a s ev t tg out db = Some db' \<Longrightarrow> refines_ledger db db'"
  by (auto simp: admission_audit_def intro: same_capacity_refines other_statements_same)

lemma store_admission_refines: "store_admission ext a op k h s r db = Inr db' \<Longrightarrow> refines_ledger db db'"
  by (blast intro: same_capacity_refines store_admission_same)

lemma create_new_hold_refines:
  "commits (\<lambda>db' _. refines_ledger db db')
     (create_new_hold ext env auth account project deployment expected operation key hash request db)"
  unfolding create_new_hold_def
proof (intro commits_rules commits_Committed)
  fix e db1 u1 u2 active u3 u4 db2 hold response db3 db4
  assume e: "lock_entitlement_and_pool account db = Inr e"
    and ex: "expire_holds_for_scope env (env_now env 1) account (ent_pool_key e) db = Some db1"
    and av: "ensure_capacity_available account e (hold_kind_for active) db1 = Inr u4"
    and ins: "insert_hold (new_hold env account project deployment e active request) db1 = Some db2"
    and au: "admission_audit (env_fresh env 1) account (auth_session_id auth) ''admission.hold.create''
          ''capacity_hold'' (Some (env_fresh env 0)) ''succeeded'' db2 = Some db3"
    and st: "store_admission ext account operation key hash 201 response db3 = Inr db4"
  note ex' = expire_holds_refines [OF ex [unfolded expire_holds_for_scope_def]]
  have "refines_ledger db1 db2"
    using new_hold_refines [OF _ _ _ ins] av lock_entitlement_Inr [OF e] by (simp add: ex'(2))
  then show "refines_ledger db db4"
    using ex'(1) au st by (blast intro: refines_trans admission_audit_refines store_admission_refines)
qed

lemma replay_admission_refines:
  "commits (\<lambda>db' _. refines_ledger db db') miss \<Longrightarrow>
     commits (\<lambda>db' _. refines_ledger db db') (replay_admission ext status account operation key hash db miss)"
  unfolding replay_admission_def by (intro commits_rules commits_Committed refines_refl)

lemma create_hold_refines:
  "refines_ledger db (fst (create_hold ext env auth project_path deployment_path headers request db))"
  unfolding create_hold_def create_hold_tx_def
  by (intro run_txn_inv [where R = "refines_ledger db"] refines_refl commits_rules replay_admission_refines create_new_hold_refines)

lemma find_owned_hold_Some:
  assumes "find_owned_hold account project deployment hid db = Some h"
  shows "h \<in> set (ad_holds db)" "hold_id h = hid" "hold_account_id h = account"
  using assms by (auto simp: find_owned_hold_def find_Some_iff)

lemma finish_admission_refines:
  assumes "refines_ledger db db1"
  shows "commits (\<lambda>db' _. refines_ledger db db')
     (finish_admission ext env auth account project operation key hash hid db1 reservation status)"
  unfolding finish_admission_def
  by (intro commits_rules commits_Committed)
     (use assms in \<open>blast intro: refines_trans admission_audit_refines store_admission_refines\<close>)

lemma admit_new_refines:
  "commits (\<lambda>db' _. refines_ledger db db')
     (admit_new ext env auth account project deployment expected operation key hash request db)"
  unfolding admit_new_def admit_initial_def admit_rollout_def Let_def
proof (intro commits_rules commits_Committed finish_admission_refines; (simp only: ensure_Inr ok_or_Inr)?)
  fix e db1 h
  assume e: "lock_entitlement_and_pool account db = Inr e"
    and ex: "expire_holds_for_scope env (env_now env 1) account (ent_pool_key e) db = Some db1"
  note ex' = expire_holds_refines [OF ex [unfolded expire_holds_for_scope_def]]
  then show "refines_ledger db db1" by blast
  assume find: "find_owned_hold account project deployment (adr_capacity_hold_id request) db1 = Some h"
    and live: "\<not> (hold_state h \<noteq> ''active'' \<or> hold_expires_at h \<le> env_now env 5)"
  note h = find_owned_hold_Some [OF find]
  {
    fix db2 db3 db4
    assume kind: "hold_kind h = ''initial''" and con: "consume_hold env (adr_capacity_hold_id request) db1 = Some db2"
      and ins: "insert_reservation (new_reservation env account project deployment e (adr_capacity_hold_id request)) db2 = Some db3"
      and pr: "project_reserved env account project deployment db3 = Some db4"
    have "refines_ledger db1 db3"
      using admit_initial_refines [of env h db1 db2 e project deployment db3] con ins h kind live lock_entitlement_Inr [OF e]
      by (simp add: active_initial_def ex'(2))
    with ex'(1) same_capacity_refines [OF project_reserved_same [OF pr]] show "refines_ledger db db4"
      by (blast intro: refines_trans)
  next
    fix db2 db3
    assume con: "consume_hold env (adr_capacity_hold_id request) db1 = Some db2"
      and ro: "rollout_admitted env account project deployment db2 = Inr db3"
    have "refines_ledger db1 db2" using consume_hold_refines [of env h db1 db2] con h live by simp
    with ex'(1) same_capacity_refines [OF rollout_admitted_same [OF ro]] show "refines_ledger db db3"
      by (blast intro: refines_trans)
  }
qed

lemma admit_refines:
  "refines_ledger db (fst (admit ext env auth project_path deployment_path headers request db))"
  unfolding admit_def admit_tx_def
  by (intro run_txn_inv [where R = "refines_ledger db"] refines_refl commits_rules replay_admission_refines admit_new_refines)

lemma reconcile_refines: "refines_ledger db (fst (reconcile env db))"
  by (auto simp: reconcile_def intro: refines_refl expire_holds_refines split: option.splits)

lemma finish_fixture_refines:
  assumes "refines_ledger db db1"
  shows "commits (\<lambda>db' _. refines_ledger db db') (finish_fixture to_value event kind hash response db1)"
  unfolding finish_fixture_def
  by (intro commits_rules commits_Committed)
     (use assms in \<open>blast intro: refines_trans same_capacity_refines store_fixture_same\<close>)

lemma with_receipt_refines:
  "commits (\<lambda>db' _. refines_ledger db db') fresh \<Longrightarrow>
     commits (\<lambda>db' _. refines_ledger db db') (with_receipt ext from_value kind event hash db fresh)"
  unfolding with_receipt_def by (intro commits_rules commits_Committed refines_refl)

lemma put_capacity_refines: "refines_ledger db (fst (put_capacity_fixture ext env request db))"
  unfolding put_capacity_fixture_def put_capacity_tx_def
  by (intro run_txn_inv [where R = "refines_ledger db"] refines_refl commits_rules with_receipt_refines finish_fixture_refines)
     (auto intro: upsert_pool_refines)

lemma put_entitlement_refines: "refines_ledger db (fst (put_entitlement_fixture ext env request db))"
  unfolding put_entitlement_fixture_def put_entitlement_tx_def
  by (intro run_txn_inv [where R = "refines_ledger db"] refines_refl commits_rules with_receipt_refines finish_fixture_refines)
     (auto simp: usage_totals_def seconds_used_def entitlement_replaced_def intro: upsert_entitlement_refines)

lemma put_source_proof_refines: "refines_ledger db (fst (put_source_proof ext env request db))"
  unfolding put_source_proof_def put_source_proof_tx_def
  by (intro run_txn_inv [where R = "refines_ledger db"] refines_refl commits_rules with_receipt_refines finish_fixture_refines)
     (blast intro: same_capacity_refines same_capacity_trans other_statements_same)

lemma retain_resources_refines:
  assumes "retain_resources env request db = Some db'" and r: "r \<in> set (ad_reservations db)"
    "res_id r = ror_reservation_id request" "unreleased r"
  shows "refines_ledger db db'"
proof (cases "admission_inv db")
  case True
  then have "inj_on res_id (set (ad_reservations db))" by (simp add: admission_inv_def distinct_map)
  then have unique: "x = r" if "x \<in> set (ad_reservations db)" "res_id x = ror_reservation_id request" for x
    using that r by (metis inj_onD)
  obtain db1 where upd: "update_reservations (\<lambda>r. res_id r = ror_reservation_id request)
       (\<lambda>r. r\<lparr>res_state := ''resources_retained'', res_retention_reason := Some (ror_resource_inventory request),
              res_updated_at := env_now env 0\<rparr>) db = Some db1" and same: "same_capacity db1 db'"
    using assms(1) by (auto simp: retain_resources_def bind_eq_Some_conv intro: other_statements_same)
  have "refines_ledger db db1"
    by (rule update_reservations_refines [OF upd]) (use unique r(3) in auto)
  with same show ?thesis by (blast intro: refines_trans same_capacity_refines)
qed (simp add: refines_ledger_def)

lemma release_slot_refines:
  assumes "release_slot env request db = Some db'"
  shows "refines_ledger db db'"
proof -
  obtain db1 where upd: "update_reservations (\<lambda>r. res_id r = ror_reservation_id request)
         (\<lambda>r. r\<lparr>res_state := ''released'', res_retention_reason := None,
                res_release_observation_id := Some (ror_event_id request),
                res_released_at := Some (env_now env 1), res_updated_at := env_now env 0\<rparr>) db = Some db1"
    and same: "same_capacity db1 db'"
    using assms
    by (auto simp: release_slot_def bind_eq_Some_conv intro: same_capacity_trans other_statements_same)
  have "refines_ledger db db1"
    by (rule update_reservations_refines [OF upd]) (simp_all add: unreleased_def)
  with same show ?thesis by (blast intro: refines_trans same_capacity_refines)
qed

lemma apply_outcome_refines:
  assumes out: "apply_outcome env request r db = Inr (db', released)" and r: "r \<in> set (ad_reservations db)"
    "res_id r = ror_reservation_id request"
  shows "refines_ledger db db'"
proof -
  have hold: "refines_ledger db db2" if upd: "update_holds (rollout_hold_of request (res_pool_key r) hid {''consumed''})
      (\<lambda>h. h\<lparr>hold_state := ''released'', hold_released_at := Some (env_now env 1)\<rparr>) db = Some db2" for hid db2
    by (rule update_holds_refines [OF upd]) (simp_all add: active_initial_def rollout_in_use_def)
  have retain: "refines_ledger db db2" if "retain_resources env request db = Some db2" "res_state r \<noteq> ''released''" for db2
    using retain_resources_refines [OF that(1) r] that(2) by (simp add: unreleased_def)
  have map: "map_sum id f (ok_or e v) = Inr x \<longleftrightarrow> (\<exists>y. v = Some y \<and> x = f y)" for f e v and x :: "'a admission_db \<times> uuid option"
    by (cases v) (auto simp: ok_or_def)
  show ?thesis
    using out hold retain
    by (auto simp: apply_outcome_def Let_def map split: if_splits option.splits
        intro: refines_refl release_slot_refines same_capacity_refines other_statements_same)
qed

lemma record_observation_refines: "refines_ledger db (fst (record_resource_observation ext env request db))"
  unfolding record_resource_observation_def record_observation_tx_def Let_def
proof (intro run_txn_inv [where R = "refines_ledger db"] refines_refl commits_rules with_receipt_refines finish_fixture_refines)
  fix r db1 db2 x released
  assume r: "ok_or not_found (find (\<lambda>r. res_id r = ror_reservation_id request \<and> res_account_id r = ror_account_id request
       \<and> res_project_id r = ror_project_id request) (ad_reservations db)) = Inr r"
    and obs: "insert_observation \<lparr>obs_id = ror_event_id request, obs_account_id = ror_account_id request,
       obs_project_id = ror_project_id request, obs_deployment_id = ror_deployment_id request,
       obs_reservation_id = ror_reservation_id request, obs_reservation_epoch = ror_reservation_epoch request,
       obs_rollout_hold_id = ror_rollout_hold_id request, obs_outcome = ror_outcome request,
       obs_resource_inventory = ror_resource_inventory request, obs_proof_ref = ror_proof_ref request\<rparr> db = Some db1"
    and out: "apply_outcome env request r db1 = Inr x" "x = (db2, released)"
  have same: "same_capacity db db1" using obs by (rule other_statements_same)
  have "r \<in> set (ad_reservations db1)" "res_id r = ror_reservation_id request"
    using r same by (auto simp: find_Some_iff same_capacity_def)
  then have "refines_ledger db1 db2" using apply_outcome_refines out by metis
  with same_capacity_refines [OF same] show "refines_ledger db db2" by (rule refines_trans)
qed

lemma record_debit_refines:
  assumes rec: "record_debit request e db = Inr db'" and e: "e \<in> set (ad_entitlements db)" "ent_account_id e = bur_account_id request"
  shows "refines_ledger db db'"
proof (cases "admission_inv db")
  case True
  from rec have ins: "insert_usage (usage_of_request request e ''debit'') db = Some db'"
    and fits: "seconds_used (bur_account_id request) db + bur_seconds request \<le> ent_build_seconds_limit e"
    by (auto simp: record_debit_def usage_totals_def seconds_used_def split: if_splits)
  show ?thesis
    by (rule debit_refines [OF ins])
       (use fits account_limit_row [OF True e(1), of ent_build_seconds_limit] e(2) in \<open>simp_all add: usage_of_request_def\<close>)
qed (simp add: refines_ledger_def)

lemma record_credit_refines:
  assumes "record_credit request e db = Inr db'"
  shows "refines_ledger db db'"
proof -
  obtain i d where d: "bur_debit_event_id request = Some i" "d \<in> set (ad_usage db)" "use_id d = i" "use_kind d = ''debit''"
      "use_account_id d = bur_account_id request" "use_seconds d = bur_seconds request"
    and none: "\<not> (\<exists>u \<in> set (ad_usage db). use_debit_event_id u = Some i)"
    and ins: "insert_usage ((usage_of_request request e ''platform_fault_credit'')
       \<lparr>use_debit_event_id := Some i, use_platform_fault_ref := bur_platform_fault_ref request\<rparr>) db = Some db'"
    using assms by (auto simp: record_credit_def split: option.splits if_splits dest!: find_SomeD)
  show ?thesis
    by (rule credit_refines [OF ins]) (use d none in \<open>auto simp: usage_of_request_def credit_matches_def\<close>)
qed

lemma record_usage_refines: "refines_ledger db (fst (record_build_usage ext env request db))"
  unfolding record_build_usage_def record_build_usage_tx_def Let_def
  by (intro run_txn_inv [where R = "refines_ledger db"] refines_refl commits_rules with_receipt_refines finish_fixture_refines)
     (auto split: if_splits intro: record_debit_refines record_credit_refines dest: lock_entitlement_Inr)

section \<open>Runs\<close>

text \<open>
  The admission endpoints in any order and with any arguments, and between them any change to the
  other tables: the project graph, GitHub bindings, proofs, stored responses and the audit trail.
\<close>

inductive admission_step :: "'v admission_db \<Rightarrow> 'v admission_db \<Rightarrow> bool" where
  "admission_step db (fst (create_hold ext env auth project_path deployment_path headers hold_request db))"
| "admission_step db (fst (admit ext env auth project_path deployment_path headers admit_request db))"
| "admission_step db (fst (reconcile env db))"
| "admission_step db (fst (put_capacity_fixture ext env capacity_request db))"
| "admission_step db (fst (put_entitlement_fixture ext env entitlement_request db))"
| "admission_step db (fst (put_source_proof ext env proof_request db))"
| "admission_step db (fst (record_resource_observation ext env observation_request db))"
| "admission_step db (fst (record_build_usage ext env usage_request db))"
| "same_capacity db db' \<Longrightarrow> admission_step db db'"

lemmas handler_refines =
  create_hold_refines admit_refines reconcile_refines put_capacity_refines put_entitlement_refines
  put_source_proof_refines record_observation_refines record_usage_refines same_capacity_refines

lemma admission_step_refines: "admission_step db db' \<Longrightarrow> refines_ledger db db'"
  by (induction rule: admission_step.induct) (rule handler_refines; assumption?)+

interpretation capacity: ledger_refinement ledger_of admission_inv admission_step
  by unfold_locales (use admission_step_refines in \<open>auto simp: refines_ledger_def\<close>)

end
