(* ===== verification/Admission_Properties.thy ===== *)
theory Admission_Properties
  imports Admission_Ledger
begin

text \<open>
  What hosting admission guarantees: every run of its endpoints refines the capacity ledger and stays
  within the recorded limits, a first admission turns a live hold into the project's one slot, and
  the admission of a rollback never succeeds.  The last section is a concrete run: limits, an
  entitlement and a source proof are recorded, a hold is taken (\<open>adm4\<close>) and consumed (\<open>adm5\<close>).
\<close>

section \<open>The capacity ledger\<close>

text \<open>C32: every run of the admission endpoints, interleaved with any changes of other tables,
  maps to a run of the abstract capacity ledger: limits are only set at or above the amount in use
  and an amount only grows while it stays within its limit.\<close>

theorem admission_refines_ledger:
  assumes "admission_step\<^sup>*\<^sup>* db db'" and "admission_inv db" and "ledger_ok (ledger_of db)"
  shows "ledger_step\<^sup>*\<^sup>* (ledger_of db) (ledger_of db')"
  using capacity.run_refines [OF assms] by blast

text \<open>No limits, holds, reservations or usage recorded yet.\<close>

definition no_admissions :: "'v admission_db \<Rightarrow> bool" where
  "no_admissions db \<longleftrightarrow>
     ad_pools db = [] \<and> ad_entitlements db = [] \<and> ad_holds db = [] \<and> ad_reservations db = [] \<and> ad_usage db = []"

lemma no_admissions_ok: "no_admissions db \<Longrightarrow> admission_inv db \<and> ledger_ok (ledger_of db)"
proof -
  assume "no_admissions db"
  then have "lg_used (ledger_of db) r = 0 \<and> lg_limit (ledger_of db) r = 0" for r
    by (cases r) (simp_all add: no_admissions_def account_slot_use_def pool_slot_use_def pool_rollout_use_def
        seconds_used_def usage_total_def count_rows_def account_limit_def pool_limit_def)
  with \<open>no_admissions db\<close> show ?thesis by (simp add: no_admissions_def admission_inv_def ledger_ok_def)
qed

lemma pool_limit_row:
  "admission_inv db \<Longrightarrow> p \<in> set (ad_pools db) \<Longrightarrow> pool_limit column (pool_key p) db = column p"
  using find_key_distinct [of pool_key "ad_pools db" p] by (simp add: pool_limit_def admission_inv_def)

text \<open>C33: from a database without admissions, no run of the endpoints ever exceeds a limit: in every
  pool the unreleased slots plus active initial holds stay within the hosted-slot limit and the
  rollout holds within the headroom; for every account the slots stay within the entitlement and the
  net build seconds between 0 and the allowance; and every hold and reservation names a pool.\<close>

theorem capacity_never_exceeded:
  assumes "no_admissions db0" and "admission_step\<^sup>*\<^sup>* db0 db"
  shows "(\<forall>p \<in> set (ad_pools db). pool_slot_use (pool_key p) db \<le> pool_hosted_slot_limit p
            \<and> pool_rollout_use (pool_key p) db \<le> pool_rollout_headroom_limit p)
    \<and> (\<forall>e \<in> set (ad_entitlements db). account_slot_use (ent_account_id e) db \<le> ent_hosted_slot_limit e
            \<and> 0 \<le> seconds_used (ent_account_id e) db
            \<and> seconds_used (ent_account_id e) db \<le> ent_build_seconds_limit e)
    \<and> (\<forall>h \<in> set (ad_holds db). hold_pool_key h \<in> pool_key ` set (ad_pools db))
    \<and> (\<forall>r \<in> set (ad_reservations db). res_pool_key r \<in> pool_key ` set (ad_pools db))"
proof -
  note start = no_admissions_ok [OF assms(1)]
  have inv: "admission_inv db" and ok: "ledger_ok (ledger_of db)"
    using capacity.run_refines [OF assms(2)] capacity.within_limits [OF assms(2)] start by auto
  have bound: "0 \<le> lg_used (ledger_of db) r" "lg_used (ledger_of db) r \<le> lg_limit (ledger_of db) r" for r
    using ok by (simp_all add: ledger_ok_def)
  have fk: "k \<in> pool_key ` set (ad_pools db)" if "entitlement_fk db i a k" for i a k
    using that inv by (auto simp: entitlement_fk_def admission_inv_def)
  show ?thesis
  proof (intro conjI ballI)
    fix p assume p: "p \<in> set (ad_pools db)"
    show "pool_slot_use (pool_key p) db \<le> pool_hosted_slot_limit p"
      using bound(2) [of "PoolSlots (pool_key p)"] by (simp add: pool_limit_row [OF inv p])
    show "pool_rollout_use (pool_key p) db \<le> pool_rollout_headroom_limit p"
      using bound(2) [of "PoolRollout (pool_key p)"] by (simp add: pool_limit_row [OF inv p])
  next
    fix e assume e: "e \<in> set (ad_entitlements db)"
    show "account_slot_use (ent_account_id e) db \<le> ent_hosted_slot_limit e"
      using bound(2) [of "AccountSlots (ent_account_id e)"] by (simp add: account_limit_row [OF inv e])
    show "0 \<le> seconds_used (ent_account_id e) db" "seconds_used (ent_account_id e) db \<le> ent_build_seconds_limit e"
      using bound [of "BuildSeconds (ent_account_id e)"] by (simp_all add: account_limit_row [OF inv e])
  qed (use inv fk in \<open>auto simp: admission_inv_def\<close>)
qed

section \<open>The first admission\<close>

lemma insert_refunds_graph: "insert_refunds env n hs db = Some db' \<Longrightarrow> ad_graph db' = ad_graph db"
  by (induction hs arbitrary: n db) (auto simp: insert_refund_def split: option.splits if_splits)

lemma expire_holds_tables:
  assumes "expire_holds env now scope db = Some db1"
  shows "ad_holds db1 = map (\<lambda>h. if expired_hold now scope h
      then h\<lparr>hold_state := ''expired'', hold_released_at := Some now\<rparr> else h) (ad_holds db)"
    and "ad_reservations db1 = ad_reservations db" and "ad_graph db1 = ad_graph db"
proof -
  let ?f = "\<lambda>h. h\<lparr>hold_state := ''expired'', hold_released_at := Some now\<rparr>"
  obtain db2 where upd: "update_holds (expired_hold now scope) ?f db = Some db2"
    and ref: "insert_refunds env 10 (filter (\<lambda>h. hold_kind h = ''initial'')
      (filter (expired_hold now scope) (ad_holds db))) db2 = Some db1"
    using assms by (auto simp: expire_holds_def Let_def simp del: filter_filter split: option.splits)
  have db2: "db2 = db\<lparr>ad_holds := map (\<lambda>h. if expired_hold now scope h then ?f h else h) (ad_holds db)\<rparr>"
    using upd unfolding update_holds_def Let_def by (simp split: if_splits)
  show "ad_holds db1 = map (\<lambda>h. if expired_hold now scope h then ?f h else h) (ad_holds db)"
    "ad_reservations db1 = ad_reservations db" "ad_graph db1 = ad_graph db"
    using insert_refunds_same [OF ref] insert_refunds_graph [OF ref] by (simp_all add: db2 same_capacity_def)
qed

lemma expired_still_active:
  assumes "expire_holds env now scope db = Some db1" "h \<in> set (ad_holds db1)" "hold_state h = ''active''"
  shows "h \<in> set (ad_holds db)"
  using expire_holds_tables(1) [OF assms(1)] assms(2,3) by (auto split: if_splits)

definition slot_granted :: "uuid \<Rightarrow> uuid \<Rightarrow> uuid \<Rightarrow> uuid \<Rightarrow> 'v admission_db \<Rightarrow> reservation_row \<Rightarrow> bool" where
  "slot_granted account project deployment hid db r \<longleftrightarrow>
     r \<in> set (ad_reservations db) \<and> res_account_id r = account \<and> res_project_id r = project
     \<and> res_first_deployment_id r = deployment \<and> res_initial_hold_id r = hid \<and> res_state r = ''reserved''
     \<and> (\<forall>q \<in> set (ad_reservations db). res_project_id q = project \<and> unreleased q \<longrightarrow> q = r)
     \<and> (\<forall>h \<in> set (ad_holds db). hold_id h = hid \<longrightarrow> hold_state h = ''consumed'')
     \<and> (\<forall>p \<in> set (g_projects (ad_graph db)). prow_account_id p = account \<and> prow_id p = project \<longrightarrow>
          prow_hosted_slots p = 1 \<and> prow_slot_state p = ''reserved'')
     \<and> (\<forall>d \<in> set (g_deployments (ad_graph db)). \<not> awaiting_admission account project deployment d)"

lemma hosting_event_keeps:
  assumes "insert_hosting_event e db = Some db'"
  shows "g_projects (ad_graph db') = g_projects (ad_graph db) \<and> g_deployments (ad_graph db') = g_deployments (ad_graph db)"
proof -
  have "db' = db\<lparr>ad_graph := (ad_graph db)\<lparr>g_hosting_events := g_hosting_events (ad_graph db) @ [e]\<rparr>\<rparr>"
    using assms unfolding insert_hosting_event_def Let_def by (simp split: if_splits)
  then show ?thesis by simp
qed

lemma admit_initial_grants:
  assumes con: "consume_hold env hid db1 = Some db2"
    and ins: "insert_reservation (new_reservation env account project deployment e hid) db2 = Some db3"
    and pr: "project_reserved env account project deployment db3 = Some db4"
  shows "slot_granted account project deployment hid db4 (new_reservation env account project deployment e hid)"
proof -
  let ?r = "new_reservation env account project deployment e hid"
  have ins': "db3 = db2\<lparr>ad_reservations := ad_reservations db2 @ [?r]\<rparr>
      \<and> reservations_index_ok (ad_reservations db2 @ [?r])"
    using ins unfolding insert_reservation_def by (simp split: if_splits)
  have holds: "ad_holds db4 = ad_holds db2" "ad_reservations db4 = ad_reservations db3"
    using project_reserved_same [OF pr] ins' by (simp_all add: same_capacity_def)
  have "ad_holds db2 = map (\<lambda>h. if hold_id h = hid
      then h\<lparr>hold_state := ''consumed'', hold_consumed_at := Some (env_now env 6)\<rparr> else h) (ad_holds db1)"
    using con unfolding consume_hold_def update_holds_def Let_def by (clarsimp split: if_splits)
  then have consumed: "\<forall>h \<in> set (ad_holds db2). hold_id h = hid \<longrightarrow> hold_state h = ''consumed''"
    by (simp only: set_map ball_simps) simp
  have res: "ad_reservations db3 = ad_reservations db2 @ [?r]"
    by (simp add: conjunct1 [OF ins'])
  have index: "reservations_index_ok (ad_reservations db2 @ [?r])"
    by (rule conjunct2 [OF ins'])
  have "unreleased ?r" by (simp add: unreleased_def new_reservation_def)
  with index have "res_project_id ?r \<notin> res_project_id ` set (filter unreleased (ad_reservations db2))"
    by (auto simp: reservations_index_ok_def)
  then have unique: "\<forall>q \<in> set (ad_reservations db3). res_project_id q = project \<and> unreleased q \<longrightarrow> q = ?r"
    by (auto simp: res new_reservation_def)
  from pr obtain g where up: "update_projects account project (reserve_project env)
      (set_lifecycle account project deployment {''admission_required''} ''queued'' db3) = Some g"
    and ev: "insert_hosting_event (reserved_event env 2 account project deployment
        ''M2 synthetic entitlement and capacity admission; no execution enqueued'') g = Some db4"
    unfolding project_reserved_def bind_eq_Some_conv by blast
  have kept: "g_projects (ad_graph db4) = g_projects (ad_graph g)" "g_deployments (ad_graph db4) = g_deployments (ad_graph g)"
    using hosting_event_keeps [OF ev] by simp_all
  let ?mine = "\<lambda>row. prow_account_id row = account \<and> prow_id row = project"
  let ?f = "\<lambda>row. if ?mine row then reserve_project env row else row"
  have "g = set_lifecycle account project deployment {''admission_required''} ''queued'' db3
      \<lparr>ad_graph := ad_graph (set_lifecycle account project deployment {''admission_required''} ''queued'' db3)
         \<lparr>g_projects := map ?f (g_projects (ad_graph (set_lifecycle account project deployment {''admission_required''} ''queued'' db3)))\<rparr>\<rparr>"
    using up unfolding update_projects_def Let_def by (simp split: if_splits)
  then have g: "g_projects (ad_graph g) = map ?f (g_projects (ad_graph db3))"
      "g_deployments (ad_graph g) = map (\<lambda>d. if awaiting_admission account project deployment d
         then d\<lparr>drow_lifecycle := ''queued''\<rparr> else d) (g_deployments (ad_graph db3))"
    by (simp_all add: set_lifecycle_def Let_def awaiting_admission_def)
  have "\<forall>p \<in> set (g_projects (ad_graph g)). ?mine p \<longrightarrow> prow_hosted_slots p = 1 \<and> prow_slot_state p = ''reserved''"
    by (simp only: g set_map ball_simps) (simp add: reserve_project_def, blast)
  moreover have "\<forall>d \<in> set (g_deployments (ad_graph g)). \<not> awaiting_admission account project deployment d"
    by (simp only: g set_map ball_simps) (simp add: awaiting_admission_def)
  ultimately show ?thesis
    using unique consumed by (simp add: slot_granted_def holds res new_reservation_def kept)
qed

lemma slot_granted_cong:
  "slot_granted account project deployment hid (db\<lparr>ad_audit := a, ad_idempotency := i\<rparr>) r
     = slot_granted account project deployment hid db r"
  by (simp add: slot_granted_def)

lemma finish_admission_response:
  "commits (\<lambda>db' r. (\<exists>a i. db' = db\<lparr>ad_audit := a, ad_idempotency := i\<rparr>)
       \<and> (\<exists>response. r = Inr (status, response) \<and> ar_reservation response = Some reservation
            \<and> ar_admitted_for_later_execution response \<and> hr_id (ar_hold response) = hid))
     (finish_admission ext env auth account project operation key hash hid db reservation status)"
  unfolding finish_admission_def Let_def
proof (intro commits_rules commits_Committed)
  fix hold db1 db2
  assume hold: "load_hold account project hid db = Inr hold"
    and au: "admission_audit (env_fresh env 3) account (auth_session_id auth) ''admission.consume''
          ''slot_reservation'' (Some (rvr_id reservation)) ''succeeded'' db = Some db1"
    and st: "store_admission ext account operation key hash (int status)
          \<lparr>ar_hold = hold, ar_reservation = Some reservation, ar_admitted_for_later_execution = True,
           ar_execution_enqueued = False\<rparr> db1 = Inr db2"
  have "hr_id hold = hid" using hold by (auto simp: load_hold_def split: option.splits dest!: find_SomeD)
  moreover obtain a where "db1 = db\<lparr>ad_audit := a\<rparr>"
    using au unfolding admission_audit_def insert_admission_audit_def by (simp split: if_splits) (metis (no_types))
  moreover obtain i where "db2 = db1\<lparr>ad_idempotency := i\<rparr>"
    using st unfolding store_admission_def by (simp split: sum.splits) (metis (no_types))
  ultimately show "(\<exists>a i. db2 = db\<lparr>ad_audit := a, ad_idempotency := i\<rparr>)
       \<and> (\<exists>response. Inr (status, \<lparr>ar_hold = hold, ar_reservation = Some reservation,
            ar_admitted_for_later_execution = True, ar_execution_enqueued = False\<rparr>) = Inr (status, response)
            \<and> ar_reservation response = Some reservation
            \<and> ar_admitted_for_later_execution response \<and> hr_id (ar_hold response) = hid)"
    by auto
qed

text \<open>What a first admission does, in terms of the request's identifiers.\<close>

definition first_admission ::
  "tx_env \<Rightarrow> uuid \<Rightarrow> uuid \<Rightarrow> uuid \<Rightarrow> uuid \<Rightarrow> 'v admission_db \<Rightarrow> 'v admission_db \<Rightarrow> admission_response \<Rightarrow> bool" where
  "first_admission env account project deployment hid db db' response \<longleftrightarrow>
     (\<exists>h \<in> set (ad_holds db). hold_id h = hid \<and> hold_account_id h = account \<and> hold_project_id h = project
        \<and> hold_deployment_id h = deployment \<and> active_initial h \<and> hold_expires_at h > env_now env 5)
     \<and> (\<exists>r. slot_granted account project deployment hid db' r \<and> res_id r \<notin> res_id ` set (ad_reservations db)
          \<and> map_option rvr_id (ar_reservation response) = Some (res_id r))
     \<and> hr_id (ar_hold response) = hid \<and> ar_admitted_for_later_execution response"

lemma admit_new_first:
  "commits (\<lambda>db' r. \<forall>response. r = Inr (201, response) \<longrightarrow>
       first_admission env account project deployment (adr_capacity_hold_id request) db db' response)
     (admit_new ext env auth account project deployment expected operation key hash request db)"
  unfolding admit_new_def admit_initial_def admit_rollout_def Let_def
proof (intro commits_rules commits_Committed)
  let ?hid = "adr_capacity_hold_id request"
  fix e db1 h db2 db3 db4 rv
  assume ex: "expire_holds_for_scope env (env_now env 1) account (ent_pool_key e) db = Some db1"
    and find: "ok_or not_found (find_owned_hold account project deployment ?hid db1) = Inr h"
    and live: "\<not> (hold_state h \<noteq> ''active'' \<or> hold_expires_at h \<le> env_now env 5)"
    and kind: "hold_kind h = ''initial''"
    and con: "consume_hold env ?hid db1 = Some db2"
    and ins: "insert_reservation (new_reservation env account project deployment e ?hid) db2 = Some db3"
    and pr: "project_reserved env account project deployment db3 = Some db4"
    and rec: "load_reservation account project (env_fresh env 0) db4 = Inr rv"
  let ?r = "new_reservation env account project deployment e ?hid"
  have "find_owned_hold account project deployment ?hid db1 = Some h" using find by simp
  then have h: "h \<in> set (ad_holds db1)" "hold_id h = ?hid" "hold_account_id h = account" "hold_project_id h = project"
      "hold_deployment_id h = deployment"
    unfolding find_owned_hold_def by (auto dest!: find_SomeD)
  have "h \<in> set (ad_holds db)"
    using expired_still_active [OF ex [unfolded expire_holds_for_scope_def] h(1)] live by simp
  then have held: "\<exists>h \<in> set (ad_holds db). hold_id h = ?hid \<and> hold_account_id h = account \<and> hold_project_id h = project
        \<and> hold_deployment_id h = deployment \<and> active_initial h \<and> hold_expires_at h > env_now env 5"
    using h live kind by (intro bexI [of _ h]) (auto simp: active_initial_def)
  have granted: "slot_granted account project deployment ?hid db4 ?r"
    by (rule admit_initial_grants [OF con ins pr])
  have "ad_reservations db2 = ad_reservations db1"
    using con unfolding consume_hold_def update_holds_def by (auto simp: Let_def split: if_splits)
  moreover have "ad_reservations db1 = ad_reservations db"
    by (rule expire_holds_tables(2) [OF ex [unfolded expire_holds_for_scope_def]])
  ultimately have new: "res_id ?r \<notin> res_id ` set (ad_reservations db)"
    using ins unfolding insert_reservation_def by (auto split: if_splits)
  have id: "rvr_id rv = res_id ?r"
    using rec by (auto simp: load_reservation_def new_reservation_def split: option.splits dest!: find_SomeD)
  show "commits (\<lambda>db' r. \<forall>response. r = Inr (201, response) \<longrightarrow>
       first_admission env account project deployment ?hid db db' response)
     (finish_admission ext env auth account project operation key hash ?hid db4 rv 201)"
    by (rule commits_mono [OF finish_admission_response])
       (use held granted new id in \<open>auto simp: first_admission_def slot_granted_cong\<close>)
next
  fix e db1 h db2 db3 active reservation
  show "commits (\<lambda>db' r. \<forall>response. r = Inr (201, response) \<longrightarrow>
       first_admission env account project deployment (adr_capacity_hold_id request) db db' response)
     (finish_admission ext env auth account project operation key hash (adr_capacity_hold_id request) db3 reservation 200)"
    by (rule commits_mono [OF finish_admission_response]) auto
qed simp

definition admission_replayed :: "'v admission_ext \<Rightarrow> header_map \<Rightarrow> uuid \<Rightarrow> uuid \<Rightarrow> uuid \<Rightarrow> 'v admission_db \<Rightarrow> bool" where
  "admission_replayed ext headers account project deployment db \<longleftrightarrow>
     (\<exists>key hash stored. idempotency_key headers = Inr key
       \<and> replay (ax_admission_from_value ext) (ad_idempotency db) account
           (''admission.consume/'' @ ax_show_uuid ext project @ ''/'' @ ax_show_uuid ext deployment) key hash
         = Inr (Match stored))"

lemma admit_accepted:
  assumes "admit ext env auth project_path deployment_path headers request db = (db', Inr (status, response))"
    and "\<And>account project deployment expected operation key hash.
      commits (\<lambda>db' r. \<forall>answer. r = Inr (status, answer) \<longrightarrow> Q account project deployment db' answer)
        (admit_new ext env auth account project deployment expected operation key hash request db)"
  obtains account project deployment
  where "admission_account ext auth = Inr account" "path_uuid (ax_parse_uuid ext) project_path = Inr project"
    "path_uuid (ax_parse_uuid ext) deployment_path = Inr deployment"
    "Q account project deployment db' response \<or> status = 200 \<and> db' = db
       \<and> admission_replayed ext headers account project deployment db"
proof -
  let ?R = "\<lambda>db' r. \<forall>answer. r = Inr (status, answer) \<longrightarrow> (\<exists>account project deployment.
      admission_account ext auth = Inr account \<and> path_uuid (ax_parse_uuid ext) project_path = Inr project
      \<and> path_uuid (ax_parse_uuid ext) deployment_path = Inr deployment
      \<and> (Q account project deployment db' answer \<or> status = 200 \<and> db' = db
         \<and> admission_replayed ext headers account project deployment db))"
  have "commits ?R (admit_tx ext env auth project_path deployment_path headers request db)"
    unfolding admit_tx_def replay_admission_def Let_def
  proof (intro commits_rules commits_Committed)
    fix account project deployment expected key hash
    assume "admission_account ext auth = Inr account" "path_uuid (ax_parse_uuid ext) project_path = Inr project"
      "path_uuid (ax_parse_uuid ext) deployment_path = Inr deployment"
    then show "commits ?R (admit_new ext env auth account project deployment expected
        (''admission.consume/'' @ ax_show_uuid ext project @ ''/'' @ ax_show_uuid ext deployment) key hash request db)"
      by (intro commits_mono [OF assms(2)]) blast
  next
    fix account project deployment expected key hash found stored refreshed
    assume "admission_account ext auth = Inr account" "path_uuid (ax_parse_uuid ext) project_path = Inr project"
      "path_uuid (ax_parse_uuid ext) deployment_path = Inr deployment"
    moreover assume "replay (ax_admission_from_value ext) (ad_idempotency db) account
        (''admission.consume/'' @ ax_show_uuid ext project @ ''/'' @ ax_show_uuid ext deployment) key hash = Inr found"
      "found = Match stored" "idempotency_key headers = Inr key"
    then have "admission_replayed ext headers account project deployment db" unfolding admission_replayed_def by blast
    ultimately show "?R db (Inr (200, refreshed))" by simp
  qed
  then have "?R db' (Inr (status, response))"
    by (rule run_txn_commits [OF _ assms(1) [unfolded admit_def]]) simp_all
  then show thesis using that by simp blast
qed

text \<open>C34: when \<open>admit\<close> answers 201 it has consumed a hold of the caller's account, project and
  deployment that was initial, active and unexpired, and has inserted a new reservation that is the
  project's only unreleased one; the project then shows one reserved slot, the deployment no longer
  awaits admission, and the response names that hold and that reservation.\<close>

theorem first_admission_reserves_slot:
  assumes "admit ext env auth project_path deployment_path headers request db = (db', Inr (201, response))"
  shows "\<exists>account project deployment.
     admission_account ext auth = Inr account \<and> path_uuid (ax_parse_uuid ext) project_path = Inr project
     \<and> path_uuid (ax_parse_uuid ext) deployment_path = Inr deployment
     \<and> first_admission env account project deployment (adr_capacity_hold_id request) db db' response"
proof -
  obtain account project deployment
    where "admission_account ext auth = Inr account" "path_uuid (ax_parse_uuid ext) project_path = Inr project"
      "path_uuid (ax_parse_uuid ext) deployment_path = Inr deployment"
      "first_admission env account project deployment (adr_capacity_hold_id request) db db' response"
    by (rule admit_accepted [OF assms admit_new_first]) auto
  then show ?thesis by blast
qed

section \<open>Rollbacks\<close>

lemma admit_new_rollback:
  assumes kind: "\<forall>h \<in> set (ad_holds db). hold_id h = adr_capacity_hold_id request \<longrightarrow> hold_kind h \<noteq> ''initial''"
    and target: "\<forall>d \<in> set (g_deployments (ad_graph db)). drow_id d = deployment \<longrightarrow> drow_lifecycle d \<noteq> ''admission_required''"
  shows "commits (\<lambda>_ r. \<forall>answer. r \<noteq> Inr answer)
     (admit_new ext env auth account project deployment expected operation key hash request db)"
  unfolding admit_new_def admit_initial_def admit_rollout_def Let_def
proof (intro commits_rules commits_Committed)
  fix e db1 h db2 db3 db4 rv
  let ?hid = "adr_capacity_hold_id request"
  assume ex: "expire_holds_for_scope env (env_now env 1) account (ent_pool_key e) db = Some db1"
    and find: "ok_or not_found (find_owned_hold account project deployment ?hid db1) = Inr h"
    and initial: "hold_kind h = ''initial''"
  have "h \<in> set (ad_holds db1)" "hold_id h = ?hid"
    using find unfolding find_owned_hold_def by (auto dest!: find_SomeD)
  moreover note expire_holds_tables(1) [OF ex [unfolded expire_holds_for_scope_def]]
  ultimately obtain g where "g \<in> set (ad_holds db)" "hold_id g = ?hid" "hold_kind g = hold_kind h"
    by (auto split: if_splits)
  with kind initial show "commits (\<lambda>_ r. \<forall>answer. r \<noteq> Inr answer)
     (finish_admission ext env auth account project operation key hash ?hid db4 rv 201)"
    by auto
next
  let ?hid = "adr_capacity_hold_id request"
  fix e db1 h db2 db3 active reservation
  assume ex: "expire_holds_for_scope env (env_now env 1) account (ent_pool_key e) db = Some db1"
    and con: "consume_hold env ?hid db1 = Some db2"
    and roll: "rollout_admitted env account project deployment db2 = Inr db3"
  have "ad_graph db2 = ad_graph db1"
    using con unfolding consume_hold_def update_holds_def by (auto simp: Let_def split: if_splits)
  with expire_holds_tables(3) [OF ex [unfolded expire_holds_for_scope_def]]
  have "filter (awaiting_admission account project deployment) (g_deployments (ad_graph db2)) = []"
    using target by (auto simp: filter_empty_conv awaiting_admission_def)
  with roll show "commits (\<lambda>_ r. \<forall>answer. r \<noteq> Inr answer)
     (finish_admission ext env auth account project operation key hash ?hid db3 reservation 200)"
    by (simp add: rollout_admitted_def)
qed simp

text \<open>C35: \<open>admit\<close> under a fresh idempotency key never succeeds for a rollout hold on a healthy
  deployment, although \<open>ensure_lifecycle_allows_hold\<close> asks for exactly that state when a rollback is
  pending: \<open>rollout_admitted\<close> expects the deployment to be awaiting admission.\<close>

theorem rollback_is_never_admitted:
  assumes "path_uuid (ax_parse_uuid ext) deployment_path = Inr target"
    and "\<forall>d \<in> set (g_deployments (ad_graph db)). drow_id d = target \<longrightarrow> drow_lifecycle d = ''healthy''"
    and "\<forall>h \<in> set (ad_holds db). hold_id h = adr_capacity_hold_id request \<longrightarrow> hold_kind h = ''rollout''"
    and "idempotency_key headers = Inr key" and "\<forall>i \<in> set (ad_idempotency db). idem_key i \<noteq> key"
  shows "snd (admit ext env auth project_path deployment_path headers request db) \<noteq> Inr answer"
proof
  assume "snd (admit ext env auth project_path deployment_path headers request db) = Inr answer"
  moreover obtain db' status response where
    "fst (admit ext env auth project_path deployment_path headers request db) = db'" "answer = (status, response)"
    by (metis surj_pair)
  ultimately have accepted: "admit ext env auth project_path deployment_path headers request db = (db', Inr (status, response))"
    by (simp add: prod_eq_iff)
  obtain account project where "admission_replayed ext headers account project target db"
  proof (rule admit_accepted [OF accepted, where Q = "\<lambda>_ _ deployment _ _. deployment \<noteq> target"])
    fix account project' deployment expected operation key hash
    show "commits (\<lambda>db' r. \<forall>answer. r = Inr (status, answer) \<longrightarrow> deployment \<noteq> target)
        (admit_new ext env auth account project' deployment expected operation key hash request db)"
    proof (cases "deployment = target")
      case True
      then show ?thesis using assms(2,3) by (intro commits_mono [OF admit_new_rollback]) auto
    qed (simp add: commits_def split: txn.split)
  qed (use assms(1) in auto)
  then obtain hash stored where "replay (ax_admission_from_value ext) (ad_idempotency db) account
      (''admission.consume/'' @ ax_show_uuid ext project @ ''/'' @ ax_show_uuid ext target) key hash = Inr (Match stored)"
    using assms(4) unfolding admission_replayed_def by auto
  then show False
    using assms(5) unfolding replay_def find_record_def by (auto split: option.splits if_splits dest!: find_SomeD)
qed

section \<open>A concrete run\<close>

definition adm_ext :: "admission_response option admission_ext" where
  "adm_ext =
     \<lparr>ax_parse_uuid = map_of [(''account'', 1), (''project'', 2), (''deployment'', 3), (''event'', 4)],
      ax_show_uuid = (\<lambda>u. if u = 1 then ''account'' else if u = 2 then ''project'' else if u = 3 then ''deployment'' else ''event''),
      ax_sha256 = (\<lambda>s. replicate 32 CHR ''h''),
      ax_hold_bytes = (\<lambda>_. Some ''hold''), ax_admit_bytes = (\<lambda>_. Some ''admit''),
      ax_capacity_bytes = (\<lambda>_. Some ''capacity''), ax_entitlement_bytes = (\<lambda>_. Some ''entitlement''),
      ax_proof_bytes = (\<lambda>_. Some ''proof''), ax_observation_bytes = (\<lambda>_. Some ''observation''),
      ax_usage_bytes = (\<lambda>_. Some ''usage''),
      ax_admission_to_value = (\<lambda>r. Some (Some r)), ax_admission_from_value = (\<lambda>v. v),
      ax_capacity_to_value = (\<lambda>_. Some None), ax_capacity_from_value = (\<lambda>_. None),
      ax_entitlement_to_value = (\<lambda>_. Some None), ax_entitlement_from_value = (\<lambda>_. None),
      ax_proof_to_value = (\<lambda>_. Some None), ax_proof_from_value = (\<lambda>_. None),
      ax_observation_to_value = (\<lambda>_. Some None), ax_observation_from_value = (\<lambda>_. None),
      ax_usage_to_value = (\<lambda>_. Some None), ax_usage_from_value = (\<lambda>_. None)\<rparr>"

definition adm_env :: "int \<Rightarrow> tx_env" where
  "adm_env k = \<lparr>env_now = (\<lambda>i. k * 10 + int i), env_fresh = (\<lambda>i. of_int (100 * k + int i)), env_locked = {}\<rparr>"

definition adm_auth :: authenticated where
  "adm_auth = \<lparr>auth_account_id = ''account'', auth_session_id = 9\<rparr>"

definition adm_headers :: "string \<Rightarrow> string \<Rightarrow> header_map" where
  "adm_headers key revision = \<lparr>hdr_idempotency_key = Some (Visible key), hdr_if_match = Some (Visible revision)\<rparr>"

definition adm0 :: "admission_response option admission_db" where
  "adm0 = \<lparr>ad_pools = [], ad_entitlements = [], ad_proofs = [], ad_holds = [], ad_reservations = [],
     ad_observations = [], ad_usage = [], ad_refunds = [], ad_receipts = [],
     ad_graph = \<lparr>g_accounts = [1],
       g_projects = [\<lparr>prow_id = 2, prow_account_id = 1, prow_hosted_slots = 0, prow_slot_state = ''no_slot'',
          prow_current_configuration = Some 7, prow_revision = 1, prow_updated_at = 0\<rparr>],
       g_deployments = [\<lparr>drow_id = 3, drow_account_id = 1, drow_project_id = 2, drow_configuration_revision_id = 7,
          drow_source_commit = replicate 40 CHR ''a'', drow_lifecycle = ''admission_required''\<rparr>],
       g_lifecycle_intents = [], g_hosting_events = [], g_bindings = [], g_authorizations = [],
       g_installations = [], g_source_revisions = []\<rparr>,
     ad_idempotency = [], ad_audit = []\<rparr>"

definition adm_proof :: "uuid \<Rightarrow> int \<Rightarrow> source_proof_request" where
  "adm_proof event revision = \<lparr>spr_event_id = event, spr_account_id = 1, spr_project_id = 2, spr_deployment_id = 3,
     spr_configuration_revision_id = 7, spr_source_commit = replicate 40 CHR ''a'',
     spr_inventory_revision = revision, spr_expires_at = 1000000000\<rparr>"

definition adm1 where
  "adm1 = fst (put_capacity_fixture adm_ext (adm_env 1) \<lparr>cfr_event_id = 4, cfr_pool_key = ''pool'', cfr_profile = ''small'',
     cfr_hosted_slot_limit = 1, cfr_rollout_headroom_limit = 1\<rparr> adm0)"

definition adm2 where
  "adm2 = fst (put_entitlement_fixture adm_ext (adm_env 2) \<lparr>efr_event_id = 1, efr_account_id = 1, efr_pool_key = ''pool'',
     efr_hosted_slot_limit = 1, efr_build_seconds_limit = 600, efr_period_starts_at = 0,
     efr_period_ends_at = 1000000000, efr_state = ''active''\<rparr> adm1)"

definition adm3 where "adm3 = fst (put_source_proof adm_ext (adm_env 3) (adm_proof 2 1) adm2)"

definition adm4 where
  "adm4 = fst (create_hold adm_ext (adm_env 4) adm_auth ''project'' ''deployment'' (adm_headers ''key-4'' ''\"1\"'')
     \<lparr>chr_source_proof_id = 300, chr_ttl_seconds = 60\<rparr> adm3)"

definition adm5 where
  "adm5 = fst (admit adm_ext (adm_env 5) adm_auth ''project'' ''deployment'' (adm_headers ''key-5'' ''\"1\"'')
     \<lparr>adr_capacity_hold_id = 400\<rparr> adm4)"

text \<open>Later: the slot is reserved, the deployment is healthy and its owner asked for a rollback to it.\<close>

definition adm6 where
  "adm6 = adm0\<lparr>
     ad_pools := [\<lparr>pool_key = ''pool'', pool_profile = ''small'', pool_hosted_slot_limit = 1,
       pool_rollout_headroom_limit = 1, pool_revision = 1, pool_updated_at = 10\<rparr>],
     ad_entitlements := [\<lparr>ent_id = 200, ent_account_id = 1, ent_pool_key = ''pool'',
       ent_source = ''synthetic_internal'', ent_hosted_slot_limit = 1, ent_build_seconds_limit = 600,
       ent_period_starts_at = 0, ent_period_ends_at = 1000000000, ent_state = ''active'', ent_revision = 1,
       ent_updated_at = 20\<rparr>],
     ad_proofs := [\<lparr>proof_id = 300, proof_account_id = 1, proof_project_id = 2, proof_deployment_id = 3,
       proof_configuration_revision_id = 7, proof_source_commit = replicate 40 CHR ''a'',
       proof_inventory_revision = 1, proof_source = ''synthetic_internal'', proof_state = ''valid'',
       proof_expires_at = 1000000000, proof_created_at = 30\<rparr>],
     ad_reservations := [\<lparr>res_id = 500, res_account_id = 1, res_project_id = 2, res_first_deployment_id = 3,
       res_entitlement_id = 200, res_pool_key = ''pool'', res_initial_hold_id = 400, res_epoch = 501,
       res_state = ''reserved'', res_retention_reason = None, res_release_observation_id = None,
       res_created_at = 50, res_updated_at = 50, res_released_at = None\<rparr>],
     ad_graph := (ad_graph adm0)\<lparr>
       g_projects := [\<lparr>prow_id = 2, prow_account_id = 1, prow_hosted_slots = 1, prow_slot_state = ''reserved'',
         prow_current_configuration = Some 7, prow_revision = 2, prow_updated_at = 50\<rparr>],
       g_deployments := [\<lparr>drow_id = 3, drow_account_id = 1, drow_project_id = 2,
         drow_configuration_revision_id = 7, drow_source_commit = replicate 40 CHR ''a'',
         drow_lifecycle = ''healthy''\<rparr>],
       g_lifecycle_intents := [\<lparr>lin_account_id = 1, lin_project_id = 2, lin_kind = ''rollback'',
         lin_target_deployment_id = Some 3, lin_state = ''requested''\<rparr>]\<rparr>\<rparr>"

definition adm7 where
  "adm7 = fst (create_hold adm_ext (adm_env 7) adm_auth ''project'' ''deployment'' (adm_headers ''key-7'' ''\"2\"'')
     \<lparr>chr_source_proof_id = 300, chr_ttl_seconds = 60\<rparr> adm6)"


lemma reach_adm5: "admission_step\<^sup>*\<^sup>* adm0 adm5"
proof -
  have "admission_step adm0 adm1" unfolding adm1_def by (rule admission_step.intros(4))
  moreover have "admission_step adm1 adm2" unfolding adm2_def by (rule admission_step.intros(5))
  moreover have "admission_step adm2 adm3" unfolding adm3_def by (rule admission_step.intros(6))
  moreover have "admission_step adm3 adm4" unfolding adm4_def by (rule admission_step.intros(1))
  moreover have "admission_step adm4 adm5" unfolding adm5_def by (rule admission_step.intros(2))
  ultimately show ?thesis by (auto intro: rtranclp.rtrancl_into_rtrancl)
qed

lemma adm0_empty: "no_admissions adm0"
  by (simp add: no_admissions_def adm0_def)

theorem admission_refines_ledger_witness: "ledger_step\<^sup>*\<^sup>* (ledger_of adm0) (ledger_of adm5)"
  using admission_refines_ledger [OF reach_adm5] no_admissions_ok [OF adm0_empty] by blast

theorem capacity_never_exceeded_witness:
  "\<exists>p \<in> set (ad_pools adm5). pool_slot_use (pool_key p) adm5 = 1 \<and> pool_hosted_slot_limit p = 1
     \<and> pool_slot_use (pool_key p) adm5 \<le> pool_hosted_slot_limit p"
proof -
  have "\<exists>p \<in> set (ad_pools adm5). pool_slot_use (pool_key p) adm5 = 1 \<and> pool_hosted_slot_limit p = 1"
    by code_simp
  with capacity_never_exceeded [OF adm0_empty reach_adm5] show ?thesis by blast
qed

theorem first_admission_reserves_slot_witness:
  "\<exists>r. slot_granted 1 2 3 400 adm5 r"
proof -
  let ?r = "admit adm_ext (adm_env 5) adm_auth ''project'' ''deployment'' (adm_headers ''key-5'' ''\"1\"'')
     \<lparr>adr_capacity_hold_id = 400\<rparr> adm4"
  have "case snd ?r of Inr (status, _) \<Rightarrow> status = 201 | _ \<Rightarrow> False" by code_simp
  then obtain response where "?r = (adm5, Inr (201, response))"
    by (cases ?r) (auto simp: adm5_def split: sum.splits)
  from first_admission_reserves_slot [OF this] show ?thesis
    by (auto simp: first_admission_def adm_ext_def adm_auth_def admission_account_def ok_or_def path_uuid_def)
qed

definition rollback_tables :: "'v admission_db \<Rightarrow> (uuid \<times> string) list \<times> (uuid \<times> string \<times> string) list \<times> string list" where
  "rollback_tables db = (map (\<lambda>d. (drow_id d, drow_lifecycle d)) (g_deployments (ad_graph db)),
     map (\<lambda>h. (hold_id h, hold_kind h, hold_state h)) (ad_holds db), map idem_key (ad_idempotency db))"

lemma adm7_tables: "rollback_tables adm7 = ([(3, ''healthy'')], [(700, ''rollout'', ''active'')], [''key-7''])"
  by code_simp

lemma rollback_hold: "hold_kind (last (ad_holds adm7)) = ''rollout'' \<and> hold_state (last (ad_holds adm7)) = ''active''"
  using adm7_tables by (auto simp: rollback_tables_def map_eq_Cons_conv)

lemma rollback_answer:
  "snd (admit adm_ext (adm_env 8) adm_auth ''project'' ''deployment'' (adm_headers ''key-8'' ''\"2\"'')
     \<lparr>adr_capacity_hold_id = 700\<rparr> adm7) = Inl internal"
  by code_simp

theorem rollback_is_never_admitted_witness:
  "hold_kind (last (ad_holds adm7)) = ''rollout'' \<and> hold_state (last (ad_holds adm7)) = ''active''
   \<and> snd (admit adm_ext (adm_env 8) adm_auth ''project'' ''deployment'' (adm_headers ''key-8'' ''\"2\"'')
       \<lparr>adr_capacity_hold_id = 700\<rparr> adm7) = Inl internal
   \<and> snd (admit adm_ext (adm_env 8) adm_auth ''project'' ''deployment'' (adm_headers ''key-8'' ''\"2\"'')
       \<lparr>adr_capacity_hold_id = 700\<rparr> adm7) \<notin> range Inr"
proof -
  have "path_uuid (ax_parse_uuid adm_ext) ''deployment'' = Inr 3"
    "idempotency_key (adm_headers ''key-8'' ''\"2\"'') = Inr ''key-8''"
    by code_simp+
  moreover have "\<forall>d \<in> set (g_deployments (ad_graph adm7)). drow_id d = 3 \<longrightarrow> drow_lifecycle d = ''healthy''"
    "\<forall>h \<in> set (ad_holds adm7). hold_id h = 700 \<longrightarrow> hold_kind h = ''rollout''"
    "\<forall>i \<in> set (ad_idempotency adm7). idem_key i \<noteq> ''key-8''"
    using adm7_tables by (auto simp: rollback_tables_def map_eq_Cons_conv)
  ultimately have "snd (admit adm_ext (adm_env 8) adm_auth ''project'' ''deployment'' (adm_headers ''key-8'' ''\"2\"'')
       \<lparr>adr_capacity_hold_id = 700\<rparr> adm7) \<noteq> Inr answer" for answer
    using rollback_is_never_admitted [where request = "\<lparr>adr_capacity_hold_id = 700\<rparr>", unfolded admit_request.simps]
    by blast
  with rollback_hold rollback_answer show ?thesis by blast
qed

end
