(* ===== verification/Config_Scanner.thy ===== *)
theory Config_Scanner
  imports Hostlet_Prelude
begin

text \<open>
  The scanners with which \<^verbatim>\<open>crates/control/src/compatibility.rs\<close> looks for a literal property in a
  JavaScript configuration file.  Their loops run over byte indices, so each is a
  \<open>partial_function\<close> whose \<open>None\<close> means that it does not return; where the Rust function returns an
  \<open>Option\<close>, the inner option is that one.  The last sections show that every loop returns and that
  stripping comments agrees with a lexical grammar.
\<close>

section \<open>Searching strings\<close>

text \<open>\<open>str::find\<close> and \<open>str::contains\<close> with a string pattern: the first byte offset.\<close>

fun str_find :: "string \<Rightarrow> string \<Rightarrow> nat option" where
  "str_find pattern [] = (if pattern = [] then Some 0 else None)"
| "str_find pattern (c # s) =
     (if starts_with pattern (c # s) then Some 0 else map_option Suc (str_find pattern s))"

definition str_contains :: "string \<Rightarrow> string \<Rightarrow> bool" where
  "str_contains pattern s \<longleftrightarrow> str_find pattern s \<noteq> None"

definition slice :: "nat \<Rightarrow> nat \<Rightarrow> string \<Rightarrow> string" where
  "slice from to s = take (to - from) (drop from s)"

definition byte_at :: "string \<Rightarrow> nat \<Rightarrow> char option" where
  "byte_at bytes index = (if index < length bytes then Some (bytes ! index) else None)"

definition is_ascii_whitespace :: "char \<Rightarrow> bool" where
  "is_ascii_whitespace c \<longleftrightarrow> byte c \<in> {9, 10, 12, 13, 32}"

definition is_quote :: "char \<Rightarrow> bool" where
  "is_quote c \<longleftrightarrow> c = CHR 0x27 \<or> c = CHR 0x22"

section \<open>Comments\<close>

datatype js_state = Code | Single | Double | Template | LineComment | BlockComment

text \<open>The state after a byte of code, and the byte that ends a literal.\<close>

definition after_code :: "char \<Rightarrow> js_state" where
  "after_code b =
     (if b = CHR 0x27 then Single else if b = CHR 0x22 then Double else if b = CHR 0x60 then Template else Code)"

definition closes :: "js_state \<Rightarrow> char \<Rightarrow> bool" where
  "closes state b \<longleftrightarrow>
     state = Single \<and> b = CHR 0x27 \<or> state = Double \<and> b = CHR 0x22 \<or> state = Template \<and> b = CHR 0x60"

partial_function (option) strip_loop ::
  "string \<Rightarrow> js_state \<Rightarrow> nat \<Rightarrow> bool \<Rightarrow> string \<Rightarrow> (js_state \<times> string) option" where
  "strip_loop bytes state index escaped output =
     (if index < length bytes
      then let b = bytes ! index; next = byte_at bytes (index + 1)
           in if state = Code
              then if b = CHR ''/'' \<and> next = Some CHR ''/''
                   then strip_loop bytes LineComment (index + 2) escaped (output @ '' '')
                   else if b = CHR ''/'' \<and> next = Some CHR ''*''
                   then strip_loop bytes BlockComment (index + 2) escaped (output @ '' '')
                   else strip_loop bytes (after_code b) (index + 1) escaped (output @ utf8_char (byte b))
              else if state = LineComment
              then if b = CHR 0x0A then strip_loop bytes Code (index + 1) escaped (output @ [b])
                   else strip_loop bytes LineComment (index + 1) escaped output
              else if state = BlockComment
              then if b = CHR ''*'' \<and> next = Some CHR ''/'' then strip_loop bytes Code (index + 2) escaped output
                   else strip_loop bytes BlockComment (index + 1) escaped output
              else if escaped then strip_loop bytes state (index + 1) False (output @ utf8_char (byte b))
              else if b = CHR 0x5C then strip_loop bytes state (index + 1) True (output @ utf8_char (byte b))
              else strip_loop bytes (if closes state b then Code else state) (index + 1) False
                     (output @ utf8_char (byte b))
      else Some (state, output))"

definition strip_javascript_comments :: "string \<Rightarrow> string option option" where
  "strip_javascript_comments source =
     Option.bind (strip_loop source Code 0 False []) (\<lambda>(state, output).
       Some (if state \<in> {Code, LineComment} then Some output else None))"

section \<open>Quoted literals\<close>

partial_function (option) quoted_loop ::
  "string \<Rightarrow> char \<Rightarrow> nat \<Rightarrow> nat \<Rightarrow> bool \<Rightarrow> (nat \<times> string option) option option" where
  "quoted_loop bytes quote start index simple =
     (if index < length bytes
      then let b = bytes ! index
           in if b = quote
              then Some (Some (index + 1, if simple then Some (slice (start + 1) index bytes) else None))
              else if b = CHR 0x5C then quoted_loop bytes quote start (index + 2) False
              else if b = CHR 0x0A \<or> b = CHR 0x0D then Some None
              else quoted_loop bytes quote start (index + 1) simple
      else Some None)"

definition parse_simple_quoted :: "string \<Rightarrow> nat \<Rightarrow> (nat \<times> string option) option option" where
  "parse_simple_quoted bytes start =
     (case byte_at bytes start of
        None \<Rightarrow> Some None
      | Some quote \<Rightarrow> quoted_loop bytes quote start (start + 1) True)"

partial_function (option) skip_ascii_whitespace :: "string \<Rightarrow> nat \<Rightarrow> nat option" where
  "skip_ascii_whitespace bytes index =
     (if index < length bytes \<and> is_ascii_whitespace (bytes ! index)
      then skip_ascii_whitespace bytes (index + 1) else Some index)"

section \<open>The exported object\<close>

partial_function (option) object_loop :: "string \<Rightarrow> nat \<Rightarrow> nat \<Rightarrow> string option option" where
  "object_loop object index depth =
     (if index < length object
      then let b = object ! index
           in if is_quote b
              then Option.bind (parse_simple_quoted object index) (\<lambda>q.
                     case q of None \<Rightarrow> Some None | Some (end, content) \<Rightarrow> object_loop object end depth)
              else if b = CHR 0x60 then Some None
              else if b = CHR ''{'' then object_loop object (index + 1) (depth + 1)
              else if b = CHR ''}''
              then if depth = 0 then Some None
                   else if depth = 1
                   then let trailing = trim (drop (index + 1) object)
                        in Some (if trailing \<noteq> [] \<and> trailing \<noteq> '';'' then None else Some (take (index + 1) object))
                   else object_loop object (index + 1) (depth - 1)
              else object_loop object (index + 1) depth
      else Some None)"

definition static_object :: "string \<Rightarrow> string option option" where
  "static_object exported =
     Option.bind (skip_ascii_whitespace exported 0) (\<lambda>start.
       let object = drop start exported
       in if \<not> starts_with ''{'' object \<or> str_contains ''...'' object \<or> str_contains ''Object.assign'' object
             \<or> str_contains ''=>'' object \<or> str_contains ''function'' object \<or> str_contains ''['' object
          then Some None else object_loop object 0 0)"

definition static_exported_object :: "string \<Rightarrow> string option option" where
  "static_exported_object source =
     (case str_find ''export default'' source of
        Some offset \<Rightarrow> static_object (drop (offset + length ''export default'') source)
      | None \<Rightarrow>
          (case str_find ''module.exports'' source of
             None \<Rightarrow> Some None
           | Some offset \<Rightarrow>
               let remainder = drop (offset + length ''module.exports'') source
               in Option.bind (skip_ascii_whitespace remainder 0) (\<lambda>equals.
                    if byte_at remainder equals \<noteq> Some CHR ''='' then Some None
                    else static_object (drop (equals + 1) remainder))))"

section \<open>A property with a literal value\<close>

definition word_byte :: "char \<Rightarrow> bool" where
  "word_byte c \<longleftrightarrow> is_ascii_alphanumeric c \<or> c = CHR ''_'' \<or> c = CHR ''$''"

definition word_start :: "char \<Rightarrow> bool" where
  "word_start c \<longleftrightarrow> is_ascii_alphabetic c \<or> c = CHR ''_'' \<or> c = CHR ''$''"

text \<open>The key at an index that starts a quoted or plain word: whether it is the property, and its end.\<close>

definition key_at :: "string \<Rightarrow> string \<Rightarrow> nat \<Rightarrow> (bool \<times> nat) option option" where
  "key_at bytes property index =
     (if is_quote (bytes ! index)
      then Option.bind (parse_simple_quoted bytes index) (\<lambda>q.
             Some (map_option (\<lambda>(end, content). (content = Some property, end)) q))
      else let end = index + length (takeWhile word_byte (drop index bytes))
           in Some (Some (slice index end bytes = property, end)))"

text \<open>What follows the property: the next index, and how many properties and literals were counted.\<close>

definition literal_after :: "string \<Rightarrow> string \<Rightarrow> nat \<Rightarrow> (nat \<times> nat \<times> nat) option option" where
  "literal_after bytes expected end =
     Option.bind (skip_ascii_whitespace bytes end) (\<lambda>colon.
       if byte_at bytes colon \<noteq> Some CHR '':'' then Some (Some (colon, 0, 0))
       else Option.bind (skip_ascii_whitespace bytes (colon + 1)) (\<lambda>index.
         if \<not> (index < length bytes \<and> is_quote (bytes ! index)) then Some (Some (index, 1, 0))
         else Option.bind (parse_simple_quoted bytes index) (\<lambda>q.
           Some (map_option (\<lambda>(end, content). (end, 1, if content = Some expected then 1 else 0)) q))))"

partial_function (option) literal_loop ::
  "string \<Rightarrow> string \<Rightarrow> string \<Rightarrow> nat \<Rightarrow> nat \<Rightarrow> nat \<Rightarrow> nat \<Rightarrow> bool option" where
  "literal_loop bytes property expected index depth properties literals =
     (if index < length bytes
      then let b = bytes ! index
           in if b = CHR ''{'' then literal_loop bytes property expected (index + 1) (depth + 1) properties literals
              else if b = CHR ''}''
              then literal_loop bytes property expected (index + 1) (depth - 1) properties literals
              else if is_quote b \<or> word_start b
              then Option.bind (key_at bytes property index) (\<lambda>k. case k of
                     None \<Rightarrow> Some False
                   | Some (is_property, end) \<Rightarrow>
                       if \<not> is_property \<or> depth \<noteq> 1
                       then literal_loop bytes property expected end depth properties literals
                       else Option.bind (literal_after bytes expected end) (\<lambda>v. case v of
                              None \<Rightarrow> Some False
                            | Some (next, p, l) \<Rightarrow>
                                literal_loop bytes property expected next depth (properties + p) (literals + l)))
              else literal_loop bytes property expected (index + 1) depth properties literals
      else Some (properties = 1 \<and> literals = 1))"

definition has_single_literal_property :: "string \<Rightarrow> string \<Rightarrow> string \<Rightarrow> bool option" where
  "has_single_literal_property source property expected =
     Option.bind (strip_javascript_comments source) (\<lambda>stripped. case stripped of
       None \<Rightarrow> Some False
     | Some text \<Rightarrow>
         Option.bind (static_exported_object text) (\<lambda>object. case object of
           None \<Rightarrow> Some False
         | Some bytes \<Rightarrow> literal_loop bytes property expected 0 0 0 0))"

declare strip_loop.simps [code] quoted_loop.simps [code] skip_ascii_whitespace.simps [code]
  object_loop.simps [code] literal_loop.simps [code]


section \<open>The loops return\<close>

lemma skip_returns: "\<exists>j. skip_ascii_whitespace bytes index = Some j \<and> index \<le> j"
proof (induction "length bytes - index" arbitrary: index)
  case (Suc n)
  then have "n = length bytes - (index + 1)" by simp
  from Suc(1) [OF this] show ?case
    by (subst skip_ascii_whitespace.simps) (auto dest: Suc_leD)
qed (subst skip_ascii_whitespace.simps, simp)

lemma quoted_loop_returns:
  "\<exists>q. quoted_loop bytes quote start index simple = Some q \<and> (\<forall>end content. q = Some (end, content) \<longrightarrow> index < end)"
proof (induction "length bytes - index" arbitrary: index simple rule: less_induct)
  case less
  show ?case
  proof (cases "index < length bytes")
    case True
    then have "length bytes - (index + 1) < length bytes - index" "length bytes - (index + 2) < length bytes - index"
      by linarith+
    note ih = less(1) [OF this(1), of simple] less(1) [OF this(2), of False]
    from ih show ?thesis
      by (subst quoted_loop.simps) (auto simp: Let_def dest: less_trans)
  qed (subst quoted_loop.simps, simp)
qed

lemma parse_simple_quoted_returns:
  "\<exists>q. parse_simple_quoted bytes start = Some q \<and> (\<forall>end content. q = Some (end, content) \<longrightarrow> start < end)"
  using quoted_loop_returns [of bytes _ start "start + 1" True]
  by (fastforce simp: parse_simple_quoted_def split: option.split dest: Suc_lessD)

lemma object_loop_returns: "\<exists>r. object_loop object index depth = Some r"
proof (induction "length object - index" arbitrary: index depth rule: less_induct)
  case less
  show ?case
  proof (cases "index < length object")
    case True
    then have step: "\<exists>r. object_loop object j d = Some r" if "index < j" for j d
      using that by (intro less) linarith
    obtain q where q: "parse_simple_quoted object index = Some q" "\<And>end content. q = Some (end, content) \<Longrightarrow> index < end"
      using parse_simple_quoted_returns [of object index] by blast
    show ?thesis
      using q step by (subst object_loop.simps) (auto simp: Let_def split: option.split)
  qed (subst object_loop.simps, simp)
qed

lemma static_object_returns: "\<exists>r. static_object exported = Some r"
  using skip_returns [of exported 0] object_loop_returns
  by (auto simp: static_object_def Let_def)

lemma static_exported_object_returns: "\<exists>r. static_exported_object source = Some r"
proof (cases "str_find ''export default'' source")
  case None
  show ?thesis
  proof (cases "str_find ''module.exports'' source")
    case (Some offset)
    obtain j where "skip_ascii_whitespace (drop (offset + length ''module.exports'') source) 0 = Some j"
      using skip_returns by blast
    then show ?thesis
      using None Some static_object_returns by (simp add: static_exported_object_def Let_def del: One_nat_def)
  qed (simp add: static_exported_object_def None)
qed (simp add: static_exported_object_def static_object_returns)

lemma key_at_returns:
  assumes "index < length bytes" "is_quote (bytes ! index) \<or> word_start (bytes ! index)"
  shows "\<exists>k. key_at bytes property index = Some k \<and> (\<forall>p end. k = Some (p, end) \<longrightarrow> index < end)"
proof (cases "is_quote (bytes ! index)")
  case True
  then show ?thesis
    using parse_simple_quoted_returns [of bytes index] by (fastforce simp: key_at_def)
next
  case False
  with assms have "word_byte (bytes ! index)"
    by (auto simp: word_start_def word_byte_def is_ascii_alphanumeric_def)
  then have "takeWhile word_byte (drop index bytes) \<noteq> []"
    using assms(1) by (simp add: Cons_nth_drop_Suc [symmetric])
  with False show ?thesis by (simp add: key_at_def Let_def)
qed

lemma literal_after_returns:
  "\<exists>v. literal_after bytes expected end = Some v \<and> (\<forall>next p l. v = Some (next, p, l) \<longrightarrow> end \<le> next)"
proof -
  obtain colon where colon: "skip_ascii_whitespace bytes end = Some colon" "end \<le> colon"
    using skip_returns by blast
  obtain index where index: "skip_ascii_whitespace bytes (colon + 1) = Some index" "colon + 1 \<le> index"
    using skip_returns by blast
  obtain q where "parse_simple_quoted bytes index = Some q" "\<And>e content. q = Some (e, content) \<Longrightarrow> index < e"
    using parse_simple_quoted_returns [of bytes index] by blast
  with colon index show ?thesis by (cases q) (auto simp: literal_after_def)
qed

lemma literal_loop_returns: "\<exists>r. literal_loop bytes property expected index depth properties literals = Some r"
proof (induction "length bytes - index" arbitrary: index depth properties literals rule: less_induct)
  case less
  show ?case
  proof (cases "index < length bytes")
    case True
    then have step: "\<exists>r. literal_loop bytes property expected j d p l = Some r" if "index < j" for j d p l
      using that by (intro less) linarith
    show ?thesis
    proof (cases "is_quote (bytes ! index) \<or> word_start (bytes ! index)")
      case word: True
      obtain k where k: "key_at bytes property index = Some k" "\<And>p end. k = Some (p, end) \<Longrightarrow> index < end"
        using key_at_returns [OF True word] by blast
      show ?thesis
      proof (cases k)
        case None
        then show ?thesis using k(1) word step by (subst literal_loop.simps) (auto simp: Let_def)
      next
        case (Some pe)
        obtain p e where pe: "pe = (p, e)" "index < e" using k(2) Some by (cases pe) auto
        obtain v where v: "literal_after bytes expected e = Some v" "\<And>n p l. v = Some (n, p, l) \<Longrightarrow> e \<le> n"
          using literal_after_returns [of bytes expected e] by blast
        have "\<exists>r. (case v of None \<Rightarrow> Some False | Some (n, x, y) \<Rightarrow>
            literal_loop bytes property expected n depth (properties + x) (literals + y)) = Some r"
          using v(2) pe(2) step by (cases v) (auto dest: less_le_trans)
        then obtain r where "(case v of None \<Rightarrow> Some False | Some (n, x, y) \<Rightarrow>
            literal_loop bytes property expected n depth (properties + x) (literals + y)) = Some r"
          by blast
        then show ?thesis
          using k(1) word Some pe v(1) step by (subst literal_loop.simps) (auto simp: Let_def)
      qed
    next
      case False
      then show ?thesis using step by (subst literal_loop.simps) (simp add: Let_def)
    qed
  qed (subst literal_loop.simps, simp)
qed

section \<open>Stripping, without indices\<close>

fun strip_list :: "js_state \<Rightarrow> bool \<Rightarrow> string \<Rightarrow> js_state \<times> string" where
  "strip_list state escaped [] = (state, [])"
| "strip_list state escaped (b # s) =
     (if state = Code
      then if b = CHR ''/'' \<and> byte_at s 0 = Some CHR ''/''
           then apsnd ((@) '' '') (strip_list LineComment escaped (tl s))
           else if b = CHR ''/'' \<and> byte_at s 0 = Some CHR ''*''
           then apsnd ((@) '' '') (strip_list BlockComment escaped (tl s))
           else apsnd ((@) (utf8_char (byte b))) (strip_list (after_code b) escaped s)
      else if state = LineComment
      then if b = CHR 0x0A then apsnd ((@) [b]) (strip_list Code escaped s) else strip_list LineComment escaped s
      else if state = BlockComment
      then if b = CHR ''*'' \<and> byte_at s 0 = Some CHR ''/'' then strip_list Code escaped (tl s)
           else strip_list BlockComment escaped s
      else apsnd ((@) (utf8_char (byte b)))
             (if escaped then strip_list state False s
              else if b = CHR 0x5C then strip_list state True s
              else strip_list (if closes state b then Code else state) False s))"

declare strip_list.simps(2) [simp del]

lemma byte_at_drop: "byte_at bytes (index + 1) = byte_at (drop (Suc index) bytes) 0"
  by (simp add: byte_at_def)

lemma strip_loop_list:
  "strip_loop bytes state index escaped out
     = Some (apsnd ((@) out) (strip_list state escaped (drop index bytes)))"
proof (induction "length bytes - index" arbitrary: index state escaped out rule: less_induct)
  case less
  show ?case
  proof (cases "index < length bytes")
    case True
    then have ih: "strip_loop bytes st j e o' = Some (apsnd ((@) o') (strip_list st e (drop j bytes)))"
      if "index < j" for j st e o'
      using that by (intro less) linarith
    have drop: "drop index bytes = bytes ! index # drop (Suc index) bytes"
      using True by (rule Cons_nth_drop_Suc [symmetric])
    have tl: "tl (drop (Suc index) bytes) = drop (index + 2) bytes"
      by (simp add: drop_Suc [symmetric] tl_drop)
    show ?thesis
      unfolding drop strip_list.simps(2) byte_at_drop [symmetric] tl
      using True by (subst strip_loop.simps) (simp add: Let_def ih prod.map_comp o_def apsnd_def map_prod_def split_def)
  qed (subst strip_loop.simps, simp)
qed

lemma strip_javascript_comments_list:
  "strip_javascript_comments source =
     Some (let (state, output) = strip_list Code False source in if state \<in> {Code, LineComment} then Some output else None)"
  by (simp add: strip_javascript_comments_def strip_loop_list Let_def split_def)

text \<open>C36: the search for a literal property returns for every source: the comment stripper, the search
  for the exported object and the property loop all end, also on unterminated literals and
  comments.\<close>

theorem config_scan_returns: "\<exists>r. has_single_literal_property source property expected = Some r"
  using static_exported_object_returns literal_loop_returns
  by (simp add: has_single_literal_property_def strip_javascript_comments_list Let_def split_def split: option.split)
     (metis bind.bind_lunit option.case_eq_if)


section \<open>The lexical grammar\<close>

text \<open>
  The grammar is written without the scanner's own definitions: it names the three bytes that open a
  literal and the bytes that are written for a byte of the source.  The scanner pushes a byte as the
  character of that number, so a byte from 128 on becomes the two bytes of a Latin-1 character.
\<close>

datatype js_token = Plain char | Quoted char string | Line string | Block string

definition literal_quote :: "char \<Rightarrow> bool" where
  "literal_quote c \<longleftrightarrow> c \<in> {CHR 0x27, CHR 0x22, CHR 0x60}"

definition byte_written :: "char \<Rightarrow> string" where
  "byte_written c =
     (if byte c < 128 then [c] else if byte c < 192 then [char_of (194 :: nat), c] else [char_of (195 :: nat), char_of (byte c - 64)])"

text \<open>A literal's body: the closing character occurs only after a backslash.\<close>

fun quoted_body :: "char \<Rightarrow> string \<Rightarrow> bool" where
  "quoted_body q [] = True"
| "quoted_body q (c # s) =
     (if c = CHR 0x5C then (case s of [] \<Rightarrow> False | _ # t \<Rightarrow> quoted_body q t) else c \<noteq> q \<and> quoted_body q s)"

fun token_text :: "js_token \<Rightarrow> string" where
  "token_text (Plain c) = [c]"
| "token_text (Quoted q s) = q # s @ [q]"
| "token_text (Line s) = ''//'' @ s @ [CHR 0x0A]"
| "token_text (Block s) = ''/*'' @ s @ ''*/''"

fun token_stripped :: "js_token \<Rightarrow> string" where
  "token_stripped (Plain c) = byte_written c"
| "token_stripped (Quoted q s) = concat (map byte_written (q # s @ [q]))"
| "token_stripped (Line s) = '' '' @ [CHR 0x0A]"
| "token_stripped (Block s) = '' ''"

fun token_ok :: "js_token \<Rightarrow> string \<Rightarrow> bool" where
  "token_ok (Plain c) rest \<longleftrightarrow>
     \<not> literal_quote c \<and> \<not> (c = CHR ''/'' \<and> (starts_with ''/'' rest \<or> starts_with ''*'' rest))"
| "token_ok (Quoted q s) rest \<longleftrightarrow> literal_quote q \<and> quoted_body q s"
| "token_ok (Line s) rest \<longleftrightarrow> CHR 0x0A \<notin> set s"
| "token_ok (Block s) rest \<longleftrightarrow> str_find ''*/'' (s @ ''*/'') = Some (length s)"

text \<open>The tokens of a source; the flag says that its end cuts off a line comment.\<close>

inductive tokens :: "string \<Rightarrow> js_token list \<Rightarrow> bool \<Rightarrow> bool" where
  tokens_end: "tokens [] [] False"
| tokens_cut: "CHR 0x0A \<notin> set s \<Longrightarrow> tokens (''//'' @ s) [] True"
| tokens_step: "token_ok t rest \<Longrightarrow> tokens rest ts unfinished \<Longrightarrow> tokens (token_text t @ rest) (t # ts) unfinished"

lemma literal_quote_iff: "literal_quote c \<longleftrightarrow> after_code c \<noteq> Code"
  by (simp add: literal_quote_def after_code_def)

lemma byte_written_eq: "byte_written = (\<lambda>c. utf8_char (byte c))"
proof
  fix c :: char
  have "byte c < 256" by (cases c) (simp add: of_char_def)
  consider "byte c < 128" | "128 \<le> byte c" "byte c < 192" | "192 \<le> byte c" by linarith
  then show "byte_written c = utf8_char (byte c)"
  proof cases
    case 1
    then show ?thesis by (simp add: byte_written_def utf8_char_def)
  next
    case 2
    then have "byte c div 64 = 2" by (intro div_nat_eqI) simp_all
    with 2 show ?thesis by (simp add: byte_written_def utf8_char_def modulo_nat_def)
  next
    case 3
    with \<open>byte c < 256\<close> have "byte c div 64 = 3" by (intro div_nat_eqI) simp_all
    have "byte c < 2048" "\<not> byte c < 192" "\<not> byte c < 128" using 3 \<open>byte c < 256\<close> by linarith+
    with \<open>byte c div 64 = 3\<close> show ?thesis by (simp add: byte_written_def utf8_char_def modulo_nat_def)
  qed
qed

lemma byte_at_0: "byte_at s 0 = Some c \<longleftrightarrow> starts_with [c] s"
  by (cases s) (auto simp: byte_at_def starts_with_def)

lemma strip_line: "CHR 0x0A \<notin> set s \<Longrightarrow> strip_list LineComment e (s @ t) = strip_list LineComment e t"
  by (induction s) (auto simp: strip_list.simps(2))

lemma strip_block:
  "str_find ''*/'' (s @ ''*/'') = Some (length s) \<Longrightarrow> strip_list BlockComment e (s @ ''*/'' @ t) = strip_list Code e t"
proof (induction s)
  case Nil
  then show ?case by (simp add: strip_list.simps(2) byte_at_def)
next
  case (Cons c s)
  then have "\<not> starts_with ''*/'' (c # s @ ''*/'')" "str_find ''*/'' (s @ ''*/'') = Some (length s)"
    by (auto split: if_splits)
  moreover from this(1) have "\<not> (c = CHR ''*'' \<and> byte_at (s @ ''*/'' @ t) 0 = Some CHR ''/'')"
    by (cases s) (auto simp: starts_with_def byte_at_def split: if_splits)
  ultimately show ?case using Cons.IH by (auto simp: strip_list.simps(2))
qed

lemma closes_after_code: "closes (after_code q) c \<longleftrightarrow> after_code q \<noteq> Code \<and> c = q"
  by (auto simp: closes_def after_code_def)

lemma literal_state: "after_code q \<noteq> LineComment" "after_code q \<noteq> BlockComment"
  by (simp_all add: after_code_def)

lemma quote_not_backslash: "after_code q \<noteq> Code \<Longrightarrow> q \<noteq> CHR 0x5C"
  by (auto simp: after_code_def)

lemma strip_quoted:
  assumes "after_code q \<noteq> Code" "quoted_body q s"
  shows "strip_list (after_code q) False (s @ q # t) =
    apsnd ((@) (concat (map (\<lambda>c. utf8_char (byte c)) (s @ [q])))) (strip_list Code False t)"
  using assms(2)
proof (induction "length s" arbitrary: s rule: less_induct)
  case less
  note strip = strip_list.simps(2) [of "after_code q"] assms(1) literal_state closes_after_code
  show ?case
  proof (cases s)
    case Nil
    then show ?thesis using quote_not_backslash [OF assms(1)] by (simp add: strip)
  next
    case (Cons c s1)
    show ?thesis
    proof (cases "c = CHR 0x5C")
      case True
      with less(2) Cons obtain d s2 where s1: "s1 = d # s2" "quoted_body q s2" by (cases s1) auto
      then show ?thesis
        using less(1) [of s2] Cons True by (simp add: strip apsnd_compose o_def)
    next
      case False
      with less(2) Cons have "c \<noteq> q" "quoted_body q s1" by auto
      then show ?thesis
        using less(1) [of s1] Cons False by (simp add: strip apsnd_compose o_def)
    qed
  qed
qed

lemma strip_token:
  assumes "token_ok t rest"
  shows "strip_list Code False (token_text t @ rest) = apsnd ((@) (token_stripped t)) (strip_list Code False rest)"
proof (cases t)
  case (Plain c)
  with assms show ?thesis by (auto simp: strip_list.simps(2) byte_at_0 literal_quote_iff byte_written_eq)
next
  case (Quoted q s)
  with assms have "after_code q \<noteq> Code" "quoted_body q s" by (auto simp: literal_quote_iff)
  moreover have "q \<noteq> CHR ''/''" using \<open>after_code q \<noteq> Code\<close> by (auto simp: after_code_def)
  ultimately show ?thesis
    using strip_quoted [of q s rest] Quoted by (simp add: strip_list.simps(2) [of Code] apsnd_compose o_def byte_written_eq)
next
  case (Line s)
  with assms show ?thesis
    using strip_line [of s False "CHR 0x0A # rest"]
    by (simp add: strip_list.simps(2) byte_at_def apsnd_compose o_def)
next
  case (Block s)
  with assms show ?thesis
    using strip_block [of s False rest] by (simp add: strip_list.simps(2) [of Code] byte_at_def)
qed

lemma tokens_strip:
  "tokens source ts unfinished \<Longrightarrow>
     strip_list Code False source = (if unfinished then LineComment else Code,
       concat (map token_stripped ts) @ (if unfinished then '' '' else []))"
proof (induction rule: tokens.induct)
  case (tokens_cut s)
  then show ?case using strip_line [of s False "[]"] by (simp add: strip_list.simps(2) byte_at_def)
qed (auto simp: strip_token)

lemma block_closed:
  "fst (strip_list BlockComment e r) \<noteq> BlockComment \<Longrightarrow>
     \<exists>s t. r = s @ ''*/'' @ t \<and> str_find ''*/'' (s @ ''*/'') = Some (length s)"
proof (induction r)
  case (Cons c r)
  show ?case
  proof (cases "c = CHR ''*'' \<and> byte_at r 0 = Some CHR ''/''")
    case True
    then obtain t where "c # r = [] @ ''*/'' @ t" by (auto simp: byte_at_0 starts_with_iff)
    then show ?thesis by (intro exI [of _ "[]"] exI [of _ t]) (simp add: starts_with_def)
  next
    case False
    with Cons.prems have "fst (strip_list BlockComment e r) \<noteq> BlockComment"
      by (simp add: strip_list.simps(2) split: if_splits)
    from Cons.IH [OF this] obtain s t where r: "r = s @ ''*/'' @ t" "str_find ''*/'' (s @ ''*/'') = Some (length s)"
      by blast
    have "\<not> starts_with ''*/'' (c # s @ ''*/'')"
      using False r(1) by (cases s) (auto simp: byte_at_def starts_with_def split: if_splits)
    with r show ?thesis by (intro exI [of _ "c # s"] exI [of _ t]) simp
  qed
qed simp

lemma literal_closed:
  assumes "after_code q \<noteq> Code" "fst (strip_list (after_code q) False r) \<noteq> after_code q"
  shows "\<exists>s t. r = s @ q # t \<and> quoted_body q s"
  using assms(2)
proof (induction "length r" arbitrary: r rule: less_induct)
  case less
  note strip = strip_list.simps(2) [of "after_code q"] assms(1) literal_state closes_after_code
  show ?case
  proof (cases r)
    case (Cons c r1)
    consider "c = CHR 0x5C" | "c = q" "c \<noteq> CHR 0x5C" | "c \<noteq> q" "c \<noteq> CHR 0x5C" by blast
    then show ?thesis
    proof cases
      case 1
      with less(2) Cons obtain d r2 where r1: "r1 = d # r2" by (cases r1) (auto simp: strip)
      with less(2) Cons 1 have "fst (strip_list (after_code q) False r2) \<noteq> after_code q" by (simp add: strip)
      from less(1) [OF _ this] Cons r1 obtain s t where "r2 = s @ q # t" "quoted_body q s" by auto
      with Cons r1 1 show ?thesis by (intro exI [of _ "c # d # s"] exI [of _ t]) simp
    next
      case 2
      with Cons show ?thesis by (intro exI [of _ "[]"] exI [of _ r1]) simp
    next
      case 3
      with less(2) Cons have "fst (strip_list (after_code q) False r1) \<noteq> after_code q" by (simp add: strip)
      from less(1) [OF _ this] Cons obtain s t where "r1 = s @ q # t" "quoted_body q s" by auto
      with Cons 3 show ?thesis by (intro exI [of _ "c # s"] exI [of _ t]) simp
    qed
  qed (use less(2) in simp)
qed

lemma first_token:
  assumes "source \<noteq> []" "fst (strip_list Code False source) \<in> {Code, LineComment}"
  shows "(\<exists>s. source = ''//'' @ s \<and> CHR 0x0A \<notin> set s) \<or> (\<exists>t rest. source = token_text t @ rest \<and> token_ok t rest)"
proof -
  obtain b r where source: "source = b # r" using assms(1) by (cases source) auto
  consider s where "source = ''//'' @ s" | s where "source = ''/*'' @ s"
    | "after_code b \<noteq> Code" "b \<noteq> CHR ''/''"
    | "after_code b = Code" "\<not> (b = CHR ''/'' \<and> (starts_with ''/'' r \<or> starts_with ''*'' r))"
  proof (cases "after_code b = Code")
    case True
    with that source show thesis by (auto simp: starts_with_iff)
  next
    case False
    then have "b \<noteq> CHR ''/''" by (auto simp: after_code_def)
    with False that(3) show thesis by blast
  qed
  then show ?thesis
  proof cases
    case 1
    show ?thesis
    proof (cases "CHR 0x0A \<in> set s")
      case True
      then obtain u t where "s = u @ CHR 0x0A # t" "CHR 0x0A \<notin> set u" by (auto dest: split_list_first)
      with 1 show ?thesis by (intro disjI2 exI [of _ "Line u"] exI [of _ t]) simp
    qed (use 1 in blast)
  next
    case 2
    with assms(2) have "fst (strip_list BlockComment False s) \<noteq> BlockComment"
      by (auto simp: strip_list.simps(2) [of Code] byte_at_def)
    from block_closed [OF this] 2 obtain u t where "source = token_text (Block u) @ t" "token_ok (Block u) t" by auto
    then show ?thesis by blast
  next
    case 3
    with assms(2) source literal_state [of b] have "fst (strip_list (after_code b) False r) \<noteq> after_code b"
      by (auto simp: strip_list.simps(2) [of Code])
    from literal_closed [OF 3(1) this] source 3(1) obtain u t
      where "source = token_text (Quoted b u) @ t" "token_ok (Quoted b u) t" by (auto simp: literal_quote_iff)
    then show ?thesis by blast
  next
    case 4
    then show ?thesis using source by (intro disjI2 exI [of _ "Plain b"] exI [of _ r]) (simp add: literal_quote_iff)
  qed
qed

lemma strip_tokens:
  "fst (strip_list Code False source) \<in> {Code, LineComment} \<Longrightarrow> \<exists>ts unfinished. tokens source ts unfinished"
proof (induction "length source" arbitrary: source rule: less_induct)
  case less
  show ?case
  proof (cases "source = []")
    case False
    from first_token [OF False less(2)] show ?thesis
    proof (elim disjE exE conjE)
      fix t rest assume t: "source = token_text t @ rest" "token_ok t rest"
      have "fst (strip_list Code False rest) \<in> {Code, LineComment}"
        using less(2) unfolding t(1) strip_token [OF t(2)] by simp
      moreover have "length rest < length source" using t by (cases t) simp_all
      ultimately show ?thesis using less(1) t tokens_step by blast
    qed (use tokens_cut in blast)
  qed (use tokens_end in blast)
qed

text \<open>C37: comments are stripped exactly according to the lexical grammar: a source is accepted if and
  only if it is a sequence of plain bytes, complete literals in one of the three quotes and complete
  comments, possibly cut off within a last line comment; the result replaces a line comment by a
  blank and its newline and a block comment by a blank and keeps everything else, ASCII bytes as
  they are and each other byte as the two bytes of the Latin-1 character of that number.\<close>

theorem comments_are_stripped:
  "strip_javascript_comments source = Some (Some out) \<longleftrightarrow>
     (\<exists>ts unfinished. tokens source ts unfinished
        \<and> out = concat (map token_stripped ts) @ (if unfinished then '' '' else []))"
proof
  assume "strip_javascript_comments source = Some (Some out)"
  then have fin: "fst (strip_list Code False source) \<in> {Code, LineComment}" and out: "out = snd (strip_list Code False source)"
    by (auto simp: strip_javascript_comments_list Let_def split_def split: if_splits)
  from strip_tokens [OF fin] obtain ts unfinished where t: "tokens source ts unfinished" by blast
  with out show "\<exists>ts unfinished. tokens source ts unfinished
        \<and> out = concat (map token_stripped ts) @ (if unfinished then '' '' else [])"
    unfolding tokens_strip [OF t] snd_conv by blast
next
  assume "\<exists>ts unfinished. tokens source ts unfinished
        \<and> out = concat (map token_stripped ts) @ (if unfinished then '' '' else [])"
  then show "strip_javascript_comments source = Some (Some out)"
    by (auto simp: strip_javascript_comments_list tokens_strip)
qed

end
