(* ===== verification/Ordered_Map.thy ===== *)
theory Ordered_Map
  imports Hostlet_Prelude "HOL-Library.Char_ord" "HOL-Library.List_Lexorder"
begin

text \<open>
  \<open>BTreeMap\<close> and \<open>BTreeSet\<close> of Rust's standard library: a map is the list of its entries in
  ascending order of distinct keys, the order in which it is iterated.  Strings are compared
  bytewise, as \<open>Ord for str\<close> does.
\<close>

definition btree :: "('k :: linorder \<times> 'v) list \<Rightarrow> bool" where
  "btree m \<longleftrightarrow> sorted_wrt (<) (map fst m)"

text \<open>\<open>entry(k).and_modify(f).or_insert(v)\<close>; \<open>insert\<close> overwrites.\<close>

fun btree_entry :: "'k :: linorder \<Rightarrow> ('v \<Rightarrow> 'v) \<Rightarrow> 'v \<Rightarrow> ('k \<times> 'v) list \<Rightarrow> ('k \<times> 'v) list" where
  "btree_entry k f v [] = [(k, v)]"
| "btree_entry k f v ((x, y) # m) =
     (if k < x then (k, v) # (x, y) # m else if k = x then (x, f y) # m else (x, y) # btree_entry k f v m)"

definition btree_insert :: "'k :: linorder \<Rightarrow> 'v \<Rightarrow> ('k \<times> 'v) list \<Rightarrow> ('k \<times> 'v) list" where
  "btree_insert k v = btree_entry k (\<lambda>_. v) v"

definition btree_remove :: "'k \<Rightarrow> ('k \<times> 'v) list \<Rightarrow> ('k \<times> 'v) list" where
  "btree_remove k m = filter (\<lambda>(x, y). x \<noteq> k) m"

definition btree_set :: "'k :: linorder list \<Rightarrow> 'k list" where
  "btree_set xs = sort (remdups xs)"

lemma btree_Nil [simp]: "btree []"
  by (simp add: btree_def)

lemma btree_distinct: "btree m \<Longrightarrow> distinct (map fst m)"
  unfolding btree_def by (metis strict_sorted_iff)

lemma btree_keys [simp]: "fst ` set (btree_entry k f v m) = insert k (fst ` set m)"
proof (induction m)
  case (Cons e m)
  then show ?case by (cases e) (simp add: insert_commute)
qed simp

lemma btree_entry_btree: "btree m \<Longrightarrow> btree (btree_entry k f v m)"
proof (induction m)
  case (Cons e m)
  obtain x y where e: "e = (x, y)" by (cases e)
  show ?case
  proof (cases "k > x")
    case True
    have "\<forall>z \<in> fst ` set (btree_entry k f v m). x < z"
      using Cons.prems True by (auto simp: btree_def e)
    with Cons True e show ?thesis by (auto simp: btree_def)
  next
    case False
    with Cons.prems e show ?thesis by (auto simp: btree_def dest: less_trans)
  qed
qed (simp add: btree_def)

lemma map_of_btree_entry:
  "btree m \<Longrightarrow> map_of (btree_entry k f v m) = (map_of m)(k \<mapsto> (case map_of m k of None \<Rightarrow> v | Some y \<Rightarrow> f y))"
proof (induction m)
  case (Cons e m)
  obtain x y where e: "e = (x, y)" by (cases e)
  have below: "map_of m k = None" if "k < x"
    using Cons.prems that by (auto simp: btree_def e map_of_eq_None_iff)
  have "btree m" using Cons.prems by (simp add: btree_def)
  with Cons.IH e below show ?case
    by (auto simp: fun_eq_iff)
qed simp

lemma btree_remove_btree: "btree m \<Longrightarrow> btree (btree_remove k m)"
  by (induction m) (auto simp: btree_def btree_remove_def)

lemma map_of_btree_remove: "map_of (btree_remove k m) = (map_of m)(k := None)"
  by (induction m) (auto simp: btree_remove_def fun_eq_iff)

lemma set_btree_set [simp]: "set (btree_set xs) = set xs"
  by (simp add: btree_set_def)

end
