(* ===== verification/Source_Compatibility.thy ===== *)
theory Source_Compatibility
  imports Config_Scanner Ordered_Map Json_Value Project_Contract Control_Intent
begin

text \<open>
  The analysis of a project's source: \<open>analyze\<close> and its helpers in
  \<^verbatim>\<open>crates/control/src/compatibility.rs\<close>.  From the snapshot of a repository and the project's
  specification it builds a report: a status, the reasons for it and the questions to the owner.
  Paths and files are \<open>BTreeSet\<close> and \<open>BTreeMap\<close>, so they are visited in bytewise order.  The JSON
  parser of \<^verbatim>\<open>serde_json\<close> is the parameter \<open>from_str\<close>.  Of \<open>SourceSnapshot\<close> the analysis reads only
  the entry paths and the files.
\<close>

section \<open>Strings\<close>

lemma str_find_bound: "str_find pattern s = Some i \<Longrightarrow> i + length pattern \<le> length s"
proof (induction s arbitrary: i)
  case (Cons c s)
  then show ?case by (auto simp: starts_with_iff split: if_splits)
     (metis length_Cons length_append le_add1)
qed (auto split: if_splits)

definition fold_ascii_case :: "string \<Rightarrow> string" where
  "fold_ascii_case s = map to_ascii_lowercase s"

definition trim_end_slash :: "string \<Rightarrow> string" where
  "trim_end_slash s = rev (dropWhile (\<lambda>c. c = CHR ''/'') (rev s))"

definition basename :: "string \<Rightarrow> string" where
  "basename path = last (split_on CHR ''/'' path)"

text \<open>\<open>str::split\<close> on a nonempty string pattern, and \<open>split_ascii_whitespace\<close>.\<close>

function split_str :: "char \<Rightarrow> string \<Rightarrow> string \<Rightarrow> string list" where
  "split_str p ps s =
     (case str_find (p # ps) s of
        None \<Rightarrow> [s]
      | Some i \<Rightarrow> take i s # split_str p ps (drop (i + length (p # ps)) s))"
  by pat_completeness auto
termination
  by (relation "measure (\<lambda>(p, ps, s). length s)") (auto dest!: str_find_bound)

declare split_str.simps [simp del]

fun ascii_words :: "string \<Rightarrow> string \<Rightarrow> string list" where
  "ascii_words word [] = (if word = [] then [] else [word])"
| "ascii_words word (c # s) =
     (if is_ascii_whitespace c then (if word = [] then [] else [word]) @ ascii_words [] s
      else ascii_words (word @ [c]) s)"

definition split_ascii_whitespace :: "string \<Rightarrow> string list" where
  "split_ascii_whitespace s = ascii_words [] s"

text \<open>\<open>parse::<u16>\<close> on a nonempty run of digits.\<close>

definition digits_u16 :: "string \<Rightarrow> int option" where
  "digits_u16 digits =
     (case digits_value 0 digits of
        Some v \<Rightarrow> if digits \<noteq> [] \<and> v < 65536 then Some v else None
      | None \<Rightarrow> None)"

section \<open>Data\<close>

record source_file =
  sf_path :: string
  sf_content :: string

record source_snapshot =
  snap_entry_paths :: "string list"
  snap_files :: "source_file list"

datatype compatibility_status =
  Candidate | ConfigurationNeeded | DatabaseNeeded | SecretsNeeded | ShowcaseOnly

definition database_value :: "compatibility_status \<Rightarrow> string" where
  "database_value status =
     (case status of
        Candidate \<Rightarrow> ''candidate''
      | ConfigurationNeeded \<Rightarrow> ''configuration_needed''
      | DatabaseNeeded \<Rightarrow> ''database_needed''
      | SecretsNeeded \<Rightarrow> ''secrets_needed''
      | ShowcaseOnly \<Rightarrow> ''showcase_only'')"

definition parse_status :: "string \<Rightarrow> api_error + compatibility_status" where
  "parse_status text =
     (if text = ''candidate'' then Inr Candidate
      else if text = ''configuration_needed'' then Inr ConfigurationNeeded
      else if text = ''database_needed'' then Inr DatabaseNeeded
      else if text = ''secrets_needed'' then Inr SecretsNeeded
      else if text = ''showcase_only'' then Inr ShowcaseOnly
      else Inl internal)"

definition headline :: "compatibility_status \<Rightarrow> string" where
  "headline status =
     (case status of
        Candidate \<Rightarrow> ''Looks compatible '' @ utf8_char 0x2014 @ '' deployment not yet verified''
      | ConfigurationNeeded \<Rightarrow> ''Configuration needed''
      | DatabaseNeeded \<Rightarrow> ''Database needed''
      | SecretsNeeded \<Rightarrow> ''Secrets needed''
      | ShowcaseOnly \<Rightarrow> ''Showcase-only unsupported'')"

datatype environment_classification = PublicBuildValue | ServerSecret

type_synonym environment = "(string \<times> environment_classification) list"

record repository_facts =
  rf_layout :: string
  rf_package_manager :: string
  rf_lockfile_path :: "string option"

record service_facts =
  svf_kind :: string
  svf_root :: "string option"
  svf_framework :: string
  svf_node_major :: "16 word option"
  svf_build_command_present :: bool
  svf_start_command_present :: bool
  svf_http_health_path_present :: bool
  svf_durable_data_detected :: bool

record environment_requirement =
  env_req_name :: string
  env_req_classification :: environment_classification

record compatibility_reason =
  rsn_code :: string
  rsn_message :: string
  rsn_source_path :: "string option"

record configuration_question =
  qst_id :: string
  qst_kind :: string
  qst_classification :: string
  qst_target_path :: string
  qst_prompt :: string
  qst_source_path :: "string option"
  qst_required :: bool
  qst_allowed_options :: "string list"

record inspection_facts =
  ins_files_considered :: nat
  ins_files_read :: nat
  ins_bytes_read :: int
  ins_limits_revision :: string

record compatibility_safe_facts =
  csf_contract_version :: string
  csf_repository :: repository_facts
  csf_services :: "service_facts list"
  csf_environment_requirements :: "environment_requirement list"
  csf_reasons :: "compatibility_reason list"
  csf_configuration_questions :: "configuration_question list"
  csf_inspection :: inspection_facts

record analysis =
  an_status :: compatibility_status
  an_facts :: compatibility_safe_facts

definition REPORT_CONTRACT :: string where
  "REPORT_CONTRACT = ''hostlet.compatibility-report/v1''"

definition LIMITS_REVISION :: string where
  "LIMITS_REVISION = ''hostlet.compatibility-bounds/v1''"

definition MAX_REASONS :: nat where "MAX_REASONS = 64"
definition MAX_QUESTIONS :: nat where "MAX_QUESTIONS = 32"
definition MAX_ENVIRONMENT_NAMES :: nat where "MAX_ENVIRONMENT_NAMES = 128"

definition malformed_source :: api_error where
  "malformed_source = unprocessable ''compatibility_source_malformed''
     ''the selected source contains malformed compatibility metadata''"

section \<open>The builder of a report\<close>

record analysis_builder =
  ab_reasons :: "compatibility_reason list"
  ab_reason_codes :: "string set"
  ab_questions :: "configuration_question list"
  ab_question_ids :: "string set"
  ab_unsupported :: bool
  ab_configuration_needed :: bool
  ab_database_needed :: bool
  ab_secrets_needed :: bool
  ab_report_limit_exceeded :: bool

definition new_builder :: analysis_builder where
  "new_builder =
     \<lparr>ab_reasons = [], ab_reason_codes = {}, ab_questions = [], ab_question_ids = {}, ab_unsupported = False,
      ab_configuration_needed = False, ab_database_needed = False, ab_secrets_needed = False,
      ab_report_limit_exceeded = False\<rparr>"

definition reason :: "string \<Rightarrow> string \<Rightarrow> string option \<Rightarrow> analysis_builder \<Rightarrow> analysis_builder" where
  "reason code message source_path b =
     (if code \<in> ab_reason_codes b then b
      else let b1 = b\<lparr>ab_reason_codes := insert code (ab_reason_codes b)\<rparr>
           in if length (ab_reasons b) \<ge> MAX_REASONS then b1\<lparr>ab_report_limit_exceeded := True\<rparr>
              else b1\<lparr>ab_reasons := ab_reasons b @
                     [\<lparr>rsn_code = code, rsn_message = message, rsn_source_path = source_path\<rparr>]\<rparr>)"

definition push_question :: "configuration_question \<Rightarrow> analysis_builder \<Rightarrow> analysis_builder" where
  "push_question q b =
     (if qst_id q \<in> ab_question_ids b then b
      else let b1 = b\<lparr>ab_question_ids := insert (qst_id q) (ab_question_ids b)\<rparr>
           in if length (ab_questions b) \<ge> MAX_QUESTIONS then b1\<lparr>ab_report_limit_exceeded := True\<rparr>
              else b1\<lparr>ab_questions := ab_questions b @ [q]\<rparr>)"

definition question ::
  "string \<Rightarrow> string \<Rightarrow> string \<Rightarrow> string \<Rightarrow> string \<Rightarrow> string option \<Rightarrow> string list \<Rightarrow> configuration_question" where
  "question qid kind classification target_path prompt source_path allowed_options =
     \<lparr>qst_id = qid, qst_kind = kind, qst_classification = classification, qst_target_path = target_path,
      qst_prompt = prompt, qst_source_path = source_path, qst_required = True,
      qst_allowed_options = allowed_options\<rparr>"

definition unsupported :: "analysis_builder \<Rightarrow> analysis_builder" where
  "unsupported b = b\<lparr>ab_unsupported := True\<rparr>"

definition needs_configuration :: "analysis_builder \<Rightarrow> analysis_builder" where
  "needs_configuration b = b\<lparr>ab_configuration_needed := True\<rparr>"

definition builder_status :: "analysis_builder \<Rightarrow> compatibility_status" where
  "builder_status b =
     (if ab_unsupported b then ShowcaseOnly
      else if ab_configuration_needed b then ConfigurationNeeded
      else if ab_database_needed b then DatabaseNeeded
      else if ab_secrets_needed b then SecretsNeeded
      else Candidate)"

section \<open>Paths\<close>

definition top_level :: "string option \<Rightarrow> bool" where
  "top_level root \<longleftrightarrow> root = None \<or> root = Some ''.'' \<or> root = Some []"

definition rooted :: "string option \<Rightarrow> string \<Rightarrow> string" where
  "rooted root file = (if top_level root then file else trim_end_slash (the root) @ ''/'' @ file)"

definition in_root :: "string \<Rightarrow> string option \<Rightarrow> bool" where
  "in_root path root \<longleftrightarrow>
     top_level root \<or> path = the root \<or> starts_with (trim_end_slash (the root) @ ''/'') path"

definition strip_root :: "string \<Rightarrow> string option \<Rightarrow> string" where
  "strip_root path root =
     (if top_level root then path
      else case Option.bind (strip_prefix (trim_end_slash (the root)) path) (strip_prefix ''/'') of
             Some relative \<Rightarrow> relative | None \<Rightarrow> path)"

definition first_evidence_path :: "(string \<times> string) list \<Rightarrow> string \<Rightarrow> string option" where
  "first_evidence_path files name = find (\<lambda>path. basename path = name) (map fst files)"

definition javascript_extensions :: "string list" where
  "javascript_extensions = [''js'', ''jsx'', ''ts'', ''tsx'', ''mjs'', ''cjs'', ''mts'', ''cts'']"

definition is_javascript_path :: "string \<Rightarrow> bool" where
  "is_javascript_path path \<longleftrightarrow>
     CHR ''.'' \<in> set path
     \<and> fold_ascii_case (last (split_on CHR ''.'' path)) \<in> set javascript_extensions"

definition safe_identifier :: "string \<Rightarrow> string" where
  "safe_identifier text =
     map (\<lambda>c. if c < 128 \<and> is_ascii_alphanumeric (char_of c) then to_ascii_lowercase (char_of c) else CHR ''-'')
       (take 96 (chars text))"

section \<open>Names of enumerations\<close>

definition repository_layout_name :: "repository_layout \<Rightarrow> string" where
  "repository_layout_name v = (case v of SingleProject \<Rightarrow> ''single_project'' | Monorepo \<Rightarrow> ''monorepo'')"

definition package_manager_name :: "package_manager \<Rightarrow> string" where
  "package_manager_name v =
     (case v of Npm \<Rightarrow> ''npm'' | Pnpm \<Rightarrow> ''pnpm'' | Yarn \<Rightarrow> ''yarn'' | OtherManager \<Rightarrow> ''other'')"

definition service_kind_name :: "service_kind \<Rightarrow> string" where
  "service_kind_name v =
     (case v of
        StaticFrontend \<Rightarrow> ''static_frontend'' | Application \<Rightarrow> ''application'' | Postgres \<Rightarrow> ''postgres''
      | Worker \<Rightarrow> ''worker'' | ScheduledJob \<Rightarrow> ''scheduled_job'' | AdditionalBackend \<Rightarrow> ''additional_backend'')"

definition framework_name :: "framework_pattern \<Rightarrow> string" where
  "framework_name v =
     (case v of
        ViteStatic \<Rightarrow> ''vite_static'' | StaticExport \<Rightarrow> ''static_export'' | NodeHttp \<Rightarrow> ''node_http''
      | Nextjs16Standalone \<Rightarrow> ''nextjs16_standalone'' | Postgresql18 \<Rightarrow> ''postgresql18''
      | DockerCompose \<Rightarrow> ''docker_compose'' | CustomNextServer \<Rightarrow> ''custom_next_server''
      | UnsupportedFramework \<Rightarrow> ''unsupported'')"

section \<open>Unsupported sources\<close>

definition compose_path :: "string \<Rightarrow> bool" where
  "compose_path path \<longleftrightarrow>
     fold_ascii_case (basename path)
       \<in> {''compose.yaml'', ''compose.yml'', ''docker-compose.yaml'', ''docker-compose.yml''}"

definition dockerfile_path :: "string \<Rightarrow> bool" where
  "dockerfile_path path \<longleftrightarrow> starts_with ''dockerfile'' (fold_ascii_case (basename path))"

definition worker_path :: "string \<Rightarrow> bool" where
  "worker_path path \<longleftrightarrow>
     (let folded = fold_ascii_case path in starts_with ''workers/'' folded \<or> str_contains ''/workers/'' folded)"

definition custom_server_file :: "string \<times> string \<Rightarrow> bool" where
  "custom_server_file file \<longleftrightarrow>
     (case file of (path, text) \<Rightarrow>
        (str_contains ''custom-server'' (fold_ascii_case path)
         \<or> str_contains ''createServer'' text \<and> str_contains ''next('' text) \<and> is_javascript_path path)"

definition persistent_path :: "string \<Rightarrow> bool" where
  "persistent_path path \<longleftrightarrow>
     (let folded = fold_ascii_case path
      in starts_with ''uploads/'' folded \<or> str_contains ''/uploads/'' folded
         \<or> starts_with ''data/'' folded \<or> str_contains ''/data/'' folded)"

definition persistent_body :: "string \<times> string \<Rightarrow> bool" where
  "persistent_body file \<longleftrightarrow>
     (case file of (path, text) \<Rightarrow>
        str_contains ''persistentPaths'' text
        \<or> (str_contains ''writeFile'' text \<or> str_contains ''appendFile'' text)
          \<and> (str_contains ''uploads'' text \<or> str_contains ''sqlite'' text))"

text \<open>A block of the form \<open>if let Some(path) = ... { builder.unsupported = true; builder.reason(...) }\<close>.\<close>

definition unsupported_because ::
  "string option \<Rightarrow> (string \<times> string) list \<Rightarrow> analysis_builder \<Rightarrow> analysis_builder" where
  "unsupported_because found reasons b =
     (case found of
        None \<Rightarrow> b
      | Some path \<Rightarrow> fold (\<lambda>(code, message). reason code message (Some path)) reasons (unsupported b))"

definition inspect_unsupported :: "string list \<Rightarrow> (string \<times> string) list \<Rightarrow> analysis_builder \<Rightarrow> analysis_builder" where
  "inspect_unsupported paths files b =
     (let b1 = unsupported_because (find compose_path paths)
            [(''docker_compose_unsupported'', ''Docker Compose is outside the initial compatibility scope.''),
             (''multiple_backends_unsupported'',
              ''Compose or multiple backend services are outside the initial compatibility scope.'')] b;
          b2 = unsupported_because (find dockerfile_path paths)
            [(''dockerfile_unsupported'', ''Arbitrary Dockerfiles are outside the initial compatibility scope.'')] b1;
          b3 = unsupported_because (find worker_path paths)
            [(''extra_workers_unsupported'', ''Extra worker services are outside the initial compatibility scope.'')] b2;
          b4 = unsupported_because (map_option fst (find custom_server_file files))
            [(''unsupported_custom_server'',
              ''Custom application servers are outside the tested Next.js standalone pattern.'')] b3
      in unsupported_because
           (case find persistent_path paths of
              Some path \<Rightarrow> Some path
            | None \<Rightarrow> map_option fst (find persistent_body files))
           [(''persistent_local_disk_assumption'',
             ''Persistent application-disk assumptions are outside the initial scope.'')] b4)"

definition has_unsupported_lockfile :: "string list \<Rightarrow> bool" where
  "has_unsupported_lockfile paths \<longleftrightarrow>
     (\<exists>path \<in> set paths. fold_ascii_case (basename path)
        \<in> {''yarn.lock'', ''pnpm-lock.yaml'', ''bun.lock'', ''bun.lockb''})"

section \<open>Documents and files\<close>

text \<open>The loop over \<open>snapshot.files\<close>; \<open>checked_add\<close> on \<open>usize\<close>.\<close>

fun read_files :: "source_file list \<Rightarrow> (string \<times> string) list \<Rightarrow> int \<Rightarrow> api_error + (string \<times> string) list \<times> int" where
  "read_files [] files bytes_read = Inr (files, bytes_read)"
| "read_files (file # rest) files bytes_read =
     (if \<not> valid_utf8 (sf_content file) then Inl malformed_source
      else let total = bytes_read + int (length (sf_content file))
           in if total \<ge> 2 ^ 64 then Inl malformed_source
              else if map_of files (sf_path file) \<noteq> None then Inl malformed_source
              else read_files rest (btree_insert (sf_path file) (sf_content file) files) total)"

fun parse_json_documents ::
  "(string \<Rightarrow> json option) \<Rightarrow> string \<Rightarrow> (string \<times> string) list \<Rightarrow> api_error + (string \<times> json) list" where
  "parse_json_documents from_str name [] = Inr []"
| "parse_json_documents from_str name ((path, text) # files) =
     (if basename path = name
      then case from_str text of
             None \<Rightarrow> Inl malformed_source
           | Some v \<Rightarrow> if as_object v = None then Inl malformed_source
                       else map_sum id (btree_insert path v) (parse_json_documents from_str name files)
      else parse_json_documents from_str name files)"

section \<open>Environment names\<close>

definition valid_environment_name :: "string \<Rightarrow> bool" where
  "valid_environment_name name \<longleftrightarrow>
     name \<noteq> [] \<and> length name \<le> 128 \<and> (is_ascii_uppercase (hd name) \<or> hd name = CHR ''_'')
     \<and> (\<forall>b \<in> set name. is_ascii_uppercase b \<or> is_ascii_digit b \<or> b = CHR ''_'')"

definition add_environment :: "string \<Rightarrow> environment_classification \<Rightarrow> environment \<Rightarrow> environment" where
  "add_environment name classification =
     btree_entry name (\<lambda>existing. if classification = ServerSecret then classification else existing) classification"

definition insert_environment_name ::
  "string \<Rightarrow> environment_classification \<Rightarrow> environment \<Rightarrow> api_error + environment" where
  "insert_environment_name name classification output =
     (if \<not> valid_environment_name name then Inl malformed_source else Inr (add_environment name classification output))"

fun insert_environment_values ::
  "json list \<Rightarrow> environment_classification \<Rightarrow> environment \<Rightarrow> api_error + environment" where
  "insert_environment_values [] classification output = Inr output"
| "insert_environment_values (v # vs) classification output =
     (case as_str v of
        None \<Rightarrow> Inl malformed_source
      | Some name \<Rightarrow>
          (case insert_environment_name name classification output of
             Inl e \<Rightarrow> Inl e
           | Inr output' \<Rightarrow> insert_environment_values vs classification output'))"

definition insert_environment_field ::
  "json \<Rightarrow> string \<Rightarrow> environment_classification \<Rightarrow> environment \<Rightarrow> api_error + environment" where
  "insert_environment_field document field classification output =
     (case json_get field document of
        None \<Rightarrow> Inr output
      | Some v \<Rightarrow>
          (case as_array v of
             None \<Rightarrow> Inl malformed_source
           | Some vs \<Rightarrow> insert_environment_values vs classification output))"

definition collect_hostlet_environment :: "json \<Rightarrow> environment \<Rightarrow> api_error + environment" where
  "collect_hostlet_environment document output =
     (if as_object document = None then Inl malformed_source
      else case insert_environment_field document ''publicBuildVariables'' PublicBuildValue output of
             Inl e \<Rightarrow> Inl e
           | Inr output' \<Rightarrow> insert_environment_field document ''serverSecrets'' ServerSecret output')"

fun collect_hostlet_environments :: "json list \<Rightarrow> environment \<Rightarrow> api_error + environment" where
  "collect_hostlet_environments [] output = Inr output"
| "collect_hostlet_environments (document # documents) output =
     (case collect_hostlet_environment document output of
        Inl e \<Rightarrow> Inl e
      | Inr output' \<Rightarrow> collect_hostlet_environments documents output')"

definition reference_class :: "string \<Rightarrow> environment_classification" where
  "reference_class name =
     (if starts_with ''VITE_'' name \<or> starts_with ''NEXT_PUBLIC_'' name \<or> starts_with ''PUBLIC_'' name
      then PublicBuildValue else ServerSecret)"

text \<open>The loop \<open>while let Some(index) = remainder.find(prefix)\<close>; the prefix is not empty.\<close>

function environment_references :: "char \<Rightarrow> string \<Rightarrow> string \<Rightarrow> environment \<Rightarrow> environment" where
  "environment_references p ps remainder output =
     (case str_find (p # ps) remainder of
        None \<Rightarrow> output
      | Some index \<Rightarrow>
          let rest = drop (index + length (p # ps)) remainder;
              name = take 129 (takeWhile (\<lambda>c. is_ascii_alphanumeric c \<or> c = CHR ''_'') rest)
          in environment_references p ps rest
               (if valid_environment_name name then add_environment name (reference_class name) output else output))"
  by pat_completeness auto
termination
  by (relation "measure (\<lambda>(p, ps, s, out). length s)") (auto dest!: str_find_bound)

declare environment_references.simps [simp del]

definition collect_environment_references :: "string \<Rightarrow> environment \<Rightarrow> environment" where
  "collect_environment_references text output =
     environment_references (CHR ''i'') ''mport.meta.env.'' text
       (environment_references (CHR ''p'') ''rocess.env.'' text output)"

section \<open>Package metadata\<close>

definition dependency_version :: "json \<Rightarrow> string \<Rightarrow> string option" where
  "dependency_version package name =
     (let look = (\<lambda>field. Option.bind (Option.bind (json_get field package) as_object)
                            (\<lambda>items. Option.bind (map_of items name) as_str))
      in case look ''dependencies'' of
           Some v \<Rightarrow> Some v
         | None \<Rightarrow> (case look ''devDependencies'' of Some v \<Rightarrow> Some v | None \<Rightarrow> look ''peerDependencies''))"

definition has_dependency :: "json \<Rightarrow> string \<Rightarrow> bool" where
  "has_dependency package name \<longleftrightarrow> dependency_version package name \<noteq> None"

definition simple_package_major :: "string \<Rightarrow> int option" where
  "simple_package_major requirement =
     (let requirement = trim requirement
      in if requirement = [] \<or> (\<exists>b \<in> set requirement. b \<in> set ''><* '' \<or> b = CHR 0x09)
            \<or> str_contains ''||'' requirement
         then None
         else let version = dropWhile (\<lambda>c. c \<in> set ''^~=v'') requirement;
                  digits = takeWhile is_ascii_digit version
              in if digits = [] then None
                 else if byte_at version (length digits) \<notin> {None, Some CHR ''.'', Some CHR ''-''} then None
                 else digits_u16 digits)"

datatype node_engine_evidence = Supported "int list" | Unsupported | Ambiguous

definition ambiguous_alternative :: "string \<Rightarrow> bool" where
  "ambiguous_alternative trimmed \<longleftrightarrow>
     trimmed = [] \<or> trimmed = ''*'' \<or> str_contains '' - '' trimmed \<or> (\<exists>b \<in> set trimmed. b \<in> set ''><*'')
     \<or> length (split_ascii_whitespace trimmed) > 1"

text \<open>The loop over the alternatives: \<open>None\<close> stands for the early return with \<open>Ambiguous\<close>.\<close>

fun engine_majors :: "string list \<Rightarrow> int list option" where
  "engine_majors [] = Some []"
| "engine_majors (alternative # alternatives) =
     (let trimmed = trim alternative; tail = dropWhile (\<lambda>c. \<not> is_ascii_digit c) trimmed
      in if ambiguous_alternative trimmed \<or> tail = [] then None
         else case digits_u16 (takeWhile is_ascii_digit tail) of
                None \<Rightarrow> None
              | Some major \<Rightarrow> map_option (insort_insert major) (engine_majors alternatives))"

definition classify_node_engine :: "json \<Rightarrow> node_engine_evidence option" where
  "classify_node_engine package =
     (case Option.bind (Option.bind (json_get ''engines'' package) as_object)
             (\<lambda>engines. Option.bind (map_of engines ''node'') as_str) of
        None \<Rightarrow> None
      | Some requirement \<Rightarrow>
          (case engine_majors (split_str CHR ''|'' ''|'' requirement) of
             None \<Rightarrow> Some Ambiguous
           | Some majors \<Rightarrow>
               if majors = [] then Some Ambiguous
               else if \<forall>major \<in> set majors. major = 22 \<or> major = 24 then Some (Supported majors)
               else Some Unsupported))"

definition command_present ::
  "string option \<Rightarrow> (string \<times> json) list option \<Rightarrow> string option \<Rightarrow> string list \<Rightarrow> bool" where
  "command_present command scripts root paths =
     (case command of
        None \<Rightarrow> False
      | Some text \<Rightarrow>
          (case split_ascii_whitespace text of
             [a, b, c] \<Rightarrow>
               a = ''npm'' \<and> b = ''run'' \<and> (case scripts of None \<Rightarrow> False | Some s \<Rightarrow> map_of s c \<noteq> None)
           | [a, b] \<Rightarrow>
               if a = ''npm'' then (case scripts of None \<Rightarrow> False | Some s \<Rightarrow> map_of s b \<noteq> None)
               else if a = ''node'' \<and> \<not> starts_with ''-'' b \<and> \<not> starts_with ''/'' b
                       \<and> (\<forall>part \<in> set (split_on CHR ''/'' b). part \<noteq> [] \<and> part \<noteq> ''.'' \<and> part \<noteq> ''..'')
               then rooted root b \<in> set paths
               else False
           | _ \<Rightarrow> False))"

section \<open>Detection\<close>

definition detects_durable_data ::
  "(string \<times> json) list \<Rightarrow> (string \<times> json) list \<Rightarrow> (string \<times> string) list \<Rightarrow> bool" where
  "detects_durable_data packages hostlet files \<longleftrightarrow>
     (\<exists>(path, package) \<in> set packages. has_dependency package ''pg'' \<or> has_dependency package ''postgres''
        \<or> has_dependency package ''@prisma/client'')
     \<or> (\<exists>(path, document) \<in> set hostlet. get_str ''database'' document = Some ''postgresql'')
     \<or> (\<exists>(path, text) \<in> set files. str_contains ''DATABASE_URL'' text)"

definition detects_vite :: "string option \<Rightarrow> json option \<Rightarrow> string list \<Rightarrow> bool" where
  "detects_vite root package paths \<longleftrightarrow>
     (case package of None \<Rightarrow> False | Some p \<Rightarrow> has_dependency p ''vite'')
     \<or> (\<exists>path \<in> set paths. in_root path root \<and> starts_with ''vite.config.'' (basename path))"

definition detects_next16_standalone :: "string option \<Rightarrow> json option \<Rightarrow> (string \<times> string) list \<Rightarrow> bool" where
  "detects_next16_standalone root package files \<longleftrightarrow>
     Option.bind (Option.bind package (\<lambda>p. dependency_version p ''next'')) simple_package_major = Some 16
     \<and> (\<exists>(path, text) \<in> set files. in_root path root \<and> starts_with ''next.config.'' (basename path)
          \<and> has_single_literal_property text ''output'' ''standalone'' = Some True)"

definition health_routes :: "string \<Rightarrow> string list" where
  "health_routes route =
     concat (map (\<lambda>extension.
       [''app/'' @ route @ ''/route.'' @ extension, ''src/app/'' @ route @ ''/route.'' @ extension,
        ''pages/'' @ route @ ''.'' @ extension, ''src/pages/'' @ route @ ''.'' @ extension]) javascript_extensions)"

definition detect_health ::
  "string option \<Rightarrow> string option \<Rightarrow> string list \<Rightarrow> (string \<times> json) list \<Rightarrow> bool" where
  "detect_health root configured_path paths hostlet =
     (case configured_path of
        None \<Rightarrow> False
      | Some configured \<Rightarrow>
          (\<exists>(path, document) \<in> set hostlet. in_root path root \<and> get_str ''healthPath'' document = Some configured)
          \<or> (let route = trim_end_slash (dropWhile (\<lambda>c. c = CHR ''/'') configured)
             in route \<noteq> []
                \<and> (\<exists>path \<in> set paths. in_root path root \<and> strip_root path root \<in> set (health_routes route))))"

definition detects_inert_commands :: "(string \<times> json) list \<Rightarrow> (string \<times> json) list \<Rightarrow> bool" where
  "detects_inert_commands packages hostlet \<longleftrightarrow>
     (\<exists>(path, package) \<in> set packages. case Option.bind (json_get ''scripts'' package) as_object of
        None \<Rightarrow> False
      | Some scripts \<Rightarrow> map_of scripts ''preinstall'' \<noteq> None \<or> map_of scripts ''postinstall'' \<noteq> None
                        \<or> map_of scripts ''migrate'' \<noteq> None)
     \<or> (\<exists>(path, document) \<in> set hostlet. json_get ''migrationCommand'' document \<noteq> None)"

section \<open>One service\<close>

text \<open>What the analysis of a service reads: the documents, the files and the entry paths.\<close>

record analysis_source =
  as_paths :: "string list"
  as_files :: "(string \<times> string) list"
  as_packages :: "(string \<times> json) list"
  as_hostlet :: "(string \<times> json) list"

definition service_question :: "nat \<Rightarrow> string \<Rightarrow> string \<Rightarrow> string \<Rightarrow> string \<Rightarrow> string \<Rightarrow> string list \<Rightarrow> configuration_question" where
  "service_question index suffix kind field prompt package_path options =
     question (''service-'' @ show_nat index @ ''-'' @ suffix) kind ''configuration_choice''
       (''services['' @ show_nat index @ ''].'' @ field) prompt (Some package_path) options"

definition check_service_root :: "nat \<Rightarrow> service_spec \<Rightarrow> string \<Rightarrow> json option \<Rightarrow> analysis_builder \<Rightarrow> analysis_builder" where
  "check_service_root index service package_path package b =
     (if svc_kind service \<noteq> Postgres \<and> package = None
      then push_question (service_question index ''root'' ''service_root'' ''root''
               ''Select the repository-relative service root.'' package_path [])
            (reason ''service_root_missing'' ''The configured service root does not contain package.json.''
               (Some package_path) (needs_configuration b))
      else b)"

definition check_node_engine :: "nat \<Rightarrow> service_spec \<Rightarrow> string \<Rightarrow> json option \<Rightarrow> analysis_builder \<Rightarrow> analysis_builder" where
  "check_node_engine index service package_path package b =
     (case Option.bind package classify_node_engine of
        Some Unsupported \<Rightarrow>
          reason ''unsupported_node_version''
            ''The source declares a Node major outside the tested Node 22 and 24 lines.'' (Some package_path)
            (unsupported b)
      | Some Ambiguous \<Rightarrow>
          push_question (service_question index ''node-major'' ''node_major'' ''node.major''
              ''Select a tested Node major.'' package_path [''24'', ''22''])
           (reason ''node_version_ambiguous'' ''Confirm Node 24 or the tested Node 22 alternative.''
              (Some package_path) (needs_configuration b))
      | Some (Supported majors) \<Rightarrow>
          (case svc_node service of
             Some node \<Rightarrow>
               if uint (node_major node) \<notin> set majors
               then push_question (service_question index ''node-major'' ''node_major'' ''node.major''
                        ''Select a Node major declared by the source and tested by Hostlet.'' package_path
                        (map (\<lambda>major. show_nat (nat major)) majors))
                     (reason ''node_version_mismatch''
                        ''The configured Node major is not included by the source engine declaration.''
                        (Some package_path) (needs_configuration b))
               else b
           | None \<Rightarrow> b)
      | None \<Rightarrow> b)"

definition check_command :: "string option \<Rightarrow> bool \<Rightarrow> string \<Rightarrow> string \<Rightarrow> string \<Rightarrow> analysis_builder \<Rightarrow> analysis_builder" where
  "check_command command present code message package_path b =
     (if command \<noteq> None \<and> \<not> present then reason code message (Some package_path) (needs_configuration b) else b)"

definition check_health :: "nat \<Rightarrow> service_spec \<Rightarrow> bool \<Rightarrow> string \<Rightarrow> analysis_builder \<Rightarrow> analysis_builder" where
  "check_health index service health_present package_path b =
     (if svc_kind service = Application \<and> \<not> health_present
      then push_question (service_question index ''health-path'' ''http_health_path'' ''health_check.path''
               ''Select the HTTP health-check path.'' package_path [])
            (reason ''health_endpoint_missing'' ''Confirm an HTTP health endpoint for the application service.''
               (Some package_path) (needs_configuration b))
      else b)"

definition check_framework ::
  "analysis_source \<Rightarrow> repository_spec \<Rightarrow> service_spec \<Rightarrow> string \<Rightarrow> json option \<Rightarrow> bool \<Rightarrow> bool
     \<Rightarrow> analysis_builder \<Rightarrow> analysis_builder" where
  "check_framework src repository service package_path package build_present health_present b =
     (let root = svc_root service; here = Some package_path
      in case svc_framework service of
           ViteStatic \<Rightarrow>
             if detects_vite root package (as_paths src)
             then reason ''vite_static_export'' ''A Vite or static-export frontend matches the initial pattern.'' here b
             else reason ''framework_evidence_missing''
                    ''Static framework evidence was not found at the selected root.'' here (needs_configuration b)
         | StaticExport \<Rightarrow>
             if build_present
             then reason ''static_export'' ''A static-export frontend matches the initial pattern.'' here b
             else reason ''framework_evidence_missing''
                    ''Static-export evidence was not found at the selected root.'' here (needs_configuration b)
         | NodeHttp \<Rightarrow>
             let b1 = reason ''single_node_http_service''
                        ''One Node HTTP application service matches the initial pattern.'' here b
             in if health_present
                then reason ''health_endpoint_declared''
                       ''An HTTP health endpoint is declared for the application service.'' here b1
                else b1
         | Nextjs16Standalone \<Rightarrow>
             if detects_next16_standalone root package (as_files src)
             then let b1 = reason ''nextjs_16_standalone''
                             ''Next.js 16 standalone configuration matches the tested pattern.'' here b
                  in if repo_layout repository = Monorepo \<and> root \<noteq> Some ''.''
                     then reason ''monorepo_service_root'' ''The service uses an explicit monorepo root.'' here b1
                     else b1
             else reason ''nextjs_standalone_configuration_missing''
                    ''Next.js 16 standalone evidence is missing at the selected root.'' here (needs_configuration b)
         | Postgresql18 \<Rightarrow> b
         | _ \<Rightarrow> reason ''unsupported_framework''
                  ''The configured framework is outside the initial compatibility scope.'' here (unsupported b))"

definition service_package :: "analysis_source \<Rightarrow> service_spec \<Rightarrow> json option" where
  "service_package src service = map_of (as_packages src) (rooted (svc_root service) ''package.json'')"

definition service_command :: "analysis_source \<Rightarrow> service_spec \<Rightarrow> string option \<Rightarrow> bool" where
  "service_command src service command =
     command_present command
       (Option.bind (Option.bind (service_package src service) (json_get ''scripts'')) as_object)
       (svc_root service) (as_paths src)"

definition service_health :: "analysis_source \<Rightarrow> service_spec \<Rightarrow> bool" where
  "service_health src service =
     detect_health (svc_root service) (map_option hc_path (svc_health_check service)) (as_paths src) (as_hostlet src)"

definition analyze_service ::
  "analysis_source \<Rightarrow> repository_spec \<Rightarrow> bool \<Rightarrow> nat \<Rightarrow> service_spec \<Rightarrow> analysis_builder
     \<Rightarrow> analysis_builder \<times> service_facts" where
  "analyze_service src repository durable_source index service b =
     (let package_path = rooted (svc_root service) ''package.json'';
          package = service_package src service;
          b1 = check_service_root index service package_path package b;
          b2 = check_node_engine index service package_path package b1;
          build_present = service_command src service (svc_build_command service);
          start_present = service_command src service (svc_start_command service);
          health_present = service_health src service;
          b3 = check_command (svc_build_command service) build_present ''build_command_missing''
                 ''The configured build command is not declared at the selected service root.'' package_path b2;
          b4 = check_command (svc_start_command service) start_present ''start_command_missing''
                 ''The configured start command is not declared at the selected service root.'' package_path b3;
          b5 = check_health index service health_present package_path b4;
          b6 = check_framework src repository service package_path package build_present health_present b5
      in (b6,
          \<lparr>svf_kind = service_kind_name (svc_kind service), svf_root = svc_root service,
           svf_framework = framework_name (svc_framework service),
           svf_node_major = map_option node_major (svc_node service),
           svf_build_command_present = build_present, svf_start_command_present = start_present,
           svf_http_health_path_present = health_present,
           svf_durable_data_detected = (svc_kind service = Application \<and> durable_source)\<rparr>))"

fun analyze_services ::
  "analysis_source \<Rightarrow> repository_spec \<Rightarrow> bool \<Rightarrow> nat \<Rightarrow> service_spec list \<Rightarrow> analysis_builder
     \<Rightarrow> analysis_builder \<times> service_facts list" where
  "analyze_services src repository durable_source index [] b = (b, [])"
| "analyze_services src repository durable_source index (service # services) b =
     (let (b1, facts) = analyze_service src repository durable_source index service b;
          (b2, rest) = analyze_services src repository durable_source (Suc index) services b1
      in (b2, facts # rest))"

section \<open>The whole analysis\<close>

definition lockfile_present :: "repository_spec \<Rightarrow> string list \<Rightarrow> bool" where
  "lockfile_present repository paths \<longleftrightarrow>
     (case repo_lockfile_path repository of None \<Rightarrow> False | Some path \<Rightarrow> path \<in> set paths)"

definition check_lockfile :: "repository_spec \<Rightarrow> string list \<Rightarrow> analysis_builder \<Rightarrow> analysis_builder" where
  "check_lockfile repository paths b =
     (let b1 = (if \<not> lockfile_present repository paths
                then push_question (question ''lockfile-path'' ''lockfile_path'' ''configuration_choice''
                         ''repositories[0].lockfile_path'' ''Select the repository-relative package-lock.json path.'' None [])
                      (reason ''lockfile_missing''
                         ''The selected npm package-lock.json was not found at the configured path.''
                         (repo_lockfile_path repository) (needs_configuration b))
                else b)
      in if repo_package_manager repository \<noteq> Npm
            \<or> \<not> lockfile_present repository paths \<and> has_unsupported_lockfile paths
         then reason ''unsupported_package_manager''
                ''The initial compatibility contract supports locked npm projects only.''
                (repo_lockfile_path repository) (unsupported b1)
         else b1)"

definition collect_environment :: "json list \<Rightarrow> string list \<Rightarrow> api_error + environment" where
  "collect_environment documents texts =
     (case collect_hostlet_environments documents [] of
        Inl e \<Rightarrow> Inl e
      | Inr declared \<Rightarrow>
          let referenced = fold collect_environment_references texts declared;
              environment = fold (\<lambda>name env. if map_of declared name = None then btree_remove name env else env)
                              [''PORT'', ''NODE_ENV''] referenced
          in if length environment > MAX_ENVIRONMENT_NAMES
             then Inl (unprocessable ''compatibility_report_limit''
                         ''the source declares too many environment variable names'')
             else Inr environment)"

definition has_database_service :: "standard_project_spec \<Rightarrow> bool" where
  "has_database_service spec \<longleftrightarrow> (\<exists>service \<in> set (spec_services spec). svc_kind service = Postgres)"

definition check_database :: "bool \<Rightarrow> bool \<Rightarrow> (string \<times> string) list \<Rightarrow> analysis_builder \<Rightarrow> analysis_builder" where
  "check_database durable_source database files b =
     (if durable_source
      then let b1 = reason ''postgresql_connection_required''
                      ''The application declares PostgreSQL-backed durable data.''
                      (first_evidence_path files ''hostlet.json'') b
           in if \<not> database
              then push_question (question ''project-database'' ''database_service'' ''configuration_choice'' ''services''
                       ''Add the supported PostgreSQL 18 service or keep this project showcase-only.'' None
                       [''postgresql18'', ''showcase_only'']) (b1\<lparr>ab_database_needed := True\<rparr>)
              else b1
      else b)"

definition names_of :: "environment_classification \<Rightarrow> environment \<Rightarrow> string list" where
  "names_of classification environment = map fst (filter (\<lambda>(name, c). c = classification) environment)"

definition secret_question :: "string \<Rightarrow> configuration_question" where
  "secret_question name =
     question (''secret-'' @ safe_identifier name) ''environment_variable'' ''secret_required''
       (''environment.'' @ name) (''Provide the server secret '' @ name @ '' during paid configuration.'') None []"

definition public_question :: "string \<Rightarrow> configuration_question" where
  "public_question name =
     question (''public-'' @ safe_identifier name) ''environment_variable'' ''public_build_value''
       (''environment.'' @ name) (''Enter the public build-time value for '' @ name @ ''.'') None []"

definition check_secrets :: "environment \<Rightarrow> (string \<times> string) list \<Rightarrow> analysis_builder \<Rightarrow> analysis_builder" where
  "check_secrets environment files b =
     (let names = names_of ServerSecret environment
      in if names = [] then b
         else fold (\<lambda>name. push_question (secret_question name)) names
                (reason ''server_secret_names_declared''
                   ''Server secret names are declared; no secret value was read or inferred.''
                   (first_evidence_path files ''hostlet.json'') (b\<lparr>ab_secrets_needed := True\<rparr>)))"

definition check_public_values :: "environment \<Rightarrow> (string \<times> string) list \<Rightarrow> analysis_builder \<Rightarrow> analysis_builder" where
  "check_public_values environment files b =
     (let names = names_of PublicBuildValue environment
      in if names = [] then b
         else fold (\<lambda>name. push_question (public_question name)) names
                (reason ''public_build_values_separate''
                   ''Public build-time variable names are separate from server secrets.''
                   (first_evidence_path files ''hostlet.json'') b))"

definition check_inert_commands :: "analysis_source \<Rightarrow> analysis_builder \<Rightarrow> analysis_builder" where
  "check_inert_commands src b =
     (if detects_inert_commands (as_packages src) (as_hostlet src)
      then reason ''commands_are_inert_metadata''
             ''Lifecycle, build, start and migration commands were inspected only as inert metadata.''
             (first_evidence_path (as_files src) ''package.json'') (needs_configuration b)
      else b)"

text \<open>The builder at the end of the analysis, with the facts of the services.\<close>

definition build_analysis ::
  "standard_project_spec \<Rightarrow> repository_spec \<Rightarrow> analysis_source \<Rightarrow> environment \<Rightarrow> analysis_builder \<times> service_facts list" where
  "build_analysis spec repository src environment =
     (let durable_source = detects_durable_data (as_packages src) (as_hostlet src) (as_files src);
          b1 = inspect_unsupported (as_paths src) (as_files src) new_builder;
          b2 = check_lockfile repository (as_paths src) b1;
          (b3, services) = analyze_services src repository durable_source 0 (spec_services spec) b2;
          b4 = check_database durable_source (has_database_service spec) (as_files src) b3;
          b5 = check_secrets environment (as_files src) b4;
          b6 = check_public_values environment (as_files src) b5
      in (check_inert_commands src b6, services))"

definition finish_analysis ::
  "repository_spec \<Rightarrow> source_snapshot \<Rightarrow> int \<Rightarrow> environment \<Rightarrow> analysis_builder \<times> service_facts list
     \<Rightarrow> api_error + analysis" where
  "finish_analysis repository snapshot bytes_read environment result =
     (case result of (b, services) \<Rightarrow>
        if ab_report_limit_exceeded b
        then Inl (unprocessable ''compatibility_report_limit''
                    ''the compatibility report exceeded its bounded findings limit'')
        else Inr
          \<lparr>an_status = builder_status b,
           an_facts =
             \<lparr>csf_contract_version = REPORT_CONTRACT,
              csf_repository = \<lparr>rf_layout = repository_layout_name (repo_layout repository),
                rf_package_manager = package_manager_name (repo_package_manager repository),
                rf_lockfile_path = repo_lockfile_path repository\<rparr>,
              csf_services = services,
              csf_environment_requirements =
                map (\<lambda>(name, c). \<lparr>env_req_name = name, env_req_classification = c\<rparr>) environment,
              csf_reasons = sort_key rsn_code (ab_reasons b),
              csf_configuration_questions = sort_key qst_id (ab_questions b),
              csf_inspection = \<lparr>ins_files_considered = length (snap_entry_paths snapshot),
                ins_files_read = length (snap_files snapshot), ins_bytes_read = bytes_read,
                ins_limits_revision = LIMITS_REVISION\<rparr>\<rparr>\<rparr>)"

text \<open>Reading the documents; the managed database connection is not asked of the owner.\<close>

definition read_source ::
  "(string \<Rightarrow> json option) \<Rightarrow> standard_project_spec \<Rightarrow> source_snapshot
     \<Rightarrow> api_error + repository_spec \<times> analysis_source \<times> environment \<times> int" where
  "read_source from_str spec snapshot =
     (case read_files (snap_files snapshot) [] 0 of
        Inl e \<Rightarrow> Inl e
      | Inr (files, bytes_read) \<Rightarrow>
     (case parse_json_documents from_str ''package.json'' files of
        Inl e \<Rightarrow> Inl e
      | Inr packages \<Rightarrow>
     (case parse_json_documents from_str ''hostlet.json'' files of
        Inl e \<Rightarrow> Inl e
      | Inr hostlet \<Rightarrow>
     (case spec_repositories spec of
        [] \<Rightarrow> Inl malformed_source
      | repository # _ \<Rightarrow>
     (case collect_environment (map snd hostlet) (map snd files) of
        Inl e \<Rightarrow> Inl e
      | Inr environment \<Rightarrow>
          Inr (repository,
               \<lparr>as_paths = btree_set (snap_entry_paths snapshot), as_files = files, as_packages = packages,
                as_hostlet = hostlet\<rparr>,
               (if has_database_service spec then btree_remove ''DATABASE_URL'' environment else environment),
               bytes_read))))))"

definition analyze ::
  "(string \<Rightarrow> json option) \<Rightarrow> standard_project_spec \<Rightarrow> source_snapshot \<Rightarrow> api_error + analysis" where
  "analyze from_str spec snapshot =
     (case read_source from_str spec snapshot of
        Inl e \<Rightarrow> Inl e
      | Inr (repository, src, environment, bytes_read) \<Rightarrow>
          finish_analysis repository snapshot bytes_read environment
            (build_analysis spec repository src environment))"

end
