(* ===== verification/Compatibility_Properties.thy ===== *)
theory Compatibility_Properties
  imports Source_Compatibility
begin

text \<open>
  What a compatibility report says.  Its status is determined by conditions on the source alone,
  whatever the order in which the analysis visits it; reasons and questions are unique, sorted and
  bounded, and every environment variable is asked for.
\<close>

section \<open>The flags of a report\<close>

lemma reason_flags [simp]:
  "ab_unsupported (reason c m p b) = ab_unsupported b"
  "ab_configuration_needed (reason c m p b) = ab_configuration_needed b"
  "ab_database_needed (reason c m p b) = ab_database_needed b"
  "ab_secrets_needed (reason c m p b) = ab_secrets_needed b"
  by (simp_all add: reason_def Let_def)

lemma question_flags [simp]:
  "ab_unsupported (push_question q b) = ab_unsupported b"
  "ab_configuration_needed (push_question q b) = ab_configuration_needed b"
  "ab_database_needed (push_question q b) = ab_database_needed b"
  "ab_secrets_needed (push_question q b) = ab_secrets_needed b"
  by (simp_all add: push_question_def Let_def)

lemma mark_flags [simp]:
  "ab_unsupported (unsupported b) = True"
  "ab_configuration_needed (unsupported b) = ab_configuration_needed b"
  "ab_database_needed (unsupported b) = ab_database_needed b"
  "ab_secrets_needed (unsupported b) = ab_secrets_needed b"
  "ab_unsupported (needs_configuration b) = ab_unsupported b"
  "ab_configuration_needed (needs_configuration b) = True"
  "ab_database_needed (needs_configuration b) = ab_database_needed b"
  "ab_secrets_needed (needs_configuration b) = ab_secrets_needed b"
  by (simp_all add: unsupported_def needs_configuration_def)

lemma fold_question_flags [simp]:
  "ab_unsupported (fold (\<lambda>x. push_question (f x)) xs b) = ab_unsupported b"
  "ab_configuration_needed (fold (\<lambda>x. push_question (f x)) xs b) = ab_configuration_needed b"
  "ab_database_needed (fold (\<lambda>x. push_question (f x)) xs b) = ab_database_needed b"
  "ab_secrets_needed (fold (\<lambda>x. push_question (f x)) xs b) = ab_secrets_needed b"
  by (induction xs arbitrary: b) simp_all

lemma fold_reason_flags [simp]:
  "ab_unsupported (fold (\<lambda>(c, m). reason c m p) xs b) = ab_unsupported b"
  "ab_configuration_needed (fold (\<lambda>(c, m). reason c m p) xs b) = ab_configuration_needed b"
  "ab_database_needed (fold (\<lambda>(c, m). reason c m p) xs b) = ab_database_needed b"
  "ab_secrets_needed (fold (\<lambda>(c, m). reason c m p) xs b) = ab_secrets_needed b"
  by (induction xs arbitrary: b) (simp_all add: split_def)

text \<open>The four flags of a builder.\<close>

definition flags :: "analysis_builder \<Rightarrow> bool \<times> bool \<times> bool \<times> bool" where
  "flags b = (ab_unsupported b, ab_configuration_needed b, ab_database_needed b, ab_secrets_needed b)"

lemma unsupported_because_flags [simp]:
  "ab_unsupported (unsupported_because found rs b) \<longleftrightarrow> ab_unsupported b \<or> found \<noteq> None"
  "ab_configuration_needed (unsupported_because found rs b) = ab_configuration_needed b"
  "ab_database_needed (unsupported_because found rs b) = ab_database_needed b"
  "ab_secrets_needed (unsupported_because found rs b) = ab_secrets_needed b"
  by (cases found; simp add: unsupported_because_def)+

section \<open>What each status means\<close>

definition unsupported_files :: "analysis_source \<Rightarrow> bool" where
  "unsupported_files src \<longleftrightarrow>
     (\<exists>path \<in> set (as_paths src). compose_path path \<or> dockerfile_path path \<or> worker_path path \<or> persistent_path path)
     \<or> (\<exists>file \<in> set (as_files src). custom_server_file file \<or> persistent_body file)"

lemma find_hit: "find P xs \<noteq> None \<longleftrightarrow> (\<exists>x \<in> set xs. P x)"
  by (auto simp: find_None_iff)

lemma or_else_hit: "(case x of None \<Rightarrow> y | Some z \<Rightarrow> Some z) \<noteq> None \<longleftrightarrow> x \<noteq> None \<or> y \<noteq> None"
  by (simp split: option.split)

lemma inspect_flags:
  "ab_unsupported (inspect_unsupported (as_paths src) (as_files src) b) \<longleftrightarrow> ab_unsupported b \<or> unsupported_files src"
  "ab_configuration_needed (inspect_unsupported paths files b) = ab_configuration_needed b"
  "ab_database_needed (inspect_unsupported paths files b) = ab_database_needed b"
  "ab_secrets_needed (inspect_unsupported paths files b) = ab_secrets_needed b"
proof -
  show "ab_unsupported (inspect_unsupported (as_paths src) (as_files src) b) \<longleftrightarrow> ab_unsupported b \<or> unsupported_files src"
    unfolding inspect_unsupported_def Let_def unsupported_because_flags unsupported_files_def
    by (simp only: or_else_hit option.map_disc_iff find_hit bex_disj_distrib) argo
qed (simp_all only: inspect_unsupported_def Let_def unsupported_because_flags)

lemma lockfile_flags:
  "ab_unsupported (check_lockfile repository paths b) \<longleftrightarrow> ab_unsupported b \<or> repo_package_manager repository \<noteq> Npm
     \<or> \<not> lockfile_present repository paths \<and> has_unsupported_lockfile paths"
  "ab_configuration_needed (check_lockfile repository paths b) \<longleftrightarrow>
     ab_configuration_needed b \<or> \<not> lockfile_present repository paths"
  "ab_database_needed (check_lockfile repository paths b) = ab_database_needed b"
  "ab_secrets_needed (check_lockfile repository paths b) = ab_secrets_needed b"
  by (auto simp: check_lockfile_def Let_def)

definition engine_of :: "analysis_source \<Rightarrow> service_spec \<Rightarrow> node_engine_evidence option" where
  "engine_of src service = Option.bind (service_package src service) classify_node_engine"

definition service_unsupported :: "analysis_source \<Rightarrow> service_spec \<Rightarrow> bool" where
  "service_unsupported src service \<longleftrightarrow>
     engine_of src service = Some Unsupported
     \<or> svc_framework service \<in> {DockerCompose, CustomNextServer, UnsupportedFramework}"

definition engine_unclear :: "analysis_source \<Rightarrow> service_spec \<Rightarrow> bool" where
  "engine_unclear src service \<longleftrightarrow>
     (case engine_of src service of
        Some Ambiguous \<Rightarrow> True
      | Some (Supported majors) \<Rightarrow>
          (case svc_node service of Some node \<Rightarrow> uint (node_major node) \<notin> set majors | None \<Rightarrow> False)
      | _ \<Rightarrow> False)"

definition framework_unproved :: "analysis_source \<Rightarrow> service_spec \<Rightarrow> bool" where
  "framework_unproved src service \<longleftrightarrow>
     (case svc_framework service of
        ViteStatic \<Rightarrow> \<not> detects_vite (svc_root service) (service_package src service) (as_paths src)
      | StaticExport \<Rightarrow> \<not> service_command src service (svc_build_command service)
      | Nextjs16Standalone \<Rightarrow>
          \<not> detects_next16_standalone (svc_root service) (service_package src service) (as_files src)
      | _ \<Rightarrow> False)"

definition service_incomplete :: "analysis_source \<Rightarrow> service_spec \<Rightarrow> bool" where
  "service_incomplete src service \<longleftrightarrow>
     svc_kind service \<noteq> Postgres \<and> service_package src service = None
     \<or> engine_unclear src service
     \<or> svc_build_command service \<noteq> None \<and> \<not> service_command src service (svc_build_command service)
     \<or> svc_start_command service \<noteq> None \<and> \<not> service_command src service (svc_start_command service)
     \<or> svc_kind service = Application \<and> \<not> service_health src service
     \<or> framework_unproved src service"

lemma engine_flags:
  "ab_unsupported (check_node_engine i service path (service_package src service) b) \<longleftrightarrow>
     ab_unsupported b \<or> engine_of src service = Some Unsupported"
  "ab_configuration_needed (check_node_engine i service path (service_package src service) b) \<longleftrightarrow>
     ab_configuration_needed b \<or> engine_unclear src service"
  "ab_database_needed (check_node_engine i service path package b) = ab_database_needed b"
  "ab_secrets_needed (check_node_engine i service path package b) = ab_secrets_needed b"
  by (auto simp: check_node_engine_def engine_of_def engine_unclear_def split: option.split node_engine_evidence.split)

lemma framework_flags:
  "ab_unsupported (check_framework src repository service path (service_package src service)
       (service_command src service (svc_build_command service)) health b) \<longleftrightarrow>
     ab_unsupported b \<or> svc_framework service \<in> {DockerCompose, CustomNextServer, UnsupportedFramework}"
  "ab_configuration_needed (check_framework src repository service path (service_package src service)
       (service_command src service (svc_build_command service)) health b) \<longleftrightarrow>
     ab_configuration_needed b \<or> framework_unproved src service"
  "ab_database_needed (check_framework src repository service path package bp health b) = ab_database_needed b"
  "ab_secrets_needed (check_framework src repository service path package bp health b) = ab_secrets_needed b"
  by (cases "svc_framework service"; simp add: check_framework_def Let_def framework_unproved_def)+

lemma small_check_flags:
  "ab_unsupported (check_service_root i service path package b) = ab_unsupported b"
  "ab_configuration_needed (check_service_root i service path package b) \<longleftrightarrow>
     ab_configuration_needed b \<or> svc_kind service \<noteq> Postgres \<and> package = None"
  "ab_database_needed (check_service_root i service path package b) = ab_database_needed b"
  "ab_secrets_needed (check_service_root i service path package b) = ab_secrets_needed b"
  "ab_unsupported (check_command command present c m path b) = ab_unsupported b"
  "ab_configuration_needed (check_command command present c m path b) \<longleftrightarrow>
     ab_configuration_needed b \<or> command \<noteq> None \<and> \<not> present"
  "ab_database_needed (check_command command present c m path b) = ab_database_needed b"
  "ab_secrets_needed (check_command command present c m path b) = ab_secrets_needed b"
  "ab_unsupported (check_health i service health path b) = ab_unsupported b"
  "ab_configuration_needed (check_health i service health path b) \<longleftrightarrow>
     ab_configuration_needed b \<or> svc_kind service = Application \<and> \<not> health"
  "ab_database_needed (check_health i service health path b) = ab_database_needed b"
  "ab_secrets_needed (check_health i service health path b) = ab_secrets_needed b"
  by (auto simp: check_service_root_def check_command_def check_health_def)

lemma service_flags:
  "flags (fst (analyze_service src repository durable i service b)) =
     (ab_unsupported b \<or> service_unsupported src service, ab_configuration_needed b \<or> service_incomplete src service,
      ab_database_needed b, ab_secrets_needed b)"
  by (simp add: flags_def analyze_service_def Let_def small_check_flags engine_flags framework_flags
      service_unsupported_def service_incomplete_def disj_assoc)

lemma services_flags:
  "flags (fst (analyze_services src repository durable i services b)) =
     (ab_unsupported b \<or> (\<exists>service \<in> set services. service_unsupported src service),
      ab_configuration_needed b \<or> (\<exists>service \<in> set services. service_incomplete src service),
      ab_database_needed b, ab_secrets_needed b)"
proof (induction services arbitrary: i b)
  case (Cons service services)
  obtain b1 f where b1: "analyze_service src repository durable i service b = (b1, f)" by (cases "analyze_service src repository durable i service b")
  with service_flags [of src repository durable i service b] Cons.IH [of "Suc i" b1]
  show ?case by (simp add: flags_def split_def Let_def) 
qed (simp add: flags_def)


lemma database_flags:
  "flags (check_database durable database files b) =
     (ab_unsupported b, ab_configuration_needed b, ab_database_needed b \<or> durable \<and> \<not> database, ab_secrets_needed b)"
  by (simp add: flags_def check_database_def Let_def)

lemma secrets_flags:
  "flags (check_secrets environment files b) =
     (ab_unsupported b, ab_configuration_needed b, ab_database_needed b,
      ab_secrets_needed b \<or> names_of ServerSecret environment \<noteq> [])"
  by (simp add: flags_def check_secrets_def Let_def)

lemma public_flags: "flags (check_public_values environment files b) = flags b"
  by (simp add: flags_def check_public_values_def Let_def)

lemma inert_flags:
  "flags (check_inert_commands src b) =
     (ab_unsupported b, ab_configuration_needed b \<or> detects_inert_commands (as_packages src) (as_hostlet src),
      ab_database_needed b, ab_secrets_needed b)"
  by (simp add: flags_def check_inert_commands_def)

definition showcase_only :: "standard_project_spec \<Rightarrow> repository_spec \<Rightarrow> analysis_source \<Rightarrow> bool" where
  "showcase_only spec repository src \<longleftrightarrow>
     unsupported_files src \<or> repo_package_manager repository \<noteq> Npm
     \<or> \<not> lockfile_present repository (as_paths src) \<and> has_unsupported_lockfile (as_paths src)
     \<or> (\<exists>service \<in> set (spec_services spec). service_unsupported src service)"

definition configuration_open :: "standard_project_spec \<Rightarrow> repository_spec \<Rightarrow> analysis_source \<Rightarrow> bool" where
  "configuration_open spec repository src \<longleftrightarrow>
     \<not> lockfile_present repository (as_paths src)
     \<or> (\<exists>service \<in> set (spec_services spec). service_incomplete src service)
     \<or> detects_inert_commands (as_packages src) (as_hostlet src)"

definition database_open :: "standard_project_spec \<Rightarrow> analysis_source \<Rightarrow> bool" where
  "database_open spec src \<longleftrightarrow>
     detects_durable_data (as_packages src) (as_hostlet src) (as_files src) \<and> \<not> has_database_service spec"

lemma flags_eq: "flags b = (u, c, d, s) \<longleftrightarrow>
    ab_unsupported b = u \<and> ab_configuration_needed b = c \<and> ab_database_needed b = d \<and> ab_secrets_needed b = s"
  by (simp add: flags_def)

lemma new_builder_flags: "flags new_builder = (False, False, False, False)"
  by (simp add: flags_def new_builder_def)

lemma build_flags:
  "flags (fst (build_analysis spec repository src environment)) =
     (showcase_only spec repository src, configuration_open spec repository src, database_open spec src,
      names_of ServerSecret environment \<noteq> [])"
proof -
  let ?durable = "detects_durable_data (as_packages src) (as_hostlet src) (as_files src)"
  let ?b2 = "check_lockfile repository (as_paths src) (inspect_unsupported (as_paths src) (as_files src) new_builder)"
  obtain b3 services where b3: "analyze_services src repository ?durable 0 (spec_services spec) ?b2 = (b3, services)"
    by (cases "analyze_services src repository ?durable 0 (spec_services spec) ?b2")
  have "flags b3 = (showcase_only spec repository src,
      \<not> lockfile_present repository (as_paths src) \<or> (\<exists>service \<in> set (spec_services spec). service_incomplete src service),
      False, False)"
    using services_flags [of src repository ?durable 0 "spec_services spec" ?b2] new_builder_flags
    by (simp add: b3 inspect_flags lockfile_flags flags_eq showcase_only_def disj_assoc)
  then show ?thesis
    using database_flags [of ?durable "has_database_service spec" "as_files src" b3]
    by (simp add: build_analysis_def Let_def b3 flags_def inert_flags [unfolded flags_def prod.inject]
        public_flags [unfolded flags_def prod.inject] secrets_flags [unfolded flags_def prod.inject]
        configuration_open_def database_open_def disj_assoc)
qed

definition expected_status ::
  "standard_project_spec \<Rightarrow> repository_spec \<Rightarrow> analysis_source \<Rightarrow> environment \<Rightarrow> compatibility_status" where
  "expected_status spec repository src environment =
     (if showcase_only spec repository src then ShowcaseOnly
      else if configuration_open spec repository src then ConfigurationNeeded
      else if database_open spec src then DatabaseNeeded
      else if \<exists>name. (name, ServerSecret) \<in> set environment then SecretsNeeded
      else Candidate)"

lemma names_of_Nil: "names_of c environment = [] \<longleftrightarrow> \<not> (\<exists>name. (name, c) \<in> set environment)"
  by (auto simp: names_of_def filter_empty_conv)

text \<open>C38: the status of a report is the one that the source explains: showcase-only for unsupported
  files, package managers, Node lines or frameworks; else configuration needed while a lockfile, a
  package, a command, a health endpoint or framework evidence is missing or commands are inert;
  else database needed for durable data without a database service; else secrets needed for
  undeclared server secrets; and a candidate exactly when none of these holds.\<close>

theorem status_is_explained:
  assumes "analyze from_str spec snapshot = Inr a"
  shows "\<exists>repository src environment bytes.
     read_source from_str spec snapshot = Inr (repository, src, environment, bytes)
     \<and> an_status a = expected_status spec repository src environment"
proof -
  obtain repository src environment bytes
    where read: "read_source from_str spec snapshot = Inr (repository, src, environment, bytes)"
    and fin: "finish_analysis repository snapshot bytes environment (build_analysis spec repository src environment) = Inr a"
    using assms by (auto simp: analyze_def split: sum.splits)
  let ?b = "fst (build_analysis spec repository src environment)"
  have "an_status a = builder_status ?b"
    using fin by (auto simp: finish_analysis_def split_def split: if_splits)
  also have "\<dots> = expected_status spec repository src environment"
    using build_flags [of spec repository src environment]
    by (simp add: builder_status_def expected_status_def flags_eq names_of_Nil)
  finally show ?thesis using read by blast
qed

section \<open>The shape of a report\<close>

definition env_ok :: "environment \<Rightarrow> bool" where
  "env_ok environment \<longleftrightarrow> btree environment \<and> (\<forall>name \<in> fst ` set environment. valid_environment_name name)"

lemma add_environment_ok: "env_ok e \<Longrightarrow> valid_environment_name name \<Longrightarrow> env_ok (add_environment name c e)"
  by (simp add: env_ok_def add_environment_def btree_entry_btree)

lemma insert_values_ok: "insert_environment_values vs c e = Inr e' \<Longrightarrow> env_ok e \<Longrightarrow> env_ok e'"
  by (induction vs arbitrary: e)
     (auto simp: insert_environment_name_def add_environment_ok split: option.splits sum.splits if_splits)

lemma collect_hostlet_ok: "collect_hostlet_environment d e = Inr e' \<Longrightarrow> env_ok e \<Longrightarrow> env_ok e'"
  by (auto simp: collect_hostlet_environment_def insert_environment_field_def
      split: option.splits sum.splits if_splits dest: insert_values_ok)

lemma collect_hostlets_ok: "collect_hostlet_environments ds e = Inr e' \<Longrightarrow> env_ok e \<Longrightarrow> env_ok e'"
  by (induction ds arbitrary: e) (auto split: sum.splits dest: collect_hostlet_ok)

lemma environment_references_ok: "env_ok e \<Longrightarrow> env_ok (environment_references p ps s e)"
proof (induction p ps s e rule: environment_references.induct)
  case (1 p ps remainder e)
  show ?case
  proof (cases "str_find (p # ps) remainder")
    case (Some index)
    let ?rest = "drop (index + length (p # ps)) remainder"
    let ?name = "take 129 (takeWhile (\<lambda>c. is_ascii_alphanumeric c \<or> c = CHR ''_'') ?rest)"
    have "env_ok (if valid_environment_name ?name then add_environment ?name (reference_class ?name) e else e)"
      using 1(2) add_environment_ok by simp
    from 1(1) [OF Some refl refl this] show ?thesis
      by (simp only: environment_references.simps [of p ps remainder e] Some option.case Let_def)
  qed (use 1(2) in \<open>subst environment_references.simps, simp\<close>)
qed

lemma collect_references_ok: "env_ok e \<Longrightarrow> env_ok (fold collect_environment_references texts e)"
  by (induction texts arbitrary: e) (simp_all add: collect_environment_references_def environment_references_ok)

lemma remove_ok: "env_ok e \<Longrightarrow> env_ok (btree_remove name e)"
  by (auto simp: env_ok_def btree_remove_btree) (auto simp: btree_remove_def)

lemma collect_environment_ok:
  assumes "collect_environment documents texts = Inr e"
  shows "env_ok e \<and> length e \<le> MAX_ENVIRONMENT_NAMES"
proof -
  obtain declared where d: "collect_hostlet_environments documents [] = Inr declared"
    using assms by (auto simp: collect_environment_def split: sum.splits)
  have "env_ok declared" using collect_hostlets_ok [OF d] by (simp add: env_ok_def)
  then have "env_ok (fold collect_environment_references texts declared)" by (rule collect_references_ok)
  with assms d show ?thesis
    by (auto simp: collect_environment_def Let_def intro: remove_ok split: if_splits)
qed

lemma remove_length: "length (btree_remove name e) \<le> length e"
  by (simp add: btree_remove_def)

lemma read_source_environment:
  assumes "read_source from_str spec snapshot = Inr (repository, src, environment, bytes)"
  shows "env_ok environment \<and> length environment \<le> MAX_ENVIRONMENT_NAMES"
  using assms remove_length [of "''DATABASE_URL''"]
  by (auto simp: read_source_def split: sum.splits prod.splits list.splits if_splits
      dest!: collect_environment_ok intro: remove_ok order_trans)

text \<open>Reasons and questions are unique and bounded, and none is dropped while the limit holds.\<close>

definition builder_ok :: "analysis_builder \<Rightarrow> bool" where
  "builder_ok b \<longleftrightarrow>
     distinct (map rsn_code (ab_reasons b)) \<and> rsn_code ` set (ab_reasons b) \<subseteq> ab_reason_codes b
     \<and> length (ab_reasons b) \<le> MAX_REASONS
     \<and> distinct (map qst_id (ab_questions b)) \<and> qst_id ` set (ab_questions b) \<subseteq> ab_question_ids b
     \<and> length (ab_questions b) \<le> MAX_QUESTIONS"

text \<open>What every step of the analysis does to a builder.\<close>

definition step_ok :: "analysis_builder \<Rightarrow> analysis_builder \<Rightarrow> bool" where
  "step_ok b c \<longleftrightarrow>
     (builder_ok b \<longrightarrow> builder_ok c) \<and> set (ab_questions b) \<subseteq> set (ab_questions c)
     \<and> (ab_report_limit_exceeded b \<longrightarrow> ab_report_limit_exceeded c)"

named_theorems step_intros \<open>steps of the analysis keep the builder well formed\<close>

lemma step_refl: "step_ok b b"
  by (simp add: step_ok_def)

lemma step_trans: "step_ok b c \<Longrightarrow> step_ok c d \<Longrightarrow> step_ok b d"
  by (auto simp: step_ok_def)

lemma step_reason [step_intros]: "step_ok b c \<Longrightarrow> step_ok b (reason code m p c)"
  by (rule step_trans, assumption) (auto simp: step_ok_def reason_def Let_def builder_ok_def)

lemma step_question [step_intros]: "step_ok b c \<Longrightarrow> step_ok b (push_question q c)"
  by (rule step_trans, assumption) (auto simp: step_ok_def push_question_def Let_def builder_ok_def)

lemma step_marks [step_intros]:
  "step_ok b c \<Longrightarrow> step_ok b (unsupported c)" "step_ok b c \<Longrightarrow> step_ok b (needs_configuration c)"
  "step_ok b c \<Longrightarrow> step_ok b (c\<lparr>ab_database_needed := True\<rparr>)" "step_ok b c \<Longrightarrow> step_ok b (c\<lparr>ab_secrets_needed := True\<rparr>)"
  by (simp_all add: step_ok_def builder_ok_def unsupported_def needs_configuration_def)

lemma step_fold_question [step_intros]: "step_ok b c \<Longrightarrow> step_ok b (fold (\<lambda>x. push_question (f x)) xs c)"
  by (induction xs arbitrary: c) (auto intro: step_intros)

lemma step_fold_reason: "step_ok b c \<Longrightarrow> step_ok b (fold (\<lambda>(code, m). reason code m p) xs c)"
  by (induction xs arbitrary: c) (auto intro: step_intros)

lemma step_unsupported_because [step_intros]: "step_ok b c \<Longrightarrow> step_ok b (unsupported_because found rs c)"
  by (auto simp: unsupported_because_def intro!: step_fold_reason step_intros split: option.split)

lemma step_inspect [step_intros]: "step_ok b c \<Longrightarrow> step_ok b (inspect_unsupported paths files c)"
  unfolding inspect_unsupported_def Let_def by (intro step_intros)

lemma step_lockfile [step_intros]: "step_ok b c \<Longrightarrow> step_ok b (check_lockfile repository paths c)"
  by (auto simp: check_lockfile_def Let_def intro!: step_intros)

lemma step_checks [step_intros]:
  "step_ok b c \<Longrightarrow> step_ok b (check_service_root i service path package c)"
  "step_ok b c \<Longrightarrow> step_ok b (check_command command present code m path c)"
  "step_ok b c \<Longrightarrow> step_ok b (check_health i service health path c)"
  "step_ok b c \<Longrightarrow> step_ok b (check_inert_commands src c)"
  "step_ok b c \<Longrightarrow> step_ok b (check_database durable database files c)"
  "step_ok b c \<Longrightarrow> step_ok b (check_public_values environment files c)"
  "step_ok b c \<Longrightarrow> step_ok b (check_secrets environment files c)"
  by (auto simp: check_service_root_def check_command_def check_health_def check_inert_commands_def
      check_database_def check_public_values_def check_secrets_def Let_def intro!: step_intros)

lemma step_engine [step_intros]: "step_ok b c \<Longrightarrow> step_ok b (check_node_engine i service path package c)"
  by (auto simp: check_node_engine_def intro!: step_intros split: option.split node_engine_evidence.split)

lemma step_framework [step_intros]:
  "step_ok b c \<Longrightarrow> step_ok b (check_framework src repository service path package bp health c)"
  by (auto simp: check_framework_def Let_def intro!: step_intros split: framework_pattern.split)

lemma step_services [step_intros]:
  "step_ok b c \<Longrightarrow> step_ok b (fst (analyze_services src repository durable i services c))"
proof (induction services arbitrary: i c)
  case (Cons service services)
  have "step_ok b (fst (analyze_service src repository durable i service c))"
    unfolding analyze_service_def Let_def fst_conv by (intro step_intros Cons.prems)
  from Cons.IH [OF this, of "Suc i"] show ?case by (simp add: split_def Let_def)
qed simp

section \<open>Every requirement is asked\<close>

text \<open>No question about an environment variable has been asked yet.\<close>

definition plain_id :: "string \<Rightarrow> bool" where
  "plain_id x \<longleftrightarrow> \<not> starts_with ''secret-'' x \<and> \<not> starts_with ''public-'' x"

definition plain :: "analysis_builder \<Rightarrow> bool" where
  "plain b \<longleftrightarrow> (\<forall>x \<in> ab_question_ids b. plain_id x)"

named_theorems plain_intros \<open>steps of the analysis that ask no question about the environment\<close>

lemma plain_basic [plain_intros]:
  "plain b \<Longrightarrow> plain (reason code m p b)"
  "plain b \<Longrightarrow> plain_id (qst_id q) \<Longrightarrow> plain (push_question q b)"
  "plain b \<Longrightarrow> plain (unsupported b)" "plain b \<Longrightarrow> plain (needs_configuration b)"
  "plain b \<Longrightarrow> plain (b\<lparr>ab_database_needed := True\<rparr>)" "plain b \<Longrightarrow> plain (b\<lparr>ab_secrets_needed := True\<rparr>)"
  by (auto simp: plain_def reason_def push_question_def unsupported_def needs_configuration_def Let_def)

lemma plain_questions [plain_intros]:
  "plain_id (qst_id (service_question i suffix kind field prompt path opts))"
  "plain_id (qst_id (question ''lockfile-path'' kind c t prompt sp opts))"
  "plain_id (qst_id (question ''project-database'' kind c t prompt sp opts))"
  by (simp_all add: plain_id_def service_question_def question_def starts_with_def)

lemma plain_fold_reason: "plain b \<Longrightarrow> plain (fold (\<lambda>(code, m). reason code m p) xs b)"
  by (induction xs arbitrary: b) (auto intro: plain_intros)

lemma plain_unsupported_because [plain_intros]: "plain b \<Longrightarrow> plain (unsupported_because found rs b)"
  by (auto simp: unsupported_because_def intro!: plain_fold_reason plain_intros split: option.split)

lemma plain_inspect [plain_intros]: "plain b \<Longrightarrow> plain (inspect_unsupported paths files b)"
  unfolding inspect_unsupported_def Let_def by (intro plain_intros)

lemma plain_checks [plain_intros]:
  "plain b \<Longrightarrow> plain (check_lockfile repository paths b)"
  "plain b \<Longrightarrow> plain (check_service_root i service path package b)"
  "plain b \<Longrightarrow> plain (check_command command present code m path b)"
  "plain b \<Longrightarrow> plain (check_health i service health path b)"
  "plain b \<Longrightarrow> plain (check_database durable database files b)"
  by (auto simp: check_lockfile_def check_service_root_def check_command_def check_health_def check_database_def
      Let_def intro!: plain_intros)

lemma plain_engine [plain_intros]: "plain b \<Longrightarrow> plain (check_node_engine i service path package b)"
  by (auto simp: check_node_engine_def intro!: plain_intros split: option.split node_engine_evidence.split)

lemma plain_framework [plain_intros]:
  "plain b \<Longrightarrow> plain (check_framework src repository service path package bp health b)"
  by (auto simp: check_framework_def Let_def intro!: plain_intros split: framework_pattern.split)

lemma plain_services [plain_intros]:
  "plain b \<Longrightarrow> plain (fst (analyze_services src repository durable i services b))"
proof (induction services arbitrary: i b)
  case (Cons service services)
  have "plain (fst (analyze_service src repository durable i service b))"
    unfolding analyze_service_def Let_def fst_conv by (intro plain_intros Cons.prems)
  from Cons.IH [OF this, of "Suc i"] show ?case by (simp add: split_def Let_def)
qed simp

lemma fold_question_ids:
  "ab_question_ids (fold (\<lambda>x. push_question (f x)) xs b) = ab_question_ids b \<union> (\<lambda>x. qst_id (f x)) ` set xs"
  by (induction xs arbitrary: b) (auto simp: push_question_def Let_def)

lemma fold_asked:
  assumes "distinct (map (\<lambda>x. qst_id (f x)) xs)" "(\<lambda>x. qst_id (f x)) ` set xs \<inter> ab_question_ids b = {}"
    and "\<not> ab_report_limit_exceeded (fold (\<lambda>x. push_question (f x)) xs b)"
  shows "f ` set xs \<subseteq> set (ab_questions (fold (\<lambda>x. push_question (f x)) xs b))"
  using assms
proof (induction xs arbitrary: b)
  case (Cons x xs)
  let ?c = "push_question (f x) b"
  have rest: "step_ok ?c (fold (\<lambda>x. push_question (f x)) xs ?c)" by (intro step_intros step_refl)
  have "\<not> ab_report_limit_exceeded ?c" using Cons.prems(3) rest by (auto simp: step_ok_def)
  moreover have fresh: "qst_id (f x) \<notin> ab_question_ids b" using Cons.prems(2) by auto
  ultimately have here: "f x \<in> set (ab_questions ?c)"
    by (auto simp: push_question_def Let_def split: if_splits)
  have "ab_question_ids ?c = insert (qst_id (f x)) (ab_question_ids b)"
    using fresh by (simp add: push_question_def Let_def)
  then have "f ` set xs \<subseteq> set (ab_questions (fold (\<lambda>x. push_question (f x)) xs ?c))"
    using Cons.prems by (intro Cons.IH) auto
  with here rest show ?case by (auto simp: step_ok_def)
qed simp


definition identifier_byte :: "char \<Rightarrow> char" where
  "identifier_byte b = (if is_ascii_alphanumeric b then to_ascii_lowercase b else CHR ''-'')"

lemma valid_name_ascii: "valid_environment_name name \<Longrightarrow> \<forall>b \<in> set name. byte b < 128"
  by (auto simp: valid_environment_name_def is_ascii_uppercase_def is_ascii_digit_def)

lemma safe_identifier_ascii:
  "valid_environment_name name \<Longrightarrow> length name \<le> 96 \<Longrightarrow> safe_identifier name = map identifier_byte name"
  using valid_name_ascii [of name]
  by (simp add: safe_identifier_def chars_ascii identifier_byte_def)

lemma identifier_byte_values:
  "is_ascii_uppercase b \<Longrightarrow> byte (identifier_byte b) = byte b + 32"
  "is_ascii_digit b \<Longrightarrow> byte (identifier_byte b) = byte b"
  "byte (identifier_byte CHR ''_'') = 45"
proof -
  assume up: "is_ascii_uppercase b"
  then have "is_ascii_alphanumeric b" "byte b + 32 < 256"
    by (auto simp: is_ascii_uppercase_def is_ascii_alphanumeric_def is_ascii_alphabetic_def)
  with up show "byte (identifier_byte b) = byte b + 32"
    by (simp add: identifier_byte_def to_ascii_lowercase_def)
next
  assume digit: "is_ascii_digit b"
  then have "is_ascii_alphanumeric b" "\<not> is_ascii_uppercase b"
    by (auto simp: is_ascii_uppercase_def is_ascii_alphanumeric_def is_ascii_digit_def)
  then show "byte (identifier_byte b) = byte b"
    by (simp add: identifier_byte_def to_ascii_lowercase_def)
qed (simp add: identifier_byte_def ascii_class_defs)

lemma identifier_byte_decode:
  assumes "is_ascii_uppercase b \<or> is_ascii_digit b \<or> b = CHR ''_''"
  shows "byte b = (let k = byte (identifier_byte b) in if 97 \<le> k then k - 32 else if k = 45 then 95 else k)"
  using assms
proof (elim disjE)
  assume "is_ascii_uppercase b"
  then show ?thesis by (simp add: identifier_byte_values is_ascii_uppercase_def Let_def)
next
  assume "is_ascii_digit b"
  then show ?thesis by (simp add: identifier_byte_values is_ascii_digit_def Let_def)
next
  assume "b = CHR ''_''"
  then show ?thesis by (simp add: identifier_byte_values Let_def)
qed

lemma identifier_byte_inj: "inj_on identifier_byte {b. is_ascii_uppercase b \<or> is_ascii_digit b \<or> b = CHR ''_''}"
proof (rule inj_onI, goal_cases)
  case (1 x y)
  have x: "is_ascii_uppercase x \<or> is_ascii_digit x \<or> x = CHR ''_''"
    and y: "is_ascii_uppercase y \<or> is_ascii_digit y \<or> y = CHR ''_''"
    using 1(1,2) by blast+
  have "byte x = byte y"
    using identifier_byte_decode [OF x] identifier_byte_decode [OF y] unfolding 1(3) by (rule trans [OF _ sym])
  then show ?case by simp
qed

lemma safe_identifier_inj:
  assumes "valid_environment_name m" "valid_environment_name n" "length m \<le> 96" "length n \<le> 96"
    and "safe_identifier m = safe_identifier n"
  shows "m = n"
proof -
  have "map identifier_byte m = map identifier_byte n"
    using assms by (simp add: safe_identifier_ascii)
  moreover have "inj_on identifier_byte (set m \<union> set n)"
    using assms(1,2) by (intro inj_on_subset [OF identifier_byte_inj]) (auto simp: valid_environment_name_def)
  ultimately show ?thesis by (rule map_inj_on)
qed

lemma asked_distinct:
  assumes "env_ok environment" "\<forall>name \<in> fst ` set environment. length name \<le> 96"
  shows "distinct (map (\<lambda>name. prefix @ safe_identifier name) (names_of c environment))"
proof -
  have "distinct (names_of c environment)"
    using assms(1) btree_distinct [of environment] by (auto simp: names_of_def env_ok_def intro: distinct_map_filter)
  moreover have "inj_on (\<lambda>name. prefix @ safe_identifier name) (set (names_of c environment))"
    using assms by (intro inj_onI) (auto simp: names_of_def env_ok_def intro: safe_identifier_inj)
  ultimately show ?thesis by (simp add: distinct_map)
qed

lemma question_ids: "qst_id (secret_question name) = ''secret-'' @ safe_identifier name"
    "qst_id (public_question name) = ''public-'' @ safe_identifier name"
  by (simp_all add: secret_question_def public_question_def question_def)

definition question_for :: "environment_classification \<Rightarrow> string \<Rightarrow> configuration_question" where
  "question_for c name = (if c = ServerSecret then secret_question name else public_question name)"

lemma reason_ids: "ab_question_ids (reason code m p b) = ab_question_ids b"
  by (simp add: reason_def Let_def)

lemma secret_ids:
  "plain b \<Longrightarrow> \<forall>x \<in> ab_question_ids (check_secrets environment files b). \<not> starts_with ''public-'' x"
  by (auto simp: check_secrets_def Let_def fold_question_ids reason_ids plain_def plain_id_def question_ids
      starts_with_def)

lemma environment_asked:
  assumes ok: "env_ok environment" "\<forall>name \<in> fst ` set environment. length name \<le> 96" and "plain b"
    and unlimited: "\<not> ab_report_limit_exceeded (check_public_values environment files (check_secrets environment files b))"
    and name: "(name, c) \<in> set environment"
  shows "question_for c name \<in> set (ab_questions (check_public_values environment files (check_secrets environment files b)))"
proof -
  let ?s = "check_secrets environment files b"
  let ?p = "check_public_values environment files ?s"
  have sp: "step_ok ?s ?p" by (intro step_intros step_refl)
  have listed: "name \<in> set (names_of c environment)" using name by (force simp: names_of_def)
  show ?thesis
  proof (cases c)
    case ServerSecret
    let ?r = "reason ''server_secret_names_declared''
                   ''Server secret names are declared; no secret value was read or inferred.''
                   (first_evidence_path files ''hostlet.json'') (b\<lparr>ab_secrets_needed := True\<rparr>)"
    have s: "?s = fold (\<lambda>name. push_question (secret_question name)) (names_of ServerSecret environment) ?r"
      using listed ServerSecret by (auto simp: check_secrets_def Let_def)
    have "plain ?r" by (intro plain_intros assms)
    then have "secret_question ` set (names_of ServerSecret environment) \<subseteq> set (ab_questions ?s)"
      unfolding s
    proof (intro fold_asked)
      show "distinct (map (\<lambda>x. qst_id (secret_question x)) (names_of ServerSecret environment))"
        unfolding question_ids by (rule asked_distinct [OF ok])
      show "(\<lambda>x. qst_id (secret_question x)) ` set (names_of ServerSecret environment) \<inter> ab_question_ids ?r = {}"
        if "plain ?r"
        using that by (auto simp: plain_def plain_id_def question_ids starts_with_def)
      show "\<not> ab_report_limit_exceeded (fold (\<lambda>x. push_question (secret_question x)) (names_of ServerSecret environment) ?r)"
        using unlimited sp unfolding s [symmetric] by (auto simp: step_ok_def)
    qed
    with listed ServerSecret sp show ?thesis by (auto simp: question_for_def step_ok_def)
  next
    case PublicBuildValue
    let ?r = "reason ''public_build_values_separate''
                   ''Public build-time variable names are separate from server secrets.''
                   (first_evidence_path files ''hostlet.json'') ?s"
    have p: "?p = fold (\<lambda>name. push_question (public_question name)) (names_of PublicBuildValue environment) ?r"
      using listed PublicBuildValue by (auto simp: check_public_values_def Let_def)
    have ids: "\<forall>x \<in> ab_question_ids ?r. \<not> starts_with ''public-'' x"
      using secret_ids [OF \<open>plain b\<close>] by (simp add: reason_ids)
    have "public_question ` set (names_of PublicBuildValue environment) \<subseteq> set (ab_questions ?p)"
      unfolding p
    proof (intro fold_asked)
      show "distinct (map (\<lambda>x. qst_id (public_question x)) (names_of PublicBuildValue environment))"
        unfolding question_ids by (rule asked_distinct [OF ok])
      show "(\<lambda>x. qst_id (public_question x)) ` set (names_of PublicBuildValue environment) \<inter> ab_question_ids ?r = {}"
        using ids by (auto simp: question_ids starts_with_def)
      show "\<not> ab_report_limit_exceeded (fold (\<lambda>x. push_question (public_question x)) (names_of PublicBuildValue environment) ?r)"
        using unlimited unfolding p .
    qed
    with listed PublicBuildValue show ?thesis by (auto simp: question_for_def)
  qed
qed


lemma services_length: "length (snd (analyze_services src repository durable i services b)) = length services"
  by (induction services arbitrary: i b) (simp_all add: split_def Let_def)

lemma sorted_by_key: "distinct (map f xs) \<Longrightarrow> sorted_wrt (<) (map f (sort_key f xs))"
  for f :: "'a \<Rightarrow> 'k :: linorder"
  by (simp add: strict_sorted_iff distinct_map)

lemma build_steps: "step_ok new_builder (fst (build_analysis spec repository src environment))"
  unfolding build_analysis_def Let_def split_def fst_conv by (intro step_intros step_refl)

lemma build_asked:
  assumes "env_ok environment" "\<forall>name \<in> fst ` set environment. length name \<le> 96"
    and "\<not> ab_report_limit_exceeded (fst (build_analysis spec repository src environment))"
    and "(name, c) \<in> set environment"
  shows "question_for c name \<in> set (ab_questions (fst (build_analysis spec repository src environment)))"
proof -
  let ?durable = "detects_durable_data (as_packages src) (as_hostlet src) (as_files src)"
  let ?b = "check_database ?durable (has_database_service spec) (as_files src)
     (fst (analyze_services src repository ?durable 0 (spec_services spec)
        (check_lockfile repository (as_paths src) (inspect_unsupported (as_paths src) (as_files src) new_builder))))"
  let ?p = "check_public_values environment (as_files src) (check_secrets environment (as_files src) ?b)"
  have fin: "fst (build_analysis spec repository src environment) = check_inert_commands src ?p"
    by (simp add: build_analysis_def Let_def split_def)
  have last: "step_ok ?p (check_inert_commands src ?p)" by (intro step_intros step_refl)
  have "plain new_builder" by (simp add: plain_def new_builder_def)
  then have "plain ?b" by (intro plain_intros)
  then have "question_for c name \<in> set (ab_questions ?p)"
    using assms last unfolding fin by (intro environment_asked) (auto simp: step_ok_def)
  with last fin show ?thesis by (auto simp: step_ok_def)
qed

lemma build_services_length: "length (snd (build_analysis spec repository src environment)) = length (spec_services spec)"
  by (simp add: build_analysis_def Let_def split_def services_length)

text \<open>C39: the reasons, questions and environment requirements of a report are strictly sorted and
  bounded, the requirements have valid names, there is one entry per service, and, when no name is
  longer than 96 bytes, every requirement has its question.\<close>

theorem report_is_well_formed:
  assumes "analyze from_str spec snapshot = Inr a"
  shows "sorted_wrt (<) (map rsn_code (csf_reasons (an_facts a))) \<and> length (csf_reasons (an_facts a)) \<le> 64
    \<and> sorted_wrt (<) (map qst_id (csf_configuration_questions (an_facts a)))
    \<and> length (csf_configuration_questions (an_facts a)) \<le> 32
    \<and> sorted_wrt (<) (map env_req_name (csf_environment_requirements (an_facts a)))
    \<and> length (csf_environment_requirements (an_facts a)) \<le> 128
    \<and> length (csf_services (an_facts a)) = length (spec_services spec)
    \<and> (\<forall>r \<in> set (csf_environment_requirements (an_facts a)). valid_environment_name (env_req_name r))
    \<and> ((\<forall>r \<in> set (csf_environment_requirements (an_facts a)). length (env_req_name r) \<le> 96) \<longrightarrow>
        (\<forall>r \<in> set (csf_environment_requirements (an_facts a)).
          question_for (env_req_classification r) (env_req_name r) \<in> set (csf_configuration_questions (an_facts a))))"
proof -
  obtain repository src environment bytes
    where read: "read_source from_str spec snapshot = Inr (repository, src, environment, bytes)"
    and fin: "finish_analysis repository snapshot bytes environment (build_analysis spec repository src environment) = Inr a"
    using assms by (auto simp: analyze_def split: sum.splits)
  let ?b = "fst (build_analysis spec repository src environment)"
  have env: "env_ok environment" "length environment \<le> 128"
    using read_source_environment [OF read] by (simp_all add: MAX_ENVIRONMENT_NAMES_def)
  have facts: "csf_reasons (an_facts a) = sort_key rsn_code (ab_reasons ?b)"
      "csf_configuration_questions (an_facts a) = sort_key qst_id (ab_questions ?b)"
      "csf_environment_requirements (an_facts a) =
         map (\<lambda>(name, c). \<lparr>env_req_name = name, env_req_classification = c\<rparr>) environment"
      "csf_services (an_facts a) = snd (build_analysis spec repository src environment)"
      "\<not> ab_report_limit_exceeded ?b"
    using fin by (auto simp: finish_analysis_def split_def split: if_splits)
  have "builder_ok ?b"
    using build_steps [of spec repository src environment]
    by (simp add: step_ok_def builder_ok_def new_builder_def)
  then have b: "distinct (map rsn_code (ab_reasons ?b))" "length (ab_reasons ?b) \<le> 64"
      "distinct (map qst_id (ab_questions ?b))" "length (ab_questions ?b) \<le> 32"
    by (simp_all add: builder_ok_def MAX_REASONS_def MAX_QUESTIONS_def)
  have names: "map env_req_name (csf_environment_requirements (an_facts a)) = map fst environment"
    by (simp add: facts split_def)
  have asked: "question_for c name \<in> set (ab_questions ?b)"
    if "\<forall>name \<in> fst ` set environment. length name \<le> 96" "(name, c) \<in> set environment" for name c
    using build_asked [OF env(1) that(1) facts(5) that(2)] .
  have valid: "\<forall>name \<in> fst ` set environment. valid_environment_name name" "sorted_wrt (<) (map fst environment)"
    using env(1) by (auto simp: env_ok_def btree_def)
  show ?thesis
    unfolding names
    using valid env(2) b asked build_services_length [of spec repository src environment]
    by (intro conjI) (auto simp: facts sorted_by_key image_iff split_def)
qed

section \<open>A concrete report\<close>

definition shop_spec :: standard_project_spec where
  "shop_spec = \<lparr>spec_contract_version = ''v1'',
     spec_repositories = [\<lparr>repo_layout = SingleProject, repo_package_manager = Npm, repo_lockfile_path = Some ''l''\<rparr>],
     spec_services = [], spec_limits = []\<rparr>"

definition shop_from_str :: "string \<Rightarrow> json option" where
  "shop_from_str text = (if text = ''h'' then Some (JObject [(''serverSecrets'', JArray [JString ''K''])]) else None)"

definition shop_snapshot :: source_snapshot where
  "shop_snapshot = \<lparr>snap_entry_paths = [''l''], snap_files = [\<lparr>sf_path = ''hostlet.json'', sf_content = ''h''\<rparr>]\<rparr>"

lemma shop_report:
  "case analyze shop_from_str shop_spec shop_snapshot of
     Inl _ \<Rightarrow> False
   | Inr a \<Rightarrow> an_status a = SecretsNeeded
       \<and> map env_req_name (csf_environment_requirements (an_facts a)) = [''K'']"
  by code_simp

theorem status_is_explained_witness:
  "\<exists>repository src environment. expected_status shop_spec repository src environment = SecretsNeeded"
proof -
  obtain a where "analyze shop_from_str shop_spec shop_snapshot = Inr a" "an_status a = SecretsNeeded"
    using shop_report by (auto split: sum.splits)
  with status_is_explained show ?thesis by metis
qed

theorem report_is_well_formed_witness:
  "\<exists>a c. analyze shop_from_str shop_spec shop_snapshot = Inr a
     \<and> question_for c ''K'' \<in> set (csf_configuration_questions (an_facts a))"
proof -
  obtain a where a: "analyze shop_from_str shop_spec shop_snapshot = Inr a"
    and "map env_req_name (csf_environment_requirements (an_facts a)) = [''K'']"
    using shop_report by (auto split: sum.splits)
  then obtain r where r: "csf_environment_requirements (an_facts a) = [r]" "env_req_name r = ''K''"
    by (auto simp: map_eq_Cons_conv)
  with report_is_well_formed [OF a] have
    "question_for (env_req_classification r) ''K'' \<in> set (csf_configuration_questions (an_facts a))" by simp
  with a show ?thesis by blast
qed

end
