(* ===== verification/Compatibility_Reports.thy ===== *)
theory Compatibility_Reports imports Source_Compatibility Control_Admission begin

text \<open>
  The compatibility reports of \<open>crates/control/src/compatibility.rs\<close>: the table
  \<open>compatibility_reports\<close> with its constraints, the transaction of \<open>create_report\<close> and the two
  readers. The snapshot that \<open>github::authorized_source_snapshot\<close> fetches inside the transaction is an
  argument, \<open>authorized\<close>, with its error; it only reads. The JSON codecs, the digests and the form
  decoder are fields of \<open>compat_ext\<close>. The machine of reports is an interpretation of
  \<open>guarded_machine\<close>; its invariant is the unique key of the table.
\<close>

section \<open>Tables\<close>

record 'v configuration_row =
  cfg_id :: uuid
  cfg_account_id :: uuid
  cfg_project_id :: uuid
  cfg_spec :: 'v

record 'v report_row =
  rpt_id :: uuid
  rpt_account_id :: uuid
  rpt_project_id :: uuid
  rpt_configuration_revision_id :: uuid
  rpt_source_revision_id :: uuid
  rpt_analyzer_revision :: string
  rpt_status :: string
  rpt_advisory :: string
  rpt_report :: 'v
  rpt_report_digest :: string
  rpt_created_at :: timestamp

record 'v report_db =
  rdb_projects :: "project_row list"
  rdb_configurations :: "'v configuration_row list"
  rdb_source_revisions :: "source_revision_row list"
  rdb_reports :: "'v report_row list"
  rdb_idempotency :: "'v idempotency_record list"
  rdb_audit :: "audit_row list"

section \<open>Requests and responses\<close>

record analyze_request =
  anr_source_revision_id :: string
  anr_configuration_revision_id :: string

record compatibility_report_response =
  crp_id :: uuid
  crp_project_id :: uuid
  crp_configuration_revision_id :: uuid
  crp_source_revision_id :: uuid
  crp_analyzer_revision :: string
  crp_status :: compatibility_status
  crp_headline :: string
  crp_advisory :: string
  crp_deployment_verified :: bool
  crp_facts :: compatibility_safe_facts
  crp_created_at :: timestamp

record authorized_source_snapshot =
  aus_account_id :: uuid
  aus_project_id :: uuid
  aus_configuration_revision_id :: uuid
  aus_project_revision :: int
  aus_snapshot :: source_snapshot

record 'v compat_ext =
  cx_parse_uuid :: "string \<Rightarrow> uuid option"
  cx_show_uuid :: "uuid \<Rightarrow> string"
  cx_sha256 :: "string \<Rightarrow> string"
  cx_sha256_hex :: "string \<Rightarrow> string"
  cx_request_bytes :: "analyze_request \<Rightarrow> string option"
  cx_from_str :: "string \<Rightarrow> json option"
  cx_spec_from_value :: "'v \<Rightarrow> standard_project_spec option"
  cx_facts_to_value :: "compatibility_safe_facts \<Rightarrow> 'v option"
  cx_facts_from_value :: "'v \<Rightarrow> compatibility_safe_facts option"
  cx_value_bytes :: "'v \<Rightarrow> string option"
  cx_jsonb_object :: "'v \<Rightarrow> bool"
  cx_jsonb_text :: "'v \<Rightarrow> string"
  cx_response_to_value :: "compatibility_report_response \<Rightarrow> 'v option"
  cx_response_from_value :: "'v \<Rightarrow> compatibility_report_response option"
  cx_form_pairs :: "string \<Rightarrow> (string \<times> string) list"

definition ANALYZER_REVISION :: string where
  "ANALYZER_REVISION = ''hostlet.compatibility/v1+hostlet.compatibility-bounds/v1''"

definition CREATE_OPERATION :: string where
  "CREATE_OPERATION = ''compatibility.report.create''"

definition MAX_REPORT_BYTES :: int where
  "MAX_REPORT_BYTES = 128 * 1024"

section \<open>Statements\<close>

definition report_check :: "'v compat_ext \<Rightarrow> 'v report_row \<Rightarrow> bool" where
  "report_check ext r \<longleftrightarrow>
     octets_between 1 128 (rpt_analyzer_revision r)
     \<and> rpt_status r \<in> {''candidate'', ''configuration_needed'', ''database_needed'', ''secrets_needed'', ''showcase_only''}
     \<and> rpt_advisory r = ''deployment_not_verified''
     \<and> cx_jsonb_object ext (rpt_report r)
     \<and> 2 \<le> length (cx_jsonb_text ext (rpt_report r)) \<and> int (length (cx_jsonb_text ext (rpt_report r))) \<le> 131072
     \<and> (\<exists>hex. rpt_report_digest r = ''sha256:'' @ hex \<and> length hex = 64 \<and> (\<forall>b \<in> set hex. lowercase_hex b))"

definition report_key :: "'v report_row \<Rightarrow> uuid \<times> uuid \<times> uuid \<times> uuid \<times> string" where
  "report_key r = (rpt_account_id r, rpt_project_id r, rpt_configuration_revision_id r, rpt_source_revision_id r,
     rpt_analyzer_revision r)"

text \<open>\<open>INSERT ... ON CONFLICT (...) DO NOTHING RETURNING created_at\<close>.\<close>

definition insert_report ::
  "'v compat_ext \<Rightarrow> 'v report_row \<Rightarrow> 'v report_db \<Rightarrow> ('v report_db \<times> timestamp option) option" where
  "insert_report ext r db =
     (if \<not> report_check ext r then None
      else if report_key r \<in> report_key ` set (rdb_reports db) then Some (db, None)
      else if rpt_id r \<notin> rpt_id ` set (rdb_reports db)
              \<and> (\<exists>p \<in> set (rdb_projects db). prow_account_id p = rpt_account_id r \<and> prow_id p = rpt_project_id r)
              \<and> (\<exists>c \<in> set (rdb_configurations db). cfg_account_id c = rpt_account_id r
                   \<and> cfg_project_id c = rpt_project_id r \<and> cfg_id c = rpt_configuration_revision_id r)
              \<and> (\<exists>s \<in> set (rdb_source_revisions db). gsr_account_id s = rpt_account_id r
                   \<and> gsr_project_id s = rpt_project_id r \<and> gsr_id s = rpt_source_revision_id r)
      then Some (db\<lparr>rdb_reports := rdb_reports db @ [r]\<rparr>, Some (rpt_created_at r))
      else None)"

definition report_audit :: "audit_row \<Rightarrow> 'v report_db \<Rightarrow> 'v report_db option" where
  "report_audit e db =
     (if audit_check e \<and> audit_row_id e \<notin> audit_row_id ` set (rdb_audit db)
      then Some (db\<lparr>rdb_audit := rdb_audit db @ [e]\<rparr>) else None)"

text \<open>\<open>ORDER BY created_at DESC, id DESC LIMIT 1\<close>.\<close>

definition later_report :: "'v report_row \<Rightarrow> 'v report_row option \<Rightarrow> 'v report_row option" where
  "later_report r best =
     (case best of
        None \<Rightarrow> Some r
      | Some b \<Rightarrow>
          if rpt_created_at b < rpt_created_at r \<or> rpt_created_at b = rpt_created_at r \<and> rpt_id b < rpt_id r
          then Some r else Some b)"

definition load_exact_report :: "uuid \<Rightarrow> uuid \<Rightarrow> uuid \<Rightarrow> uuid \<Rightarrow> 'v report_db \<Rightarrow> 'v report_row option" where
  "load_exact_report account project configuration source db =
     fold later_report
       (filter (\<lambda>r. report_key r = (account, project, configuration, source, ANALYZER_REVISION)) (rdb_reports db)) None"

section \<open>Responses\<close>

text \<open>\<open>ReportParts::into_response\<close> and \<open>ReportRow::into_response\<close>.\<close>

definition parts_into_response ::
  "uuid \<Rightarrow> uuid \<Rightarrow> uuid \<Rightarrow> uuid \<Rightarrow> string \<Rightarrow> compatibility_status \<Rightarrow> string \<Rightarrow> compatibility_safe_facts \<Rightarrow> timestamp
     \<Rightarrow> compatibility_report_response" where
  "parts_into_response rid project configuration source analyzer status advisory facts created_at =
     \<lparr>crp_id = rid, crp_project_id = project, crp_configuration_revision_id = configuration,
      crp_source_revision_id = source, crp_analyzer_revision = analyzer, crp_status = status,
      crp_headline = headline status, crp_advisory = advisory, crp_deployment_verified = False,
      crp_facts = facts, crp_created_at = created_at\<rparr>"

definition row_into_response :: "'v compat_ext \<Rightarrow> 'v report_row \<Rightarrow> api_error + compatibility_report_response" where
  "row_into_response ext r =
     (case parse_status (rpt_status r) of
        Inl e \<Rightarrow> Inl e
      | Inr status \<Rightarrow>
          (case cx_facts_from_value ext (rpt_report r) of
             None \<Rightarrow> Inl internal
           | Some facts \<Rightarrow>
               Inr (parts_into_response (rpt_id r) (rpt_project_id r) (rpt_configuration_revision_id r)
                      (rpt_source_revision_id r) (rpt_analyzer_revision r) status (rpt_advisory r) facts
                      (rpt_created_at r))))"

section \<open>Endpoints\<close>

definition check_current :: "uuid \<Rightarrow> uuid \<Rightarrow> uuid \<Rightarrow> int \<Rightarrow> 'v report_db \<Rightarrow> api_error + unit" where
  "check_current account project configuration wanted db =
     (case find (\<lambda>p. prow_account_id p = account \<and> prow_id p = project) (rdb_projects db) of
        None \<Rightarrow> Inl not_found
      | Some p \<Rightarrow>
          also_ensure (ensure (prow_revision p = wanted) stale_revision)
            (ensure (prow_current_configuration p = Some configuration)
               (conflict ''compatibility_configuration_stale''
                  ''compatibility analysis requires the current project configuration'')))"

definition check_authorized :: "uuid \<Rightarrow> uuid \<Rightarrow> uuid \<Rightarrow> int \<Rightarrow> authorized_source_snapshot \<Rightarrow> api_error + unit" where
  "check_authorized account project configuration wanted s =
     ensure (aus_account_id s = account \<and> aus_project_id s = project
             \<and> aus_configuration_revision_id s = configuration \<and> aus_project_revision s = wanted)
       (conflict ''compatibility_source_stale''
          ''compatibility analysis requires the selected current source and configuration'')"

definition load_spec :: "'v compat_ext \<Rightarrow> uuid \<Rightarrow> uuid \<Rightarrow> uuid \<Rightarrow> 'v report_db \<Rightarrow> api_error + standard_project_spec" where
  "load_spec ext account project configuration db =
     (case find (\<lambda>c. cfg_account_id c = account \<and> cfg_project_id c = project \<and> cfg_id c = configuration)
             (rdb_configurations db) of
        None \<Rightarrow> Inl not_found
      | Some c \<Rightarrow>
          (case cx_spec_from_value ext (cfg_spec c) of
             None \<Rightarrow> Inl internal
           | Some spec \<Rightarrow>
               if validate_spec spec \<noteq> []
               then Inl (unprocessable ''compatibility_configuration_invalid''
                           ''the selected project configuration is not a valid standard project'')
               else Inr spec))"

text \<open>The report's value and digest, within the size limit.\<close>

definition encode_report :: "'v compat_ext \<Rightarrow> analysis \<Rightarrow> api_error + 'v \<times> string" where
  "encode_report ext analysis =
     (case cx_facts_to_value ext (an_facts analysis) of
        None \<Rightarrow> Inl internal
      | Some v \<Rightarrow>
          (case cx_value_bytes ext v of
             None \<Rightarrow> Inl internal
           | Some bytes \<Rightarrow>
               if int (length bytes) > MAX_REPORT_BYTES
               then Inl (unprocessable ''compatibility_report_limit''
                           ''the compatibility report exceeded its safe size limit'')
               else Inr (v, ''sha256:'' @ cx_sha256_hex ext bytes)))"

definition new_report ::
  "tx_env \<Rightarrow> uuid \<Rightarrow> uuid \<Rightarrow> uuid \<Rightarrow> uuid \<Rightarrow> compatibility_status \<Rightarrow> 'v \<Rightarrow> string \<Rightarrow> 'v report_row" where
  "new_report env account project configuration source status v digest =
     \<lparr>rpt_id = env_fresh env 0, rpt_account_id = account, rpt_project_id = project,
      rpt_configuration_revision_id = configuration, rpt_source_revision_id = source,
      rpt_analyzer_revision = ANALYZER_REVISION, rpt_status = database_value status,
      rpt_advisory = ''deployment_not_verified'', rpt_report = v, rpt_report_digest = digest,
      rpt_created_at = env_now env 0\<rparr>"

definition report_answer ::
  "'v compat_ext \<Rightarrow> 'v report_row \<Rightarrow> analysis \<Rightarrow> 'v report_db \<Rightarrow> timestamp option
     \<Rightarrow> api_error + compatibility_report_response" where
  "report_answer ext r analysis db inserted =
     (case inserted of
        Some created_at \<Rightarrow>
          Inr (parts_into_response (rpt_id r) (rpt_project_id r) (rpt_configuration_revision_id r)
                 (rpt_source_revision_id r) ANALYZER_REVISION (an_status analysis) ''deployment_not_verified''
                 (an_facts analysis) created_at)
      | None \<Rightarrow>
          (case load_exact_report (rpt_account_id r) (rpt_project_id r) (rpt_configuration_revision_id r)
                  (rpt_source_revision_id r) db of
             None \<Rightarrow> Inl internal
           | Some row \<Rightarrow> row_into_response ext row))"

definition create_new_report ::
  "'v compat_ext \<Rightarrow> tx_env \<Rightarrow> authenticated \<Rightarrow> uuid \<Rightarrow> uuid \<Rightarrow> uuid \<Rightarrow> uuid \<Rightarrow> int \<Rightarrow> string \<Rightarrow> string \<Rightarrow> string
     \<Rightarrow> api_error + authorized_source_snapshot \<Rightarrow> 'v report_db
     \<Rightarrow> ('v report_db, nat \<times> compatibility_report_response) txn" where
  "create_new_report ext env auth account project configuration source wanted operation key hash authorized db =
     attempt (check_current account project configuration wanted db) (\<lambda>_.
     attempt authorized (\<lambda>s.
     attempt (check_authorized account project configuration wanted s) (\<lambda>_.
     attempt (load_spec ext account project configuration db) (\<lambda>spec.
     attempt (analyze (cx_from_str ext) spec (aus_snapshot s)) (\<lambda>analysis.
     attempt (encode_report ext analysis) (\<lambda>(v, digest).
     let r = new_report env account project configuration source (an_status analysis) v digest
     in attempt (ok_or database_unavailable (insert_report ext r db)) (\<lambda>(db1, inserted).
        attempt (report_answer ext r analysis db1 inserted) (\<lambda>response.
        sql (report_audit
               \<lparr>audit_row_id = env_fresh env 1, audit_account_id = account, audit_actor_account_id = Some account,
                audit_session_id = Some (auth_session_id auth), audit_event_type = CREATE_OPERATION,
                audit_target_type = ''compatibility_report'', audit_target_id = Some (crp_id response),
                audit_outcome = ''succeeded'', audit_worker = None\<rparr> db1) (\<lambda>db2.
        attempt (store_replay (cx_response_to_value ext) (rdb_idempotency db2) account operation key hash 201 response)
          (\<lambda>records. Committed (db2\<lparr>rdb_idempotency := records\<rparr>) (Inr (201, response))))))))))))"

definition create_report ::
  "'v compat_ext \<Rightarrow> tx_env \<Rightarrow> authenticated \<Rightarrow> string \<Rightarrow> header_map \<Rightarrow> analyze_request
     \<Rightarrow> api_error + authorized_source_snapshot \<Rightarrow> 'v report_db
     \<Rightarrow> 'v report_db \<times> (api_error + nat \<times> compatibility_report_response)" where
  "create_report ext env auth project_path headers request authorized db =
     run_txn (\<lambda>_. True) db
       (attempt (path_uuid (cx_parse_uuid ext) project_path) (\<lambda>project.
        attempt (path_uuid (cx_parse_uuid ext) (anr_source_revision_id request)) (\<lambda>source.
        attempt (path_uuid (cx_parse_uuid ext) (anr_configuration_revision_id request)) (\<lambda>configuration.
        attempt (ok_or internal (cx_parse_uuid ext (auth_account_id auth))) (\<lambda>account.
        attempt (if_match_revision headers) (\<lambda>wanted.
        attempt (idempotency_key headers) (\<lambda>key.
        attempt (request_hash (cx_request_bytes ext) (cx_sha256 ext) request) (\<lambda>hash.
        let operation = CREATE_OPERATION @ ''/'' @ cx_show_uuid ext project
        in attempt (replay (cx_response_from_value ext) (rdb_idempotency db) account operation key hash) (\<lambda>found.
             case found of
               Match response \<Rightarrow> Committed db (Inr (201, response))
             | Changed \<Rightarrow> RolledBack payload_changed
             | Miss \<Rightarrow> create_new_report ext env auth account project configuration source wanted operation key
                         hash authorized db)))))))))"

definition get_report ::
  "'v compat_ext \<Rightarrow> authenticated \<Rightarrow> string \<Rightarrow> string \<Rightarrow> 'v report_db \<Rightarrow> api_error + compatibility_report_response" where
  "get_report ext auth project_path report_path db =
     (case ok_or internal (cx_parse_uuid ext (auth_account_id auth)) of Inl e \<Rightarrow> Inl e | Inr account \<Rightarrow>
     (case path_uuid (cx_parse_uuid ext) project_path of Inl e \<Rightarrow> Inl e | Inr project \<Rightarrow>
     (case path_uuid (cx_parse_uuid ext) report_path of Inl e \<Rightarrow> Inl e | Inr rid \<Rightarrow>
     (case find (\<lambda>r. rpt_account_id r = account \<and> rpt_project_id r = project \<and> rpt_id r = rid) (rdb_reports db) of
        None \<Rightarrow> Inl not_found
      | Some row \<Rightarrow> row_into_response ext row))))"

definition invalid_query :: "string \<Rightarrow> api_error" where
  "invalid_query message = bad_request ''invalid_compatibility_query'' message"

text \<open>The loop over the query's pairs.\<close>

fun latest_fields ::
  "(string \<times> string) list \<Rightarrow> string option \<Rightarrow> string option \<Rightarrow> api_error + string option \<times> string option" where
  "latest_fields [] source configuration = Inr (source, configuration)"
| "latest_fields ((key, v) # pairs) source configuration =
     (if key = ''source_revision_id''
      then if source \<noteq> None then Inl (invalid_query ''the compatibility query contains a duplicate field'')
           else latest_fields pairs (Some v) configuration
      else if key = ''configuration_revision_id''
      then if configuration \<noteq> None then Inl (invalid_query ''the compatibility query contains a duplicate field'')
           else latest_fields pairs source (Some v)
      else Inl (invalid_query ''the compatibility query contains an unknown field''))"

definition parse_latest_query :: "'v compat_ext \<Rightarrow> string option \<Rightarrow> api_error + string \<times> string" where
  "parse_latest_query ext query =
     (case query of
        None \<Rightarrow> Inl (invalid_query ''source_revision_id and configuration_revision_id are required'')
      | Some text \<Rightarrow>
          (case latest_fields (cx_form_pairs ext text) None None of
             Inl e \<Rightarrow> Inl e
           | Inr (None, _) \<Rightarrow> Inl (invalid_query ''source_revision_id is required'')
           | Inr (Some source, None) \<Rightarrow> Inl (invalid_query ''configuration_revision_id is required'')
           | Inr (Some source, Some configuration) \<Rightarrow> Inr (source, configuration)))"

definition get_latest_report ::
  "'v compat_ext \<Rightarrow> authenticated \<Rightarrow> string \<Rightarrow> string option \<Rightarrow> 'v report_db \<Rightarrow> api_error + compatibility_report_response" where
  "get_latest_report ext auth project_path query db =
     (case ok_or internal (cx_parse_uuid ext (auth_account_id auth)) of Inl e \<Rightarrow> Inl e | Inr account \<Rightarrow>
     (case path_uuid (cx_parse_uuid ext) project_path of Inl e \<Rightarrow> Inl e | Inr project \<Rightarrow>
     (case parse_latest_query ext query of Inl e \<Rightarrow> Inl e | Inr (source_text, configuration_text) \<Rightarrow>
     (case path_uuid (cx_parse_uuid ext) source_text of Inl e \<Rightarrow> Inl e | Inr source \<Rightarrow>
     (case path_uuid (cx_parse_uuid ext) configuration_text of Inl e \<Rightarrow> Inl e | Inr configuration \<Rightarrow>
     (case load_exact_report account project configuration source db of
        None \<Rightarrow> Inl not_found
      | Some row \<Rightarrow> row_into_response ext row))))))"

section \<open>Runs\<close>

text \<open>A request creates reports; everything else leaves the table of reports alone.\<close>

inductive report_step :: "'v compat_ext \<Rightarrow> 'v report_db \<Rightarrow> 'v report_db \<Rightarrow> bool" for ext where
  create: "report_step ext db (fst (create_report ext env auth project_path headers request authorized db))"
| other: "rdb_reports db' = rdb_reports db \<Longrightarrow> report_step ext db db'"

definition no_reports :: "'v report_db \<Rightarrow> bool" where
  "no_reports db \<longleftrightarrow> rdb_reports db = []"

definition reports_inv :: "'v report_db \<Rightarrow> bool" where
  "reports_inv db \<longleftrightarrow> distinct (map report_key (rdb_reports db))"

lemma parse_database_value: "parse_status (database_value status) = Inr status"
  by (cases status) (simp_all add: parse_status_def database_value_def)

text \<open>What a transaction leaves in the table, and that the response is that of a stored report.\<close>

definition stores ::
  "'v compat_ext \<Rightarrow> uuid \<Rightarrow> uuid \<Rightarrow> uuid \<Rightarrow> uuid \<Rightarrow> 'v report_db \<Rightarrow> compatibility_report_response \<Rightarrow> bool" where
  "stores ext account project configuration source db response \<longleftrightarrow>
     (\<exists>row \<in> set (rdb_reports db). report_key row = (account, project, configuration, source, ANALYZER_REVISION)
        \<and> row_into_response ext row = Inr response)"

definition reports_grow :: "'v report_db \<Rightarrow> 'v report_db \<Rightarrow> bool" where
  "reports_grow db db' \<longleftrightarrow> set (rdb_reports db) \<subseteq> set (rdb_reports db') \<and> (reports_inv db \<longrightarrow> reports_inv db')"

lemma fold_later: "fold later_report rs (Some b) = Some r \<Longrightarrow> r = b \<or> r \<in> set rs"
  by (induction rs arbitrary: b) (auto simp: later_report_def split: if_splits)

lemma load_exact_Some:
  "load_exact_report account project configuration source db = Some row \<Longrightarrow>
     row \<in> set (rdb_reports db) \<and> report_key row = (account, project, configuration, source, ANALYZER_REVISION)"
proof -
  assume a: "load_exact_report account project configuration source db = Some row"
  let ?rs = "filter (\<lambda>r. report_key r = (account, project, configuration, source, ANALYZER_REVISION)) (rdb_reports db)"
  have "row \<in> set ?rs"
    using a fold_later [of "tl ?rs" "hd ?rs" row]
    by (cases ?rs) (auto simp: load_exact_report_def later_report_def)
  then show ?thesis by simp
qed

lemma insert_report_cases:
  assumes "insert_report ext r db = Some (db1, inserted)"
  shows "(inserted = None \<and> db1 = db) \<or> (inserted = Some (rpt_created_at r) \<and> db1 = db\<lparr>rdb_reports := rdb_reports db @ [r]\<rparr>
      \<and> report_key r \<notin> report_key ` set (rdb_reports db))"
  using assms unfolding insert_report_def by (simp split: if_splits)

lemma create_new_report_commits:
  assumes codec: "\<forall>f v. cx_facts_to_value ext f = Some v \<longrightarrow> cx_facts_from_value ext v = Some f"
  shows "commits (\<lambda>db' r. reports_grow db db' \<and>
      (\<forall>response. r = Inr (201, response) \<longrightarrow> stores ext account project configuration source db' response))
    (create_new_report ext env auth account project configuration source wanted operation key hash authorized db)"
  unfolding create_new_report_def Let_def split_def
proof (intro commits_rules commits_Committed)
  fix s spec and analysis :: analysis and vd :: "'a \<times> string" and db1i response db2 records
  let ?r = "new_report env account project configuration source (an_status analysis) (fst vd) (snd vd)"
  assume enc: "encode_report ext analysis = Inr vd"
    and ins: "ok_or database_unavailable (insert_report ext ?r db) = Inr db1i"
    and answer: "report_answer ext ?r analysis (fst db1i) (snd db1i) = Inr response"
    and audit: "report_audit \<lparr>audit_row_id = env_fresh env 1, audit_account_id = account,
        audit_actor_account_id = Some account, audit_session_id = Some (auth_session_id auth),
        audit_event_type = CREATE_OPERATION, audit_target_type = ''compatibility_report'',
        audit_target_id = Some (crp_id response), audit_outcome = ''succeeded'', audit_worker = None\<rparr> (fst db1i) = Some db2"
  have kept: "rdb_reports db2 = rdb_reports (fst db1i)"
    using audit unfolding report_audit_def by (clarsimp split: if_splits)
  have facts: "cx_facts_from_value ext (fst vd) = Some (an_facts analysis)"
    using enc codec by (auto simp: encode_report_def split: option.splits if_splits)
  have key: "report_key ?r = (account, project, configuration, source, ANALYZER_REVISION)"
    by (simp add: report_key_def new_report_def)
  from insert_report_cases [of ext ?r db "fst db1i" "snd db1i"] ins
  consider (old) "snd db1i = None" "fst db1i = db"
    | (new) "snd db1i = Some (rpt_created_at ?r)" "rdb_reports (fst db1i) = rdb_reports db @ [?r]"
        "report_key ?r \<notin> report_key ` set (rdb_reports db)"
    by auto
  then have "reports_grow db db2 \<and> stores ext account project configuration source db2 response"
  proof cases
    case old
    then obtain row where row: "load_exact_report account project configuration source db = Some row"
        "row_into_response ext row = Inr response"
      using answer by (auto simp: report_answer_def new_report_def split: option.splits)
    with load_exact_Some [OF row(1)] old kept show ?thesis
      by (auto simp: stores_def reports_grow_def reports_inv_def)
  next
    case new
    have "row_into_response ext ?r = Inr response"
      using answer new(1) facts
      by (simp add: report_answer_def row_into_response_def new_report_def parse_database_value)
    with new kept key show ?thesis
      by (auto simp: stores_def reports_grow_def reports_inv_def)
  qed
  then show "reports_grow db (db2\<lparr>rdb_idempotency := records\<rparr>) \<and>
      (\<forall>response'. Inr (201, response) = Inr (201, response') \<longrightarrow>
         stores ext account project configuration source (db2\<lparr>rdb_idempotency := records\<rparr>) response')"
    by (simp add: reports_grow_def stores_def reports_inv_def)
qed


lemma reports_grow_refl: "reports_grow db db"
  by (simp add: reports_grow_def)

lemma reports_grow_trans: "reports_grow db db1 \<Longrightarrow> reports_grow db1 db2 \<Longrightarrow> reports_grow db db2"
  by (auto simp: reports_grow_def)

lemma create_grows: "commits (\<lambda>db' r. reports_grow db db')
    (create_new_report ext env auth account project configuration source wanted operation key hash authorized db)"
  unfolding create_new_report_def Let_def split_def
proof (intro commits_rules commits_Committed)
  fix s spec and analysis :: analysis and vd :: "'a \<times> string" and db1i response db2 records
  let ?r = "new_report env account project configuration source (an_status analysis) (fst vd) (snd vd)"
  assume ins: "ok_or database_unavailable (insert_report ext ?r db) = Inr db1i"
    and audit: "report_audit \<lparr>audit_row_id = env_fresh env 1, audit_account_id = account,
        audit_actor_account_id = Some account, audit_session_id = Some (auth_session_id auth),
        audit_event_type = CREATE_OPERATION, audit_target_type = ''compatibility_report'',
        audit_target_id = Some (crp_id response), audit_outcome = ''succeeded'', audit_worker = None\<rparr> (fst db1i) = Some db2"
  have "rdb_reports db2 = rdb_reports (fst db1i)"
    using audit unfolding report_audit_def by (clarsimp split: if_splits)
  then show "reports_grow db (db2\<lparr>rdb_idempotency := records\<rparr>)"
    using insert_report_cases [of ext ?r db "fst db1i" "snd db1i"] ins
    by (auto simp: reports_grow_def reports_inv_def)
qed

lemma report_step_grows: "report_step ext db db' \<Longrightarrow> reports_grow db db'"
proof (induction rule: report_step.induct)
  case (create db env auth project_path headers request authorized)
  show ?case
    unfolding create_report_def Let_def
    by (rule run_txn_inv) (intro commits_rules commits_Committed create_grows reports_grow_refl)+
qed (simp add: reports_grow_def reports_inv_def)

lemma report_steps_grow: "(report_step ext)\<^sup>*\<^sup>* db db' \<Longrightarrow> reports_grow db db'"
  by (induction rule: rtranclp_induct) (auto intro: reports_grow_refl reports_grow_trans report_step_grows)

interpretation reports: guarded_machine no_reports "report_step ext" reports_inv
  by unfold_locales (use report_step_grows in \<open>auto simp: no_reports_def reports_inv_def reports_grow_def\<close>)

lemma filter_key_single:
  "distinct (map k xs) \<Longrightarrow> x \<in> set xs \<Longrightarrow> k x = key \<Longrightarrow> filter (\<lambda>y. k y = key) xs = [x]"
  by (induction xs) (auto simp: filter_empty_conv image_iff)

lemma load_exact_stored:
  assumes "reports_inv db" "row \<in> set (rdb_reports db)"
    "report_key row = (account, project, configuration, source, ANALYZER_REVISION)"
  shows "load_exact_report account project configuration source db = Some row"
  using filter_key_single [OF assms(1) [unfolded reports_inv_def] assms(2,3)]
  by (simp add: load_exact_report_def later_report_def)

lemma fresh_key_misses: "\<forall>i \<in> set records. idem_key i \<noteq> key \<Longrightarrow> replay f records account operation key hash = Inr Miss"
  by (auto simp: replay_def find_record_def split: option.splits dest!: find_SomeD)

text \<open>What a successful creation under a new key has stored.\<close>

lemma created_report_stores:
  assumes codec: "\<forall>f v. cx_facts_to_value ext f = Some v \<longrightarrow> cx_facts_from_value ext v = Some f"
    and fresh: "idempotency_key headers = Inr key" "\<forall>i \<in> set (rdb_idempotency db). idem_key i \<noteq> key"
    and created: "create_report ext env auth project_path headers request authorized db = (db1, Inr (201, response))"
  shows "\<exists>account project configuration source.
      cx_parse_uuid ext (auth_account_id auth) = Some account \<and> path_uuid (cx_parse_uuid ext) project_path = Inr project
      \<and> path_uuid (cx_parse_uuid ext) (anr_source_revision_id request) = Inr source
      \<and> path_uuid (cx_parse_uuid ext) (anr_configuration_revision_id request) = Inr configuration
      \<and> stores ext account project configuration source db1 response"
proof -
  let ?Q = "\<lambda>db' r. \<forall>response. r = Inr (201, response) \<longrightarrow> (\<exists>account project configuration source.
      cx_parse_uuid ext (auth_account_id auth) = Some account \<and> path_uuid (cx_parse_uuid ext) project_path = Inr project
      \<and> path_uuid (cx_parse_uuid ext) (anr_source_revision_id request) = Inr source
      \<and> path_uuid (cx_parse_uuid ext) (anr_configuration_revision_id request) = Inr configuration
      \<and> stores ext account project configuration source db' response)"
  have "?Q db1 (Inr (201, response))"
  proof (rule run_txn_commits [OF _ created [unfolded create_report_def Let_def]])
    show "commits ?Q (attempt (path_uuid (cx_parse_uuid ext) project_path) (\<lambda>project.
        attempt (path_uuid (cx_parse_uuid ext) (anr_source_revision_id request)) (\<lambda>source.
        attempt (path_uuid (cx_parse_uuid ext) (anr_configuration_revision_id request)) (\<lambda>configuration.
        attempt (ok_or internal (cx_parse_uuid ext (auth_account_id auth))) (\<lambda>account.
        attempt (if_match_revision headers) (\<lambda>wanted.
        attempt (idempotency_key headers) (\<lambda>key.
        attempt (request_hash (cx_request_bytes ext) (cx_sha256 ext) request) (\<lambda>hash.
        attempt (replay (cx_response_from_value ext) (rdb_idempotency db) account
             (CREATE_OPERATION @ ''/'' @ cx_show_uuid ext project) key hash) (\<lambda>found.
             case found of
               Match response \<Rightarrow> Committed db (Inr (201, response))
             | Changed \<Rightarrow> RolledBack payload_changed
             | Miss \<Rightarrow> create_new_report ext env auth account project configuration source wanted
                         (CREATE_OPERATION @ ''/'' @ cx_show_uuid ext project) key hash authorized db)))))))))"
    proof (intro commits_rules commits_Committed)
      fix project source configuration account wanted k hash found
      assume "path_uuid (cx_parse_uuid ext) project_path = Inr project"
        "path_uuid (cx_parse_uuid ext) (anr_source_revision_id request) = Inr source"
        "path_uuid (cx_parse_uuid ext) (anr_configuration_revision_id request) = Inr configuration"
        "ok_or internal (cx_parse_uuid ext (auth_account_id auth)) = Inr account"
      then show "commits ?Q (create_new_report ext env auth account project configuration source wanted
          (CREATE_OPERATION @ ''/'' @ cx_show_uuid ext project) k hash authorized db)"
        by (intro commits_mono [OF create_new_report_commits [OF codec]]) auto
    next
      fix project source configuration account wanted k hash found stored
      assume "idempotency_key headers = Inr k" "found = Match stored"
        "replay (cx_response_from_value ext) (rdb_idempotency db) account
             (CREATE_OPERATION @ ''/'' @ cx_show_uuid ext project) k hash = Inr found"
      then have "Inr (Match stored) = (Inr Miss :: api_error + compatibility_report_response replay_answer)"
        using fresh(1) fresh_key_misses [OF fresh(2), of "cx_response_from_value ext"] by simp
      then show "?Q db (Inr (201, stored))" by simp
    qed
  qed auto
  then show ?thesis by blast
qed

text \<open>
  C40. A created report is read back: when \<open>create_report\<close> answers 201 to a request with a new
  idempotency key, the latest report of the same source and configuration revision is the response
  it gave, also after any number of further requests. The hypothesis on the codec is that serde reads
  the facts it wrote.
\<close>

theorem report_is_read_back:
  assumes reach: "reachable no_reports (report_step ext) db"
    and codec: "\<forall>f v. cx_facts_to_value ext f = Some v \<longrightarrow> cx_facts_from_value ext v = Some f"
    and fresh: "idempotency_key headers = Inr key" "\<forall>i \<in> set (rdb_idempotency db). idem_key i \<noteq> key"
    and created: "create_report ext env auth project_path headers request authorized db = (db1, Inr (201, response))"
    and later: "(report_step ext)\<^sup>*\<^sup>* db1 db2"
    and query: "parse_latest_query ext query
      = Inr (anr_source_revision_id request, anr_configuration_revision_id request)"
  shows "get_latest_report ext auth project_path query db2 = Inr response"
proof -
  obtain account project configuration source where ids:
      "cx_parse_uuid ext (auth_account_id auth) = Some account" "path_uuid (cx_parse_uuid ext) project_path = Inr project"
      "path_uuid (cx_parse_uuid ext) (anr_source_revision_id request) = Inr source"
      "path_uuid (cx_parse_uuid ext) (anr_configuration_revision_id request) = Inr configuration"
      "stores ext account project configuration source db1 response"
    using created_report_stores [OF codec fresh created] by blast
  from ids(5) obtain row where row: "row \<in> set (rdb_reports db1)" "row_into_response ext row = Inr response"
      "report_key row = (account, project, configuration, source, ANALYZER_REVISION)"
    by (auto simp: stores_def)
  have "db1 = fst (create_report ext env auth project_path headers request authorized db)" using created by simp
  then have "reachable no_reports (report_step ext) db1" using reach report_step.create reachable_step by metis
  then have "reports_inv db2" using reports.reachable_inv reports.steps_inv [OF later] by blast
  moreover have "row \<in> set (rdb_reports db2)" using row(1) report_steps_grow [OF later] by (auto simp: reports_grow_def)
  ultimately have "load_exact_report account project configuration source db2 = Some row"
    using row(3) by (rule load_exact_stored)
  with ids query row(2) show ?thesis by (simp add: get_latest_report_def ok_or_def)
qed


section \<open>Reports within the limits\<close>

text \<open>A part of the analysis adds at most \<open>n\<close> reasons and \<open>m\<close> questions.\<close>

definition adds :: "nat \<Rightarrow> nat \<Rightarrow> analysis_builder \<Rightarrow> analysis_builder \<Rightarrow> bool" where
  "adds n m b c \<longleftrightarrow>
     length (ab_reasons c) \<le> length (ab_reasons b) + n \<and> length (ab_questions c) \<le> length (ab_questions b) + m
     \<and> (\<not> ab_report_limit_exceeded b \<and> length (ab_reasons b) + n \<le> MAX_REASONS
          \<and> length (ab_questions b) + m \<le> MAX_QUESTIONS \<longrightarrow> \<not> ab_report_limit_exceeded c)"

lemma adds_refl: "adds n m b b"
  by (simp add: adds_def)

lemma adds_trans: "adds n m b c \<Longrightarrow> adds n' m' c d \<Longrightarrow> adds (n + n') (m + m') b d"
  by (auto simp: adds_def)

lemma adds_after: "adds n' m' c d \<Longrightarrow> adds n m b c \<Longrightarrow> adds (n + n') (m + m') b d"
  by (rule adds_trans)

lemma adds_mono: "adds n m b c \<Longrightarrow> n \<le> n' \<Longrightarrow> m \<le> m' \<Longrightarrow> adds n' m' b c"
  by (auto simp: adds_def)

lemma adds_reason: "adds n m b c \<Longrightarrow> adds (Suc n) m b (reason code message p c)"
  using adds_trans [of n m b c 1 0] by (auto simp: adds_def reason_def Let_def)

lemma adds_question: "adds n m b c \<Longrightarrow> adds n (Suc m) b (push_question q c)"
  using adds_trans [of n m b c 0 1] by (auto simp: adds_def push_question_def Let_def)

lemma adds_marks:
  "adds n m b c \<Longrightarrow> adds n m b (unsupported c)" "adds n m b c \<Longrightarrow> adds n m b (needs_configuration c)"
  "adds n m b c \<Longrightarrow> adds n m b (c\<lparr>ab_database_needed := True\<rparr>)" "adds n m b c \<Longrightarrow> adds n m b (c\<lparr>ab_secrets_needed := True\<rparr>)"
  by (simp_all add: adds_def unsupported_def needs_configuration_def)

lemma adds_questions: "adds n m b c \<Longrightarrow> adds n (m + length xs) b (fold (\<lambda>x. push_question (f x)) xs c)"
proof (induction xs arbitrary: c m)
  case (Cons x xs)
  from Cons.IH [OF adds_question [OF Cons.prems]] show ?case by simp
qed simp

lemma adds_unsupported_because:
  assumes "adds n m b c"
  shows "adds (n + length reasons) m b (unsupported_because found reasons c)"
proof -
  have "adds (n + length reasons) m b (fold (\<lambda>(code, message). reason code message (Some path)) reasons d)"
    if "adds n m b d" for path d
    using that
  proof (induction reasons arbitrary: n d)
    case (Cons r reasons)
    from Cons.IH [OF adds_reason [OF Cons.prems]] show ?case by (simp add: split_def)
  qed simp
  with adds_marks(1) [OF assms] adds_mono [OF assms, of "n + length reasons" m] show ?thesis
    by (simp add: unsupported_because_def split: option.split)
qed

lemmas adds_intros = adds_refl adds_question adds_reason adds_marks

lemma adds_inspect: "adds 6 0 b (inspect_unsupported paths files b)"
proof -
  have one: "adds n m b c \<Longrightarrow> adds (Suc n) m b (unsupported_because found [r] c)" for n m c found r
    using adds_unsupported_because [of n m b c "[r]"] by simp
  have "adds 2 0 b (unsupported_because found [r, r'] b)" for found r r'
    using adds_unsupported_because [OF adds_refl [of 0 0 b], of "[r, r']"] by (simp add: numeral_2_eq_2)
  then have "adds (Suc (Suc (Suc (Suc 2)))) 0 b (inspect_unsupported paths files b)"
    unfolding inspect_unsupported_def Let_def by (intro one)
  then show ?thesis by (simp add: eval_nat_numeral)
qed

lemma adds_checks:
  "adds 2 1 b (check_lockfile repository paths b)"
  "adds 1 1 b (check_service_root i service path package b)"
  "adds 1 0 b (check_command command present code message path b)"
  "adds 1 1 b (check_health i service health path b)"
  "adds 1 1 b (check_database durable database files b)"
  "adds 1 0 b (check_inert_commands src b)"
  unfolding check_lockfile_def check_service_root_def check_command_def check_health_def check_database_def
    check_inert_commands_def Let_def One_nat_def numeral_2_eq_2
  by (simp_all add: adds_intros)

lemma adds_engine: "adds 1 1 b (check_node_engine i service path package b)"
  unfolding check_node_engine_def One_nat_def
  by (simp add: adds_intros split: option.split node_engine_evidence.split)

lemma adds_framework: "adds 2 0 b (check_framework src repository service path package bp health b)"
  unfolding check_framework_def Let_def numeral_2_eq_2
  by (cases "svc_framework service") (simp_all add: adds_intros)

lemma adds_service: "adds 7 3 b (fst (analyze_service src repository durable i service b))"
proof -
  have "adds (0 + 1 + 1 + 1 + 1 + 1 + 2) (0 + 1 + 1 + 0 + 0 + 1 + 0) b (fst (analyze_service src repository durable i service b))"
    unfolding analyze_service_def Let_def fst_conv 
    by (intro adds_checks [THEN adds_after] adds_engine [THEN adds_after] adds_framework [THEN adds_after] adds_refl)
  then show ?thesis by (simp add: eval_nat_numeral)
qed

lemma adds_services:
  "adds (7 * length services) (3 * length services) b (fst (analyze_services src repository durable i services b))"
proof (induction services arbitrary: i b)
  case (Cons service services)
  from adds_trans [OF adds_service Cons.IH] show ?case by (simp add: split_def Let_def)
qed (simp add: adds_refl)

lemma adds_names:
  "adds 1 (length (names_of ServerSecret environment)) b (check_secrets environment files b)"
  "adds 1 (length (names_of PublicBuildValue environment)) b (check_public_values environment files b)"
  unfolding check_secrets_def check_public_values_def Let_def One_nat_def
  by (simp_all add: adds_intros adds_questions [of "Suc 0" 0, simplified])

lemma names_partition:
  "length (names_of ServerSecret environment) + length (names_of PublicBuildValue environment) = length environment"
  by (induction environment) (auto simp: names_of_def split_def intro: environment_classification.exhaust)

lemma adds_build:
  "adds (12 + 7 * length (spec_services spec)) (2 + 3 * length (spec_services spec) + length environment) new_builder
     (fst (build_analysis spec repository src environment))"
proof -
  let ?s = "length (names_of ServerSecret environment)" and ?p = "length (names_of PublicBuildValue environment)"
  let ?k = "length (spec_services spec)"
  have "adds (0 + 6 + 2 + 7 * ?k + 1 + 1 + 1 + 1) (0 + 0 + 1 + 3 * ?k + 1 + ?s + ?p + 0) new_builder
     (fst (build_analysis spec repository src environment))"
    unfolding build_analysis_def Let_def split_def fst_conv
    by (intro adds_inspect [THEN adds_after] adds_checks [THEN adds_after] adds_services [THEN adds_after]
      adds_names [THEN adds_after] adds_refl)
  then show ?thesis by (rule adds_mono) (use names_partition [of environment] in simp_all)
qed

text \<open>An accepted project has at most three services, so with at most 21 names there is a report.\<close>

lemma analysis_within_limits:
  assumes "read_source from_str spec snapshot = Inr (repository, src, environment, bytes)"
    and "length (spec_services spec) \<le> 3" and "length environment \<le> 21"
  shows "\<exists>a. analyze from_str spec snapshot = Inr a"
  using adds_build [of spec environment repository src] assms
  by (simp add: analyze_def adds_def new_builder_def MAX_REASONS_def MAX_QUESTIONS_def finish_analysis_def split_def)

section \<open>A concrete report\<close>

type_synonym shop_value = "(compatibility_safe_facts + compatibility_report_response) option"

definition shop_ext :: "shop_value compat_ext" where
  "shop_ext =
     \<lparr>cx_parse_uuid = (\<lambda>s. if s = ''u'' then Some 1 else None), cx_show_uuid = (\<lambda>_. ''u''),
      cx_sha256 = (\<lambda>_. replicate 32 CHR ''h''), cx_sha256_hex = (\<lambda>_. replicate 64 CHR ''a''),
      cx_request_bytes = (\<lambda>_. Some ''r''), cx_from_str = (\<lambda>_. None), cx_spec_from_value = (\<lambda>_. Some demo_spec),
      cx_facts_to_value = (\<lambda>f. Some (Some (Inl f))),
      cx_facts_from_value = (\<lambda>v. case v of Some (Inl f) \<Rightarrow> Some f | _ \<Rightarrow> None),
      cx_value_bytes = (\<lambda>_. Some ''{}''), cx_jsonb_object = (\<lambda>_. True), cx_jsonb_text = (\<lambda>_. ''{}''),
      cx_response_to_value = (\<lambda>r. Some (Some (Inr r))),
      cx_response_from_value = (\<lambda>v. case v of Some (Inr r) \<Rightarrow> Some r | _ \<Rightarrow> None),
      cx_form_pairs = (\<lambda>_. [(''source_revision_id'', ''u''), (''configuration_revision_id'', ''u'')])\<rparr>"

definition shop_env :: tx_env where
  "shop_env = \<lparr>env_now = (\<lambda>_. 7), env_fresh = (\<lambda>_. 9), env_locked = {}\<rparr>"

definition shop_headers :: header_map where
  "shop_headers = \<lparr>hdr_idempotency_key = Some (Visible ''k''), hdr_if_match = Some (Visible ''\"1\"'')\<rparr>"

definition shop_request :: analyze_request where
  "shop_request = \<lparr>anr_source_revision_id = ''u'', anr_configuration_revision_id = ''u''\<rparr>"

definition shop_auth :: authenticated where
  "shop_auth = \<lparr>auth_account_id = ''u'', auth_session_id = 2\<rparr>"

definition shop_authorized :: authorized_source_snapshot where
  "shop_authorized = \<lparr>aus_account_id = 1, aus_project_id = 1, aus_configuration_revision_id = 1,
     aus_project_revision = 1, aus_snapshot = \<lparr>snap_entry_paths = [], snap_files = []\<rparr>\<rparr>"

definition shop_db :: "shop_value report_db" where
  "shop_db =
     \<lparr>rdb_projects = [\<lparr>prow_id = 1, prow_account_id = 1, prow_hosted_slots = 0, prow_slot_state = ''none'',
        prow_current_configuration = Some 1, prow_revision = 1, prow_updated_at = 0\<rparr>],
      rdb_configurations = [\<lparr>cfg_id = 1, cfg_account_id = 1, cfg_project_id = 1, cfg_spec = None\<rparr>],
      rdb_source_revisions = [\<lparr>gsr_id = 1, gsr_binding_id = 1, gsr_account_id = 1, gsr_project_id = 1,
        gsr_repository_id = 1, gsr_configuration_revision_id = 1, gsr_commit_sha = ''c'', gsr_source = ''s''\<rparr>],
      rdb_reports = [], rdb_idempotency = [], rdb_audit = []\<rparr>"

lemma shop_analysis: "\<exists>a. analyze (\<lambda>_. None) demo_spec \<lparr>snap_entry_paths = [], snap_files = []\<rparr> = Inr a"
  by (rule analysis_within_limits)
    (auto simp: read_source_def demo_spec_def collect_environment_def collect_hostlet_environments.simps
       has_database_service_def btree_remove_def MAX_ENVIRONMENT_NAMES_def)

definition shop_digest :: string where
  "shop_digest = ''sha256:'' @ replicate 64 CHR ''a''"

lemma shop_encoded:
  "encode_report shop_ext a = Inr (Some (Inl (an_facts a)), shop_digest)"
  by (simp add: encode_report_def shop_ext_def MAX_REPORT_BYTES_def shop_digest_def)

lemma shop_check: "report_check shop_ext (new_report shop_env 1 1 1 1 status v shop_digest)"
  by (cases status) (simp_all add: report_check_def new_report_def shop_ext_def octets_between_def ANALYZER_REVISION_def
       database_value_def lowercase_hex_def shop_digest_def)

lemma shop_created:
  "\<exists>db response. create_report shop_ext shop_env shop_auth ''u'' shop_headers shop_request (Inr shop_authorized) shop_db
     = (db, Inr (201, response))"
proof -
  obtain a where a: "analyze (\<lambda>_. None) demo_spec \<lparr>snap_entry_paths = [], snap_files = []\<rparr> = Inr a"
    using shop_analysis by blast
  let ?r = "new_report shop_env 1 1 1 1 (an_status a) (Some (Inl (an_facts a))) shop_digest"
  have inserted: "insert_report shop_ext ?r shop_db = Some (shop_db\<lparr>rdb_reports := [?r]\<rparr>, Some 7)"
    using shop_check by (simp add: insert_report_def shop_db_def) (simp add: new_report_def shop_env_def)
  have miss: "replay (cx_response_from_value shop_ext) (rdb_idempotency shop_db) 1 operation key hash = Inr Miss"
    for operation key hash by (simp add: fresh_key_misses shop_db_def)
  have keys: "path_uuid (cx_parse_uuid shop_ext) ''u'' = Inr 1" "cx_parse_uuid shop_ext ''u'' = Some 1"
      "idempotency_key shop_headers = Inr ''k''" "if_match_revision shop_headers = Inr 1"
      "cx_request_bytes shop_ext x = Some ''r''" "cx_show_uuid shop_ext u = ''u''" "length CREATE_OPERATION = 27" for x u
    by (simp_all add: path_uuid_def shop_ext_def CREATE_OPERATION_def) (simp_all add: shop_headers_def, code_simp+)
  have passed: "check_current 1 1 1 1 shop_db = Inr ()" "check_authorized 1 1 1 1 shop_authorized = Inr ()"
      "load_spec shop_ext 1 1 1 shop_db = Inr demo_spec" "cx_from_str shop_ext = (\<lambda>_. None)"
      "aus_snapshot shop_authorized = \<lparr>snap_entry_paths = [], snap_files = []\<rparr>"
    by (simp_all add: check_current_def check_authorized_def load_spec_def shop_db_def shop_authorized_def
        also_ensure_def ensure_def demo_spec_accepted shop_ext_def)
  have audited: "report_audit e (shop_db\<lparr>rdb_reports := rs\<rparr>) = Some (shop_db\<lparr>rdb_reports := rs, rdb_audit := [e]\<rparr>)"
    if "audit_check e" for e rs
    using that by (simp add: report_audit_def shop_db_def)
  have stored: "store_replay (cx_response_to_value shop_ext) (rdb_idempotency shop_db) 1 operation ''k'' (cx_sha256 shop_ext x)
      201 response = Inr [\<lparr>idem_actor = 1, idem_operation = operation, idem_key = ''k'',
        idem_request_hash = cx_sha256 shop_ext x, idem_request_key_version = None, idem_response_status = 201,
        idem_response_body = Some (Inr response)\<rparr>]"
    if "length operation \<le> 160" "operation \<noteq> []" for operation x response
    using that by (simp add: store_replay_def shop_db_def shop_ext_def insert_record_def record_check_def find_record_def
        Suc_le_eq)
  show ?thesis
    unfolding create_report_def create_new_report_def Let_def
    by (simp add: keys shop_request_def shop_auth_def ok_or_def miss request_hash_def passed a shop_encoded inserted
        report_answer_def attempt_def sql_def run_txn_def audited audit_check_def stored)
qed

theorem report_is_read_back_witness:
  "\<exists>db response. create_report shop_ext shop_env shop_auth ''u'' shop_headers shop_request (Inr shop_authorized) shop_db
       = (db, Inr (201, response))
     \<and> get_latest_report shop_ext shop_auth ''u'' (Some ''q'') db = Inr response"
proof -
  obtain db response where created: "create_report shop_ext shop_env shop_auth ''u'' shop_headers shop_request
      (Inr shop_authorized) shop_db = (db, Inr (201, response))"
    using shop_created by blast
  have "get_latest_report shop_ext shop_auth ''u'' (Some ''q'') db = Inr response"
  proof (rule report_is_read_back [OF _ _ _ _ created])
    show "reachable no_reports (report_step shop_ext) shop_db"
      by (rule reachable_init) (simp add: no_reports_def shop_db_def)
    show "\<forall>f v. cx_facts_to_value shop_ext f = Some v \<longrightarrow> cx_facts_from_value shop_ext v = Some f"
      by (simp add: shop_ext_def)
    show "idempotency_key shop_headers = Inr ''k''" by (simp add: shop_headers_def) code_simp
    show "\<forall>i \<in> set (rdb_idempotency shop_db). idem_key i \<noteq> ''k''" by (simp add: shop_db_def)
    show "(report_step shop_ext)\<^sup>*\<^sup>* db db" by simp
    show "parse_latest_query shop_ext (Some ''q'')
        = Inr (anr_source_revision_id shop_request, anr_configuration_revision_id shop_request)"
      by (simp add: parse_latest_query_def shop_ext_def shop_request_def)
  qed
  with created show ?thesis by blast
qed

end
