(* ===== verification/Source_Bundle.thy ===== *)
theory Source_Bundle
  imports Ordered_Map Json_Value Control_Intent
begin

text \<open>
  The source bundle HBS1: \<open>canonical_source_bundle\<close> of \<^verbatim>\<open>crates/control/src/build_jobs.rs\<close> writes it and
  \<open>extract_source\<close> of \<^verbatim>\<open>crates/builder/src/guest.rs\<close> unpacks it inside the build VM, into a file
  system whose directories and files are named by their path components.  Unicode lower-casing and
  SHA-256 are parameters.
\<close>

section \<open>Integers and paths\<close>

text \<open>\<open>to_be_bytes\<close> and \<open>from_be_bytes\<close> of an integer of \<open>w\<close> bytes.\<close>

fun be_bytes :: "nat \<Rightarrow> nat \<Rightarrow> string" where
  "be_bytes 0 n = []"
| "be_bytes (Suc w) n = char_of (n div 256 ^ w) # be_bytes w n"

fun be_value :: "nat \<Rightarrow> string \<Rightarrow> nat" where
  "be_value acc [] = acc"
| "be_value acc (b # bs) = be_value (acc * 256 + byte b) bs"

text \<open>\<open>Path::components\<close> on Unix: empty segments and all but a leading dot vanish.\<close>

datatype path_component = RootDir | CurDir | ParentDir | Normal string

definition body_components :: "string list \<Rightarrow> path_component list" where
  "body_components segments =
     map (\<lambda>s. if s = ''..'' then ParentDir else Normal s) (filter (\<lambda>s. s \<noteq> [] \<and> s \<noteq> ''.'') segments)"

definition components :: "string \<Rightarrow> path_component list" where
  "components path =
     (if starts_with ''/'' path then [RootDir]
      else if hd (split_on CHR ''/'' path) = ''.'' then [CurDir] else [])
     @ body_components (split_on CHR ''/'' path)"

definition is_normal :: "path_component \<Rightarrow> bool" where
  "is_normal c \<longleftrightarrow> (case c of Normal _ \<Rightarrow> True | _ \<Rightarrow> False)"

definition absolute_path :: "string \<Rightarrow> bool" where
  "absolute_path path \<longleftrightarrow> starts_with ''/'' path"

section \<open>Writing a bundle\<close>

record build_source_file =
  bsf_path :: string
  bsf_executable :: bool
  bsf_blob_sha :: string
  bsf_content :: string

definition validate_bundle_path :: "string \<Rightarrow> api_error + unit" where
  "validate_bundle_path path =
     (if path = [] \<or> length path > 1024 \<or> CHR 0x5C \<in> set path \<or> (\<exists>b \<in> set path. is_ascii_control b)
         \<or> absolute_path path \<or> (\<exists>c \<in> set (components path). \<not> is_normal c)
      then Inl (unprocessable ''source_path_invalid'' ''the source contains an unsafe path'')
      else Inr ())"

definition file_mode :: "build_source_file \<Rightarrow> nat" where
  "file_mode f = (if bsf_executable f then 493 else 420)"

definition bundle_entry :: "build_source_file \<Rightarrow> string" where
  "bundle_entry f =
     be_bytes 2 (length (bsf_path f)) @ bsf_path f @ be_bytes 4 (file_mode f)
     @ be_bytes 8 (length (bsf_content f)) @ bsf_content f"

definition source_entry :: "(string \<Rightarrow> string) \<Rightarrow> build_source_file \<Rightarrow> json" where
  "source_entry sha256_hex f =
     JObject [(''path'', JString (bsf_path f)), (''mode'', JNumber (show_nat (file_mode f))),
       (''size'', JNumber (show_nat (length (bsf_content f)))), (''git_blob_sha1'', JString (bsf_blob_sha f)),
       (''sha256'', JString (''sha256:'' @ sha256_hex (bsf_content f)))]"

text \<open>The loop over the ordered files; \<open>folded\<close> holds the lower-cased paths seen so far.\<close>

fun bundle_files ::
  "(string \<Rightarrow> string) \<Rightarrow> (string \<Rightarrow> string) \<Rightarrow> build_source_file list \<Rightarrow> string set \<Rightarrow> string \<Rightarrow> json list \<Rightarrow> nat
     \<Rightarrow> api_error + string \<times> json list \<times> nat" where
  "bundle_files to_lowercase sha256_hex [] folded packed entries sum_bytes = Inr (packed, entries, sum_bytes)"
| "bundle_files to_lowercase sha256_hex (f # files) folded packed entries sum_bytes =
     (case validate_bundle_path (bsf_path f) of
        Inl e \<Rightarrow> Inl e
      | Inr _ \<Rightarrow>
          if to_lowercase (bsf_path f) \<in> folded
          then Inl (unprocessable ''unsupported_github_source'' ''source paths collide when compared without case'')
          else if length (bsf_path f) \<ge> 2 ^ 16
          then Inl (unprocessable ''source_path_invalid'' ''a source path exceeds the materializer limit'')
          else if length (bsf_content f) \<ge> 2 ^ 64 \<or> sum_bytes + length (bsf_content f) \<ge> 2 ^ 64
          then Inl internal
          else bundle_files to_lowercase sha256_hex files (insert (to_lowercase (bsf_path f)) folded)
                 (packed @ bundle_entry f) (entries @ [source_entry sha256_hex f]) (sum_bytes + length (bsf_content f)))"

definition canonical_source_bundle ::
  "(string \<Rightarrow> string) \<Rightarrow> (string \<Rightarrow> string) \<Rightarrow> build_source_file list \<Rightarrow> api_error + string \<times> json \<times> nat" where
  "canonical_source_bundle to_lowercase sha256_hex files =
     (let ordered = sort_key bsf_path files
      in if length ordered > 10000
         then Inl (unprocessable ''source_limit_exceeded'' ''the source contains too many entries'')
         else (case bundle_files to_lowercase sha256_hex ordered {} (''HBS1'' @ be_bytes 4 (length ordered)) [] 0 of
                 Inl e \<Rightarrow> Inl e
               | Inr (packed, entries, sum_bytes) \<Rightarrow>
                   Inr (packed,
                     JObject [(''schema'', JString ''hostlet.source-tree-manifest/v1''), (''format'', JString ''HBS1''),
                       (''entries'', JArray entries)], sum_bytes)))"

section \<open>Unpacking a bundle\<close>

text \<open>The workspace of the guest: directories and files under the destination, by component names.\<close>

record workspace =
  ws_dirs :: "string list set"
  ws_files :: "(string list) \<rightharpoonup> nat \<times> string"

datatype guest_error = InvalidData string | UnexpectedEof string | FileSystem

definition read_exact :: "nat \<Rightarrow> string \<Rightarrow> guest_error + string \<times> string" where
  "read_exact n reader =
     (if length reader < n then Inl (UnexpectedEof ''failed to fill whole buffer'')
      else Inr (take n reader, drop n reader))"

definition read_uint :: "nat \<Rightarrow> string \<Rightarrow> guest_error + nat \<times> string" where
  "read_uint w reader =
     (case read_exact w reader of Inl e \<Rightarrow> Inl e | Inr (bytes, rest) \<Rightarrow> Inr (be_value 0 bytes, rest))"

definition MAX_SOURCE_PATH :: nat where "MAX_SOURCE_PATH = 1024"
definition MAX_SOURCE_PADDING :: nat where "MAX_SOURCE_PADDING = 511"

definition validate_relative_path :: "string \<Rightarrow> guest_error + unit" where
  "validate_relative_path path =
     (if path = [] \<or> length path > MAX_SOURCE_PATH
         \<or> (\<exists>b \<in> set path. b \<in> {CHR 0x5C, CHR 0x00, CHR 0x0D, CHR 0x0A})
         \<or> absolute_path path \<or> (\<exists>c \<in> set (components path). \<not> is_normal c)
      then Inl (InvalidData ''unsafe path'') else Inr ())"

text \<open>
  The names on the way to a relative path.  \<open>create_dir_all\<close> on the parent fails when a file is in the
  way; opening with \<open>create_new\<close> fails when the name is taken or ends in a slash or a dot.
\<close>

definition names :: "string \<Rightarrow> string list" where
  "names path = filter (\<lambda>s. s \<noteq> [] \<and> s \<noteq> ''.'') (split_on CHR ''/'' path)"

definition create_parents :: "string list \<Rightarrow> workspace \<Rightarrow> guest_error + workspace" where
  "create_parents dir ws =
     (if \<exists>k \<in> {..length dir}. take k dir \<in> dom (ws_files ws) then Inl FileSystem
      else Inr (ws\<lparr>ws_dirs := ws_dirs ws \<union> (\<lambda>k. take k dir) ` {..length dir}\<rparr>))"

definition create_new :: "string \<Rightarrow> nat \<times> string \<Rightarrow> workspace \<Rightarrow> guest_error + workspace" where
  "create_new path file ws =
     (if last (split_on CHR ''/'' path) \<in> {[], ''.''} \<or> names path \<in> ws_dirs ws \<or> names path \<in> dom (ws_files ws)
      then Inl FileSystem
      else Inr (ws\<lparr>ws_files := (ws_files ws)(names path \<mapsto> file)\<rparr>))"

text \<open>One entry: the path, its mode and its bytes; an incomplete file ends the extraction.\<close>

definition read_path :: "string option \<Rightarrow> string \<Rightarrow> guest_error + string \<times> string" where
  "read_path previous reader =
     (case read_uint 2 reader of Inl e \<Rightarrow> Inl e | Inr (path_length, r1) \<Rightarrow>
        if path_length = 0 \<or> path_length > MAX_SOURCE_PATH then Inl (InvalidData ''source path length'')
        else (case read_exact path_length r1 of Inl e \<Rightarrow> Inl e | Inr (path, r2) \<Rightarrow>
          if \<not> valid_utf8 path then Inl (InvalidData ''source path UTF-8'')
          else (case validate_relative_path path of Inl e \<Rightarrow> Inl e | Inr _ \<Rightarrow>
            if (case previous of Some p \<Rightarrow> p \<ge> path | None \<Rightarrow> False) then Inl (InvalidData ''source ordering'')
            else Inr (path, r2))))"

definition write_file :: "string \<Rightarrow> nat \<Rightarrow> nat \<Rightarrow> string \<Rightarrow> workspace \<Rightarrow> guest_error + string \<times> workspace" where
  "write_file path mode bytes reader ws =
     (case create_parents (butlast (names path)) ws of Inl e \<Rightarrow> Inl e | Inr ws1 \<Rightarrow>
     (case create_new path (mode, take bytes reader) ws1 of Inl e \<Rightarrow> Inl e | Inr ws2 \<Rightarrow>
        if length reader < bytes then Inl (UnexpectedEof ''source bytes'') else Inr (drop bytes reader, ws2)))"

fun extract_entries :: "nat \<Rightarrow> string option \<Rightarrow> string \<Rightarrow> workspace \<Rightarrow> guest_error + string \<times> workspace" where
  "extract_entries 0 previous reader ws = Inr (reader, ws)"
| "extract_entries (Suc n) previous reader ws =
     (case read_path previous reader of Inl e \<Rightarrow> Inl e | Inr (path, r1) \<Rightarrow>
     (case read_uint 4 r1 of Inl e \<Rightarrow> Inl e | Inr (mode, r2) \<Rightarrow>
        if mode \<notin> {420, 493} then Inl (InvalidData ''source mode'')
        else (case read_uint 8 r2 of Inl e \<Rightarrow> Inl e | Inr (bytes, r3) \<Rightarrow>
             (case write_file path mode bytes r3 ws of Inl e \<Rightarrow> Inl e | Inr (r4, ws') \<Rightarrow>
                extract_entries n (Some path) r4 ws'))))"

text \<open>The bytes after the last entry: at most \<open>MAX_SOURCE_PADDING\<close> zeros.\<close>

definition read_padding :: "string \<Rightarrow> guest_error + unit" where
  "read_padding reader =
     (if \<exists>b \<in> set (take MAX_SOURCE_PADDING reader). b \<noteq> CHR 0x00 then Inl (InvalidData ''source trailing bytes'')
      else if length reader > MAX_SOURCE_PADDING then Inl (InvalidData ''source padding length'')
      else Inr ())"

definition extract_source :: "string \<Rightarrow> workspace \<Rightarrow> guest_error + workspace" where
  "extract_source reader ws =
     (case read_exact 4 reader of Inl e \<Rightarrow> Inl e | Inr (magic, r1) \<Rightarrow>
        if magic \<noteq> ''HBS1'' then Inl (InvalidData ''source magic'')
        else (case read_uint 4 r1 of Inl e \<Rightarrow> Inl e | Inr (entries, r2) \<Rightarrow>
          if entries > 100000 then Inl (InvalidData ''source entries'')
          else (case extract_entries entries None r2 ws of Inl e \<Rightarrow> Inl e | Inr (r3, ws') \<Rightarrow>
             (case read_padding r3 of Inl e \<Rightarrow> Inl e | Inr _ \<Rightarrow> Inr ws'))))"

section \<open>The round trip\<close>

text \<open>
  What a Git tree guarantees of its blobs: paths are valid strings of nonempty components other than
  a dot, and no file is a directory of another.
\<close>

definition git_tree :: "build_source_file list \<Rightarrow> bool" where
  "git_tree files \<longleftrightarrow>
     (\<forall>f \<in> set files. valid_utf8 (bsf_path f)
        \<and> (\<forall>s \<in> set (split_on CHR ''/'' (bsf_path f)). s \<noteq> [] \<and> s \<noteq> ''.''))
     \<and> (\<forall>f \<in> set files. \<forall>g \<in> set files. \<forall>k.
          split_on CHR ''/'' (bsf_path f) = take k (split_on CHR ''/'' (bsf_path g)) \<longrightarrow>
          k \<ge> length (split_on CHR ''/'' (bsf_path g)))"

definition empty_workspace :: workspace where
  "empty_workspace = \<lparr>ws_dirs = {[]}, ws_files = Map.empty\<rparr>"

definition tree_of :: "build_source_file list \<Rightarrow> string list \<rightharpoonup> nat \<times> string" where
  "tree_of files = map_of (map (\<lambda>f. (split_on CHR ''/'' (bsf_path f), file_mode f, bsf_content f)) files)"

lemma be_value_append: "be_value acc (be_bytes w n) = acc * 256 ^ w + n mod 256 ^ w"
proof (induction w arbitrary: acc)
  case (Suc w)
  have "n mod 256 ^ Suc w = 256 ^ w * (n div 256 ^ w mod 256) + n mod 256 ^ w"
    using mod_mult2_eq [of n "256 ^ w" 256] by (simp add: mult.commute)
  with Suc show ?case by (simp add: algebra_simps)
qed simp

lemma length_be_bytes [simp]: "length (be_bytes w n) = w"
  by (induction w) auto

lemma read_uint_be [simp]: "n < 256 ^ w \<Longrightarrow> read_uint w (be_bytes w n @ rest) = Inr (n, rest)"
  by (simp add: read_uint_def read_exact_def be_value_append)

lemma read_exact_append [simp]: "read_exact (length s) (s @ rest) = Inr (s, rest)"
  by (simp add: read_exact_def)


text \<open>What an accepted path is, to the writer and to the reader.\<close>

lemma bundle_path_relative: "validate_bundle_path path = Inr u \<Longrightarrow> validate_relative_path path = Inr ()"
  by (auto simp: validate_bundle_path_def validate_relative_path_def MAX_SOURCE_PATH_def is_ascii_control_def
      split: if_splits)

lemma bundle_path_length: "validate_bundle_path path = Inr u \<Longrightarrow> path \<noteq> [] \<and> length path \<le> 1024"
  by (auto simp: validate_bundle_path_def split: if_splits)

lemma git_names:
  "git_tree files \<Longrightarrow> f \<in> set files \<Longrightarrow> names (bsf_path f) = split_on CHR ''/'' (bsf_path f)
     \<and> last (split_on CHR ''/'' (bsf_path f)) \<notin> {[], ''.''} \<and> valid_utf8 (bsf_path f)"
  by (auto simp: git_tree_def names_def filter_id_conv)

text \<open>What the writer's loop produces.\<close>

lemma bundle_files_Inr:
  "bundle_files lower sha files folded packed entries n = Inr (packed', entries', n') \<Longrightarrow>
     packed' = packed @ concat (map bundle_entry files)
     \<and> (\<forall>f \<in> set files. validate_bundle_path (bsf_path f) = Inr () \<and> length (bsf_content f) < 2 ^ 64
          \<and> lower (bsf_path f) \<notin> folded)
     \<and> distinct (map bsf_path files)"
proof (induction files arbitrary: folded packed entries n)
  case (Cons f files)
  then obtain u where "validate_bundle_path (bsf_path f) = Inr u" "lower (bsf_path f) \<notin> folded"
      "length (bsf_content f) < 2 ^ 64"
    and rest: "bundle_files lower sha files (insert (lower (bsf_path f)) folded) (packed @ bundle_entry f)
      (entries @ [source_entry sha f]) (n + length (bsf_content f)) = Inr (packed', entries', n')"
    by (auto split: sum.splits if_splits)
  with Cons.IH [OF rest] show ?case by auto
qed simp

text \<open>One entry is read back.\<close>

lemma read_entry:
  assumes "validate_bundle_path (bsf_path f) = Inr u" "length (bsf_content f) < 2 ^ 64" "valid_utf8 (bsf_path f)"
    and "\<forall>p. previous = Some p \<longrightarrow> p < bsf_path f"
  shows "extract_entries (Suc n) previous (bundle_entry f @ rest) ws =
    (case write_file (bsf_path f) (file_mode f) (length (bsf_content f)) (bsf_content f @ rest) ws of
       Inl e \<Rightarrow> Inl e | Inr (r, ws') \<Rightarrow> extract_entries n (Some (bsf_path f)) r ws')"
proof -
  have len: "bsf_path f \<noteq> []" "length (bsf_path f) \<le> 1024" using bundle_path_length [OF assms(1)] by auto
  have path: "read_path previous (be_bytes 2 (length (bsf_path f)) @ bsf_path f @ tail) = Inr (bsf_path f, tail)" for tail
    using len assms(3,4) bundle_path_relative [OF assms(1)]
    by (auto simp: read_path_def MAX_SOURCE_PATH_def not_le split: option.split)
  have "file_mode f \<in> {420, 493}" "file_mode f < 256 ^ 4" by (auto simp: file_mode_def)
  moreover have "length (bsf_content f) < 256 ^ 8" using assms(2) by simp
  ultimately show ?thesis by (auto simp: bundle_entry_def path)
qed

text \<open>The workspace after some of the files: exactly they, and the directories above them.\<close>

definition unpacked :: "build_source_file list \<Rightarrow> workspace \<Rightarrow> bool" where
  "unpacked files ws \<longleftrightarrow> ws_files ws = tree_of files
     \<and> (\<forall>dir \<in> ws_dirs ws. dir = [] \<or>
          (\<exists>f \<in> set files. \<exists>k < length (split_on CHR ''/'' (bsf_path f)). dir = take k (split_on CHR ''/'' (bsf_path f))))"

lemma tree_of_dom: "dom (tree_of files) = (\<lambda>f. split_on CHR ''/'' (bsf_path f)) ` set files"
  by (simp add: tree_of_def dom_map_of_conv_image_fst image_image)

lemma split_on_inject: "split_on c s = split_on c t \<Longrightarrow> s = t"
  by (metis join_split)

lemma git_treeD:
  "git_tree files \<Longrightarrow> f \<in> set files \<Longrightarrow> g \<in> set files \<Longrightarrow>
     split_on CHR ''/'' (bsf_path f) = take k (split_on CHR ''/'' (bsf_path g)) \<Longrightarrow>
     k \<ge> length (split_on CHR ''/'' (bsf_path g))"
  unfolding git_tree_def by blast

lemma write_file_unpacked:
  assumes tree: "git_tree files" and f: "f \<in> set files" "set pre \<subseteq> set files" "bsf_path f \<notin> bsf_path ` set pre"
    and ws: "unpacked pre ws"
  shows "\<exists>ws'. write_file (bsf_path f) mode (length content) (content @ rest) ws = Inr (rest, ws')
    \<and> ws_files ws' = (ws_files ws)(split_on CHR ''/'' (bsf_path f) \<mapsto> (mode, content))
    \<and> ws_dirs ws' = ws_dirs ws \<union> {take k (split_on CHR ''/'' (bsf_path f)) |k. k < length (split_on CHR ''/'' (bsf_path f))}"
proof -
  let ?n = "split_on CHR ''/'' (bsf_path f)"
  have names: "names (bsf_path f) = ?n" "last ?n \<notin> {[], ''.''}" using git_names [OF tree f(1)] by auto
  have below: "take k (butlast ?n) \<notin> dom (ws_files ws)" for k
  proof
    assume "take k (butlast ?n) \<in> dom (ws_files ws)"
    then obtain g where g: "g \<in> set pre" "split_on CHR ''/'' (bsf_path g) = take (min k (length ?n - 1)) ?n"
      using ws by (auto simp: unpacked_def tree_of_dom butlast_conv_take)
    with git_treeD [OF tree _ f(1)] f(2) have "min k (length ?n - 1) \<ge> length ?n" by blast
    moreover have "length ?n > 0" by simp
    ultimately show False by linarith
  qed
  let ?ws1 = "ws\<lparr>ws_dirs := ws_dirs ws \<union> (\<lambda>k. take k (butlast ?n)) ` {..length (butlast ?n)}\<rparr>"
  have ws1: "create_parents (butlast ?n) ws = Inr ?ws1"
    unfolding create_parents_def by (simp add: below)
  have dirs: "(\<lambda>k. take k (butlast ?n)) ` {..length (butlast ?n)} = {take k ?n |k. k < length ?n}"
  proof -
    have "{..length (butlast ?n)} = {k. k < length ?n}" by (auto simp: less_eq_Suc_le) (metis Suc_pred length_greater_0_conv not_less_eq_eq split_on_nonempty)+
    then show ?thesis by (auto simp: butlast_conv_take)
  qed
  have "?n \<notin> ws_dirs ws"
  proof
    assume "?n \<in> ws_dirs ws"
    then obtain g k where "g \<in> set pre" "k < length (split_on CHR ''/'' (bsf_path g))"
        "?n = take k (split_on CHR ''/'' (bsf_path g))"
      using ws by (auto simp: unpacked_def)
    with git_treeD [OF tree f(1), of g k] f(2) show False by auto
  qed
  moreover have "?n \<notin> {take k ?n |k. k < length ?n}"
  proof
    assume "?n \<in> {take k ?n |k. k < length ?n}"
    then obtain k where "k < length ?n" "?n = take k ?n" by blast
    then have "length ?n = k" using length_take [of k ?n] by simp
    with \<open>k < length ?n\<close> show False by simp
  qed
  moreover have "?n \<notin> dom (ws_files ws)"
    using ws f(3) by (auto simp: unpacked_def tree_of_dom dest: split_on_inject)
  ultimately have free: "names (bsf_path f) \<notin> ws_dirs ?ws1 \<union> dom (ws_files ?ws1)"
    unfolding names(1) dirs by simp
  show ?thesis
    unfolding write_file_def names(1) ws1 using free names dirs by (simp add: create_new_def)
qed

lemma extract_unpacked:
  assumes tree: "git_tree files" and sub: "set pre \<union> set post \<subseteq> set files" and dist: "distinct (map bsf_path (pre @ post))"
    and sorted: "sorted (map bsf_path post)" "\<forall>p. previous = Some p \<longrightarrow> (\<forall>f \<in> set post. p < bsf_path f)"
    and ok: "\<forall>f \<in> set post. validate_bundle_path (bsf_path f) = Inr () \<and> length (bsf_content f) < 2 ^ 64"
    and ws: "unpacked pre ws"
  shows "\<exists>ws'. extract_entries (length post) previous (concat (map bundle_entry post) @ rest) ws = Inr (rest, ws')
    \<and> unpacked (pre @ post) ws'"
  using sub dist sorted ok ws
proof (induction post arbitrary: pre previous ws)
  case (Cons f post)
  let ?n = "split_on CHR ''/'' (bsf_path f)" and ?tail = "concat (map bundle_entry post) @ rest"
  have f: "f \<in> set files" "set pre \<subseteq> set files" "bsf_path f \<notin> bsf_path ` set pre" using Cons.prems(1,2) by auto
  obtain ws1 where ws1: "write_file (bsf_path f) (file_mode f) (length (bsf_content f)) (bsf_content f @ ?tail) ws
        = Inr (?tail, ws1)"
      "ws_files ws1 = (ws_files ws)(?n \<mapsto> (file_mode f, bsf_content f))"
      "ws_dirs ws1 = ws_dirs ws \<union> {take k ?n |k. k < length ?n}"
    using write_file_unpacked [OF tree f Cons.prems(6)] by blast
  have "tree_of (pre @ [f]) = (tree_of pre)(?n \<mapsto> (file_mode f, bsf_content f))"
  proof -
    have "?n \<notin> dom (tree_of pre)" using f(3) by (auto simp: tree_of_dom dest: split_on_inject)
    then show ?thesis by (auto simp: tree_of_def map_add_def fun_eq_iff split: option.split)
  qed
  then have "unpacked (pre @ [f]) ws1"
    using Cons.prems(6) ws1(2,3) by (auto simp: unpacked_def)
  moreover have "\<forall>p. Some (bsf_path f) = Some p \<longrightarrow> (\<forall>g \<in> set post. p < bsf_path g)"
    using Cons.prems(2,3) by (fastforce simp: less_le)
  ultimately obtain ws' where "extract_entries (length post) (Some (bsf_path f)) ?tail ws1 = Inr (rest, ws')"
      "unpacked ((pre @ [f]) @ post) ws'"
    using Cons.IH [of "pre @ [f]" "Some (bsf_path f)" ws1] Cons.prems by auto
  moreover have "extract_entries (Suc (length post)) previous (bundle_entry f @ ?tail) ws
      = extract_entries (length post) (Some (bsf_path f)) ?tail ws1"
    using read_entry [of f "()" previous "length post" ?tail ws] Cons.prems(4,5) git_names [OF tree f(1)] ws1(1) by simp
  ultimately show ?case by (metis append.assoc append_Cons append_Nil concat.simps(2) length_Cons list.simps(9))
qed simp

lemma git_tree_sort: "git_tree files \<Longrightarrow> git_tree (sort_key g files)"
  unfolding git_tree_def by (simp only: set_sort)

lemma tree_of_sort: "distinct (map bsf_path (sort_key g files)) \<Longrightarrow> tree_of (sort_key g files) = tree_of files"
  unfolding tree_of_def
  by (rule map_of_inject_set [THEN iffD2])
    (auto simp: distinct_map comp_def inj_on_def dest: split_on_inject)

text \<open>
  C4. The source that a build sees is the source that was authorized: the bundle that the control
  plane writes for the files of a Git tree is unpacked in the guest, behind up to 511 bytes of zero
  padding of the block device, to exactly these files with their modes and contents.
\<close>

theorem bundle_is_unpacked:
  assumes written: "canonical_source_bundle to_lowercase sha256_hex files = Inr (packed, manifest, n)"
    and tree: "git_tree files"
    and padding: "length pad \<le> 511" "set pad \<subseteq> {CHR 0x00}"
  shows "\<exists>ws. extract_source (packed @ pad) empty_workspace = Inr ws \<and> ws_files ws = tree_of files"
proof -
  let ?ordered = "sort_key bsf_path files"
  obtain entries where count: "length files \<le> 10000"
    and loop: "bundle_files to_lowercase sha256_hex ?ordered {} (''HBS1'' @ be_bytes 4 (length files)) [] 0
      = Inr (packed, entries, n)"
    using written by (auto simp: canonical_source_bundle_def Let_def split: sum.splits if_splits)
  note packed = bundle_files_Inr [OF loop]
  have "unpacked [] empty_workspace" by (simp add: unpacked_def empty_workspace_def tree_of_def)
  then obtain ws where ws: "extract_entries (length ?ordered) None (concat (map bundle_entry ?ordered) @ pad) empty_workspace
      = Inr (pad, ws)" "unpacked ([] @ ?ordered) ws"
    using extract_unpacked [OF git_tree_sort [OF tree, of bsf_path], of "[]" ?ordered None empty_workspace pad] packed by auto
  have "read_padding pad = Inr ()"
    using padding by (auto simp: read_padding_def MAX_SOURCE_PADDING_def dest: in_set_takeD)
  moreover have "read_exact 4 (''HBS1'' @ rest) = Inr (''HBS1'', rest)" for rest
    by (simp add: read_exact_def eval_nat_numeral)
  ultimately have "extract_source (packed @ pad) empty_workspace = Inr ws"
    using packed ws(1) count by (simp add: extract_source_def)
  moreover have "ws_files ws = tree_of files"
    using ws(2) packed tree_of_sort [of bsf_path files] by (simp add: unpacked_def)
  ultimately show ?thesis by blast
qed

definition demo_files :: "build_source_file list" where
  "demo_files = [\<lparr>bsf_path = ''b/x'', bsf_executable = True, bsf_blob_sha = ''1'', bsf_content = ''run''\<rparr>,
     \<lparr>bsf_path = ''a'', bsf_executable = False, bsf_blob_sha = ''2'', bsf_content = ''text''\<rparr>]"

theorem bundle_is_unpacked_witness:
  "\<exists>packed manifest n ws. canonical_source_bundle (\<lambda>s. s) (\<lambda>s. s) demo_files = Inr (packed, manifest, n)
     \<and> extract_source (packed @ [CHR 0x00]) empty_workspace = Inr ws
     \<and> ws_files ws [''b'', ''x''] = Some (493, ''run'')"
proof -
  have ordered: "sort_key bsf_path demo_files = rev demo_files"
    by (simp add: demo_files_def less_eq_char_def less_char_def)
  have "validate_bundle_path ''a'' = Inr ()" "validate_bundle_path ''b/x'' = Inr ()" by code_simp+
  then have "\<not> isl (canonical_source_bundle (\<lambda>s. s) (\<lambda>s. s) demo_files)"
    unfolding canonical_source_bundle_def Let_def ordered by (simp add: demo_files_def)
  then obtain packed manifest n where written: "canonical_source_bundle (\<lambda>s. s) (\<lambda>s. s) demo_files = Inr (packed, manifest, n)"
    by (cases "canonical_source_bundle (\<lambda>s. s) (\<lambda>s. s) demo_files") auto
  moreover have "git_tree demo_files"
    by (auto simp: git_tree_def demo_files_def take_Cons' split: if_splits)
  ultimately obtain ws where "extract_source (packed @ [CHR 0x00]) empty_workspace = Inr ws" "ws_files ws = tree_of demo_files"
    using bundle_is_unpacked [of "\<lambda>s. s" "\<lambda>s. s" demo_files packed manifest n "[CHR 0x00]"] by auto
  moreover have "tree_of demo_files [''b'', ''x''] = Some (493, ''run'')"
    by (simp add: tree_of_def demo_files_def file_mode_def)
  ultimately show ?thesis using written by auto
qed

end
