(* ===== verification/Build_Store.thy ===== *)
theory Build_Store
  imports Compatibility_Reports Control_Secrets
begin

text \<open>
  The tables of the build queue (\<^verbatim>\<open>migrations/0006_m3_execution.sql\<close>) beside those of admission, the
  compatibility reports and the secrets, with the statements that
  \<^verbatim>\<open>crates/control/src/build_jobs.rs\<close> issues on them.  As elsewhere a table is the list of its rows
  and a statement that violates a constraint yields \<open>None\<close>.
\<close>

section \<open>Rows\<close>

record 'v build_row =
  bj_id :: uuid
  bj_account_id :: uuid
  bj_project_id :: uuid
  bj_deployment_id :: uuid
  bj_reservation_id :: uuid
  bj_reservation_epoch :: uuid
  bj_source_proof_id :: uuid
  bj_source_revision_id :: uuid
  bj_compatibility_report_id :: uuid
  bj_configuration_revision_id :: uuid
  bj_source_commit :: string
  bj_source_tree_sha :: string
  bj_profile_id :: string
  bj_profile_digest :: string
  bj_materialization_id :: "uuid option"
  bj_bundle_digest :: "string option"
  bj_tree_manifest_digest :: "string option"
  bj_input_manifest :: 'v
  bj_input_manifest_digest :: string
  bj_state :: string
  bj_revision :: int
  bj_attempt_count :: int
  bj_max_attempts :: int
  bj_current_attempt_id :: "uuid option"
  bj_current_fence :: int
  bj_lease_expires_at :: "timestamp option"
  bj_terminal_code :: "string option"
  bj_cleanup_status :: string
  bj_created_at :: timestamp
  bj_updated_at :: timestamp

record build_attempt_row =
  ba_id :: uuid
  ba_account_id :: uuid
  ba_project_id :: uuid
  ba_job_id :: uuid
  ba_number :: int
  ba_fence :: int
  ba_worker_id :: string
  ba_state :: string
  ba_lease_started_at :: timestamp
  ba_lease_expires_at :: timestamp
  ba_launched_at :: "timestamp option"
  ba_finished_at :: "timestamp option"
  ba_terminal_code :: "string option"
  ba_completion_hash :: "string option"

record build_service_row =
  bs_job_id :: uuid
  bs_account_id :: uuid
  bs_project_id :: uuid
  bs_configuration_revision_id :: uuid
  bs_service_id :: uuid
  bs_ordinal :: int
  bs_kind :: string
  bs_root :: "string option"
  bs_node_major :: int
  bs_framework :: string
  bs_lockfile_path :: string
  bs_build_command :: string
  bs_output_directory :: string
  bs_start_command :: "string option"
  bs_health_path :: "string option"

record build_secret_row =
  br_job_id :: uuid
  br_account_id :: uuid
  br_project_id :: uuid
  br_service_id :: uuid
  br_secret_id :: uuid
  br_secret_version_id :: uuid
  br_name :: string
  br_credential_kind :: string

record artifact_row =
  art_id :: uuid
  art_account_id :: uuid
  art_project_id :: uuid
  art_job_id :: uuid
  art_attempt_id :: uuid
  art_fence :: int
  art_service_id :: uuid
  art_kind :: string
  art_archive_digest :: string
  art_manifest_digest :: string
  art_packed_bytes :: int
  art_unpacked_bytes :: int
  art_entry_count :: int
  art_entrypoint_argv :: "string list option"
  art_created_at :: timestamp

record 'v build_effect_row =
  be_job_id :: uuid
  be_attempt_id :: uuid
  be_fence :: int
  be_state :: string
  be_code :: string
  be_completion_hash :: string
  be_response_body :: 'v

record 'v build_receipt_row =
  brc_attempt_id :: uuid
  brc_job_id :: uuid
  brc_fence :: int
  brc_completion_hash :: string
  brc_response_body :: 'v

record meter_row =
  mt_job_id :: uuid
  mt_account_id :: uuid
  mt_project_id :: uuid
  mt_deployment_id :: uuid
  mt_entitlement_id :: uuid
  mt_reserved_seconds :: int
  mt_finalized_seconds :: "int option"
  mt_state :: string
  mt_debit_event_id :: "uuid option"
  mt_finalized_at :: "timestamp option"

record materialization_row =
  mz_id :: uuid
  mz_account_id :: uuid
  mz_project_id :: uuid
  mz_deployment_id :: uuid
  mz_source_revision_id :: uuid
  mz_configuration_revision_id :: uuid
  mz_compatibility_report_id :: uuid
  mz_commit_sha :: string
  mz_tree_sha :: string
  mz_materializer_revision :: string
  mz_bundle_digest :: string
  mz_tree_manifest_digest :: string
  mz_entry_count :: int
  mz_total_bytes :: int
  mz_state :: string

record service_configuration_row =
  scf_account_id :: uuid
  scf_project_id :: uuid
  scf_configuration_revision_id :: uuid
  scf_service_id :: uuid
  scf_kind :: string

text \<open>
  The database of the build queue.  \<open>bd_adm\<close> holds the admission tables and, with them, the project
  graph, the stored responses and the audit log; \<open>bd_tree_sha\<close> is the column \<open>tree_sha\<close> of
  \<open>github_source_revisions\<close>.
\<close>

record 'v build_db =
  bd_adm :: "'v admission_db"
  bd_tree_sha :: "uuid \<Rightarrow> string option"
  bd_reports :: "'v report_row list"
  bd_configurations :: "'v configuration_row list"
  bd_service_configurations :: "service_configuration_row list"
  bd_secrets :: "secret_row list"
  bd_secret_versions :: "secret_version_row list"
  bd_jobs :: "'v build_row list"
  bd_services :: "build_service_row list"
  bd_secret_refs :: "build_secret_row list"
  bd_attempts :: "build_attempt_row list"
  bd_artifacts :: "artifact_row list"
  bd_effects :: "'v build_effect_row list"
  bd_receipts :: "'v build_receipt_row list"
  bd_meters :: "meter_row list"
  bd_materializations :: "materialization_row list"

section \<open>Constraints\<close>

definition sha40_column :: "string \<Rightarrow> bool" where
  "sha40_column s \<longleftrightarrow> length s = 40 \<and> (\<forall>b \<in> set s. lowercase_hex b)"

definition digest_column :: "string \<Rightarrow> bool" where
  "digest_column s \<longleftrightarrow>
     (case strip_prefix ''sha256:'' s of None \<Rightarrow> False | Some hex \<Rightarrow> length hex = 64 \<and> (\<forall>b \<in> set hex. lowercase_hex b))"

definition nullable :: "('a \<Rightarrow> bool) \<Rightarrow> 'a option \<Rightarrow> bool" where
  "nullable p v \<longleftrightarrow> (case v of None \<Rightarrow> True | Some x \<Rightarrow> p x)"

text \<open>\<open>jsonb_ok\<close> says that a value is a JSON object whose text has at most 131072 bytes.\<close>

definition build_check :: "('v \<Rightarrow> bool) \<Rightarrow> 'v build_row \<Rightarrow> bool" where
  "build_check jsonb_ok j \<longleftrightarrow>
     sha40_column (bj_source_commit j) \<and> sha40_column (bj_source_tree_sha j)
     \<and> bj_profile_id j \<in> {''m3-owned-node24-v1'', ''m3-owned-node22-v1'', ''m3-owned-node24-cache-miss-v1''}
     \<and> digest_column (bj_profile_digest j) \<and> nullable digest_column (bj_bundle_digest j)
     \<and> nullable digest_column (bj_tree_manifest_digest j) \<and> jsonb_ok (bj_input_manifest j)
     \<and> digest_column (bj_input_manifest_digest j)
     \<and> bj_state j \<in> {''queued'', ''running'', ''succeeded'', ''failed'', ''canceled'', ''retriable''}
     \<and> bj_revision j > 0 \<and> in_bigint (bj_revision j) \<and> 0 \<le> bj_attempt_count j \<and> bj_attempt_count j \<le> 3
     \<and> bj_max_attempts j = 3 \<and> bj_current_fence j \<ge> 0 \<and> in_bigint (bj_current_fence j)
     \<and> nullable (octets_between 1 64) (bj_terminal_code j)
     \<and> bj_cleanup_status j \<in> {''not_started'', ''confirmed'', ''pending''}
     \<and> (bj_state j = ''running'' \<longleftrightarrow> bj_current_attempt_id j \<noteq> None \<and> bj_lease_expires_at j \<noteq> None)
     \<and> (bj_state j = ''succeeded'' \<longrightarrow>
          bj_materialization_id j \<noteq> None \<and> bj_bundle_digest j \<noteq> None \<and> bj_tree_manifest_digest j \<noteq> None)"

text \<open>The partial unique index \<open>build_jobs_one_active_account_idx\<close>.\<close>

definition active_build :: "'v build_row \<Rightarrow> bool" where
  "active_build j \<longleftrightarrow> bj_state j = ''running'' \<or> bj_cleanup_status j = ''pending''"

definition active_index_ok :: "'v build_row list \<Rightarrow> bool" where
  "active_index_ok js \<longleftrightarrow> distinct (map bj_account_id (filter active_build js))"

definition materialization_fk :: "materialization_row list \<Rightarrow> 'v build_row \<Rightarrow> bool" where
  "materialization_fk ms j \<longleftrightarrow>
     (case bj_materialization_id j of
        None \<Rightarrow> True
      | Some m \<Rightarrow> (\<exists>z \<in> set ms. mz_id z = m \<and> mz_account_id z = bj_account_id j \<and> mz_project_id z = bj_project_id j
                      \<and> mz_deployment_id z = bj_deployment_id j))"

text \<open>The deferred foreign key \<open>build_jobs_current_attempt_fk\<close>.\<close>

definition build_attempt_fk :: "'v build_db \<Rightarrow> bool" where
  "build_attempt_fk db \<longleftrightarrow>
     (\<forall>j \<in> set (bd_jobs db). case bj_current_attempt_id j of
        None \<Rightarrow> True
      | Some aid \<Rightarrow>
          (\<exists>a \<in> set (bd_attempts db). ba_account_id a = bj_account_id j \<and> ba_project_id a = bj_project_id j
             \<and> ba_job_id a = bj_id j \<and> ba_id a = aid \<and> ba_fence a = bj_current_fence j))"

definition build_attempt_check :: "build_attempt_row \<Rightarrow> bool" where
  "build_attempt_check a \<longleftrightarrow>
     1 \<le> ba_number a \<and> ba_number a \<le> 3 \<and> ba_fence a > 0 \<and> in_bigint (ba_fence a)
     \<and> octets_between 1 128 (ba_worker_id a)
     \<and> ba_state a \<in> {''running'', ''succeeded'', ''failed'', ''retriable'', ''expired'', ''canceled''}
     \<and> nullable (octets_between 1 64) (ba_terminal_code a) \<and> nullable (\<lambda>h. length h = 32) (ba_completion_hash a)
     \<and> ba_lease_expires_at a > ba_lease_started_at a
     \<and> (ba_state a = ''running'' \<longleftrightarrow> ba_finished_at a = None \<and> ba_terminal_code a = None)"

text \<open>
  The regular expression \<open>(^/|\\\\.\\\\.)\<close> of the check on \<open>root\<close>: with standard-conforming strings its
  backslashes are literal, so it looks for a backslash before and after any character.
\<close>

definition root_refused :: "string \<Rightarrow> bool" where
  "root_refused r \<longleftrightarrow>
     starts_with ''/'' r
     \<or> (let cs = chars r in \<exists>i \<in> {..<length cs}. i + 3 < length cs \<and> cs ! i = 92 \<and> cs ! (i + 2) = 92)"

definition build_service_check :: "build_service_row \<Rightarrow> bool" where
  "build_service_check s \<longleftrightarrow>
     0 \<le> bs_ordinal s \<and> bs_ordinal s \<le> 1 \<and> bs_kind s \<in> {''static_frontend'', ''application''}
     \<and> bs_node_major s \<in> {22, 24}
     \<and> bs_framework s \<in> {''vite_static'', ''static_export'', ''node_http'', ''nextjs16_standalone''}
     \<and> nullable (\<lambda>r. octets_between 1 1024 r \<and> \<not> root_refused r) (bs_root s)
     \<and> octets_between 1 1024 (bs_lockfile_path s) \<and> octets_between 1 4096 (bs_build_command s)
     \<and> octets_between 1 1024 (bs_output_directory s)
     \<and> (bs_kind s = ''application'' \<longleftrightarrow> bs_start_command s \<noteq> None \<and> bs_health_path s \<noteq> None)"

definition artifact_check :: "artifact_row \<Rightarrow> bool" where
  "artifact_check a \<longleftrightarrow>
     art_kind a \<in> {''static'', ''application''} \<and> digest_column (art_archive_digest a)
     \<and> digest_column (art_manifest_digest a) \<and> 0 \<le> art_packed_bytes a \<and> art_packed_bytes a \<le> 1073741824
     \<and> 0 \<le> art_unpacked_bytes a \<and> art_unpacked_bytes a \<le> 1073741824
     \<and> 0 \<le> art_entry_count a \<and> art_entry_count a \<le> 10000
     \<and> (art_kind a = ''static'' \<and> art_entrypoint_argv a = None
        \<or> art_kind a = ''application'' \<and> (\<exists>argv. art_entrypoint_argv a = Some argv \<and> length argv = 2))"

definition build_effect_check :: "('v \<Rightarrow> bool) \<Rightarrow> 'v build_effect_row \<Rightarrow> bool" where
  "build_effect_check jsonb_ok e \<longleftrightarrow>
     be_state e \<in> {''succeeded'', ''failed'', ''retriable''} \<and> octets_between 1 64 (be_code e)
     \<and> length (be_completion_hash e) = 32 \<and> jsonb_ok (be_response_body e)"

definition meter_check :: "meter_row \<Rightarrow> bool" where
  "meter_check m \<longleftrightarrow>
     mt_reserved_seconds m = 600 \<and> nullable (\<lambda>s. 0 \<le> s \<and> s \<le> 600) (mt_finalized_seconds m)
     \<and> (mt_state m = ''reserved'' \<and> mt_finalized_seconds m = None \<and> mt_debit_event_id m = None \<and> mt_finalized_at m = None
        \<or> mt_state m = ''finalized'' \<and> mt_finalized_seconds m \<noteq> None \<and> mt_finalized_at m \<noteq> None
          \<and> (mt_debit_event_id m \<noteq> None \<or> mt_finalized_seconds m = Some 0)
        \<or> mt_state m = ''released'' \<and> mt_finalized_seconds m = Some 0 \<and> mt_debit_event_id m = None
          \<and> mt_finalized_at m \<noteq> None)"

definition materialization_check :: "materialization_row \<Rightarrow> bool" where
  "materialization_check z \<longleftrightarrow>
     sha40_column (mz_commit_sha z) \<and> sha40_column (mz_tree_sha z) \<and> octets_between 1 64 (mz_materializer_revision z)
     \<and> digest_column (mz_bundle_digest z) \<and> digest_column (mz_tree_manifest_digest z)
     \<and> 0 \<le> mz_entry_count z \<and> mz_entry_count z \<le> 10000 \<and> 0 \<le> mz_total_bytes z \<and> mz_total_bytes z \<le> 67108864
     \<and> mz_state z = ''ready''"

section \<open>Statements\<close>

definition insert_build :: "('v \<Rightarrow> bool) \<Rightarrow> 'v build_row \<Rightarrow> 'v build_db \<Rightarrow> 'v build_db option" where
  "insert_build jsonb_ok j db =
     (let adm = bd_adm db
      in if build_check jsonb_ok j \<and> bj_id j \<notin> bj_id ` set (bd_jobs db)
            \<and> (\<forall>k \<in> set (bd_jobs db). (bj_deployment_id k, bj_input_manifest_digest k)
                  \<noteq> (bj_deployment_id j, bj_input_manifest_digest j))
            \<and> deployment_of adm (bj_account_id j) (bj_project_id j) (bj_deployment_id j) \<noteq> None
            \<and> (\<exists>r \<in> set (ad_reservations adm). res_account_id r = bj_account_id j \<and> res_project_id r = bj_project_id j
                 \<and> res_id r = bj_reservation_id j \<and> res_epoch r = bj_reservation_epoch j)
            \<and> (\<exists>p \<in> set (ad_proofs adm). proof_id p = bj_source_proof_id j \<and> proof_account_id p = bj_account_id j
                 \<and> proof_project_id p = bj_project_id j \<and> proof_deployment_id p = bj_deployment_id j)
            \<and> (\<exists>s \<in> set (g_source_revisions (ad_graph adm)). gsr_account_id s = bj_account_id j
                 \<and> gsr_project_id s = bj_project_id j \<and> gsr_id s = bj_source_revision_id j)
            \<and> (\<exists>c \<in> set (bd_reports db). rpt_account_id c = bj_account_id j \<and> rpt_project_id c = bj_project_id j
                 \<and> rpt_configuration_revision_id c = bj_configuration_revision_id j
                 \<and> rpt_source_revision_id c = bj_source_revision_id j \<and> rpt_id c = bj_compatibility_report_id j)
            \<and> materialization_fk (bd_materializations db) j \<and> active_index_ok (bd_jobs db @ [j])
         then Some (db\<lparr>bd_jobs := bd_jobs db @ [j]\<rparr>) else None)"

definition update_builds ::
  "('v \<Rightarrow> bool) \<Rightarrow> ('v build_row \<Rightarrow> bool) \<Rightarrow> ('v build_row \<Rightarrow> 'v build_row) \<Rightarrow> 'v build_db \<Rightarrow> 'v build_db option" where
  "update_builds jsonb_ok p f db =
     (let js = map (\<lambda>j. if p j then f j else j) (bd_jobs db)
      in if (\<forall>j \<in> set (bd_jobs db). p j \<longrightarrow> build_check jsonb_ok (f j) \<and> materialization_fk (bd_materializations db) (f j))
            \<and> active_index_ok js
         then Some (db\<lparr>bd_jobs := js\<rparr>) else None)"

definition insert_attempt_row :: "build_attempt_row \<Rightarrow> 'v build_db \<Rightarrow> 'v build_db option" where
  "insert_attempt_row a db =
     (if build_attempt_check a \<and> ba_id a \<notin> ba_id ` set (bd_attempts db)
         \<and> (\<forall>b \<in> set (bd_attempts db). ba_job_id b = ba_job_id a \<longrightarrow>
              ba_number b \<noteq> ba_number a \<and> ba_fence b \<noteq> ba_fence a)
         \<and> (\<exists>j \<in> set (bd_jobs db). bj_account_id j = ba_account_id a \<and> bj_project_id j = ba_project_id a
              \<and> bj_id j = ba_job_id a)
      then Some (db\<lparr>bd_attempts := bd_attempts db @ [a]\<rparr>) else None)"

definition update_build_attempts ::
  "(build_attempt_row \<Rightarrow> bool) \<Rightarrow> (build_attempt_row \<Rightarrow> build_attempt_row) \<Rightarrow> 'v build_db \<Rightarrow> 'v build_db option" where
  "update_build_attempts p f db =
     (if \<forall>a \<in> set (bd_attempts db). p a \<longrightarrow> build_attempt_check (f a)
      then Some (db\<lparr>bd_attempts := map (\<lambda>a. if p a then f a else a) (bd_attempts db)\<rparr>) else None)"

definition insert_build_service :: "build_service_row \<Rightarrow> 'v build_db \<Rightarrow> 'v build_db option" where
  "insert_build_service s db =
     (if build_service_check s
         \<and> (\<forall>t \<in> set (bd_services db). bs_job_id t = bs_job_id s \<longrightarrow>
              bs_service_id t \<noteq> bs_service_id s \<and> bs_ordinal t \<noteq> bs_ordinal s \<and> bs_kind t \<noteq> bs_kind s)
         \<and> (\<exists>j \<in> set (bd_jobs db). bj_account_id j = bs_account_id s \<and> bj_project_id j = bs_project_id s \<and> bj_id j = bs_job_id s)
         \<and> (\<exists>c \<in> set (bd_service_configurations db). scf_account_id c = bs_account_id s \<and> scf_project_id c = bs_project_id s
              \<and> scf_configuration_revision_id c = bs_configuration_revision_id s \<and> scf_service_id c = bs_service_id s
              \<and> scf_kind c = bs_kind s)
      then Some (db\<lparr>bd_services := bd_services db @ [s]\<rparr>) else None)"

definition insert_build_secret :: "build_secret_row \<Rightarrow> 'v build_db \<Rightarrow> 'v build_db option" where
  "insert_build_secret r db =
     (if octets_between 1 128 (br_name r) \<and> br_credential_kind r = ''build_environment''
         \<and> (\<forall>t \<in> set (bd_secret_refs db). br_job_id t = br_job_id r \<longrightarrow>
              br_secret_version_id t \<noteq> br_secret_version_id r \<and> (br_service_id t, br_name t) \<noteq> (br_service_id r, br_name r))
         \<and> (\<exists>j \<in> set (bd_jobs db). bj_account_id j = br_account_id r \<and> bj_project_id j = br_project_id r \<and> bj_id j = br_job_id r)
         \<and> (\<exists>s \<in> set (bd_secrets db). secret_in_scope (br_account_id r) (br_project_id r) (br_service_id r) (br_secret_id r) s)
         \<and> (\<exists>v \<in> set (bd_secret_versions db). version_account_id v = br_account_id r \<and> version_project_id v = br_project_id r
              \<and> version_service_id v = br_service_id r \<and> version_secret_id v = br_secret_id r
              \<and> version_id v = br_secret_version_id r)
      then Some (db\<lparr>bd_secret_refs := bd_secret_refs db @ [r]\<rparr>) else None)"

definition attempt_fk :: "'v build_db \<Rightarrow> uuid \<Rightarrow> uuid \<Rightarrow> int \<Rightarrow> bool" where
  "attempt_fk db job aid fence \<longleftrightarrow>
     (\<exists>a \<in> set (bd_attempts db). ba_job_id a = job \<and> ba_id a = aid \<and> ba_fence a = fence)"

definition insert_artifact :: "artifact_row \<Rightarrow> 'v build_db \<Rightarrow> 'v build_db option" where
  "insert_artifact a db =
     (if artifact_check a \<and> art_id a \<notin> art_id ` set (bd_artifacts db)
         \<and> (\<forall>b \<in> set (bd_artifacts db). (art_job_id b, art_kind b) \<noteq> (art_job_id a, art_kind a))
         \<and> (\<exists>t \<in> set (bd_attempts db). ba_account_id t = art_account_id a \<and> ba_project_id t = art_project_id a
              \<and> ba_job_id t = art_job_id a \<and> ba_id t = art_attempt_id a \<and> ba_fence t = art_fence a)
         \<and> (\<exists>s \<in> set (bd_services db). bs_job_id s = art_job_id a \<and> bs_service_id s = art_service_id a)
      then Some (db\<lparr>bd_artifacts := bd_artifacts db @ [a]\<rparr>) else None)"

text \<open>\<open>ON CONFLICT (job_id) DO NOTHING\<close> when \<open>lenient\<close>.\<close>

definition insert_build_effect :: "('v \<Rightarrow> bool) \<Rightarrow> bool \<Rightarrow> 'v build_effect_row \<Rightarrow> 'v build_db \<Rightarrow> 'v build_db option" where
  "insert_build_effect jsonb_ok lenient e db =
     (if \<not> build_effect_check jsonb_ok e then None
      else if be_job_id e \<in> be_job_id ` set (bd_effects db) then if lenient then Some db else None
      else if attempt_fk db (be_job_id e) (be_attempt_id e) (be_fence e)
      then Some (db\<lparr>bd_effects := bd_effects db @ [e]\<rparr>) else None)"

definition insert_build_receipt :: "('v \<Rightarrow> bool) \<Rightarrow> 'v build_receipt_row \<Rightarrow> 'v build_db \<Rightarrow> 'v build_db option" where
  "insert_build_receipt jsonb_ok r db =
     (if length (brc_completion_hash r) = 32 \<and> jsonb_ok (brc_response_body r)
         \<and> brc_attempt_id r \<notin> brc_attempt_id ` set (bd_receipts db)
         \<and> attempt_fk db (brc_job_id r) (brc_attempt_id r) (brc_fence r)
      then Some (db\<lparr>bd_receipts := bd_receipts db @ [r]\<rparr>) else None)"

definition insert_meter :: "meter_row \<Rightarrow> 'v build_db \<Rightarrow> 'v build_db option" where
  "insert_meter m db =
     (if meter_check m \<and> mt_job_id m \<notin> mt_job_id ` set (bd_meters db) \<and> mt_job_id m \<in> bj_id ` set (bd_jobs db)
         \<and> (\<exists>e \<in> set (ad_entitlements (bd_adm db)). ent_id e = mt_entitlement_id m \<and> ent_account_id e = mt_account_id m)
         \<and> deployment_of (bd_adm db) (mt_account_id m) (mt_project_id m) (mt_deployment_id m) \<noteq> None
      then Some (db\<lparr>bd_meters := bd_meters db @ [m]\<rparr>) else None)"

text \<open>The update of a job's reservation while it is \<open>reserved\<close>; a debit finalizes one reservation.\<close>

definition settle_meter ::
  "uuid \<Rightarrow> string \<Rightarrow> int \<Rightarrow> uuid option \<Rightarrow> timestamp \<Rightarrow> 'v build_db \<Rightarrow> 'v build_db option" where
  "settle_meter job state seconds debit now db =
     (let p = (\<lambda>m. mt_job_id m = job \<and> mt_state m = ''reserved'');
          f = (\<lambda>m. m\<lparr>mt_state := state, mt_finalized_seconds := Some seconds, mt_debit_event_id := debit,
                     mt_finalized_at := Some now\<rparr>)
      in if (\<forall>m \<in> set (bd_meters db). p m \<longrightarrow> meter_check (f m))
            \<and> (debit = None \<or> (\<forall>m \<in> set (bd_meters db). mt_debit_event_id m \<noteq> debit)
                 \<and> length (filter p (bd_meters db)) \<le> 1 \<and> (\<exists>u \<in> set (ad_usage (bd_adm db)). Some (use_id u) = debit))
         then Some (db\<lparr>bd_meters := map (\<lambda>m. if p m then f m else m) (bd_meters db)\<rparr>) else None)"

definition insert_debit :: "usage_row \<Rightarrow> 'v build_db \<Rightarrow> 'v build_db option" where
  "insert_debit u db = map_option (\<lambda>adm. db\<lparr>bd_adm := adm\<rparr>) (insert_usage u (bd_adm db))"

definition build_audit :: "audit_row \<Rightarrow> 'v build_db \<Rightarrow> 'v build_db option" where
  "build_audit e db = map_option (\<lambda>adm. db\<lparr>bd_adm := adm\<rparr>) (insert_admission_audit e (bd_adm db))"

text \<open>
  \<open>INSERT INTO source_materializations ... ON CONFLICT (...) DO UPDATE ... RETURNING id\<close>: the row
  inserted or the one that has the key already.
\<close>

definition materialization_key :: "materialization_row \<Rightarrow> uuid \<times> uuid \<times> uuid \<times> string \<times> string \<times> string" where
  "materialization_key z = (mz_deployment_id z, mz_source_revision_id z, mz_configuration_revision_id z, mz_commit_sha z,
     mz_tree_sha z, mz_materializer_revision z)"

definition upsert_materialization :: "materialization_row \<Rightarrow> 'v build_db \<Rightarrow> ('v build_db \<times> uuid) option" where
  "upsert_materialization z db =
     (if \<not> materialization_check z then None
      else case find (\<lambda>y. materialization_key y = materialization_key z) (bd_materializations db) of
             Some y \<Rightarrow> Some (db, mz_id y)
           | None \<Rightarrow>
               if mz_id z \<notin> mz_id ` set (bd_materializations db)
                  \<and> deployment_of (bd_adm db) (mz_account_id z) (mz_project_id z) (mz_deployment_id z) \<noteq> None
                  \<and> (\<exists>s \<in> set (g_source_revisions (ad_graph (bd_adm db))). gsr_account_id s = mz_account_id z
                       \<and> gsr_project_id s = mz_project_id z \<and> gsr_id s = mz_source_revision_id z)
                  \<and> (\<exists>c \<in> set (bd_reports db). rpt_account_id c = mz_account_id z \<and> rpt_project_id c = mz_project_id z
                       \<and> rpt_configuration_revision_id c = mz_configuration_revision_id z
                       \<and> rpt_source_revision_id c = mz_source_revision_id z \<and> rpt_id c = mz_compatibility_report_id z)
               then Some (db\<lparr>bd_materializations := bd_materializations db @ [z]\<rparr>, mz_id z) else None)"

end
