(* ===== verification/Build_Files.thy ===== *)
theory Build_Files
  imports Build_Store
begin

text \<open>
  The files that the build queue of \<^verbatim>\<open>crates/control/src/build_jobs.rs\<close> reads: the approved build
  profiles and the private content store.  The file system is the parameter \<open>host_files\<close>, which
  answers what the operating system reports about a path; JSON documents are parsed by functions of
  \<open>host_files\<close> as well.
\<close>

section \<open>The file system\<close>

record file_metadata =
  md_is_file :: bool
  md_is_dir :: bool
  md_is_symlink :: bool
  md_len :: int
  md_mode :: int

record pinned_file =
  pf_path :: string
  pf_digest :: string

record profile_file =
  prf_schema :: string
  prf_id :: string
  prf_qemu_binary :: string
  prf_qemu_digest :: string
  prf_kernel :: pinned_file
  prf_initrd :: pinned_file
  prf_rootfs :: pinned_file
  prf_dependency_cache :: pinned_file
  prf_mkfs_ext4 :: string
  prf_sudo :: string
  prf_systemd_run :: string
  prf_systemctl :: string

record profile_admissions =
  pad_schema :: string
  pad_cache_miss_source_commits :: "string list"

record build_profile =
  bp_id :: string
  bp_digest :: string

record host_files =
  hf_symlink_metadata :: "string \<Rightarrow> file_metadata option"
  hf_canonicalize :: "string \<Rightarrow> string option"
  hf_read :: "string \<Rightarrow> string option"
  hf_parse_profile :: "string \<Rightarrow> profile_file option"
  hf_parse_admissions :: "string \<Rightarrow> profile_admissions option"

definition join_path :: "string \<Rightarrow> string \<Rightarrow> string" where
  "join_path dir name = dir @ ''/'' @ name"

definition unavailable :: "string \<Rightarrow> string \<Rightarrow> api_error" where
  "unavailable code message = \<lparr>err_status = 503, err_code = code, err_message = message\<rparr>"

section \<open>Digests\<close>

definition DIGEST_BYTES :: nat where "DIGEST_BYTES = 71"

definition hash_text :: "string \<Rightarrow> bool" where
  "hash_text hash \<longleftrightarrow> length hash = 64 \<and> (\<forall>b \<in> set hash. is_ascii_hexdigit b \<and> \<not> is_ascii_uppercase b)"

definition valid_digest :: "string \<Rightarrow> bool" where
  "valid_digest digest \<longleftrightarrow>
     length digest = DIGEST_BYTES
     \<and> (case strip_prefix ''sha256:'' digest of None \<Rightarrow> False | Some hash \<Rightarrow> hash_text hash)"

section \<open>Build profiles\<close>

definition NODE24_PROFILE :: string where "NODE24_PROFILE = ''m3-owned-node24-v1''"
definition NODE22_PROFILE :: string where "NODE22_PROFILE = ''m3-owned-node22-v1''"
definition CACHE_MISS_PROFILE :: string where "CACHE_MISS_PROFILE = ''m3-owned-node24-cache-miss-v1''"

definition profile_allowed :: "string \<Rightarrow> bool" where
  "profile_allowed pid \<longleftrightarrow> pid \<in> {NODE24_PROFILE, NODE22_PROFILE, CACHE_MISS_PROFILE}"

definition owned_file :: "host_files \<Rightarrow> string \<Rightarrow> string \<Rightarrow> int \<Rightarrow> api_error + string" where
  "owned_file hf path parent max_bytes =
     (case hf_symlink_metadata hf path of
        None \<Rightarrow> Inl (unavailable ''build_profile_unavailable'' ''an approved owned-fixture build profile is unavailable'')
      | Some metadata \<Rightarrow>
          if \<not> md_is_file metadata \<or> md_is_symlink metadata \<or> md_len metadata > max_bytes
             \<or> md_mode metadata mod 512 \<notin> {256, 384}
             \<or> hf_canonicalize hf path \<noteq> Some path
             \<or> \<not> (\<exists>name \<in> {drop (length parent + 1) path}. path = join_path parent name \<and> CHR ''/'' \<notin> set name)
          then Inl (unavailable ''build_profile_invalid'' ''an approved owned-fixture build profile is invalid'')
          else ok_or (unavailable ''build_profile_unavailable'' ''an approved owned-fixture build profile is unavailable'')
                 (hf_read hf path))"

definition profile_directory :: "host_files \<Rightarrow> string \<Rightarrow> api_error + string" where
  "profile_directory hf state_dir =
     (let directory = join_path state_dir ''profiles''
      in case hf_symlink_metadata hf directory of
           None \<Rightarrow> Inl (unavailable ''build_profile_unavailable'' ''the owned-fixture profile directory is unavailable'')
         | Some metadata \<Rightarrow>
             if \<not> md_is_dir metadata \<or> md_is_symlink metadata \<or> md_mode metadata mod 64 \<noteq> 0
                \<or> hf_canonicalize hf directory \<noteq> Some directory
             then Inl (unavailable ''build_profile_invalid'' ''the owned-fixture profile directory is invalid'')
             else Inr directory)"

definition malformed_profile :: api_error where
  "malformed_profile = unavailable ''build_profile_invalid'' ''the owned-fixture build profile is malformed''"

definition profile_ok :: "string \<Rightarrow> profile_file \<Rightarrow> bool" where
  "profile_ok pid profile \<longleftrightarrow>
     prf_schema profile = ''hostlet.build-profile/v1'' \<and> prf_id profile = pid \<and> valid_digest (prf_qemu_digest profile)
     \<and> (\<forall>item \<in> {prf_kernel profile, prf_initrd profile, prf_rootfs profile, prf_dependency_cache profile}.
          starts_with ''/'' (pf_path item) \<and> valid_digest (pf_digest item))
     \<and> (\<forall>path \<in> {prf_qemu_binary profile, prf_mkfs_ext4 profile, prf_sudo profile, prf_systemd_run profile,
             prf_systemctl profile}. starts_with ''/'' path)"

definition load_profile :: "host_files \<Rightarrow> (string \<Rightarrow> string) \<Rightarrow> string \<Rightarrow> string \<Rightarrow> api_error + build_profile" where
  "load_profile hf sha256_hex state_dir pid =
     (if \<not> profile_allowed pid
      then Inl (unprocessable ''build_profile_not_admitted'' ''the build profile is not admitted'')
      else case profile_directory hf state_dir of Inl e \<Rightarrow> Inl e | Inr directory \<Rightarrow>
          (case owned_file hf (join_path directory (pid @ ''.json'')) directory 65536 of Inl e \<Rightarrow> Inl e | Inr bytes \<Rightarrow>
             (case hf_parse_profile hf bytes of
                None \<Rightarrow> Inl malformed_profile
              | Some profile \<Rightarrow>
                  if \<not> profile_ok pid profile then Inl malformed_profile
                  else Inr \<lparr>bp_id = pid, bp_digest = ''sha256:'' @ sha256_hex bytes\<rparr>)))"

definition cache_miss_source_admitted :: "host_files \<Rightarrow> string \<Rightarrow> string \<Rightarrow> api_error + bool" where
  "cache_miss_source_admitted hf state_dir commit =
     (case profile_directory hf state_dir of Inl e \<Rightarrow> Inl e | Inr directory \<Rightarrow>
     (case owned_file hf (join_path directory ''admissions.json'') directory 65536 of Inl e \<Rightarrow> Inl e | Inr bytes \<Rightarrow>
        (case hf_parse_admissions hf bytes of
           None \<Rightarrow> Inl (unavailable ''build_profile_invalid'' ''the owned-fixture profile admission file is malformed'')
         | Some admissions \<Rightarrow>
             if pad_schema admissions \<noteq> ''hostlet.build-profile-admissions/v1''
                \<or> length (pad_cache_miss_source_commits admissions) > 32
                \<or> (\<exists>v \<in> set (pad_cache_miss_source_commits admissions).
                     length v \<noteq> 40 \<or> \<not> (\<forall>b \<in> set v. is_ascii_hexdigit b \<and> \<not> is_ascii_uppercase b))
             then Inl (unavailable ''build_profile_invalid'' ''the owned-fixture profile admission file is malformed'')
             else Inr (commit \<in> set (pad_cache_miss_source_commits admissions)))))"

section \<open>The private content store\<close>

definition cas_path :: "string \<Rightarrow> string \<Rightarrow> api_error + string" where
  "cas_path root digest =
     (case strip_prefix ''sha256:'' digest of
        Some hash \<Rightarrow>
          if hash_text hash then Inr (join_path (join_path (join_path root ''private-cas'') ''sha256'') hash)
          else Inl (unprocessable ''invalid_digest'' ''a lowercase sha256 digest is required'')
      | None \<Rightarrow> Inl (unprocessable ''invalid_digest'' ''a lowercase sha256 digest is required''))"

definition cas_missing :: api_error where
  "cas_missing = unavailable ''cas_object_missing'' ''a required private CAS object is unavailable''"

definition cas_invalid :: api_error where
  "cas_invalid = unavailable ''cas_object_invalid'' ''a private CAS object failed verification''"

definition verify_cas_bytes :: "host_files \<Rightarrow> (string \<Rightarrow> string) \<Rightarrow> string \<Rightarrow> string \<Rightarrow> api_error + unit" where
  "verify_cas_bytes hf sha256_hex path digest =
     (case hf_symlink_metadata hf path of
        None \<Rightarrow> Inl cas_missing
      | Some metadata \<Rightarrow>
          if \<not> md_is_file metadata \<or> md_is_symlink metadata \<or> md_mode metadata mod 64 \<noteq> 0 then Inl cas_invalid
          else (case hf_read hf path of
                  None \<Rightarrow> Inl cas_missing
                | Some bytes \<Rightarrow> ensure (''sha256:'' @ sha256_hex bytes = digest) cas_invalid))"

definition verify_cas_digest :: "host_files \<Rightarrow> (string \<Rightarrow> string) \<Rightarrow> string \<Rightarrow> string \<Rightarrow> api_error + unit" where
  "verify_cas_digest hf sha256_hex root digest =
     (case cas_path root digest of Inl e \<Rightarrow> Inl e | Inr path \<Rightarrow> verify_cas_bytes hf sha256_hex path digest)"

definition read_cas_json ::
  "host_files \<Rightarrow> (string \<Rightarrow> string) \<Rightarrow> (string \<Rightarrow> 'm option) \<Rightarrow> string \<Rightarrow> string \<Rightarrow> int \<Rightarrow> api_error + 'm" where
  "read_cas_json hf sha256_hex parse root digest max_bytes =
     (case cas_path root digest of Inl e \<Rightarrow> Inl e | Inr path \<Rightarrow>
     (case verify_cas_bytes hf sha256_hex path digest of Inl e \<Rightarrow> Inl e | Inr _ \<Rightarrow>
     (case hf_symlink_metadata hf path of None \<Rightarrow> Inl cas_missing | Some metadata \<Rightarrow>
        if md_len metadata > max_bytes
        then Inl (unprocessable ''build_result_invalid'' ''a completion manifest exceeds its limit'')
        else (case hf_read hf path of None \<Rightarrow> Inl cas_missing | Some bytes \<Rightarrow>
          ok_or (unprocessable ''build_result_invalid'' ''a completion manifest is malformed'') (parse bytes)))))"

end
