(* ===== verification/Control_Builds.thy ===== *)
theory Control_Builds
  imports Build_Files Source_Bundle
begin

text \<open>
  The owner's side of the build queue of \<^verbatim>\<open>crates/control/src/build_jobs.rs\<close>: enqueueing a build of an
  admitted deployment, reading it and canceling it.  \<open>build_state\<close> is what the handlers read of
  \<open>FoundationState\<close>; the encoders of serde, SHA-256 and the UUID printer are fields of \<open>build_ext\<close>.
  \<open>env_now env 0\<close> is the transaction's timestamp and \<open>env_now env n\<close> a later reading of the clock.
\<close>

section \<open>Requests and responses\<close>

record secret_ref_request =
  srr_service_id :: uuid
  srr_secret_version_id :: uuid

record enqueue_request =
  enq_source_revision_id :: uuid
  enq_compatibility_report_id :: uuid
  enq_source_proof_id :: uuid
  enq_reservation_id :: uuid
  enq_reservation_epoch :: uuid
  enq_build_profile :: string
  enq_secret_version_refs :: "secret_ref_request list"

record build_job_record =
  bjr_id :: uuid
  bjr_project_id :: uuid
  bjr_deployment_id :: uuid
  bjr_source_revision_id :: uuid
  bjr_configuration_revision_id :: uuid
  bjr_compatibility_report_id :: uuid
  bjr_source_commit :: string
  bjr_source_tree_sha :: string
  bjr_build_profile_id :: string
  bjr_build_profile_digest :: string
  bjr_input_manifest_digest :: string
  bjr_state :: string
  bjr_revision :: int
  bjr_attempt_count :: int
  bjr_current_attempt_id :: "uuid option"
  bjr_current_fence :: int
  bjr_lease_expires_at :: "timestamp option"
  bjr_terminal_code :: "string option"
  bjr_cleanup_status :: string
  bjr_created_at :: timestamp
  bjr_updated_at :: timestamp

record artifact_record =
  arr_id :: uuid
  arr_service_id :: uuid
  arr_kind :: string
  arr_archive_digest :: string
  arr_manifest_digest :: string
  arr_packed_bytes :: int
  arr_unpacked_bytes :: int
  arr_entry_count :: int
  arr_entrypoint_argv :: "string list option"
  arr_created_at :: timestamp

record 'v build_detail =
  bdt_build :: build_job_record
  bdt_artifacts :: "artifact_record list"
  bdt_report :: 'v

record build_limits =
  bl_cpu_millis :: int
  bl_memory_bytes :: int
  bl_timeout_seconds :: int
  bl_workspace_bytes :: int
  bl_static_output_bytes :: int
  bl_runtime_output_bytes :: int
  bl_max_entries :: int
  bl_console_bytes :: int
  bl_report_bytes :: int

definition limits :: build_limits where
  "limits = \<lparr>bl_cpu_millis = 2000, bl_memory_bytes = 2147483648, bl_timeout_seconds = 600,
     bl_workspace_bytes = 4294967296, bl_static_output_bytes = 262144000, bl_runtime_output_bytes = 1073741824,
     bl_max_entries = 10000, bl_console_bytes = 4194304, bl_report_bytes = 1048576\<rparr>"

record service_lease =
  sl_service_id :: uuid
  sl_kind :: string
  sl_root :: string
  sl_node_major :: int
  sl_framework :: string
  sl_lockfile_path :: string
  sl_build_command :: string
  sl_output_directory :: string
  sl_start_command :: "string option"
  sl_health_path :: "string option"

record secret_lease =
  sec_service_id :: uuid
  sec_secret_version_id :: uuid
  sec_name :: string

text \<open>The document that the input digest of a build covers.\<close>

record input_manifest =
  im_execution_id :: uuid
  im_source_revision_id :: uuid
  im_configuration_revision_id :: uuid
  im_compatibility_report_id :: uuid
  im_source_commit :: string
  im_source_tree_sha :: string
  im_profile :: build_profile
  im_services :: "service_lease list"
  im_secret_version_refs :: "secret_lease list"
  im_limits :: build_limits

definition RESERVED_SECONDS :: int where "RESERVED_SECONDS = 600"
definition MAX_SECRETS :: nat where "MAX_SECRETS = 128"
definition MAX_ARTIFACTS :: nat where "MAX_ARTIFACTS = 2"
definition MATERIALIZER_REVISION :: string where "MATERIALIZER_REVISION = ''hostlet.source-bundle/hbs1''"
definition SOURCE_REJECTION_COMPLETION_SECONDS :: int where "SOURCE_REJECTION_COMPLETION_SECONDS = 30"

section \<open>State and parameters\<close>

text \<open>
  \<open>bst_enabled\<close> says whether owned-fixture execution is configured, \<open>bst_policy_now\<close> is the answer of
  the policy clock, which has a transaction of its own.
\<close>

record build_state =
  bst_enabled :: bool
  bst_state_dir :: string
  bst_files :: host_files
  bst_policy_now :: "api_error + timestamp"
  bst_worker_lease_seconds :: int

record 'v build_ext =
  bx_parse_uuid :: "string \<Rightarrow> uuid option"
  bx_show_uuid :: "uuid \<Rightarrow> string"
  bx_uuid_bytes :: "uuid \<Rightarrow> string"
  bx_sha256 :: "string \<Rightarrow> string"
  bx_sha256_hex :: "string \<Rightarrow> string"
  bx_enqueue_bytes :: "enqueue_request \<Rightarrow> string option"
  bx_cancel_bytes :: "unit \<Rightarrow> string option"
  bx_manifest_value :: "input_manifest \<Rightarrow> 'v"
  bx_manifest_bytes :: "input_manifest \<Rightarrow> string option"
  bx_spec_from_value :: "'v \<Rightarrow> standard_project_spec option"
  bx_build_to_value :: "build_job_record \<Rightarrow> 'v option"
  bx_build_from_value :: "'v \<Rightarrow> build_job_record option"
  bx_json_value :: "json \<Rightarrow> 'v"
  bx_jsonb_ok :: "'v \<Rightarrow> bool"

definition require_enabled :: "build_state \<Rightarrow> api_error + unit" where
  "require_enabled st = ensure (bst_enabled st)
     (unavailable ''internal_execution_disabled'' ''owned-fixture execution is not configured'')"

definition lease_seconds :: "build_state \<Rightarrow> int" where
  "lease_seconds st = max 5 (min 300 (bst_worker_lease_seconds st))"

definition build_account :: "'v build_ext \<Rightarrow> authenticated \<Rightarrow> api_error + uuid" where
  "build_account ext auth = ok_or internal (bx_parse_uuid ext (auth_account_id auth))"

section \<open>Reading builds\<close>

definition build_record :: "'v build_row \<Rightarrow> build_job_record" where
  "build_record j =
     \<lparr>bjr_id = bj_id j, bjr_project_id = bj_project_id j, bjr_deployment_id = bj_deployment_id j,
      bjr_source_revision_id = bj_source_revision_id j, bjr_configuration_revision_id = bj_configuration_revision_id j,
      bjr_compatibility_report_id = bj_compatibility_report_id j, bjr_source_commit = bj_source_commit j,
      bjr_source_tree_sha = bj_source_tree_sha j, bjr_build_profile_id = bj_profile_id j,
      bjr_build_profile_digest = bj_profile_digest j, bjr_input_manifest_digest = bj_input_manifest_digest j,
      bjr_state = bj_state j, bjr_revision = bj_revision j, bjr_attempt_count = bj_attempt_count j,
      bjr_current_attempt_id = bj_current_attempt_id j, bjr_current_fence = bj_current_fence j,
      bjr_lease_expires_at = bj_lease_expires_at j, bjr_terminal_code = bj_terminal_code j,
      bjr_cleanup_status = bj_cleanup_status j, bjr_created_at = bj_created_at j, bjr_updated_at = bj_updated_at j\<rparr>"

definition load_build :: "uuid \<Rightarrow> uuid \<Rightarrow> uuid \<Rightarrow> 'v build_db \<Rightarrow> build_job_record option" where
  "load_build account project job db =
     map_option build_record
       (find (\<lambda>j. bj_account_id j = account \<and> bj_project_id j = project \<and> bj_id j = job) (bd_jobs db))"

definition artifact_record_of :: "artifact_row \<Rightarrow> artifact_record" where
  "artifact_record_of a =
     \<lparr>arr_id = art_id a, arr_service_id = art_service_id a, arr_kind = art_kind a,
      arr_archive_digest = art_archive_digest a, arr_manifest_digest = art_manifest_digest a,
      arr_packed_bytes = art_packed_bytes a, arr_unpacked_bytes = art_unpacked_bytes a,
      arr_entry_count = art_entry_count a, arr_entrypoint_argv = art_entrypoint_argv a,
      arr_created_at = art_created_at a\<rparr>"

definition load_artifacts :: "uuid \<Rightarrow> 'v build_db \<Rightarrow> artifact_record list" where
  "load_artifacts job db =
     map artifact_record_of (sort_key art_kind (filter (\<lambda>a. art_job_id a = job) (bd_artifacts db)))"

definition get_build ::
  "build_state \<Rightarrow> 'v build_ext \<Rightarrow> authenticated \<Rightarrow> string \<Rightarrow> string \<Rightarrow> 'v build_db \<Rightarrow> api_error + 'v build_detail" where
  "get_build st ext auth project_path job_path db =
     (case require_enabled st of Inl e \<Rightarrow> Inl e | Inr _ \<Rightarrow>
     (case build_account ext auth of Inl e \<Rightarrow> Inl e | Inr account \<Rightarrow>
     (case path_uuid (bx_parse_uuid ext) project_path of Inl e \<Rightarrow> Inl e | Inr project \<Rightarrow>
     (case path_uuid (bx_parse_uuid ext) job_path of Inl e \<Rightarrow> Inl e | Inr job \<Rightarrow>
     (case load_build account project job db of
        None \<Rightarrow> Inl not_found
      | Some build \<Rightarrow>
          Inr \<lparr>bdt_build = build, bdt_artifacts = load_artifacts job db,
               bdt_report = (case find (\<lambda>e. be_job_id e = job) (bd_effects db) of
                               Some e \<Rightarrow> be_response_body e | None \<Rightarrow> bx_json_value ext (JObject []))\<rparr>)))))"

section \<open>Checking an enqueue request\<close>

definition validate_enqueue :: "enqueue_request \<Rightarrow> api_error + unit" where
  "validate_enqueue request =
     ensure (profile_allowed (enq_build_profile request) \<and> length (enq_secret_version_refs request) \<le> MAX_SECRETS
             \<and> distinct (map srr_secret_version_id (enq_secret_version_refs request)))
       (unprocessable ''invalid_build_request'' ''the build profile or secret references are invalid'')"

text \<open>The rows that the request names, joined under the caller's project and deployment.\<close>

record 'v enqueue_context =
  ec_project :: project_row
  ec_deployment :: deployment_row
  ec_source :: source_revision_row
  ec_source_tree_sha :: "string option"
  ec_report :: "'v report_row"
  ec_proof :: proof_row
  ec_reservation :: reservation_row
  ec_entitlement :: entitlement_row

definition load_context ::
  "uuid \<Rightarrow> uuid \<Rightarrow> uuid \<Rightarrow> enqueue_request \<Rightarrow> 'v build_db \<Rightarrow> 'v enqueue_context option" where
  "load_context account project deployment request db =
     (let adm = bd_adm db; g = ad_graph adm
      in Option.bind (find (\<lambda>p. prow_account_id p = account \<and> prow_id p = project) (g_projects g)) (\<lambda>p.
         Option.bind (deployment_of adm account project deployment) (\<lambda>d.
         Option.bind (find (\<lambda>s. gsr_account_id s = account \<and> gsr_project_id s = project
                             \<and> gsr_id s = enq_source_revision_id request) (g_source_revisions g)) (\<lambda>s.
         Option.bind (find (\<lambda>c. rpt_account_id c = account \<and> rpt_project_id c = project
                             \<and> rpt_id c = enq_compatibility_report_id request) (bd_reports db)) (\<lambda>c.
         Option.bind (find (\<lambda>q. proof_account_id q = account \<and> proof_project_id q = project
                             \<and> proof_deployment_id q = deployment \<and> proof_id q = enq_source_proof_id request) (ad_proofs adm)) (\<lambda>q.
         Option.bind (find (\<lambda>r. res_account_id r = account \<and> res_project_id r = project
                             \<and> res_id r = enq_reservation_id request) (ad_reservations adm)) (\<lambda>r.
         Option.bind (find (\<lambda>e. ent_id e = res_entitlement_id r \<and> ent_account_id e = account) (ad_entitlements adm)) (\<lambda>e.
         Some \<lparr>ec_project = p, ec_deployment = d, ec_source = s, ec_source_tree_sha = bd_tree_sha db (gsr_id s),
           ec_report = c, ec_proof = q, ec_reservation = r, ec_entitlement = e\<rparr>))))))))"

definition check_source :: "timestamp \<Rightarrow> enqueue_request \<Rightarrow> 'v enqueue_context \<Rightarrow> api_error + unit" where
  "check_source now request c =
     (let configuration = drow_configuration_revision_id (ec_deployment c);
          commit = drow_source_commit (ec_deployment c)
      in ensure (prow_current_configuration (ec_project c) = Some configuration
            \<and> gsr_configuration_revision_id (ec_source c) = configuration
            \<and> rpt_configuration_revision_id (ec_report c) = configuration
            \<and> proof_configuration_revision_id (ec_proof c) = configuration
            \<and> rpt_source_revision_id (ec_report c) = enq_source_revision_id request
            \<and> commit = gsr_commit_sha (ec_source c) \<and> commit = proof_source_commit (ec_proof c)
            \<and> rpt_analyzer_revision (ec_report c) = ANALYZER_REVISION \<and> rpt_status (ec_report c) = ''candidate''
            \<and> proof_state (ec_proof c) = ''valid'' \<and> proof_expires_at (ec_proof c) > now)
          (conflict ''build_source_stale''
             ''the current source, compatibility report, and admission proof must match exactly''))"

definition check_reservation ::
  "timestamp \<Rightarrow> uuid \<Rightarrow> uuid \<Rightarrow> uuid \<Rightarrow> enqueue_request \<Rightarrow> 'v enqueue_context \<Rightarrow> 'v build_db \<Rightarrow> api_error + unit" where
  "check_reservation now account project deployment request c db =
     also_ensure
       (ensure (enq_reservation_epoch request = res_epoch (ec_reservation c)
            \<and> res_state (ec_reservation c) \<in> {''reserved'', ''resources_retained''}
            \<and> ent_state (ec_entitlement c) = ''active'' \<and> ent_period_starts_at (ec_entitlement c) \<le> now
            \<and> ent_period_ends_at (ec_entitlement c) > now
            \<and> drow_lifecycle (ec_deployment c) \<in> {''queued'', ''admission_required''})
          (conflict ''build_admission_invalid'' ''an active admitted reservation generation is required''))
       (ensure (res_first_deployment_id (ec_reservation c) = deployment
            \<or> (\<exists>h \<in> set (ad_holds (bd_adm db)). hold_account_id h = account \<and> hold_project_id h = project
                 \<and> hold_deployment_id h = deployment \<and> hold_reservation_id h = Some (enq_reservation_id request)
                 \<and> hold_reservation_epoch h = Some (enq_reservation_epoch request) \<and> hold_kind h = ''rollout''
                 \<and> hold_state h = ''consumed''))
          (conflict ''build_admission_invalid'' ''a consumed rollout hold is required for this deployment''))"

text \<open>What an entitlement has used: its debits less its credits, and the open reservations.\<close>

definition debited_seconds :: "uuid \<Rightarrow> usage_row list \<Rightarrow> int" where
  "debited_seconds entitlement events =
     sum_list (map (\<lambda>u. if use_kind u = ''debit'' then use_seconds u else - use_seconds u)
       (filter (\<lambda>u. use_entitlement_id u = entitlement) events))"

definition reserved_seconds :: "uuid \<Rightarrow> meter_row list \<Rightarrow> int" where
  "reserved_seconds entitlement meters =
     sum_list (map mt_reserved_seconds
       (filter (\<lambda>m. mt_entitlement_id m = entitlement \<and> mt_state m = ''reserved'') meters))"

definition used_seconds :: "uuid \<Rightarrow> 'v build_db \<Rightarrow> int" where
  "used_seconds entitlement db =
     debited_seconds entitlement (ad_usage (bd_adm db)) + reserved_seconds entitlement (bd_meters db)"

definition check_allowance :: "entitlement_row \<Rightarrow> 'v build_db \<Rightarrow> api_error + unit" where
  "check_allowance e db =
     ensure (used_seconds (ent_id e) db + RESERVED_SECONDS \<le> ent_build_seconds_limit e)
       (conflict ''build_allowance_exhausted'' ''the admitted build allowance cannot reserve this build'')"

section \<open>The services and secrets of a build\<close>

definition build_graph_error :: "string \<Rightarrow> api_error" where
  "build_graph_error message = unprocessable ''unsupported_build_graph'' message"

text \<open>Kind and framework of a service that is built; \<open>Inr None\<close> is the database, which is not.\<close>

definition build_pattern :: "service_spec \<Rightarrow> api_error + (string \<times> string) option" where
  "build_pattern service =
     (case (svc_kind service, svc_framework service) of
        (StaticFrontend, ViteStatic) \<Rightarrow> Inr (Some (''static_frontend'', ''vite_static''))
      | (StaticFrontend, StaticExport) \<Rightarrow> Inr (Some (''static_frontend'', ''static_export''))
      | (Application, NodeHttp) \<Rightarrow> Inr (Some (''application'', ''node_http''))
      | (Application, Nextjs16Standalone) \<Rightarrow> Inr (Some (''application'', ''nextjs16_standalone''))
      | (Postgres, Postgresql18) \<Rightarrow> Inr None
      | _ \<Rightarrow> Inl (build_graph_error ''the admitted service graph is outside the owned build profile''))"

definition start_and_health :: "string \<Rightarrow> service_spec \<Rightarrow> api_error + string option \<times> string option" where
  "start_and_health kind service =
     (if kind = ''application''
      then (case svc_start_command service of
              None \<Rightarrow> Inl (build_graph_error ''application service requires a start command'')
            | Some start \<Rightarrow>
                (case svc_health_check service of
                   None \<Rightarrow> Inl (build_graph_error ''application service requires an HTTP health path'')
                 | Some h \<Rightarrow> Inr (Some start, Some (hc_path h))))
      else Inr (None, None))"

definition snapshot_service ::
  "(string \<rightharpoonup> uuid) \<Rightarrow> string \<Rightarrow> service_spec \<Rightarrow> string \<Rightarrow> string \<Rightarrow> api_error + service_lease" where
  "snapshot_service by_kind lockfile service kind framework =
     (case by_kind kind of
        None \<Rightarrow> Inl (conflict ''build_configuration_stale'' ''the saved service graph does not match its configuration'')
      | Some service_id \<Rightarrow>
     (case svc_node service of
        None \<Rightarrow> Inl (unprocessable ''unsupported_node_version'' ''the owned build profile supports Node 22 or 24'')
      | Some node \<Rightarrow>
          if node_major node \<notin> {22, 24}
          then Inl (unprocessable ''unsupported_node_version'' ''the owned build profile supports Node 22 or 24'')
          else (case svc_build_command service of
             None \<Rightarrow> Inl (build_graph_error ''each build service requires an explicit build command'')
           | Some build_command \<Rightarrow>
          (case svc_output_directory service of
             None \<Rightarrow> Inl (build_graph_error ''each build service requires an explicit output directory'')
           | Some output_directory \<Rightarrow>
          (case start_and_health kind service of Inl e \<Rightarrow> Inl e | Inr (start_command, health_path) \<Rightarrow>
             Inr \<lparr>sl_service_id = service_id, sl_kind = kind,
                  sl_root = (case svc_root service of Some r \<Rightarrow> r | None \<Rightarrow> ''.''),
                  sl_node_major = uint (node_major node), sl_framework = framework, sl_lockfile_path = lockfile,
                  sl_build_command = build_command, sl_output_directory = output_directory,
                  sl_start_command = start_command, sl_health_path = health_path\<rparr>)))))"

fun snapshot_loop ::
  "(string \<rightharpoonup> uuid) \<Rightarrow> string \<Rightarrow> service_spec list \<Rightarrow> service_lease list \<Rightarrow> api_error + service_lease list" where
  "snapshot_loop by_kind lockfile [] out = Inr out"
| "snapshot_loop by_kind lockfile (service # services) out =
     (case build_pattern service of
        Inl e \<Rightarrow> Inl e
      | Inr None \<Rightarrow> snapshot_loop by_kind lockfile services out
      | Inr (Some (kind, framework)) \<Rightarrow>
          (case snapshot_service by_kind lockfile service kind framework of
             Inl e \<Rightarrow> Inl e
           | Inr s \<Rightarrow> snapshot_loop by_kind lockfile services (out @ [s])))"

text \<open>The saved services by kind; collecting into a map keeps the last row of a kind.\<close>

definition services_by_kind :: "uuid \<Rightarrow> uuid \<Rightarrow> uuid \<Rightarrow> 'v build_db \<Rightarrow> string \<rightharpoonup> uuid" where
  "services_by_kind account project configuration db =
     map_of (rev (map (\<lambda>c. (scf_kind c, scf_service_id c))
       (filter (\<lambda>c. scf_account_id c = account \<and> scf_project_id c = project
                  \<and> scf_configuration_revision_id c = configuration) (bd_service_configurations db))))"

definition snapshot_services ::
  "uuid \<Rightarrow> uuid \<Rightarrow> uuid \<Rightarrow> standard_project_spec \<Rightarrow> 'v build_db \<Rightarrow> api_error + service_lease list" where
  "snapshot_services account project configuration spec db =
     (case spec_repositories spec of
        [] \<Rightarrow> Inl (build_graph_error ''a declared lockfile is required'')
      | repository # _ \<Rightarrow>
          (case repo_lockfile_path repository of
             None \<Rightarrow> Inl (build_graph_error ''a declared lockfile is required'')
           | Some lockfile \<Rightarrow>
               (case snapshot_loop (services_by_kind account project configuration db) lockfile (spec_services spec) [] of
                  Inl e \<Rightarrow> Inl e
                | Inr out \<Rightarrow>
                    if out = [] \<or> length out > 2
                    then Inl (build_graph_error ''one or two build services are required'')
                    else Inr (sort_key (\<lambda>s. if sl_kind s = ''static_frontend'' then 0 else 1 :: nat) out))))"

definition derive_profile_id ::
  "build_state \<Rightarrow> service_lease list \<Rightarrow> string \<Rightarrow> string \<Rightarrow> api_error + string" where
  "derive_profile_id st services source_commit requested =
     (let all22 = list_all (\<lambda>s. sl_node_major s = 22) services; all24 = list_all (\<lambda>s. sl_node_major s = 24) services
      in if \<not> all22 \<and> \<not> all24
         then Inl (unprocessable ''unsupported_node_mix'' ''one build cannot mix Node major versions'')
         else if all22 then Inr NODE22_PROFILE
         else if requested = CACHE_MISS_PROFILE
         then (case cache_miss_source_admitted (bst_files st) (bst_state_dir st) source_commit of
                 Inl e \<Rightarrow> Inl e
               | Inr admitted \<Rightarrow> Inr (if admitted then CACHE_MISS_PROFILE else NODE24_PROFILE))
         else Inr NODE24_PROFILE)"

definition secret_scope_invalid :: "string \<Rightarrow> api_error" where
  "secret_scope_invalid message = unprocessable ''build_secret_scope_invalid'' message"

definition snapshot_secret :: "uuid \<Rightarrow> uuid \<Rightarrow> secret_ref_request \<Rightarrow> 'v build_db \<Rightarrow> api_error + secret_lease" where
  "snapshot_secret account project reference db =
     (case find (\<lambda>(s, v). version_account_id v = secret_account_id s \<and> version_project_id v = secret_project_id s
              \<and> version_service_id v = secret_service_id s \<and> version_secret_id v = secret_id s
              \<and> secret_account_id s = account \<and> secret_project_id s = project
              \<and> secret_service_id s = srr_service_id reference \<and> version_id v = srr_secret_version_id reference
              \<and> secret_operation s = ''build'')
            (List.product (bd_secrets db) (bd_secret_versions db)) of
        None \<Rightarrow> Inl (secret_scope_invalid ''a secret version is not available in the build scope'')
      | Some (s, v) \<Rightarrow>
          if secret_credential_kind s \<noteq> ''build_environment'' \<or> secret_status s \<noteq> ''active''
          then Inl (unprocessable ''build_credential_kind_denied''
                      ''only active build_environment credentials may enter the guest'')
          else Inr \<lparr>sec_service_id = secret_service_id s, sec_secret_version_id = version_id v, sec_name = secret_name s\<rparr>)"

fun secret_loop ::
  "uuid \<Rightarrow> uuid \<Rightarrow> uuid set \<Rightarrow> secret_ref_request list \<Rightarrow> 'v build_db \<Rightarrow> secret_lease list
     \<Rightarrow> api_error + secret_lease list" where
  "secret_loop account project allowed [] db out = Inr out"
| "secret_loop account project allowed (reference # refs) db out =
     (if srr_service_id reference \<notin> allowed
      then Inl (secret_scope_invalid ''build environment references must belong to a build service'')
      else case snapshot_secret account project reference db of
             Inl e \<Rightarrow> Inl e
           | Inr s \<Rightarrow> secret_loop account project allowed refs db (out @ [s]))"

text \<open>\<open>windows(2)\<close> over the sorted list finds an environment name bound twice for a service.\<close>

fun bound_twice :: "secret_lease list \<Rightarrow> bool" where
  "bound_twice (a # b # rest) \<longleftrightarrow>
     (sec_service_id a = sec_service_id b \<and> sec_name a = sec_name b) \<or> bound_twice (b # rest)"
| "bound_twice _ \<longleftrightarrow> False"

definition secret_order :: "secret_lease \<Rightarrow> uuid \<times> string \<times> uuid" where
  "secret_order s = (sec_service_id s, sec_name s, sec_secret_version_id s)"

definition validate_secret_refs ::
  "uuid \<Rightarrow> uuid \<Rightarrow> secret_ref_request list \<Rightarrow> service_lease list \<Rightarrow> 'v build_db \<Rightarrow> api_error + secret_lease list" where
  "validate_secret_refs account project refs services db =
     (case secret_loop account project (set (map sl_service_id services)) refs db [] of
        Inl e \<Rightarrow> Inl e
      | Inr out \<Rightarrow>
          let sorted_out = sort_key secret_order out
          in if bound_twice sorted_out
             then Inl (secret_scope_invalid ''a build environment name may be bound once per service'')
             else Inr sorted_out)"

section \<open>Storing a build\<close>

definition service_row_of :: "uuid \<Rightarrow> uuid \<Rightarrow> uuid \<Rightarrow> uuid \<Rightarrow> int \<Rightarrow> service_lease \<Rightarrow> build_service_row" where
  "service_row_of job account project configuration ordinal s =
     \<lparr>bs_job_id = job, bs_account_id = account, bs_project_id = project, bs_configuration_revision_id = configuration,
      bs_service_id = sl_service_id s, bs_ordinal = ordinal, bs_kind = sl_kind s, bs_root = Some (sl_root s),
      bs_node_major = sl_node_major s, bs_framework = sl_framework s, bs_lockfile_path = sl_lockfile_path s,
      bs_build_command = sl_build_command s, bs_output_directory = sl_output_directory s,
      bs_start_command = sl_start_command s, bs_health_path = sl_health_path s\<rparr>"

fun insert_service_snapshots ::
  "uuid \<Rightarrow> uuid \<Rightarrow> uuid \<Rightarrow> uuid \<Rightarrow> int \<Rightarrow> service_lease list \<Rightarrow> 'v build_db \<Rightarrow> 'v build_db option" where
  "insert_service_snapshots job account project configuration ordinal [] db = Some db"
| "insert_service_snapshots job account project configuration ordinal (s # services) db =
     Option.bind (insert_build_service (service_row_of job account project configuration ordinal s) db)
       (insert_service_snapshots job account project configuration (ordinal + 1) services)"

fun insert_secret_snapshots ::
  "uuid \<Rightarrow> uuid \<Rightarrow> uuid \<Rightarrow> secret_lease list \<Rightarrow> 'v build_db \<Rightarrow> 'v build_db option" where
  "insert_secret_snapshots job account project [] db = Some db"
| "insert_secret_snapshots job account project (s # secrets) db =
     Option.bind (find (\<lambda>v. version_account_id v = account \<and> version_project_id v = project
                          \<and> version_service_id v = sec_service_id s \<and> version_id v = sec_secret_version_id s)
                    (bd_secret_versions db)) (\<lambda>v.
     Option.bind (insert_build_secret
                    \<lparr>br_job_id = job, br_account_id = account, br_project_id = project,
                     br_service_id = sec_service_id s, br_secret_id = version_secret_id v,
                     br_secret_version_id = sec_secret_version_id s, br_name = sec_name s,
                     br_credential_kind = ''build_environment''\<rparr> db)
       (insert_secret_snapshots job account project secrets))"

definition new_build ::
  "tx_env \<Rightarrow> 'v build_ext \<Rightarrow> uuid \<Rightarrow> uuid \<Rightarrow> uuid \<Rightarrow> enqueue_request \<Rightarrow> input_manifest \<Rightarrow> string \<Rightarrow> 'v build_row" where
  "new_build env ext account project deployment request manifest digest =
     \<lparr>bj_id = im_execution_id manifest, bj_account_id = account, bj_project_id = project, bj_deployment_id = deployment,
      bj_reservation_id = enq_reservation_id request, bj_reservation_epoch = enq_reservation_epoch request,
      bj_source_proof_id = enq_source_proof_id request, bj_source_revision_id = enq_source_revision_id request,
      bj_compatibility_report_id = enq_compatibility_report_id request,
      bj_configuration_revision_id = im_configuration_revision_id manifest,
      bj_source_commit = im_source_commit manifest, bj_source_tree_sha = im_source_tree_sha manifest,
      bj_profile_id = bp_id (im_profile manifest), bj_profile_digest = bp_digest (im_profile manifest),
      bj_materialization_id = None, bj_bundle_digest = None, bj_tree_manifest_digest = None,
      bj_input_manifest = bx_manifest_value ext manifest, bj_input_manifest_digest = digest, bj_state = ''queued'',
      bj_revision = 1, bj_attempt_count = 0, bj_max_attempts = 3, bj_current_attempt_id = None, bj_current_fence = 0,
      bj_lease_expires_at = None, bj_terminal_code = None, bj_cleanup_status = ''not_started'',
      bj_created_at = env_now env 0, bj_updated_at = env_now env 0\<rparr>"

definition new_meter :: "uuid \<Rightarrow> uuid \<Rightarrow> uuid \<Rightarrow> uuid \<Rightarrow> uuid \<Rightarrow> meter_row" where
  "new_meter job account project deployment entitlement =
     \<lparr>mt_job_id = job, mt_account_id = account, mt_project_id = project, mt_deployment_id = deployment,
      mt_entitlement_id = entitlement, mt_reserved_seconds = RESERVED_SECONDS, mt_finalized_seconds = None,
      mt_state = ''reserved'', mt_debit_event_id = None, mt_finalized_at = None\<rparr>"

definition store_build_response ::
  "'v build_ext \<Rightarrow> uuid \<Rightarrow> string \<Rightarrow> string \<Rightarrow> string \<Rightarrow> int \<Rightarrow> build_job_record \<Rightarrow> 'v build_db
     \<Rightarrow> api_error + 'v build_db" where
  "store_build_response ext account operation key hash status response db =
     (case store_replay (bx_build_to_value ext) (ad_idempotency (bd_adm db)) account operation key hash status response of
        Inl e \<Rightarrow> Inl e
      | Inr records \<Rightarrow> Inr (db\<lparr>bd_adm := (bd_adm db)\<lparr>ad_idempotency := records\<rparr>\<rparr>))"

definition owner_audit :: "uuid \<Rightarrow> uuid \<Rightarrow> uuid \<Rightarrow> string \<Rightarrow> uuid \<Rightarrow> audit_row" where
  "owner_audit event account session event_type job =
     \<lparr>audit_row_id = event, audit_account_id = account, audit_actor_account_id = Some account,
      audit_session_id = Some session, audit_event_type = event_type, audit_target_type = ''build_job'',
      audit_target_id = Some job, audit_outcome = ''succeeded'', audit_worker = None\<rparr>"

text \<open>The inserts of a new build and what its owner is told.\<close>

definition store_new_build ::
  "'v build_ext \<Rightarrow> tx_env \<Rightarrow> authenticated \<Rightarrow> uuid \<Rightarrow> uuid \<Rightarrow> uuid \<Rightarrow> enqueue_request \<Rightarrow> input_manifest \<Rightarrow> string \<Rightarrow> uuid
     \<Rightarrow> string \<Rightarrow> string \<Rightarrow> string \<Rightarrow> 'v build_db \<Rightarrow> ('v build_db, int \<times> build_job_record) txn" where
  "store_new_build ext env auth account project deployment request manifest digest entitlement operation key hash db =
     (let job = im_execution_id manifest
      in sql (insert_build (bx_jsonb_ok ext) (new_build env ext account project deployment request manifest digest) db) (\<lambda>db1.
         sql (insert_service_snapshots job account project (im_configuration_revision_id manifest) 0 (im_services manifest) db1) (\<lambda>db2.
         sql (insert_secret_snapshots job account project (im_secret_version_refs manifest) db2) (\<lambda>db3.
         sql (insert_meter (new_meter job account project deployment entitlement) db3) (\<lambda>db4.
         attempt (ok_or internal (load_build account project job db4)) (\<lambda>build.
         sql (build_audit (owner_audit (env_fresh env 1) account (auth_session_id auth) ''m3.build.enqueue'' job) db4) (\<lambda>db5.
         attempt (store_build_response ext account operation key hash 201 build db5) (\<lambda>db6.
         Committed db6 (Inr (201, build))))))))))"

definition enqueue_admitted ::
  "build_state \<Rightarrow> 'v build_ext \<Rightarrow> tx_env \<Rightarrow> authenticated \<Rightarrow> uuid \<Rightarrow> uuid \<Rightarrow> uuid \<Rightarrow> enqueue_request \<Rightarrow> 'v enqueue_context
     \<Rightarrow> string \<Rightarrow> string \<Rightarrow> string \<Rightarrow> string \<Rightarrow> 'v build_db \<Rightarrow> ('v build_db, int \<times> build_job_record) txn" where
  "enqueue_admitted st ext env auth account project deployment request c source_tree operation key hash db =
     (let configuration = drow_configuration_revision_id (ec_deployment c);
          commit = drow_source_commit (ec_deployment c)
      in attempt (ok_or database_unavailable (find (\<lambda>f. cfg_account_id f = account \<and> cfg_project_id f = project
                    \<and> cfg_id f = configuration) (bd_configurations db))) (\<lambda>row.
         attempt (ok_or internal (bx_spec_from_value ext (cfg_spec row))) (\<lambda>spec.
         attempt (snapshot_services account project configuration spec db) (\<lambda>services.
         attempt (derive_profile_id st services commit (enq_build_profile request)) (\<lambda>derived.
         attempt (ensure (enq_build_profile request = derived)
                    (unprocessable ''build_profile_not_admitted''
                       ''the owned-fixture source and service graph require a different build profile'')) (\<lambda>_.
         attempt (load_profile (bst_files st) (bx_sha256_hex ext) (bst_state_dir st) derived) (\<lambda>profile.
         attempt (validate_secret_refs account project (enq_secret_version_refs request) services db) (\<lambda>secrets.
         let manifest = \<lparr>im_execution_id = env_fresh env 0, im_source_revision_id = enq_source_revision_id request,
               im_configuration_revision_id = configuration, im_compatibility_report_id = enq_compatibility_report_id request,
               im_source_commit = commit, im_source_tree_sha = source_tree, im_profile = profile, im_services = services,
               im_secret_version_refs = secrets, im_limits = limits\<rparr>
         in attempt (ok_or internal (bx_manifest_bytes ext manifest)) (\<lambda>bytes.
            let digest = ''sha256:'' @ bx_sha256_hex ext bytes
            in case find (\<lambda>j. bj_deployment_id j = deployment \<and> bj_input_manifest_digest j = digest) (bd_jobs db) of
                 Some existing \<Rightarrow>
                   attempt (ok_or internal (load_build account project (bj_id existing) db)) (\<lambda>build.
                   attempt (store_build_response ext account operation key hash 200 build db) (\<lambda>db1.
                   Committed db1 (Inr (200, build))))
               | None \<Rightarrow>
                   store_new_build ext env auth account project deployment request manifest digest
                     (ent_id (ec_entitlement c)) operation key hash db)))))))))"

definition enqueue_new ::
  "build_state \<Rightarrow> 'v build_ext \<Rightarrow> tx_env \<Rightarrow> authenticated \<Rightarrow> uuid \<Rightarrow> uuid \<Rightarrow> uuid \<Rightarrow> int \<Rightarrow> enqueue_request
     \<Rightarrow> string \<Rightarrow> string \<Rightarrow> string \<Rightarrow> 'v build_db \<Rightarrow> ('v build_db, int \<times> build_job_record) txn" where
  "enqueue_new st ext env auth account project deployment wanted request operation key hash db =
     attempt (ensure (account \<in> set (g_accounts (ad_graph (bd_adm db)))) not_found) (\<lambda>_.
     attempt (ok_or not_found (load_context account project deployment request db)) (\<lambda>c.
     attempt (bst_policy_now st) (\<lambda>now.
     attempt (ok_or (conflict ''build_source_unverified'' ''the exact source tree is not verified'')
                (ec_source_tree_sha c)) (\<lambda>source_tree.
     attempt (ensure (prow_revision (ec_project c) = wanted) stale_revision) (\<lambda>_.
     attempt (check_source (env_now env 1) request c) (\<lambda>_.
     attempt (check_reservation now account project deployment request c db) (\<lambda>_.
     attempt (check_allowance (ec_entitlement c) db) (\<lambda>_.
     enqueue_admitted st ext env auth account project deployment request c source_tree operation key hash db))))))))"

definition enqueue_tx ::
  "build_state \<Rightarrow> 'v build_ext \<Rightarrow> tx_env \<Rightarrow> authenticated \<Rightarrow> string \<Rightarrow> string \<Rightarrow> header_map \<Rightarrow> enqueue_request
     \<Rightarrow> 'v build_db \<Rightarrow> ('v build_db, int \<times> build_job_record) txn" where
  "enqueue_tx st ext env auth project_path deployment_path headers request db =
     attempt (require_enabled st) (\<lambda>_.
     attempt (validate_enqueue request) (\<lambda>_.
     attempt (build_account ext auth) (\<lambda>account.
     attempt (path_uuid (bx_parse_uuid ext) project_path) (\<lambda>project.
     attempt (path_uuid (bx_parse_uuid ext) deployment_path) (\<lambda>deployment.
     attempt (if_match_revision headers) (\<lambda>wanted.
     attempt (idempotency_key headers) (\<lambda>key.
     attempt (request_hash (bx_enqueue_bytes ext) (bx_sha256 ext) request) (\<lambda>hash.
     let operation = ''m3.build.enqueue/'' @ bx_show_uuid ext project @ ''/'' @ bx_show_uuid ext deployment
     in attempt (replay (bx_build_from_value ext) (ad_idempotency (bd_adm db)) account operation key hash) (\<lambda>found.
        case found of
          Match response \<Rightarrow> Committed db (Inr (200, response))
        | Changed \<Rightarrow> RolledBack payload_changed
        | Miss \<Rightarrow> enqueue_new st ext env auth account project deployment wanted request operation key hash db)))))))))"

definition enqueue ::
  "build_state \<Rightarrow> 'v build_ext \<Rightarrow> tx_env \<Rightarrow> authenticated \<Rightarrow> string \<Rightarrow> string \<Rightarrow> header_map \<Rightarrow> enqueue_request
     \<Rightarrow> 'v build_db \<Rightarrow> 'v build_db \<times> (api_error + int \<times> build_job_record)" where
  "enqueue st ext env auth project_path deployment_path headers request db =
     run_txn build_attempt_fk db (enqueue_tx st ext env auth project_path deployment_path headers request db)"

section \<open>Canceling a build\<close>

definition canceled_build :: "tx_env \<Rightarrow> bool \<Rightarrow> 'v build_row \<Rightarrow> 'v build_row" where
  "canceled_build env attempted j =
     j\<lparr>bj_state := ''canceled'', bj_revision := bj_revision j + 1, bj_current_attempt_id := None,
       bj_current_fence := bj_current_fence j + 1, bj_lease_expires_at := None,
       bj_terminal_code := Some ''build_canceled'',
       bj_cleanup_status := (if attempted then ''pending'' else ''not_started''), bj_updated_at := env_now env 2\<rparr>"

definition settled_build :: "string \<Rightarrow> bool" where
  "settled_build state \<longleftrightarrow> state \<in> {''succeeded'', ''failed'', ''canceled''}"

definition apply_cancel :: "'v build_ext \<Rightarrow> tx_env \<Rightarrow> 'v build_row \<Rightarrow> 'v build_db \<Rightarrow> 'v build_db option" where
  "apply_cancel ext env j db =
     (if settled_build (bj_state j) then Some db
      else Option.bind
        (case bj_current_attempt_id j of
           Some aid \<Rightarrow>
             update_build_attempts (\<lambda>a. ba_job_id a = bj_id j \<and> ba_id a = aid \<and> ba_fence a = bj_current_fence j
                 \<and> ba_state a = ''running'')
               (\<lambda>a. a\<lparr>ba_state := ''canceled'', ba_finished_at := Some (env_now env 1),
                  ba_terminal_code := Some ''build_canceled''\<rparr>) db
         | None \<Rightarrow> settle_meter (bj_id j) ''released'' 0 None (env_now env 1) db)
        (update_builds (bx_jsonb_ok ext) (\<lambda>k. bj_id k = bj_id j) (canceled_build env (bj_current_attempt_id j \<noteq> None))))"

definition cancel_known ::
  "'v build_ext \<Rightarrow> tx_env \<Rightarrow> authenticated \<Rightarrow> uuid \<Rightarrow> uuid \<Rightarrow> uuid \<Rightarrow> int \<Rightarrow> string \<Rightarrow> string \<Rightarrow> string \<Rightarrow> 'v build_db
     \<Rightarrow> ('v build_db, build_job_record) txn" where
  "cancel_known ext env auth account project job wanted operation key hash db =
     attempt (ok_or not_found (find (\<lambda>j. bj_account_id j = account \<and> bj_project_id j = project \<and> bj_id j = job)
                                 (bd_jobs db))) (\<lambda>j.
     attempt (ensure (bj_revision j = wanted) stale_revision) (\<lambda>_.
     sql (apply_cancel ext env j db) (\<lambda>db1.
     attempt (ok_or internal (load_build account project job db1)) (\<lambda>build.
     sql (build_audit (owner_audit (env_fresh env 0) account (auth_session_id auth) ''m3.build.cancel'' job) db1) (\<lambda>db2.
     attempt (store_build_response ext account operation key hash 200 build db2) (\<lambda>db3.
     Committed db3 (Inr build)))))))"

definition cancel_build_tx ::
  "build_state \<Rightarrow> 'v build_ext \<Rightarrow> tx_env \<Rightarrow> authenticated \<Rightarrow> string \<Rightarrow> string \<Rightarrow> header_map \<Rightarrow> 'v build_db
     \<Rightarrow> ('v build_db, build_job_record) txn" where
  "cancel_build_tx st ext env auth project_path job_path headers db =
     attempt (require_enabled st) (\<lambda>_.
     attempt (build_account ext auth) (\<lambda>account.
     attempt (path_uuid (bx_parse_uuid ext) project_path) (\<lambda>project.
     attempt (path_uuid (bx_parse_uuid ext) job_path) (\<lambda>job.
     attempt (if_match_revision headers) (\<lambda>wanted.
     attempt (idempotency_key headers) (\<lambda>key.
     attempt (request_hash (bx_cancel_bytes ext) (bx_sha256 ext) ()) (\<lambda>hash.
     let operation = ''m3.build.cancel/'' @ bx_show_uuid ext job
     in attempt (replay (bx_build_from_value ext) (ad_idempotency (bd_adm db)) account operation key hash) (\<lambda>found.
        case found of
          Match response \<Rightarrow> Committed db (Inr response)
        | Changed \<Rightarrow> RolledBack payload_changed
        | Miss \<Rightarrow> cancel_known ext env auth account project job wanted operation key hash db))))))))"

definition cancel_build ::
  "build_state \<Rightarrow> 'v build_ext \<Rightarrow> tx_env \<Rightarrow> authenticated \<Rightarrow> string \<Rightarrow> string \<Rightarrow> header_map \<Rightarrow> 'v build_db
     \<Rightarrow> 'v build_db \<times> (api_error + build_job_record)" where
  "cancel_build st ext env auth project_path job_path headers db =
     run_txn build_attempt_fk db (cancel_build_tx st ext env auth project_path job_path headers db)"

end
