(* ===== verification/Build_Workers.thy ===== *)
theory Build_Workers
  imports Control_Builds
begin

text \<open>
  The workers' side of the build queue of \<^verbatim>\<open>crates/control/src/build_jobs.rs\<close>: leasing a build, renewing
  the lease, materializing the source, resolving credentials, acknowledging a cancellation and
  completing, and the reaper of lost leases.  The bearer token of a worker has been checked before a
  handler runs.
\<close>

section \<open>Requests and responses\<close>

record build_lease_request =
  blr_worker_id :: string
  blr_kinds :: "string list"
  blr_profiles :: "build_profile list"

record build_lease_job =
  lj_id :: uuid
  lj_kind :: string
  lj_account_id :: uuid
  lj_project_id :: uuid
  lj_deployment_id :: uuid
  lj_configuration_revision_id :: uuid
  lj_source_revision_id :: uuid
  lj_compatibility_report_id :: uuid
  lj_source_commit :: string
  lj_source_tree_sha :: string
  lj_build_profile :: build_profile
  lj_input_manifest_digest :: string
  lj_secret_version_refs :: "secret_lease list"
  lj_limits :: build_limits

record build_attempt_lease =
  bal_id :: uuid
  bal_attempt_number :: int
  bal_fence :: int
  bal_worker_id :: string
  bal_lease_expires_at :: timestamp

record build_lease_response =
  blp_job :: build_lease_job
  blp_services :: "service_lease list"
  blp_attempt :: build_attempt_lease

record live_attempt_request =
  lar_worker_id :: string
  lar_attempt_id :: uuid
  lar_fence :: int

record build_renew_response =
  brn_job_id :: uuid
  brn_attempt_id :: uuid
  brn_fence :: int
  brn_lease_expires_at :: timestamp

record materialization_response =
  mzr_commit_sha :: string
  mzr_tree_sha :: string
  mzr_bundle_digest :: string
  mzr_tree_manifest_digest :: string
  mzr_entry_count :: int
  mzr_total_bytes :: int

record credentials_request =
  crq_worker_id :: string
  crq_attempt_id :: uuid
  crq_fence :: int
  crq_secret_version_ids :: "uuid list"

record build_credential =
  bc_service_id :: uuid
  bc_secret_version_id :: uuid
  bc_name :: string
  bc_value :: string

record cancel_ack_request =
  ckr_worker_id :: string
  ckr_attempt_id :: uuid
  ckr_fence :: int
  ckr_cleanup_receipt_digest :: string
  ckr_elapsed_seconds :: int

record cancel_ack_response =
  cka_job_id :: uuid
  cka_attempt_id :: uuid
  cka_fence :: int
  cka_cleanup_status :: string
  cka_finalized_seconds :: int
  cka_debit_event_id :: "uuid option"

record artifact_completion =
  ac_service_id :: uuid
  ac_kind :: string
  ac_archive_digest :: string
  ac_manifest_digest :: string
  ac_packed_bytes :: int
  ac_unpacked_bytes :: int
  ac_entry_count :: int
  ac_entrypoint_argv :: "string list option"

record build_outcome =
  bo_state :: string
  bo_code :: string
  bo_result_manifest_digest :: string
  bo_cleanup_receipt_digest :: string
  bo_elapsed_seconds :: int
  bo_artifacts :: "artifact_completion list"

record build_complete_request =
  bcq_worker_id :: string
  bcq_attempt_id :: uuid
  bcq_fence :: int
  bcq_outcome :: build_outcome

record build_complete_response =
  bcr_build :: build_job_record
  bcr_effect :: json
  bcr_artifacts :: "artifact_record list"
  bcr_meter :: json

record result_manifest =
  rm_schema :: string
  rm_job_id :: uuid
  rm_attempt_id :: uuid
  rm_fence :: int
  rm_input_manifest_digest :: string
  rm_state :: string
  rm_code :: string
  rm_elapsed_seconds :: int
  rm_artifacts :: "artifact_completion list"

record cleanup_manifest =
  cm_schema :: string
  cm_job_id :: uuid
  cm_attempt_id :: uuid
  cm_fence :: int
  cm_status :: string

record artifact_manifest =
  am_schema :: string
  am_job_id :: uuid
  am_attempt_id :: uuid
  am_fence :: int
  am_input_manifest_digest :: string
  am_source_commit :: string
  am_service_id :: uuid
  am_kind :: string
  am_archive_digest :: string
  am_packed_bytes :: int
  am_unpacked_bytes :: int
  am_entry_count :: int
  am_entrypoint_argv :: "string list option"

text \<open>
  The encoders and parsers of the worker endpoints.  \<open>wx_store_cas\<close> is the write of an object to the
  private content store, of which a handler only sees the outcome.
\<close>

record 'v worker_ext =
  wx_cancel_ack_bytes :: "cancel_ack_request \<Rightarrow> string option"
  wx_outcome_bytes :: "build_outcome \<Rightarrow> string option"
  wx_cancel_ack_to_value :: "cancel_ack_response \<Rightarrow> 'v option"
  wx_cancel_ack_from_value :: "'v \<Rightarrow> cancel_ack_response option"
  wx_complete_to_value :: "build_complete_response \<Rightarrow> 'v option"
  wx_complete_from_value :: "'v \<Rightarrow> build_complete_response option"
  wx_parse_result :: "string \<Rightarrow> result_manifest option"
  wx_parse_cleanup :: "string \<Rightarrow> cleanup_manifest option"
  wx_parse_artifact :: "string \<Rightarrow> artifact_manifest option"
  wx_json_bytes :: "json \<Rightarrow> string option"
  wx_to_lowercase :: "string \<Rightarrow> string"
  wx_store_cas :: "string \<Rightarrow> string \<Rightarrow> api_error + unit"

section \<open>Leasing a build\<close>

definition build_worker_id :: "string \<Rightarrow> bool" where
  "build_worker_id value \<longleftrightarrow> 1 \<le> length value \<and> length value \<le> 128 \<and> (\<forall>b \<in> set value. \<not> is_ascii_control b)"

definition build_fenced :: api_error where
  "build_fenced = conflict ''build_job_fenced'' ''the build lease is no longer current''"

definition check_lease_request :: "build_lease_request \<Rightarrow> api_error + unit" where
  "check_lease_request request =
     ensure (build_worker_id (blr_worker_id request) \<and> blr_kinds request = [''project_build'']
             \<and> blr_profiles request \<noteq> [] \<and> length (blr_profiles request) \<le> 3
             \<and> distinct (map bp_id (blr_profiles request)))
       (unprocessable ''invalid_build_worker'' ''the worker identity, kind, or profile is unsupported'')"

fun check_offered :: "build_state \<Rightarrow> 'v build_ext \<Rightarrow> build_profile list \<Rightarrow> api_error + unit" where
  "check_offered st ext [] = Inr ()"
| "check_offered st ext (offered # rest) =
     (case load_profile (bst_files st) (bx_sha256_hex ext) (bst_state_dir st) (bp_id offered) of
        Inl e \<Rightarrow> Inl e
      | Inr current \<Rightarrow>
          if bp_digest current \<noteq> bp_digest offered
          then Inl (unprocessable ''build_profile_digest_changed''
                      ''the worker profile does not match the approved current profile bytes'')
          else check_offered st ext rest)"

definition account_clear :: "uuid \<Rightarrow> 'v build_db \<Rightarrow> bool" where
  "account_clear account db \<longleftrightarrow> \<not> (\<exists>j \<in> set (bd_jobs db). bj_account_id j = account \<and> active_build j)"

definition leasable_build :: "tx_env \<Rightarrow> build_profile list \<Rightarrow> 'v build_db \<Rightarrow> 'v build_row option" where
  "leasable_build env profiles db =
     first_by (\<lambda>j. (bj_created_at j, bj_id j))
       (filter (\<lambda>j. bj_state j \<in> {''queued'', ''retriable''} \<and> bj_attempt_count j < bj_max_attempts j
                  \<and> (\<exists>p \<in> set profiles. bp_id p = bj_profile_id j \<and> bp_digest p = bj_profile_digest j)
                  \<and> account_clear (bj_account_id j) db \<and> bj_id j \<notin> env_locked env) (bd_jobs db))"

text \<open>Whether reservation, entitlement and source proof of a build still hold; \<open>None\<close> when a row is gone.\<close>

definition admission_valid :: "timestamp \<Rightarrow> 'v build_row \<Rightarrow> 'v build_db \<Rightarrow> bool option" where
  "admission_valid now j db =
     (let adm = bd_adm db
      in Option.bind (find (\<lambda>r. res_id r = bj_reservation_id j \<and> res_account_id r = bj_account_id j
                             \<and> res_project_id r = bj_project_id j) (ad_reservations adm)) (\<lambda>r.
         Option.bind (find (\<lambda>e. ent_id e = res_entitlement_id r \<and> ent_account_id e = bj_account_id j) (ad_entitlements adm)) (\<lambda>e.
         Option.bind (find (\<lambda>p. proof_id p = bj_source_proof_id j \<and> proof_account_id p = bj_account_id j
                             \<and> proof_project_id p = bj_project_id j \<and> proof_deployment_id p = bj_deployment_id j) (ad_proofs adm)) (\<lambda>p.
         Some (res_state r \<in> {''reserved'', ''resources_retained''} \<and> res_epoch r = bj_reservation_epoch j
               \<and> ent_state e = ''active'' \<and> ent_period_starts_at e \<le> now \<and> ent_period_ends_at e > now
               \<and> proof_state p = ''valid'' \<and> proof_expires_at p > now)))))"

definition stale_build :: "tx_env \<Rightarrow> 'v build_row \<Rightarrow> 'v build_row" where
  "stale_build env j = j\<lparr>bj_state := ''failed'', bj_revision := bj_revision j + 1,
     bj_terminal_code := Some ''build_admission_stale'', bj_updated_at := env_now env 1\<rparr>"

definition leased_build :: "tx_env \<Rightarrow> timestamp \<Rightarrow> 'v build_row \<Rightarrow> 'v build_row" where
  "leased_build env expires j = j\<lparr>bj_state := ''running'', bj_revision := bj_revision j + 1,
     bj_attempt_count := bj_attempt_count j + 1, bj_current_attempt_id := Some (env_fresh env 0),
     bj_current_fence := bj_current_fence j + 1, bj_lease_expires_at := Some expires, bj_updated_at := env_now env 3\<rparr>"

definition new_build_attempt :: "tx_env \<Rightarrow> string \<Rightarrow> timestamp \<Rightarrow> 'v build_row \<Rightarrow> build_attempt_row" where
  "new_build_attempt env worker expires j =
     \<lparr>ba_id = env_fresh env 0, ba_account_id = bj_account_id j, ba_project_id = bj_project_id j, ba_job_id = bj_id j,
      ba_number = bj_attempt_count j + 1, ba_fence = bj_current_fence j + 1, ba_worker_id = worker,
      ba_state = ''running'', ba_lease_started_at = env_now env 2, ba_lease_expires_at = expires,
      ba_launched_at = None, ba_finished_at = None, ba_terminal_code = None, ba_completion_hash = None\<rparr>"

definition service_of_row :: "build_service_row \<Rightarrow> service_lease" where
  "service_of_row s =
     \<lparr>sl_service_id = bs_service_id s, sl_kind = bs_kind s, sl_root = the (bs_root s), sl_node_major = bs_node_major s,
      sl_framework = bs_framework s, sl_lockfile_path = bs_lockfile_path s, sl_build_command = bs_build_command s,
      sl_output_directory = bs_output_directory s, sl_start_command = bs_start_command s,
      sl_health_path = bs_health_path s\<rparr>"

definition services_of :: "uuid \<Rightarrow> 'v build_db \<Rightarrow> build_service_row list" where
  "services_of job db = sort_key bs_ordinal (filter (\<lambda>s. bs_job_id s = job) (bd_services db))"

definition secrets_of :: "uuid \<Rightarrow> 'v build_db \<Rightarrow> secret_lease list" where
  "secrets_of job db =
     sort_key secret_order (map (\<lambda>r. \<lparr>sec_service_id = br_service_id r, sec_secret_version_id = br_secret_version_id r,
       sec_name = br_name r\<rparr>) (filter (\<lambda>r. br_job_id r = job) (bd_secret_refs db)))"

text \<open>A row whose nullable root is NULL cannot be read into a \<open>ServiceLease\<close>.\<close>

definition lease_answer :: "'v build_row \<Rightarrow> build_attempt_row \<Rightarrow> 'v build_db \<Rightarrow> api_error + build_lease_response" where
  "lease_answer j a db =
     (if \<exists>s \<in> set (services_of (bj_id j) db). bs_root s = None then Inl database_unavailable
      else Inr \<lparr>blp_job =
        \<lparr>lj_id = bj_id j, lj_kind = ''project_build'', lj_account_id = bj_account_id j, lj_project_id = bj_project_id j,
         lj_deployment_id = bj_deployment_id j, lj_configuration_revision_id = bj_configuration_revision_id j,
         lj_source_revision_id = bj_source_revision_id j, lj_compatibility_report_id = bj_compatibility_report_id j,
         lj_source_commit = bj_source_commit j, lj_source_tree_sha = bj_source_tree_sha j,
         lj_build_profile = \<lparr>bp_id = bj_profile_id j, bp_digest = bj_profile_digest j\<rparr>,
         lj_input_manifest_digest = bj_input_manifest_digest j, lj_secret_version_refs = secrets_of (bj_id j) db,
         lj_limits = limits\<rparr>,
        blp_services = map service_of_row (services_of (bj_id j) db),
        blp_attempt = \<lparr>bal_id = ba_id a, bal_attempt_number = ba_number a, bal_fence = ba_fence a,
          bal_worker_id = ba_worker_id a, bal_lease_expires_at = ba_lease_expires_at a\<rparr>\<rparr>)"

definition grant_lease ::
  "build_state \<Rightarrow> 'v build_ext \<Rightarrow> tx_env \<Rightarrow> string \<Rightarrow> 'v build_row \<Rightarrow> 'v build_db
     \<Rightarrow> ('v build_db, build_lease_response option) txn" where
  "grant_lease st ext env worker j db =
     (let expires = env_now env 1 + lease_seconds st * second; a = new_build_attempt env worker expires j
      in sql (insert_attempt_row a db) (\<lambda>db1.
         sql (update_builds (bx_jsonb_ok ext) (\<lambda>k. bj_id k = bj_id j) (leased_build env expires) db1) (\<lambda>db2.
         attempt (lease_answer j a db2) (\<lambda>response.
         Committed db2 (Inr (Some response))))))"

definition lease_build_tx ::
  "build_state \<Rightarrow> 'v build_ext \<Rightarrow> tx_env \<Rightarrow> build_lease_request \<Rightarrow> 'v build_db
     \<Rightarrow> ('v build_db, build_lease_response option) txn" where
  "lease_build_tx st ext env request db =
     attempt (require_enabled st) (\<lambda>_.
     attempt (check_lease_request request) (\<lambda>_.
     attempt (check_offered st ext (blr_profiles request)) (\<lambda>_.
     case leasable_build env (blr_profiles request) db of
       None \<Rightarrow> Committed db (Inr None)
     | Some j \<Rightarrow>
         if \<not> account_clear (bj_account_id j) db then Committed db (Inr None)
         else if admission_valid (env_now env 0) j db \<noteq> Some True
         then sql (update_builds (bx_jsonb_ok ext) (\<lambda>k. bj_id k = bj_id j) (stale_build env) db) (\<lambda>db1.
              sql (settle_meter (bj_id j) ''released'' 0 None (env_now env 2) db1) (\<lambda>db2.
              Committed db2 (Inr None)))
         else grant_lease st ext env (blr_worker_id request) j db)))"

definition lease_build ::
  "build_state \<Rightarrow> 'v build_ext \<Rightarrow> tx_env \<Rightarrow> build_lease_request \<Rightarrow> 'v build_db
     \<Rightarrow> 'v build_db \<times> (api_error + build_lease_response option)" where
  "lease_build st ext env request db = run_txn build_attempt_fk db (lease_build_tx st ext env request db)"

section \<open>The live attempt\<close>

definition live_attempt :: "tx_env \<Rightarrow> uuid \<Rightarrow> live_attempt_request \<Rightarrow> 'v build_row \<Rightarrow> 'v build_db \<Rightarrow> bool" where
  "live_attempt env job request j db \<longleftrightarrow>
     bj_id j = job \<and> bj_state j = ''running'' \<and> bj_current_attempt_id j = Some (lar_attempt_id request)
     \<and> bj_current_fence j = lar_fence request
     \<and> (case bj_lease_expires_at j of Some t \<Rightarrow> t > env_now env 0 | None \<Rightarrow> False)
     \<and> (\<exists>a \<in> set (bd_attempts db). ba_job_id a = bj_id j \<and> Some (ba_id a) = bj_current_attempt_id j
          \<and> ba_fence a = bj_current_fence j \<and> ba_state a = ''running'' \<and> ba_worker_id a = lar_worker_id request
          \<and> ba_lease_expires_at a > env_now env 0)"

definition lock_live_attempt ::
  "tx_env \<Rightarrow> uuid \<Rightarrow> live_attempt_request \<Rightarrow> 'v build_db \<Rightarrow> api_error + 'v build_row" where
  "lock_live_attempt env job request db =
     (if \<not> build_worker_id (lar_worker_id request) \<or> lar_fence request \<le> 0 then Inl build_fenced
      else ok_or build_fenced (find (\<lambda>j. live_attempt env job request j db) (bd_jobs db)))"

definition of_attempt :: "uuid \<Rightarrow> live_attempt_request \<Rightarrow> build_attempt_row \<Rightarrow> bool" where
  "of_attempt job request a \<longleftrightarrow>
     ba_job_id a = job \<and> ba_id a = lar_attempt_id request \<and> ba_fence a = lar_fence request \<and> ba_state a = ''running''"

definition of_build :: "uuid \<Rightarrow> live_attempt_request \<Rightarrow> 'v build_row \<Rightarrow> bool" where
  "of_build job request j \<longleftrightarrow>
     bj_id j = job \<and> bj_current_attempt_id j = Some (lar_attempt_id request) \<and> bj_current_fence j = lar_fence request
     \<and> bj_state j = ''running''"

definition extend_lease ::
  "'v build_ext \<Rightarrow> uuid \<Rightarrow> live_attempt_request \<Rightarrow> timestamp \<Rightarrow> timestamp \<Rightarrow> 'v build_db \<Rightarrow> 'v build_db option" where
  "extend_lease ext job request expires now db =
     Option.bind (update_build_attempts (of_attempt job request) (\<lambda>a. a\<lparr>ba_lease_expires_at := expires\<rparr>) db)
       (update_builds (bx_jsonb_ok ext) (of_build job request)
          (\<lambda>j. j\<lparr>bj_lease_expires_at := Some expires, bj_updated_at := now\<rparr>))"

definition renew_build ::
  "build_state \<Rightarrow> 'v build_ext \<Rightarrow> tx_env \<Rightarrow> string \<Rightarrow> live_attempt_request \<Rightarrow> 'v build_db
     \<Rightarrow> 'v build_db \<times> (api_error + build_renew_response)" where
  "renew_build st ext env job_path request db =
     run_txn build_attempt_fk db
      (attempt (require_enabled st) (\<lambda>_.
       attempt (path_uuid (bx_parse_uuid ext) job_path) (\<lambda>job.
       attempt (lock_live_attempt env job request db) (\<lambda>_.
       let expires = env_now env 1 + lease_seconds st * second
       in sql (extend_lease ext job request expires (env_now env 2) db) (\<lambda>db1.
          Committed db1 (Inr \<lparr>brn_job_id = job, brn_attempt_id = lar_attempt_id request, brn_fence = lar_fence request,
             brn_lease_expires_at = expires\<rparr>))))))"

end
