(* ===== verification/Build_Completion.thy ===== *)
theory Build_Completion
  imports Build_Workers
begin

text \<open>
  What a worker asks for while it holds or has lost a build, in \<^verbatim>\<open>crates/control/src/build_jobs.rs\<close>: the
  materialized source, the credentials, and the acknowledgment of a cancellation; and the debits of
  metered seconds.
\<close>

section \<open>Materializing the source\<close>

definition deterministic_source_rejection :: "api_error \<Rightarrow> bool" where
  "deterministic_source_rejection error \<longleftrightarrow>
     err_code error \<in> {''build_source_rejected'', ''build_source_stale'', ''github_access_denied'',
       ''github_provider_limit_exceeded'', ''invalid_github_source'', ''source_limit_exceeded'',
       ''source_path_invalid'', ''unsupported_github_source''}"

definition source_rejected :: api_error where
  "source_rejected = unprocessable ''build_source_rejected''
     ''the exact build source failed immutable source verification''"

text \<open>The lease is kept for thirty seconds, in which the worker can report the rejection.\<close>

definition handoff_source_rejection ::
  "'v build_ext \<Rightarrow> tx_env \<Rightarrow> uuid \<Rightarrow> live_attempt_request \<Rightarrow> 'v build_db
     \<Rightarrow> ('v build_db, materialization_response) txn" where
  "handoff_source_rejection ext env job request db =
     (let expires = env_now env 2 + SOURCE_REJECTION_COMPLETION_SECONDS * second;
          mine = (\<lambda>a. of_attempt job request a \<and> ba_worker_id a = lar_worker_id request)
      in sql (update_build_attempts mine (\<lambda>a. a\<lparr>ba_lease_expires_at := expires\<rparr>) db) (\<lambda>db1.
         sql (update_builds (bx_jsonb_ok ext) (of_build job request)
                (\<lambda>j. j\<lparr>bj_lease_expires_at := Some expires, bj_updated_at := env_now env 3\<rparr>) db1) (\<lambda>db2.
         if length (filter mine (bd_attempts db)) \<noteq> 1 \<or> length (filter (of_build job request) (bd_jobs db1)) \<noteq> 1
         then RolledBack build_fenced
         else Committed db2 (Inl source_rejected))))"

definition materialized_answer ::
  "'v build_row \<Rightarrow> string \<Rightarrow> string \<Rightarrow> int \<Rightarrow> int \<Rightarrow> api_error + materialization_response" where
  "materialized_answer j bundle tree entries bytes =
     (if entries < 0 \<or> bytes < 0 then Inl internal
      else Inr \<lparr>mzr_commit_sha = bj_source_commit j, mzr_tree_sha = bj_source_tree_sha j, mzr_bundle_digest = bundle,
             mzr_tree_manifest_digest = tree, mzr_entry_count = entries, mzr_total_bytes = bytes\<rparr>)"

text \<open>The stored materialization of a job, checked in the content store.\<close>

definition reuse_materialization ::
  "build_state \<Rightarrow> 'v build_ext \<Rightarrow> 'v build_row \<Rightarrow> uuid \<Rightarrow> string \<Rightarrow> string \<Rightarrow> 'v build_db
     \<Rightarrow> ('v build_db, materialization_response) txn" where
  "reuse_materialization st ext j materialization bundle tree db =
     attempt (ok_or internal (find (\<lambda>z. mz_id z = materialization \<and> mz_state z = ''ready'') (bd_materializations db))) (\<lambda>z.
     attempt (verify_cas_digest (bst_files st) (bx_sha256_hex ext) (bst_state_dir st) bundle) (\<lambda>_.
     attempt (verify_cas_digest (bst_files st) (bx_sha256_hex ext) (bst_state_dir st) tree) (\<lambda>_.
     Committed db (materialized_answer j bundle tree (mz_entry_count z) (mz_total_bytes z)))))"

definition new_materialization ::
  "tx_env \<Rightarrow> 'v build_row \<Rightarrow> string \<Rightarrow> string \<Rightarrow> int \<Rightarrow> int \<Rightarrow> materialization_row" where
  "new_materialization env j bundle tree entries bytes =
     \<lparr>mz_id = env_fresh env 0, mz_account_id = bj_account_id j, mz_project_id = bj_project_id j,
      mz_deployment_id = bj_deployment_id j, mz_source_revision_id = bj_source_revision_id j,
      mz_configuration_revision_id = bj_configuration_revision_id j,
      mz_compatibility_report_id = bj_compatibility_report_id j, mz_commit_sha = bj_source_commit j,
      mz_tree_sha = bj_source_tree_sha j, mz_materializer_revision = MATERIALIZER_REVISION, mz_bundle_digest = bundle,
      mz_tree_manifest_digest = tree, mz_entry_count = entries, mz_total_bytes = bytes, mz_state = ''ready''\<rparr>"

definition store_materialization ::
  "'v build_ext \<Rightarrow> 'v worker_ext \<Rightarrow> tx_env \<Rightarrow> uuid \<Rightarrow> live_attempt_request \<Rightarrow> 'v build_row \<Rightarrow> nat
     \<Rightarrow> string \<times> json \<times> nat \<Rightarrow> 'v build_db \<Rightarrow> ('v build_db, materialization_response) txn" where
  "store_materialization ext wx env job request j file_count materialized db =
     (case materialized of (bundle_bytes, manifest, content_bytes) \<Rightarrow>
      let bundle = ''sha256:'' @ bx_sha256_hex ext bundle_bytes
      in attempt (ok_or internal (wx_json_bytes wx manifest)) (\<lambda>manifest_bytes.
         let tree = ''sha256:'' @ bx_sha256_hex ext manifest_bytes
         in attempt (wx_store_cas wx bundle bundle_bytes) (\<lambda>_.
            attempt (wx_store_cas wx tree manifest_bytes) (\<lambda>_.
            attempt (ensure (file_count < 2 ^ 31) internal) (\<lambda>_.
            attempt (ensure (content_bytes < 2 ^ 63) internal) (\<lambda>_.
            attempt (ok_or database_unavailable
              (upsert_materialization (new_materialization env j bundle tree (int file_count) (int content_bytes)) db)) (\<lambda>(db1, materialization).
            case find (\<lambda>z. mz_id z = materialization \<and> mz_state z = ''ready'') (bd_materializations db1) of
              None \<Rightarrow> handoff_source_rejection ext env job request db1
            | Some z \<Rightarrow>
                if (mz_bundle_digest z, mz_tree_manifest_digest z, mz_entry_count z, mz_total_bytes z)
                   \<noteq> (bundle, tree, int file_count, int content_bytes)
                then handoff_source_rejection ext env job request db1
                else sql (update_builds (bx_jsonb_ok ext) (of_build job request)
                       (\<lambda>k. k\<lparr>bj_materialization_id := Some materialization, bj_bundle_digest := Some bundle,
                          bj_tree_manifest_digest := Some tree, bj_updated_at := env_now env 1\<rparr>) db1) (\<lambda>db2.
                     if length (filter (of_build job request) (bd_jobs db1)) \<noteq> 1 then RolledBack build_fenced
                     else Committed db2 (materialized_answer j bundle tree (int file_count) (int content_bytes))))))))))"

text \<open>
  \<open>snapshot\<close> is what the GitHub integration answers for the source revision of the job:
  \<open>authorized_build_source_snapshot\<close> only reads the database.
\<close>

definition materialize_tx ::
  "build_state \<Rightarrow> 'v build_ext \<Rightarrow> 'v worker_ext \<Rightarrow> tx_env \<Rightarrow> string \<Rightarrow> live_attempt_request
     \<Rightarrow> api_error + build_source_file list \<Rightarrow> 'v build_db \<Rightarrow> ('v build_db, materialization_response) txn" where
  "materialize_tx st ext wx env job_path request snapshot db =
     attempt (require_enabled st) (\<lambda>_.
     attempt (path_uuid (bx_parse_uuid ext) job_path) (\<lambda>job.
     attempt (lock_live_attempt env job request db) (\<lambda>j.
     case (bj_materialization_id j, bj_bundle_digest j, bj_tree_manifest_digest j) of
       (Some materialization, Some bundle, Some tree) \<Rightarrow> reuse_materialization st ext j materialization bundle tree db
     | _ \<Rightarrow>
         (case snapshot of
            Inl error \<Rightarrow>
              if deterministic_source_rejection error then handoff_source_rejection ext env job request db
              else RolledBack error
          | Inr files \<Rightarrow>
              (case canonical_source_bundle (wx_to_lowercase wx) (bx_sha256_hex ext) files of
                 Inl error \<Rightarrow>
                   if deterministic_source_rejection error then handoff_source_rejection ext env job request db
                   else RolledBack error
               | Inr materialized \<Rightarrow>
                   store_materialization ext wx env job request j (length files) materialized db)))))"

definition materialize ::
  "build_state \<Rightarrow> 'v build_ext \<Rightarrow> 'v worker_ext \<Rightarrow> tx_env \<Rightarrow> string \<Rightarrow> live_attempt_request
     \<Rightarrow> api_error + build_source_file list \<Rightarrow> 'v build_db \<Rightarrow> 'v build_db \<times> (api_error + materialization_response)" where
  "materialize st ext wx env job_path request snapshot db =
     run_txn build_attempt_fk db (materialize_tx st ext wx env job_path request snapshot db)"

section \<open>Resolving credentials\<close>

definition build_secret_aad :: "'v secret_ext \<Rightarrow> uuid \<Rightarrow> uuid \<Rightarrow> uuid \<Rightarrow> uuid \<Rightarrow> uuid \<Rightarrow> string" where
  "build_secret_aad sx account project service secret version =
     fold (\<lambda>field out. append_field out field)
       [SECRET_AAD_DOMAIN, sx_uuid_bytes sx account, sx_uuid_bytes sx project, sx_uuid_bytes sx service, ''build'',
        ''build_environment'', sx_uuid_bytes sx secret, sx_uuid_bytes sx version] []"

type_synonym credential_row = "build_secret_row \<times> secret_row \<times> secret_version_row"

definition credential_rows :: "uuid \<Rightarrow> uuid \<Rightarrow> uuid \<Rightarrow> uuid list \<Rightarrow> 'v build_db \<Rightarrow> credential_row list" where
  "credential_rows job account project requested db =
     sort_key (\<lambda>(r, s, v). (br_service_id r, br_name r, br_secret_version_id r))
      (filter (\<lambda>(r, s, v).
          secret_account_id s = br_account_id r \<and> secret_project_id s = br_project_id r
          \<and> secret_service_id s = br_service_id r \<and> secret_id s = br_secret_id r \<and> secret_operation s = ''build''
          \<and> secret_credential_kind s = ''build_environment'' \<and> secret_status s = ''active''
          \<and> version_account_id v = br_account_id r \<and> version_project_id v = br_project_id r
          \<and> version_service_id v = br_service_id r \<and> version_secret_id v = br_secret_id r
          \<and> version_id v = br_secret_version_id r
          \<and> br_job_id r = job \<and> br_account_id r = account \<and> br_project_id r = project
          \<and> br_credential_kind r = ''build_environment'' \<and> br_secret_version_id r \<in> set requested)
        (List.product (bd_secret_refs db) (List.product (bd_secrets db) (bd_secret_versions db))))"

fun decrypt_credentials ::
  "'v secret_ext \<Rightarrow> secret_key \<Rightarrow> uuid \<Rightarrow> uuid \<Rightarrow> credential_row list \<Rightarrow> api_error + build_credential list" where
  "decrypt_credentials sx key account project [] = Inr []"
| "decrypt_credentials sx key account project ((r, s, v) # rows) =
     (if version_key_version v \<noteq> key_version key then Inl foundation_unavailable
      else case decrypt sx key (build_secret_aad sx account project (br_service_id r) (br_secret_id r) (br_secret_version_id r))
                  (version_nonce v) (version_ciphertext v) (version_auth_tag v) of
             Inl _ \<Rightarrow> Inl foundation_unavailable
           | Inr plaintext \<Rightarrow>
               if \<not> valid_utf8 plaintext then Inl foundation_unavailable
               else (case decrypt_credentials sx key account project rows of
                       Inl e \<Rightarrow> Inl e
                     | Inr credentials \<Rightarrow>
                         Inr (\<lparr>bc_service_id = br_service_id r, bc_secret_version_id = br_secret_version_id r,
                               bc_name = br_name r, bc_value = plaintext\<rparr> # credentials)))"

definition live_of_credentials :: "credentials_request \<Rightarrow> live_attempt_request" where
  "live_of_credentials request = \<lparr>lar_worker_id = crq_worker_id request, lar_attempt_id = crq_attempt_id request,
     lar_fence = crq_fence request\<rparr>"

definition resolve_build_credentials ::
  "build_state \<Rightarrow> 'v build_ext \<Rightarrow> 'v secret_ext \<Rightarrow> secret_key option \<Rightarrow> tx_env \<Rightarrow> string \<Rightarrow> credentials_request
     \<Rightarrow> 'v build_db \<Rightarrow> 'v build_db \<times> (api_error + build_credential list)" where
  "resolve_build_credentials st ext sx secret_key env job_path request db =
     run_txn build_attempt_fk db
      (attempt (require_enabled st) (\<lambda>_.
       attempt (path_uuid (bx_parse_uuid ext) job_path) (\<lambda>job.
       attempt (ensure (length (crq_secret_version_ids request) \<le> MAX_SECRETS \<and> distinct (crq_secret_version_ids request))
                  (secret_scope_invalid ''secret version ids must be unique and bounded'')) (\<lambda>_.
       attempt (lock_live_attempt env job (live_of_credentials request) db) (\<lambda>j.
       sql (update_build_attempts (of_attempt job (live_of_credentials request))
              (\<lambda>a. a\<lparr>ba_launched_at := Some (case ba_launched_at a of Some t \<Rightarrow> t | None \<Rightarrow> env_now env 1)\<rparr>) db) (\<lambda>db1.
       let rows = credential_rows job (bj_account_id j) (bj_project_id j) (crq_secret_version_ids request) db1
       in attempt (ensure (length rows = length (crq_secret_version_ids request))
                     (secret_scope_invalid ''only exact secret versions bound at enqueue may be resolved'')) (\<lambda>_.
          attempt (ok_or foundation_unavailable secret_key) (\<lambda>key.
          attempt (decrypt_credentials sx key (bj_account_id j) (bj_project_id j) rows) (\<lambda>credentials.
          Committed db1 (Inr credentials))))))))))"

section \<open>Metering\<close>

definition build_debit :: "uuid \<Rightarrow> 'v build_row \<Rightarrow> uuid \<Rightarrow> uuid \<Rightarrow> int \<Rightarrow> usage_row" where
  "build_debit event j entitlement aid seconds =
     \<lparr>use_id = event, use_account_id = bj_account_id j, use_project_id = bj_project_id j,
      use_deployment_id = bj_deployment_id j, use_entitlement_id = entitlement, use_attempt_id = aid,
      use_kind = ''debit'', use_seconds = seconds, use_debit_event_id = None, use_platform_fault_ref = None\<rparr>"

text \<open>A debit of billed seconds against the entitlement of the job's open reservation.\<close>

definition charge :: "uuid \<Rightarrow> 'v build_row \<Rightarrow> uuid \<Rightarrow> int \<Rightarrow> 'v build_db \<Rightarrow> ('v build_db \<times> uuid option) option" where
  "charge event j aid billed db =
     (if billed > 0
      then Option.bind (find (\<lambda>m. mt_job_id m = bj_id j \<and> mt_state m = ''reserved'') (bd_meters db)) (\<lambda>m.
           map_option (\<lambda>db1. (db1, Some event)) (insert_debit (build_debit event j (mt_entitlement_id m) aid billed) db))
      else Some (db, None))"

section \<open>Acknowledging a cancellation\<close>

definition check_cancel_ack :: "cancel_ack_request \<Rightarrow> api_error + unit" where
  "check_cancel_ack request =
     ensure (build_worker_id (ckr_worker_id request) \<and> ckr_fence request > 0 \<and> ckr_elapsed_seconds request \<ge> 0
             \<and> ckr_elapsed_seconds request \<le> RESERVED_SECONDS \<and> valid_digest (ckr_cleanup_receipt_digest request))
       (unprocessable ''build_cancel_ack_invalid'' ''the cancellation cleanup acknowledgment is invalid'')"

definition find_build_receipt :: "uuid \<Rightarrow> uuid \<Rightarrow> int \<Rightarrow> 'v build_db \<Rightarrow> 'v build_receipt_row option" where
  "find_build_receipt job aid fence db =
     find (\<lambda>r. brc_job_id r = job \<and> brc_attempt_id r = aid \<and> brc_fence r = fence) (bd_receipts db)"

text \<open>What a cancellation that already has a receipt is answered.\<close>

definition replay_cancel_ack ::
  "'v worker_ext \<Rightarrow> string \<Rightarrow> 'v build_receipt_row \<Rightarrow> 'v build_row \<Rightarrow> 'v build_db \<Rightarrow> ('v build_db, cancel_ack_response) txn" where
  "replay_cancel_ack wx hash r j db =
     (if bj_state j = ''canceled'' then RolledBack build_fenced
      else if brc_completion_hash r \<noteq> hash
      then RolledBack (conflict ''build_cancel_ack_conflict''
                         ''the canceled attempt already has a different cleanup acknowledgment'')
      else attempt (ok_or internal (wx_cancel_ack_from_value wx (brc_response_body r))) (\<lambda>response.
           Committed db (Inr response)))"

definition awaiting_cleanup :: "uuid \<Rightarrow> cancel_ack_request \<Rightarrow> 'v build_db \<Rightarrow> 'v build_row \<Rightarrow> bool" where
  "awaiting_cleanup job request db j \<longleftrightarrow>
     bj_id j = job \<and> bj_state j = ''canceled'' \<and> bj_cleanup_status j = ''pending''
     \<and> (\<exists>a \<in> set (bd_attempts db). ba_job_id a = bj_id j \<and> ba_id a = ckr_attempt_id request
          \<and> ba_fence a = ckr_fence request \<and> ba_worker_id a = ckr_worker_id request \<and> ba_state a = ''canceled'')"

definition apply_cancel_ack ::
  "build_state \<Rightarrow> 'v build_ext \<Rightarrow> 'v worker_ext \<Rightarrow> tx_env \<Rightarrow> uuid \<Rightarrow> cancel_ack_request \<Rightarrow> string \<Rightarrow> 'v build_row
     \<Rightarrow> 'v build_db \<Rightarrow> ('v build_db, cancel_ack_response) txn" where
  "apply_cancel_ack st ext wx env job request hash j db =
     attempt (read_cas_json (bst_files st) (bx_sha256_hex ext) (wx_parse_cleanup wx) (bst_state_dir st)
                (ckr_cleanup_receipt_digest request) 1048576) (\<lambda>cleanup.
     attempt (ensure (cm_schema cleanup = ''hostlet.build-cleanup/v1'' \<and> cm_job_id cleanup = job
                \<and> cm_attempt_id cleanup = ckr_attempt_id request \<and> cm_fence cleanup = ckr_fence request
                \<and> cm_status cleanup = ''confirmed'')
               (unprocessable ''build_cleanup_invalid''
                  ''cancellation acknowledgment requires a matching confirmed cleanup receipt'')) (\<lambda>_.
     attempt (ok_or database_unavailable
                (charge (env_fresh env 0) j (ckr_attempt_id request) (ckr_elapsed_seconds request) db)) (\<lambda>(db1, debit).
     sql (settle_meter job ''finalized'' (ckr_elapsed_seconds request) debit (env_now env 1) db1) (\<lambda>db2.
     sql (update_builds (bx_jsonb_ok ext) (\<lambda>k. bj_id k = job \<and> bj_state k = ''canceled'' \<and> bj_cleanup_status k = ''pending'')
            (\<lambda>k. k\<lparr>bj_cleanup_status := ''confirmed'', bj_revision := bj_revision k + 1, bj_updated_at := env_now env 2\<rparr>) db2) (\<lambda>db3.
     let response = \<lparr>cka_job_id = job, cka_attempt_id = ckr_attempt_id request, cka_fence = ckr_fence request,
           cka_cleanup_status = ''confirmed'', cka_finalized_seconds = ckr_elapsed_seconds request, cka_debit_event_id = debit\<rparr>
     in attempt (ok_or internal (wx_cancel_ack_to_value wx response)) (\<lambda>body.
        sql (insert_build_receipt (bx_jsonb_ok ext)
               \<lparr>brc_attempt_id = ckr_attempt_id request, brc_job_id = job, brc_fence = ckr_fence request,
                brc_completion_hash = hash, brc_response_body = body\<rparr> db3) (\<lambda>db4.
        Committed db4 (Inr response))))))))"

definition cancel_ack_tx ::
  "build_state \<Rightarrow> 'v build_ext \<Rightarrow> 'v worker_ext \<Rightarrow> tx_env \<Rightarrow> string \<Rightarrow> cancel_ack_request \<Rightarrow> 'v build_db
     \<Rightarrow> ('v build_db, cancel_ack_response) txn" where
  "cancel_ack_tx st ext wx env job_path request db =
     attempt (require_enabled st) (\<lambda>_.
     attempt (path_uuid (bx_parse_uuid ext) job_path) (\<lambda>job.
     attempt (check_cancel_ack request) (\<lambda>_.
     attempt (request_hash (wx_cancel_ack_bytes wx) (bx_sha256 ext) request) (\<lambda>hash.
     case Option.bind (find_build_receipt job (ckr_attempt_id request) (ckr_fence request) db)
            (\<lambda>r. map_option (Pair r) (find (\<lambda>j. bj_id j = brc_job_id r) (bd_jobs db))) of
       Some (r, j) \<Rightarrow> replay_cancel_ack wx hash r j db
     | None \<Rightarrow>
         attempt (ok_or (conflict ''build_job_fenced''
                    ''the canceled build attempt is not awaiting this cleanup acknowledgment'')
                   (find (awaiting_cleanup job request db) (bd_jobs db))) (\<lambda>j.
         apply_cancel_ack st ext wx env job request hash j db)))))"

definition cancel_ack ::
  "build_state \<Rightarrow> 'v build_ext \<Rightarrow> 'v worker_ext \<Rightarrow> tx_env \<Rightarrow> string \<Rightarrow> cancel_ack_request \<Rightarrow> 'v build_db
     \<Rightarrow> 'v build_db \<times> (api_error + cancel_ack_response)" where
  "cancel_ack st ext wx env job_path request db =
     run_txn build_attempt_fk db (cancel_ack_tx st ext wx env job_path request db)"

end
