(* ===== verification/Build_Results.thy ===== *)
theory Build_Results
  imports Build_Completion
begin

text \<open>
  Completion of a build and the reaper of lost leases of \<^verbatim>\<open>crates/control/src/build_jobs.rs\<close>, and the step
  relation in which owners, workers and the reaper act in any order.
\<close>

section \<open>Checking a completion\<close>

definition FAILURE_CODES :: "string list" where
  "FAILURE_CODES = [''build_failed'', ''dependency_not_available_offline'', ''build_timeout'', ''memory_limit'',
     ''workspace_limit'', ''static_output_too_large'', ''runtime_output_too_large'', ''output_invalid'',
     ''source_policy_rejected'', ''platform_fault'', ''cleanup_failed'']"

definition valid_state_code :: "build_outcome \<Rightarrow> bool" where
  "valid_state_code oc \<longleftrightarrow>
     (if bo_state oc = ''succeeded''
      then bo_code oc = ''build_succeeded'' \<and> bo_elapsed_seconds oc > 0 \<and> bo_artifacts oc \<noteq> []
      else if bo_state oc = ''failed'' then bo_code oc \<in> set FAILURE_CODES \<and> bo_artifacts oc = []
      else if bo_state oc = ''retriable''
      then bo_code oc = ''platform_prelaunch_fault'' \<and> bo_elapsed_seconds oc = 0 \<and> bo_artifacts oc = []
      else False)"

definition valid_completion :: "build_outcome \<Rightarrow> bool" where
  "valid_completion oc \<longleftrightarrow>
     valid_state_code oc \<and> bo_elapsed_seconds oc \<ge> 0 \<and> bo_elapsed_seconds oc \<le> RESERVED_SECONDS
     \<and> length (bo_artifacts oc) \<le> MAX_ARTIFACTS \<and> valid_digest (bo_result_manifest_digest oc)
     \<and> valid_digest (bo_cleanup_receipt_digest oc)"

definition result_matches :: "uuid \<Rightarrow> build_complete_request \<Rightarrow> string \<Rightarrow> result_manifest \<Rightarrow> bool" where
  "result_matches job request input_digest result \<longleftrightarrow>
     (let oc = bcq_outcome request
      in rm_schema result = ''hostlet.build-result/v1'' \<and> rm_job_id result = job
         \<and> rm_attempt_id result = bcq_attempt_id request \<and> rm_fence result = bcq_fence request
         \<and> rm_input_manifest_digest result = input_digest \<and> rm_state result = bo_state oc \<and> rm_code result = bo_code oc
         \<and> rm_elapsed_seconds result = bo_elapsed_seconds oc \<and> rm_artifacts result = bo_artifacts oc)"

definition cleanup_matches :: "uuid \<Rightarrow> build_complete_request \<Rightarrow> cleanup_manifest \<Rightarrow> bool" where
  "cleanup_matches job request cleanup \<longleftrightarrow>
     cm_schema cleanup = ''hostlet.build-cleanup/v1'' \<and> cm_job_id cleanup = job
     \<and> cm_attempt_id cleanup = bcq_attempt_id request \<and> cm_fence cleanup = bcq_fence request
     \<and> cm_status cleanup \<in> {''confirmed'', ''pending''}
     \<and> (bo_state (bcq_outcome request) = ''succeeded'' \<longrightarrow> cm_status cleanup = ''confirmed'')"

text \<open>A completion without a materialized source is only a rejection of it or a fault before launch.\<close>

definition needs_no_source :: "build_outcome \<Rightarrow> bool" where
  "needs_no_source oc \<longleftrightarrow>
     bo_elapsed_seconds oc = 0
     \<and> (bo_state oc = ''failed'' \<and> bo_code oc = ''source_policy_rejected''
        \<or> bo_state oc = ''retriable'' \<and> bo_code oc = ''platform_prelaunch_fault'')"

section \<open>Checking the artifacts\<close>

definition artifact_invalid :: "string \<Rightarrow> api_error" where
  "artifact_invalid message = unprocessable ''build_artifact_invalid'' message"

definition artifact_numbers_ok :: "artifact_completion \<Rightarrow> bool" where
  "artifact_numbers_ok a \<longleftrightarrow>
     valid_digest (ac_archive_digest a) \<and> valid_digest (ac_manifest_digest a) \<and> ac_packed_bytes a \<ge> 0
     \<and> ac_unpacked_bytes a \<ge> 0 \<and> ac_entry_count a \<ge> 0 \<and> ac_entry_count a \<le> bl_max_entries limits
     \<and> ac_packed_bytes a \<le> bl_runtime_output_bytes limits
     \<and> (ac_kind a = ''static'' \<longrightarrow> ac_unpacked_bytes a \<le> bl_static_output_bytes limits)
     \<and> (ac_kind a = ''application'' \<longrightarrow> ac_unpacked_bytes a \<le> bl_runtime_output_bytes limits)"

definition service_artifact_kind :: "build_service_row \<Rightarrow> string" where
  "service_artifact_kind s = (if bs_kind s = ''static_frontend'' then ''static'' else ''application'')"

text \<open>The entry point that a service's artifact must declare; \<open>None\<close> when no start command is known.\<close>

definition expected_argv :: "build_service_row \<Rightarrow> string list option option" where
  "expected_argv s =
     (if bs_kind s = ''static_frontend'' then Some None
      else if bs_start_command s = Some ''npm run start'' \<and> bs_framework s = ''node_http''
      then Some (Some [''node'', ''dist/server.mjs''])
      else if bs_start_command s = Some ''npm run start'' \<and> bs_framework s = ''nextjs16_standalone''
      then Some (Some [''node'', ''server.js''])
      else None)"

definition manifest_matches ::
  "uuid \<Rightarrow> build_complete_request \<Rightarrow> string \<Rightarrow> string \<Rightarrow> artifact_completion \<Rightarrow> artifact_manifest \<Rightarrow> bool" where
  "manifest_matches job request input_digest source_commit a manifest \<longleftrightarrow>
     am_schema manifest = ''hostlet.build-artifact/v1'' \<and> am_job_id manifest = job
     \<and> am_attempt_id manifest = bcq_attempt_id request \<and> am_fence manifest = bcq_fence request
     \<and> am_input_manifest_digest manifest = input_digest \<and> am_source_commit manifest = source_commit
     \<and> am_service_id manifest = ac_service_id a \<and> am_kind manifest = ac_kind a
     \<and> am_archive_digest manifest = ac_archive_digest a \<and> am_packed_bytes manifest = ac_packed_bytes a
     \<and> am_unpacked_bytes manifest = ac_unpacked_bytes a \<and> am_entry_count manifest = ac_entry_count a
     \<and> am_entrypoint_argv manifest = ac_entrypoint_argv a"

definition check_artifact ::
  "build_state \<Rightarrow> 'v build_ext \<Rightarrow> 'v worker_ext \<Rightarrow> uuid \<Rightarrow> build_complete_request \<Rightarrow> string \<Rightarrow> string
     \<Rightarrow> build_service_row list \<Rightarrow> artifact_completion \<Rightarrow> api_error + unit" where
  "check_artifact st ext wx job request input_digest source_commit services a =
     (case find (\<lambda>s. bs_service_id s = ac_service_id a) services of
        None \<Rightarrow> Inl (artifact_invalid ''an artifact does not match the immutable service graph'')
      | Some s \<Rightarrow>
          if service_artifact_kind s \<noteq> ac_kind a
          then Inl (artifact_invalid ''an artifact does not match the immutable service graph'')
          else (case expected_argv s of
             None \<Rightarrow> Inl (artifact_invalid
                       ''the packaged application entrypoint does not match the immutable service graph'')
           | Some argv \<Rightarrow>
               if ac_entrypoint_argv a \<noteq> argv
               then Inl (artifact_invalid ''the packaged application entrypoint is invalid'')
               else (case read_cas_json (bst_files st) (bx_sha256_hex ext) (wx_parse_artifact wx) (bst_state_dir st)
                            (ac_manifest_digest a) 1048576 of
                  Inl e \<Rightarrow> Inl e
                | Inr manifest \<Rightarrow>
                    if \<not> manifest_matches job request input_digest source_commit a manifest
                    then Inl (artifact_invalid ''an artifact manifest does not match the fenced build'')
                    else verify_cas_digest (bst_files st) (bx_sha256_hex ext) (bst_state_dir st) (ac_archive_digest a))))"

text \<open>The loop over the artifacts returns the kinds it has seen.\<close>

fun check_artifacts ::
  "build_state \<Rightarrow> 'v build_ext \<Rightarrow> 'v worker_ext \<Rightarrow> uuid \<Rightarrow> build_complete_request \<Rightarrow> string \<Rightarrow> string
     \<Rightarrow> build_service_row list \<Rightarrow> artifact_completion list \<Rightarrow> string list \<Rightarrow> api_error + string list" where
  "check_artifacts st ext wx job request input_digest source_commit services [] seen = Inr seen"
| "check_artifacts st ext wx job request input_digest source_commit services (a # as) seen =
     (if ac_kind a \<in> set seen \<or> \<not> artifact_numbers_ok a
      then Inl (artifact_invalid ''artifact metadata is invalid'')
      else case check_artifact st ext wx job request input_digest source_commit services a of
             Inl e \<Rightarrow> Inl e
           | Inr _ \<Rightarrow>
               check_artifacts st ext wx job request input_digest source_commit services as (ac_kind a # seen))"

definition artifact_of ::
  "tx_env \<Rightarrow> 'v build_row \<Rightarrow> build_complete_request \<Rightarrow> nat \<Rightarrow> artifact_completion \<Rightarrow> artifact_row" where
  "artifact_of env j request n a =
     \<lparr>art_id = env_fresh env n, art_account_id = bj_account_id j, art_project_id = bj_project_id j, art_job_id = bj_id j,
      art_attempt_id = bcq_attempt_id request, art_fence = bcq_fence request, art_service_id = ac_service_id a,
      art_kind = ac_kind a, art_archive_digest = ac_archive_digest a, art_manifest_digest = ac_manifest_digest a,
      art_packed_bytes = ac_packed_bytes a, art_unpacked_bytes = ac_unpacked_bytes a,
      art_entry_count = ac_entry_count a, art_entrypoint_argv = ac_entrypoint_argv a, art_created_at = env_now env 0\<rparr>"

fun insert_artifacts ::
  "tx_env \<Rightarrow> 'v build_row \<Rightarrow> build_complete_request \<Rightarrow> nat \<Rightarrow> artifact_completion list \<Rightarrow> 'v build_db \<Rightarrow> 'v build_db option" where
  "insert_artifacts env j request n [] db = Some db"
| "insert_artifacts env j request n (a # as) db =
     Option.bind (insert_artifact (artifact_of env j request n a) db) (insert_artifacts env j request (Suc n) as)"

section \<open>Completing a build\<close>

definition live_of_completion :: "build_complete_request \<Rightarrow> live_attempt_request" where
  "live_of_completion request = \<lparr>lar_worker_id = bcq_worker_id request, lar_attempt_id = bcq_attempt_id request,
     lar_fence = bcq_fence request\<rparr>"

definition completion_hash_of :: "'v build_ext \<Rightarrow> uuid \<Rightarrow> build_complete_request \<Rightarrow> string \<Rightarrow> string" where
  "completion_hash_of ext job request bytes =
     bx_sha256 ext (bx_uuid_bytes ext job @ bx_uuid_bytes ext (bcq_attempt_id request)
       @ be_bytes 8 (nat (bcq_fence request mod 2 ^ 64)) @ bcq_worker_id request @ bytes)"

definition completed_build :: "tx_env \<Rightarrow> build_outcome \<Rightarrow> string \<Rightarrow> 'v build_row \<Rightarrow> 'v build_row" where
  "completed_build env oc cleanup_status j =
     j\<lparr>bj_state := bo_state oc, bj_revision := bj_revision j + 1, bj_current_attempt_id := None,
       bj_lease_expires_at := None, bj_terminal_code := Some (bo_code oc),
       bj_cleanup_status := (if cleanup_status = ''confirmed'' then ''confirmed'' else ''pending''),
       bj_updated_at := env_now env 3\<rparr>"

definition completed_attempt :: "tx_env \<Rightarrow> build_outcome \<Rightarrow> string \<Rightarrow> build_attempt_row \<Rightarrow> build_attempt_row" where
  "completed_attempt env oc hash a =
     a\<lparr>ba_state := bo_state oc, ba_finished_at := Some (env_now env 2), ba_terminal_code := Some (bo_code oc),
       ba_completion_hash := Some hash\<rparr>"

definition effect_json :: "build_outcome \<Rightarrow> json" where
  "effect_json oc = JObject [(''state'', JString (bo_state oc)), (''code'', JString (bo_code oc)),
     (''result_manifest_digest'', JString (bo_result_manifest_digest oc)),
     (''cleanup_receipt_digest'', JString (bo_cleanup_receipt_digest oc))]"

definition meter_json :: "'v build_ext \<Rightarrow> int \<Rightarrow> uuid option \<Rightarrow> json" where
  "meter_json ext billed debit = JObject [(''reserved_seconds'', JNumber (show_nat (nat RESERVED_SECONDS))),
     (''finalized_seconds'', JNumber (show_nat (nat billed))),
     (''debit_event_id'', (case debit of None \<Rightarrow> JNull | Some event \<Rightarrow> JString (bx_show_uuid ext event)))]"

text \<open>The updates that record a checked completion, with its receipt and effect.\<close>

definition store_completion ::
  "'v build_ext \<Rightarrow> 'v worker_ext \<Rightarrow> tx_env \<Rightarrow> uuid \<Rightarrow> build_complete_request \<Rightarrow> string \<Rightarrow> string \<Rightarrow> 'v build_row
     \<Rightarrow> 'v build_db \<Rightarrow> ('v build_db, build_complete_response) txn" where
  "store_completion ext wx env job request hash cleanup_status j db =
     (let oc = bcq_outcome request; billed = bo_elapsed_seconds oc; live = live_of_completion request
      in sql (insert_artifacts env j request 1 (bo_artifacts oc) db) (\<lambda>db1.
         attempt (ok_or database_unavailable (charge (env_fresh env 0) j (bcq_attempt_id request) billed db1)) (\<lambda>(db2, debit).
         sql (if bo_state oc \<noteq> ''retriable'' then settle_meter job ''finalized'' billed debit (env_now env 1) db2 else Some db2) (\<lambda>db3.
         sql (update_build_attempts (of_attempt job live) (completed_attempt env oc hash) db3) (\<lambda>db4.
         sql (update_builds (bx_jsonb_ok ext) (of_build job live) (completed_build env oc cleanup_status) db4) (\<lambda>db5.
         attempt (ok_or internal (load_build (bj_account_id j) (bj_project_id j) job db5)) (\<lambda>build.
         let response = \<lparr>bcr_build = build, bcr_effect = effect_json oc, bcr_artifacts = load_artifacts job db5,
               bcr_meter = meter_json ext billed debit\<rparr>
         in attempt (ok_or internal (wx_complete_to_value wx response)) (\<lambda>body.
            sql (insert_build_receipt (bx_jsonb_ok ext)
                   \<lparr>brc_attempt_id = bcq_attempt_id request, brc_job_id = job, brc_fence = bcq_fence request,
                    brc_completion_hash = hash, brc_response_body = body\<rparr> db5) (\<lambda>db6.
            sql (if bo_state oc \<noteq> ''retriable''
                 then insert_build_effect (bx_jsonb_ok ext) False
                   \<lparr>be_job_id = job, be_attempt_id = bcq_attempt_id request, be_fence = bcq_fence request,
                    be_state = bo_state oc, be_code = bo_code oc, be_completion_hash = hash, be_response_body = body\<rparr> db6
                 else Some db6) (\<lambda>db7.
            Committed db7 (Inr response)))))))))))"

definition complete_live_build ::
  "build_state \<Rightarrow> 'v build_ext \<Rightarrow> 'v worker_ext \<Rightarrow> tx_env \<Rightarrow> uuid \<Rightarrow> build_complete_request \<Rightarrow> string \<Rightarrow> 'v build_row
     \<Rightarrow> 'v build_db \<Rightarrow> ('v build_db, build_complete_response) txn" where
  "complete_live_build st ext wx env job request hash j db =
     (let oc = bcq_outcome request; services = services_of job db
      in attempt (ensure (bj_bundle_digest j \<noteq> None \<or> needs_no_source oc)
                    (conflict ''source_materialization_required'' ''the exact source must be materialized before completion'')) (\<lambda>_.
         attempt (read_cas_json (bst_files st) (bx_sha256_hex ext) (wx_parse_result wx) (bst_state_dir st)
                    (bo_result_manifest_digest oc) 1048576) (\<lambda>result.
         attempt (ensure (result_matches job request (bj_input_manifest_digest j) result)
                    (unprocessable ''build_result_invalid'' ''the result manifest does not match the fenced completion'')) (\<lambda>_.
         attempt (read_cas_json (bst_files st) (bx_sha256_hex ext) (wx_parse_cleanup wx) (bst_state_dir st)
                    (bo_cleanup_receipt_digest oc) 1048576) (\<lambda>cleanup.
         attempt (ensure (cleanup_matches job request cleanup)
                    (unprocessable ''build_cleanup_invalid'' ''the cleanup receipt does not match the fenced completion'')) (\<lambda>_.
         attempt (check_artifacts st ext wx job request (bj_input_manifest_digest j) (bj_source_commit j) services
                    (bo_artifacts oc) []) (\<lambda>seen.
         attempt (ensure (bo_state oc = ''succeeded'' \<longrightarrow> length seen = length (remdups (map bs_service_id services)))
                    (artifact_invalid ''successful completion must register every declared build output'')) (\<lambda>_.
         store_completion ext wx env job request hash (cm_status cleanup) j db))))))))"

definition complete_build_tx ::
  "build_state \<Rightarrow> 'v build_ext \<Rightarrow> 'v worker_ext \<Rightarrow> tx_env \<Rightarrow> string \<Rightarrow> build_complete_request \<Rightarrow> 'v build_db
     \<Rightarrow> ('v build_db, build_complete_response) txn" where
  "complete_build_tx st ext wx env job_path request db =
     attempt (require_enabled st) (\<lambda>_.
     attempt (path_uuid (bx_parse_uuid ext) job_path) (\<lambda>job.
     attempt (ensure (build_worker_id (bcq_worker_id request) \<and> valid_completion (bcq_outcome request))
                (unprocessable ''build_result_invalid'' ''the build completion is outside the accepted contract'')) (\<lambda>_.
     attempt (ok_or internal (wx_outcome_bytes wx (bcq_outcome request))) (\<lambda>bytes.
     let hash = completion_hash_of ext job request bytes
     in case find_build_receipt job (bcq_attempt_id request) (bcq_fence request) db of
          Some r \<Rightarrow>
            if brc_completion_hash r \<noteq> hash
            then RolledBack (conflict ''build_completion_conflict'' ''the build already has a different terminal completion'')
            else attempt (ok_or internal (wx_complete_from_value wx (brc_response_body r))) (\<lambda>response.
                 Committed db (Inr response))
        | None \<Rightarrow>
            attempt (lock_live_attempt env job (live_of_completion request) db) (\<lambda>j.
            complete_live_build st ext wx env job request hash j db)))))"

definition complete_build ::
  "build_state \<Rightarrow> 'v build_ext \<Rightarrow> 'v worker_ext \<Rightarrow> tx_env \<Rightarrow> string \<Rightarrow> build_complete_request \<Rightarrow> 'v build_db
     \<Rightarrow> 'v build_db \<times> (api_error + build_complete_response)" where
  "complete_build st ext wx env job_path request db =
     run_txn build_attempt_fk db (complete_build_tx st ext wx env job_path request db)"

section \<open>The reaper\<close>

definition expired_build :: "tx_env \<Rightarrow> 'v build_db \<Rightarrow> ('v build_row \<times> build_attempt_row) option" where
  "expired_build env db =
     first_by (\<lambda>(j, a). (the (bj_lease_expires_at j), bj_id j))
       (filter (\<lambda>(j, a). ba_job_id a = bj_id j \<and> Some (ba_id a) = bj_current_attempt_id j
                  \<and> ba_fence a = bj_current_fence j \<and> bj_state j = ''running''
                  \<and> (case bj_lease_expires_at j of Some t \<Rightarrow> t \<le> env_now env 0 | None \<Rightarrow> False)
                  \<and> bj_id j \<notin> env_locked env \<and> ba_id a \<notin> env_locked env)
          (List.product (bd_jobs db) (bd_attempts db)))"

definition lost_code :: "bool \<Rightarrow> bool \<Rightarrow> string" where
  "lost_code launched exhausted =
     (if launched then ''lease_expired_after_launch'' else if exhausted then ''attempts_exhausted''
      else ''platform_prelaunch_fault'')"

text \<open>
  The seconds billed for a lost attempt: those since its launch, rounded up, at least one and at most
  the reservation.  The conversion to \<open>integer\<close> fails out of range.
\<close>

definition billed_seconds :: "timestamp \<Rightarrow> timestamp option \<Rightarrow> int option" where
  "billed_seconds now launched =
     (case launched of
        None \<Rightarrow> Some 0
      | Some t \<Rightarrow>
          let elapsed = - ((t - now) div second)
          in if in_integer elapsed then Some (min RESERVED_SECONDS (max 1 elapsed)) else None)"

definition lost_build :: "tx_env \<Rightarrow> bool \<Rightarrow> bool \<Rightarrow> 'v build_row \<Rightarrow> 'v build_row" where
  "lost_build env launched final j =
     j\<lparr>bj_state := (if final then ''failed'' else ''retriable''), bj_revision := bj_revision j + 1,
       bj_current_attempt_id := None, bj_lease_expires_at := None,
       bj_terminal_code := (if final then Some (lost_code launched final) else None),
       bj_cleanup_status := (if launched then ''pending'' else bj_cleanup_status j), bj_updated_at := env_now env 3\<rparr>"

definition lost_effect_json :: "bool \<Rightarrow> string \<Rightarrow> int \<Rightarrow> json" where
  "lost_effect_json launched code billed = JObject [(''state'', JString ''failed''), (''code'', JString code),
     (''cleanup_status'', JString (if launched then ''pending'' else ''not_started'')),
     (''finalized_seconds'', JNumber (show_nat (nat billed)))]"

definition settle_lost ::
  "'v build_ext \<Rightarrow> tx_env \<Rightarrow> bool \<Rightarrow> int \<Rightarrow> 'v build_row \<Rightarrow> build_attempt_row \<Rightarrow> 'v build_db \<Rightarrow> ('v build_db, bool) txn" where
  "settle_lost ext env launched billed j a db =
     (let code = lost_code launched True
      in attempt (ok_or database_unavailable (charge (env_fresh env 0) j (ba_id a) billed db)) (\<lambda>(db1, debit).
         sql (settle_meter (bj_id j) ''finalized'' billed debit (env_now env 4) db1) (\<lambda>db2.
         sql (insert_build_effect (bx_jsonb_ok ext) True
                \<lparr>be_job_id = bj_id j, be_attempt_id = ba_id a, be_fence = ba_fence a, be_state = ''failed'', be_code = code,
                 be_completion_hash = bx_sha256 ext (code @ '':'' @ bx_show_uuid ext (ba_id a) @ '':''
                   @ show_nat (nat (ba_fence a))),
                 be_response_body = bx_json_value ext (lost_effect_json launched code billed)\<rparr> db2) (\<lambda>db3.
         Committed db3 (Inr True)))))"

definition reap_build_tx :: "'v build_ext \<Rightarrow> tx_env \<Rightarrow> 'v build_db \<Rightarrow> ('v build_db, bool) txn" where
  "reap_build_tx ext env db =
     (case expired_build env db of
        None \<Rightarrow> Committed db (Inr False)
      | Some (j, a) \<Rightarrow>
          let launched = ba_launched_at a \<noteq> None; final = launched \<or> bj_attempt_count j \<ge> 3
          in attempt (ok_or database_unavailable (billed_seconds (env_now env 1) (ba_launched_at a))) (\<lambda>billed.
             sql (update_build_attempts (\<lambda>b. ba_job_id b = bj_id j \<and> ba_id b = ba_id a \<and> ba_fence b = ba_fence a
                      \<and> ba_state b = ''running'')
                    (\<lambda>b. b\<lparr>ba_state := (if final then ''failed'' else ''retriable''), ba_finished_at := Some (env_now env 2),
                       ba_terminal_code := Some (lost_code launched final)\<rparr>) db) (\<lambda>db1.
             sql (update_builds (bx_jsonb_ok ext) (\<lambda>k. bj_id k = bj_id j) (lost_build env launched final) db1) (\<lambda>db2.
             if final then settle_lost ext env launched billed j a db2 else Committed db2 (Inr True)))))"

fun reap_builds_loop ::
  "'v build_ext \<Rightarrow> (nat \<Rightarrow> tx_env) \<Rightarrow> nat \<Rightarrow> 'v build_db \<Rightarrow> 'v build_db \<times> (api_error + unit)" where
  "reap_builds_loop ext envs 0 db = (db, Inr ())"
| "reap_builds_loop ext envs (Suc n) db =
     (case run_txn build_attempt_fk db (reap_build_tx ext (envs n) db) of
        (db1, Inl e) \<Rightarrow> (db1, Inl e)
      | (db1, Inr False) \<Rightarrow> (db1, Inr ())
      | (db1, Inr True) \<Rightarrow> reap_builds_loop ext envs n db1)"

definition reap_expired_builds ::
  "'v build_ext \<Rightarrow> (nat \<Rightarrow> tx_env) \<Rightarrow> 'v build_db \<Rightarrow> 'v build_db \<times> (api_error + unit)" where
  "reap_expired_builds ext envs db = reap_builds_loop ext envs 64 db"

section \<open>Steps\<close>

text \<open>
  One transaction of the build queue.  \<open>elsewhere\<close> is a transaction of another component: it may
  change everything but the tables of the build queue, the usage events and the entitlements.
\<close>

definition queue_kept :: "'v build_db \<Rightarrow> 'v build_db \<Rightarrow> bool" where
  "queue_kept db db' \<longleftrightarrow>
     bd_jobs db' = bd_jobs db \<and> bd_services db' = bd_services db \<and> bd_secret_refs db' = bd_secret_refs db
     \<and> bd_attempts db' = bd_attempts db \<and> bd_artifacts db' = bd_artifacts db \<and> bd_effects db' = bd_effects db
     \<and> bd_receipts db' = bd_receipts db \<and> bd_meters db' = bd_meters db
     \<and> bd_materializations db' = bd_materializations db
     \<and> ad_usage (bd_adm db') = ad_usage (bd_adm db) \<and> ad_entitlements (bd_adm db') = ad_entitlements (bd_adm db)"

inductive build_step :: "'v build_ext \<Rightarrow> 'v build_db \<Rightarrow> 'v build_db \<Rightarrow> bool" for ext where
  enqueue: "build_step ext db (fst (enqueue st ext env auth project deployment headers request db))"
| cancel: "build_step ext db (fst (cancel_build st ext env auth project job headers db))"
| lease: "build_step ext db (fst (lease_build st ext env request db))"
| renew: "build_step ext db (fst (renew_build st ext env job request db))"
| materialize: "build_step ext db (fst (materialize st ext wx env job request snapshot db))"
| credentials: "build_step ext db (fst (resolve_build_credentials st ext sx key env job request db))"
| cancel_ack: "build_step ext db (fst (cancel_ack st ext wx env job request db))"
| complete: "build_step ext db (fst (complete_build st ext wx env job request db))"
| reap: "build_step ext db (fst (run_txn build_attempt_fk db (reap_build_tx ext env db)))"
| elsewhere: "queue_kept db db' \<Longrightarrow> build_step ext db db'"

end
