(* ===== verification/Build_Frames.thy ===== *)
theory Build_Frames
  imports Build_Results
begin

text \<open>
  What the transactions of the build queue have in common: a relation between databases that each of
  their statements frames is respected by every step.  The locale \<open>build_frame\<close> states what is
  asked of the statements and derives it for the endpoints.
\<close>

section \<open>Quiet statements\<close>

text \<open>A statement that leaves builds, meters, artifacts, usage and entitlements alone and only adds receipts.\<close>

definition quiet :: "'v build_db \<Rightarrow> 'v build_db \<Rightarrow> bool" where
  "quiet db db' \<longleftrightarrow>
     bd_jobs db' = bd_jobs db \<and> bd_meters db' = bd_meters db \<and> bd_artifacts db' = bd_artifacts db
     \<and> ad_usage (bd_adm db') = ad_usage (bd_adm db) \<and> ad_entitlements (bd_adm db') = ad_entitlements (bd_adm db)
     \<and> set (bd_receipts db) \<subseteq> set (bd_receipts db')"

lemma quiet_refl [simp]: "quiet db db"
  by (simp add: quiet_def)

lemma quiet_trans: "quiet db db1 \<Longrightarrow> quiet db1 db2 \<Longrightarrow> quiet db db2"
  by (auto simp: quiet_def)

lemma quiet_jobs: "quiet db db' \<Longrightarrow> bd_jobs db' = bd_jobs db"
  by (simp add: quiet_def)

lemma quiet_used: "quiet db db' \<Longrightarrow> used_seconds e db' = used_seconds e db"
  by (simp add: quiet_def used_seconds_def)

lemma quiet_queue_kept: "queue_kept db db' \<Longrightarrow> quiet db db'"
  by (simp add: quiet_def queue_kept_def)

lemma quiet_insert_attempt: "insert_attempt_row a db = Some db' \<Longrightarrow> quiet db db'"
  by (auto simp: insert_attempt_row_def quiet_def split: if_splits)

lemma quiet_update_attempts: "update_build_attempts p f db = Some db' \<Longrightarrow> quiet db db'"
  by (auto simp: update_build_attempts_def quiet_def split: if_splits)

lemma quiet_services: "insert_service_snapshots job account project configuration n services db = Some db' \<Longrightarrow> quiet db db'"
proof (induction services arbitrary: n db)
  case (Cons s services)
  then obtain db1 where "insert_build_service (service_row_of job account project configuration n s) db = Some db1"
    and rest: "insert_service_snapshots job account project configuration (n + 1) services db1 = Some db'"
    by (auto simp: bind_eq_Some_conv)
  then have "quiet db db1" by (auto simp: insert_build_service_def quiet_def split: if_splits)
  then show ?case using Cons.IH [OF rest] by (rule quiet_trans)
qed simp

lemma quiet_insert_secret: "insert_build_secret r db = Some db' \<Longrightarrow> quiet db db'"
  by (auto simp: insert_build_secret_def quiet_def split: if_splits)

lemma quiet_secrets: "insert_secret_snapshots job account project secrets db = Some db' \<Longrightarrow> quiet db db'"
proof (induction secrets arbitrary: db)
  case (Cons s secrets)
  then obtain r db1 where "insert_build_secret r db = Some db1"
    and rest: "insert_secret_snapshots job account project secrets db1 = Some db'"
    by (auto simp: bind_eq_Some_conv)
  then show ?case using quiet_insert_secret Cons.IH [OF rest] quiet_trans by blast
qed simp

lemma quiet_audit: "build_audit e db = Some db' \<Longrightarrow> quiet db db'"
  by (auto simp: build_audit_def insert_admission_audit_def quiet_def split: if_splits)

lemma quiet_response: "store_build_response ext account operation key hash status response db = Inr db' \<Longrightarrow> quiet db db'"
  by (auto simp: store_build_response_def quiet_def split: sum.splits)

lemma quiet_receipt: "insert_build_receipt ok r db = Some db' \<Longrightarrow> quiet db db'"
  by (auto simp: insert_build_receipt_def quiet_def split: if_splits)

lemma quiet_effect: "insert_build_effect ok lenient e db = Some db' \<Longrightarrow> quiet db db'"
  by (auto simp: insert_build_effect_def quiet_def split: if_splits)

lemma quiet_materialization: "upsert_materialization z db = Some (db', m) \<Longrightarrow> quiet db db'"
  by (auto simp: upsert_materialization_def quiet_def split: if_splits option.splits)

lemmas quiet_statements = quiet_insert_attempt quiet_update_attempts quiet_services quiet_secrets quiet_audit quiet_response
  quiet_receipt quiet_effect quiet_materialization

lemma jobs_of_statements:
  "insert_artifacts env j request n as db = Some db' \<Longrightarrow> bd_jobs db' = bd_jobs db"
  "charge event k aid billed db = Some (db', debit) \<Longrightarrow> bd_jobs db' = bd_jobs db"
  "settle_meter job state seconds debit' now db = Some db' \<Longrightarrow> bd_jobs db' = bd_jobs db"
proof -
  show "insert_artifacts env j request n as db = Some db' \<Longrightarrow> bd_jobs db' = bd_jobs db"
    by (induction as arbitrary: n db) (auto simp: bind_eq_Some_conv insert_artifact_def split: if_splits)
  show "charge event k aid billed db = Some (db', debit) \<Longrightarrow> bd_jobs db' = bd_jobs db"
    by (auto simp: charge_def insert_debit_def bind_eq_Some_conv split: if_splits)
  show "settle_meter job state seconds debit' now db = Some db' \<Longrightarrow> bd_jobs db' = bd_jobs db"
    by (auto simp: settle_meter_def Let_def split: if_splits)
qed

section \<open>Updates of builds\<close>

text \<open>
  The updates that the endpoints make: a build keeps its identity, a finished build is not
  updated and a canceled one stays canceled.
\<close>

definition allowed_update :: "('v build_row \<Rightarrow> bool) \<Rightarrow> ('v build_row \<Rightarrow> 'v build_row) \<Rightarrow> 'v build_row list \<Rightarrow> bool" where
  "allowed_update p f js \<longleftrightarrow>
     (\<forall>j \<in> set js. p j \<longrightarrow> bj_id (f j) = bj_id j \<and> bj_state j \<notin> {''succeeded'', ''failed''}
        \<and> (bj_state j = ''canceled'' \<longrightarrow> bj_state (f j) = ''canceled''))"

definition build_ids :: "'v build_db \<Rightarrow> bool" where
  "build_ids db \<longleftrightarrow> distinct (map bj_id (bd_jobs db))"

lemma build_ids_unique:
  "build_ids db \<Longrightarrow> j \<in> set (bd_jobs db) \<Longrightarrow> k \<in> set (bd_jobs db) \<Longrightarrow> bj_id k = bj_id j \<Longrightarrow> k = j"
  unfolding build_ids_def by (metis distinct_map inj_onD)

lemma allowed_update_one:
  assumes "build_ids db" "j \<in> set (bd_jobs db)" "bj_state j \<notin> {''succeeded'', ''failed'', ''canceled''}"
    and "bj_id (f j) = bj_id j" "bd_jobs db1 = bd_jobs db"
  shows "allowed_update (\<lambda>k. bj_id k = bj_id j) f (bd_jobs db1)"
  unfolding allowed_update_def assms(5) using build_ids_unique [OF assms(1,2)] assms(3,4) by auto

lemma allowed_update_running: "(\<And>j. bj_id (f j) = bj_id j) \<Longrightarrow> allowed_update (of_build job request) f js"
  by (auto simp: allowed_update_def of_build_def)

lemma allowed_update_canceled:
  "(\<And>j. bj_id (f j) = bj_id j \<and> bj_state (f j) = bj_state j) \<Longrightarrow>
     allowed_update (\<lambda>k. bj_id k = job \<and> bj_state k = ''canceled'' \<and> bj_cleanup_status k = ''pending'') f js"
  by (auto simp: allowed_update_def)

section \<open>Frames\<close>

locale build_frame =
  fixes rel :: "'v build_db \<Rightarrow> 'v build_db \<Rightarrow> bool"
  assumes rel_trans: "rel db db1 \<Longrightarrow> rel db1 db2 \<Longrightarrow> rel db db2"
    and quiet_rel: "quiet db db' \<Longrightarrow> rel db db'"
    and insert_build_rel: "insert_build ok j db = Some db' \<Longrightarrow> rel db db'"
    and update_builds_rel: "allowed_update p f (bd_jobs db) \<Longrightarrow> update_builds ok p f db = Some db' \<Longrightarrow> rel db db'"
    and insert_meter_rel:
      "e \<in> set (ad_entitlements (bd_adm db)) \<Longrightarrow> check_allowance e db = Inr () \<Longrightarrow>
         insert_meter (new_meter job account project deployment (ent_id e)) db = Some db' \<Longrightarrow> rel db db'"
    and release_rel: "settle_meter job ''released'' 0 None now db = Some db' \<Longrightarrow> rel db db'"
    and charge_rel:
      "0 \<le> billed \<Longrightarrow> billed \<le> RESERVED_SECONDS \<Longrightarrow> charge event j aid billed db = Some (db1, debit) \<Longrightarrow>
         settle_meter (bj_id j) ''finalized'' billed debit now db1 = Some db2 \<Longrightarrow> rel db db2"
begin

lemma rel_refl: "rel db db"
  by (simp add: quiet_rel)

lemma quiet_then: "rel db db1 \<Longrightarrow> quiet db1 db2 \<Longrightarrow> rel db db2"
  using rel_trans quiet_rel by blast

text \<open>A transaction that starts from \<open>db\<close>: what it commits is related to \<open>db\<close>.\<close>

abbreviation frames :: "'v build_db \<Rightarrow> ('v build_db, 'a) txn \<Rightarrow> bool" where
  "frames db body \<equiv> commits (\<lambda>db' _. rel db db') body"

lemma frames_run: "frames db body \<Longrightarrow> rel db (fst (run_txn deferred db body))"
  by (rule run_txn_inv) (simp_all add: rel_refl)

lemma store_new_build_rel:
  assumes "e \<in> set (ad_entitlements (bd_adm db))" "check_allowance e db = Inr ()"
  shows "frames db (store_new_build ext env auth account project deployment request manifest digest (ent_id e)
    operation key hash db)"
  unfolding store_new_build_def Let_def
proof (intro commits_rules commits_Committed)
  fix db1 db2 db3 db4 build db5 db6
  assume 1: "insert_build (bx_jsonb_ok ext) (new_build env ext account project deployment request manifest digest) db = Some db1"
    and 2: "insert_service_snapshots (im_execution_id manifest) account project (im_configuration_revision_id manifest) 0
      (im_services manifest) db1 = Some db2"
    and 3: "insert_secret_snapshots (im_execution_id manifest) account project (im_secret_version_refs manifest) db2 = Some db3"
    and 4: "insert_meter (new_meter (im_execution_id manifest) account project deployment (ent_id e)) db3 = Some db4"
    and 5: "build_audit (owner_audit (env_fresh env 1) account (auth_session_id auth) ''m3.build.enqueue''
      (im_execution_id manifest)) db4 = Some db5"
    and 6: "store_build_response ext account operation key hash 201 build db5 = Inr db6"
  have "bd_adm db1 = bd_adm db" "bd_meters db1 = bd_meters db"
    using 1 by (auto simp: insert_build_def Let_def split: if_splits)
  moreover have q: "quiet db1 db3" using quiet_services [OF 2] quiet_secrets [OF 3] by (rule quiet_trans)
  ultimately have "e \<in> set (ad_entitlements (bd_adm db3))" "check_allowance e db3 = Inr ()"
    using assms by (auto simp: quiet_def check_allowance_def used_seconds_def)
  then have "rel db3 db4" using 4 insert_meter_rel by blast
  moreover have "rel db db3" using insert_build_rel [OF 1] q by (rule quiet_then)
  moreover have "quiet db4 db6" using quiet_audit [OF 5] quiet_response [OF 6] by (rule quiet_trans)
  ultimately show "rel db db6" using rel_trans quiet_then by blast
qed

lemma load_context_entitlement:
  "load_context account project deployment request db = Some c \<Longrightarrow> ec_entitlement c \<in> set (ad_entitlements (bd_adm db))"
  by (auto simp: load_context_def Let_def bind_eq_Some_conv dest: find_SomeD)

lemma enqueue_admitted_rel:
  assumes "ec_entitlement c \<in> set (ad_entitlements (bd_adm db))" "check_allowance (ec_entitlement c) db = Inr ()"
  shows "frames db (enqueue_admitted st ext env auth account project deployment request c source_tree operation key hash db)"
  unfolding enqueue_admitted_def Let_def
  by (intro commits_rules commits_Committed store_new_build_rel assms) (blast intro: quiet_rel quiet_response)

lemma enqueue_new_rel:
  "frames db (enqueue_new st ext env auth account project deployment wanted request operation key hash db)"
  unfolding enqueue_new_def
  by (intro commits_rules enqueue_admitted_rel) (auto dest: load_context_entitlement)

lemma enqueue_rel: "rel db (fst (enqueue st ext env auth project_path deployment_path headers request db))"
  unfolding enqueue_def enqueue_tx_def Let_def
  by (intro frames_run commits_rules commits_Committed enqueue_new_rel rel_refl)

lemma apply_cancel_rel:
  assumes "build_ids db" "j \<in> set (bd_jobs db)" "apply_cancel ext env j db = Some db'"
  shows "rel db db'"
proof (cases "settled_build (bj_state j)")
  case False
  let ?f = "canceled_build env (bj_current_attempt_id j \<noteq> None)"
  from False assms(3) obtain db1 where
    first: "(case bj_current_attempt_id j of
        Some aid \<Rightarrow> update_build_attempts (\<lambda>a. ba_job_id a = bj_id j \<and> ba_id a = aid \<and> ba_fence a = bj_current_fence j
             \<and> ba_state a = ''running'') (\<lambda>a. a\<lparr>ba_state := ''canceled'', ba_finished_at := Some (env_now env 1),
             ba_terminal_code := Some ''build_canceled''\<rparr>) db
      | None \<Rightarrow> settle_meter (bj_id j) ''released'' 0 None (env_now env 1) db) = Some db1"
    and upd: "update_builds (bx_jsonb_ok ext) (\<lambda>k. bj_id k = bj_id j) ?f db1 = Some db'"
    by (auto simp: apply_cancel_def bind_eq_Some_conv)
  have "rel db db1 \<and> bd_jobs db1 = bd_jobs db"
  proof (cases "bj_current_attempt_id j")
    case None
    with first show ?thesis using release_rel jobs_of_statements(3) by auto
  next
    case (Some aid)
    with first have "quiet db db1" using quiet_update_attempts by auto
    then show ?thesis using quiet_rel quiet_jobs by blast
  qed
  moreover from this have "allowed_update (\<lambda>k. bj_id k = bj_id j) ?f (bd_jobs db1)"
    using False assms(1,2) by (intro allowed_update_one) (auto simp: settled_build_def canceled_build_def)
  ultimately show ?thesis using update_builds_rel [OF _ upd] rel_trans by blast
qed (use assms(3) in \<open>simp add: apply_cancel_def rel_refl\<close>)

lemma cancel_known_rel:
  assumes "build_ids db"
  shows "frames db (cancel_known ext env auth account project job wanted operation key hash db)"
  unfolding cancel_known_def
  by (intro commits_rules commits_Committed)
    (clarsimp dest!: find_SomeD, meson apply_cancel_rel [OF assms] quiet_audit quiet_response quiet_then)

lemma cancel_rel:
  "build_ids db \<Longrightarrow> rel db (fst (cancel_build st ext env auth project_path job_path headers db))"
  unfolding cancel_build_def cancel_build_tx_def Let_def
  by (intro frames_run commits_rules commits_Committed rel_refl cancel_known_rel)

lemma leasable_build_in: "leasable_build env profiles db = Some j \<Longrightarrow>
    j \<in> set (bd_jobs db) \<and> bj_state j \<in> {''queued'', ''retriable''} \<and> account_clear (bj_account_id j) db"
  by (auto simp: leasable_build_def dest: first_by_Some)

lemma grant_lease_rel:
  assumes "build_ids db" "j \<in> set (bd_jobs db)" "bj_state j \<in> {''queued'', ''retriable''}"
  shows "frames db (grant_lease st ext env worker j db)"
  unfolding grant_lease_def Let_def
proof (intro commits_rules commits_Committed)
  fix db1 db2
  assume "insert_attempt_row (new_build_attempt env worker (env_now env 1 + lease_seconds st * second) j) db = Some db1"
    and upd: "update_builds (bx_jsonb_ok ext) (\<lambda>k. bj_id k = bj_id j)
      (leased_build env (env_now env 1 + lease_seconds st * second)) db1 = Some db2"
  then have "quiet db db1" by (auto dest: quiet_insert_attempt)
  moreover from this have "allowed_update (\<lambda>k. bj_id k = bj_id j)
      (leased_build env (env_now env 1 + lease_seconds st * second)) (bd_jobs db1)"
    using assms by (intro allowed_update_one) (auto simp: leased_build_def quiet_jobs)
  ultimately show "rel db db2" using update_builds_rel [OF _ upd] quiet_rel rel_trans by blast
qed

lemma lease_rel:
  assumes "build_ids db"
  shows "rel db (fst (lease_build st ext env request db))"
  unfolding lease_build_def lease_build_tx_def
proof (intro frames_run commits_rules commits_Committed rel_refl grant_lease_rel assms)
  fix j db1 db2
  assume j: "leasable_build env (blr_profiles request) db = Some j"
    and upd: "update_builds (bx_jsonb_ok ext) (\<lambda>k. bj_id k = bj_id j) (stale_build env) db = Some db1"
    and "settle_meter (bj_id j) ''released'' 0 None (env_now env 2) db1 = Some db2"
  moreover have "allowed_update (\<lambda>k. bj_id k = bj_id j) (stale_build env) (bd_jobs db)"
    using assms leasable_build_in [OF j] by (intro allowed_update_one) (auto simp: stale_build_def)
  ultimately show "rel db db2" using update_builds_rel release_rel rel_trans by blast
qed (auto dest: leasable_build_in)

lemma extend_rel:
  assumes "update_build_attempts p g db = Some db1"
    and "update_builds ok (of_build job request) (\<lambda>j. j\<lparr>bj_lease_expires_at := t, bj_updated_at := now\<rparr>) db1 = Some db2"
  shows "rel db db2"
proof -
  have "rel db1 db2"
    by (rule update_builds_rel [OF allowed_update_running assms(2)]) simp
  with quiet_update_attempts [OF assms(1)] show ?thesis using quiet_rel rel_trans by blast
qed

lemma renew_rel: "rel db (fst (renew_build st ext env job_path request db))"
  unfolding renew_build_def Let_def extend_lease_def
  by (intro frames_run commits_rules commits_Committed) (auto simp: bind_eq_Some_conv intro: extend_rel)

lemma handoff_rel: "frames db (handoff_source_rejection ext env job request db)"
  unfolding handoff_source_rejection_def Let_def
  by (intro commits_rules commits_Committed) (auto intro: extend_rel)

lemma handoff_rel_after: "quiet db db1 \<Longrightarrow> frames db (handoff_source_rejection ext env job request db1)"
  by (rule commits_mono [OF handoff_rel]) (use quiet_rel rel_trans in blast)

lemma running_update_rel:
  "update_builds ok (of_build job request) f db1 = Some db2 \<Longrightarrow> (\<And>j. bj_id (f j) = bj_id j) \<Longrightarrow> rel db db1 \<Longrightarrow> rel db db2"
  using update_builds_rel [OF allowed_update_running] rel_trans by blast

lemma store_materialization_rel:
  "frames db (store_materialization ext wx env job request j n materialized db)"
  unfolding store_materialization_def Let_def
  by (intro commits_rules commits_Committed handoff_rel_after)
    (auto dest!: quiet_materialization elim: running_update_rel simp del: append.simps intro: quiet_rel)

lemma materialize_rel: "rel db (fst (materialize st ext wx env job_path request snapshot db))"
  unfolding materialize_def materialize_tx_def reuse_materialization_def
  by (intro frames_run commits_rules)
    (auto intro!: commits_rules commits_Committed handoff_rel store_materialization_rel rel_refl split: option.split sum.split)

lemma credentials_rel: "rel db (fst (resolve_build_credentials st ext sx key env job_path request db))"
  unfolding resolve_build_credentials_def Let_def
  by (intro frames_run commits_rules commits_Committed) (auto dest: quiet_update_attempts intro: quiet_rel)

lemma apply_cancel_ack_rel:
  assumes "check_cancel_ack request = Inr u" "bj_id j = job"
  shows "frames db (apply_cancel_ack st ext wx env job request hash j db)"
  unfolding apply_cancel_ack_def Let_def
proof (intro commits_rules commits_Committed)
  fix db1 db2 debit db3 body db4 charged
  assume "ok_or database_unavailable (charge (env_fresh env 0) j (ckr_attempt_id request) (ckr_elapsed_seconds request) db)
      = Inr charged" "charged = (db1, debit)"
    and "settle_meter job ''finalized'' (ckr_elapsed_seconds request) debit (env_now env 1) db1 = Some db2"
    and upd: "update_builds (bx_jsonb_ok ext)
      (\<lambda>k. bj_id k = job \<and> bj_state k = ''canceled'' \<and> bj_cleanup_status k = ''pending'')
      (\<lambda>k. k\<lparr>bj_cleanup_status := ''confirmed'', bj_revision := bj_revision k + 1, bj_updated_at := env_now env 2\<rparr>) db2
      = Some db3"
    and "insert_build_receipt (bx_jsonb_ok ext)
         \<lparr>brc_attempt_id = ckr_attempt_id request, brc_job_id = job, brc_fence = ckr_fence request,
          brc_completion_hash = hash, brc_response_body = body\<rparr> db3 = Some db4"
  moreover have "rel db2 db3" by (rule update_builds_rel [OF allowed_update_canceled upd]) simp
  ultimately have "rel db db2" "rel db2 db3" "quiet db3 db4"
    using assms charge_rel [of "ckr_elapsed_seconds request" _ j] quiet_receipt by (auto simp: check_cancel_ack_def)
  then show "rel db db4" using rel_trans quiet_then by blast
qed

lemma cancel_ack_rel: "rel db (fst (cancel_ack st ext wx env job_path request db))"
  unfolding cancel_ack_def cancel_ack_tx_def replay_cancel_ack_def
  by (intro frames_run commits_rules commits_Committed apply_cancel_ack_rel rel_refl)
    (auto dest!: find_SomeD simp: awaiting_cleanup_def)

lemma expired_build_in: "expired_build env db = Some (j, a) \<Longrightarrow> j \<in> set (bd_jobs db) \<and> bj_state j = ''running''"
  by (auto simp: expired_build_def dest!: first_by_Some)

lemma billed_seconds_bounds: "billed_seconds now launched = Some billed \<Longrightarrow> 0 \<le> billed \<and> billed \<le> RESERVED_SECONDS"
  by (auto simp: billed_seconds_def RESERVED_SECONDS_def Let_def split: option.splits if_splits)

lemma settle_lost_rel:
  assumes "0 \<le> billed" "billed \<le> RESERVED_SECONDS"
  shows "frames db (settle_lost ext env launched billed j a db)"
  unfolding settle_lost_def Let_def
  by (intro commits_rules commits_Committed) (auto dest!: quiet_effect intro: quiet_then charge_rel [OF assms])

lemma reap_rel:
  assumes "build_ids db"
  shows "rel db (fst (run_txn build_attempt_fk db (reap_build_tx ext env db)))"
  unfolding reap_build_tx_def Let_def
proof (intro frames_run commits_rules commits_Committed rel_refl)
  fix x billed db1 db2 and j :: "'v build_row" and a :: build_attempt_row
  let ?launched = "ba_launched_at a \<noteq> None" and ?final = "ba_launched_at a \<noteq> None \<or> bj_attempt_count j \<ge> 3"
  assume x: "expired_build env db = Some x" "x = (j, a)"
    and billed: "ok_or database_unavailable (billed_seconds (env_now env 1) (ba_launched_at a)) = Inr billed"
    and upd: "update_builds (bx_jsonb_ok ext) (\<lambda>k. bj_id k = bj_id j) (lost_build env ?launched ?final) db1 = Some db2"
    and att: "update_build_attempts (\<lambda>b. ba_job_id b = bj_id j \<and> ba_id b = ba_id a \<and> ba_fence b = ba_fence a \<and> ba_state b = ''running'')
       (\<lambda>b. b\<lparr>ba_state := (if ?final then ''failed'' else ''retriable''), ba_finished_at := Some (env_now env 2),
                       ba_terminal_code := Some (lost_code ?launched ?final)\<rparr>) db = Some db1"
  have q: "quiet db db1" using att by (rule quiet_update_attempts)
  have "allowed_update (\<lambda>k. bj_id k = bj_id j) (lost_build env ?launched ?final) (bd_jobs db1)"
    using assms expired_build_in [of env db j a] x q by (intro allowed_update_one) (auto simp: lost_build_def quiet_jobs)
  then have db2: "rel db db2" using update_builds_rel [OF _ upd] q quiet_rel rel_trans by blast
  then show "rel db db2" .
  have "0 \<le> billed" "billed \<le> RESERVED_SECONDS" using billed_seconds_bounds billed by auto
  then show "frames db (settle_lost ext env ?launched billed j a db2)"
    by (intro commits_mono [OF settle_lost_rel]) (auto intro: rel_trans [OF db2])
qed

text \<open>Completion is a frame when the inserts of its artifacts are one.\<close>

lemma store_completion_rel:
  assumes arts: "\<And>db'. insert_artifacts env j request 1 (bo_artifacts (bcq_outcome request)) db = Some db' \<Longrightarrow> rel db db'"
    and valid: "valid_completion (bcq_outcome request)" and job: "bj_id j = job"
  shows "frames db (store_completion ext wx env job request hash cleanup_status j db)"
  unfolding store_completion_def Let_def
proof (intro commits_rules commits_Committed)
  let ?oc = "bcq_outcome request" and ?live = "live_of_completion request"
  let ?billed = "bo_elapsed_seconds ?oc"
  fix db1 x db2 debit db3 db4 db5 build body db6 db7
  assume 1: "insert_artifacts env j request 1 (bo_artifacts ?oc) db = Some db1"
    and 2: "ok_or database_unavailable (charge (env_fresh env 0) j (bcq_attempt_id request) ?billed db1) = Inr x" "x = (db2, debit)"
    and 3: "(if bo_state ?oc \<noteq> ''retriable'' then settle_meter job ''finalized'' ?billed debit (env_now env 1) db2 else Some db2)
      = Some db3"
    and 4: "update_build_attempts (of_attempt job ?live) (completed_attempt env ?oc hash) db3 = Some db4"
    and 5: "update_builds (bx_jsonb_ok ext) (of_build job ?live) (completed_build env ?oc cleanup_status) db4 = Some db5"
    and 6: "insert_build_receipt (bx_jsonb_ok ext)
         \<lparr>brc_attempt_id = bcq_attempt_id request, brc_job_id = job, brc_fence = bcq_fence request,
          brc_completion_hash = hash, brc_response_body = body\<rparr> db5 = Some db6"
    and 7: "(if bo_state ?oc \<noteq> ''retriable''
         then insert_build_effect (bx_jsonb_ok ext) False
           \<lparr>be_job_id = job, be_attempt_id = bcq_attempt_id request, be_fence = bcq_fence request,
            be_state = bo_state ?oc, be_code = bo_code ?oc, be_completion_hash = hash, be_response_body = body\<rparr> db6
         else Some db6) = Some db7"
  have "rel db1 db3"
  proof (cases "bo_state ?oc = ''retriable''")
    case True
    then have "?billed = 0" using valid by (simp add: valid_completion_def valid_state_code_def)
    with 2 3 True show ?thesis by (simp add: charge_def rel_refl)
  next
    case False
    then show ?thesis
      using charge_rel [of ?billed "env_fresh env 0" j "bcq_attempt_id request" db1 db2 debit "env_now env 1" db3] 2 3 valid job
      by (simp add: valid_completion_def)
  qed
  then have "rel db db4" using arts [OF 1] quiet_update_attempts [OF 4] rel_trans quiet_then by blast
  then have "rel db db5" by (rule running_update_rel [OF 5, rotated]) (simp add: completed_build_def)
  moreover have "quiet db5 db7"
    using quiet_receipt [OF 6] 7 by (auto split: if_splits intro: quiet_trans [OF _ quiet_effect])
  ultimately show "rel db db7" by (rule quiet_then)
qed

lemma complete_rel:
  assumes arts: "\<And>j as db'. valid_completion (bcq_outcome request) \<Longrightarrow>
    insert_artifacts env j request 1 (bo_artifacts (bcq_outcome request)) db = Some db' \<Longrightarrow> rel db db'"
  shows "rel db (fst (complete_build st ext wx env job_path request db))"
  unfolding complete_build_def complete_build_tx_def complete_live_build_def Let_def
  by (intro frames_run commits_rules commits_Committed store_completion_rel rel_refl)
    (auto dest!: find_SomeD simp: lock_live_attempt_def live_attempt_def arts split: if_splits)

lemma step_rel:
  assumes "build_step ext db db'" and "build_ids db"
    and arts: "\<And>env j request as db'. valid_completion (bcq_outcome request) \<Longrightarrow>
      insert_artifacts env j request 1 (bo_artifacts (bcq_outcome request)) db = Some db' \<Longrightarrow> rel db db'"
  shows "rel db db'"
  using assms(1,2)
proof cases
  case (complete st wx env job request)
  then show ?thesis using complete_rel arts by blast
qed (auto intro: enqueue_rel cancel_rel lease_rel renew_rel materialize_rel credentials_rel cancel_ack_rel reap_rel
    quiet_rel quiet_queue_kept)

end
end
