(* ===== verification/Build_Properties.thy ===== *)
theory Build_Properties
  imports Build_Frames
begin

text \<open>
  What holds of every run of the build queue: the build allowance is never exceeded, finished builds
  do not change, a build lost after its launch blocks its account, acknowledgments are not
  repeatable, and a successful build has exactly its declared artifacts.
\<close>

section \<open>Finished builds stay\<close>

definition finished_kept :: "'v build_db \<Rightarrow> 'v build_db \<Rightarrow> bool" where
  "finished_kept db db' \<longleftrightarrow>
     set (bd_receipts db) \<subseteq> set (bd_receipts db')
     \<and> (build_ids db \<longrightarrow> build_ids db'
        \<and> (\<forall>j \<in> set (bd_jobs db). bj_state j \<in> {''succeeded'', ''failed''} \<longrightarrow> j \<in> set (bd_jobs db'))
        \<and> (\<forall>j \<in> set (bd_jobs db). bj_state j = ''canceled'' \<longrightarrow>
             (\<exists>k \<in> set (bd_jobs db'). bj_id k = bj_id j \<and> bj_state k = ''canceled'')))"

lemma finished_kept_same: "bd_jobs db' = bd_jobs db \<Longrightarrow> set (bd_receipts db) \<subseteq> set (bd_receipts db') \<Longrightarrow> finished_kept db db'"
  by (auto simp: finished_kept_def build_ids_def)

lemma finished_kept_trans:
  assumes "finished_kept db db1" "finished_kept db1 db2"
  shows "finished_kept db db2"
proof -
  have "\<exists>k \<in> set (bd_jobs db2). bj_id k = bj_id j \<and> bj_state k = ''canceled''"
    if j: "build_ids db" "j \<in> set (bd_jobs db)" "bj_state j = ''canceled''" for j
  proof -
    obtain k where "k \<in> set (bd_jobs db1)" "bj_id k = bj_id j" "bj_state k = ''canceled''"
      using assms(1) j by (auto simp: finished_kept_def)
    with assms j(1) show ?thesis unfolding finished_kept_def by fastforce
  qed
  with assms show ?thesis unfolding finished_kept_def by blast
qed

lemma finished_kept_insert: "insert_build ok j db = Some db' \<Longrightarrow> finished_kept db db'"
  by (auto simp: insert_build_def finished_kept_def build_ids_def Let_def split: if_splits)

lemma finished_kept_update:
  assumes "allowed_update p f (bd_jobs db)" "update_builds ok p f db = Some db'"
  shows "finished_kept db db'"
proof -
  have jobs: "bd_jobs db' = map (\<lambda>j. if p j then f j else j) (bd_jobs db)" "bd_receipts db' = bd_receipts db"
    using assms(2) by (auto simp: update_builds_def Let_def split: if_splits)
  have "map bj_id (bd_jobs db') = map bj_id (bd_jobs db)"
    using assms(1) unfolding jobs(1) by (auto simp: allowed_update_def)
  then have "build_ids db \<longrightarrow> build_ids db'" by (simp add: build_ids_def)
  moreover have "j \<in> set (bd_jobs db')" if "j \<in> set (bd_jobs db)" "bj_state j \<in> {''succeeded'', ''failed''}" for j
    using that assms(1) unfolding jobs(1) by (force simp: allowed_update_def)
  moreover have "\<exists>k \<in> set (bd_jobs db'). bj_id k = bj_id j \<and> bj_state k = ''canceled''"
    if "j \<in> set (bd_jobs db)" "bj_state j = ''canceled''" for j
    using that assms(1) unfolding jobs(1) allowed_update_def by (intro bexI [of _ "if p j then f j else j"]) auto
  ultimately show ?thesis using jobs(2) by (simp add: finished_kept_def)
qed

lemma receipts_of_statements:
  "insert_artifacts env j request n as db = Some db' \<Longrightarrow> bd_receipts db' = bd_receipts db"
  "charge event k aid billed db = Some (db', debit) \<Longrightarrow> bd_receipts db' = bd_receipts db"
  "settle_meter job state seconds debit' now db = Some db' \<Longrightarrow> bd_receipts db' = bd_receipts db"
  "insert_meter m db = Some db' \<Longrightarrow> bd_receipts db' = bd_receipts db \<and> bd_jobs db' = bd_jobs db"
proof -
  show "insert_artifacts env j request n as db = Some db' \<Longrightarrow> bd_receipts db' = bd_receipts db"
    by (induction as arbitrary: n db) (auto simp: bind_eq_Some_conv insert_artifact_def split: if_splits)
  show "charge event k aid billed db = Some (db', debit) \<Longrightarrow> bd_receipts db' = bd_receipts db"
    by (auto simp: charge_def insert_debit_def bind_eq_Some_conv split: if_splits)
  show "settle_meter job state seconds debit' now db = Some db' \<Longrightarrow> bd_receipts db' = bd_receipts db"
    by (auto simp: settle_meter_def Let_def split: if_splits)
  show "insert_meter m db = Some db' \<Longrightarrow> bd_receipts db' = bd_receipts db \<and> bd_jobs db' = bd_jobs db"
    by (auto simp: insert_meter_def split: if_splits)
qed

lemmas kept_of_statements = jobs_of_statements receipts_of_statements

interpretation finished: build_frame finished_kept
proof unfold_locales
  show "finished_kept db db1 \<Longrightarrow> finished_kept db1 db2 \<Longrightarrow> finished_kept db db2" for db db1 db2 :: "'v build_db"
    by (rule finished_kept_trans)
  show "quiet db db' \<Longrightarrow> finished_kept db db'" for db db' :: "'v build_db"
    by (intro finished_kept_same) (simp_all add: quiet_def)
  show "insert_build ok j db = Some db' \<Longrightarrow> finished_kept db db'" for ok j and db db' :: "'v build_db"
    by (rule finished_kept_insert)
  show "allowed_update p f (bd_jobs db) \<Longrightarrow> update_builds ok p f db = Some db' \<Longrightarrow> finished_kept db db'"
    for p f ok and db db' :: "'v build_db"
    by (rule finished_kept_update)
  show "finished_kept db db'" if "insert_meter (new_meter job account project deployment (ent_id e)) db = Some db'"
    for db db' :: "'v build_db" and e :: entitlement_row and job account project deployment
    using that by (auto intro!: finished_kept_same dest: kept_of_statements)
  show "finished_kept db db'" if "settle_meter job ''released'' 0 None now db = Some db'"
    for db db' :: "'v build_db" and job now
    using that by (auto intro!: finished_kept_same dest: kept_of_statements)
  show "finished_kept db db2" if "charge event j aid billed db = Some (db1, debit)"
    "settle_meter (bj_id j) ''finalized'' billed debit now db1 = Some db2"
    for db db1 db2 :: "'v build_db" and event j aid billed debit now
    using kept_of_statements(2,5) [OF that(1)] kept_of_statements(3,6) [OF that(2)] by (intro finished_kept_same) auto
qed

lemma finished_step: "build_ids db \<Longrightarrow> build_step ext db db' \<Longrightarrow> finished_kept db db'"
  by (rule finished.step_rel) (auto intro!: finished_kept_same dest: kept_of_statements(1,4))

lemma finished_steps:
  assumes "(build_step ext)\<^sup>*\<^sup>* db db'" "build_ids db"
  shows "finished_kept db db' \<and> build_ids db'"
  using assms
proof (induction rule: rtranclp_induct)
  case (step db1 db2)
  then have "finished_kept db1 db2" using finished_step by blast
  with step show ?case using finished_kept_trans finished_kept_def by metis
qed (simp add: finished_kept_same)

section \<open>The build allowance\<close>

text \<open>
  The primary keys of the tables that the allowance rests on, the fixed size of a reservation, and
  that no entitlement has used more than its limit.
\<close>

definition within_allowance :: "'v build_db \<Rightarrow> bool" where
  "within_allowance db \<longleftrightarrow>
     distinct (map ent_id (ad_entitlements (bd_adm db))) \<and> distinct (map mt_job_id (bd_meters db))
     \<and> (\<forall>m \<in> set (bd_meters db). mt_reserved_seconds m = RESERVED_SECONDS)
     \<and> (\<forall>e \<in> set (ad_entitlements (bd_adm db)). used_seconds (ent_id e) db \<le> ent_build_seconds_limit e)"

definition spending_kept :: "'v build_db \<Rightarrow> 'v build_db \<Rightarrow> bool" where
  "spending_kept db db' \<longleftrightarrow> (within_allowance db \<longrightarrow> within_allowance db')"

lemma spending_kept_same:
  "bd_meters db' = bd_meters db \<Longrightarrow> ad_usage (bd_adm db') = ad_usage (bd_adm db) \<Longrightarrow>
     ad_entitlements (bd_adm db') = ad_entitlements (bd_adm db) \<Longrightarrow> spending_kept db db'"
  by (simp add: spending_kept_def within_allowance_def used_seconds_def)

text \<open>Settling a reservation returns its seconds to the entitlement.\<close>

definition open_meter :: "uuid \<Rightarrow> meter_row \<Rightarrow> bool" where
  "open_meter job m \<longleftrightarrow> mt_job_id m = job \<and> mt_state m = ''reserved''"

lemma settle_meters:
  assumes "\<forall>m. mt_entitlement_id (f m) = mt_entitlement_id m \<and> mt_state (f m) \<noteq> ''reserved''"
  shows "distinct (map mt_job_id ms) \<Longrightarrow> \<forall>m \<in> set ms. mt_reserved_seconds m = RESERVED_SECONDS \<Longrightarrow>
    reserved_seconds e (map (\<lambda>m. if open_meter job m then f m else m) ms)
      = reserved_seconds e ms - (case find (open_meter job) ms of
          Some m \<Rightarrow> if mt_entitlement_id m = e then RESERVED_SECONDS else 0 | None \<Rightarrow> 0)"
proof (induction ms)
  case (Cons m ms)
  show ?case
  proof (cases "open_meter job m")
    case True
    then have "\<forall>n \<in> set ms. \<not> open_meter job n" using Cons.prems(1) by (force simp: open_meter_def image_iff)
    then have "map (\<lambda>m. if open_meter job m then f m else m) ms = ms" by (simp add: map_idI)
    with True assms Cons.prems(2) show ?thesis by (simp add: reserved_seconds_def open_meter_def)
  next
    case False
    with Cons show ?thesis by (auto simp: reserved_seconds_def)
  qed
qed (simp add: reserved_seconds_def)

lemma settle_meter_Some:
  assumes "settle_meter job state seconds debit now db = Some db'" "state \<noteq> ''reserved''" "within_allowance db0"
    and meters: "bd_meters db = bd_meters db0"
  shows "bd_adm db' = bd_adm db \<and> map mt_job_id (bd_meters db') = map mt_job_id (bd_meters db)
    \<and> (\<forall>m \<in> set (bd_meters db'). mt_reserved_seconds m = RESERVED_SECONDS)
    \<and> (\<forall>e. reserved_seconds e (bd_meters db') = reserved_seconds e (bd_meters db)
        - (case find (open_meter job) (bd_meters db) of
             Some m \<Rightarrow> if mt_entitlement_id m = e then RESERVED_SECONDS else 0 | None \<Rightarrow> 0))"
proof -
  let ?f = "\<lambda>m. m\<lparr>mt_state := state, mt_finalized_seconds := Some seconds, mt_debit_event_id := debit, mt_finalized_at := Some now\<rparr>"
  have db': "db' = db\<lparr>bd_meters := map (\<lambda>m. if open_meter job m then ?f m else m) (bd_meters db)\<rparr>"
    using assms(1) by (auto simp: settle_meter_def open_meter_def Let_def split: if_splits)
  have "reserved_seconds e (bd_meters db') = reserved_seconds e (bd_meters db)
      - (case find (open_meter job) (bd_meters db) of
           Some m \<Rightarrow> if mt_entitlement_id m = e then RESERVED_SECONDS else 0 | None \<Rightarrow> 0)" for e
    using assms(2,3) settle_meters [of ?f "bd_meters db" e job] unfolding db' meters by (simp add: within_allowance_def)
  moreover have "map mt_job_id (bd_meters db') = map mt_job_id (bd_meters db)" "bd_adm db' = bd_adm db"
    by (simp_all add: db')
  moreover have "\<forall>m \<in> set (bd_meters db'). mt_reserved_seconds m = RESERVED_SECONDS"
    using assms(3) by (auto simp: db' meters within_allowance_def)
  ultimately show ?thesis by blast
qed

text \<open>A database whose entitlements have not used more than before stays within the allowance.\<close>

lemma spending_kept_less:
  assumes "within_allowance db \<Longrightarrow> ad_entitlements (bd_adm db') = ad_entitlements (bd_adm db)
      \<and> map mt_job_id (bd_meters db') = map mt_job_id (bd_meters db)
      \<and> (\<forall>m \<in> set (bd_meters db'). mt_reserved_seconds m = RESERVED_SECONDS)
      \<and> (\<forall>e. used_seconds e db' \<le> used_seconds e db)"
  shows "spending_kept db db'"
  unfolding spending_kept_def
proof
  assume ok: "within_allowance db"
  then show "within_allowance db'"
    using assms by (auto simp: within_allowance_def intro: order_trans)
qed

lemma release_spending: "settle_meter job ''released'' 0 None now db = Some db' \<Longrightarrow> spending_kept db db'"
  by (rule spending_kept_less)
    (auto simp: used_seconds_def RESERVED_SECONDS_def dest!: settle_meter_Some [where db0 = db] split: option.split)

lemma charge_Some:
  assumes "charge event j aid billed db = Some (db1, debit)"
  shows "bd_meters db1 = bd_meters db \<and> ad_entitlements (bd_adm db1) = ad_entitlements (bd_adm db)
    \<and> debited_seconds e (ad_usage (bd_adm db1)) = debited_seconds e (ad_usage (bd_adm db))
       + (if billed > 0 \<and> mt_entitlement_id (the (find (open_meter (bj_id j)) (bd_meters db))) = e then billed else 0)
    \<and> (billed > 0 \<longrightarrow> find (open_meter (bj_id j)) (bd_meters db) \<noteq> None)"
  using assms
  by (auto simp: charge_def open_meter_def [abs_def] insert_debit_def insert_usage_def build_debit_def debited_seconds_def
      bind_eq_Some_conv split: if_splits)

lemma charge_spending:
  assumes billed: "0 \<le> billed" "billed \<le> RESERVED_SECONDS"
    and charge: "charge event j aid billed db = Some (db1, debit)"
    and settle: "settle_meter (bj_id j) ''finalized'' billed debit now db1 = Some db2"
  shows "spending_kept db db2"
proof (rule spending_kept_less)
  assume ok: "within_allowance db"
  note c = charge_Some [OF charge]
  then have s: "bd_adm db2 = bd_adm db1 \<and> map mt_job_id (bd_meters db2) = map mt_job_id (bd_meters db1)
    \<and> (\<forall>m \<in> set (bd_meters db2). mt_reserved_seconds m = RESERVED_SECONDS)
    \<and> (\<forall>e. reserved_seconds e (bd_meters db2) = reserved_seconds e (bd_meters db1)
        - (case find (open_meter (bj_id j)) (bd_meters db1) of
             Some m \<Rightarrow> if mt_entitlement_id m = e then RESERVED_SECONDS else 0 | None \<Rightarrow> 0))"
    by (intro settle_meter_Some [OF settle _ ok]) auto
  have "used_seconds e db2 \<le> used_seconds e db" for e
    using c [of e] s billed by (auto simp: used_seconds_def RESERVED_SECONDS_def split: if_splits option.splits)
  with c s show "ad_entitlements (bd_adm db2) = ad_entitlements (bd_adm db)
      \<and> map mt_job_id (bd_meters db2) = map mt_job_id (bd_meters db)
      \<and> (\<forall>m \<in> set (bd_meters db2). mt_reserved_seconds m = RESERVED_SECONDS)
      \<and> (\<forall>e. used_seconds e db2 \<le> used_seconds e db)"
    by simp
qed

lemma insert_meter_spending:
  assumes e: "e \<in> set (ad_entitlements (bd_adm db))" "check_allowance e db = Inr ()"
    and insert: "insert_meter (new_meter job account project deployment (ent_id e)) db = Some db'"
  shows "spending_kept db db'"
  unfolding spending_kept_def
proof
  assume ok: "within_allowance db"
  have db': "db' = db\<lparr>bd_meters := bd_meters db @ [new_meter job account project deployment (ent_id e)]\<rparr>"
      "job \<notin> mt_job_id ` set (bd_meters db)"
    using insert by (auto simp: insert_meter_def new_meter_def split: if_splits)
  have used: "used_seconds i db' = used_seconds i db + (if i = ent_id e then RESERVED_SECONDS else 0)" for i
    by (simp add: db'(1) used_seconds_def reserved_seconds_def new_meter_def)
  have "used_seconds (ent_id d) db' \<le> ent_build_seconds_limit d" if d: "d \<in> set (ad_entitlements (bd_adm db))" for d
  proof (cases "ent_id d = ent_id e")
    case True
    then have "d = e" using ok d e(1) unfolding within_allowance_def by (metis distinct_map inj_onD)
    with e(2) used show ?thesis by (simp add: check_allowance_def)
  next
    case False
    with ok d used show ?thesis by (simp add: within_allowance_def)
  qed
  with ok db' show "within_allowance db'" by (auto simp: within_allowance_def new_meter_def)
qed

interpretation spending: build_frame spending_kept
proof unfold_locales
  show "spending_kept db db1 \<Longrightarrow> spending_kept db1 db2 \<Longrightarrow> spending_kept db db2" for db db1 db2 :: "'v build_db"
    by (simp add: spending_kept_def)
  show "quiet db db' \<Longrightarrow> spending_kept db db'" for db db' :: "'v build_db"
    by (intro spending_kept_same) (simp_all add: quiet_def)
  show "insert_build ok j db = Some db' \<Longrightarrow> spending_kept db db'" for ok j and db db' :: "'v build_db"
    by (intro spending_kept_same) (auto simp: insert_build_def Let_def split: if_splits)
  show "update_builds ok p f db = Some db' \<Longrightarrow> spending_kept db db'" for p f ok and db db' :: "'v build_db"
    by (intro spending_kept_same) (auto simp: update_builds_def Let_def split: if_splits)
qed (fact insert_meter_spending release_spending charge_spending)+

lemma artifacts_spending: "insert_artifacts env j request n as db = Some db' \<Longrightarrow> spending_kept db db'"
proof (intro spending_kept_same)
  assume "insert_artifacts env j request n as db = Some db'"
  then show "bd_meters db' = bd_meters db" "ad_usage (bd_adm db') = ad_usage (bd_adm db)"
      "ad_entitlements (bd_adm db') = ad_entitlements (bd_adm db)"
    by (induction as arbitrary: n db) (auto simp: bind_eq_Some_conv insert_artifact_def split: if_splits)
qed

lemma spending_step: "build_ids db \<Longrightarrow> build_step ext db db' \<Longrightarrow> spending_kept db db'"
  by (rule spending.step_rel) (auto intro: artifacts_spending)

lemma spending_steps:
  assumes "(build_step ext)\<^sup>*\<^sup>* db db'" "build_ids db" "within_allowance db"
  shows "within_allowance db'"
  using assms
proof (induction rule: rtranclp_induct)
  case (step db1 db2)
  then have "build_ids db1" using finished_steps by blast
  with step show ?case using spending_step unfolding spending_kept_def by blast
qed

section \<open>Artifacts\<close>

text \<open>Only succeeded builds have artifacts.\<close>

definition artifacts_of_succeeded :: "'v build_db \<Rightarrow> bool" where
  "artifacts_of_succeeded db \<longleftrightarrow>
     (\<forall>a \<in> set (bd_artifacts db). \<exists>j \<in> set (bd_jobs db). bj_id j = art_job_id a \<and> bj_state j = ''succeeded'')"

lemma insert_artifacts_Some:
  "insert_artifacts env j request n as db = Some db' \<Longrightarrow>
     bd_artifacts db' = bd_artifacts db @ map (\<lambda>(i, a). artifact_of env j request i a) (enumerate n as)"
  by (induction as arbitrary: n db) (auto simp: bind_eq_Some_conv insert_artifact_def split: if_splits)

lemma new_artifact_services: "map art_service_id (map (\<lambda>(i, a). artifact_of env j request i a) (enumerate n as)) = map ac_service_id as"
  by (induction as arbitrary: n) (auto simp: artifact_of_def)

lemma artifacts_of_statements:
  "charge event k aid billed db = Some (db', debit) \<Longrightarrow> bd_artifacts db' = bd_artifacts db"
  "settle_meter job state seconds debit' now db = Some db' \<Longrightarrow> bd_artifacts db' = bd_artifacts db"
  "update_builds ok p f db = Some db' \<Longrightarrow> bd_artifacts db' = bd_artifacts db
     \<and> bd_jobs db' = map (\<lambda>j. if p j then f j else j) (bd_jobs db)"
  by (auto simp: charge_def insert_debit_def bind_eq_Some_conv settle_meter_def update_builds_def Let_def split: if_splits)

interpretation artifacts_frame: build_frame "\<lambda>db db'. bd_artifacts db' = bd_artifacts db"
  by unfold_locales (auto simp: quiet_def insert_build_def insert_meter_def Let_def artifacts_of_statements split: if_splits
    dest: artifacts_of_statements)

text \<open>What a completion commits: the artifacts of the outcome, and the build updated.\<close>

definition completes_build ::
  "tx_env \<Rightarrow> uuid \<Rightarrow> build_complete_request \<Rightarrow> string \<Rightarrow> 'v build_row \<Rightarrow> 'v build_db \<Rightarrow> 'v build_db \<Rightarrow> bool" where
  "completes_build env job request cleanup_status j db db' \<longleftrightarrow>
     bd_artifacts db' = bd_artifacts db
       @ map (\<lambda>(i, a). artifact_of env j request i a) (enumerate 1 (bo_artifacts (bcq_outcome request)))
     \<and> bd_jobs db' = map (\<lambda>k. if of_build job (live_of_completion request) k
         then completed_build env (bcq_outcome request) cleanup_status k else k) (bd_jobs db)"

lemma store_completion_commits:
  "commits (\<lambda>db' r. completes_build env job request cleanup_status j db db')
     (store_completion ext wx env job request hash cleanup_status j db)"
  unfolding store_completion_def Let_def
proof (intro commits_rules commits_Committed)
  let ?oc = "bcq_outcome request" and ?live = "live_of_completion request"
  fix db1 x db2 debit db3 db4 db5 body db6 db7
  assume 1: "insert_artifacts env j request 1 (bo_artifacts ?oc) db = Some db1"
    and 2: "ok_or database_unavailable (charge (env_fresh env 0) j (bcq_attempt_id request) (bo_elapsed_seconds ?oc) db1) = Inr x"
      "x = (db2, debit)"
    and 3: "(if bo_state ?oc \<noteq> ''retriable'' then settle_meter job ''finalized'' (bo_elapsed_seconds ?oc) debit (env_now env 1) db2
      else Some db2) = Some db3"
    and 4: "update_build_attempts (of_attempt job ?live) (completed_attempt env ?oc hash) db3 = Some db4"
    and 5: "update_builds (bx_jsonb_ok ext) (of_build job ?live) (completed_build env ?oc cleanup_status) db4 = Some db5"
    and 6: "insert_build_receipt (bx_jsonb_ok ext)
         \<lparr>brc_attempt_id = bcq_attempt_id request, brc_job_id = job, brc_fence = bcq_fence request,
          brc_completion_hash = hash, brc_response_body = body\<rparr> db5 = Some db6"
    and 7: "(if bo_state ?oc \<noteq> ''retriable''
         then insert_build_effect (bx_jsonb_ok ext) False
           \<lparr>be_job_id = job, be_attempt_id = bcq_attempt_id request, be_fence = bcq_fence request,
            be_state = bo_state ?oc, be_code = bo_code ?oc, be_completion_hash = hash, be_response_body = body\<rparr> db6
         else Some db6) = Some db7"
  have c: "charge (env_fresh env 0) j (bcq_attempt_id request) (bo_elapsed_seconds ?oc) db1 = Some (db2, debit)" using 2 by simp
  have "bd_artifacts db3 = bd_artifacts db2 \<and> bd_jobs db3 = bd_jobs db2"
    using 3 artifacts_of_statements(2) jobs_of_statements(3) by (metis option.inject)
  then have "bd_artifacts db3 = bd_artifacts db1 \<and> bd_jobs db3 = bd_jobs db"
    using artifacts_of_statements(1) [OF c] jobs_of_statements(2) [OF c] jobs_of_statements(1) [OF 1] by simp
  moreover have "quiet db3 db4" using 4 by (rule quiet_update_attempts)
  moreover have "quiet db5 db7" using quiet_receipt [OF 6] 7 by (auto split: if_splits intro: quiet_trans [OF _ quiet_effect])
  ultimately show "completes_build env job request cleanup_status j db db7"
    using insert_artifacts_Some [OF 1] artifacts_of_statements(3) [OF 5] by (simp add: completes_build_def quiet_def)
qed

text \<open>The checks behind a completion that was not a repetition.\<close>

definition checked_completion ::
  "build_state \<Rightarrow> 'v build_ext \<Rightarrow> 'v worker_ext \<Rightarrow> tx_env \<Rightarrow> uuid \<Rightarrow> build_complete_request \<Rightarrow> 'v build_row \<Rightarrow> string
     \<Rightarrow> 'v build_db \<Rightarrow> bool" where
  "checked_completion st ext wx env job request j cleanup_status db \<longleftrightarrow>
     j \<in> set (bd_jobs db) \<and> live_attempt env job (live_of_completion request) j db
     \<and> valid_completion (bcq_outcome request)
     \<and> (\<exists>seen. check_artifacts st ext wx job request (bj_input_manifest_digest j) (bj_source_commit j) (services_of job db)
            (bo_artifacts (bcq_outcome request)) [] = Inr seen
          \<and> (bo_state (bcq_outcome request) = ''succeeded'' \<longrightarrow>
               length seen = length (remdups (map bs_service_id (services_of job db)))))"

lemma complete_live_commits:
  assumes "lock_live_attempt env job (live_of_completion request) db = Inr j" "valid_completion (bcq_outcome request)"
  shows "commits (\<lambda>db' r. \<exists>c. checked_completion st ext wx env job request j c db \<and> completes_build env job request c j db db')
    (complete_live_build st ext wx env job request hash j db)"
  unfolding complete_live_build_def Let_def
proof (intro commits_rules)
  fix seen cleanup u
  assume "check_artifacts st ext wx job request (bj_input_manifest_digest j) (bj_source_commit j) (services_of job db)
            (bo_artifacts (bcq_outcome request)) [] = Inr seen"
    "ensure (bo_state (bcq_outcome request) = ''succeeded'' \<longrightarrow>
       length seen = length (remdups (map bs_service_id (services_of job db))))
       (artifact_invalid ''successful completion must register every declared build output'') = Inr u"
  moreover have "j \<in> set (bd_jobs db) \<and> live_attempt env job (live_of_completion request) j db"
    using assms(1) by (auto simp: lock_live_attempt_def dest!: find_SomeD split: if_splits)
  ultimately have "checked_completion st ext wx env job request j (cm_status cleanup) db"
    using assms(2) by (auto simp: checked_completion_def)
  then show "commits (\<lambda>db' r. \<exists>c. checked_completion st ext wx env job request j c db \<and> completes_build env job request c j db db')
      (store_completion ext wx env job request hash (cm_status cleanup) j db)"
    by (intro commits_mono [OF store_completion_commits]) auto
qed

lemma complete_build_commits:
  assumes "complete_build st ext wx env job_path request db = (db', r)"
  shows "db' = db \<or> (\<exists>job j c. path_uuid (bx_parse_uuid ext) job_path = Inr job
     \<and> checked_completion st ext wx env job request j c db \<and> completes_build env job request c j db db')"
proof -
  let ?Q = "\<lambda>db' r. db' = db \<or> (\<exists>job j c. path_uuid (bx_parse_uuid ext) job_path = Inr job
     \<and> checked_completion st ext wx env job request j c db \<and> completes_build env job request c j db db')"
  have "commits ?Q (complete_build_tx st ext wx env job_path request db)"
    unfolding complete_build_tx_def Let_def
  proof (intro commits_rules commits_Committed)
    fix u job bytes j u'
    assume "path_uuid (bx_parse_uuid ext) job_path = Inr job" "lock_live_attempt env job (live_of_completion request) db = Inr j"
      "ensure (build_worker_id (bcq_worker_id request) \<and> valid_completion (bcq_outcome request))
         (unprocessable ''build_result_invalid'' ''the build completion is outside the accepted contract'') = Inr u'"
    then show "commits ?Q (complete_live_build st ext wx env job request (completion_hash_of ext job request bytes) j db)"
      by (intro commits_mono [OF complete_live_commits]) auto
  qed simp
  from this assms [unfolded complete_build_def] show ?thesis by (rule run_txn_commits) auto
qed

lemma of_live_build: "live_attempt env job request j db \<Longrightarrow> of_build job request j \<and> bj_id j = job"
  by (auto simp: live_attempt_def of_build_def)

lemma artifacts_kept:
  assumes "artifacts_of_succeeded db" "finished_kept db db'" "build_ids db"
    and "\<And>a. a \<in> set (bd_artifacts db') \<Longrightarrow> a \<in> set (bd_artifacts db)
      \<or> (\<exists>j \<in> set (bd_jobs db'). bj_id j = art_job_id a \<and> bj_state j = ''succeeded'')"
  shows "artifacts_of_succeeded db'"
  unfolding artifacts_of_succeeded_def
proof
  fix a assume "a \<in> set (bd_artifacts db')"
  with assms(4) consider "a \<in> set (bd_artifacts db)"
    | "\<exists>j \<in> set (bd_jobs db'). bj_id j = art_job_id a \<and> bj_state j = ''succeeded''" by blast
  then show "\<exists>j \<in> set (bd_jobs db'). bj_id j = art_job_id a \<and> bj_state j = ''succeeded''"
  proof cases
    case 1
    then obtain j where "j \<in> set (bd_jobs db)" "bj_id j = art_job_id a" "bj_state j = ''succeeded''"
      using assms(1) by (auto simp: artifacts_of_succeeded_def)
    with assms(2,3) show ?thesis by (auto simp: finished_kept_def)
  qed
qed

lemma completion_artifacts:
  assumes "checked_completion st ext wx env job request j c db" "completes_build env job request c j db db'"
    and "a \<in> set (bd_artifacts db')"
  shows "a \<in> set (bd_artifacts db) \<or> (\<exists>k \<in> set (bd_jobs db'). bj_id k = art_job_id a \<and> bj_state k = ''succeeded'')"
proof (cases "bo_artifacts (bcq_outcome request) = []")
  case False
  let ?k = "completed_build env (bcq_outcome request) c j"
  from assms(1) have j: "j \<in> set (bd_jobs db)" "of_build job (live_of_completion request) j" "bj_id j = job"
      "valid_completion (bcq_outcome request)"
    by (auto simp: checked_completion_def dest: of_live_build)
  then have "?k \<in> set (bd_jobs db')" using assms(2) by (force simp: completes_build_def)
  moreover have "bj_id ?k = job" "bj_state ?k = ''succeeded''"
    using j False by (auto simp: completed_build_def valid_completion_def valid_state_code_def split: if_splits)
  moreover have "a \<in> set (bd_artifacts db) \<or> art_job_id a = job"
    using assms(2,3) j(3) by (auto simp: completes_build_def artifact_of_def)
  ultimately show ?thesis by auto
qed (use assms(2,3) in \<open>simp add: completes_build_def\<close>)

lemma artifacts_step:
  assumes "build_ids db" "artifacts_of_succeeded db" "build_step ext db db'"
  shows "artifacts_of_succeeded db'"
proof (rule artifacts_kept [OF assms(2) finished_step [OF assms(1,3)] assms(1)])
  fix a assume a: "a \<in> set (bd_artifacts db')"
  from assms(3) show "a \<in> set (bd_artifacts db)
      \<or> (\<exists>j \<in> set (bd_jobs db'). bj_id j = art_job_id a \<and> bj_state j = ''succeeded'')"
  proof cases
    case (complete st wx env job_path request)
    then show ?thesis
      using complete_build_commits [of st ext wx env job_path request db] completion_artifacts a by (metis prod.collapse)
  next
    case elsewhere
    with a show ?thesis by (simp add: queue_kept_def)
  qed (use a assms(1) in \<open>simp_all add: artifacts_frame.enqueue_rel artifacts_frame.cancel_rel artifacts_frame.lease_rel
       artifacts_frame.renew_rel artifacts_frame.materialize_rel artifacts_frame.credentials_rel
       artifacts_frame.cancel_ack_rel artifacts_frame.reap_rel\<close>)
qed

lemma artifacts_steps:
  assumes "(build_step ext)\<^sup>*\<^sup>* db db'" "build_ids db" "artifacts_of_succeeded db"
  shows "artifacts_of_succeeded db'"
  using assms
proof (induction rule: rtranclp_induct)
  case (step db1 db2)
  then show ?case using finished_steps artifacts_step by blast
qed

text \<open>What the loop over the artifacts has checked.\<close>

definition artifact_verified ::
  "build_state \<Rightarrow> 'v build_ext \<Rightarrow> 'v worker_ext \<Rightarrow> uuid \<Rightarrow> build_complete_request \<Rightarrow> 'v build_row \<Rightarrow> uuid \<Rightarrow> string
     \<Rightarrow> string \<Rightarrow> bool" where
  "artifact_verified st ext wx job request j service manifest_digest archive_digest \<longleftrightarrow>
     verify_cas_digest (bst_files st) (bx_sha256_hex ext) (bst_state_dir st) archive_digest = Inr ()
     \<and> (\<exists>manifest. read_cas_json (bst_files st) (bx_sha256_hex ext) (wx_parse_artifact wx) (bst_state_dir st)
            manifest_digest 1048576 = Inr manifest
          \<and> am_job_id manifest = job \<and> am_attempt_id manifest = bcq_attempt_id request
          \<and> am_fence manifest = bcq_fence request \<and> am_service_id manifest = service
          \<and> am_source_commit manifest = bj_source_commit j \<and> am_archive_digest manifest = archive_digest)"

lemma check_artifacts_Inr:
  "check_artifacts st ext wx job request (bj_input_manifest_digest j) (bj_source_commit j) services as seen = Inr seen' \<Longrightarrow>
     distinct (map ac_kind as) \<and> ac_kind ` set as \<inter> set seen = {} \<and> length seen' = length as + length seen
     \<and> (\<forall>a \<in> set as. (\<exists>s. find (\<lambda>s. bs_service_id s = ac_service_id a) services = Some s \<and> service_artifact_kind s = ac_kind a)
          \<and> artifact_verified st ext wx job request j (ac_service_id a) (ac_manifest_digest a) (ac_archive_digest a))"
proof (induction as arbitrary: seen)
  case (Cons a as)
  from Cons.prems have a: "ac_kind a \<notin> set seen"
      "check_artifact st ext wx job request (bj_input_manifest_digest j) (bj_source_commit j) services a = Inr ()"
    and rest: "check_artifacts st ext wx job request (bj_input_manifest_digest j) (bj_source_commit j) services as
      (ac_kind a # seen) = Inr seen'"
    by (auto split: if_splits sum.splits)
  from a(2) have "(\<exists>s. find (\<lambda>s. bs_service_id s = ac_service_id a) services = Some s \<and> service_artifact_kind s = ac_kind a)
      \<and> artifact_verified st ext wx job request j (ac_service_id a) (ac_manifest_digest a) (ac_archive_digest a)"
    by (auto simp: check_artifact_def artifact_verified_def manifest_matches_def split: option.splits if_splits sum.splits)
  with Cons.IH [OF rest] a(1) show ?case by auto
qed simp

text \<open>The services of the artifacts are the services of the build.\<close>

lemma artifact_services:
  fixes ext :: "'v build_ext" and j :: "'v build_row"
  assumes checked: "check_artifacts st ext wx job request (bj_input_manifest_digest j) (bj_source_commit j) services as [] = Inr seen"
    and count: "length seen = length (remdups (map bs_service_id services))"
  shows "distinct (map ac_service_id as) \<and> set (map ac_service_id as) = bs_service_id ` set services"
proof -
  note as = check_artifacts_Inr [OF checked]
  have "a = b" if "a \<in> set as" "b \<in> set as" "ac_service_id a = ac_service_id b" for a b
  proof -
    have "ac_kind a = ac_kind b" using as that by (metis option.inject)
    with as that show ?thesis by (metis distinct_map inj_onD)
  qed
  moreover have "distinct as" using as by (simp add: distinct_map)
  ultimately have dist: "distinct (map ac_service_id as)" by (simp add: distinct_map inj_on_def)
  have sub: "set (map ac_service_id as) \<subseteq> bs_service_id ` set services"
  proof clarsimp
    fix a assume "a \<in> set as"
    then obtain s where "find (\<lambda>s. bs_service_id s = ac_service_id a) services = Some s" using as by blast
    note s = find_SomeD [OF this]
    then have "s \<in> set services" "ac_service_id a = bs_service_id s" by simp_all
    then show "ac_service_id a \<in> bs_service_id ` set services" by simp
  qed
  have "card (set (map ac_service_id as)) = length as" using distinct_card [OF dist] by simp
  also have "\<dots> = card (bs_service_id ` set services)"
    using as count by (simp add: length_remdups_card_conv)
  finally show ?thesis using dist sub by (metis card_subset_eq finite_imageI finite_set)
qed

section \<open>Leases, lost builds and acknowledgments\<close>

lemma leased_account:
  assumes "lease_build st ext env request db = (db', Inr (Some response))"
  shows "account_clear (lj_account_id (blp_job response)) db"
proof -
  let ?Q = "\<lambda>db' r. \<forall>response. r = Inr (Some response) \<longrightarrow> account_clear (lj_account_id (blp_job response)) db"
  have "commits ?Q (lease_build_tx st ext env request db)"
    unfolding lease_build_tx_def grant_lease_def Let_def
    by (intro commits_rules commits_Committed) (auto simp: lease_answer_def split: if_splits)
  from this assms [unfolded lease_build_def] show ?thesis by (rule run_txn_commits) auto
qed

lemma reaped_builds:
  fixes ext :: "'v build_ext"
  assumes "run_txn build_attempt_fk db (reap_build_tx ext env db) = (db', Inr True)"
    and "expired_build env db = Some (j, a)"
  shows "bd_jobs db' = map (\<lambda>k. if bj_id k = bj_id j
    then lost_build env (ba_launched_at a \<noteq> None) (ba_launched_at a \<noteq> None \<or> bj_attempt_count j \<ge> 3) k else k) (bd_jobs db)"
proof -
  let ?f = "lost_build env (ba_launched_at a \<noteq> None) (ba_launched_at a \<noteq> None \<or> bj_attempt_count j \<ge> 3)"
  let ?js = "map (\<lambda>k. if bj_id k = bj_id j then ?f k else k) (bd_jobs db)"
  let ?Q = "\<lambda>db' r. bd_jobs db' = ?js"
  have settled: "commits (\<lambda>db' r. bd_jobs db' = bd_jobs db2) (settle_lost ext env launched billed j a db2)"
    for db2 :: "'v build_db" and launched billed
    unfolding settle_lost_def Let_def
  proof (intro commits_rules commits_Committed)
    fix x db3 debit db4 db5
    assume "ok_or database_unavailable (charge (env_fresh env 0) j (ba_id a) billed db2) = Inr x" "x = (db3, debit)"
      and settle: "settle_meter (bj_id j) ''finalized'' billed debit (env_now env 4) db3 = Some db4"
      and effect: "insert_build_effect (bx_jsonb_ok ext) True
             \<lparr>be_job_id = bj_id j, be_attempt_id = ba_id a, be_fence = ba_fence a, be_state = ''failed'',
              be_code = lost_code launched True, be_completion_hash = bx_sha256 ext (lost_code launched True @ '':''
                @ bx_show_uuid ext (ba_id a) @ '':'' @ show_nat (nat (ba_fence a))),
              be_response_body = bx_json_value ext (lost_effect_json launched (lost_code launched True) billed)\<rparr> db4 = Some db5"
    then have "charge (env_fresh env 0) j (ba_id a) billed db2 = Some (db3, debit)" by simp
    then show "bd_jobs db5 = bd_jobs db2"
      using jobs_of_statements(2) jobs_of_statements(3) [OF settle] quiet_jobs [OF quiet_effect [OF effect]] by simp
  qed
  have "commits ?Q (reap_build_tx ext env db)"
    unfolding reap_build_tx_def assms(2) option.case prod.case Let_def
  proof (intro commits_rules commits_Committed)
    fix db1 db2
    assume att: "update_build_attempts (\<lambda>b. ba_job_id b = bj_id j \<and> ba_id b = ba_id a \<and> ba_fence b = ba_fence a \<and> ba_state b = ''running'')
        (\<lambda>b. b\<lparr>ba_state := (if ba_launched_at a \<noteq> None \<or> bj_attempt_count j \<ge> 3 then ''failed'' else ''retriable''),
           ba_finished_at := Some (env_now env 2),
           ba_terminal_code := Some (lost_code (ba_launched_at a \<noteq> None) (ba_launched_at a \<noteq> None \<or> bj_attempt_count j \<ge> 3))\<rparr>) db
        = Some db1"
      and upd: "update_builds (bx_jsonb_ok ext) (\<lambda>k. bj_id k = bj_id j) ?f db1 = Some db2"
    have "bd_jobs db2 = ?js"
      using artifacts_of_statements(3) [OF upd] quiet_jobs [OF quiet_update_attempts [OF att]] by simp
    then show "bd_jobs db2 = ?js" "commits ?Q (settle_lost ext env (ba_launched_at a \<noteq> None) billed j a db2)" for billed
      by (auto intro: commits_mono [OF settled])
  qed
  from this assms(1) show ?thesis by (rule run_txn_commits) auto
qed

lemma apply_cancel_ack_commits:
  assumes "j \<in> set (bd_jobs db)" "bj_id j = job" "bj_state j = ''canceled''"
  shows "commits (\<lambda>db' _. \<exists>k \<in> set (bd_jobs db'). \<exists>r \<in> set (bd_receipts db'). bj_id k = job \<and> bj_state k = ''canceled''
      \<and> brc_job_id r = job \<and> brc_attempt_id r = ckr_attempt_id request \<and> brc_fence r = ckr_fence request)
    (apply_cancel_ack st ext wx env job request hash j db)"
  unfolding apply_cancel_ack_def Let_def
proof (intro commits_rules commits_Committed)
  fix x db1 debit db2 db3 body db4
  assume "ok_or database_unavailable (charge (env_fresh env 0) j (ckr_attempt_id request) (ckr_elapsed_seconds request) db)
      = Inr x" "x = (db1, debit)"
    and settle: "settle_meter job ''finalized'' (ckr_elapsed_seconds request) debit (env_now env 1) db1 = Some db2"
    and upd: "update_builds (bx_jsonb_ok ext)
      (\<lambda>k. bj_id k = job \<and> bj_state k = ''canceled'' \<and> bj_cleanup_status k = ''pending'')
      (\<lambda>k. k\<lparr>bj_cleanup_status := ''confirmed'', bj_revision := bj_revision k + 1, bj_updated_at := env_now env 2\<rparr>) db2
      = Some db3"
    and ins: "insert_build_receipt (bx_jsonb_ok ext)
         \<lparr>brc_attempt_id = ckr_attempt_id request, brc_job_id = job, brc_fence = ckr_fence request,
          brc_completion_hash = hash, brc_response_body = body\<rparr> db3 = Some db4"
  then have "charge (env_fresh env 0) j (ckr_attempt_id request) (ckr_elapsed_seconds request) db = Some (db1, debit)" by simp
  then have "bd_jobs db2 = bd_jobs db" using jobs_of_statements(2) jobs_of_statements(3) [OF settle] by simp
  then have "\<exists>k \<in> set (bd_jobs db3). bj_id k = job \<and> bj_state k = ''canceled''"
    using assms artifacts_of_statements(3) [OF upd] by (intro bexI [of _ "if bj_cleanup_status j = ''pending''
      then j\<lparr>bj_cleanup_status := ''confirmed'', bj_revision := bj_revision j + 1, bj_updated_at := env_now env 2\<rparr> else j"]) auto
  moreover have "bd_jobs db4 = bd_jobs db3" using quiet_jobs [OF quiet_receipt [OF ins]] .
  moreover have "\<exists>r \<in> set (bd_receipts db4). brc_job_id r = job \<and> brc_attempt_id r = ckr_attempt_id request
      \<and> brc_fence r = ckr_fence request"
    using ins by (auto simp: insert_build_receipt_def split: if_splits)
  ultimately show "\<exists>k \<in> set (bd_jobs db4). \<exists>r \<in> set (bd_receipts db4). bj_id k = job \<and> bj_state k = ''canceled''
      \<and> brc_job_id r = job \<and> brc_attempt_id r = ckr_attempt_id request \<and> brc_fence r = ckr_fence request"
    by auto
qed

lemma acknowledged:
  assumes "cancel_ack st ext wx env job_path request db = (db', Inr response)" "db' \<noteq> db"
  shows "\<exists>job hash j r. require_enabled st = Inr () \<and> path_uuid (bx_parse_uuid ext) job_path = Inr job
    \<and> check_cancel_ack request = Inr () \<and> request_hash (wx_cancel_ack_bytes wx) (bx_sha256 ext) request = Inr hash
    \<and> j \<in> set (bd_jobs db') \<and> bj_id j = job \<and> bj_state j = ''canceled'' \<and> r \<in> set (bd_receipts db')
    \<and> brc_job_id r = job \<and> brc_attempt_id r = ckr_attempt_id request \<and> brc_fence r = ckr_fence request"
proof -
  let ?Q = "\<lambda>db' r. db' = db \<or> (\<exists>job hash j r. require_enabled st = Inr () \<and> path_uuid (bx_parse_uuid ext) job_path = Inr job
    \<and> check_cancel_ack request = Inr () \<and> request_hash (wx_cancel_ack_bytes wx) (bx_sha256 ext) request = Inr hash
    \<and> j \<in> set (bd_jobs db') \<and> bj_id j = job \<and> bj_state j = ''canceled'' \<and> r \<in> set (bd_receipts db')
    \<and> brc_job_id r = job \<and> brc_attempt_id r = ckr_attempt_id request \<and> brc_fence r = ckr_fence request)"
  have "commits ?Q (cancel_ack_tx st ext wx env job_path request db)"
    unfolding cancel_ack_tx_def replay_cancel_ack_def
  proof (intro commits_rules commits_Committed)
    fix u job u' hash j
    assume ok: "require_enabled st = Inr u" "path_uuid (bx_parse_uuid ext) job_path = Inr job" "check_cancel_ack request = Inr u'"
        "request_hash (wx_cancel_ack_bytes wx) (bx_sha256 ext) request = Inr hash"
      and "ok_or (conflict ''build_job_fenced''
                    ''the canceled build attempt is not awaiting this cleanup acknowledgment'')
                   (find (awaiting_cleanup job request db) (bd_jobs db)) = Inr j"
    then have j: "j \<in> set (bd_jobs db)" "bj_id j = job" "bj_state j = ''canceled''"
      by (auto simp: awaiting_cleanup_def dest: find_SomeD)
    have "require_enabled st = Inr ()" "check_cancel_ack request = Inr ()" using ok by simp_all
    then show "commits ?Q (apply_cancel_ack st ext wx env job request hash j db)"
      using ok(2,4) by (intro commits_mono [OF apply_cancel_ack_commits [OF j]]) blast
  qed simp
  from this assms(1) [unfolded cancel_ack_def] show ?thesis by (rule run_txn_commits) (use assms(2) in auto)
qed

text \<open>A running build has no artifacts yet, so a completion adds the first ones.\<close>

lemma running_without_artifacts:
  assumes "artifacts_of_succeeded db" "build_ids db" "j \<in> set (bd_jobs db)" "bj_state j = ''running''" "a \<in> set (bd_artifacts db)"
  shows "art_job_id a \<noteq> bj_id j"
proof
  assume "art_job_id a = bj_id j"
  then obtain k where k: "k \<in> set (bd_jobs db)" "bj_id k = bj_id j" "bj_state k = ''succeeded''"
    using assms(1,5) by (auto simp: artifacts_of_succeeded_def)
  then have "k = j" by (intro build_ids_unique [OF assms(2,3)])
  with assms(4) k(3) show False by simp
qed

lemma completed_artifacts:
  assumes "completes_build env (bj_id j) request c j db db'" "\<forall>a \<in> set (bd_artifacts db). art_job_id a \<noteq> bj_id j"
  shows "filter (\<lambda>a. art_job_id a = bj_id j) (bd_artifacts db')
    = map (\<lambda>(i, a). artifact_of env j request i a) (enumerate 1 (bo_artifacts (bcq_outcome request)))"
  using assms by (auto simp: completes_build_def artifact_of_def filter_empty_conv intro!: filter_True)

section \<open>Properties\<close>

text \<open>
  C6. The build allowance is never exceeded: if every entitlement is within its limit to begin with,
  then after any sequence of enqueues, cancellations, leases, completions, acknowledgments and
  reaped leases the seconds debited to an entitlement and those held by its open reservations are
  together still within its limit.
\<close>

theorem build_allowance_never_exceeded:
  assumes "within_allowance db" and "build_ids db" and "(build_step ext)\<^sup>*\<^sup>* db db'"
    and "e \<in> set (ad_entitlements (bd_adm db'))"
  shows "debited_seconds (ent_id e) (ad_usage (bd_adm db')) + reserved_seconds (ent_id e) (bd_meters db')
    \<le> ent_build_seconds_limit e"
  using spending_steps [OF assms(3,2,1)] assms(4) by (auto simp: within_allowance_def used_seconds_def)

text \<open>
  C10. A build that succeeds has exactly its declared outputs: after a completion with the state
  \<open>succeeded\<close> that is not a repetition, the artifacts of the build are one per service of the build,
  each with an archive in the content store that has the recorded digest and a manifest there that
  names this build, this attempt and fence, this service and the source commit.
\<close>

theorem succeeded_build_has_its_artifacts:
  assumes "bd_artifacts db0 = []" "build_ids db0" "(build_step ext)\<^sup>*\<^sup>* db0 db"
    and job: "path_uuid (bx_parse_uuid ext) job_path = Inr job"
    and changed: "complete_build st ext wx env job_path request db = (db', answer)" "db' \<noteq> db"
    and succeeded: "bo_state (bcq_outcome request) = ''succeeded''"
  shows "\<exists>j \<in> set (bd_jobs db). bj_id j = job
    \<and> distinct (map art_service_id (filter (\<lambda>a. art_job_id a = job) (bd_artifacts db')))
    \<and> art_service_id ` {a \<in> set (bd_artifacts db'). art_job_id a = job} = bs_service_id ` {s \<in> set (bd_services db). bs_job_id s = job}
    \<and> (\<forall>a \<in> set (bd_artifacts db'). art_job_id a = job \<longrightarrow> art_attempt_id a = bcq_attempt_id request
         \<and> artifact_verified st ext wx job request j (art_service_id a) (art_manifest_digest a) (art_archive_digest a))"
proof -
  let ?as = "bo_artifacts (bcq_outcome request)"
  obtain j c where c: "checked_completion st ext wx env job request j c db" "completes_build env job request c j db db'"
    using complete_build_commits [OF changed(1)] changed(2) job by auto
  then have j: "j \<in> set (bd_jobs db)" "bj_id j = job" "bj_state j = ''running''"
    by (auto simp: checked_completion_def live_attempt_def)
  have "artifacts_of_succeeded db" "build_ids db"
    using artifacts_steps [OF assms(3,2)] finished_steps [OF assms(3,2)] assms(1) by (auto simp: artifacts_of_succeeded_def)
  then have "\<forall>a \<in> set (bd_artifacts db). art_job_id a \<noteq> bj_id j"
    using running_without_artifacts j(1,3) by blast
  then have arts: "filter (\<lambda>a. art_job_id a = job) (bd_artifacts db')
      = map (\<lambda>(i, a). artifact_of env j request i a) (enumerate 1 ?as)"
    using completed_artifacts [of env j request c db db'] c(2) j(2) by simp
  obtain seen where seen: "check_artifacts st ext wx job request (bj_input_manifest_digest j) (bj_source_commit j)
      (services_of job db) ?as [] = Inr seen" "length seen = length (remdups (map bs_service_id (services_of job db)))"
    using c(1) succeeded by (auto simp: checked_completion_def)
  have services: "map art_service_id (filter (\<lambda>a. art_job_id a = job) (bd_artifacts db')) = map ac_service_id ?as"
    unfolding arts by (rule new_artifact_services)
  have "art_service_id ` {a \<in> set (bd_artifacts db'). art_job_id a = job} = bs_service_id ` {s \<in> set (bd_services db). bs_job_id s = job}"
    using artifact_services [OF seen] arg_cong [OF services, of set] by (simp add: services_of_def)
  moreover have "art_attempt_id a = bcq_attempt_id request
      \<and> artifact_verified st ext wx job request j (art_service_id a) (art_manifest_digest a) (art_archive_digest a)"
    if "a \<in> set (bd_artifacts db')" "art_job_id a = job" for a
  proof -
    have "a \<in> set (filter (\<lambda>a. art_job_id a = job) (bd_artifacts db'))" using that by simp
    then obtain i b where "b \<in> set ?as" "a = artifact_of env j request i b"
      unfolding arts by (auto dest: in_set_zipE simp: enumerate_eq_zip)
    with check_artifacts_Inr [OF seen(1)] show ?thesis by (simp add: artifact_of_def)
  qed
  ultimately show ?thesis using j(1,2) services artifact_services [OF seen] by auto
qed

text \<open>
  A build that is lost after its launch blocks its account for ever: once the reaper has ended
  such a build, no sequence of steps ever lets a worker lease a build of the same account again.
\<close>

lemma lost_build_blocks_account:
  assumes "build_ids db" and lost: "expired_build env db = Some (j, a)" "ba_launched_at a \<noteq> None"
    and reaped: "run_txn build_attempt_fk db (reap_build_tx ext env db) = (db1, Inr True)"
    and later: "(build_step ext)\<^sup>*\<^sup>* db1 db2"
    and leased: "lease_build st ext env' request db2 = (db3, Inr (Some response))"
  shows "lj_account_id (blp_job response) \<noteq> bj_account_id j"
proof -
  let ?k = "lost_build env True True j"
  have j: "j \<in> set (bd_jobs db)" "bj_state j = ''running''" using finished.expired_build_in lost(1) by auto
  have "?k \<in> set (bd_jobs db1)"
    using reaped_builds [OF reaped lost(1)] lost(2) j(1) by force
  moreover have "build_ids db1"
    using finished_step [OF assms(1) build_step.reap [of ext db env]] reaped assms(1) by (simp add: finished_kept_def)
  moreover have "bj_state ?k = ''failed''" "bj_cleanup_status ?k = ''pending''" "bj_account_id ?k = bj_account_id j"
    by (simp_all add: lost_build_def)
  ultimately have "?k \<in> set (bd_jobs db2)" "active_build ?k"
    using finished_steps [OF later] by (auto simp: finished_kept_def active_build_def)
  then have "\<not> account_clear (bj_account_id j) db2"
    unfolding account_clear_def using \<open>bj_account_id ?k = bj_account_id j\<close> by metis
  moreover have "account_clear (lj_account_id (blp_job response)) db2" using leased_account [OF leased] .
  ultimately show ?thesis by metis
qed

text \<open>
  An acknowledged cancellation is not repeatable: the worker that sends the same acknowledgment
  again, because the answer was lost, is told at any later time that it no longer holds the build,
  although its receipt is stored.
\<close>

lemma cancel_ack_is_not_repeatable:
  assumes "build_ids db"
    and first: "cancel_ack st ext wx env job_path request db = (db1, Inr response)" "db1 \<noteq> db"
    and later: "(build_step ext)\<^sup>*\<^sup>* db1 db2"
  shows "cancel_ack st ext wx env' job_path request db2 = (db2, Inl build_fenced)"
proof -
  obtain job hash j r where ok: "require_enabled st = Inr ()" "path_uuid (bx_parse_uuid ext) job_path = Inr job"
      "check_cancel_ack request = Inr ()" "request_hash (wx_cancel_ack_bytes wx) (bx_sha256 ext) request = Inr hash"
    and j: "j \<in> set (bd_jobs db1)" "bj_id j = job" "bj_state j = ''canceled''"
    and r: "r \<in> set (bd_receipts db1)" "brc_job_id r = job" "brc_attempt_id r = ckr_attempt_id request"
      "brc_fence r = ckr_fence request"
    using acknowledged [OF first] by blast
  have "db1 = fst (cancel_ack st ext wx env job_path request db)" using first by simp
  then have "build_ids db1" using finished_step [OF assms(1) build_step.cancel_ack [of ext db]] assms(1)
    by (auto simp: finished_kept_def)
  then have kept: "finished_kept db1 db2" "build_ids db2" "build_ids db1" using finished_steps [OF later] by auto
  then obtain k where k: "k \<in> set (bd_jobs db2)" "bj_id k = job" "bj_state k = ''canceled''"
    using j by (auto simp: finished_kept_def)
  from r kept(1) have "\<exists>r \<in> set (bd_receipts db2). brc_job_id r = job \<and> brc_attempt_id r = ckr_attempt_id request
      \<and> brc_fence r = ckr_fence request" by (auto simp: finished_kept_def)
  then obtain q where q: "find_build_receipt job (ckr_attempt_id request) (ckr_fence request) db2 = Some q"
    by (cases "find_build_receipt job (ckr_attempt_id request) (ckr_fence request) db2") (auto simp: find_build_receipt_def find_None_iff)
  then have "brc_job_id q = job" by (auto simp: find_build_receipt_def dest: find_SomeD)
  moreover have "find (\<lambda>j. bj_id j = job) (bd_jobs db2) = Some k"
    by (rule find_unique [where P = "\<lambda>j. bj_id j = job", OF k(1,2)]) (rule build_ids_unique [OF kept(2) k(1)], simp_all add: k(2))
  ultimately show ?thesis
    using ok q k(3) by (simp add: cancel_ack_def cancel_ack_tx_def attempt_def replay_cancel_ack_def run_txn_def)
qed

end
