(* ===== verification/Build_Witnesses.thy ===== *)
theory Build_Witnesses
  imports Build_Properties
begin

text \<open>
  Concrete databases of the build queue on which the properties of \<open>Build_Properties\<close> are applied: one
  account whose build is enqueued, canceled, completed or lost, and a second account with a build
  of its own.
\<close>

definition digest_text :: string where "digest_text = ''sha256:'' @ replicate 64 CHR ''a''"
definition commit_text :: string where "commit_text = replicate 40 CHR ''c''"

lemma kiosk_digest: "strip_prefix ''sha256:'' digest_text = Some (replicate 64 CHR ''a'')" "length digest_text = 71"
    "hash_text (replicate 64 CHR ''a'')" "hd digest_text = CHR ''s''"
  by (simp_all add: digest_text_def hash_text_def is_ascii_hexdigit_def is_ascii_digit_def is_ascii_uppercase_def)

lemma kiosk_texts: "sha40_column commit_text" "digest_column digest_text" "valid_digest digest_text"
  by (simp_all add: sha40_column_def digest_column_def valid_digest_def DIGEST_BYTES_def kiosk_digest lowercase_hex_def)
     (simp add: commit_text_def lowercase_hex_def)

definition kiosk_files :: host_files where
  "kiosk_files =
     \<lparr>hf_symlink_metadata = (\<lambda>p. Some \<lparr>md_is_file = p \<noteq> ''/s/profiles'', md_is_dir = (p = ''/s/profiles''),
        md_is_symlink = False, md_len = 10, md_mode = 384\<rparr>),
      hf_canonicalize = Some, hf_read = (\<lambda>p. Some ''x''),
      hf_parse_profile = (\<lambda>s. let f = \<lparr>pf_path = ''/f'', pf_digest = digest_text\<rparr> in
        Some \<lparr>prf_schema = ''hostlet.build-profile/v1'', prf_id = NODE24_PROFILE, prf_qemu_binary = ''/q'',
          prf_qemu_digest = digest_text, prf_kernel = f, prf_initrd = f, prf_rootfs = f, prf_dependency_cache = f,
          prf_mkfs_ext4 = ''/m'', prf_sudo = ''/u'', prf_systemd_run = ''/r'', prf_systemctl = ''/c''\<rparr>),
      hf_parse_admissions = (\<lambda>s. None)\<rparr>"

definition kiosk_state :: build_state where
  "kiosk_state = \<lparr>bst_enabled = True, bst_state_dir = ''/s'', bst_files = kiosk_files, bst_policy_now = Inr 50,
     bst_worker_lease_seconds = 60\<rparr>"

definition kiosk_service :: service_spec where
  "kiosk_service = \<lparr>svc_name = ''web'', svc_kind = StaticFrontend, svc_root = None, svc_framework = ViteStatic,
     svc_node = Some \<lparr>node_major = 24\<rparr>, svc_build_command = Some ''b'', svc_output_directory = Some ''d'',
     svc_start_command = None, svc_health_check = None, svc_uses_durable_data = False\<rparr>"

definition kiosk_project :: standard_project_spec where
  "kiosk_project = \<lparr>spec_contract_version = ''v1'',
     spec_repositories = [\<lparr>repo_layout = SingleProject, repo_package_manager = Npm, repo_lockfile_path = Some ''l''\<rparr>],
     spec_services = [kiosk_service], spec_limits = []\<rparr>"

definition kiosk_ext :: "nat build_ext" where
  "kiosk_ext = \<lparr>bx_parse_uuid = map_of [(''account'', 1), (''project'', 2), (''deployment'', 3), (''job'', 16)],
     bx_show_uuid = (\<lambda>u. ''id''), bx_uuid_bytes = (\<lambda>u. ''u''), bx_sha256 = (\<lambda>s. replicate 32 CHR ''h''),
     bx_sha256_hex = (\<lambda>s. replicate 64 CHR ''a''), bx_enqueue_bytes = (\<lambda>r. Some ''e''), bx_cancel_bytes = (\<lambda>r. Some ''c''),
     bx_manifest_value = (\<lambda>m. 1), bx_manifest_bytes = (\<lambda>m. Some ''m''), bx_spec_from_value = (\<lambda>v. Some kiosk_project),
     bx_build_to_value = (\<lambda>b. Some 2), bx_build_from_value = (\<lambda>v. None), bx_json_value = (\<lambda>j. 3),
     bx_jsonb_ok = (\<lambda>v. True)\<rparr>"

definition kiosk_env :: "int \<Rightarrow> tx_env" where
  "kiosk_env k = \<lparr>env_now = (\<lambda>i. k * 10 + int i), env_fresh = (\<lambda>i. of_int (16 * k + int i)), env_locked = {}\<rparr>"

definition kiosk_auth :: authenticated where
  "kiosk_auth = \<lparr>auth_account_id = ''account'', auth_session_id = 9\<rparr>"

definition kiosk_headers :: header_map where
  "kiosk_headers = \<lparr>hdr_idempotency_key = Some (Visible ''key-1''), hdr_if_match = Some (Visible ''\"1\"'')\<rparr>"

text \<open>The admission rows of an account: its entitlement of 600 seconds, reservation and source proof.\<close>

definition kiosk_entitlement :: "uuid \<Rightarrow> entitlement_row" where
  "kiosk_entitlement account = \<lparr>ent_id = account + 100, ent_account_id = account, ent_pool_key = ''pool'',
     ent_source = ''synthetic_internal'', ent_hosted_slot_limit = 1, ent_build_seconds_limit = 600,
     ent_period_starts_at = 0, ent_period_ends_at = 1000000000000, ent_state = ''active'', ent_revision = 1,
     ent_updated_at = 0\<rparr>"

definition kiosk_reservation :: "uuid \<Rightarrow> reservation_row" where
  "kiosk_reservation account = \<lparr>res_id = account + 200, res_account_id = account, res_project_id = 2,
     res_first_deployment_id = 3, res_entitlement_id = account + 100, res_pool_key = ''pool'', res_initial_hold_id = 7,
     res_epoch = 8, res_state = ''reserved'', res_retention_reason = None, res_release_observation_id = None,
     res_created_at = 0, res_updated_at = 0, res_released_at = None\<rparr>"

definition kiosk_proof :: "uuid \<Rightarrow> proof_row" where
  "kiosk_proof account = \<lparr>proof_id = account + 300, proof_account_id = account, proof_project_id = 2, proof_deployment_id = 3,
     proof_configuration_revision_id = 10, proof_source_commit = commit_text, proof_inventory_revision = 1,
     proof_source = ''synthetic_internal'', proof_state = ''valid'', proof_expires_at = 1000000000000, proof_created_at = 0\<rparr>"

definition kiosk_graph :: graph_tables where
  "kiosk_graph = \<lparr>g_accounts = [1, 2],
     g_projects = [\<lparr>prow_id = 2, prow_account_id = 1, prow_hosted_slots = 1, prow_slot_state = ''reserved'',
       prow_current_configuration = Some 10, prow_revision = 1, prow_updated_at = 0\<rparr>],
     g_deployments = [\<lparr>drow_id = 3, drow_account_id = 1, drow_project_id = 2, drow_configuration_revision_id = 10,
       drow_source_commit = commit_text, drow_lifecycle = ''queued''\<rparr>],
     g_lifecycle_intents = [], g_hosting_events = [], g_bindings = [], g_authorizations = [], g_installations = [],
     g_source_revisions = [\<lparr>gsr_id = 4, gsr_binding_id = 12, gsr_account_id = 1, gsr_project_id = 2, gsr_repository_id = 13,
       gsr_configuration_revision_id = 10, gsr_commit_sha = commit_text, gsr_source = ''owner_resolve''\<rparr>]\<rparr>"

definition kiosk_admission :: "nat admission_db" where
  "kiosk_admission = \<lparr>ad_pools = [], ad_entitlements = [kiosk_entitlement 1, kiosk_entitlement 2],
     ad_proofs = [kiosk_proof 1, kiosk_proof 2], ad_holds = [], ad_reservations = [kiosk_reservation 1, kiosk_reservation 2],
     ad_observations = [], ad_usage = [], ad_refunds = [], ad_receipts = [], ad_graph = kiosk_graph, ad_idempotency = [],
     ad_audit = []\<rparr>"

definition kiosk0 :: "nat build_db" where
  "kiosk0 = \<lparr>bd_adm = kiosk_admission, bd_tree_sha = (\<lambda>s. Some commit_text),
     bd_reports = [\<lparr>rpt_id = 5, rpt_account_id = 1, rpt_project_id = 2, rpt_configuration_revision_id = 10,
       rpt_source_revision_id = 4, rpt_analyzer_revision = ANALYZER_REVISION, rpt_status = ''candidate'', rpt_advisory = ''a'',
       rpt_report = 0, rpt_report_digest = digest_text, rpt_created_at = 0\<rparr>],
     bd_configurations = [\<lparr>cfg_id = 10, cfg_account_id = 1, cfg_project_id = 2, cfg_spec = 0\<rparr>],
     bd_service_configurations = [\<lparr>scf_account_id = 1, scf_project_id = 2, scf_configuration_revision_id = 10,
       scf_service_id = 11, scf_kind = ''static_frontend''\<rparr>],
     bd_secrets = [], bd_secret_versions = [], bd_jobs = [], bd_services = [], bd_secret_refs = [], bd_attempts = [],
     bd_artifacts = [], bd_effects = [], bd_receipts = [], bd_meters = [], bd_materializations = []\<rparr>"

definition kiosk_request :: enqueue_request where
  "kiosk_request = \<lparr>enq_source_revision_id = 4, enq_compatibility_report_id = 5, enq_source_proof_id = 301,
     enq_reservation_id = 201, enq_reservation_epoch = 8, enq_build_profile = NODE24_PROFILE, enq_secret_version_refs = []\<rparr>"

text \<open>The stages of the enqueue, one fact each.\<close>

definition kiosk_ctx :: "nat enqueue_context" where
  "kiosk_ctx = \<lparr>ec_project = hd (g_projects kiosk_graph), ec_deployment = hd (g_deployments kiosk_graph),
     ec_source = hd (g_source_revisions kiosk_graph), ec_source_tree_sha = Some commit_text,
     ec_report = hd (bd_reports kiosk0), ec_proof = kiosk_proof 1, ec_reservation = kiosk_reservation 1,
     ec_entitlement = kiosk_entitlement 1\<rparr>"

lemmas kiosk_rows = kiosk0_def kiosk_admission_def kiosk_graph_def kiosk_entitlement_def kiosk_proof_def kiosk_reservation_def

lemma kiosk_request_fields [simp]: "enq_build_profile kiosk_request = NODE24_PROFILE"
    "enq_source_revision_id kiosk_request = 4" "enq_compatibility_report_id kiosk_request = 5"
    "enq_source_proof_id kiosk_request = 301" "enq_reservation_id kiosk_request = 201"
    "enq_reservation_epoch kiosk_request = 8" "enq_secret_version_refs kiosk_request = []"
  by (simp_all add: kiosk_request_def)

lemma kiosk_ctx: "load_context 1 2 3 kiosk_request kiosk0 = Some kiosk_ctx"
  by (simp add: load_context_def kiosk_ctx_def kiosk_rows deployment_of_def Let_def)

lemma kiosk_if_match: "if_match_revision kiosk_headers = Inr 1"
  by code_simp

lemma kiosk_front: "require_enabled kiosk_state = Inr ()" "validate_enqueue kiosk_request = Inr ()"
    "build_account kiosk_ext kiosk_auth = Inr 1" "path_uuid (bx_parse_uuid kiosk_ext) ''project'' = Inr 2"
    "path_uuid (bx_parse_uuid kiosk_ext) ''deployment'' = Inr 3" 
    "idempotency_key kiosk_headers = Inr ''key-1''"
    "request_hash (bx_enqueue_bytes kiosk_ext) (bx_sha256 kiosk_ext) kiosk_request = Inr (replicate 32 CHR ''h'')"
    "bst_policy_now kiosk_state = Inr 50"
  by (simp_all add: require_enabled_def ensure_def kiosk_state_def validate_enqueue_def profile_allowed_def build_account_def
      ok_or_def kiosk_ext_def kiosk_auth_def path_uuid_def idempotency_key_def kiosk_headers_def request_hash_def
      MAX_IDEMPOTENCY_KEY_BYTES_def is_ascii_control_def)

lemma kiosk_checks: "check_source (env_now (kiosk_env 1) 1) kiosk_request kiosk_ctx = Inr ()"
    "check_reservation 50 1 2 3 kiosk_request kiosk_ctx kiosk0 = Inr ()"
    "check_allowance (ec_entitlement kiosk_ctx) kiosk0 = Inr ()"
  by (simp_all add: check_source_def check_reservation_def also_ensure_def check_allowance_def kiosk_ctx_def ensure_def kiosk_rows kiosk_env_def used_seconds_def debited_seconds_def reserved_seconds_def RESERVED_SECONDS_def kiosk_request_def)

definition kiosk_services :: "service_lease list" where
  "kiosk_services = [\<lparr>sl_service_id = 11, sl_kind = ''static_frontend'', sl_root = ''.'', sl_node_major = 24,
     sl_framework = ''vite_static'', sl_lockfile_path = ''l'', sl_build_command = ''b'', sl_output_directory = ''d'',
     sl_start_command = None, sl_health_path = None\<rparr>]"

lemma kiosk_profile: "load_profile (bst_files kiosk_state) (bx_sha256_hex kiosk_ext) (bst_state_dir kiosk_state) NODE24_PROFILE
       = Inr \<lparr>bp_id = NODE24_PROFILE, bp_digest = digest_text\<rparr>"
  by (simp add: load_profile_def profile_allowed_def profile_directory_def owned_file_def profile_ok_def kiosk_texts
      kiosk_state_def kiosk_files_def kiosk_ext_def join_path_def NODE24_PROFILE_def ok_or_def starts_with_def Let_def)
    (simp add: digest_text_def)

lemma kiosk_snapshots: "snapshot_services 1 2 10 kiosk_project kiosk0 = Inr kiosk_services"
    "derive_profile_id kiosk_state kiosk_services commit_text NODE24_PROFILE = Inr NODE24_PROFILE"
    "validate_secret_refs 1 2 [] kiosk_services kiosk0 = Inr []"
  by (simp_all add: snapshot_services_def kiosk_project_def services_by_kind_def kiosk_rows kiosk_service_def build_pattern_def
      snapshot_service_def start_and_health_def kiosk_services_def derive_profile_id_def NODE24_PROFILE_def
      CACHE_MISS_PROFILE_def validate_secret_refs_def)

definition kiosk_manifest :: input_manifest where
  "kiosk_manifest = \<lparr>im_execution_id = 16, im_source_revision_id = 4, im_configuration_revision_id = 10,
     im_compatibility_report_id = 5, im_source_commit = commit_text, im_source_tree_sha = commit_text,
     im_profile = \<lparr>bp_id = NODE24_PROFILE, bp_digest = digest_text\<rparr>, im_services = kiosk_services,
     im_secret_version_refs = [], im_limits = limits\<rparr>"

definition kiosk_build :: "nat build_row" where
  "kiosk_build = new_build (kiosk_env 1) kiosk_ext 1 2 3 kiosk_request kiosk_manifest digest_text"

lemma kiosk_build_check: "build_check (bx_jsonb_ok kiosk_ext) kiosk_build"
  by (simp add: build_check_def kiosk_build_def new_build_def kiosk_manifest_def kiosk_texts nullable_def kiosk_ext_def
      NODE24_PROFILE_def in_bigint_def)

lemma kiosk_insert: "insert_build (bx_jsonb_ok kiosk_ext) kiosk_build kiosk0 = Some (kiosk0\<lparr>bd_jobs := [kiosk_build]\<rparr>)"
  unfolding insert_build_def
  by (simp add: kiosk_build_check Let_def) 
   (simp add: kiosk_build_def new_build_def kiosk_manifest_def kiosk_rows deployment_of_def materialization_fk_def
      active_index_ok_def active_build_def)

definition kiosk_service_row :: build_service_row where
  "kiosk_service_row = service_row_of 16 1 2 10 0 (hd kiosk_services)"

definition kiosk_stored :: "nat build_db" where
  "kiosk_stored = kiosk0\<lparr>bd_jobs := [kiosk_build], bd_services := [kiosk_service_row], bd_meters := [new_meter 16 1 2 3 101]\<rparr>"

lemma kiosk_inserts:
  "insert_service_snapshots 16 1 2 10 0 kiosk_services (kiosk0\<lparr>bd_jobs := [kiosk_build]\<rparr>)
     = Some (kiosk0\<lparr>bd_jobs := [kiosk_build], bd_services := [kiosk_service_row]\<rparr>)"
  "insert_meter (new_meter 16 1 2 3 101) (kiosk0\<lparr>bd_jobs := [kiosk_build], bd_services := [kiosk_service_row]\<rparr>)
     = Some kiosk_stored"
  "load_build 1 2 16 kiosk_stored = Some (build_record kiosk_build)"
proof -
  have j: "bj_id kiosk_build = 16" "bj_account_id kiosk_build = 1" "bj_project_id kiosk_build = 2"
    by (simp_all add: kiosk_build_def new_build_def kiosk_manifest_def)
  show "insert_service_snapshots 16 1 2 10 0 kiosk_services (kiosk0\<lparr>bd_jobs := [kiosk_build]\<rparr>)
     = Some (kiosk0\<lparr>bd_jobs := [kiosk_build], bd_services := [kiosk_service_row]\<rparr>)"
    by (simp add: kiosk_services_def kiosk_service_row_def service_row_of_def insert_build_service_def build_service_check_def
        nullable_def octets_between_def root_refused_def starts_with_def kiosk_rows j)
  show "insert_meter (new_meter 16 1 2 3 101) (kiosk0\<lparr>bd_jobs := [kiosk_build], bd_services := [kiosk_service_row]\<rparr>)
     = Some kiosk_stored"
    by (simp add: insert_meter_def new_meter_def meter_check_def RESERVED_SECONDS_def nullable_def kiosk_rows
        deployment_of_def kiosk_stored_def j)
  show "load_build 1 2 16 kiosk_stored = Some (build_record kiosk_build)"
    by (simp add: load_build_def kiosk_stored_def j)
qed

definition kiosk_operation :: string where
  "kiosk_operation = ''m3.build.enqueue/'' @ ''id'' @ ''/'' @ ''id''"

lemma kiosk_answer:
  "\<exists>db. build_audit (owner_audit (env_fresh (kiosk_env 1) 1) 1 (auth_session_id kiosk_auth) ''m3.build.enqueue'' 16) kiosk_stored = Some db
     \<and> bd_meters db = bd_meters kiosk_stored \<and> ad_entitlements (bd_adm db) = ad_entitlements kiosk_admission
     \<and> (\<exists>db1. store_build_response kiosk_ext 1 kiosk_operation ''key-1'' (replicate 32 CHR ''h'') 201 (build_record kiosk_build) db
             = Inr db1
           \<and> bd_meters db1 = bd_meters kiosk_stored \<and> ad_entitlements (bd_adm db1) = ad_entitlements kiosk_admission
           \<and> build_attempt_fk db1)"
  by (simp add: build_audit_def owner_audit_def insert_admission_audit_def audit_check_def kiosk_stored_def kiosk0_def
      kiosk_admission_def kiosk_env_def kiosk_auth_def store_build_response_def store_replay_def insert_record_def record_check_def
      find_record_def kiosk_ext_def kiosk_operation_def build_attempt_fk_def kiosk_build_def new_build_def)

lemma kiosk_manifest_fields [simp]: "im_execution_id kiosk_manifest = 16" "im_services kiosk_manifest = kiosk_services"
    "im_configuration_revision_id kiosk_manifest = 10" "im_secret_version_refs kiosk_manifest = []"
  by (simp_all add: kiosk_manifest_def)

lemma kiosk_stores:
  "\<exists>db r. store_new_build kiosk_ext (kiosk_env 1) kiosk_auth 1 2 3 kiosk_request kiosk_manifest digest_text 101 kiosk_operation
       ''key-1'' (replicate 32 CHR ''h'') kiosk0 = Committed db (Inr r)
     \<and> bd_meters db = [new_meter 16 1 2 3 101] \<and> ad_entitlements (bd_adm db) = ad_entitlements kiosk_admission
     \<and> build_attempt_fk db"
  using kiosk_answer
  by (auto simp: store_new_build_def sql_def attempt_def ok_or_def kiosk_build_def [symmetric] kiosk_insert kiosk_inserts)
     (simp add: kiosk_stored_def)

lemma kiosk_admits:
  "enqueue_tx kiosk_state kiosk_ext (kiosk_env 1) kiosk_auth ''project'' ''deployment'' kiosk_headers kiosk_request kiosk0
     = store_new_build kiosk_ext (kiosk_env 1) kiosk_auth 1 2 3 kiosk_request kiosk_manifest digest_text 101 kiosk_operation
       ''key-1'' (replicate 32 CHR ''h'') kiosk0"
proof -
  have fields: "drow_configuration_revision_id (ec_deployment kiosk_ctx) = 10" "drow_source_commit (ec_deployment kiosk_ctx) = commit_text"
      "ec_source_tree_sha kiosk_ctx = Some commit_text" "prow_revision (ec_project kiosk_ctx) = 1" "ent_id (ec_entitlement kiosk_ctx) = 101"
    by (simp_all add: kiosk_ctx_def kiosk_graph_def kiosk_entitlement_def)
  have rows: "find (\<lambda>f. cfg_account_id f = 1 \<and> cfg_project_id f = 2 \<and> cfg_id f = 10) (bd_configurations kiosk0)
      = Some \<lparr>cfg_id = 10, cfg_account_id = 1, cfg_project_id = 2, cfg_spec = 0\<rparr>"
      "bx_spec_from_value kiosk_ext 0 = Some kiosk_project" "bx_manifest_bytes kiosk_ext m = Some ''m''" "bd_jobs kiosk0 = []"
      "bx_sha256_hex kiosk_ext s = replicate 64 CHR ''a''" "env_fresh (kiosk_env 1) 0 = 16" "1 \<in> set (g_accounts (ad_graph (bd_adm kiosk0)))"
      "ad_idempotency (bd_adm kiosk0) = []" "bx_show_uuid kiosk_ext u = ''id''" for m s u
    by (simp_all add: kiosk_rows kiosk_ext_def kiosk_env_def)
  show ?thesis
    by (simp add: enqueue_tx_def attempt_def kiosk_front kiosk_if_match replay_def find_record_def rows enqueue_new_def ok_or_def kiosk_ctx fields
        ensure_def kiosk_checks enqueue_admitted_def kiosk_snapshots kiosk_profile Let_def kiosk_manifest_def [symmetric] digest_text_def [symmetric]
        kiosk_operation_def del: One_nat_def append.simps)
qed

definition kiosk1 where
  "kiosk1 = fst (enqueue kiosk_state kiosk_ext (kiosk_env 1) kiosk_auth ''project'' ''deployment'' kiosk_headers kiosk_request kiosk0)"

lemma kiosk1: "bd_meters kiosk1 = [new_meter 16 1 2 3 101] \<and> ad_entitlements (bd_adm kiosk1) = ad_entitlements kiosk_admission"
  using kiosk_stores by (auto simp: kiosk1_def enqueue_def kiosk_admits run_txn_def)

lemma kiosk0_within: "within_allowance kiosk0" "build_ids kiosk0"
  by (simp_all add: within_allowance_def build_ids_def used_seconds_def debited_seconds_def reserved_seconds_def kiosk_rows)

theorem build_allowance_never_exceeded_witness:
  "(build_step kiosk_ext)\<^sup>*\<^sup>* kiosk0 kiosk1 \<and> map mt_reserved_seconds (bd_meters kiosk1) = [600]
     \<and> debited_seconds 101 (ad_usage (bd_adm kiosk1)) + 600 \<le> 600"
proof -
  have run: "(build_step kiosk_ext)\<^sup>*\<^sup>* kiosk0 kiosk1"
    unfolding kiosk1_def by (intro r_into_rtranclp build_step.enqueue)
  moreover have "kiosk_entitlement 1 \<in> set (ad_entitlements (bd_adm kiosk1))"
    using kiosk1 by (simp add: kiosk_admission_def)
  ultimately have "debited_seconds 101 (ad_usage (bd_adm kiosk1)) + reserved_seconds 101 (bd_meters kiosk1) \<le> 600"
    using build_allowance_never_exceeded [OF kiosk0_within run, of "kiosk_entitlement 1"] by (simp add: kiosk_entitlement_def)
  then show ?thesis
    using run kiosk1 by (simp add: reserved_seconds_def new_meter_def RESERVED_SECONDS_def)
qed

section \<open>A completion\<close>

definition kiosk_artifact :: artifact_completion where
  "kiosk_artifact = \<lparr>ac_service_id = 11, ac_kind = ''static'', ac_archive_digest = digest_text,
     ac_manifest_digest = digest_text, ac_packed_bytes = 5, ac_unpacked_bytes = 9, ac_entry_count = 1,
     ac_entrypoint_argv = None\<rparr>"

definition kiosk_outcome :: build_outcome where
  "kiosk_outcome = \<lparr>bo_state = ''succeeded'', bo_code = ''build_succeeded'', bo_result_manifest_digest = digest_text,
     bo_cleanup_receipt_digest = digest_text, bo_elapsed_seconds = 5, bo_artifacts = [kiosk_artifact]\<rparr>"

definition kiosk_completion :: build_complete_request where
  "kiosk_completion = \<lparr>bcq_worker_id = ''w'', bcq_attempt_id = 20, bcq_fence = 1, bcq_outcome = kiosk_outcome\<rparr>"

definition kiosk_result :: result_manifest where
  "kiosk_result = \<lparr>rm_schema = ''hostlet.build-result/v1'', rm_job_id = 16, rm_attempt_id = 20, rm_fence = 1,
     rm_input_manifest_digest = digest_text, rm_state = ''succeeded'', rm_code = ''build_succeeded'',
     rm_elapsed_seconds = 5, rm_artifacts = [kiosk_artifact]\<rparr>"

definition kiosk_cleanup :: cleanup_manifest where
  "kiosk_cleanup = \<lparr>cm_schema = ''hostlet.build-cleanup/v1'', cm_job_id = 16, cm_attempt_id = 20, cm_fence = 1,
     cm_status = ''confirmed''\<rparr>"

definition kiosk_artifact_manifest :: artifact_manifest where
  "kiosk_artifact_manifest = \<lparr>am_schema = ''hostlet.build-artifact/v1'', am_job_id = 16, am_attempt_id = 20, am_fence = 1,
     am_input_manifest_digest = digest_text, am_source_commit = commit_text, am_service_id = 11, am_kind = ''static'',
     am_archive_digest = digest_text, am_packed_bytes = 5, am_unpacked_bytes = 9, am_entry_count = 1,
     am_entrypoint_argv = None\<rparr>"

definition kiosk_worker :: "nat worker_ext" where
  "kiosk_worker = \<lparr>wx_cancel_ack_bytes = (\<lambda>r. Some ''a''), wx_outcome_bytes = (\<lambda>r. Some ''o''),
     wx_cancel_ack_to_value = (\<lambda>r. Some 4), wx_cancel_ack_from_value = (\<lambda>v. None), wx_complete_to_value = (\<lambda>r. Some 5),
     wx_complete_from_value = (\<lambda>v. None), wx_parse_result = (\<lambda>s. Some kiosk_result),
     wx_parse_cleanup = (\<lambda>s. Some kiosk_cleanup), wx_parse_artifact = (\<lambda>s. Some kiosk_artifact_manifest),
     wx_json_bytes = (\<lambda>j. Some ''j''), wx_to_lowercase = (\<lambda>s. s), wx_store_cas = (\<lambda>a b. Inr ())\<rparr>"

definition kiosk_attempt :: build_attempt_row where
  "kiosk_attempt = \<lparr>ba_id = 20, ba_account_id = 1, ba_project_id = 2, ba_job_id = 16, ba_number = 1, ba_fence = 1,
     ba_worker_id = ''w'', ba_state = ''running'', ba_lease_started_at = 0, ba_lease_expires_at = 1000,
     ba_launched_at = Some 1, ba_finished_at = None, ba_terminal_code = None, ba_completion_hash = None\<rparr>"

definition kiosk_source :: materialization_row where
  "kiosk_source = \<lparr>mz_id = 30, mz_account_id = 1, mz_project_id = 2, mz_deployment_id = 3, mz_source_revision_id = 4,
     mz_configuration_revision_id = 10, mz_compatibility_report_id = 5, mz_commit_sha = commit_text,
     mz_tree_sha = commit_text, mz_materializer_revision = ''m'', mz_bundle_digest = digest_text,
     mz_tree_manifest_digest = digest_text, mz_entry_count = 1, mz_total_bytes = 1, mz_state = ''ready''\<rparr>"

definition kiosk_running :: "nat build_row" where
  "kiosk_running = kiosk_build\<lparr>bj_state := ''running'', bj_revision := 3, bj_attempt_count := 1,
     bj_current_attempt_id := Some 20, bj_current_fence := 1, bj_lease_expires_at := Some 1000,
     bj_materialization_id := Some 30, bj_bundle_digest := Some digest_text, bj_tree_manifest_digest := Some digest_text\<rparr>"

definition kiosk2 :: "nat build_db" where
  "kiosk2 = kiosk_stored\<lparr>bd_jobs := [kiosk_running], bd_attempts := [kiosk_attempt], bd_materializations := [kiosk_source]\<rparr>"

lemma kiosk_parsers [simp]: "wx_parse_result kiosk_worker s = Some kiosk_result"
    "wx_parse_cleanup kiosk_worker s = Some kiosk_cleanup" "wx_parse_artifact kiosk_worker s = Some kiosk_artifact_manifest"
  by (simp_all add: kiosk_worker_def)

lemma kiosk_cas:
  "read_cas_json (bst_files kiosk_state) (bx_sha256_hex kiosk_ext) parse (bst_state_dir kiosk_state) digest_text 1048576
     = ok_or (unprocessable ''build_result_invalid'' ''a completion manifest is malformed'') (parse ''x'')"
  "verify_cas_digest (bst_files kiosk_state) (bx_sha256_hex kiosk_ext) (bst_state_dir kiosk_state) digest_text = Inr ()"
  by (simp_all add: read_cas_json_def verify_cas_digest_def cas_path_def kiosk_digest verify_cas_bytes_def kiosk_state_def
      kiosk_files_def kiosk_ext_def join_path_def ensure_def digest_text_def)

lemma kiosk_completes_front: "build_worker_id ''w''" "valid_completion kiosk_outcome"
    "path_uuid (bx_parse_uuid kiosk_ext) ''job'' = Inr 16" "result_matches 16 kiosk_completion digest_text kiosk_result"
    "cleanup_matches 16 kiosk_completion kiosk_cleanup" "artifact_numbers_ok kiosk_artifact"
  by (simp_all add: build_worker_id_def is_ascii_control_def valid_completion_def valid_state_code_def kiosk_texts kiosk_outcome_def kiosk_artifact_def MAX_ARTIFACTS_def RESERVED_SECONDS_def
    path_uuid_def kiosk_ext_def kiosk_completion_def kiosk_result_def result_matches_def cleanup_matches_def kiosk_cleanup_def artifact_numbers_ok_def limits_def)

lemma kiosk_running_fields: "bj_id kiosk_running = 16" "bj_account_id kiosk_running = 1" "bj_project_id kiosk_running = 2"
    "bj_deployment_id kiosk_running = 3" "bj_state kiosk_running = ''running''" "bj_current_attempt_id kiosk_running = Some 20"
    "bj_current_fence kiosk_running = 1" "bj_lease_expires_at kiosk_running = Some 1000" "bj_bundle_digest kiosk_running = Some digest_text"
    "bj_input_manifest_digest kiosk_running = digest_text" "bj_source_commit kiosk_running = commit_text"
    "bj_materialization_id kiosk_running = Some 30"
  by (simp_all add: kiosk_running_def kiosk_build_def new_build_def kiosk_manifest_def)

lemma kiosk_artifacts_checked:
  "check_artifacts kiosk_state kiosk_ext kiosk_worker 16 kiosk_completion digest_text commit_text [kiosk_service_row]
     [kiosk_artifact] [] = Inr [''static'']"
  by (simp add: kiosk_completes_front check_artifact_def kiosk_service_row_def service_row_of_def kiosk_services_def
      service_artifact_kind_def expected_argv_def)
    (simp add: kiosk_artifact_def kiosk_cas ok_or_def manifest_matches_def kiosk_artifact_manifest_def kiosk_completion_def)

definition kiosk_completed :: "nat build_row" where
  "kiosk_completed = completed_build (kiosk_env 2) kiosk_outcome ''confirmed'' kiosk_running"

lemma kiosk_completed_check: "build_check (bx_jsonb_ok kiosk_ext) kiosk_completed"
  by (simp add: build_check_def kiosk_completed_def completed_build_def kiosk_running_def kiosk_build_def new_build_def
      kiosk_manifest_def kiosk_texts nullable_def kiosk_ext_def NODE24_PROFILE_def in_bigint_def kiosk_outcome_def octets_between_def)

text \<open>The database after each statement of the completion.\<close>

definition kiosk_with_artifact :: "nat build_db" where
  "kiosk_with_artifact = kiosk2\<lparr>bd_artifacts := [artifact_of (kiosk_env 2) kiosk_running kiosk_completion 1 kiosk_artifact]\<rparr>"

definition kiosk_charged :: "nat build_db" where
  "kiosk_charged = kiosk_with_artifact\<lparr>bd_adm := kiosk_admission\<lparr>ad_usage := [build_debit 32 kiosk_running 101 20 5]\<rparr>\<rparr>"

definition kiosk_settled :: "nat build_db" where
  "kiosk_settled = kiosk_charged\<lparr>bd_meters := [(new_meter 16 1 2 3 101)\<lparr>mt_state := ''finalized'',
     mt_finalized_seconds := Some 5, mt_debit_event_id := Some 32, mt_finalized_at := Some 21\<rparr>]\<rparr>"

definition kiosk_finished :: "string \<Rightarrow> nat build_db" where
  "kiosk_finished h = kiosk_settled\<lparr>bd_attempts := [completed_attempt (kiosk_env 2) kiosk_outcome h kiosk_attempt]\<rparr>"

lemmas kiosk_dbs = kiosk_with_artifact_def kiosk_charged_def kiosk_settled_def kiosk_finished_def kiosk2_def kiosk_stored_def
  kiosk_rows

lemma kiosk_completion_statements:
  "insert_artifacts (kiosk_env 2) kiosk_running kiosk_completion 1 [kiosk_artifact] kiosk2 = Some kiosk_with_artifact"
  "charge 32 kiosk_running 20 5 kiosk_with_artifact = Some (kiosk_charged, Some 32)"
  "settle_meter 16 ''finalized'' 5 (Some 32) 21 kiosk_charged = Some kiosk_settled"
  "length h = 32 \<Longrightarrow> update_build_attempts (of_attempt 16 (live_of_completion kiosk_completion))
     (completed_attempt (kiosk_env 2) kiosk_outcome h) kiosk_settled = Some (kiosk_finished h)"
proof -
  note rows = kiosk_running_fields kiosk_attempt_def kiosk_service_row_def service_row_of_def kiosk_services_def
  show "insert_artifacts (kiosk_env 2) kiosk_running kiosk_completion 1 [kiosk_artifact] kiosk2 = Some kiosk_with_artifact"
    by (simp add: insert_artifact_def artifact_check_def artifact_of_def kiosk_artifact_def kiosk_texts kiosk_dbs rows
        kiosk_completion_def)
  show "charge 32 kiosk_running 20 5 kiosk_with_artifact = Some (kiosk_charged, Some 32)"
    by (simp add: charge_def insert_debit_def insert_usage_def build_debit_def usage_check_def in_integer_def kiosk_dbs rows
        new_meter_def deployment_of_def)
  show "settle_meter 16 ''finalized'' 5 (Some 32) 21 kiosk_charged = Some kiosk_settled"
    by (simp add: settle_meter_def meter_check_def new_meter_def RESERVED_SECONDS_def nullable_def kiosk_dbs build_debit_def)
  show "update_build_attempts (of_attempt 16 (live_of_completion kiosk_completion))
     (completed_attempt (kiosk_env 2) kiosk_outcome h) kiosk_settled = Some (kiosk_finished h)" if "length h = 32"
    using that by (simp add: update_build_attempts_def of_attempt_def live_of_completion_def kiosk_completion_def
        completed_attempt_def kiosk_outcome_def build_attempt_check_def nullable_def octets_between_def in_bigint_def
        kiosk_dbs rows)
qed

lemma kiosk_completed_fields: "bj_id kiosk_completed = 16" "bj_account_id kiosk_completed = 1" "bj_project_id kiosk_completed = 2"
    "bj_current_attempt_id kiosk_completed = None" "bj_state kiosk_completed = ''succeeded''"
    "bj_cleanup_status kiosk_completed = ''confirmed''" "bj_materialization_id kiosk_completed = Some 30"
    "bj_deployment_id kiosk_completed = 3"
  by (simp_all add: kiosk_completed_def completed_build_def kiosk_running_fields kiosk_outcome_def)

lemma kiosk_updates:
  "update_builds (bx_jsonb_ok kiosk_ext) (of_build 16 (live_of_completion kiosk_completion))
     (completed_build (kiosk_env 2) kiosk_outcome ''confirmed'') (kiosk_finished h)
     = Some ((kiosk_finished h)\<lparr>bd_jobs := [kiosk_completed]\<rparr>)"
  "load_build 1 2 16 ((kiosk_finished h)\<lparr>bd_jobs := [kiosk_completed]\<rparr>) = Some (build_record kiosk_completed)"
proof -
  have "bd_jobs (kiosk_finished h) = [kiosk_running]" "bd_materializations (kiosk_finished h) = [kiosk_source]"
    by (simp_all add: kiosk_dbs)
  moreover have "of_build 16 (live_of_completion kiosk_completion) kiosk_running"
    by (simp add: of_build_def live_of_completion_def kiosk_completion_def kiosk_running_fields)
  ultimately show "update_builds (bx_jsonb_ok kiosk_ext) (of_build 16 (live_of_completion kiosk_completion))
     (completed_build (kiosk_env 2) kiosk_outcome ''confirmed'') (kiosk_finished h)
     = Some ((kiosk_finished h)\<lparr>bd_jobs := [kiosk_completed]\<rparr>)"
    by (simp add: update_builds_def kiosk_completed_def [symmetric] kiosk_completed_check materialization_fk_def
        kiosk_completed_fields kiosk_source_def active_index_ok_def active_build_def)
qed (simp add: load_build_def kiosk_completed_fields)

lemma kiosk_stores_completion:
  assumes "length h = 32"
  shows "\<exists>db r. store_completion kiosk_ext kiosk_worker (kiosk_env 2) 16 kiosk_completion h ''confirmed'' kiosk_running kiosk2
     = Committed db (Inr r) \<and> build_attempt_fk db \<and> bd_jobs db = [kiosk_completed] \<and> bd_artifacts db \<noteq> []"
proof -
  let ?db = "(kiosk_finished h)\<lparr>bd_jobs := [kiosk_completed]\<rparr>"
  have fields: "bcq_outcome kiosk_completion = kiosk_outcome" "bo_artifacts kiosk_outcome = [kiosk_artifact]"
      "bo_elapsed_seconds kiosk_outcome = 5" "bo_state kiosk_outcome = ''succeeded''" "bcq_attempt_id kiosk_completion = 20"
      "env_fresh (kiosk_env 2) 0 = 32" "env_now (kiosk_env 2) 1 = 21" "bcq_fence kiosk_completion = 1"
      "wx_complete_to_value kiosk_worker r = Some 5" "bx_jsonb_ok kiosk_ext v" for r v
    by (simp_all add: kiosk_completion_def kiosk_outcome_def kiosk_env_def kiosk_worker_def kiosk_ext_def)
  have "\<exists>e. insert_build_receipt (bx_jsonb_ok kiosk_ext) \<lparr>brc_attempt_id = 20, brc_job_id = 16, brc_fence = 1,
      brc_completion_hash = h, brc_response_body = 5\<rparr> ?db = Some e \<and> bd_effects e = [] \<and> bd_jobs e = [kiosk_completed]
      \<and> bd_artifacts e \<noteq> [] \<and> bd_attempts e = bd_attempts ?db"
    using assms by (simp add: insert_build_receipt_def attempt_fk_def fields kiosk_dbs completed_attempt_def kiosk_attempt_def)
  then obtain e where e: "insert_build_receipt (bx_jsonb_ok kiosk_ext) \<lparr>brc_attempt_id = 20, brc_job_id = 16, brc_fence = 1,
      brc_completion_hash = h, brc_response_body = 5\<rparr> ?db = Some e" "bd_effects e = []" "bd_jobs e = [kiosk_completed]"
      "bd_artifacts e \<noteq> []" "bd_attempts e = bd_attempts ?db" by blast
  have "\<exists>f. insert_build_effect (bx_jsonb_ok kiosk_ext) False \<lparr>be_job_id = 16, be_attempt_id = 20, be_fence = 1,
      be_state = ''succeeded'', be_code = bo_code kiosk_outcome, be_completion_hash = h, be_response_body = 5\<rparr> e = Some f
      \<and> bd_jobs f = [kiosk_completed] \<and> bd_artifacts f \<noteq> []"
    using assms e by (simp add: insert_build_effect_def build_effect_check_def attempt_fk_def fields kiosk_dbs completed_attempt_def
        kiosk_attempt_def kiosk_outcome_def octets_between_def)
  then show ?thesis
    using assms e(1) by (auto simp: store_completion_def sql_def attempt_def ok_or_def Let_def fields kiosk_completion_statements
        kiosk_updates kiosk_running_fields build_attempt_fk_def kiosk_completed_fields simp del: One_nat_def insert_artifacts.simps)
qed

lemma kiosk_completes_tx:
  "\<exists>h. length h = 32 \<and> complete_build_tx kiosk_state kiosk_ext kiosk_worker (kiosk_env 2) ''job'' kiosk_completion kiosk2
     = store_completion kiosk_ext kiosk_worker (kiosk_env 2) 16 kiosk_completion h ''confirmed'' kiosk_running kiosk2"
proof -
  let ?h = "completion_hash_of kiosk_ext 16 kiosk_completion ''o''"
  have hash: "length ?h = 32" by (simp add: completion_hash_of_def kiosk_ext_def)
  have fields: "bcq_worker_id kiosk_completion = ''w''" "bcq_outcome kiosk_completion = kiosk_outcome"
      "bcq_attempt_id kiosk_completion = 20" "bcq_fence kiosk_completion = 1" "wx_outcome_bytes kiosk_worker r = Some ''o''"
      "bo_artifacts kiosk_outcome = [kiosk_artifact]" "bo_result_manifest_digest kiosk_outcome = digest_text"
      "bo_cleanup_receipt_digest kiosk_outcome = digest_text" "cm_status kiosk_cleanup = ''confirmed''" for r
    by (simp_all add: kiosk_completion_def kiosk_worker_def kiosk_outcome_def kiosk_cleanup_def)
  have db: "find_build_receipt 16 20 1 kiosk2 = None" "services_of 16 kiosk2 = [kiosk_service_row]"
    by (simp_all add: find_build_receipt_def services_of_def kiosk_dbs kiosk_service_row_def service_row_of_def)
  have "lock_live_attempt (kiosk_env 2) 16 (live_of_completion kiosk_completion) kiosk2 = Inr kiosk_running"
    by (simp add: lock_live_attempt_def live_of_completion_def kiosk_completes_front ok_or_def live_attempt_def fields
        kiosk_running_fields kiosk2_def kiosk_attempt_def kiosk_env_def)
  then show ?thesis
    using hash by (intro exI [of _ ?h]) (simp add: complete_build_tx_def attempt_def kiosk_front kiosk_completes_front fields
        ensure_def ok_or_def db complete_live_build_def kiosk_running_fields kiosk_cas kiosk_artifacts_checked Let_def
        del: check_artifacts.simps)
qed

theorem succeeded_build_has_its_artifacts_witness:
  "\<exists>db answer. complete_build kiosk_state kiosk_ext kiosk_worker (kiosk_env 2) ''job'' kiosk_completion
       kiosk2 = (db, answer)
     \<and> art_service_id ` {a \<in> set (bd_artifacts db). art_job_id a = 16} = {11}"
proof -
  obtain db r where db: "complete_build kiosk_state kiosk_ext kiosk_worker (kiosk_env 2) ''job'' kiosk_completion kiosk2 = (db, Inr r)"
      "bd_jobs db = [kiosk_completed]"
    using kiosk_completes_tx kiosk_stores_completion by (force simp: complete_build_def run_txn_def)
  have none: "bd_artifacts kiosk2 = []" and ids: "build_ids kiosk2" and jobs: "bd_jobs kiosk2 = [kiosk_running]"
    by (simp_all add: kiosk_dbs build_ids_def)
  from jobs db(2) have changed: "db \<noteq> kiosk2" using kiosk_running_fields(5) kiosk_completed_fields(5) by auto
  have succeeded: "bo_state (bcq_outcome kiosk_completion) = ''succeeded''"
    by (simp add: kiosk_completion_def kiosk_outcome_def)
  from succeeded_build_has_its_artifacts [OF none ids rtranclp.rtrancl_refl kiosk_completes_front(3) db(1) changed succeeded]
  have "art_service_id ` {a \<in> set (bd_artifacts db). art_job_id a = 16} = bs_service_id ` {s \<in> set (bd_services kiosk2). bs_job_id s = 16}"
    by (elim bexE conjE)
  moreover have "bd_services kiosk2 = [kiosk_service_row]"
    by (simp add: kiosk2_def kiosk_stored_def)
  moreover have "bs_job_id kiosk_service_row = 16" "bs_service_id kiosk_service_row = 11"
    by (simp_all add: kiosk_service_row_def service_row_of_def kiosk_services_def)
  ultimately show ?thesis using db(1) by (intro exI [of _ db] exI [of _ "Inr r"]) auto
qed

end
