(* ===== verification/Spec2Isabelle.thy ===== *)
theory Spec2Isabelle
  imports Project_Contract Portfolio_Properties Job_Witnesses Secret_Properties Publisher_Properties Admission_Properties
    Compatibility_Properties Compatibility_Reports Source_Bundle Build_Witnesses
begin

text \<open>
  Hostlet: a verification library for the control plane of a hosting service for portfolios and
  demonstration projects.

  \<^bold>\<open>The program.\<close>  Hostlet is a Rust workspace.  \<^verbatim>\<open>crates/protocol\<close> defines the contracts that all
  processes share: the specification of a standard project (\<^verbatim>\<open>project.rs\<close>) and the portfolio
  contract (\<^verbatim>\<open>portfolio.rs\<close>), each with its validators.  \<^verbatim>\<open>crates/control\<close> is the HTTP control
  plane: it authenticates owners and workers, applies the contracts, and keeps its state in
  PostgreSQL (\<^verbatim>\<open>migrations/*.sql\<close>), one transaction per request.  Its workers (\<^verbatim>\<open>crates/builder\<close>,
  \<^verbatim>\<open>crates/runtime\<close>, \<^verbatim>\<open>crates/database\<close>, \<^verbatim>\<open>crates/publisher\<close>) poll it for leased work and report
  outcomes under a fence, so that a worker whose lease has ended cannot change anything.

  \<^bold>\<open>Theories.\<close>
  \<^item> \<open>Hostlet_Prelude\<close>: the parts of Rust's standard library that the code uses (UTF-8 strings and
    their characters, \<open>trim\<close>, \<open>split\<close>, prefixes, decimal numbers), a locale for validators that
    append issues to a vector, and a locale for invariants of step relations.
  \<^item> \<open>Project_Contract\<close>: \<^verbatim>\<open>crates/protocol/src/project.rs\<close>.  The specification types as records and
    datatypes, the table \<^verbatim>\<open>EXPECTED_LIMITS\<close>, and one definition per validator, each taking and
    returning the vector of issues.  C1: the validators accept exactly a declaratively described set
    of projects.  C2: the limits of an accepted project are the table.  C3: its paths stay inside
    their directory.
  \<^item> \<open>Portfolio_Contract\<close>, \<open>Portfolio_Properties\<close>: \<^verbatim>\<open>crates/protocol/src/portfolio.rs\<close>.  Drafts,
    approved revisions, authorized facts, fact refreshes and owner edits with all their validators.
    C5: what draft validation accepts.  C7, C8: the approvals of an accepted revision.  C9: the
    version arithmetic of owner edits.  Lemmas relate the two draft validators and show that
    deployment facts need the owner's opt-in.
  \<^item> \<open>Control_Intent\<close>: \<^verbatim>\<open>error.rs\<close> and \<^verbatim>\<open>intent.rs\<close> of \<^verbatim>\<open>crates/control/src\<close>.  Error values, the
    \<^verbatim>\<open>Idempotency-Key\<close> and \<^verbatim>\<open>If-Match\<close> headers, and the table of stored responses, whose contract
    is the locale \<open>response_log\<close>.  C11: the revision header is read back.  C12: a stored response
    is replayed.
  \<^item> \<open>Job_Store\<close>: the tables of the job endpoints as lists of rows, their CHECK, UNIQUE and FOREIGN
    KEY constraints, and the statements the code issues, each failing where PostgreSQL reports a
    violated constraint.  A transaction (\<open>tx_result\<close>, \<open>run_tx\<close>) either commits its state with its
    answer or leaves the state it started from.
  \<^item> \<open>Control_Jobs\<close>: \<^verbatim>\<open>jobs.rs\<close>.  One definition per handler with all its guards and early returns:
    \<^verbatim>\<open>create_job\<close>, \<^verbatim>\<open>get_job\<close>, \<^verbatim>\<open>cancel_job\<close>, \<^verbatim>\<open>reap_expired\<close>, \<^verbatim>\<open>lease_job\<close>, \<^verbatim>\<open>renew_job\<close> and
    \<^verbatim>\<open>complete_job\<close>; \<open>job_step\<close> lets owners, workers and the reaper run in any order.
  \<^item> \<open>Job_Invariant\<close>: the abstract life cycle of a job (\<open>lifecycle\<close>), the abstract transitions
    (\<open>leases\<close>, \<open>reaps\<close>, \<open>renews\<close>, \<open>cancels\<close>, \<open>completes\<close>) that the handlers refine, and that all of
    them preserve \<open>jobs_inv\<close>.
  \<^item> \<open>Job_Runs\<close>, \<open>Job_Properties\<close>, \<open>Job_Witnesses\<close>: what follows for runs.  C13 to C16: one live
    lease, one effect per settled job, dense counters, final states.  C17 to C19: leasing and
    fencing.  C20, C21: repeated requests.  C22, C23: what an owner can cancel or bind.  C24: expired
    leases are released.  The witnesses follow one concrete run through the handlers.

  \<^item> \<open>Control_Secrets\<close>, \<open>Secret_Resolution\<close>, \<open>Secret_Invariant\<close>, \<open>Secret_Properties\<close>:
    \<^verbatim>\<open>secrets.rs\<close> and \<^verbatim>\<open>crypto.rs\<close>.  Secrets and their versions, the encoding of the additional
    data, and the resolution of credentials for a leased job.  C25: credentials go to the live lease
    only.  C26: a stored value is the value resolved.  C27: versions are dense.  C28: the additional
    data determine the scope.
  \<^item> \<open>Publisher_Render\<close>, \<open>Publisher_Server\<close>, \<open>Publisher_Properties\<close>: \<^verbatim>\<open>crates/publisher\<close>.  The
    static renderer as string functions and the file server over a read-only file system.  C29:
    rendered text is inert.  C30: what was published is served.  C31: served bytes are declared.
  \<^item> \<open>Store_Transactions\<close>: transaction bodies that commit or roll back, with the rules (\<open>commits\<close>)
    by which properties of every commit are proved.
  \<^item> \<open>Admission_Store\<close>, \<open>Control_Admission\<close>, \<open>Admission_Fixtures\<close>: \<^verbatim>\<open>admission.rs\<close> and its tables.
    Holds, reservations, the limits of pools and entitlements, source proofs, observations of
    resources and metered build seconds, one definition per endpoint.
  \<^item> \<open>Capacity_Ledger\<close>, \<open>Admission_Ledger\<close>, \<open>Admission_Properties\<close>: the abstract ledger of
    resources with a limit and an amount in use, the locale of systems that refine it, and its
    interpretation on the admission endpoints.  C32: the refinement.  C33: limits are never
    exceeded.  C34: what a first admission does.  C35: the admission of a rollback always fails.

  \<^item> \<open>Ordered_Map\<close>: sorted association lists for \<^verbatim>\<open>BTreeMap\<close> and \<^verbatim>\<open>BTreeSet\<close>.  \<open>Json_Value\<close>: values of
    \<^verbatim>\<open>serde_json\<close>.
  \<^item> \<open>Config_Scanner\<close>, \<open>Source_Compatibility\<close>, \<open>Compatibility_Properties\<close>, \<open>Compatibility_Reports\<close>:
    \<^verbatim>\<open>compatibility.rs\<close>.  The scanners of JavaScript configuration files, the analysis of a source
    snapshot against a project specification, and the stored reports.  C36: the scanners return.
    C37: comments are stripped as a lexical grammar says.  C38: what the status of a report means.
    C39: the shape of a report.  C40: a created report is read back.

  \<^item> \<open>Source_Bundle\<close>: the source bundle HBS1, written by \<^verbatim>\<open>canonical_source_bundle\<close> of
    \<^verbatim>\<open>crates/control/src/build_jobs.rs\<close> and unpacked by \<^verbatim>\<open>extract_source\<close> of
    \<^verbatim>\<open>crates/builder/src/guest.rs\<close> into a file system of directories and files named by their
    path components.  C4: what is written is what is unpacked.
  \<^item> \<open>Build_Store\<close>, \<open>Build_Files\<close>, \<open>Control_Builds\<close>, \<open>Build_Workers\<close>, \<open>Build_Completion\<close>,
    \<open>Build_Results\<close>: \<^verbatim>\<open>build_jobs.rs\<close> and its tables (\<^verbatim>\<open>migrations/0006_m3_execution.sql\<close>).  The
    tables with their constraints and statements; the build profiles and the content store, read
    through \<open>host_files\<close>; enqueueing, reading and canceling by the owner; leasing and renewing;
    materialization of the source, credentials and the acknowledgment of a cancellation;
    completion, the reaper and the step relation \<open>build_step\<close>.
  \<^item> \<open>Build_Frames\<close>, \<open>Build_Properties\<close>, \<open>Build_Witnesses\<close>: the locale \<open>build_frame\<close> derives what every
    step respects from what its statements respect; it is interpreted for finished builds, spent
    seconds and artifacts.  C6: the build allowance is never exceeded.  C10: a successful build has
    exactly its declared artifacts.  Two lemmas show that a build lost after its launch blocks its
    account for ever and that an acknowledged cancellation cannot be repeated.

  \<^bold>\<open>Bounds.\<close>  Validators and handlers are total functions; no definition uses fuel.  The scanners
  loop over byte indices as \<open>partial_function\<close>s, and C36 shows that all of them return.  The reaper's
  loop is the code's own loop of 64 iterations.  Integers the code keeps in \<^verbatim>\<open>i64\<close> or \<^verbatim>\<open>u64\<close> are
  integers or naturals whose ranges are checked where the code or the schema checks them
  (\<open>in_bigint\<close>, \<open>in_integer\<close>, \<open>as_u64\<close>, the saturating version of C9); C15 shows that the counters of
  a job stay far below their range.

  \<^bold>\<open>Parameters.\<close>  Code outside the repository is an argument of the definitions that use it: the URL
  parser of the \<^verbatim>\<open>url\<close> crate in the portfolio validators; the UUID reader and printer, SHA-256 and the
  JSON encoders in \<open>job_ext\<close>, \<open>admission_ext\<close>, \<open>compat_ext\<close>, \<open>build_ext\<close> and \<open>worker_ext\<close>; the AEAD cipher and HMAC in \<open>secret_ext\<close>; hashing and
  encoding in \<open>render_ext\<close>; and the file system calls in \<open>server_os\<close> and \<open>host_files\<close>.
  The source snapshots that the GitHub integration fetches, the policy clock and the outcome of a
  write to the content store are arguments of the handlers that use them; Unicode lower-casing is
  one of the writer of bundles.  The clock, the generated
  identifiers and the rows that other transactions hold locked are the fields of \<open>tx_env\<close>; every
  property holds for all of them, or names what it needs of them (distinct identifiers, decoding what
  was encoded).  Transactions are atomic steps: PostgreSQL's row locks serialise those that touch the
  same rows, and a skipped row is one in \<open>env_locked\<close>.  C32 and C33 cover the admission endpoints
  and every change that leaves the admission tables alone; the debits that build jobs insert and the
  slot updates of tenant databases are outside them.  C6 covers the debits and reservations of build
  jobs and every transaction that leaves usage events and entitlements alone.

  \<^bold>\<open>Not modelled.\<close>  Network and process input and output, routing and configuration; the HTTP
  calls of the GitHub integration; the sandbox, container and PostgreSQL drivers of the workers and
  the backup of the control database: what they do is the behaviour of external programs, which the
  sources only start and observe.  The creation of directories and files in the content store
  (\<^verbatim>\<open>secure_directory\<close>, \<^verbatim>\<open>store_cas\<close>) is seen by its outcome only.  The queues of releases, tenant
  databases and publications and the runtime policy repeat the leasing and fencing of the two queues
  modelled here over further tables; they, the persistence of portfolio drafts and approvals and the
  account and project endpoints are left out.
\<close>

end
